(* ===== verification/CPrelude.thy ===== *)
theory CPrelude
  imports Main "HOL-Library.Word"
begin

text \<open>
  Shared vocabulary of the development.  A C function of the library that can fail returns
  an \<open>int\<close> whose negative values are errors; here such a function is an operation
  \<open>('s, 'e, 'a) cop\<close>: it takes the state it mutates, and returns either an error
  (\<open>Inl\<close>, the negative return) or a value (\<open>Inr\<close>, the non-negative return together
  with its output parameters) and the state it leaves.  \<open>bindr\<close> is the idiom
  \<open>ret = f(...); if ( ret < 0 ) return ret;\<close> of the source.

  The theory also holds the pieces of the C string library the code uses (\<open>strchr\<close>,
  \<open>strrchr\<close>, \<open>strncmp\<close>, \<open>isspace\<close>, \<open>isalnum\<close>) and the decimal printing of
  \<open>%d\<close> and \<open>%u\<close>.  A C string is the list of its bytes before the terminating NUL.
\<close>

named_theorems op_run "execution of sequenced operations"
named_theorems cstring_simps "facts about the C string functions"

type_synonym ('s, 'e, 'a) cop = "'s \<Rightarrow> ('e + 'a) \<times> 's"

section \<open>Operations that may fail\<close>

definition retn :: "'a \<Rightarrow> ('s, 'e, 'a) cop" where
  "retn a = (\<lambda>s. (Inr a, s))"

definition failw :: "'e \<Rightarrow> ('s, 'e, 'a) cop" where
  "failw e = (\<lambda>s. (Inl e, s))"

definition bindr :: "('s, 'e, 'a) cop \<Rightarrow> ('a \<Rightarrow> ('s, 'e, 'b) cop) \<Rightarrow> ('s, 'e, 'b) cop" where
  "bindr f g = (\<lambda>s. case f s of (Inl e, s') \<Rightarrow> (Inl e, s') | (Inr a, s') \<Rightarrow> g a s')"

abbreviation thenr :: "('s, 'e, 'a) cop \<Rightarrow> ('s, 'e, 'b) cop \<Rightarrow> ('s, 'e, 'b) cop" where
  "thenr f g \<equiv> bindr f (\<lambda>_. g)"

lemma retn_run [op_run, simp]: "retn a s = (Inr a, s)"
  by (simp add: retn_def)

lemma failw_run [op_run, simp]: "failw e s = (Inl e, s)"
  by (simp add: failw_def)

lemma bindr_Inl [op_run, simp]: "f s = (Inl e, s') \<Longrightarrow> bindr f g s = (Inl e, s')"
  by (simp add: bindr_def)

lemma bindr_Inr [op_run, simp]: "f s = (Inr a, s') \<Longrightarrow> bindr f g s = g a s'"
  by (simp add: bindr_def)

lemma bindr_retn_left [simp]: "bindr (retn a) g = g a"
  by (rule ext) simp

lemma bindr_retn_right [simp]: "bindr f retn = f"
  by (rule ext) (simp add: bindr_def retn_def split: prod.split sum.split)

lemma bindr_failw [simp]: "bindr (failw e) g = failw e"
  by (rule ext) simp

lemma bindr_assoc: "bindr (bindr f g) h = bindr f (\<lambda>a. bindr (g a) h)"
  by (rule ext) (simp add: bindr_def split: prod.split sum.split)

text \<open>A state predicate that an operation keeps whatever it returns.\<close>

definition keeps :: "('s \<Rightarrow> bool) \<Rightarrow> ('s, 'e, 'a) cop \<Rightarrow> bool" where
  "keeps I f \<longleftrightarrow> (\<forall>s. I s \<longrightarrow> I (snd (f s)))"

named_theorems keeps_intros "operations that keep a state predicate"

lemma keepsI: "(\<And>s. I s \<Longrightarrow> I (snd (f s))) \<Longrightarrow> keeps I f"
  by (simp add: keeps_def)

lemma keepsD: "keeps I f \<Longrightarrow> I s \<Longrightarrow> I (snd (f s))"
  by (simp add: keeps_def)

lemma keeps_retn [keeps_intros]: "keeps I (retn a)"
  by (simp add: keeps_def)

lemma keeps_failw [keeps_intros]: "keeps I (failw e)"
  by (simp add: keeps_def)

lemma keeps_Pair [simp, keeps_intros]: "keeps I (Pair r)"
  by (simp add: keeps_def)

lemma keeps_bindr [keeps_intros]:
  "keeps I f \<Longrightarrow> (\<And>a. keeps I (g a)) \<Longrightarrow> keeps I (bindr f g)"
  by (auto simp: keeps_def bindr_def split: prod.split sum.split)

lemma keeps_case_option [keeps_intros]:
  "keeps I f \<Longrightarrow> (\<And>x. keeps I (g x)) \<Longrightarrow> keeps I (case ov of None \<Rightarrow> f | Some x \<Rightarrow> g x)"
  by (cases ov) simp_all

lemma keeps_if [keeps_intros]:
  "keeps I f \<Longrightarrow> keeps I g \<Longrightarrow> keeps I (if b then f else g)"
  by simp

section \<open>C strings\<close>

abbreviation NUL :: char where "NUL \<equiv> CHR 0x00"

text \<open>The bytes of a buffer a C function sees up to the first NUL.\<close>

definition cstr :: "string \<Rightarrow> string" where
  "cstr s = takeWhile (\<lambda>c. c \<noteq> NUL) s"

text \<open>
  \<open>strchr(s, c)\<close> as the split of the string around the first occurrence of the byte
  (what stands before it, what stands after it); \<open>None\<close> is the NULL pointer.
  \<open>strrchr\<close> is the same around the last occurrence.
\<close>

fun strchr :: "string \<Rightarrow> char \<Rightarrow> (string \<times> string) option" where
  "strchr [] c = None"
| "strchr (x # xs) c =
     (if x = c then Some ([], xs)
      else map_option (\<lambda>(a, b). (x # a, b)) (strchr xs c))"

definition strrchr :: "string \<Rightarrow> char \<Rightarrow> (string \<times> string) option" where
  "strrchr s c = map_option (\<lambda>(a, b). (rev b, rev a)) (strchr (rev s) c)"

text \<open>\<open>strncmp(s, t, n) == 0\<close>: the comparison includes the NUL of a string that ends early.\<close>

definition strncmp_eq :: "string \<Rightarrow> string \<Rightarrow> nat \<Rightarrow> bool" where
  "strncmp_eq s t n \<longleftrightarrow> take n (s @ [NUL]) = take n (t @ [NUL])"

text \<open>A byte between quotes.\<close>

definition quoted :: "char \<Rightarrow> string" where
  "quoted c = [CHR 0x27, c, CHR 0x27]"

text \<open>The character classes of \<open>ctype.h\<close> in the C locale.\<close>

definition isspace :: "char \<Rightarrow> bool" where
  "isspace c \<longleftrightarrow> (let n = of_char c :: nat in (9 \<le> n \<and> n \<le> 13) \<or> n = 32)"

definition isdigit :: "char \<Rightarrow> bool" where
  "isdigit c \<longleftrightarrow> (let n = of_char c :: nat in 48 \<le> n \<and> n \<le> 57)"

definition isalnum :: "char \<Rightarrow> bool" where
  "isalnum c \<longleftrightarrow> (let n = of_char c :: nat in
      (48 \<le> n \<and> n \<le> 57) \<or> (65 \<le> n \<and> n \<le> 90) \<or> (97 \<le> n \<and> n \<le> 122))"

lemma strchr_None [cstring_simps]: "strchr s c = None \<longleftrightarrow> c \<notin> set s"
  by (induction s) auto

lemma strchr_Some_split:
  "strchr s c = Some (a, b) \<Longrightarrow> s = a @ c # b \<and> c \<notin> set a"
  by (induction s arbitrary: a) (auto split: if_splits)

lemma strchr_append [cstring_simps]: "c \<notin> set a \<Longrightarrow> strchr (a @ c # b) c = Some (a, b)"
  by (induction a) auto

lemma strchr_append_skip [cstring_simps]:
  "c \<notin> set a \<Longrightarrow> strchr (a @ b) c = map_option (\<lambda>(x, y). (a @ x, y)) (strchr b c)"
proof (induction a)
  case Nil
  then show ?case by (cases "strchr b c") auto
next
  case (Cons x a)
  then show ?case by (cases "strchr b c") auto
qed

lemma strrchr_None [cstring_simps]: "strrchr s c = None \<longleftrightarrow> c \<notin> set s"
  by (simp add: strrchr_def strchr_None)

lemma strrchr_append [cstring_simps]: "c \<notin> set b \<Longrightarrow> strrchr (a @ c # b) c = Some (a, b)"
  by (simp add: strrchr_def strchr_append)

lemma strrchr_Some_split:
  "strrchr s c = Some (a, b) \<Longrightarrow> s = a @ c # b \<and> c \<notin> set b"
proof -
  assume "strrchr s c = Some (a, b)"
  then have "strchr (rev s) c = Some (rev b, rev a)"
    by (auto simp: strrchr_def)
  from strchr_Some_split [OF this] have "rev (rev s) = a @ c # b \<and> c \<notin> set b"
    by simp
  then show ?thesis by simp
qed

lemma strncmp_eq_prefix [cstring_simps]:
  "n \<le> length t \<Longrightarrow> NUL \<notin> set t \<Longrightarrow> strncmp_eq s t n \<longleftrightarrow> take n s = take n t"
proof
  assume n: "n \<le> length t" and nul: "NUL \<notin> set t" and eq: "strncmp_eq s t n"
  from eq n have *: "take n (s @ [NUL]) = take n t"
    by (simp add: strncmp_eq_def)
  have "n \<le> length s"
  proof (rule ccontr)
    assume "\<not> n \<le> length s"
    then have "NUL \<in> set (take n (s @ [NUL]))" by simp
    with * have "NUL \<in> set (take n t)" by simp
    with nul show False by (meson in_set_takeD)
  qed
  with * show "take n s = take n t" by simp
next
  assume n: "n \<le> length t" and eq: "take n s = take n t"
  have "n \<le> length s"
    using arg_cong [OF eq, of length] n by simp
  with n eq show "strncmp_eq s t n" by (simp add: strncmp_eq_def)
qed

section \<open>Joining strings\<close>

fun joined :: "string \<Rightarrow> string list \<Rightarrow> string" where
  "joined sep [] = []"
| "joined sep [x] = x"
| "joined sep (x # y # zs) = x @ sep @ joined sep (y # zs)"

lemma joined_Cons: "joined sep (x # xs) = x @ (if xs = [] then [] else sep @ joined sep xs)"
  by (cases xs) simp_all

lemma joined_snoc: "joined sep (xs @ [x]) = (if xs = [] then [] else joined sep xs @ sep) @ x"
  by (induction xs) (auto simp: joined_Cons)

lemma joined_eq_Nil: "list_all (\<lambda>x. x \<noteq> []) xs \<Longrightarrow> joined sep xs = [] \<longleftrightarrow> xs = []"
  by (cases xs) (auto simp: joined_Cons)

section \<open>Decimal printing\<close>

definition digit_char :: "nat \<Rightarrow> char" where
  "digit_char d = char_of (48 + d)"

fun dec_nat :: "nat \<Rightarrow> string" where
  "dec_nat n = (if n < 10 then [digit_char n] else dec_nat (n div 10) @ [digit_char (n mod 10)])"

declare dec_nat.simps [simp del]

definition dec_int :: "int \<Rightarrow> string" where
  "dec_int i = (if i < 0 then CHR ''-'' # dec_nat (nat (- i)) else dec_nat (nat i))"

text \<open>The value of a string of digits, most significant first.\<close>

definition digit_val :: "char \<Rightarrow> nat" where
  "digit_val c = of_char c - 48"

definition digits_val :: "string \<Rightarrow> nat" where
  "digits_val s = foldl (\<lambda>v c. 10 * v + digit_val c) 0 s"

lemma of_char_digit_char [simp]: "d < 10 \<Longrightarrow> (of_char (digit_char d) :: nat) = 48 + d"
  by (simp add: digit_char_def)

lemma digit_char_num:
  "digit_char 0 = CHR ''0''" "digit_char (Suc 0) = CHR ''1''" "digit_char 2 = CHR ''2''"
  "digit_char (Suc (Suc 0)) = CHR ''2''"
  "digit_char 3 = CHR ''3''" "digit_char 4 = CHR ''4''" "digit_char 5 = CHR ''5''"
  "digit_char 6 = CHR ''6''" "digit_char 7 = CHR ''7''" "digit_char 8 = CHR ''8''"
  "digit_char 9 = CHR ''9''"
  by code_simp+

lemma isdigit_digit_char [simp]: "d < 10 \<Longrightarrow> isdigit (digit_char d)"
  by (simp add: isdigit_def Let_def)

lemma digit_val_digit_char [simp]: "d < 10 \<Longrightarrow> digit_val (digit_char d) = d"
  by (simp add: digit_val_def)

lemma digits_val_snoc [simp]: "digits_val (s @ [c]) = 10 * digits_val s + digit_val c"
  by (simp add: digits_val_def)

lemma digits_val_Nil [simp]: "digits_val [] = 0"
  by (simp add: digits_val_def)

lemma dec_nat_not_Nil [simp]: "dec_nat n \<noteq> []"
  by (subst dec_nat.simps) simp

lemma dec_nat_digits: "list_all isdigit (dec_nat n)"
proof (induction n rule: dec_nat.induct)
  case (1 n)
  then show ?case by (cases "n < 10") (simp_all add: dec_nat.simps [of n])
qed

lemma digits_val_dec_nat [simp]: "digits_val (dec_nat n) = n"
proof (induction n rule: dec_nat.induct)
  case (1 n)
  show ?case
  proof (cases "n < 10")
    case True
    then show ?thesis
      by (simp add: dec_nat.simps [of n] digits_val_def)
  next
    case False
    with 1 show ?thesis by (simp add: dec_nat.simps [of n])
  qed
qed

lemma dec_nat_inject [simp]: "dec_nat m = dec_nat n \<longleftrightarrow> m = n"
  by (metis digits_val_dec_nat)

lemma dec_int_inject [simp]: "dec_int i = dec_int j \<longleftrightarrow> i = j"
proof -
  have minus: "CHR ''-'' # u \<noteq> dec_nat n" for u n
  proof
    assume "CHR ''-'' # u = dec_nat n"
    then have "list_all isdigit (CHR ''-'' # u)" using dec_nat_digits [of n] by simp
    then show False by (simp add: isdigit_def)
  qed
  then have "dec_nat n \<noteq> CHR ''-'' # u" for u n by metis
  with minus show ?thesis by (auto simp: dec_int_def)
qed

end
