(* ===== verification/DbError.thy ===== *)
theory DbError
  imports CPrelude
begin

text \<open>
  The error values of the library (\<open>src/include/requiemdb-error.h\<close>,
  \<open>src/requiemdb-error.c\<close>).  A negative return is one of: an error made with
  \<open>requiemdb_error\<close> or \<open>requiemdb_error_verbose\<close> (\<open>DbErr\<close>, with the verbose bit), an
  error of librequiem or of \<open>errno\<close> (\<open>LibErr\<close>), a bare constant such as \<open>-1\<close>
  (\<open>RawErr\<close>).  \<open>NullDeref\<close>, \<open>DoubleFree\<close> and \<open>UndefinedValue\<close> are no return values: they mark a
  call that would dereference a NULL pointer, one that destroys an object twice, and the use of
  a variable that holds no defined value (not initialised, or a number \<open>sscanf\<close> read out of
  its type's range); \<open>NotEnded\<close> marks a loop that has not ended within its bound.
\<close>

datatype db_error_code =
    ERROR_NO_ERROR | ERROR_GENERIC | ERROR_INVALID_SETTINGS_STRING | ERROR_CONNECTION
  | ERROR_QUERY | ERROR_INVALID_COLUMN_NUM | ERROR_INVALID_COLUMN_NAME | ERROR_INVALID_VALUE
  | ERROR_INVALID_VALUE_TYPE | ERROR_UNKNOWN_SQL_PLUGIN | ERROR_UNKNOWN_FORMAT_PLUGIN
  | ERROR_ALREADY_IN_TRANSACTION | ERROR_NOT_IN_TRANSACTION | ERROR_INVALID_MESSAGE_IDENT
  | ERROR_INVALID_SELECTED_OBJECT_STRING | ERROR_INVALID_OBJECT_SELECTION
  | ERROR_SCHEMA_VERSION_TOO_OLD | ERROR_SCHEMA_VERSION_TOO_RECENT
  | ERROR_SCHEMA_VERSION_INVALID | ERROR_CANNOT_LOAD_SQL_PLUGIN | ERROR_CANNOT_LOAD_FORMAT_PLUGIN

datatype err =
    DbErr db_error_code bool
  | LibErr nat bool
  | RawErr int
  | NullDeref
  | DoubleFree
  | UndefinedValue
  | NotEnded

fun db_code :: "db_error_code \<Rightarrow> nat" where
  "db_code ERROR_NO_ERROR = 0"
| "db_code ERROR_GENERIC = 1"
| "db_code ERROR_INVALID_SETTINGS_STRING = 2"
| "db_code ERROR_CONNECTION = 3"
| "db_code ERROR_QUERY = 4"
| "db_code ERROR_INVALID_COLUMN_NUM = 5"
| "db_code ERROR_INVALID_COLUMN_NAME = 6"
| "db_code ERROR_INVALID_VALUE = 7"
| "db_code ERROR_INVALID_VALUE_TYPE = 8"
| "db_code ERROR_UNKNOWN_SQL_PLUGIN = 9"
| "db_code ERROR_UNKNOWN_FORMAT_PLUGIN = 10"
| "db_code ERROR_ALREADY_IN_TRANSACTION = 11"
| "db_code ERROR_NOT_IN_TRANSACTION = 12"
| "db_code ERROR_INVALID_MESSAGE_IDENT = 13"
| "db_code ERROR_INVALID_SELECTED_OBJECT_STRING = 14"
| "db_code ERROR_INVALID_OBJECT_SELECTION = 15"
| "db_code ERROR_SCHEMA_VERSION_TOO_OLD = 16"
| "db_code ERROR_SCHEMA_VERSION_TOO_RECENT = 17"
| "db_code ERROR_SCHEMA_VERSION_INVALID = 18"
| "db_code ERROR_CANNOT_LOAD_SQL_PLUGIN = 19"
| "db_code ERROR_CANNOT_LOAD_FORMAT_PLUGIN = 20"

definition requiemdb_error :: "db_error_code \<Rightarrow> err" where
  "requiemdb_error c = DbErr c False"

definition requiemdb_error_check :: "err \<Rightarrow> db_error_code \<Rightarrow> bool" where
  "requiemdb_error_check e c = (case e of DbErr d _ \<Rightarrow> d = c | _ \<Rightarrow> False)"

definition error_strings :: "string list" where
  "error_strings =
    [''Successful'', ''Unknown generic error'', ''Invalid SQL settings string'',
     ''Connection error'', ''Query error'', ''Invalid column num'', ''Invalid column name'',
     ''Invalid value'', ''Invalid value type'', ''Unknown sql plugin'',
     ''Unknown format plugin'', ''Already in transaction'', ''Not in transaction'',
     ''Invalid message ident'', ''Invalid selected path string'', ''Invalid path selection'',
     ''Database schema version too old'', ''Database schema version too recent'',
     ''Database schema version invalid'', ''Cannot load sql plugin'',
     ''Cannot load format plugin'']"

text \<open>
  \<open>requiemdb_strerror\<close>: the message of the last verbose error of the thread
  (\<open>thr\<close>), else the table entry, else what \<open>requiem_strerror\<close> (\<open>strerr\<close>,
  librequiem's) says.
\<close>

definition requiemdb_strerror :: "(err \<Rightarrow> string) \<Rightarrow> string option \<Rightarrow> err \<Rightarrow> string option" where
  "requiemdb_strerror strerr thr e =
    (case e of
       DbErr c verbose \<Rightarrow>
         if verbose then thr
         else if db_code c \<ge> length error_strings then None
         else Some (error_strings ! db_code c)
     | LibErr n verbose \<Rightarrow> if verbose then thr else Some (strerr e)
     | _ \<Rightarrow> Some (strerr e))"

lemma error_check_simps [simp]:
  "requiemdb_error_check (DbErr d v) c = (d = c)"
  "requiemdb_error_check (LibErr n v) c = False"
  "requiemdb_error_check (RawErr i) c = False"
  "requiemdb_error_check NullDeref c = False"
  "requiemdb_error_check DoubleFree c = False"
  "requiemdb_error_check UndefinedValue c = False"
  "requiemdb_error_check NotEnded c = False"
  by (simp_all add: requiemdb_error_check_def)

lemma length_error_strings: "length error_strings = 21"
  by (simp add: error_strings_def)

lemma db_code_less: "db_code c < 21"
  by (cases c) simp_all

lemma db_code_inject: "db_code c = db_code d \<longleftrightarrow> c = d"
  by (cases c; cases d) simp_all

lemma distinct_error_strings: "distinct error_strings"
  by (simp add: error_strings_def)

text \<open>
  Every error code has a message of its own: the string of a
  non-verbose database error determines the error code.
\<close>
theorem strerror_injective:
  "requiemdb_strerror f thr (requiemdb_error c) \<noteq> None \<and>
   (requiemdb_strerror f thr (requiemdb_error c) = requiemdb_strerror f thr (requiemdb_error d)) = (c = d)"
  using db_code_less [of c] db_code_less [of d]
  by (auto simp: requiemdb_strerror_def requiemdb_error_def length_error_strings
      nth_eq_iff_index_eq [OF distinct_error_strings] db_code_inject)

end
