(* ===== verification/Librequiem.thy ===== *)
theory Librequiem
  imports DbError
begin

text \<open>
  The objects of librequiem the code works on, as the code sees them: a record field or a
  function per getter it calls.  librequiem is not part of this repository, so nothing is
  computed here; what the code calls of it is data or, further on, a parameter.
\<close>

text \<open>
  A \<open>requiem_string_t\<close> that holds no buffer is \<open>None\<close>; a field that may be absent is an
  option around it.
\<close>

type_synonym rstring = "string option"

datatype class_id =
    CLASS_ALERT | CLASS_HEARTBEAT | CLASS_CLASSIFICATION | CLASS_ASSESSMENT
  | CLASS_OVERFLOW_ALERT | CLASS_TOOL_ALERT | CLASS_CORRELATION_ALERT | CLASS_SOURCE
  | CLASS_TARGET | CLASS_FILE | CLASS_FILE_ACCESS | CLASS_USER_ID | CLASS_ALERTIDENT
  | CLASS_PROCESS | CLASS_SNMP_SERVICE | CLASS_WEB_SERVICE | CLASS_CHECKSUM
  | CLASS_OTHER int

datatype value_type = TYPE_TIME | TYPE_DATA | TYPE_STRING | TYPE_OTHER int

text \<open>What \<open>idmef_path_get_index\<close> returns: an index, or one of its error codes.\<close>

datatype path_index = Index int | Index_forbidden | Index_undefined | Index_error int

text \<open>
  A path of an IDMEF message, e.g. \<open>alert.source(0).node.name\<close>.  The functions are the
  getters of librequiem; their argument is the C \<open>int\<close> position (a negative one counts
  from the end).
\<close>

record idmef_path =
  path_text :: string
  path_depth :: nat
  path_class :: "int \<Rightarrow> class_id"
  path_name :: "int \<Rightarrow> string"
  path_index :: "int \<Rightarrow> path_index"
  path_value_type :: "int \<Rightarrow> value_type"

record idmef_time =
  time_sec :: int
  time_usec :: int
  time_gmtoff :: int

text \<open>
  The type of a data object, its bytes, and what \<open>idmef_data_to_string\<close> makes of it.
\<close>

datatype data_type = DATA_CHAR | DATA_BYTE | DATA_CHAR_STRING | DATA_BYTE_STRING | DATA_OTHER

record idmef_data =
  data_type_of :: data_type
  data_bytes :: string
  data_to_string :: "err + string"

text \<open>The values the code puts into a data object (\<open>Data_unset\<close>: none, the object is new).\<close>

datatype data_value =
    Data_unset
  | Data_byte "8 word"
  | Data_char "8 word"
  | Data_char_string string
  | Data_byte_string string
  | Data_float "32 word"
  | Data_uint32 "32 word"
  | Data_uint64 "64 word"

text \<open>The types of additional data; the integers that stand for them are librequiem's.\<close>

datatype ad_kind =
    AD_ERROR | AD_BOOLEAN | AD_BYTE | AD_CHARACTER | AD_DATE_TIME | AD_INTEGER | AD_NTPSTAMP | AD_PORTLIST
  | AD_REAL | AD_STRING | AD_BYTE_STRING | AD_XML

text \<open>\<open>struct tm\<close>, the fields the code uses.\<close>

record tm =
  tm_sec :: int
  tm_min :: int
  tm_hour :: int
  tm_mday :: int
  tm_mon :: int
  tm_year :: int
  tm_wday :: int
  tm_yday :: int

text \<open>
  A criterion: the operator is a relation with the NOT and NOCASE bits; the value is an IDMEF
  value, a regular expression, a broken-down time, or of a kind the code does not know.
\<close>

datatype crit_rel =
    REL_NULL | REL_EQUAL | REL_LESSER | REL_GREATER | REL_LESSER_EQUAL | REL_GREATER_EQUAL
  | REL_SUBSTR | REL_REGEX | REL_OTHER nat

record crit_op =
  op_not :: bool
  op_nocase :: bool
  op_rel :: crit_rel

record idmef_value =
  value_type_of :: value_type
  value_time :: "idmef_time option"
  value_data :: "string option option"
  value_string :: "rstring option"
  value_text :: "err + rstring"

datatype crit_value =
    Crit_value idmef_value
  | Crit_regex string
  | Crit_time tm
  | Crit_other

record criterion =
  crit_path :: idmef_path
  crit_op_of :: crit_op
  crit_val :: crit_value

datatype criteria = Criteria criterion "criteria option" "criteria option"

definition OP_EQUAL :: crit_op where
  "OP_EQUAL = \<lparr>op_not = False, op_nocase = False, op_rel = REL_EQUAL\<rparr>"
definition OP_NOT_EQUAL :: crit_op where
  "OP_NOT_EQUAL = \<lparr>op_not = True, op_nocase = False, op_rel = REL_EQUAL\<rparr>"
definition OP_NULL :: crit_op where
  "OP_NULL = \<lparr>op_not = False, op_nocase = False, op_rel = REL_NULL\<rparr>"
definition OP_NOT_NULL :: crit_op where
  "OP_NOT_NULL = \<lparr>op_not = True, op_nocase = False, op_rel = REL_NULL\<rparr>"

end
