(* ===== verification/PathSelection.thy ===== *)
theory PathSelection
  imports Librequiem
begin

text \<open>
  Selected paths and path selections (\<open>src/requiemdb-path-selection.c\<close>): the flags of a
  selected path, the parser of strings such as \<open>max(alert.create_time)/order_desc\<close>, and the
  list of selected paths a query asks for.  \<open>idmef_path_new_fast\<close> of librequiem is the
  parameter \<open>path_new\<close>.
\<close>

unbundle bit_operations_syntax

type_synonym path_flags = "32 word"

definition FUNCTION_MIN :: path_flags where "FUNCTION_MIN = 0x01"
definition FUNCTION_MAX :: path_flags where "FUNCTION_MAX = 0x02"
definition FUNCTION_AVG :: path_flags where "FUNCTION_AVG = 0x04"
definition FUNCTION_STD :: path_flags where "FUNCTION_STD = 0x08"
definition FUNCTION_COUNT :: path_flags where "FUNCTION_COUNT = 0x10"
definition GROUP_BY :: path_flags where "GROUP_BY = 0x20"
definition ORDER_ASC :: path_flags where "ORDER_ASC = 0x40"
definition ORDER_DESC :: path_flags where "ORDER_DESC = 0x80"

lemmas flag_defs = FUNCTION_MIN_def FUNCTION_MAX_def FUNCTION_AVG_def FUNCTION_STD_def
  FUNCTION_COUNT_def GROUP_BY_def ORDER_ASC_def ORDER_DESC_def

record selected_path =
  sp_path :: idmef_path
  sp_flags :: path_flags

text \<open>A selection is the list of its paths and a counter kept beside it.\<close>

record path_selection =
  sel_list :: "selected_path list"
  sel_count :: nat

definition filter_table :: "(string \<times> path_flags) list" where
  "filter_table = [(''group_by'', GROUP_BY), (''order_desc'', ORDER_DESC), (''order_asc'', ORDER_ASC)]"

text \<open>\<open>parse_filter(str, len)\<close>: the first table entry that agrees with the string on \<open>len\<close> bytes.\<close>

fun filter_lookup :: "string \<Rightarrow> nat \<Rightarrow> (string \<times> path_flags) list \<Rightarrow> err + path_flags" where
  "filter_lookup str len [] = Inl (DbErr ERROR_INVALID_SELECTED_OBJECT_STRING True)"
| "filter_lookup str len ((name, flag) # t) =
     (if strncmp_eq str name len then Inr flag else filter_lookup str len t)"

definition parse_filter :: "string \<Rightarrow> nat \<Rightarrow> err + path_flags" where
  "parse_filter str len = filter_lookup str len filter_table"

text \<open>The loop of \<open>parse_filters\<close> over the commas, then the last filter.\<close>

function parse_filters_loop :: "path_flags \<Rightarrow> string \<Rightarrow> err + path_flags" where
  "parse_filters_loop flags start =
    (case strchr start (CHR '','') of
       Some (before, after) \<Rightarrow>
         (case parse_filter start (length before) of
            Inl e \<Rightarrow> Inl e
          | Inr f \<Rightarrow> parse_filters_loop (flags OR f) after)
     | None \<Rightarrow>
         (case parse_filter start (length start) of
            Inl e \<Rightarrow> Inl e
          | Inr f \<Rightarrow> Inr (flags OR f)))"
  by pat_completeness auto
termination
  by (relation "measure (\<lambda>(flags, s). length s)") (auto dest!: strchr_Some_split)

declare parse_filters_loop.simps [simp del]

definition parse_filters :: "string \<Rightarrow> err + path_flags" where
  "parse_filters str = parse_filters_loop 0 str"

definition function_table :: "(string \<times> nat \<times> path_flags) list" where
  "function_table =
    [(''min('', 4, FUNCTION_MIN), (''max('', 4, FUNCTION_MAX), (''avg('', 4, FUNCTION_AVG),
     (''std('', 4, FUNCTION_STD), (''count('', 6, FUNCTION_COUNT)]"

fun function_lookup :: "string \<Rightarrow> (string \<times> nat \<times> path_flags) list \<Rightarrow> path_flags" where
  "function_lookup str [] = 0"
| "function_lookup str ((name, len, flag) # t) =
     (if strncmp_eq str name len then flag else function_lookup str t)"

definition parse_function :: "string \<Rightarrow> path_flags" where
  "parse_function str = function_lookup str function_table"

text \<open>
  \<open>parse_path(str, len)\<close> copies \<open>len\<close> bytes and a NUL into a buffer.  A length computed as
  a pointer difference may be negative: then the copy is out of bounds (\<open>None\<close>).
\<close>

definition parse_path ::
    "(string \<Rightarrow> err + idmef_path) \<Rightarrow> string \<Rightarrow> int \<Rightarrow> (err + idmef_path) option" where
  "parse_path path_new str len =
    (if len < 0 \<or> nat len > length str then None
     else Some (path_new (cstr (take (nat len) str))))"

text \<open>
  \<open>requiemdb_selected_path_new_string\<close>; the outer option is \<open>None\<close> for an out-of-bounds
  access (which \<open>new_string_in_bounds\<close> below excludes).
\<close>

definition selected_path_new_string ::
    "(string \<Rightarrow> err + idmef_path) \<Rightarrow> string \<Rightarrow> (err + selected_path) option" where
  "selected_path_new_string path_new str =
    (let filters = strchr str (CHR ''/'') in
     case (case filters of None \<Rightarrow> Inr 0 | Some (_, after) \<Rightarrow> parse_filters after) of
       Inl e \<Rightarrow> Some (Inl e)
     | Inr flags \<Rightarrow>
         let func = parse_function str;
             finish = map_option (\<lambda>r. case r of
                          Inl e \<Rightarrow> Inl e
                        | Inr p \<Rightarrow> Inr \<lparr>sp_path = p, sp_flags = flags OR func\<rparr>)
         in if func \<noteq> 0 then
              (case (strchr str (CHR 0x28), strrchr str (CHR 0x29)) of
                 (Some (b1, inner), Some (b2, _)) \<Rightarrow>
                   finish (parse_path path_new inner (int (length b2) - int (length b1 + 1)))
               | _ \<Rightarrow> Some (Inl (requiemdb_error ERROR_INVALID_SELECTED_OBJECT_STRING)))
            else
              (case filters of
                 Some (before, _) \<Rightarrow> finish (parse_path path_new str (int (length before)))
               | None \<Rightarrow> finish (Some (path_new str))))"

definition path_selection_new :: path_selection where
  "path_selection_new = \<lparr>sel_list = [], sel_count = 0\<rparr>"

definition path_selection_add :: "path_selection \<Rightarrow> selected_path \<Rightarrow> path_selection" where
  "path_selection_add s p = \<lparr>sel_list = sel_list s @ [p], sel_count = sel_count s + 1\<rparr>"

text \<open>The iterator: the position of the path returned last, \<open>None\<close> before the first one.\<close>

definition path_selection_get_next :: "path_selection \<Rightarrow> nat option \<Rightarrow> nat option" where
  "path_selection_get_next s pos =
    (let next = (case pos of None \<Rightarrow> 0 | Some i \<Rightarrow> i + 1)
     in if next < length (sel_list s) then Some next else None)"

definition path_selection_get_count :: "path_selection \<Rightarrow> nat" where
  "path_selection_get_count s = sel_count s"

section \<open>Lemmas\<close>

lemma filter_names_no_nul:
  "NUL \<notin> set ''group_by''" "NUL \<notin> set ''order_desc''" "NUL \<notin> set ''order_asc''"
  by simp_all

lemma parse_filter_empty: "parse_filter s 0 = Inr GROUP_BY"
  by (simp add: parse_filter_def filter_table_def strncmp_eq_def)

text \<open>On a token without NUL, \<open>strncmp\<close> over the token's length accepts every prefix of a name.\<close>

lemma strncmp_token:
  assumes "NUL \<notin> set tok" "NUL \<notin> set name"
  shows "strncmp_eq (tok @ rest) name (length tok) \<longleftrightarrow> (\<exists>t. name = tok @ t)"
proof
  assume "\<exists>t. name = tok @ t"
  then show "strncmp_eq (tok @ rest) name (length tok)" by (auto simp: strncmp_eq_def)
next
  assume "strncmp_eq (tok @ rest) name (length tok)"
  then have *: "tok = take (length tok) (name @ [NUL])"
    by (simp add: strncmp_eq_def)
  have "length tok \<le> length name"
  proof (rule ccontr)
    assume "\<not> length tok \<le> length name"
    then have "take (length tok) (name @ [NUL]) = name @ [NUL]" by simp
    with * have "NUL \<in> set tok" by (metis in_set_conv_decomp)
    with assms(1) show False by contradiction
  qed
  with * have "tok = take (length tok) name" by simp
  then have "name = tok @ drop (length tok) name"
    by (metis append_take_drop_id)
  then show "\<exists>t. name = tok @ t" by blast
qed

lemma parse_filter_token:
  assumes "NUL \<notin> set tok"
  shows "parse_filter (tok @ rest) (length tok) =
    (if \<exists>t. ''group_by'' = tok @ t then Inr GROUP_BY
     else if \<exists>t. ''order_desc'' = tok @ t then Inr ORDER_DESC
     else if \<exists>t. ''order_asc'' = tok @ t then Inr ORDER_ASC
     else Inl (DbErr ERROR_INVALID_SELECTED_OBJECT_STRING True))"
  using strncmp_token [OF assms filter_names_no_nul(1), of rest]
    strncmp_token [OF assms filter_names_no_nul(2), of rest]
    strncmp_token [OF assms filter_names_no_nul(3), of rest]
  by (simp add: parse_filter_def filter_table_def)

definition filter_name :: "string \<Rightarrow> bool" where
  "filter_name f \<longleftrightarrow> f \<in> set (map fst filter_table)"

lemma filter_name_iff:
  "filter_name n \<longleftrightarrow> n = ''group_by'' \<or> n = ''order_desc'' \<or> n = ''order_asc''"
  by (simp add: filter_name_def filter_table_def)

lemma filter_prefix_cases:
  "(\<exists>name t. filter_name name \<and> name = tok @ t) \<longleftrightarrow>
     (\<exists>t. ''group_by'' = tok @ t) \<or> (\<exists>t. ''order_desc'' = tok @ t) \<or> (\<exists>t. ''order_asc'' = tok @ t)"
  unfolding filter_name_iff by blast

lemma three_way_Inr:
  "(\<exists>w. (if A then Inr a else if B then Inr b else if C then Inr c else Inl e) = Inr w) \<longleftrightarrow> A \<or> B \<or> C"
  by auto

definition filter_flag :: "string \<Rightarrow> path_flags" where
  "filter_flag f = (case map_of filter_table f of Some w \<Rightarrow> w | None \<Rightarrow> 0)"

lemma parse_filter_name:
  "filter_name f \<Longrightarrow> parse_filter (f @ rest) (length f) = Inr (filter_flag f)"
  by (auto simp: filter_name_def filter_flag_def filter_table_def parse_filter_def strncmp_eq_def)

lemma filter_name_no_comma: "filter_name f \<Longrightarrow> CHR '','' \<notin> set f"
  by (auto simp: filter_name_def filter_table_def)

fun join_filters :: "string list \<Rightarrow> string" where
  "join_filters [] = []"
| "join_filters [f] = f"
| "join_filters (f # g # fs) = f @ CHR '','' # join_filters (g # fs)"

lemma parse_filters_loop_join:
  "fs \<noteq> [] \<Longrightarrow> list_all filter_name fs \<Longrightarrow>
   parse_filters_loop w (join_filters fs) = Inr (foldl (\<lambda>v f. v OR filter_flag f) w fs)"
proof (induction fs arbitrary: w rule: join_filters.induct)
  case 1
  then show ?case by simp
next
  case (2 f)
  then have "strchr f (CHR '','') = None"
    by (simp add: strchr_None filter_name_no_comma)
  with 2 parse_filter_name [of f "[]"] show ?case
    by (simp add: parse_filters_loop.simps)
next
  case (3 f g fs)
  then have "strchr (f @ CHR '','' # join_filters (g # fs)) (CHR '','') =
      Some (f, join_filters (g # fs))"
    by (simp add: strchr_append filter_name_no_comma)
  with 3 parse_filter_name [of f] show ?case
    by (simp add: parse_filters_loop.simps [of w "f @ CHR '','' # join_filters (g # fs)"])
qed

lemma parse_function_cases:
  "parse_function str \<noteq> 0 \<Longrightarrow>
   \<exists>name rest. str = name @ CHR 0x28 # rest \<and> name \<in> {''min'', ''max'', ''avg'', ''std'', ''count''}"
proof -
  assume "parse_function str \<noteq> 0"
  then have "take 4 str \<in> {''min('', ''max('', ''avg('', ''std(''} \<or> take 6 str = ''count(''"
    by (auto simp: parse_function_def function_table_def strncmp_eq_prefix split: if_splits)
  then obtain name rest where n: "name \<in> {''min('', ''max('', ''avg('', ''std('', ''count(''}"
    and str: "str = name @ rest"
    by (metis append_take_drop_id insertCI insertE singletonD)
  have "name = butlast name @ [CHR 0x28]"
    and "butlast name \<in> {''min'', ''max'', ''avg'', ''std'', ''count''}"
    using n by auto
  with str show ?thesis by (metis append_Cons append_Nil append_assoc)
qed

lemma parse_function_split:
  assumes "parse_function str \<noteq> 0"
  obtains name inner where "str = name @ CHR 0x28 # inner" and "CHR 0x28 \<notin> set name"
    and "CHR 0x29 \<notin> set name" and "strchr str (CHR 0x28) = Some (name, inner)"
proof -
  from parse_function_cases [OF assms] obtain name inner
    where s: "str = name @ CHR 0x28 # inner"
      and n: "name \<in> {''min'', ''max'', ''avg'', ''std'', ''count''}" by blast
  from n have "CHR 0x28 \<notin> set name" "CHR 0x29 \<notin> set name" by auto
  then show thesis using that [OF s] s by (simp add: strchr_append)
qed

lemma parse_path_in_bounds:
  "0 \<le> len \<Longrightarrow> len \<le> int (length str) \<Longrightarrow> parse_path pn str len = Some (pn (cstr (take (nat len) str)))"
  by (simp add: parse_path_def)

lemma function_args_in_bounds:
  assumes "str = name @ CHR 0x28 # inner" and "CHR 0x29 \<notin> set name"
    and "strrchr str (CHR 0x29) = Some (b2, after)"
  shows "length name + 1 \<le> length b2 \<and> length b2 \<le> length name + 1 + length inner"
proof -
  from strrchr_Some_split [OF assms(3)] have s: "str = b2 @ CHR 0x29 # after" by simp
  with assms(1) have eq: "name @ CHR 0x28 # inner = b2 @ CHR 0x29 # after" by simp
  have "length name + 1 \<le> length b2"
  proof (rule ccontr)
    assume "\<not> length name + 1 \<le> length b2"
    then have "length b2 < length name \<or> length b2 = length name" by linarith
    then show False
    proof
      assume l: "length b2 < length name"
      have "(name @ CHR 0x28 # inner) ! length b2 = CHR 0x29" by (simp add: eq)
      with l have "name ! length b2 = CHR 0x29" by (simp add: nth_append)
      with l have "CHR 0x29 \<in> set name" by (metis nth_mem)
      with assms(2) show False by contradiction
    next
      assume "length b2 = length name"
      with eq show False by simp
    qed
  qed
  moreover have "length b2 + 1 \<le> length name + 1 + length inner"
    using arg_cong [OF eq, of length] by simp
  ultimately show ?thesis by simp
qed

section \<open>Properties\<close>

text \<open>
  Memory safety of \<open>requiemdb_selected_path_new_string\<close>: on every string, the length
  computed from the positions of the parentheses or of the slash is never negative and never
  reaches past the string, so the copy of the path stays in bounds.
\<close>
theorem new_string_in_bounds:
  "selected_path_new_string path_new str \<noteq> None"
proof (cases "parse_function str = 0")
  case True
  then show ?thesis
    by (auto simp: selected_path_new_string_def Let_def parse_path_def split: option.split sum.split
        dest!: strchr_Some_split)
next
  case False
  then obtain name inner where s: "str = name @ CHR 0x28 # inner"
    and n: "CHR 0x29 \<notin> set name" and open_paren: "strchr str (CHR 0x28) = Some (name, inner)"
    by (rule parse_function_split)
  show ?thesis
    using False open_paren function_args_in_bounds [OF s n]
    by (auto simp: selected_path_new_string_def Let_def parse_path_def split: option.split sum.split)
qed

definition plain_path :: "string \<Rightarrow> bool" where
  "plain_path p \<longleftrightarrow> NUL \<notin> set p \<and> CHR ''/'' \<notin> set p \<and> CHR 0x28 \<notin> set p \<and> CHR 0x29 \<notin> set p"

definition function_name :: "string \<Rightarrow> path_flags \<Rightarrow> bool" where
  "function_name f w \<longleftrightarrow> (f @ [CHR 0x28], length f + 1, w) \<in> set function_table"

lemma function_name_cases:
  "function_name f w \<Longrightarrow>
   (f, w) \<in> {(''min'', FUNCTION_MIN), (''max'', FUNCTION_MAX), (''avg'', FUNCTION_AVG),
             (''std'', FUNCTION_STD), (''count'', FUNCTION_COUNT)}"
  by (auto simp: function_name_def function_table_def append_eq_Cons_conv)

lemma parse_function_name:
  "function_name f w \<Longrightarrow> parse_function (f @ CHR 0x28 # rest) = w \<and> w \<noteq> 0"
  using function_name_cases [of f w]
  by (auto simp: parse_function_def function_table_def strncmp_eq_prefix flag_defs)

lemma function_name_chars:
  "function_name f w \<Longrightarrow> CHR 0x28 \<notin> set f \<and> CHR 0x29 \<notin> set f \<and> CHR ''/'' \<notin> set f"
  using function_name_cases [of f w] by auto

lemma cstr_plain: "plain_path p \<Longrightarrow> cstr p = p"
  by (auto simp: plain_path_def cstr_def takeWhile_eq_all_conv)

lemma filter_list_chars:
  "list_all filter_name fs \<Longrightarrow> CHR 0x28 \<notin> set (join_filters fs) \<and> CHR 0x29 \<notin> set (join_filters fs)"
  by (induction fs rule: join_filters.induct) (auto simp: filter_name_def filter_table_def)


definition probe_path :: "string \<Rightarrow> idmef_path" where
  "probe_path s = \<lparr>path_text = s, path_depth = 2, path_class = (\<lambda>_. CLASS_ALERT), path_name = (\<lambda>_. s),
     path_index = (\<lambda>_. Index_forbidden), path_value_type = (\<lambda>_. TYPE_TIME)\<rparr>"


text \<open>
  What the filter parser accepts: because \<open>strncmp\<close> runs over the length of the token
  and not of the name, a token is accepted exactly when it is a prefix of a filter name, the
  first name of the table winning.  So the empty token groups, and \<open>order_\<close>, a prefix of
  both orders, means descending.
\<close>
theorem parse_filter_prefixes:
  assumes "NUL \<notin> set tok"
  shows "((\<exists>w. parse_filter (tok @ rest) (length tok) = Inr w) \<longleftrightarrow>
           (\<exists>name t. filter_name name \<and> name = tok @ t)) \<and>
         parse_filter ([] @ rest) (length []) = Inr GROUP_BY \<and>
         parse_filter (''order_'' @ rest) (length ''order_'') = Inr ORDER_DESC"
proof (intro conjI)
  show "(\<exists>w. parse_filter (tok @ rest) (length tok) = Inr w) \<longleftrightarrow>
      (\<exists>name t. filter_name name \<and> name = tok @ t)"
    unfolding filter_prefix_cases parse_filter_token [OF assms] three_way_Inr by (rule refl)
qed (use parse_filter_empty [of rest] parse_filter_token [of "''order_''" rest] in simp_all)

theorem parse_filter_prefixes_witness:
  "((\<exists>w. parse_filter (''group'' @ '',order_asc'') (length ''group'') = Inr w) \<longleftrightarrow>
      (\<exists>name t. filter_name name \<and> name = ''group'' @ t)) \<and>
    parse_filter ([] @ '',order_asc'') (length []) = Inr GROUP_BY \<and>
    parse_filter (''order_'' @ '',order_asc'') (length ''order_'') = Inr ORDER_DESC"
  by (rule parse_filter_prefixes) simp

end
