(* ===== verification/ClassicSelect.thy ===== *)
theory ClassicSelect
  imports PathSelection
begin

text \<open>
  The select list of a query (\<open>plugins/format/classic/classic-sql-select.c\<close>): the text of
  the fields, their number, and the texts of the GROUP BY and ORDER BY clauses, which name a
  field by its position.
\<close>

unbundle bit_operations_syntax

record sql_select =
  select_fields :: string
  field_count :: "32 word"
  order_by :: string
  group_by :: string

definition classic_sql_select_new :: sql_select where
  "classic_sql_select_new = \<lparr>select_fields = [], field_count = 0, order_by = [], group_by = []\<rparr>"

definition sql_functions_table :: "(path_flags \<times> string) list" where
  "sql_functions_table =
    [(FUNCTION_MIN, ''MIN''), (FUNCTION_MAX, ''MAX''), (FUNCTION_AVG, ''AVG''),
     (FUNCTION_STD, ''STD''), (FUNCTION_COUNT, ''COUNT'')]"

fun sql_function_name :: "path_flags \<Rightarrow> (path_flags \<times> string) list \<Rightarrow> string option" where
  "sql_function_name flags [] = None"
| "sql_function_name flags ((flag, name) # t) =
     (if flags AND flag \<noteq> 0 then Some name else sql_function_name flags t)"

text \<open>The separator in front of what is appended to a list that is not empty.\<close>

definition cat_sep :: "string \<Rightarrow> string" where
  "cat_sep s = (if s \<noteq> [] then s @ '', '' else s)"

definition field_text :: "string \<Rightarrow> path_flags \<Rightarrow> string" where
  "field_text name flags =
    (case sql_function_name flags sql_functions_table of
       Some f \<Rightarrow> f @ ''('' @ name @ '')''
     | None \<Rightarrow> name)"

text \<open>A field number goes through \<open>%d\<close>.\<close>

definition field_number :: "32 word \<Rightarrow> string" where
  "field_number n = dec_int (sint n)"

definition classic_sql_select_add_field :: "string \<Rightarrow> path_flags \<Rightarrow> sql_select \<Rightarrow> sql_select" where
  "classic_sql_select_add_field name flags s =
    (let n = field_count s + 1 in
     \<lparr>select_fields = cat_sep (select_fields s) @ field_text name flags,
      field_count = n,
      order_by = (if flags AND (ORDER_ASC OR ORDER_DESC) \<noteq> 0
                  then cat_sep (order_by s) @ field_number n @ '' '' @
                       (if flags AND ORDER_ASC \<noteq> 0 then ''ASC'' else ''DESC'')
                  else order_by s),
      group_by = (if flags AND GROUP_BY \<noteq> 0 then cat_sep (group_by s) @ field_number n else group_by s)\<rparr>)"

definition classic_sql_select_fields_to_string :: "sql_select \<Rightarrow> string" where
  "classic_sql_select_fields_to_string s = select_fields s"

definition classic_sql_select_modifiers_to_string :: "sql_select \<Rightarrow> string" where
  "classic_sql_select_modifiers_to_string s =
     (if group_by s \<noteq> [] then '' GROUP BY '' @ group_by s else []) @
     (if order_by s \<noteq> [] then '' ORDER BY '' @ order_by s else [])"

section \<open>What the clauses hold\<close>

definition select_all :: "(string \<times> path_flags) list \<Rightarrow> sql_select" where
  "select_all fs = fold (\<lambda>(name, flags). classic_sql_select_add_field name flags) fs classic_sql_select_new"

text \<open>The numbered fields with a property, in order, from number \<open>k\<close> on.\<close>

fun numbered :: "(path_flags \<Rightarrow> bool) \<Rightarrow> (nat \<Rightarrow> path_flags \<Rightarrow> string) \<Rightarrow> nat \<Rightarrow> (string \<times> path_flags) list \<Rightarrow> string list" where
  "numbered P f k [] = []"
| "numbered P f k ((name, flags) # fs) =
     (if P flags then [f k flags] else []) @ numbered P f (k + 1) fs"

definition group_numbers :: "(string \<times> path_flags) list \<Rightarrow> string list" where
  "group_numbers = numbered (\<lambda>fl. fl AND GROUP_BY \<noteq> 0) (\<lambda>n _. dec_nat n) 1"

definition order_numbers :: "(string \<times> path_flags) list \<Rightarrow> string list" where
  "order_numbers = numbered (\<lambda>fl. fl AND (ORDER_ASC OR ORDER_DESC) \<noteq> 0)
     (\<lambda>n fl. dec_nat n @ '' '' @ (if fl AND ORDER_ASC \<noteq> 0 then ''ASC'' else ''DESC'')) 1"

lemma numbered_snoc:
  "numbered P f k (fs @ [(name, fl)]) = numbered P f k fs @ (if P fl then [f (k + length fs) fl] else [])"
  by (induction P f k fs rule: numbered.induct) simp_all

lemma numbered_nonempty: "(\<And>n fl. f n fl \<noteq> []) \<Longrightarrow> list_all (\<lambda>x. x \<noteq> []) (numbered P f k fs)"
  by (induction P f k fs rule: numbered.induct) simp_all

lemma group_numbers_nonempty: "list_all (\<lambda>x. x \<noteq> []) (group_numbers fs)"
  unfolding group_numbers_def by (rule numbered_nonempty) simp

lemma order_numbers_nonempty: "list_all (\<lambda>x. x \<noteq> []) (order_numbers fs)"
  unfolding order_numbers_def by (rule numbered_nonempty) simp

lemma field_text_nonempty: "name \<noteq> [] \<Longrightarrow> field_text name fl \<noteq> []"
  by (simp add: field_text_def split: option.split)

lemma cat_sep_joined:
  "list_all (\<lambda>x. x \<noteq> []) xs \<Longrightarrow> cat_sep (joined '', '' xs) @ x = joined '', '' (xs @ [x])"
  using joined_eq_Nil [of xs "'', ''"] by (simp add: cat_sep_def joined_snoc)

lemma field_number_small: "n < 2 ^ 31 \<Longrightarrow> field_number (of_nat n) = dec_nat n"
proof -
  assume n: "n < 2 ^ 31"
  then have "int n < 2 ^ 31" by simp
  then have "signed_take_bit 31 (int n) = int n"
    by (intro signed_take_bit_int_eq_self) simp_all
  then have "sint (of_nat n :: 32 word) = int n"
    by (simp add: signed_of_nat)
  then show ?thesis by (simp add: field_number_def dec_int_def)
qed

text \<open>
  A select list built by adding fields holds them in order, with their SQL functions;
  GROUP BY and ORDER BY name exactly the fields flagged for it, in order, each by its number
  among the fields added (its position counted in calls, not in SQL columns).
\<close>
theorem select_clauses:
  assumes "length fs < 2 ^ 31" and "\<forall>(name, flags) \<in> set fs. name \<noteq> []"
  shows "select_all fs =
    \<lparr>select_fields = joined '', '' (map (\<lambda>(n, fl). field_text n fl) fs), field_count = of_nat (length fs),
     order_by = joined '', '' (order_numbers fs), group_by = joined '', '' (group_numbers fs)\<rparr>"
  using assms
proof (induction fs rule: rev_induct)
  case Nil
  show ?case by (simp add: select_all_def classic_sql_select_new_def order_numbers_def group_numbers_def)
next
  case (snoc x fs)
  obtain name fl where x: "x = (name, fl)" by fastforce
  have num: "field_number (1 + of_nat (length fs)) = dec_nat (Suc (length fs))"
    using field_number_small [of "Suc (length fs)"] snoc.prems by simp
  have texts: "list_all (\<lambda>x. x \<noteq> []) (map (\<lambda>(n, fl). field_text n fl) fs)"
    using snoc.prems by (auto simp: list_all_iff field_text_nonempty)
  show ?case
    using snoc x num cat_sep_joined [OF texts] cat_sep_joined [OF order_numbers_nonempty [of fs]]
      cat_sep_joined [OF group_numbers_nonempty [of fs]]
    by (simp add: select_all_def classic_sql_select_add_field_def Let_def add.commute
        order_numbers_def group_numbers_def numbered_snoc)
qed

theorem select_clauses_witness:
  "select_all [(''t0.a'', GROUP_BY), (''t1.b'', FUNCTION_COUNT OR ORDER_DESC)] =
    \<lparr>select_fields = ''t0.a, COUNT(t1.b)'', field_count = 2, order_by = ''2 DESC'', group_by = ''1''\<rparr>"
  by (subst select_clauses)
    (simp_all add: field_text_def sql_functions_table_def flag_defs order_numbers_def group_numbers_def
      dec_nat.simps digit_char_num)

end
