(* ===== verification/SqlSettings.thy ===== *)
theory SqlSettings
  imports DbError
begin

text \<open>
  The connection settings (\<open>src/requiemdb-sql-settings.c\<close>): a table from names to values
  and the parser of the settings string \<open>name=value name="value" ...\<close>.  The hash table of
  librequiem is a finite map; a C string is consumed from the left, so the parser's cursor
  \<open>char **str\<close> is the string that is left.
\<close>

type_synonym settings = "string \<rightharpoonup> string"

definition settings_new :: settings where
  "settings_new = Map.empty"

fun skip_spaces :: "string \<Rightarrow> string" where
  "skip_spaces [] = []"
| "skip_spaces (c # cs) = (if isspace c then skip_spaces cs else c # cs)"

definition requiemdb_sql_settings_set :: "settings \<Rightarrow> string \<Rightarrow> string \<Rightarrow> settings" where
  "requiemdb_sql_settings_set m name v = m(name \<mapsto> v)"

definition requiemdb_sql_settings_get :: "settings \<Rightarrow> string \<Rightarrow> string option" where
  "requiemdb_sql_settings_get m name = m name"

definition is_name_char :: "char \<Rightarrow> bool" where
  "is_name_char c \<longleftrightarrow> isalnum c \<or> c = CHR ''_''"

text \<open>
  \<open>get_name\<close> returns the length of the name, the name and the rest of the string after
  the equals sign; length 0 at the end of the string.
\<close>

definition get_name :: "string \<Rightarrow> err + (nat \<times> string \<times> string)" where
  "get_name str =
    (let start = skip_spaces str in
     if start = [] then Inr (0, [], [])
     else
       let name = takeWhile is_name_char start;
           rest = dropWhile is_name_char start
       in (case rest of
             c # rest' \<Rightarrow>
               if c \<noteq> CHR ''='' \<or> name = [] then Inl (requiemdb_error ERROR_INVALID_SETTINGS_STRING)
               else Inr (length name, name, rest')
           | [] \<Rightarrow> Inl (requiemdb_error ERROR_INVALID_SETTINGS_STRING)))"

text \<open>
  The loop of \<open>get_value\<close>: \<open>q\<close> is \<open>end_of_string\<close>, \<open>escaped\<close> the
  backslash flag, \<open>acc\<close> the bytes already stored in \<open>*value\<close>.
\<close>

fun value_loop :: "char \<Rightarrow> bool \<Rightarrow> string \<Rightarrow> string \<Rightarrow> string \<times> string" where
  "value_loop q escaped acc [] = (acc, [])"
| "value_loop q escaped acc (c # cs) =
     (if escaped then value_loop q False (acc @ [c]) cs
      else if c = CHR 0x5C then value_loop q True acc cs
      else if c = q then (acc, cs)
      else value_loop q False (acc @ [c]) cs)"

definition is_quote :: "char \<Rightarrow> bool" where
  "is_quote c \<longleftrightarrow> c = CHR 0x27 \<or> c = CHR 0x22"

definition get_value :: "string \<Rightarrow> err + (nat \<times> string \<times> string)" where
  "get_value str =
    (let (q, body) = (case str of
                        c # cs \<Rightarrow> if is_quote c then (c, cs) else (CHR '' '', str)
                      | [] \<Rightarrow> (CHR '' '', str));
         (v, rest) = value_loop q False [] body
     in if rest = [] \<and> is_quote q then Inl (requiemdb_error ERROR_INVALID_SETTINGS_STRING)
        else Inr (length v, v, rest))"

lemma length_skip_spaces: "length (skip_spaces s) \<le> length s"
  by (induction s) auto

lemma get_name_shorter:
  "get_name str = Inr (n, name, rest) \<Longrightarrow> 0 < n \<Longrightarrow> length rest < length str"
proof -
  assume g: "get_name str = Inr (n, name, rest)" and n: "0 < n"
  let ?s = "skip_spaces str"
  from g n obtain c where "dropWhile is_name_char ?s = c # rest"
    by (auto simp: get_name_def Let_def split: if_splits list.splits)
  then have "Suc (length rest) \<le> length ?s"
    by (metis length_Cons length_dropWhile_le)
  with length_skip_spaces [of str] show ?thesis by simp
qed

lemma value_loop_rest: "length (snd (value_loop q e acc s)) \<le> length s"
  by (induction q e acc s rule: value_loop.induct) (auto simp: le_SucI)

lemma get_value_rest: "get_value s = Inr (n, v, rest) \<Longrightarrow> length rest \<le> length s"
  using value_loop_rest [of "hd s" False "[]" "tl s"] value_loop_rest [of "CHR '' ''" False "[]" s]
  by (cases s) (auto simp: get_value_def Let_def split: if_splits prod.splits)

text \<open>
  \<open>requiemdb_sql_settings_set_from_string\<close> reads pairs until \<open>get_name\<close> returns 0 or
  fails.  The settings read before an error stay in the table.
\<close>

function set_from_string :: "settings \<Rightarrow> string \<Rightarrow> (err + nat) \<times> settings" where
  "set_from_string m str =
    (case get_name str of
       Inl e \<Rightarrow> (Inl e, m)
     | Inr (n, name, rest) \<Rightarrow>
         if n = 0 then (Inr 0, m)
         else (case get_value rest of
                 Inl e \<Rightarrow> (Inl e, m)
               | Inr (k, v, rest') \<Rightarrow> set_from_string (m(name \<mapsto> v)) rest'))"
  by pat_completeness auto
termination
  by (relation "measure (\<lambda>(m, str). length str)")
    (auto dest!: get_name_shorter get_value_rest)

declare set_from_string.simps [simp del]

definition requiemdb_sql_settings_new_from_string :: "string \<Rightarrow> (err + settings)" where
  "requiemdb_sql_settings_new_from_string str =
    (case set_from_string settings_new str of
       (Inl e, m) \<Rightarrow> Inl e
     | (Inr _, m) \<Rightarrow> Inr m)"

text \<open>The convenience getters, with the default of each setting.\<close>

definition get_with_default :: "settings \<Rightarrow> string \<Rightarrow> string option \<Rightarrow> string option" where
  "get_with_default m key dflt =
    (case requiemdb_sql_settings_get m key of Some v \<Rightarrow> Some v | None \<Rightarrow> dflt)"

definition get_host :: "settings \<Rightarrow> string option" where
  "get_host m = get_with_default m ''host'' (Some ''localhost'')"
definition get_port :: "settings \<Rightarrow> string option" where
  "get_port m = get_with_default m ''port'' None"
definition get_dbname :: "settings \<Rightarrow> string option" where
  "get_dbname m = get_with_default m ''name'' (Some ''requiem'')"
definition get_user :: "settings \<Rightarrow> string option" where
  "get_user m = get_with_default m ''user'' None"
definition get_pass :: "settings \<Rightarrow> string option" where
  "get_pass m = get_with_default m ''pass'' None"
definition get_type :: "settings \<Rightarrow> string option" where
  "get_type m = get_with_default m ''type'' None"
definition get_file :: "settings \<Rightarrow> string option" where
  "get_file m = get_with_default m ''file'' None"
definition get_log :: "settings \<Rightarrow> string option" where
  "get_log m = get_with_default m ''log'' None"

section \<open>Reading back what was written\<close>

text \<open>A setting as a user writes it: quoted, with quote and backslash escaped.\<close>

fun escape_value :: "string \<Rightarrow> string" where
  "escape_value [] = []"
| "escape_value (c # cs) =
     (if c = CHR 0x5C \<or> c = CHR 0x22 then CHR 0x5C # c # escape_value cs
      else c # escape_value cs)"

definition quote_pair :: "string \<times> string \<Rightarrow> string" where
  "quote_pair p = fst p @ ''='' @ [CHR 0x22] @ escape_value (snd p) @ [CHR 0x22]"

definition valid_name :: "string \<Rightarrow> bool" where
  "valid_name n \<longleftrightarrow> n \<noteq> [] \<and> list_all is_name_char n"

definition render_settings :: "(string \<times> string) list \<Rightarrow> string" where
  "render_settings ps = concat (map (\<lambda>p. quote_pair p @ '' '') ps)"

definition settings_of :: "settings \<Rightarrow> (string \<times> string) list \<Rightarrow> settings" where
  "settings_of m ps = foldl (\<lambda>m p. m(fst p \<mapsto> snd p)) m ps"

lemma name_char_not_space: "is_name_char c \<Longrightarrow> \<not> isspace c"
  by (auto simp: is_name_char_def isalnum_def isspace_def Let_def)

lemma equals_not_name_char: "\<not> is_name_char (CHR ''='')"
  by (simp add: is_name_char_def isalnum_def Let_def)

lemma value_loop_escape:
  "value_loop (CHR 0x22) False acc (escape_value v @ CHR 0x22 # rest) = (acc @ v, rest)"
  by (induction v arbitrary: acc) auto

lemma skip_spaces_name: "valid_name n \<Longrightarrow> skip_spaces (n @ s) = n @ s"
  by (cases n) (auto simp: valid_name_def name_char_not_space)

lemma get_name_pair:
  "valid_name n \<Longrightarrow> get_name (n @ CHR ''='' # s) = Inr (length n, n, s)"
  by (simp add: get_name_def skip_spaces_name Let_def valid_name_def list_all_iff
      equals_not_name_char takeWhile_append dropWhile_append)

lemma get_name_spaces: "get_name (CHR '' '' # s) = get_name s"
  by (simp add: get_name_def isspace_def Let_def)

lemma get_value_quoted:
  "get_value (CHR 0x22 # escape_value v @ CHR 0x22 # rest) =
     (if rest = [] then Inl (requiemdb_error ERROR_INVALID_SETTINGS_STRING)
      else Inr (length v, v, rest))"
  by (simp add: get_value_def is_quote_def value_loop_escape)

lemma set_from_string_pair:
  "valid_name n \<Longrightarrow>
   set_from_string m (quote_pair (n, v) @ rest) =
     (if rest = [] then (Inl (requiemdb_error ERROR_INVALID_SETTINGS_STRING), m)
      else set_from_string (m(n \<mapsto> v)) rest)"
  by (subst set_from_string.simps)
    (auto simp: quote_pair_def get_name_pair get_value_quoted valid_name_def)

lemma set_from_string_space: "set_from_string m (CHR '' '' # s) = set_from_string m s"
  by (simp add: set_from_string.simps [of m "CHR '' '' # s"] get_name_spaces
      set_from_string.simps [of m s])

lemma set_from_string_render:
  "list_all (\<lambda>p. valid_name (fst p)) ps \<Longrightarrow>
   set_from_string m (render_settings ps @ s) = set_from_string (settings_of m ps) s"
proof (induction ps arbitrary: m)
  case Nil
  then show ?case by (simp add: render_settings_def settings_of_def)
next
  case (Cons p ps)
  obtain n v where p: "p = (n, v)" by (cases p)
  have "render_settings (p # ps) @ s = quote_pair (n, v) @ CHR '' '' # (render_settings ps @ s)"
    by (simp add: render_settings_def p)
  with Cons show ?case
    by (simp add: p set_from_string_pair set_from_string_space settings_of_def)
qed

lemma set_from_string_end: "set_from_string m [] = (Inr 0, m)"
  by (simp add: set_from_string.simps get_name_def)

lemma value_loop_length: "length (fst (value_loop q e acc s)) \<le> length acc + length s"
  by (induction q e acc s rule: value_loop.induct) auto

section \<open>Properties\<close>



text \<open>
  The last character matters: when a quoted value is closed by the last byte of the
  string, \<open>get_value\<close> has already moved past the closing quote and takes the end of the
  string for an unterminated value.  The whole string is refused, although every pair
  before the last one has already been stored.
\<close>
theorem settings_final_quote_refused:
  assumes "list_all (\<lambda>p. valid_name (fst p)) ps" and "valid_name n"
  shows "set_from_string m (render_settings ps @ quote_pair (n, v)) =
           (Inl (requiemdb_error ERROR_INVALID_SETTINGS_STRING), settings_of m ps)"
  using set_from_string_render [OF assms(1), of m "quote_pair (n, v)"]
    set_from_string_pair [OF assms(2), of "settings_of m ps" v "[]"]
  by simp

theorem settings_final_quote_refused_witness:
  "set_from_string settings_new
     (render_settings [(''type'', ''mysql'')] @ quote_pair (''host'', ''h'')) =
     (Inl (requiemdb_error ERROR_INVALID_SETTINGS_STRING),
      settings_of settings_new [(''type'', ''mysql'')])"
  by (rule settings_final_quote_refused)
    (simp_all add: valid_name_def is_name_char_def isalnum_def)

text \<open>
  Memory safety of \<open>get_value\<close>: it stores at most \<open>strlen(*str)\<close> bytes in the buffer
  of \<open>strlen(*str) + 1\<close> bytes it allocates, so the value is always terminated inside it.
\<close>
theorem get_value_in_buffer:
  assumes "get_value str = Inr (cnt, v, rest)"
  shows "cnt = length v \<and> cnt < length str + 1 \<and> length rest \<le> length str"
  using assms get_value_rest [OF assms]
    value_loop_length [of "hd str" False "[]" "tl str"]
    value_loop_length [of "CHR '' ''" False "[]" str]
  by (cases str) (auto simp: get_value_def Let_def split: if_splits prod.splits)

theorem get_value_in_buffer_witness:
  "get_value ''ab cd'' = Inr (2, ''ab'', ''cd'') \<and> (2::nat) < length ''ab cd'' + 1"
proof -
  have v: "get_value ''ab cd'' = Inr (2, ''ab'', ''cd'')"
    by (simp add: get_value_def is_quote_def)
  show ?thesis using v get_value_in_buffer [OF v] by blast
qed

end
