(* ===== verification/SqlPlugin.thy ===== *)
theory SqlPlugin
  imports SqlSettings Librequiem
begin

text \<open>
  The function table of an SQL plugin (\<open>src/requiemdb-plugin-sql.c\<close>) and the dispatchers
  through it.  The session and the database server behind it are a type parameter
  \<open>'w\<close>; a plugin's functions are arbitrary operations on it, so everything proved later
  holds for every back end.  A function pointer the dispatcher tests for NULL is an option.
  Result sets and rows are handles (\<open>void *\<close>).  Allocation failure is not modelled.
\<close>

type_synonym sql_res = nat
type_synonym sql_rowh = nat

datatype time_constraint =
    TC_YEAR | TC_MONTH | TC_YDAY | TC_MDAY | TC_WDAY | TC_HOUR | TC_MIN | TC_SEC

text \<open>
  The world an SQL session lives in: the error message librequiem keeps per thread (set
  whenever a verbose error is made) and the session itself.
\<close>

record 'w world =
  thread_error :: "string option"
  session :: 'w

record 'w plugin_sql =
  pl_open :: "settings \<Rightarrow> ('w world, err, unit) cop"
  pl_close :: "'w world \<Rightarrow> 'w world"
  pl_escape :: "(string \<Rightarrow> ('w world, err, string) cop) option"
  pl_escape_binary :: "(string \<Rightarrow> ('w world, err, string) cop) option"
  pl_unescape_binary :: "(string \<Rightarrow> ('w world, err, string) cop) option"
  pl_query :: "string \<Rightarrow> ('w world, err, sql_res option) cop"
  pl_get_column_count :: "'w world \<Rightarrow> sql_res \<Rightarrow> nat"
  pl_get_row_count :: "'w world \<Rightarrow> sql_res \<Rightarrow> nat"
  pl_get_column_name :: "'w world \<Rightarrow> sql_res \<Rightarrow> nat \<Rightarrow> string option"
  pl_get_column_num :: "'w world \<Rightarrow> sql_res \<Rightarrow> string \<Rightarrow> int"
  pl_resource_destroy :: "sql_res \<Rightarrow> 'w world \<Rightarrow> 'w world"
  pl_fetch_row :: "(sql_res \<Rightarrow> ('w world, err, sql_rowh option) cop) option"
  pl_fetch_field :: "(sql_res \<Rightarrow> sql_rowh \<Rightarrow> nat \<Rightarrow> ('w world, err, string option) cop) option"
  pl_build_time_constraint :: "(string \<Rightarrow> time_constraint \<Rightarrow> crit_op \<Rightarrow> int \<Rightarrow> int \<Rightarrow> err + string) option"
  pl_build_time_interval :: "(time_constraint \<Rightarrow> int \<Rightarrow> nat \<Rightarrow> err + string) option"
  pl_build_limit_offset :: "('w world \<Rightarrow> int \<Rightarrow> int \<Rightarrow> err + string) option"
  pl_build_constraint :: "(string \<Rightarrow> crit_op \<Rightarrow> string \<Rightarrow> err + string) option"
  pl_get_operator_string :: "crit_op \<Rightarrow> string option"
  pl_build_timestamp :: "(tm \<Rightarrow> nat \<Rightarrow> err + string) option"

text \<open>\<open>requiemdb_error_verbose\<close>: the message becomes the thread's error message.\<close>

definition error_verbose :: "db_error_code \<Rightarrow> string \<Rightarrow> ('w world, err, 'a) cop" where
  "error_verbose c msg = (\<lambda>w. (Inl (DbErr c True), w\<lparr>thread_error := Some msg\<rparr>))"

text \<open>The \<open>errno\<close> value ENOTSUP as a librequiem error code.\<close>

definition ENOTSUP :: nat where "ENOTSUP = 95"

text \<open>\<open>REQUIEMDB_ENOTSUP(x)\<close>: an error from the \<open>errno\<close> code, not from a database code.\<close>

definition enotsup :: "string \<Rightarrow> ('w world, err, 'a) cop" where
  "enotsup x = (\<lambda>w. (Inl (LibErr ENOTSUP True),
     w\<lparr>thread_error := Some (''Database backend does not support '' @ [CHR 0x27] @ x @ [CHR 0x27] @ '' operation'')\<rparr>))"

section \<open>Binary escaping\<close>

definition hex_digit :: "nat \<Rightarrow> char" where
  "hex_digit n = (''0123456789ABCDEF'') ! n"

fun bin2hex :: "string \<Rightarrow> string" where
  "bin2hex [] = []"
| "bin2hex (c # cs) =
     hex_digit (of_char c div 16) # hex_digit (of_char c mod 16) # bin2hex cs"

definition SIZE_MOD :: nat where "SIZE_MOD = 2 ^ 64"

text \<open>
  \<open>_requiemdb_plugin_sql_escape_binary\<close>: the buffer size is computed in \<open>size_t\<close>, which
  wraps; a wrapped size is refused.
\<close>

definition plugin_sql_escape_binary :: "'w plugin_sql \<Rightarrow> string \<Rightarrow> ('w world, err, string) cop" where
  "plugin_sql_escape_binary p input =
    (case pl_escape_binary p of
       Some f \<Rightarrow> f input
     | None \<Rightarrow>
         (let outsize = (length input * 2 + 4) mod SIZE_MOD
          in if outsize \<le> length input then failw (requiemdb_error ERROR_GENERIC)
             else retn (''X'' @ [CHR 0x27] @ bin2hex input @ [CHR 0x27])))"

definition plugin_sql_escape :: "'w plugin_sql \<Rightarrow> string \<Rightarrow> ('w world, err, string) cop" where
  "plugin_sql_escape p input =
    (case pl_escape p of
       None \<Rightarrow> plugin_sql_escape_binary p input
     | Some f \<Rightarrow> f input)"

definition plugin_sql_unescape_binary :: "'w plugin_sql \<Rightarrow> string \<Rightarrow> ('w world, err, string) cop" where
  "plugin_sql_unescape_binary p input =
    (case pl_unescape_binary p of Some f \<Rightarrow> f input | None \<Rightarrow> retn input)"

section \<open>Dispatch\<close>

text \<open>
  \<open>_requiemdb_plugin_sql_fetch_row\<close> makes the ENOTSUP error but does not return it: it goes
  on to call through the NULL pointer.
\<close>

definition plugin_sql_fetch_row :: "'w plugin_sql \<Rightarrow> sql_res \<Rightarrow> ('w world, err, sql_rowh option) cop" where
  "plugin_sql_fetch_row p r =
    (case pl_fetch_row p of
       None \<Rightarrow> (\<lambda>w. (Inl NullDeref, snd (enotsup ''fetch_row'' w :: (err + unit) \<times> 'w world)))
     | Some f \<Rightarrow> f r)"

definition plugin_sql_fetch_field ::
    "'w plugin_sql \<Rightarrow> sql_res \<Rightarrow> sql_rowh \<Rightarrow> nat \<Rightarrow> ('w world, err, string option) cop" where
  "plugin_sql_fetch_field p r row col =
    (case pl_fetch_field p of None \<Rightarrow> enotsup ''fetch_field'' | Some f \<Rightarrow> f r row col)"

text \<open>A builder returns the text it appends to its output string, here lifted to the world.\<close>

definition built :: "err + 'a \<Rightarrow> ('w world, err, 'a) cop" where
  "built r = (\<lambda>w. (r, w))"

definition plugin_sql_build_time_constraint_string ::
    "'w plugin_sql \<Rightarrow> string \<Rightarrow> time_constraint \<Rightarrow> crit_op \<Rightarrow> int \<Rightarrow> int \<Rightarrow> ('w world, err, string) cop" where
  "plugin_sql_build_time_constraint_string p field tc op v gmt =
    (case pl_build_time_constraint p of
       None \<Rightarrow> enotsup ''build_time_constraint_string''
     | Some f \<Rightarrow> built (f field tc op v gmt))"

definition plugin_sql_build_time_interval_string ::
    "'w plugin_sql \<Rightarrow> time_constraint \<Rightarrow> int \<Rightarrow> nat \<Rightarrow> ('w world, err, string) cop" where
  "plugin_sql_build_time_interval_string p tc v bufsize =
    (case pl_build_time_interval p of
       None \<Rightarrow> enotsup ''build_time_interval_string''
     | Some f \<Rightarrow> built (f tc v bufsize))"

definition plugin_sql_build_limit_offset_string ::
    "'w plugin_sql \<Rightarrow> int \<Rightarrow> int \<Rightarrow> ('w world, err, string) cop" where
  "plugin_sql_build_limit_offset_string p limit offset =
    (case pl_build_limit_offset p of
       None \<Rightarrow> enotsup ''build_limit_offset_string''
     | Some f \<Rightarrow> (\<lambda>w. built (f w limit offset) w))"

definition plugin_sql_build_constraint_string ::
    "'w plugin_sql \<Rightarrow> string \<Rightarrow> crit_op \<Rightarrow> string \<Rightarrow> ('w world, err, string) cop" where
  "plugin_sql_build_constraint_string p field op v =
    (case pl_build_constraint p of
       None \<Rightarrow> enotsup ''build_constraint_string''
     | Some f \<Rightarrow> built (f field op v))"

section \<open>Timestamps\<close>

text \<open>\<open>%.2d\<close>: at least two digits.\<close>

definition pad2 :: "string \<Rightarrow> string" where
  "pad2 s = replicate (2 - length s) (CHR ''0'') @ s"

definition dec2_int :: "int \<Rightarrow> string" where
  "dec2_int i = (if i < 0 then CHR ''-'' # pad2 (dec_nat (nat (- i))) else pad2 (dec_nat (nat i)))"

definition timestamp_text :: "tm \<Rightarrow> string" where
  "timestamp_text t =
     dec_int (tm_year t + 1900) @ ''-'' @ dec2_int (tm_mon t + 1) @ ''-'' @ dec2_int (tm_mday t) @ '' '' @
     dec2_int (tm_hour t) @ '':'' @ dec2_int (tm_min t) @ '':'' @ dec2_int (tm_sec t)"

definition plugin_sql_build_timestamp_string :: "'w plugin_sql \<Rightarrow> tm \<Rightarrow> nat \<Rightarrow> err + string" where
  "plugin_sql_build_timestamp_string p t bufsize =
    (case pl_build_timestamp p of
       Some f \<Rightarrow> f t bufsize
     | None \<Rightarrow>
         (let text = [CHR 0x27] @ timestamp_text t @ [CHR 0x27]
          in if length text \<ge> bufsize then Inl (RawErr (-1)) else Inr text))"

section \<open>Lemmas and properties\<close>

definition hex_val :: "char \<Rightarrow> nat" where
  "hex_val c = (let n = of_char c :: nat in if n < 58 then n - 48 else n - 55)"

fun unhex :: "string \<Rightarrow> string" where
  "unhex (a # b # cs) = char_of (16 * hex_val a + hex_val b) # unhex cs"
| "unhex _ = []"

lemma less_16_cases: "(n::nat) < 16 \<Longrightarrow> n \<in> set [0,1,2,3,4,5,6,7,8,9,10,11,12,13,14,15]"
  by (simp; presburger)

lemma hex_val_hex_digit: "n < 16 \<Longrightarrow> hex_val (hex_digit n) = n"
  using less_16_cases [of n] by (auto simp: hex_digit_def hex_val_def)

lemma hex_halves: "(of_char c :: nat) div 16 < 16" "(of_char c :: nat) mod 16 < 16"
  using nat_of_char_less_256 [of c] by linarith simp

lemma unhex_bin2hex: "unhex (bin2hex s) = s"
proof (induction s)
  case (Cons c s)
  show ?case using Cons hex_halves [of c] by (simp add: hex_val_hex_digit)
qed simp

lemma length_bin2hex: "length (bin2hex s) = 2 * length s"
  by (induction s) auto

lemma bin2hex_no_quote: "CHR 0x27 \<notin> set (bin2hex s)"
proof (induction s)
  case (Cons c s)
  have "hex_digit n \<noteq> CHR 0x27" if "n < 16" for n
    using less_16_cases [OF that] by (auto simp: hex_digit_def)
  from this [of "of_char c div 16"] this [of "of_char c mod 16"] Cons hex_halves [of c]
  show ?case by auto
qed simp

text \<open>
  The binary escape of a plugin without one of its own: on every input a program can
  hold (at most \<open>2^63 - 3\<close> bytes) it succeeds, the literal \<open>X'...'\<close> and its NUL fill the
  buffer it allocates exactly, no quote of the input reaches the literal, and the hexadecimal
  digits decode to the input.
\<close>
theorem escape_binary_default:
  assumes "pl_escape_binary p = None" and "length input \<le> 2 ^ 63 - 3"
  shows "\<exists>body. plugin_sql_escape_binary p input w = (Inr (''X'' @ [CHR 0x27] @ body @ [CHR 0x27]), w) \<and>
     length (''X'' @ [CHR 0x27] @ body @ [CHR 0x27]) + 1 = (length input * 2 + 4) mod SIZE_MOD \<and>
     CHR 0x27 \<notin> set body \<and> unhex body = input"
proof -
  have "length input * 2 + 4 < SIZE_MOD"
    using assms(2) by (simp add: SIZE_MOD_def)
  then show ?thesis
    using assms(1)
    by (simp add: plugin_sql_escape_binary_def length_bin2hex bin2hex_no_quote unhex_bin2hex)
qed

definition null_plugin :: "'w plugin_sql" where
  "null_plugin =
    \<lparr>pl_open = (\<lambda>_. retn ()), pl_close = id, pl_escape = None, pl_escape_binary = None,
     pl_unescape_binary = None, pl_query = (\<lambda>_. retn None), pl_get_column_count = (\<lambda>_ _. 0),
     pl_get_row_count = (\<lambda>_ _. 0), pl_get_column_name = (\<lambda>_ _ _. None),
     pl_get_column_num = (\<lambda>_ _ _. - 1), pl_resource_destroy = (\<lambda>_. id), pl_fetch_row = None,
     pl_fetch_field = None, pl_build_time_constraint = None, pl_build_time_interval = None,
     pl_build_limit_offset = None, pl_build_constraint = None,
     pl_get_operator_string = (\<lambda>_. None), pl_build_timestamp = None\<rparr>"

theorem escape_binary_default_witness:
  "\<exists>body. plugin_sql_escape_binary (null_plugin :: unit plugin_sql) [CHR 0x27, CHR 0xFF]
       \<lparr>thread_error = None, session = ()\<rparr> =
       (Inr (''X'' @ [CHR 0x27] @ body @ [CHR 0x27]), \<lparr>thread_error = None, session = ()\<rparr>) \<and>
     length (''X'' @ [CHR 0x27] @ body @ [CHR 0x27]) + 1 = (length [CHR 0x27, CHR 0xFF] * 2 + 4) mod SIZE_MOD \<and>
     CHR 0x27 \<notin> set body \<and> unhex body = [CHR 0x27, CHR 0xFF]"
  by (rule escape_binary_default) (simp_all add: null_plugin_def)

text \<open>
  The NULL test of \<open>fetch_row\<close> does not protect the call: a plugin that leaves the
  pointer NULL is not answered with ENOTSUP, as \<open>fetch_field\<close> is, but with a call through
  the NULL pointer.
\<close>
theorem fetch_row_missing_return:
  assumes "pl_fetch_row p = None" and "pl_fetch_field p = None"
  shows "fst (plugin_sql_fetch_row p r w) = Inl NullDeref \<and>
         fst (plugin_sql_fetch_field p r row col w) = Inl (LibErr ENOTSUP True)"
  using assms by (simp add: plugin_sql_fetch_row_def plugin_sql_fetch_field_def enotsup_def)

theorem fetch_row_missing_return_witness:
  "fst (plugin_sql_fetch_row (null_plugin :: unit plugin_sql) 0 \<lparr>thread_error = None, session = ()\<rparr>) = Inl NullDeref \<and>
   fst (plugin_sql_fetch_field (null_plugin :: unit plugin_sql) 0 0 0
      \<lparr>thread_error = None, session = ()\<rparr>) = Inl (LibErr ENOTSUP True)"
  by (rule fetch_row_missing_return) (simp_all add: null_plugin_def)

end
