(* ===== verification/SqlConn.thy ===== *)
theory SqlConn
  imports SqlPlugin
begin

text \<open>
  The connection object (\<open>src/requiemdb-sql.c\<close>): its status bits, the recursive lock, the
  query log, and the operations connect, query, insert, escape and the three transaction
  operations.  The lock is counted from the point of view of the thread that runs the
  operations: \<open>lock_depth\<close> is the number of times it holds it.  The elapsed time in front of
  a log line is left out.
\<close>

unbundle bit_operations_syntax

type_synonym sql_status = "32 word"

definition STATUS_CONNECTED :: sql_status where "STATUS_CONNECTED = 0x01"
definition STATUS_TRANSACTION :: sql_status where "STATUS_TRANSACTION = 0x02"

datatype logdest = Log_stdout | Log_file string

record 'w sql =
  status :: sql_status
  sql_settings :: settings
  logfile :: "logdest option"
  logged :: "string list"
  internal_transaction_disabled :: bool
  lock_depth :: int
  sql_world :: "'w world"

text \<open>
  What the library needs from outside: the SQL plugin, and librequiem's and libc's
  functions on errors, paths, enumerations and time.
\<close>

datatype enum_kind =
    ENUM_ADDRESS_CATEGORY | ENUM_NODE_CATEGORY | ENUM_USER_ID_TYPE | ENUM_USER_CATEGORY
  | ENUM_LINKAGE_CATEGORY | ENUM_CHECKSUM_ALGORITHM | ENUM_FILE_CATEGORY | ENUM_FILE_FSTYPE
  | ENUM_SOURCE_SPOOFED | ENUM_TARGET_DECOY | ENUM_REFERENCE_ORIGIN
  | ENUM_ADDITIONAL_DATA_TYPE | ENUM_IMPACT_COMPLETION | ENUM_IMPACT_TYPE
  | ENUM_IMPACT_SEVERITY | ENUM_ACTION_CATEGORY | ENUM_CONFIDENCE_RATING

record 'w env =
  env_plugin :: "'w plugin_sql"
  requiem_strerror :: "err \<Rightarrow> string"
  idmef_path_new_fast :: "string \<Rightarrow> err + idmef_path"
  idmef_path_compare :: "idmef_path \<Rightarrow> idmef_path \<Rightarrow> int"
  idmef_path_ncompare :: "idmef_path \<Rightarrow> idmef_path \<Rightarrow> nat \<Rightarrow> int"
  idmef_class_get_name :: "class_id \<Rightarrow> string"
  enum_to_string :: "enum_kind \<Rightarrow> int \<Rightarrow> string option"
  gmtime_r :: "int \<Rightarrow> tm option"
  requiem_timegm :: "tm \<Rightarrow> int"
  format_float :: "32 word \<Rightarrow> string"
  string_released :: "string \<Rightarrow> string option"
  idmef_time_new :: idmef_time
  idmef_value_new_from_path :: "idmef_path \<Rightarrow> string \<Rightarrow> err + idmef_value"
  enum_to_numeric :: "enum_kind \<Rightarrow> string \<Rightarrow> int"
  enum_default :: "enum_kind \<Rightarrow> int"
  scan_float :: "string \<Rightarrow> 32 word option option"
  idmef_data_set :: "data_value \<Rightarrow> idmef_data"
  additional_data_kind :: "int \<Rightarrow> ad_kind option"

type_synonym ('w, 'a) sqlop = "('w sql, err, 'a) cop"

definition connected :: "'w sql \<Rightarrow> bool" where
  "connected s \<longleftrightarrow> status s AND STATUS_CONNECTED \<noteq> 0"

definition in_transaction :: "'w sql \<Rightarrow> bool" where
  "in_transaction s \<longleftrightarrow> status s AND STATUS_TRANSACTION \<noteq> 0"

text \<open>An operation of the plugin, run on the world part of the connection.\<close>

definition on_world :: "('w world, err, 'a) cop \<Rightarrow> ('w, 'a) sqlop" where
  "on_world f = (\<lambda>s. case f (sql_world s) of (r, w) \<Rightarrow> (r, s\<lparr>sql_world := w\<rparr>))"

definition lock :: "'w sql \<Rightarrow> 'w sql" where
  "lock s = s\<lparr>lock_depth := lock_depth s + 1\<rparr>"

definition unlock :: "'w sql \<Rightarrow> 'w sql" where
  "unlock s = s\<lparr>lock_depth := lock_depth s - 1\<rparr>"

text \<open>\<open>update_sql_from_errno\<close>: a connection error closes the session and clears the bit.\<close>

definition update_sql_from_errno :: "'w env \<Rightarrow> err \<Rightarrow> 'w sql \<Rightarrow> 'w sql" where
  "update_sql_from_errno E e s =
    (if requiemdb_error_check e ERROR_CONNECTION
     then s\<lparr>sql_world := pl_close (env_plugin E) (sql_world s),
            status := status s AND NOT STATUS_CONNECTED\<rparr>
     else s)"

text \<open>\<open>requiemdb_sql_connect\<close> assigns the status, it does not set a bit in it.\<close>

definition requiemdb_sql_connect :: "'w env \<Rightarrow> ('w, nat) sqlop" where
  "requiemdb_sql_connect E = (\<lambda>s.
     case on_world (pl_open (env_plugin E) (sql_settings s)) s of
       (Inl e, s') \<Rightarrow> (Inl e, s')
     | (Inr _, s') \<Rightarrow> (Inr 0, s'\<lparr>status := STATUS_CONNECTED\<rparr>))"

text \<open>The macro \<open>assert_connected\<close> in front of the rest of a locked section.\<close>

definition assert_connected :: "'w env \<Rightarrow> ('w, 'a) sqlop \<Rightarrow> ('w, 'a) sqlop" where
  "assert_connected E k = (\<lambda>s.
     if connected s then k s
     else case requiemdb_sql_connect E s of
            (Inl e, s') \<Rightarrow> (Inl e, unlock s')
          | (Inr _, s') \<Rightarrow> k s')"

definition log_query :: "string \<Rightarrow> 'w sql \<Rightarrow> 'w sql" where
  "log_query q s = (if logfile s \<noteq> None then s\<lparr>logged := logged s @ [q]\<rparr> else s)"

text \<open>
  \<open>requiemdb_sql_query\<close>; \<open>want\<close> says whether the caller passed a place for the result
  table.  The value is the row count and the handle of the result set, if there is one.
\<close>

definition requiemdb_sql_query :: "'w env \<Rightarrow> string \<Rightarrow> bool \<Rightarrow> ('w, nat \<times> sql_res option) sqlop" where
  "requiemdb_sql_query E query want = (\<lambda>s0.
     assert_connected E (\<lambda>s1.
       let (r, s2) = on_world (pl_query (env_plugin E) query) s1;
           s3 = (case r of Inl e \<Rightarrow> update_sql_from_errno E e s2 | Inr _ \<Rightarrow> s2);
           s4 = log_query query (unlock s3)
       in case r of
            Inl e \<Rightarrow> (Inl e, s4)
          | Inr None \<Rightarrow> (Inr (0, None), s4)
          | Inr (Some h) \<Rightarrow>
              if want then (Inr (pl_get_row_count (env_plugin E) (sql_world s4) h, Some h), s4)
              else (Inl NullDeref, s4))
     (lock s0))"

text \<open>A statement sent with a NULL table pointer.\<close>

definition sql_exec :: "'w env \<Rightarrow> string \<Rightarrow> ('w, nat) sqlop" where
  "sql_exec E query = bindr (requiemdb_sql_query E query False) (\<lambda>p. retn (fst p))"

definition insert_text :: "string \<Rightarrow> string \<Rightarrow> string \<Rightarrow> string" where
  "insert_text table cols vals =
     ''INSERT INTO '' @ table @ '' ('' @ cols @ '') VALUES('' @ vals @ '')''"

definition requiemdb_sql_insert :: "'w env \<Rightarrow> string \<Rightarrow> string \<Rightarrow> string \<Rightarrow> ('w, nat) sqlop" where
  "requiemdb_sql_insert E table cols vals = sql_exec E (insert_text table cols vals)"

definition requiemdb_sql_build_limit_offset_string ::
    "'w env \<Rightarrow> int \<Rightarrow> int \<Rightarrow> ('w, string) sqlop" where
  "requiemdb_sql_build_limit_offset_string E limit offset =
     on_world (plugin_sql_build_limit_offset_string (env_plugin E) limit offset)"

section \<open>Transactions\<close>

definition sql_transaction_start :: "'w env \<Rightarrow> ('w, nat) sqlop" where
  "sql_transaction_start E = (\<lambda>s0.
     let s = lock s0 in
     if in_transaction s then (Inl (requiemdb_error ERROR_ALREADY_IN_TRANSACTION), unlock s)
     else case sql_exec E ''BEGIN'' s of
            (Inl e, s') \<Rightarrow> (Inl e, unlock s')
          | (Inr n, s') \<Rightarrow> (Inr n, s'\<lparr>status := status s' OR STATUS_TRANSACTION\<rparr>))"

definition sql_transaction_end :: "'w env \<Rightarrow> ('w, nat) sqlop" where
  "sql_transaction_end E = (\<lambda>s.
     if \<not> in_transaction s then (Inl (requiemdb_error ERROR_NOT_IN_TRANSACTION), s)
     else case sql_exec E ''COMMIT'' s of
            (r, s') \<Rightarrow> (r, unlock (s'\<lparr>status := status s' AND NOT STATUS_TRANSACTION\<rparr>)))"

text \<open>The text \<open>printf\<close> writes for a \<open>%s\<close> whose argument may be NULL.\<close>

definition str_or_null :: "string option \<Rightarrow> string" where
  "str_or_null m = (case m of Some t \<Rightarrow> t | None \<Rightarrow> ''(null)'')"

definition sql_transaction_abort :: "'w env \<Rightarrow> ('w, nat) sqlop" where
  "sql_transaction_abort E = (\<lambda>s0.
     if \<not> in_transaction s0 then (Inl (requiemdb_error ERROR_NOT_IN_TRANSACTION), s0)
     else
       let original = thread_error (sql_world s0);
           s = s0\<lparr>status := status s0 AND NOT STATUS_TRANSACTION\<rparr>
       in case original of
            Some msg \<Rightarrow>
              if \<not> connected s then
                case on_world (error_verbose ERROR_QUERY
                       (msg @ ''. No ROLLBACK possible due to connection closure'')) s of
                  (r, s') \<Rightarrow> (r, unlock s')
              else
                (case sql_exec E ''ROLLBACK'' s of
                   (Inr n, s') \<Rightarrow> (Inr n, unlock s')
                 | (Inl e, s') \<Rightarrow>
                     (case on_world (error_verbose ERROR_QUERY
                             (msg @ ''.'' @ [CHR 0x0A] @ ''ROLLBACK failed: '' @
                              str_or_null (requiemdb_strerror (requiem_strerror E)
                                             (thread_error (sql_world s')) e))) s' of
                        (r, s'') \<Rightarrow> (r, unlock s'')))
          | None \<Rightarrow>
              (case sql_exec E ''ROLLBACK'' s of
                 (Inr n, s') \<Rightarrow> (Inr n, unlock s')
               | (Inl e, s') \<Rightarrow>
                   (case on_world (error_verbose ERROR_QUERY
                           (''ROLLBACK failed: '' @
                            str_or_null (requiemdb_strerror (requiem_strerror E)
                                           (thread_error (sql_world s')) e))) s' of
                      (r, s'') \<Rightarrow> (r, unlock s''))))"

definition requiemdb_sql_transaction_start :: "'w env \<Rightarrow> ('w, nat) sqlop" where
  "requiemdb_sql_transaction_start E = (\<lambda>s.
     if internal_transaction_disabled s then (Inr 0, s) else sql_transaction_start E s)"

definition requiemdb_sql_transaction_end :: "'w env \<Rightarrow> ('w, nat) sqlop" where
  "requiemdb_sql_transaction_end E = (\<lambda>s.
     if internal_transaction_disabled s then (Inr 0, s) else sql_transaction_end E s)"

definition requiemdb_sql_transaction_abort :: "'w env \<Rightarrow> ('w, nat) sqlop" where
  "requiemdb_sql_transaction_abort E = (\<lambda>s.
     if internal_transaction_disabled s then (Inr 0, s) else sql_transaction_abort E s)"

definition sql_enable_internal_transaction :: "'w sql \<Rightarrow> 'w sql" where
  "sql_enable_internal_transaction s = s\<lparr>internal_transaction_disabled := False\<rparr>"

definition sql_disable_internal_transaction :: "'w sql \<Rightarrow> 'w sql" where
  "sql_disable_internal_transaction s = s\<lparr>internal_transaction_disabled := True\<rparr>"

section \<open>Escaping\<close>

definition locked_world_op :: "'w env \<Rightarrow> ('w world, err, 'a) cop \<Rightarrow> ('w, 'a) sqlop" where
  "locked_world_op E f = (\<lambda>s0.
     assert_connected E (\<lambda>s. case on_world f s of (r, s') \<Rightarrow> (r, unlock s')) (lock s0))"

definition requiemdb_sql_escape_fast :: "'w env \<Rightarrow> string \<Rightarrow> ('w, string) sqlop" where
  "requiemdb_sql_escape_fast E input = locked_world_op E (plugin_sql_escape (env_plugin E) input)"

text \<open>\<open>requiemdb_sql_escape\<close>: a NULL string becomes the word NULL, any other goes through \<open>strlen\<close>.\<close>

definition requiemdb_sql_escape :: "'w env \<Rightarrow> string option \<Rightarrow> ('w, string) sqlop" where
  "requiemdb_sql_escape E input =
    (case input of
       None \<Rightarrow> retn ''NULL''
     | Some t \<Rightarrow> requiemdb_sql_escape_fast E (cstr t))"

definition requiemdb_sql_escape_binary :: "'w env \<Rightarrow> string \<Rightarrow> ('w, string) sqlop" where
  "requiemdb_sql_escape_binary E input =
     locked_world_op E (plugin_sql_escape_binary (env_plugin E) input)"

definition requiemdb_sql_unescape_binary :: "'w env \<Rightarrow> string \<Rightarrow> ('w, string) sqlop" where
  "requiemdb_sql_unescape_binary E input =
     locked_world_op E (plugin_sql_unescape_binary (env_plugin E) input)"

section \<open>Creation, logging, destruction\<close>

definition requiemdb_sql_enable_query_logging :: "string option \<Rightarrow> bool \<Rightarrow> 'w sql \<Rightarrow> (err + nat) \<times> 'w sql" where
  "requiemdb_sql_enable_query_logging filename can_open s =
    (case filename of
       None \<Rightarrow> (Inr 0, s\<lparr>logfile := Some Log_stdout\<rparr>)
     | Some f \<Rightarrow> if can_open then (Inr 0, s\<lparr>logfile := Some (Log_file f)\<rparr>)
                 else (Inl (LibErr 0 True), s\<lparr>logfile := None\<rparr>))"

definition requiemdb_sql_disable_query_logging :: "'w sql \<Rightarrow> 'w sql" where
  "requiemdb_sql_disable_query_logging s = s\<lparr>logfile := None\<rparr>"

text \<open>
  \<open>requiemdb_sql_new\<close>: \<open>known\<close> says which plugin names are loaded, \<open>can_open\<close> whether
  the log file can be opened (its failure is ignored).  A calloc'ed object starts with status 0.
\<close>

definition requiemdb_sql_new ::
    "(string \<Rightarrow> bool) \<Rightarrow> bool \<Rightarrow> string option \<Rightarrow> settings \<Rightarrow> 'w world \<Rightarrow> (err + 'w sql) \<times> 'w world" where
  "requiemdb_sql_new known can_open type settings w =
    (case (case type of Some t \<Rightarrow> Some t | None \<Rightarrow> get_type settings) of
       None \<Rightarrow> error_verbose ERROR_INVALID_SETTINGS_STRING ''No database type specified'' w
     | Some t \<Rightarrow>
         if \<not> known t then
           error_verbose ERROR_CANNOT_LOAD_SQL_PLUGIN
             (''Could not load sql plugin '' @ [CHR 0x27] @ t @ [CHR 0x27]) w
         else
           let s = \<lparr>status = 0, sql_settings = settings, logfile = None, logged = [],
                    internal_transaction_disabled = False, lock_depth = 0, sql_world = w\<rparr>
           in (Inr (case get_log settings of
                      None \<Rightarrow> s
                    | Some f \<Rightarrow> snd (requiemdb_sql_enable_query_logging (Some f) can_open s)), w))"

definition requiemdb_sql_destroy :: "'w env \<Rightarrow> 'w sql \<Rightarrow> 'w world" where
  "requiemdb_sql_destroy E s =
    (if connected s then pl_close (env_plugin E) (sql_world s) else sql_world s)"

section \<open>The status bits\<close>

lemma connected_bit: "connected s \<longleftrightarrow> bit (status s) 0"
  using and_exp_eq_0_iff_not_bit [of "status s" 0] by (simp add: connected_def STATUS_CONNECTED_def)

lemma in_transaction_bit: "in_transaction s \<longleftrightarrow> bit (status s) 1"
  using and_exp_eq_0_iff_not_bit [of "status s" 1] by (simp add: in_transaction_def STATUS_TRANSACTION_def)

lemma status_bits:
  "bit STATUS_CONNECTED n = (n = 0)" "bit STATUS_TRANSACTION n = (n = 1)"
  "bit (NOT STATUS_CONNECTED) n = (n \<noteq> 0 \<and> n < 32)" "bit (NOT STATUS_TRANSACTION) n = (n \<noteq> 1 \<and> n < 32)"
  using bit_exp_iff [where 'a = "32 word", of 0 n] bit_exp_iff [where 'a = "32 word", of 1 n]
  by (auto simp: STATUS_CONNECTED_def STATUS_TRANSACTION_def bit_simps)

lemmas status_simps = connected_bit in_transaction_bit status_bits bit_and_iff bit_or_iff

section \<open>What each operation keeps\<close>

lemma lock_simps [simp]:
  "lock_depth (lock s) = lock_depth s + 1" "status (lock s) = status s"
  "sql_world (lock s) = sql_world s" "logged (lock s) = logged s" "logfile (lock s) = logfile s"
  "sql_settings (lock s) = sql_settings s"
  "internal_transaction_disabled (lock s) = internal_transaction_disabled s"
  by (simp_all add: lock_def)

lemma unlock_simps [simp]:
  "lock_depth (unlock s) = lock_depth s - 1" "status (unlock s) = status s"
  "sql_world (unlock s) = sql_world s" "logged (unlock s) = logged s" "logfile (unlock s) = logfile s"
  "sql_settings (unlock s) = sql_settings s"
  "internal_transaction_disabled (unlock s) = internal_transaction_disabled s"
  by (simp_all add: unlock_def)

lemma lock_unlock [simp]: "lock (unlock s) = s"
  by (simp add: lock_def unlock_def)

lemma unlock_lock [simp]: "unlock (lock s) = s"
  by (simp add: lock_def unlock_def)

lemma connected_cong: "status s = status t \<Longrightarrow> connected s = connected t"
  by (simp add: connected_def)

lemma in_transaction_cong: "status s = status t \<Longrightarrow> in_transaction s = in_transaction t"
  by (simp add: in_transaction_def)

lemma on_world_frame:
  "on_world f s = (r, s') \<Longrightarrow> s' = s\<lparr>sql_world := sql_world s'\<rparr> \<and> f (sql_world s) = (r, sql_world s')"
  by (auto simp: on_world_def split: prod.splits)

lemma on_world_simps:
  assumes "on_world f s = (r, s')"
  shows "lock_depth s' = lock_depth s" "status s' = status s" "logged s' = logged s"
    "logfile s' = logfile s" "sql_settings s' = sql_settings s"
    "internal_transaction_disabled s' = internal_transaction_disabled s"
  using assms by (auto simp: on_world_def split: prod.splits)

text \<open>The fields of the connection no operation but its own writes.\<close>

definition same_frame :: "'w sql \<Rightarrow> 'w sql \<Rightarrow> bool" where
  "same_frame s t \<longleftrightarrow> logfile t = logfile s \<and> sql_settings t = sql_settings s \<and>
     internal_transaction_disabled t = internal_transaction_disabled s"

lemma same_frame_refl [simp]: "same_frame s s"
  by (simp add: same_frame_def)

lemma same_frame_trans: "same_frame s t \<Longrightarrow> same_frame t u \<Longrightarrow> same_frame s u"
  by (simp add: same_frame_def)

lemma same_frameD:
  "same_frame s t \<Longrightarrow> logfile t = logfile s"
  "same_frame s t \<Longrightarrow> sql_settings t = sql_settings s"
  "same_frame s t \<Longrightarrow> internal_transaction_disabled t = internal_transaction_disabled s"
  by (simp_all add: same_frame_def)

lemma connect_cases:
  "requiemdb_sql_connect E s = (r, s') \<Longrightarrow>
     same_frame s s' \<and> lock_depth s' = lock_depth s \<and> logged s' = logged s \<and>
     (case r of Inl e \<Rightarrow> status s' = status s | Inr _ \<Rightarrow> status s' = STATUS_CONNECTED)"
proof -
  assume c: "requiemdb_sql_connect E s = (r, s')"
  obtain r1 s1 where o: "on_world (pl_open (env_plugin E) (sql_settings s)) s = (r1, s1)"
    by fastforce
  show ?thesis
    using c on_world_simps [OF o]
    by (cases r1) (auto simp: requiemdb_sql_connect_def o same_frame_def)
qed

lemma update_sql_from_errno_simps [simp]:
  "lock_depth (update_sql_from_errno E e s) = lock_depth s"
  "logged (update_sql_from_errno E e s) = logged s"
  "logfile (update_sql_from_errno E e s) = logfile s"
  "sql_settings (update_sql_from_errno E e s) = sql_settings s"
  "internal_transaction_disabled (update_sql_from_errno E e s) = internal_transaction_disabled s"
  "in_transaction (update_sql_from_errno E e s) = in_transaction s"
  "connected (update_sql_from_errno E e s) =
     (connected s \<and> \<not> requiemdb_error_check e ERROR_CONNECTION)"
  by (auto simp: update_sql_from_errno_def status_simps)

lemma update_sql_from_errno_other:
  "\<not> requiemdb_error_check e ERROR_CONNECTION \<Longrightarrow> update_sql_from_errno E e s = s"
  by (simp add: update_sql_from_errno_def)

lemma log_query_simps [simp]:
  "lock_depth (log_query q s) = lock_depth s" "status (log_query q s) = status s"
  "logfile (log_query q s) = logfile s" "sql_settings (log_query q s) = sql_settings s"
  "internal_transaction_disabled (log_query q s) = internal_transaction_disabled s"
  "sql_world (log_query q s) = sql_world s"
  "in_transaction (log_query q s) = in_transaction s" "connected (log_query q s) = connected s"
  "logged (log_query q s) = (if logfile s \<noteq> None then logged s @ [q] else logged s)"
  by (simp_all add: log_query_def in_transaction_def connected_def)

lemma transaction_lock_simps [simp]:
  "in_transaction (lock s) = in_transaction s" "in_transaction (unlock s) = in_transaction s"
  "connected (lock s) = connected s" "connected (unlock s) = connected s"
  by (simp_all add: in_transaction_def connected_def)

text \<open>
  A query in one lemma: it keeps the lock balanced and the frame; a connection it had stays
  unless the plugin reports its loss; a transaction bit survives it if the connection was up.
\<close>

lemma query_connected:
  assumes "connected s" and "requiemdb_sql_query E q want s = (r, s')"
  shows "same_frame s s' \<and> lock_depth s' = lock_depth s \<and> in_transaction s' = in_transaction s \<and>
     logged s' = (if logfile s \<noteq> None then logged s @ [q] else logged s) \<and>
     ((\<forall>w v. fst (pl_query (env_plugin E) q w) \<noteq> Inl (DbErr ERROR_CONNECTION v)) \<longrightarrow> connected s')"
proof -
  obtain r1 s2 where o: "on_world (pl_query (env_plugin E) q) (lock s) = (r1, s2)" by fastforce
  note f = on_world_simps [OF o]
  have c2: "connected s2" "in_transaction s2 = in_transaction s"
    using assms(1) f(2) connected_cong [of s2 "lock s"] in_transaction_cong [of s2 "lock s"] by simp_all
  have pl: "fst (pl_query (env_plugin E) q (sql_world s)) = r1"
    using on_world_frame [OF o] by simp
  show ?thesis
  proof (cases r1)
    case (Inl e)
    with assms o have s': "s' = log_query q (unlock (update_sql_from_errno E e s2))"
      by (simp add: requiemdb_sql_query_def assert_connected_def)
    have "requiemdb_error_check e ERROR_CONNECTION \<Longrightarrow> \<exists>v. e = DbErr ERROR_CONNECTION v"
      by (cases e) simp_all
    with pl Inl show ?thesis by (auto simp: s' same_frame_def f c2)
  next
    case (Inr h)
    with assms o have "s' = log_query q (unlock s2)"
      by (auto simp: requiemdb_sql_query_def assert_connected_def Let_def split: option.splits if_splits)
    then show ?thesis by (simp add: same_frame_def f c2)
  qed
qed

lemma query_unconnected_fail:
  assumes "\<not> connected s" and "requiemdb_sql_connect E (lock s) = (Inl e, s1)"
  shows "requiemdb_sql_query E q want s = (Inl e, unlock s1)"
  using assms by (simp add: requiemdb_sql_query_def assert_connected_def)

lemma query_unconnected_ok:
  assumes "\<not> connected s" and "requiemdb_sql_connect E (lock s) = (Inr n, s1)"
  shows "requiemdb_sql_query E q want s = requiemdb_sql_query E q want (unlock s1) \<and> connected (unlock s1)"
proof -
  have st: "status s1 = STATUS_CONNECTED" using connect_cases [OF assms(2)] by simp
  then have c: "connected s1" by (simp add: status_simps)
  with assms show ?thesis by (simp add: requiemdb_sql_query_def assert_connected_def)
qed

lemma query_frame:
  assumes "requiemdb_sql_query E q want s = (r, s')"
  shows "same_frame s s' \<and> lock_depth s' = lock_depth s \<and> (in_transaction s' \<longrightarrow> in_transaction s)"
proof (cases "connected s")
  case True
  from query_connected [OF True assms] show ?thesis by simp
next
  case False
  obtain r1 s1 where c: "requiemdb_sql_connect E (lock s) = (r1, s1)" by fastforce
  note cc = connect_cases [OF c]
  show ?thesis
  proof (cases r1)
    case (Inl e)
    with query_unconnected_fail [OF False, of E e s1] c assms have "s' = unlock s1" by simp
    with cc Inl show ?thesis
      by (auto simp: same_frame_def in_transaction_def)
  next
    case (Inr n)
    with query_unconnected_ok [OF False, of E n s1] c assms
    have q: "requiemdb_sql_query E q want (unlock s1) = (r, s')" and u: "connected (unlock s1)" by simp_all
    from query_connected [OF u q] cc Inr
    show ?thesis by (auto simp: same_frame_def status_simps)
  qed
qed

lemma query_unconnected_clears_transaction:
  assumes "\<not> connected s" and "requiemdb_sql_connect E (lock s) = (Inr n, s1)"
    and "requiemdb_sql_query E q want s = (r, s')"
  shows "\<not> in_transaction s'"
proof -
  from query_unconnected_ok [OF assms(1,2), of q want] assms(3)
  have q: "requiemdb_sql_query E q want (unlock s1) = (r, s')" and u: "connected (unlock s1)" by simp_all
  from query_connected [OF u q] connect_cases [OF assms(2)] show ?thesis
    by (simp add: status_simps)
qed

lemma sql_exec_run:
  "sql_exec E q s = (case requiemdb_sql_query E q False s of
      (Inl e, s') \<Rightarrow> (Inl e, s') | (Inr p, s') \<Rightarrow> (Inr (fst p), s'))"
  by (simp add: sql_exec_def bindr_def split: prod.split sum.split)

lemma sql_exec_query:
  "sql_exec E q s = (r, s') \<Longrightarrow> \<exists>r'. requiemdb_sql_query E q False s = (r', s') \<and>
     (case r of Inl e \<Rightarrow> r' = Inl e | Inr n \<Rightarrow> \<exists>h. r' = Inr (n, h))"
  by (auto simp: sql_exec_run split: prod.splits sum.splits)

lemma sql_exec_frame:
  assumes "sql_exec E q s = (r, s')"
  shows "same_frame s s' \<and> lock_depth s' = lock_depth s \<and> (in_transaction s' \<longrightarrow> in_transaction s)"
  using sql_exec_query [OF assms] query_frame by blast

lemma sql_exec_connected:
  assumes "connected s" and "sql_exec E q s = (r, s')"
  shows "same_frame s s' \<and> lock_depth s' = lock_depth s \<and> in_transaction s' = in_transaction s \<and>
     logged s' = (if logfile s \<noteq> None then logged s @ [q] else logged s) \<and>
     ((\<forall>w v. fst (pl_query (env_plugin E) q w) \<noteq> Inl (DbErr ERROR_CONNECTION v)) \<longrightarrow> connected s')"
  using sql_exec_query [OF assms(2)] query_connected [OF assms(1)] by metis

lemma same_frame_lock [simp]:
  "same_frame (lock s) t = same_frame s t" "same_frame (unlock s) t = same_frame s t"
  "same_frame s (unlock t) = same_frame s t" "same_frame s (lock t) = same_frame s t"
  by (simp_all add: same_frame_def)

lemma status_cong:
  "status s = status t \<Longrightarrow> in_transaction s = in_transaction t \<and> connected s = connected t"
  by (simp add: in_transaction_def connected_def)

lemma locked_world_op_frame:
  assumes "locked_world_op E f s = (r, s')"
  shows "same_frame s s' \<and> lock_depth s' = lock_depth s \<and> logged s' = logged s \<and>
     (in_transaction s' \<longrightarrow> in_transaction s) \<and> (connected s \<longrightarrow> status s' = status s)"
proof (cases "connected s")
  case True
  obtain r1 s1 where o: "on_world f (lock s) = (r1, s1)" by fastforce
  with True assms have s': "s' = unlock s1" by (simp add: locked_world_op_def assert_connected_def)
  show ?thesis using on_world_simps [OF o] status_cong [of s' s]
    by (simp add: s' same_frame_def)
next
  case False
  obtain r1 s1 where c: "requiemdb_sql_connect E (lock s) = (r1, s1)" by fastforce
  note cc = connect_cases [OF c]
  show ?thesis
  proof (cases r1)
    case (Inl e)
    with False c assms have "s' = unlock s1" by (simp add: locked_world_op_def assert_connected_def)
    with cc Inl False show ?thesis using status_cong [of s1 s] by simp
  next
    case (Inr n)
    obtain r2 s2 where o: "on_world f s1 = (r2, s2)" by fastforce
    from Inr False c assms o have s': "s' = unlock s2"
      by (simp add: locked_world_op_def assert_connected_def)
    from on_world_simps [OF o] cc Inr False show ?thesis
      by (simp add: s' same_frame_def status_simps)
  qed
qed

lemma escape_frame:
  assumes "requiemdb_sql_escape E t s = (r, s')"
  shows "same_frame s s' \<and> lock_depth s' = lock_depth s \<and> logged s' = logged s \<and>
     (in_transaction s' \<longrightarrow> in_transaction s) \<and> (connected s \<longrightarrow> status s' = status s)"
proof (cases t)
  case None
  with assms show ?thesis by (auto simp: requiemdb_sql_escape_def)
next
  case (Some a)
  with assms show ?thesis
    by (auto simp: requiemdb_sql_escape_def requiemdb_sql_escape_fast_def dest: locked_world_op_frame)
qed

lemma escape_binary_frame:
  assumes "requiemdb_sql_escape_binary E t s = (r, s')"
  shows "same_frame s s' \<and> lock_depth s' = lock_depth s \<and> logged s' = logged s \<and>
     (in_transaction s' \<longrightarrow> in_transaction s) \<and> (connected s \<longrightarrow> status s' = status s)"
  using assms locked_world_op_frame unfolding requiemdb_sql_escape_binary_def by blast

section \<open>Transactions\<close>

lemma start_cases:
  assumes "sql_transaction_start E s = (r, s')"
  shows "same_frame s s' \<and>
    (case r of
       Inl e \<Rightarrow> lock_depth s' = lock_depth s \<and> (in_transaction s' \<longrightarrow> in_transaction s)
     | Inr n \<Rightarrow> \<not> in_transaction s \<and> in_transaction s' \<and> lock_depth s' = lock_depth s + 1)"
proof (cases "in_transaction s")
  case True
  with assms show ?thesis by (auto simp: sql_transaction_start_def Let_def)
next
  case False
  obtain r1 s1 where q: "sql_exec E ''BEGIN'' (lock s) = (r1, s1)" by fastforce
  from sql_exec_frame [OF q] False assms q show ?thesis
    by (cases r1) (auto simp: sql_transaction_start_def Let_def same_frame_def status_simps)
qed

lemma end_cases:
  assumes "sql_transaction_end E s = (r, s')"
  shows "same_frame s s' \<and> \<not> in_transaction s' \<and>
    (if in_transaction s then lock_depth s' = lock_depth s - 1 \<and> r = fst (sql_exec E ''COMMIT'' s)
     else s' = s \<and> r = Inl (requiemdb_error ERROR_NOT_IN_TRANSACTION))"
proof (cases "in_transaction s")
  case False
  with assms show ?thesis by (auto simp: sql_transaction_end_def)
next
  case True
  obtain r1 s1 where q: "sql_exec E ''COMMIT'' s = (r1, s1)" by fastforce
  from sql_exec_frame [OF q] True assms q show ?thesis
    by (auto simp: sql_transaction_end_def same_frame_def status_simps)
qed

lemma abort_cases:
  assumes "sql_transaction_abort E s = (r, s')"
  shows "same_frame s s' \<and> \<not> in_transaction s' \<and>
    (if in_transaction s then lock_depth s' = lock_depth s - 1
     else s' = s \<and> r = Inl (requiemdb_error ERROR_NOT_IN_TRANSACTION))"
proof (cases "in_transaction s")
  case False
  with assms show ?thesis by (auto simp: sql_transaction_abort_def)
next
  case True
  let ?s = "s\<lparr>status := status s AND NOT STATUS_TRANSACTION\<rparr>"
  have t: "\<not> in_transaction ?s" "same_frame s ?s" "lock_depth ?s = lock_depth s"
    by (simp_all add: status_simps same_frame_def)
  obtain r1 s1 where q: "sql_exec E ''ROLLBACK'' ?s = (r1, s1)" by fastforce
  note f = sql_exec_frame [OF q]
  have verbose: "same_frame u v \<and> lock_depth v = lock_depth u \<and> in_transaction v = in_transaction u"
    if "on_world (error_verbose c m) u = (x, v)" for c m u v and x :: "err + nat"
    using on_world_simps [OF that] status_cong [of v u] by (simp add: same_frame_def)
  show ?thesis
    using True assms t f q
    by (auto simp: sql_transaction_abort_def Let_def split: option.splits sum.splits if_splits prod.splits
        dest!: verbose dest: same_frame_trans)
qed

end
