(* ===== verification/SqlFields.thy ===== *)
theory SqlFields
  imports SqlConn
begin

text \<open>
  Result tables, rows and typed fields, and the conversion of times (\<open>src/requiemdb-sql.c\<close>,
  the functions \<open>requiemdb_sql_table_*\<close>, \<open>requiemdb_sql_row_*\<close>,
  \<open>requiemdb_sql_field_to_*\<close>, \<open>requiemdb_sql_time_*\<close>).  A table is the handle of its
  result set, a row the handle of the row, a field its value; the lists of rows and fields
  kept for freeing them are not modelled.  \<open>sscanf\<close>'s integer conversions are written out.
\<close>

section \<open>Tables and rows\<close>

definition requiemdb_sql_table_get_column_name :: "'w env \<Rightarrow> 'w sql \<Rightarrow> sql_res \<Rightarrow> nat \<Rightarrow> string option" where
  "requiemdb_sql_table_get_column_name E s r n = pl_get_column_name (env_plugin E) (sql_world s) r n"

definition requiemdb_sql_table_get_column_num :: "'w env \<Rightarrow> 'w sql \<Rightarrow> sql_res \<Rightarrow> string \<Rightarrow> int" where
  "requiemdb_sql_table_get_column_num E s r name = pl_get_column_num (env_plugin E) (sql_world s) r name"

definition requiemdb_sql_table_get_column_count :: "'w env \<Rightarrow> 'w sql \<Rightarrow> sql_res \<Rightarrow> nat" where
  "requiemdb_sql_table_get_column_count E s r = pl_get_column_count (env_plugin E) (sql_world s) r"

definition requiemdb_sql_table_get_row_count :: "'w env \<Rightarrow> 'w sql \<Rightarrow> sql_res \<Rightarrow> nat" where
  "requiemdb_sql_table_get_row_count E s r = pl_get_row_count (env_plugin E) (sql_world s) r"

definition requiemdb_sql_table_destroy :: "'w env \<Rightarrow> sql_res \<Rightarrow> 'w sql \<Rightarrow> 'w sql" where
  "requiemdb_sql_table_destroy E r s =
     s\<lparr>sql_world := pl_resource_destroy (env_plugin E) r (sql_world s)\<rparr>"

text \<open>Fetching reports the loss of the connection as a query does.\<close>

definition noting_errno :: "'w env \<Rightarrow> ('w, 'a) sqlop \<Rightarrow> ('w, 'a) sqlop" where
  "noting_errno E f = (\<lambda>s. case f s of
       (Inl e, s') \<Rightarrow> (Inl e, update_sql_from_errno E e s')
     | (Inr a, s') \<Rightarrow> (Inr a, s'))"

definition requiemdb_sql_table_fetch_row :: "'w env \<Rightarrow> sql_res \<Rightarrow> ('w, sql_rowh option) sqlop" where
  "requiemdb_sql_table_fetch_row E r = noting_errno E (on_world (plugin_sql_fetch_row (env_plugin E) r))"

definition requiemdb_sql_row_fetch_field ::
    "'w env \<Rightarrow> sql_res \<Rightarrow> sql_rowh \<Rightarrow> nat \<Rightarrow> ('w, string option) sqlop" where
  "requiemdb_sql_row_fetch_field E r row col =
     noting_errno E (on_world (plugin_sql_fetch_field (env_plugin E) r row col))"

definition requiemdb_sql_row_fetch_field_by_name ::
    "'w env \<Rightarrow> sql_res \<Rightarrow> sql_rowh \<Rightarrow> string \<Rightarrow> ('w, string option) sqlop" where
  "requiemdb_sql_row_fetch_field_by_name E r row name = (\<lambda>s.
     let n = requiemdb_sql_table_get_column_num E s r name
     in if n < 0 then (Inl (RawErr n), s)
        else requiemdb_sql_row_fetch_field E r row (nat n) s)"

section \<open>Typed fields\<close>

text \<open>
  One integer conversion of \<open>sscanf\<close>: white space, an optional sign, digits.  It reports the
  end of the input, a mismatch, or the number and the rest of the input.
\<close>

datatype scan = Scan_eof | Scan_mismatch | Scan_int int string

fun skip_white :: "string \<Rightarrow> string" where
  "skip_white [] = []"
| "skip_white (c # cs) = (if isspace c then skip_white cs else c # cs)"

definition scan_digits :: "bool \<Rightarrow> string \<Rightarrow> scan" where
  "scan_digits neg t =
    (let ds = takeWhile isdigit t
     in if ds = [] then Scan_mismatch
        else Scan_int (if neg then - int (digits_val ds) else int (digits_val ds)) (dropWhile isdigit t))"

definition scan_int :: "string \<Rightarrow> scan" where
  "scan_int t =
    (case skip_white t of
       [] \<Rightarrow> Scan_eof
     | c # cs \<Rightarrow>
         if c = CHR ''-'' then scan_digits True cs
         else if c = CHR ''+'' then scan_digits False cs
         else scan_digits False (c # cs))"

text \<open>
  What a conversion leaves in the variable: nothing, a value, or (a number outside the type)
  what the C standard leaves undefined.  An unsigned conversion negates modulo the width.
\<close>

datatype stored = Unset | Stored int | Undefined

definition store_signed :: "nat \<Rightarrow> int \<Rightarrow> stored" where
  "store_signed bits v = (if - (2 ^ (bits - 1)) \<le> v \<and> v < 2 ^ (bits - 1) then Stored v else Undefined)"

definition store_unsigned :: "nat \<Rightarrow> int \<Rightarrow> stored" where
  "store_unsigned bits v = (if - (2 ^ bits) < v \<and> v < 2 ^ bits then Stored (v mod 2 ^ bits) else Undefined)"

text \<open>
  The macro \<open>requiemdb_sql_field_to\<close>: only the end of the input is an error; a mismatch
  leaves the variable unset and returns 0.
\<close>

definition field_to :: "(int \<Rightarrow> stored) \<Rightarrow> string \<Rightarrow> err + stored" where
  "field_to conv v =
    (case scan_int (cstr v) of
       Scan_eof \<Rightarrow> Inl (requiemdb_error ERROR_INVALID_VALUE)
     | Scan_mismatch \<Rightarrow> Inr Unset
     | Scan_int n _ \<Rightarrow> Inr (conv n))"

definition field_to_int16 :: "string \<Rightarrow> err + stored" where
  "field_to_int16 = field_to (store_signed 16)"
definition field_to_uint16 :: "string \<Rightarrow> err + stored" where
  "field_to_uint16 = field_to (store_unsigned 16)"
definition field_to_int32 :: "string \<Rightarrow> err + stored" where
  "field_to_int32 = field_to (store_signed 32)"
definition field_to_uint32 :: "string \<Rightarrow> err + stored" where
  "field_to_uint32 = field_to (store_unsigned 32)"
definition field_to_int64 :: "string \<Rightarrow> err + stored" where
  "field_to_int64 = field_to (store_signed 64)"
definition field_to_uint64 :: "string \<Rightarrow> err + stored" where
  "field_to_uint64 = field_to (store_unsigned 64)"

text \<open>
  The macro \<open>requiemdb_sql_field_to_int8\<close>: the number goes through an \<open>int\<close> and is checked
  against the type's bounds; here a mismatch is an error too.
\<close>

definition as_int32 :: "int \<Rightarrow> int" where
  "as_int32 v = (if v < 2 ^ 31 then v else v - 2 ^ 32)"

definition field_to_int8_with :: "(int \<Rightarrow> stored) \<Rightarrow> int \<Rightarrow> int \<Rightarrow> string \<Rightarrow> err + stored" where
  "field_to_int8_with conv lo hi v =
    (case scan_int (cstr v) of
       Scan_int n _ \<Rightarrow>
         (case conv n of
            Stored t \<Rightarrow>
              (let tmp = as_int32 t
               in if tmp < lo \<or> tmp > hi then Inl (requiemdb_error ERROR_INVALID_VALUE) else Inr (Stored tmp))
          | u \<Rightarrow> Inr u)
     | _ \<Rightarrow> Inl (requiemdb_error ERROR_INVALID_VALUE))"

definition field_to_int8 :: "string \<Rightarrow> err + stored" where
  "field_to_int8 = field_to_int8_with (store_signed 32) (- 128) 127"
definition field_to_uint8 :: "string \<Rightarrow> err + stored" where
  "field_to_uint8 = field_to_int8_with (store_unsigned 32) 0 255"

text \<open>
  The conversion \<open>%f\<close> is an argument: the end of the input (\<open>None\<close>), no number, or the number
  (the bits of a \<open>float\<close>).
\<close>

definition field_to_float :: "'w env \<Rightarrow> string \<Rightarrow> err + 32 word option" where
  "field_to_float E v =
    (case scan_float E (cstr v) of
       None \<Rightarrow> Inl (requiemdb_error ERROR_INVALID_VALUE)
     | Some r \<Rightarrow> Inr r)"

section \<open>Times\<close>

text \<open>A literal byte of a \<open>scanf\<close> format must be the next byte; a space skips white space.\<close>

fun scan_fields :: "string \<Rightarrow> string \<Rightarrow> int list" where
  "scan_fields [] t = (case scan_int t of Scan_int n _ \<Rightarrow> [n] | _ \<Rightarrow> [])"
| "scan_fields (sep # seps) t =
    (case scan_int t of
       Scan_int n rest \<Rightarrow>
         n # (if sep = CHR '' '' then scan_fields seps (skip_white rest)
              else (case rest of
                      c # rest' \<Rightarrow> if c = sep then scan_fields seps rest' else []
                    | [] \<Rightarrow> []))
     | _ \<Rightarrow> [])"

text \<open>\<open>requiemdb_sql_time_from_timestamp\<close> with the format \<open>%d-%d-%d %d:%d:%d\<close>.\<close>

definition requiemdb_sql_time_from_timestamp ::
    "'w env \<Rightarrow> string \<Rightarrow> int \<Rightarrow> int \<Rightarrow> ('w world, err, idmef_time) cop" where
  "requiemdb_sql_time_from_timestamp E time_buf gmtoff usec =
    (case scan_fields ''-- ::'' (cstr time_buf) of
       [y, mo, d, h, mi, sec] \<Rightarrow>
         retn \<lparr>time_sec = requiem_timegm E \<lparr>tm_sec = sec, tm_min = mi, tm_hour = h, tm_mday = d,
                            tm_mon = mo - 1, tm_year = y - 1900, tm_wday = 0, tm_yday = 0\<rparr>,
               time_usec = usec, time_gmtoff = gmtoff\<rparr>
     | _ \<Rightarrow> error_verbose ERROR_GENERIC
             (''Database returned an unknown time format: '' @ [CHR 0x27] @ time_buf @ [CHR 0x27]))"

text \<open>\<open>snprintf\<close> into a buffer of the given size keeps one byte less.\<close>

definition snprintf :: "nat \<Rightarrow> string \<Rightarrow> string" where
  "snprintf bufsize text = take (bufsize - 1) text"

text \<open>
  \<open>requiemdb_sql_time_to_timestamp\<close>: the text of the time, and of the GMT offset and the
  microseconds where the caller passes a buffer (its size).
\<close>

definition requiemdb_sql_time_to_timestamp ::
    "'w env \<Rightarrow> idmef_time option \<Rightarrow> nat \<Rightarrow> nat option \<Rightarrow> nat option \<Rightarrow>
     err + (string \<times> string option \<times> string option)" where
  "requiemdb_sql_time_to_timestamp E time tsize gsize usize =
    (case time of
       None \<Rightarrow> Inr (snprintf tsize ''NULL'', map_option (\<lambda>n. snprintf n ''NULL'') gsize,
                   map_option (\<lambda>n. snprintf n ''NULL'') usize)
     | Some t \<Rightarrow>
         (case gmtime_r E (time_sec t) of
            None \<Rightarrow> Inl (LibErr 0 False)
          | Some utc \<Rightarrow>
              (case plugin_sql_build_timestamp_string (env_plugin E) utc tsize of
                 Inl e \<Rightarrow> Inl e
               | Inr text \<Rightarrow>
                   Inr (text, map_option (\<lambda>n. snprintf n (dec_int (time_gmtoff t))) gsize,
                        map_option (\<lambda>n. snprintf n (dec_int (as_int32 (time_usec t)))) usize))))"

definition TIMESTAMP_STRING_SIZE :: nat where "TIMESTAMP_STRING_SIZE = 128"

section \<open>Lemmas\<close>

lemma isdigit_not_space: "isdigit c \<Longrightarrow> \<not> isspace c"
  by (auto simp: isdigit_def isspace_def Let_def)

lemma isdigit_not_sign: "isdigit c \<Longrightarrow> c \<noteq> CHR ''-'' \<and> c \<noteq> CHR ''+'' \<and> c \<noteq> NUL"
  by (auto simp: isdigit_def Let_def)

definition stops_digits :: "string \<Rightarrow> bool" where
  "stops_digits rest \<longleftrightarrow> (rest = [] \<or> \<not> isdigit (hd rest))"

lemma takeWhile_digits:
  "list_all isdigit ds \<Longrightarrow> stops_digits rest \<Longrightarrow>
   takeWhile isdigit (ds @ rest) = ds \<and> dropWhile isdigit (ds @ rest) = rest"
  by (induction ds) (cases rest; auto simp: stops_digits_def)+

lemma scan_digits_run:
  "list_all isdigit ds \<Longrightarrow> ds \<noteq> [] \<Longrightarrow> stops_digits rest \<Longrightarrow>
   scan_digits neg (ds @ rest) =
     Scan_int (if neg then - int (digits_val ds) else int (digits_val ds)) rest"
  by (simp add: scan_digits_def takeWhile_digits)

lemma skip_white_digits:
  "list_all isdigit ds \<Longrightarrow> ds \<noteq> [] \<Longrightarrow> skip_white (ds @ rest) = ds @ rest"
  by (cases ds) (auto simp: isdigit_not_space)

lemma scan_int_digits:
  assumes "list_all isdigit ds" and "ds \<noteq> []" and "stops_digits rest"
  shows "scan_int (ds @ rest) = Scan_int (int (digits_val ds)) rest"
proof -
  obtain c cs where ds: "ds = c # cs" using assms(2) by (cases ds) auto
  then have "isdigit c" using assms(1) by simp
  with scan_digits_run [OF assms, of False] skip_white_digits [OF assms(1,2), of rest]
  show ?thesis by (simp add: scan_int_def ds isdigit_not_sign)
qed

lemma scan_int_minus:
  assumes "list_all isdigit ds" and "ds \<noteq> []" and "stops_digits rest"
  shows "scan_int (CHR ''-'' # ds @ rest) = Scan_int (- int (digits_val ds)) rest"
  using scan_digits_run [OF assms, of True]
  by (simp add: scan_int_def isspace_def)

lemma scan_int_dec_int:
  "stops_digits rest \<Longrightarrow> scan_int (dec_int i @ rest) = Scan_int i rest"
  by (cases "i < 0")
    (simp_all add: dec_int_def scan_int_digits scan_int_minus dec_nat_digits)

lemma digits_val_zeros: "digits_val (replicate k (CHR ''0'') @ s) = digits_val s"
proof (induction k)
  case (Suc k)
  have "digits_val (CHR ''0'' # t) = digits_val t" for t
    by (simp add: digits_val_def digit_val_def)
  with Suc show ?case by simp
qed simp

lemma scan_int_dec2_int:
  assumes "stops_digits rest"
  shows "scan_int (dec2_int i @ rest) = Scan_int i rest"
proof -
  have d: "list_all isdigit (pad2 (dec_nat n))" "pad2 (dec_nat n) \<noteq> []"
    "digits_val (pad2 (dec_nat n)) = n" for n
    using dec_nat_digits [of n]
    by (auto simp: pad2_def digits_val_zeros list_all_iff isdigit_def Let_def)
  show ?thesis
    by (cases "i < 0") (simp_all add: dec2_int_def scan_int_digits scan_int_minus d assms)
qed

lemma no_nul_dec_nat: "NUL \<notin> set (dec_nat n)"
  using dec_nat_digits [of n] isdigit_not_sign by (auto simp: list_all_iff)

lemma no_nul_dec_int: "NUL \<notin> set (dec_int i)" "NUL \<notin> set (dec2_int i)"
  by (auto simp: dec_int_def dec2_int_def pad2_def no_nul_dec_nat)

lemma cstr_no_nul: "NUL \<notin> set s \<Longrightarrow> cstr s = s"
  by (auto simp: cstr_def takeWhile_eq_all_conv)

lemma scan_timestamp:
  "scan_fields ''-- ::'' (timestamp_text t) =
     [tm_year t + 1900, tm_mon t + 1, tm_mday t, tm_hour t, tm_min t, tm_sec t]"
proof -
  have stop: "stops_digits (CHR ''-'' # r)" "stops_digits (CHR '' '' # r)"
    "stops_digits (CHR '':'' # r)" "stops_digits []" for r
    by (simp_all add: stops_digits_def isdigit_def Let_def)
  have sp: "scan_int (CHR '' '' # u) = scan_int u" for u
    by (simp add: scan_int_def isspace_def)
  have white: "scan_int (skip_white u) = scan_int u" for u
    by (simp add: scan_int_def) (induction u; simp)
  show ?thesis
    using scan_int_dec2_int [OF stop(4)]
    by (simp add: timestamp_text_def scan_int_dec_int scan_int_dec2_int stop sp white)
qed

text \<open>The text of a time, read back as its parts.\<close>

lemma timestamp_read:
  assumes "requiem_timegm E (utc\<lparr>tm_wday := 0, tm_yday := 0\<rparr>) = sec"
  shows "requiemdb_sql_time_from_timestamp E (timestamp_text utc) gmtoff usec w =
    (Inr \<lparr>time_sec = sec, time_usec = usec, time_gmtoff = gmtoff\<rparr>, w)"
proof -
  have "cstr (timestamp_text utc) = timestamp_text utc"
    by (rule cstr_no_nul) (simp add: timestamp_text_def no_nul_dec_int)
  moreover have "requiem_timegm E \<lparr>tm_sec = tm_sec utc, tm_min = tm_min utc, tm_hour = tm_hour utc,
      tm_mday = tm_mday utc, tm_mon = tm_mon utc, tm_year = tm_year utc, tm_wday = 0, tm_yday = 0\<rparr> = sec"
    using assms by (cases utc) simp
  ultimately show ?thesis
    by (simp add: requiemdb_sql_time_from_timestamp_def scan_timestamp del: scan_fields.simps)
qed

section \<open>Properties\<close>


text \<open>
  A field that is no number is not refused by the wide conversions: they return success
  and leave the caller's variable as it was, whereas the 8-bit conversions report the error.
\<close>
theorem non_numeric_field_accepted:
  assumes "t = c # cs" and "c \<noteq> NUL" and "\<not> isspace c" and "\<not> isdigit c"
    and "c \<noteq> CHR ''-''" and "c \<noteq> CHR ''+''"
  shows "field_to_int32 t = Inr Unset \<and> field_to_uint32 t = Inr Unset \<and>
    field_to_uint64 t = Inr Unset \<and>
    field_to_uint8 t = Inl (requiemdb_error ERROR_INVALID_VALUE)"
proof -
  have "scan_int (cstr t) = Scan_mismatch"
    using assms by (simp add: scan_int_def cstr_def scan_digits_def)
  then show ?thesis
    by (simp add: field_to_int32_def field_to_uint32_def field_to_uint64_def field_to_uint8_def
        field_to_def field_to_int8_with_def)
qed

theorem non_numeric_field_accepted_witness:
  "field_to_int32 ''abc'' = Inr Unset \<and> field_to_uint32 ''abc'' = Inr Unset \<and>
    field_to_uint64 ''abc'' = Inr Unset \<and>
    field_to_uint8 ''abc'' = Inl (requiemdb_error ERROR_INVALID_VALUE)"
  by (rule non_numeric_field_accepted [of _ "CHR ''a''" "''bc''"])
    (simp_all add: isspace_def isdigit_def)

text \<open>
  C29.  Round trip of a time through its SQL timestamp: if the C library splits the time into
  \<open>utc\<close> and \<open>requiem_timegm\<close> joins these fields again, then the timestamp written with a
  large enough buffer by a plugin without its own format is, between its quotes, read back as
  the same time.
\<close>
theorem timestamp_roundtrip:
  assumes split: "gmtime_r E (time_sec t) = Some utc"
    and join: "requiem_timegm E (utc\<lparr>tm_wday := 0, tm_yday := 0\<rparr>) = time_sec t"
    and plain: "pl_build_timestamp (env_plugin E) = None"
    and room: "length (timestamp_text utc) + 2 < tsize"
  shows "\<exists>text. requiemdb_sql_time_to_timestamp E (Some t) tsize None None =
            Inr ([CHR 0x27] @ text @ [CHR 0x27], None, None) \<and>
          requiemdb_sql_time_from_timestamp E text (time_gmtoff t) (time_usec t) w = (Inr t, w)"
proof (intro exI conjI)
  show "requiemdb_sql_time_to_timestamp E (Some t) tsize None None =
      Inr ([CHR 0x27] @ timestamp_text utc @ [CHR 0x27], None, None)"
    using split plain room
    by (simp add: requiemdb_sql_time_to_timestamp_def plugin_sql_build_timestamp_string_def)
  show "requiemdb_sql_time_from_timestamp E (timestamp_text utc) (time_gmtoff t) (time_usec t) w = (Inr t, w)"
    using timestamp_read [OF join] by simp
qed

definition epoch_tm :: tm where
  "epoch_tm = \<lparr>tm_sec = 0, tm_min = 0, tm_hour = 0, tm_mday = 1, tm_mon = 0, tm_year = 70,
     tm_wday = 4, tm_yday = 0\<rparr>"

definition null_env :: "'w env" where
  "null_env = \<lparr>env_plugin = null_plugin, requiem_strerror = (\<lambda>_. []),
     idmef_path_new_fast = (\<lambda>_. Inl (RawErr (- 1))), idmef_path_compare = (\<lambda>_ _. 0),
     idmef_path_ncompare = (\<lambda>_ _ _. 0), idmef_class_get_name = (\<lambda>_. []),
     enum_to_string = (\<lambda>_ _. None), gmtime_r = (\<lambda>_. Some epoch_tm), requiem_timegm = (\<lambda>_. 0),
     format_float = (\<lambda>_. ''0.0''), string_released = Some,
     idmef_time_new = \<lparr>time_sec = 0, time_usec = 0, time_gmtoff = 0\<rparr>,
     idmef_value_new_from_path = (\<lambda>_ _. Inl (RawErr (- 1))),
     enum_to_numeric = (\<lambda>_ _. - 1), enum_default = (\<lambda>_. 0), scan_float = (\<lambda>_. None),
     idmef_data_set = (\<lambda>v. \<lparr>data_type_of = DATA_OTHER, data_bytes = [], data_to_string = Inr []\<rparr>),
     additional_data_kind = (\<lambda>_. None)\<rparr>"

theorem timestamp_roundtrip_witness:
  "\<exists>text. requiemdb_sql_time_to_timestamp (null_env :: unit env)
        (Some \<lparr>time_sec = 0, time_usec = 5, time_gmtoff = 3600\<rparr>) 128 None None =
      Inr ([CHR 0x27] @ text @ [CHR 0x27], None, None) \<and>
    requiemdb_sql_time_from_timestamp (null_env :: unit env) text
      (time_gmtoff \<lparr>time_sec = 0, time_usec = 5, time_gmtoff = 3600\<rparr>)
      (time_usec \<lparr>time_sec = 0, time_usec = 5, time_gmtoff = 3600\<rparr>)
      \<lparr>thread_error = None, session = ()\<rparr> =
    (Inr \<lparr>time_sec = 0, time_usec = 5, time_gmtoff = 3600\<rparr>, \<lparr>thread_error = None, session = ()\<rparr>)"
  by (rule timestamp_roundtrip [where utc = epoch_tm])
    (simp_all add: null_env_def null_plugin_def timestamp_text_def epoch_tm_def dec_int_def
      dec2_int_def pad2_def dec_nat.simps)

end
