(* ===== verification/SqlSession.thy ===== *)
theory SqlSession
  imports SqlFields
begin

text \<open>
  The connection as a state machine.  \<open>sql_step\<close> lists what a thread can do with a
  connection through the functions of \<open>src/requiemdb-sql.c\<close>; \<open>sql_reachable\<close> are the
  states such runs lead to from a fresh connection.  The locale \<open>sql_client\<close> is the
  interface the format plugin sees: the operations it calls, and a state predicate each of
  them keeps as long as the statements sent satisfy a predicate on statement texts.
\<close>

unbundle bit_operations_syntax

section \<open>Fetching and destroying\<close>

lemma noting_errno_frame:
  assumes "noting_errno E (on_world f) s = (r, s')"
  shows "same_frame s s' \<and> lock_depth s' = lock_depth s \<and> logged s' = logged s \<and>
    in_transaction s' = in_transaction s \<and>
    ((\<forall>w v. fst (f w) \<noteq> Inl (DbErr ERROR_CONNECTION v)) \<longrightarrow> connected s' = connected s)"
proof -
  obtain r1 s1 where o: "on_world f s = (r1, s1)" by fastforce
  note f = on_world_simps [OF o]
  have st: "in_transaction s1 = in_transaction s" "connected s1 = connected s"
    using status_cong [of s1 s] f by simp_all
  have fst_f: "fst (f (sql_world s)) = r1" using on_world_frame [OF o] by simp
  show ?thesis
  proof (cases r1)
    case (Inl e)
    have "\<not> requiemdb_error_check e ERROR_CONNECTION"
      if "\<forall>w v. fst (f w) \<noteq> Inl (DbErr ERROR_CONNECTION v)"
      using that fst_f Inl by (cases e) auto
    with assms o Inl f st show ?thesis
      by (auto simp: noting_errno_def same_frame_def)
  next
    case (Inr a)
    with assms o f st show ?thesis by (auto simp: noting_errno_def same_frame_def)
  qed
qed

lemma fetch_row_frame:
  assumes "requiemdb_sql_table_fetch_row E r s = (x, s')"
  shows "same_frame s s' \<and> lock_depth s' = lock_depth s \<and> logged s' = logged s \<and>
    in_transaction s' = in_transaction s"
  using noting_errno_frame [OF assms [unfolded requiemdb_sql_table_fetch_row_def]] by simp

lemma fetch_field_frame:
  assumes "requiemdb_sql_row_fetch_field E r row col s = (x, s')"
  shows "same_frame s s' \<and> lock_depth s' = lock_depth s \<and> logged s' = logged s \<and>
    in_transaction s' = in_transaction s"
  using noting_errno_frame [OF assms [unfolded requiemdb_sql_row_fetch_field_def]] by simp

lemma table_destroy_frame:
  "same_frame s (requiemdb_sql_table_destroy E r s)"
  "lock_depth (requiemdb_sql_table_destroy E r s) = lock_depth s"
  "logged (requiemdb_sql_table_destroy E r s) = logged s"
  "in_transaction (requiemdb_sql_table_destroy E r s) = in_transaction s"
  "connected (requiemdb_sql_table_destroy E r s) = connected s"
  by (simp_all add: requiemdb_sql_table_destroy_def same_frame_def in_transaction_def connected_def)

section \<open>The interface of the format plugin\<close>

locale sql_client =
  fixes E :: "'w env"
    and Q :: "string \<Rightarrow> bool"
    and I :: "'w sql \<Rightarrow> bool"
  assumes query_keeps: "Q q \<Longrightarrow> keeps I (requiemdb_sql_query E q want)"
    and locked_keeps: "keeps I (locked_world_op E (op :: ('w world, err, string) cop))"
    and fetch_row_keeps: "keeps I (requiemdb_sql_table_fetch_row E r)"
    and fetch_field_keeps: "keeps I (requiemdb_sql_row_fetch_field E r row col)"
    and world_keeps: "I s \<Longrightarrow> I (s\<lparr>sql_world := w\<rparr>)"
begin

lemma escape_keeps: "keeps I (requiemdb_sql_escape E t)"
  by (cases t) (simp_all add: requiemdb_sql_escape_def requiemdb_sql_escape_fast_def keeps_retn locked_keeps)

lemma escape_binary_keeps: "keeps I (requiemdb_sql_escape_binary E b)"
  unfolding requiemdb_sql_escape_binary_def by (rule locked_keeps)

lemma unescape_binary_keeps: "keeps I (requiemdb_sql_unescape_binary E b)"
  unfolding requiemdb_sql_unescape_binary_def by (rule locked_keeps)

lemma on_world_keeps: "keeps I (on_world f)"
  by (rule keepsI) (simp add: on_world_def world_keeps split: prod.split)

lemma destroy_keeps: "I s \<Longrightarrow> I (requiemdb_sql_table_destroy E r s)"
  by (simp add: requiemdb_sql_table_destroy_def world_keeps)

lemma exec_keeps: "Q q \<Longrightarrow> keeps I (sql_exec E q)"
  unfolding sql_exec_def by (intro keeps_bindr keeps_retn query_keeps)

lemma insert_keeps: "Q (insert_text t c v) \<Longrightarrow> keeps I (requiemdb_sql_insert E t c v)"
  unfolding requiemdb_sql_insert_def by (rule exec_keeps)

text \<open>A list of statements sent until one fails.\<close>

lemma exec_list_keeps:
  "list_all Q qs \<Longrightarrow> keeps I (foldr (\<lambda>q k. thenr (sql_exec E q) k) qs (retn a))"
  by (induction qs) (auto intro: keeps_retn keeps_bindr exec_keeps)

end

text \<open>
  Two invariants every client of the connection keeps, whatever the back end does: the lock
  depth and the frame stay (and a transaction is never begun); the log only grows, by
  statements the client sent.
\<close>

definition lock_frame :: "'w sql \<Rightarrow> 'w sql \<Rightarrow> bool" where
  "lock_frame s0 s \<longleftrightarrow> same_frame s0 s \<and> lock_depth s = lock_depth s0 \<and> (in_transaction s \<longrightarrow> in_transaction s0)"

definition log_extends :: "(string \<Rightarrow> bool) \<Rightarrow> string list \<Rightarrow> 'w sql \<Rightarrow> bool" where
  "log_extends Q log s \<longleftrightarrow> (\<exists>new. logged s = log @ new \<and> list_all Q new)"

lemma lock_frame_refl [simp]: "lock_frame s s"
  by (simp add: lock_frame_def)

lemma lock_frame_step:
  "lock_frame s0 s \<Longrightarrow> same_frame s s' \<Longrightarrow> lock_depth s' = lock_depth s \<Longrightarrow>
   (in_transaction s' \<longrightarrow> in_transaction s) \<Longrightarrow> lock_frame s0 s'"
  by (auto simp: lock_frame_def dest: same_frame_trans)

lemma log_extends_refl [simp]: "log_extends Q (logged s) s"
  by (simp add: log_extends_def)

lemma log_extends_same: "log_extends Q log s \<Longrightarrow> logged s' = logged s \<Longrightarrow> log_extends Q log s'"
  by (simp add: log_extends_def)

lemma query_log:
  assumes "requiemdb_sql_query E q want s = (r, s')"
  shows "logged s' = logged s \<or> logged s' = logged s @ [q]"
proof (cases "connected s")
  case True
  from query_connected [OF True assms] show ?thesis by simp
next
  case False
  obtain r1 s1 where c: "requiemdb_sql_connect E (lock s) = (r1, s1)" by fastforce
  show ?thesis
  proof (cases r1)
    case (Inl e)
    with query_unconnected_fail [OF False] c assms connect_cases [OF c] show ?thesis by auto
  next
    case (Inr n)
    with query_unconnected_ok [OF False, of E n s1 q want] c assms
    have q: "requiemdb_sql_query E q want (unlock s1) = (r, s')" and u: "connected (unlock s1)" by simp_all
    from query_connected [OF u q] connect_cases [OF c] show ?thesis by simp
  qed
qed

interpretation frame: sql_client E "\<lambda>_. True" "lock_frame s0" for E s0
proof unfold_locales
  fix q r row col want and s and op :: "('a world, err, string) cop"
  show "keeps (lock_frame s0) (requiemdb_sql_query E q want)"
    by (rule keepsI) (metis lock_frame_step query_frame surjective_pairing)
  show "keeps (lock_frame s0) (locked_world_op E op)"
    by (rule keepsI) (metis lock_frame_step locked_world_op_frame surjective_pairing)
  show "keeps (lock_frame s0) (requiemdb_sql_table_fetch_row E r)"
    by (rule keepsI) (metis lock_frame_step fetch_row_frame surjective_pairing)
  show "keeps (lock_frame s0) (requiemdb_sql_row_fetch_field E r row col)"
    by (rule keepsI) (metis lock_frame_step fetch_field_frame surjective_pairing)
  show "lock_frame s0 s \<Longrightarrow> lock_frame s0 (s\<lparr>sql_world := w\<rparr>)" for w
    by (simp add: lock_frame_def same_frame_def in_transaction_def)
qed

interpretation trace: sql_client E Q "log_extends Q log" for E Q log
proof unfold_locales
  fix q want and s
  assume q: "Q q"
  show "keeps (log_extends Q log) (requiemdb_sql_query E q want)"
  proof (rule keepsI)
    fix s :: "'a sql" assume "log_extends Q log s"
    moreover have "logged (snd (requiemdb_sql_query E q want s)) \<in> {logged s, logged s @ [q]}"
      using query_log by (metis insertCI surjective_pairing)
    ultimately show "log_extends Q log (snd (requiemdb_sql_query E q want s))"
      using q by (auto simp: log_extends_def)
  qed
next
  fix r row col and s and op :: "('a world, err, string) cop"
  show "keeps (log_extends Q log) (locked_world_op E op)"
    by (rule keepsI) (metis log_extends_same locked_world_op_frame surjective_pairing)
  show "keeps (log_extends Q log) (requiemdb_sql_table_fetch_row E r)"
    by (rule keepsI) (metis log_extends_same fetch_row_frame surjective_pairing)
  show "keeps (log_extends Q log) (requiemdb_sql_row_fetch_field E r row col)"
    by (rule keepsI) (metis log_extends_same fetch_field_frame surjective_pairing)
  show "log_extends Q log s \<Longrightarrow> log_extends Q log (s\<lparr>sql_world := w\<rparr>)" for w
    by (simp add: log_extends_def)
qed

section \<open>Runs of a connection\<close>

definition sql_fresh :: "settings \<Rightarrow> 'w world \<Rightarrow> 'w sql" where
  "sql_fresh st w = \<lparr>status = 0, sql_settings = st, logfile = None, logged = [],
     internal_transaction_disabled = False, lock_depth = 0, sql_world = w\<rparr>"

inductive sql_step :: "'w env \<Rightarrow> 'w sql \<Rightarrow> 'w sql \<Rightarrow> bool" for E where
  query: "sql_step E s (snd (requiemdb_sql_query E q want s))"
| escape: "sql_step E s (snd (requiemdb_sql_escape E t s))"
| escape_binary: "sql_step E s (snd (requiemdb_sql_escape_binary E b s))"
| fetch_row: "sql_step E s (snd (requiemdb_sql_table_fetch_row E r s))"
| fetch_field: "sql_step E s (snd (requiemdb_sql_row_fetch_field E r row col s))"
| table_destroy: "sql_step E s (requiemdb_sql_table_destroy E r s)"
| begin_tx: "sql_step E s (snd (sql_transaction_start E s))"
| commit_tx: "sql_step E s (snd (sql_transaction_end E s))"
| abort_tx: "sql_step E s (snd (sql_transaction_abort E s))"
| disable_internal: "sql_step E s (sql_disable_internal_transaction s)"
| enable_internal: "sql_step E s (sql_enable_internal_transaction s)"
| enable_logging: "sql_step E s (snd (requiemdb_sql_enable_query_logging fn ok s))"
| disable_logging: "sql_step E s (requiemdb_sql_disable_query_logging s)"

inductive sql_reachable :: "'w env \<Rightarrow> 'w sql \<Rightarrow> bool" for E where
  fresh: "sql_reachable E (sql_fresh st w)"
| step: "sql_reachable E s \<Longrightarrow> sql_step E s t \<Longrightarrow> sql_reachable E t"

text \<open>The plugin never reports the loss of its connection.\<close>

definition no_disconnect :: "'w env \<Rightarrow> bool" where
  "no_disconnect E \<longleftrightarrow>
     (\<forall>q w v. fst (pl_query (env_plugin E) q w) \<noteq> Inl (DbErr ERROR_CONNECTION v)) \<and>
     (\<forall>r w v. fst (plugin_sql_fetch_row (env_plugin E) r w) \<noteq> Inl (DbErr ERROR_CONNECTION v)) \<and>
     (\<forall>r row c w v. fst (plugin_sql_fetch_field (env_plugin E) r row c w) \<noteq> Inl (DbErr ERROR_CONNECTION v))"

definition lock_bound :: "'w sql \<Rightarrow> bool" where
  "lock_bound s \<longleftrightarrow> 0 \<le> lock_depth s \<and> (in_transaction s \<longrightarrow> 1 \<le> lock_depth s)"

definition lock_exact :: "'w sql \<Rightarrow> bool" where
  "lock_exact s \<longleftrightarrow> lock_depth s = (if in_transaction s then 1 else 0) \<and> (in_transaction s \<longrightarrow> connected s)"

lemma logging_simps [simp]:
  "lock_depth (snd (requiemdb_sql_enable_query_logging fn ok s)) = lock_depth s"
  "status (snd (requiemdb_sql_enable_query_logging fn ok s)) = status s"
  "lock_depth (requiemdb_sql_disable_query_logging s) = lock_depth s"
  "status (requiemdb_sql_disable_query_logging s) = status s"
  "lock_depth (sql_disable_internal_transaction s) = lock_depth s"
  "status (sql_disable_internal_transaction s) = status s"
  "lock_depth (sql_enable_internal_transaction s) = lock_depth s"
  "status (sql_enable_internal_transaction s) = status s"
  by (simp_all add: requiemdb_sql_enable_query_logging_def requiemdb_sql_disable_query_logging_def
      sql_disable_internal_transaction_def sql_enable_internal_transaction_def split: option.split)

lemma lock_bound_frame: "lock_bound s \<Longrightarrow> lock_frame s s' \<Longrightarrow> lock_bound s'"
  by (auto simp: lock_bound_def lock_frame_def)

lemma lock_bound_same: "lock_bound s \<Longrightarrow> status s' = status s \<Longrightarrow> lock_depth s' = lock_depth s \<Longrightarrow> lock_bound s'"
  using status_cong [of s' s] by (simp add: lock_bound_def)

lemma sql_step_lock_bound: "sql_step E s t \<Longrightarrow> lock_bound s \<Longrightarrow> lock_bound t"
proof (induction rule: sql_step.induct)
  case (query s q want)
  then show ?case using lock_bound_frame keepsD [OF frame.query_keeps lock_frame_refl] by blast
next
  case (escape s t)
  then show ?case using lock_bound_frame keepsD [OF frame.escape_keeps lock_frame_refl] by blast
next
  case (escape_binary s b)
  then show ?case using lock_bound_frame keepsD [OF frame.escape_binary_keeps lock_frame_refl] by blast
next
  case (fetch_row s r)
  then show ?case using lock_bound_frame keepsD [OF frame.fetch_row_keeps lock_frame_refl] by blast
next
  case (fetch_field s r row col)
  then show ?case using lock_bound_frame keepsD [OF frame.fetch_field_keeps lock_frame_refl] by blast
next
  case (table_destroy s r)
  then show ?case using lock_bound_frame frame.destroy_keeps [OF lock_frame_refl] by blast
next
  case (begin_tx s)
  show ?case using start_cases [of E s] begin_tx
    by (cases "sql_transaction_start E s") (auto simp: lock_bound_def split: sum.splits)
next
  case (commit_tx s)
  show ?case using end_cases [of E s] commit_tx
    by (cases "sql_transaction_end E s") (auto simp: lock_bound_def split: if_splits)
next
  case (abort_tx s)
  show ?case using abort_cases [of E s] abort_tx
    by (cases "sql_transaction_abort E s") (auto simp: lock_bound_def split: if_splits)
qed (auto elim: lock_bound_same)

lemma reachable_lock_bound: "sql_reachable E s \<Longrightarrow> lock_bound s"
  by (induction rule: sql_reachable.induct)
    (auto simp: sql_fresh_def lock_bound_def in_transaction_def dest: sql_step_lock_bound)

lemma query_stays_connected:
  assumes "no_disconnect E" and "requiemdb_sql_query E q want s = (r, s')"
    and "connected s \<or> (\<exists>v. r = Inr v)"
  shows "connected s'"
proof (cases "connected s")
  case True
  from query_connected [OF True assms(2)] assms(1) show ?thesis by (simp add: no_disconnect_def)
next
  case False
  with assms(3) obtain v where r: "r = Inr v" by blast
  obtain r1 s1 where c: "requiemdb_sql_connect E (lock s) = (r1, s1)" by fastforce
  show ?thesis
  proof (cases r1)
    case (Inl e)
    with query_unconnected_fail [OF False] c assms(2) r show ?thesis by auto
  next
    case (Inr n)
    with query_unconnected_ok [OF False, of E n s1 q want] c assms(2)
    have q: "requiemdb_sql_query E q want (unlock s1) = (r, s')" and u: "connected (unlock s1)" by simp_all
    from query_connected [OF u q] assms(1) show ?thesis by (simp add: no_disconnect_def)
  qed
qed

lemma exec_stays_connected:
  assumes "no_disconnect E" and "sql_exec E q s = (r, s')" and "connected s \<or> (\<exists>v. r = Inr v)"
  shows "connected s'"
proof -
  obtain r' where q: "requiemdb_sql_query E q False s = (r', s')"
    and r: "case r of Inl e \<Rightarrow> r' = Inl e | Inr n \<Rightarrow> \<exists>h. r' = Inr (n, h)"
    using sql_exec_query [OF assms(2)] by blast
  from r assms(3) have "connected s \<or> (\<exists>v. r' = Inr v)" by (cases r) auto
  with query_stays_connected [OF assms(1) q] show ?thesis by blast
qed

lemma start_connected:
  assumes "no_disconnect E" and "sql_transaction_start E s = (Inr n, s')"
  shows "connected s'"
proof -
  obtain r1 s1 where q: "sql_exec E ''BEGIN'' (lock s) = (r1, s1)" by fastforce
  with assms(2) have "r1 = Inr n" "s' = s1\<lparr>status := status s1 OR STATUS_TRANSACTION\<rparr>"
    by (auto simp: sql_transaction_start_def Let_def split: if_splits sum.splits)
  with exec_stays_connected [OF assms(1) q] show ?thesis by (simp add: status_simps)
qed

lemma start_failed_state:
  assumes "sql_transaction_start E s = (Inl e, s')" and "in_transaction s"
  shows "s' = s"
  using assms by (simp add: sql_transaction_start_def Let_def)

lemma lock_exact_quiet:
  assumes "lock_exact s" and "lock_depth s' = lock_depth s"
    and "in_transaction s' \<longrightarrow> in_transaction s" and "connected s \<Longrightarrow> connected s' \<and> in_transaction s' = in_transaction s"
  shows "lock_exact s'"
  using assms by (auto simp: lock_exact_def split: if_splits)

lemma lock_exact_same:
  "lock_exact s \<Longrightarrow> status s' = status s \<Longrightarrow> lock_depth s' = lock_depth s \<Longrightarrow> lock_exact s'"
  using status_cong [of s' s] by (simp add: lock_exact_def)

lemma sql_step_lock_exact:
  assumes nd: "no_disconnect E"
  shows "sql_step E s t \<Longrightarrow> lock_exact s \<Longrightarrow> lock_exact t"
proof (induction rule: sql_step.induct)
  case (query s q want)
  obtain r s' where run: "requiemdb_sql_query E q want s = (r, s')" by fastforce
  show ?case
    using lock_exact_quiet [OF query, of s'] query_frame [OF run] query_connected [OF _ run]
      query_stays_connected [OF nd run] by (simp add: run)
next
  case (escape s t)
  obtain r s' where run: "requiemdb_sql_escape E t s = (r, s')" by fastforce
  show ?case
    using lock_exact_quiet [OF escape, of s'] escape_frame [OF run] status_cong [of s' s] by (simp add: run)
next
  case (escape_binary s b)
  obtain r s' where run: "requiemdb_sql_escape_binary E b s = (r, s')" by fastforce
  show ?case
    using lock_exact_quiet [OF escape_binary, of s'] escape_binary_frame [OF run] status_cong [of s' s]
    by (simp add: run)
next
  case (fetch_row s r)
  obtain x s' where run: "requiemdb_sql_table_fetch_row E r s = (x, s')" by fastforce
  show ?case
    using lock_exact_quiet [OF fetch_row, of s'] nd
      noting_errno_frame [OF run [unfolded requiemdb_sql_table_fetch_row_def]]
    by (simp add: run no_disconnect_def)
next
  case (fetch_field s r row col)
  obtain x s' where run: "requiemdb_sql_row_fetch_field E r row col s = (x, s')" by fastforce
  show ?case
    using lock_exact_quiet [OF fetch_field, of s'] nd
      noting_errno_frame [OF run [unfolded requiemdb_sql_row_fetch_field_def]]
    by (simp add: run no_disconnect_def)
next
  case (table_destroy s r)
  then show ?case by (simp add: lock_exact_def table_destroy_frame)
next
  case (begin_tx s)
  obtain r s' where run: "sql_transaction_start E s = (r, s')" by fastforce
  show ?case
  proof (cases r)
    case (Inl e)
    show ?thesis
    proof (cases "in_transaction s")
      case True
      with start_failed_state [of E s e s'] run Inl begin_tx show ?thesis by simp
    next
      case False
      with start_cases [OF run] Inl run begin_tx show ?thesis by (simp add: lock_exact_def)
    qed
  next
    case (Inr n)
    with run start_connected [OF nd, of s n s'] start_cases [OF run] begin_tx show ?thesis
      by (auto simp: lock_exact_def)
  qed
next
  case (commit_tx s)
  show ?case using end_cases [of E s] commit_tx
    by (cases "sql_transaction_end E s") (auto simp: lock_exact_def split: if_splits)
next
  case (abort_tx s)
  show ?case using abort_cases [of E s] abort_tx
    by (cases "sql_transaction_abort E s") (auto simp: lock_exact_def split: if_splits)
qed (erule lock_exact_same; simp)+

section \<open>Properties\<close>

text \<open>
  C17.  The lock is never released more often than it is taken: in every state a connection
  can reach, against every back end, the depth is not negative, and it is at least one as
  long as the transaction bit is set.
\<close>
theorem lock_never_over_released:
  assumes "sql_reachable E s"
  shows "0 \<le> lock_depth s \<and> (in_transaction s \<longrightarrow> 1 \<le> lock_depth s)"
  using reachable_lock_bound [OF assms] by (simp add: lock_bound_def)

definition opened_sql :: "unit sql" where
  "opened_sql = snd (sql_transaction_start null_env (sql_fresh settings_new \<lparr>thread_error = None, session = ()\<rparr>))"

lemma opened_sql_in_transaction: "in_transaction opened_sql"
  by code_simp

lemma opened_sql_reachable: "sql_reachable null_env opened_sql"
  unfolding opened_sql_def by (rule sql_reachable.step [OF sql_reachable.fresh sql_step.begin_tx])

theorem lock_never_over_released_witness: "in_transaction opened_sql \<and> 1 \<le> lock_depth opened_sql"
  using lock_never_over_released [OF opened_sql_reachable] opened_sql_in_transaction by blast

text \<open>
  C16.  The transaction protocol holds the lock exactly while a transaction is open, as long
  as the back end does not report a lost connection: in every reachable state the lock is
  held once if the transaction bit is set, and not at all otherwise, and an open transaction
  has its connection.
\<close>
theorem lock_held_exactly_in_transaction:
  assumes "sql_reachable E s" and "no_disconnect E"
  shows "lock_depth s = (if in_transaction s then 1 else 0) \<and> (in_transaction s \<longrightarrow> connected s)"
proof -
  have "lock_exact s"
    using assms(1)
  proof (induction rule: sql_reachable.induct)
    case (fresh st w)
    show ?case by (simp add: lock_exact_def sql_fresh_def in_transaction_def)
  next
    case (step s t)
    then show ?case using sql_step_lock_exact [OF assms(2)] by blast
  qed
  then show ?thesis by (simp add: lock_exact_def)
qed

lemma no_disconnect_null_env: "no_disconnect null_env"
  by (simp add: no_disconnect_def null_env_def null_plugin_def plugin_sql_fetch_row_def
      plugin_sql_fetch_field_def enotsup_def)

theorem lock_held_exactly_in_transaction_witness: "lock_depth opened_sql = 1 \<and> connected opened_sql"
  using lock_held_exactly_in_transaction [OF opened_sql_reachable no_disconnect_null_env] opened_sql_in_transaction by simp

text \<open>
  C36.  A reconnection inside a transaction loses the transaction and the lock.
  \<open>requiemdb_sql_connect\<close> assigns the status instead of setting the connected bit, so when
  one query of a transaction loses the connection and a later one reconnects, the transaction
  bit is gone: both ends of the transaction are then refused with NOT_IN_TRANSACTION, send
  nothing, and leave the lock the transaction took held.
\<close>
theorem reconnect_loses_transaction_and_lock:
  assumes "connected s" and "in_transaction s"
    and lost: "fst (pl_query (env_plugin E) q1 (sql_world s)) = Inl (DbErr ERROR_CONNECTION v)"
    and s1: "s1 = snd (requiemdb_sql_query E q1 want1 s)"
    and reopen: "fst (pl_open (env_plugin E) (sql_settings s1) (sql_world s1)) = Inr ()"
    and s2: "s2 = snd (requiemdb_sql_query E q2 want2 s1)"
  shows "in_transaction s1 \<and> \<not> connected s1 \<and> \<not> in_transaction s2 \<and> lock_depth s2 = lock_depth s \<and>
    sql_transaction_end E s2 = (Inl (requiemdb_error ERROR_NOT_IN_TRANSACTION), s2) \<and>
    sql_transaction_abort E s2 = (Inl (requiemdb_error ERROR_NOT_IN_TRANSACTION), s2)"
proof -
  obtain r1 where run1: "requiemdb_sql_query E q1 want1 s = (r1, s1)"
    using s1 by (cases "requiemdb_sql_query E q1 want1 s") simp
  obtain r2 where run2: "requiemdb_sql_query E q2 want2 s1 = (r2, s2)"
    using s2 by (cases "requiemdb_sql_query E q2 want2 s1") simp
  obtain w1 where pl: "pl_query (env_plugin E) q1 (sql_world s) = (Inl (DbErr ERROR_CONNECTION v), w1)"
    using lost by (cases "pl_query (env_plugin E) q1 (sql_world s)") simp
  have nc: "\<not> connected s1"
    using run1 assms(1) pl
    by (auto simp: requiemdb_sql_query_def assert_connected_def on_world_def)
  have t1: "in_transaction s1" "lock_depth s1 = lock_depth s"
    using query_connected [OF assms(1) run1] assms(2) by simp_all
  obtain w2 where op: "pl_open (env_plugin E) (sql_settings s1) (sql_world s1) = (Inr (), w2)"
    using reopen by (cases "pl_open (env_plugin E) (sql_settings s1) (sql_world s1)") simp
  then obtain u where "requiemdb_sql_connect E (lock s1) = (Inr 0, u)"
    by (simp add: requiemdb_sql_connect_def on_world_def)
  then have "\<not> in_transaction s2"
    by (rule query_unconnected_clears_transaction [OF nc _ run2])
  with nc t1 query_frame [OF run2] show ?thesis
    by (simp add: sql_transaction_end_def sql_transaction_abort_def)
qed

text \<open>A back end that loses the connection at the statement \<open>DIE\<close>.\<close>

definition flaky_env :: "unit env" where
  "flaky_env = null_env\<lparr>env_plugin := null_plugin\<lparr>pl_query := (\<lambda>q.
     if q = ''DIE'' then failw (DbErr ERROR_CONNECTION True) else retn None)\<rparr>\<rparr>"

definition flaky_s :: "unit sql" where
  "flaky_s = snd (sql_transaction_start flaky_env (sql_fresh settings_new \<lparr>thread_error = None, session = ()\<rparr>))"
definition flaky_s1 :: "unit sql" where
  "flaky_s1 = snd (requiemdb_sql_query flaky_env ''DIE'' False flaky_s)"
definition flaky_s2 :: "unit sql" where
  "flaky_s2 = snd (requiemdb_sql_query flaky_env ''SELECT 1'' False flaky_s1)"

theorem reconnect_loses_transaction_and_lock_witness:
  "lock_depth flaky_s = 1 \<and> in_transaction flaky_s1 \<and> \<not> connected flaky_s1 \<and>
   \<not> in_transaction flaky_s2 \<and> lock_depth flaky_s2 = lock_depth flaky_s \<and>
   sql_transaction_end flaky_env flaky_s2 = (Inl (requiemdb_error ERROR_NOT_IN_TRANSACTION), flaky_s2) \<and>
   sql_transaction_abort flaky_env flaky_s2 = (Inl (requiemdb_error ERROR_NOT_IN_TRANSACTION), flaky_s2)"
proof (rule conjI)
  show "lock_depth flaky_s = 1" by code_simp
  have "connected flaky_s" and "in_transaction flaky_s" by code_simp+
  moreover have "fst (pl_query (env_plugin flaky_env) ''DIE'' (sql_world flaky_s)) = Inl (DbErr ERROR_CONNECTION True)"
    and "fst (pl_open (env_plugin flaky_env) (sql_settings flaky_s1) (sql_world flaky_s1)) = Inr ()"
    by (simp_all add: flaky_env_def null_env_def null_plugin_def)
  ultimately show "in_transaction flaky_s1 \<and> \<not> connected flaky_s1 \<and>
      \<not> in_transaction flaky_s2 \<and> lock_depth flaky_s2 = lock_depth flaky_s \<and>
      sql_transaction_end flaky_env flaky_s2 = (Inl (requiemdb_error ERROR_NOT_IN_TRANSACTION), flaky_s2) \<and>
      sql_transaction_abort flaky_env flaky_s2 = (Inl (requiemdb_error ERROR_NOT_IN_TRANSACTION), flaky_s2)"
    by (rule reconnect_loses_transaction_and_lock [OF _ _ _ flaky_s1_def _ flaky_s2_def])
qed

end
