(* ===== verification/SqlCriteria.thy ===== *)
theory SqlCriteria
  imports SqlSession
begin

text \<open>
  The text of one criterion, \<open>field operator value\<close> (\<open>src/requiemdb-sql.c\<close>, the
  functions \<open>build_criterion_*\<close> and \<open>requiemdb_sql_build_criterion_string\<close>).  Each builder
  returns the text it appends to its output string; the output of a builder that fails is
  thrown away by its callers.  \<open>string_released\<close> is what
  \<open>requiem_string_get_string_released\<close> hands over for a string object with these bytes.
\<close>

section \<open>Values\<close>

definition build_criterion_fixed_sql_time_value :: "'w env \<Rightarrow> idmef_value \<Rightarrow> err + string" where
  "build_criterion_fixed_sql_time_value E v =
    (case value_time v of
       None \<Rightarrow> Inl (RawErr (- 1))
     | Some t \<Rightarrow>
         (case requiemdb_sql_time_to_timestamp E (Some t) TIMESTAMP_STRING_SIZE None None of
            Inl e \<Rightarrow> Inl e
          | Inr (text, _, _) \<Rightarrow> Inr text))"

text \<open>The loop over the input; the flag is \<open>escape_next\<close>.\<close>

fun like_loop :: "bool \<Rightarrow> string \<Rightarrow> string" where
  "like_loop escape_next [] = []"
| "like_loop escape_next (c # cs) =
     (if c = CHR ''%'' then [CHR 0x5C, CHR ''%'']
      else if c = CHR ''*'' \<and> \<not> escape_next then ''%''
      else [c]) @
     like_loop (\<not> escape_next \<and> c = CHR 0x5C) cs"

definition build_criterion_fixed_sql_like_value :: "'w env \<Rightarrow> idmef_value \<Rightarrow> err + string option" where
  "build_criterion_fixed_sql_like_value E v =
    (let input = (if value_type_of v = TYPE_DATA then
                    (case value_data v of None \<Rightarrow> None | Some d \<Rightarrow> d)
                  else (case value_string v of None \<Rightarrow> None | Some s \<Rightarrow> s))
     in case input of
          None \<Rightarrow> Inl (RawErr (- 1))
        | Some t \<Rightarrow> Inr (string_released E (like_loop False t)))"

definition build_criterion_fixed_sql_value :: "'w env \<Rightarrow> idmef_value \<Rightarrow> crit_op \<Rightarrow> ('w, string) sqlop" where
  "build_criterion_fixed_sql_value E v op =
    (if value_type_of v = TYPE_TIME then
       (case build_criterion_fixed_sql_time_value E v of
          Inl e \<Rightarrow> failw e
        | Inr buf \<Rightarrow> retn buf)
     else if op_rel op = REL_SUBSTR then
       (case build_criterion_fixed_sql_like_value E v of
          Inl e \<Rightarrow> failw e
        | Inr tmp \<Rightarrow> requiemdb_sql_escape E tmp)
     else
       (case value_text v of
          Inl e \<Rightarrow> failw e
        | Inr t \<Rightarrow> requiemdb_sql_escape E t))"

definition build_criterion_fixed_value ::
    "'w env \<Rightarrow> string \<Rightarrow> crit_op \<Rightarrow> idmef_value \<Rightarrow> ('w, string) sqlop" where
  "build_criterion_fixed_value E field op v =
     bindr (build_criterion_fixed_sql_value E v op) (\<lambda>value_str.
       on_world (plugin_sql_build_constraint_string (env_plugin E) field op value_str))"

section \<open>Broken-down times\<close>

definition time_table :: "tm \<Rightarrow> (time_constraint \<times> int) list" where
  "time_table lt =
    [(TC_YEAR, if tm_year lt \<noteq> - 1 then tm_year lt + 1900 else - 1),
     (TC_MONTH, if tm_mon lt \<noteq> - 1 then tm_mon lt + 1 else - 1),
     (TC_YDAY, tm_yday lt), (TC_MDAY, tm_mday lt), (TC_WDAY, tm_wday lt),
     (TC_HOUR, tm_hour lt), (TC_MIN, tm_min lt), (TC_SEC, tm_sec lt)]"

text \<open>The loop over the table; the number is \<open>prev\<close>.\<close>

fun time_equal_loop ::
    "'w env \<Rightarrow> string \<Rightarrow> crit_op \<Rightarrow> nat \<Rightarrow> (time_constraint \<times> int) list \<Rightarrow> ('w, string) sqlop" where
  "time_equal_loop E field op prev [] = retn []"
| "time_equal_loop E field op prev ((tc, v) # rest) =
     (if v = - 1 then time_equal_loop E field op prev rest
      else
        bindr (on_world (plugin_sql_build_time_constraint_string (env_plugin E) field tc op v 0)) (\<lambda>t.
        bindr (time_equal_loop E field op (prev + 1) rest) (\<lambda>u.
        retn ((if prev \<noteq> 0 then '' AND '' else []) @ t @ u))))"

definition build_criterion_broken_down_time_equal ::
    "'w env \<Rightarrow> string \<Rightarrow> crit_op \<Rightarrow> tm \<Rightarrow> ('w, string) sqlop" where
  "build_criterion_broken_down_time_equal E field op lt = time_equal_loop E field op 0 (time_table lt)"

definition build_criterion_broken_down_time_not_equal ::
    "'w env \<Rightarrow> string \<Rightarrow> tm \<Rightarrow> ('w, string) sqlop" where
  "build_criterion_broken_down_time_not_equal E field lt =
     bindr (build_criterion_broken_down_time_equal E field OP_EQUAL lt)
       (\<lambda>t. retn (''NOT('' @ t @ '')''))"

definition build_criterion_broken_down_time ::
    "'w env \<Rightarrow> string \<Rightarrow> crit_op \<Rightarrow> tm \<Rightarrow> ('w, string) sqlop" where
  "build_criterion_broken_down_time E field op t =
    (if op = OP_EQUAL then build_criterion_broken_down_time_equal E field op t
     else if op = OP_NOT_EQUAL then build_criterion_broken_down_time_not_equal E field t
     else failw (requiemdb_error ERROR_QUERY))"

section \<open>Criteria\<close>

definition build_criterion_regex :: "'w env \<Rightarrow> string \<Rightarrow> crit_op \<Rightarrow> string \<Rightarrow> ('w, string) sqlop" where
  "build_criterion_regex E field op regex =
     bindr (requiemdb_sql_escape E (Some regex)) (\<lambda>escaped.
       on_world (plugin_sql_build_constraint_string (env_plugin E) field op escaped))"

definition operator_string :: "'w env \<Rightarrow> crit_op \<Rightarrow> string" where
  "operator_string E op = str_or_null (pl_get_operator_string (env_plugin E) op)"

text \<open>
  \<open>requiemdb_sql_build_criterion_string\<close>.  For a value of a kind the code does not know
  \<open>ret\<close> still holds what was assigned before: \<open>-1\<close>, or the success of printing the
  opening of a negated criterion.
\<close>

definition requiemdb_sql_build_criterion_string ::
    "'w env \<Rightarrow> string \<Rightarrow> crit_op \<Rightarrow> crit_value \<Rightarrow> ('w, string) sqlop" where
  "requiemdb_sql_build_criterion_string E field op v =
    (if op = OP_NULL \<or> op = OP_NOT_NULL then retn (field @ '' '' @ operator_string E op)
     else
       let prefix = (if op_not op then ''('' @ field @ '' '' @ operator_string E OP_NULL @ '' OR '' else []);
           suffix = (if op_not op then '')'' else [])
       in bindr
            (case v of
               Crit_value x \<Rightarrow> build_criterion_fixed_value E field op x
             | Crit_regex r \<Rightarrow> build_criterion_regex E field op r
             | Crit_time t \<Rightarrow> build_criterion_broken_down_time E field op t
             | Crit_other \<Rightarrow> if op_not op then retn [] else failw (RawErr (- 1)))
            (\<lambda>t. retn (prefix @ t @ suffix)))"

section \<open>What the pattern of a substring criterion means\<close>

text \<open>
  Patterns as lists of tokens: a literal byte, one arbitrary byte, any sequence.  A backslash
  takes the next byte literally.  \<open>glob_wild\<close> is the pattern language of the criteria,
  \<open>like_wild\<close> that of SQL's LIKE.
\<close>

datatype ptoken = Lit char | One | Any

fun pat_tokens :: "(char \<Rightarrow> ptoken option) \<Rightarrow> bool \<Rightarrow> string \<Rightarrow> ptoken list" where
  "pat_tokens wild esc [] = (if esc then [Lit (CHR 0x5C)] else [])"
| "pat_tokens wild esc (c # cs) =
     (if esc then Lit c # pat_tokens wild False cs
      else if c = CHR 0x5C then pat_tokens wild True cs
      else (case wild c of Some t \<Rightarrow> t | None \<Rightarrow> Lit c) # pat_tokens wild False cs)"

definition glob_wild :: "char \<Rightarrow> ptoken option" where
  "glob_wild c = (if c = CHR ''*'' then Some Any else None)"

definition like_wild :: "char \<Rightarrow> ptoken option" where
  "like_wild c = (if c = CHR ''%'' then Some Any else if c = CHR ''_'' then Some One else None)"

fun token_match :: "ptoken list \<Rightarrow> string \<Rightarrow> bool" where
  "token_match [] s = (s = [])"
| "token_match (Lit c # ts) s = (case s of [] \<Rightarrow> False | d # s' \<Rightarrow> c = d \<and> token_match ts s')"
| "token_match (One # ts) s = (case s of [] \<Rightarrow> False | d # s' \<Rightarrow> token_match ts s')"
| "token_match (Any # ts) s =
     (token_match ts s \<or> (case s of [] \<Rightarrow> False | d # s' \<Rightarrow> token_match (Any # ts) s'))"

definition glob_match :: "string \<Rightarrow> string \<Rightarrow> bool" where
  "glob_match p s = token_match (pat_tokens glob_wild False p) s"

definition like_match :: "string \<Rightarrow> string \<Rightarrow> bool" where
  "like_match p s = token_match (pat_tokens like_wild False p) s"

text \<open>Patterns in which no \<open>%\<close> is escaped and every underscore is.\<close>

fun like_safe :: "bool \<Rightarrow> string \<Rightarrow> bool" where
  "like_safe esc [] = True"
| "like_safe esc (c # cs) =
     ((c = CHR ''%'' \<longrightarrow> \<not> esc) \<and> (c = CHR ''_'' \<longrightarrow> esc) \<and> like_safe (\<not> esc \<and> c = CHR 0x5C) cs)"

lemma like_loop_tokens:
  "like_safe esc p \<Longrightarrow> pat_tokens like_wild esc (like_loop esc p) = pat_tokens glob_wild esc p"
proof (induction esc p rule: like_safe.induct)
  case (2 esc c cs)
  show ?case
  proof (cases esc)
    case True
    with 2 show ?thesis by simp
  next
    case False
    consider "c = CHR ''%''" | "c = CHR ''*''" | "c = CHR 0x5C"
      | "c \<noteq> CHR ''%''" "c \<noteq> CHR ''*''" "c \<noteq> CHR 0x5C" by blast
    then show ?thesis
      using False 2 by cases (simp_all add: like_wild_def glob_wild_def)
  qed
qed simp


definition string_value :: "string \<Rightarrow> idmef_value" where
  "string_value t = \<lparr>value_type_of = TYPE_STRING, value_time = None, value_data = None,
     value_string = Some (Some t), value_text = Inr (Some t)\<rparr>"


text \<open>
  Two patterns escape the escaping: an underscore is left to LIKE, which matches any
  byte with it, and the backslash of an escaped percent sign is turned into an escaped
  backslash, so the percent sign is a wildcard.
\<close>
theorem like_value_leaks_wildcards:
  "like_match (like_loop False ''_'') [c] \<and> (c \<noteq> CHR ''_'' \<longrightarrow> \<not> glob_match ''_'' [c]) \<and>
   like_match (like_loop False [CHR 0x5C, CHR ''%'']) (CHR 0x5C # t) \<and>
   \<not> glob_match [CHR 0x5C, CHR ''%''] (CHR 0x5C # t)"
proof -
  have "token_match [Any] t" by (induction t) auto
  then show ?thesis by (simp add: like_match_def glob_match_def like_wild_def glob_wild_def)
qed

theorem like_value_leaks_wildcards_witness:
  "CHR ''x'' \<noteq> CHR ''_'' \<and> \<not> glob_match ''_'' ''x''"
  using like_value_leaks_wildcards [of "CHR ''x''" "[]"] by simp

section \<open>Criteria texts\<close>

text \<open>The texts of the fields of a broken-down time that are set.\<close>

definition set_fields :: "tm \<Rightarrow> (time_constraint \<times> int) list" where
  "set_fields lt = filter (\<lambda>(tc, v). v \<noteq> - 1) (time_table lt)"

lemma time_equal_loop_ok:
  assumes "pl_build_time_constraint (env_plugin E) = Some f"
    and "\<forall>(tc, v) \<in> set (filter (\<lambda>(tc, v). v \<noteq> - 1) tbl). f field tc op v 0 = Inr (g tc v)"
  shows "time_equal_loop E field op prev tbl s =
    (Inr ((if prev \<noteq> 0 \<and> filter (\<lambda>(tc, v). v \<noteq> - 1) tbl \<noteq> [] then '' AND '' else []) @
      joined '' AND '' (map (\<lambda>(tc, v). g tc v) (filter (\<lambda>(tc, v). v \<noteq> - 1) tbl))), s)"
  using assms(2)
proof (induction tbl arbitrary: prev)
  case (Cons x tbl)
  obtain tc v where x: "x = (tc, v)" by fastforce
  show ?case
  proof (cases "v = - 1")
    case True
    with Cons x show ?thesis by simp
  next
    case False
    with Cons.prems x have "f field tc op v 0 = Inr (g tc v)" by simp
    then have "on_world (plugin_sql_build_time_constraint_string (env_plugin E) field tc op v 0) s = (Inr (g tc v), s)"
      using assms(1) by (simp add: on_world_def plugin_sql_build_time_constraint_string_def built_def)
    with False Cons x show ?thesis by (simp add: joined_Cons)
  qed
qed simp


definition tc_plugin :: "unit plugin_sql" where
  "tc_plugin = null_plugin\<lparr>pl_build_time_constraint := Some (\<lambda>field tc op v gmt. Inr (dec_int v)),
     pl_get_operator_string := (\<lambda>_. Some ''IS NULL'')\<rparr>"

definition tc_tm :: tm where
  "tc_tm = \<lparr>tm_sec = - 1, tm_min = - 1, tm_hour = 10, tm_mday = - 1, tm_mon = 0, tm_year = - 1,
     tm_wday = - 1, tm_yday = - 1\<rparr>"


section \<open>What building a criterion keeps\<close>

context sql_client begin

lemma time_equal_loop_keeps: "keeps I (time_equal_loop E field op prev tbl)"
  by (induction E field op prev tbl rule: time_equal_loop.induct)
    (auto intro!: keeps_retn keeps_bindr on_world_keeps)

lemma fixed_sql_value_keeps: "keeps I (build_criterion_fixed_sql_value E v op)"
  unfolding build_criterion_fixed_sql_value_def
  by (auto intro!: keeps_retn keeps_failw escape_keeps split: sum.split)

lemma broken_down_time_keeps: "keeps I (build_criterion_broken_down_time E field op t)"
  unfolding build_criterion_broken_down_time_def build_criterion_broken_down_time_equal_def
    build_criterion_broken_down_time_not_equal_def
  by (auto intro!: keeps_retn keeps_failw keeps_bindr time_equal_loop_keeps)

lemma criterion_string_keeps: "keeps I (requiemdb_sql_build_criterion_string E field op v)"
  unfolding requiemdb_sql_build_criterion_string_def Let_def build_criterion_fixed_value_def
    build_criterion_regex_def
  by (cases v) (auto intro!: keeps_retn keeps_failw keeps_bindr fixed_sql_value_keeps
      broken_down_time_keeps escape_keeps on_world_keeps)

end

end
