(* ===== verification/ClassicJoin.thy ===== *)
theory ClassicJoin
  imports ClassicSelect SqlCriteria
begin

text \<open>
  The tables a query joins (\<open>plugins/format/classic/classic-sql-join.c\<close>): one aliased table
  per set of IDMEF paths stored together, with the constraint on its parent type and on the
  indexes of the listed elements on the path.  \<open>idmef_path_compare\<close> and
  \<open>idmef_path_ncompare\<close> of librequiem are parameters.
\<close>

unbundle bit_operations_syntax

record joined_table =
  jt_path :: idmef_path
  table_name :: "string option"
  aliased_table_name :: string
  parent_type :: "char option"
  index_constraints :: string

text \<open>The class number 0, which no message class has, stands for a top class not yet set.\<close>

definition NO_CLASS :: class_id where "NO_CLASS = CLASS_OTHER 0"

record sql_join =
  top_class :: class_id
  tables :: "joined_table list"
  next_id :: "32 word"

definition classic_sql_join_new :: sql_join where
  "classic_sql_join_new = \<lparr>top_class = NO_CLASS, tables = [], next_id = 0\<rparr>"

definition classic_sql_join_set_top_class :: "class_id \<Rightarrow> sql_join \<Rightarrow> sql_join" where
  "classic_sql_join_set_top_class c j = j\<lparr>top_class := c\<rparr>"

definition same_table :: "'w env \<Rightarrow> idmef_path \<Rightarrow> idmef_path \<Rightarrow> bool" where
  "same_table E path tpath =
    (let depth = path_depth path;
         last_element_is_listed = (path_index path (int depth - 1) \<noteq> Index_forbidden)
     in depth = path_depth tpath \<and>
        (if last_element_is_listed \<or>
            (path_value_type path (- 1) = TYPE_TIME \<and> path_class path (int depth - 2) \<noteq> CLASS_FILE)
         then idmef_path_compare E path tpath = 0
         else idmef_path_ncompare E path tpath (depth - 1) = 0))"

definition classic_sql_join_lookup_table :: "'w env \<Rightarrow> sql_join \<Rightarrow> idmef_path \<Rightarrow> joined_table option" where
  "classic_sql_join_lookup_table E j path = List.find (\<lambda>t. same_table E path (jt_path t)) (tables j)"

section \<open>Parent types\<close>

definition resolve_file_parent_type :: "idmef_path \<Rightarrow> char option" where
  "resolve_file_parent_type p =
    (if path_class p 3 = CLASS_FILE_ACCESS \<and> path_class p 4 = CLASS_USER_ID then Some (CHR ''F'') else None)"

definition resolve_target_parent_type :: "idmef_path \<Rightarrow> char option" where
  "resolve_target_parent_type p =
    (if path_depth p = 3 then None
     else if path_class p 2 = CLASS_FILE then resolve_file_parent_type p
     else Some (CHR ''T''))"

definition resolve_source_parent_type :: "idmef_path \<Rightarrow> char option" where
  "resolve_source_parent_type p = (if path_depth p > 3 then Some (CHR ''S'') else None)"

definition resolve_tool_alert_parent_type :: "idmef_path \<Rightarrow> char option" where
  "resolve_tool_alert_parent_type p = (if path_class p 2 = CLASS_ALERTIDENT then Some (CHR ''T'') else None)"

definition resolve_correlation_alert_parent_type :: "idmef_path \<Rightarrow> char option" where
  "resolve_correlation_alert_parent_type p =
    (if path_class p 2 = CLASS_ALERTIDENT then Some (CHR ''C'') else None)"

definition resolve_alert_parent_type :: "idmef_path \<Rightarrow> char option" where
  "resolve_alert_parent_type p =
    (case path_class p 1 of
       CLASS_CLASSIFICATION \<Rightarrow> None
     | CLASS_ASSESSMENT \<Rightarrow> None
     | CLASS_OVERFLOW_ALERT \<Rightarrow> None
     | CLASS_TOOL_ALERT \<Rightarrow> resolve_tool_alert_parent_type p
     | CLASS_CORRELATION_ALERT \<Rightarrow> resolve_correlation_alert_parent_type p
     | CLASS_SOURCE \<Rightarrow> resolve_source_parent_type p
     | CLASS_TARGET \<Rightarrow> resolve_target_parent_type p
     | _ \<Rightarrow>
         if path_name p (int (path_depth p) - 1) = ''detect_time'' then None else Some (CHR ''A''))"

definition resolve_parent_type :: "idmef_path \<Rightarrow> char option" where
  "resolve_parent_type p =
    (if path_class p 0 = CLASS_HEARTBEAT then Some (CHR ''H'') else resolve_alert_parent_type p)"

section \<open>Index constraints\<close>

text \<open>
  An index from \<open>-1\<close> on is compared for equality; every other return of
  \<open>idmef_path_get_index\<close> asks for any element (the row with index \<open>-1\<close> duplicates the
  last one).  The level is \<open>None\<close> for the last index of the path.
\<close>

definition index_comparison :: "path_index \<Rightarrow> string" where
  "index_comparison i =
    (case i of
       Index n \<Rightarrow> if n \<ge> - 1 then ''= '' @ dec_int n else ''!= -1''
     | _ \<Rightarrow> ''!= -1'')"

definition add_index_constraint :: "string \<Rightarrow> nat option \<Rightarrow> path_index \<Rightarrow> string \<Rightarrow> string" where
  "add_index_constraint alias level i acc =
     (if acc \<noteq> [] then acc @ '' AND '' else acc) @
     (case level of
        None \<Rightarrow> alias @ ''._index '' @ index_comparison i
      | Some l \<Rightarrow> alias @ ''._parent'' @ dec_nat l @ ''_index '' @ index_comparison i)"

text \<open>The loop over the inner elements of the path; the number is \<open>parent_level\<close>.\<close>

fun index_loop :: "string \<Rightarrow> path_index list \<Rightarrow> nat \<Rightarrow> string \<Rightarrow> string" where
  "index_loop alias [] level acc = acc"
| "index_loop alias (i # is) level acc =
     (if i = Index_forbidden then index_loop alias is level acc
      else index_loop alias is (level + 1) (add_index_constraint alias (Some level) i acc))"

definition resolve_indexes :: "string \<Rightarrow> idmef_path \<Rightarrow> err + string" where
  "resolve_indexes alias p =
    (let max_depth = path_depth p in
     if max_depth < 2 then Inl (requiemdb_error ERROR_QUERY)
     else
       let acc = index_loop alias (map (\<lambda>d. path_index p (int d)) [1..<max_depth - 2]) 0 [];
           index1 = path_index p (int max_depth - 1);
           index2 = path_index p (int max_depth - 2)
       in Inr (if index1 \<noteq> Index_forbidden then add_index_constraint alias None index1 acc
               else if index2 \<noteq> Index_forbidden then add_index_constraint alias None index2 acc
               else acc))"

definition classic_sql_join_new_table :: "idmef_path \<Rightarrow> string option \<Rightarrow> (sql_join, err, joined_table) cop" where
  "classic_sql_join_new_table path name = (\<lambda>j.
     let top = path_class path 0 in
     if top_class j \<noteq> NO_CLASS \<and> top \<noteq> top_class j then (Inl (RawErr (- 1)), j)
     else
       let alias = ''t'' @ dec_int (sint (next_id j));
           j1 = j\<lparr>top_class := if top_class j \<noteq> NO_CLASS then top_class j else top,
                   next_id := next_id j + 1\<rparr>
       in case resolve_indexes alias path of
            Inl e \<Rightarrow> (Inl e, j1)
          | Inr ic \<Rightarrow>
              let t = \<lparr>jt_path = path, table_name = name, aliased_table_name = alias,
                       parent_type = resolve_parent_type path, index_constraints = ic\<rparr>
              in (Inr t, j1\<lparr>tables := tables j @ [t]\<rparr>))"

section \<open>The FROM clause\<close>

definition classic_joined_table_to_string :: "joined_table \<Rightarrow> string" where
  "classic_joined_table_to_string t =
     '' LEFT JOIN '' @ str_or_null (table_name t) @ '' AS '' @ aliased_table_name t @ '' ON ('' @
     (case parent_type t of
        Some c \<Rightarrow> aliased_table_name t @ ''._parent_type='' @ [CHR 0x27, c, CHR 0x27] @ '' AND ''
      | None \<Rightarrow> []) @
     aliased_table_name t @ ''._message_ident=top_table._ident'' @
     (if index_constraints t \<noteq> [] then '' AND '' @ index_constraints t else []) @
     '')''"

definition classic_sql_join_to_string :: "sql_join \<Rightarrow> string" where
  "classic_sql_join_to_string j =
     (if top_class j = CLASS_ALERT then ''Requiem_Alert'' else ''Requiem_Heartbeat'') @ '' AS top_table'' @
     concat (map classic_joined_table_to_string (tables j))"

section \<open>The invariant of the joined tables\<close>

text \<open>
  The tables are named in order of creation, the next name is the next number, and every
  table belongs to the top class.
\<close>

definition table_alias :: "nat \<Rightarrow> string" where
  "table_alias i = ''t'' @ dec_int (sint (of_nat i :: 32 word))"

definition join_wf :: "sql_join \<Rightarrow> bool" where
  "join_wf j \<longleftrightarrow>
     map aliased_table_name (tables j) = map table_alias [0..<length (tables j)] \<and>
     next_id j = of_nat (length (tables j)) \<and>
     (tables j \<noteq> [] \<longrightarrow> top_class j \<noteq> NO_CLASS) \<and>
     (\<forall>t \<in> set (tables j). path_class (jt_path t) 0 = top_class j \<and>
        2 \<le> path_depth (jt_path t) \<and> parent_type t = resolve_parent_type (jt_path t) \<and>
        resolve_indexes (aliased_table_name t) (jt_path t) = Inr (index_constraints t))"

lemma join_wf_new [simp]: "join_wf classic_sql_join_new"
  by (simp add: join_wf_def classic_sql_join_new_def)

lemma join_wf_set_top [simp]:
  "join_wf (classic_sql_join_set_top_class c classic_sql_join_new)"
  by (simp add: join_wf_def classic_sql_join_new_def classic_sql_join_set_top_class_def)

lemma resolve_indexes_depth: "resolve_indexes a p = Inr ic \<Longrightarrow> 2 \<le> path_depth p"
  by (auto simp: resolve_indexes_def Let_def split: if_splits)

lemma new_table_run:
  assumes "classic_sql_join_new_table path name j = (Inr t, j')"
  obtains ic where "resolve_indexes (''t'' @ dec_int (sint (next_id j))) path = Inr ic"
    and "top_class j = NO_CLASS \<or> path_class path 0 = top_class j"
    and "t = \<lparr>jt_path = path, table_name = name, aliased_table_name = ''t'' @ dec_int (sint (next_id j)),
              parent_type = resolve_parent_type path, index_constraints = ic\<rparr>"
    and "j' = j\<lparr>top_class := path_class path 0, next_id := next_id j + 1, tables := tables j @ [t]\<rparr>"
  using assms by (auto simp: classic_sql_join_new_table_def Let_def split: if_splits sum.splits)

lemma new_table_wf:
  assumes wf: "join_wf j" and known: "path_class path 0 \<noteq> NO_CLASS"
    and run: "classic_sql_join_new_table path name j = (Inr t, j')"
  shows "join_wf j'"
  using new_table_run [OF run]
proof cases
  case (1 ic)
  have "tables j \<noteq> [] \<longrightarrow> path_class path 0 = top_class j"
    using 1(2) wf by (auto simp: join_wf_def)
  then show ?thesis
    using wf 1 known resolve_indexes_depth [OF 1(1)]
    by (auto simp: join_wf_def table_alias_def add.commute)
qed

lemma new_table_frame:
  assumes "classic_sql_join_new_table path name j = (Inr t, j')"
  shows "tables j' = tables j @ [t] \<and> jt_path t = path \<and> table_name t = name"
  using new_table_run [OF assms] by cases simp

lemma table_alias_inject:
  assumes "m < 2 ^ 32" and "n < 2 ^ 32" and "table_alias m = table_alias n"
  shows "m = n"
proof -
  have "(of_nat m :: 32 word) = of_nat n"
    using assms(3) signed_word_eqI [of "of_nat m :: 32 word" "of_nat n"] by (simp add: table_alias_def)
  from arg_cong [OF this, of unat] have "m mod 2 ^ 32 = n mod 2 ^ 32"
    by (simp add: unat_of_nat)
  with assms show ?thesis by simp
qed

lemma join_wf_distinct:
  assumes "join_wf j" and "length (tables j) \<le> 2 ^ 32"
  shows "distinct (map aliased_table_name (tables j))"
proof -
  have "distinct (map table_alias [0..<length (tables j)])"
    unfolding distinct_map
  proof
    show "inj_on table_alias (set [0..<length (tables j)])"
      using assms(2) by (intro inj_onI table_alias_inject) auto
  qed simp
  then show ?thesis using assms(1) by (simp add: join_wf_def)
qed

lemma lookup_SomeD:
  "classic_sql_join_lookup_table E j path = Some t \<Longrightarrow> t \<in> set (tables j) \<and> same_table E path (jt_path t)"
  by (auto simp: classic_sql_join_lookup_table_def find_Some_iff)

lemma lookup_None_iff:
  "classic_sql_join_lookup_table E j path = None \<longleftrightarrow> (\<forall>t \<in> set (tables j). \<not> same_table E path (jt_path t))"
  by (auto simp: classic_sql_join_lookup_table_def find_None_iff)

section \<open>What the index constraints say\<close>

definition inner_constraints :: "string \<Rightarrow> nat \<Rightarrow> path_index list \<Rightarrow> string list" where
  "inner_constraints alias level is =
     map (\<lambda>(l, i). alias @ ''._parent'' @ dec_nat l @ ''_index '' @ index_comparison i)
       (enumerate level (filter (\<lambda>i. i \<noteq> Index_forbidden) is))"

definition last_constraint :: "string \<Rightarrow> path_index \<Rightarrow> path_index \<Rightarrow> string list" where
  "last_constraint alias index1 index2 =
    (if index1 \<noteq> Index_forbidden then [alias @ ''._index '' @ index_comparison index1]
     else if index2 \<noteq> Index_forbidden then [alias @ ''._index '' @ index_comparison index2]
     else [])"

lemma inner_constraints_Cons:
  "inner_constraints alias level (i # is) =
    (if i = Index_forbidden then inner_constraints alias level is
     else (alias @ ''._parent'' @ dec_nat level @ ''_index '' @ index_comparison i) #
       inner_constraints alias (Suc level) is)"
  by (simp add: inner_constraints_def)

lemma inner_constraints_nonempty: "list_all (\<lambda>x. x \<noteq> []) (inner_constraints alias level is)"
  by (auto simp: inner_constraints_def list_all_iff)

lemma add_index_constraint_joined:
  assumes "list_all (\<lambda>x. x \<noteq> []) xs"
  shows "add_index_constraint alias (Some l) i (joined '' AND '' xs) =
      joined '' AND '' (xs @ [alias @ ''._parent'' @ dec_nat l @ ''_index '' @ index_comparison i])"
    and "add_index_constraint alias None i (joined '' AND '' xs) =
      joined '' AND '' (xs @ [alias @ ''._index '' @ index_comparison i])"
  using joined_eq_Nil [OF assms, of "'' AND ''"] by (auto simp: add_index_constraint_def joined_snoc)

lemma index_loop_joined:
  "list_all (\<lambda>x. x \<noteq> []) xs \<Longrightarrow>
   index_loop alias is level (joined '' AND '' xs) = joined '' AND '' (xs @ inner_constraints alias level is)"
proof (induction "is" arbitrary: level xs)
  case Nil
  show ?case by (simp add: inner_constraints_def)
next
  case (Cons i "is")
  show ?case
  proof (cases "i = Index_forbidden")
    case True
    with Cons show ?thesis by (simp add: inner_constraints_Cons)
  next
    case False
    with Cons.prems Cons.IH [where level = "Suc level" and xs = "xs @ [alias @ ''._parent'' @ dec_nat level @ ''_index '' @ index_comparison i]"]
    show ?thesis by (simp add: inner_constraints_Cons add_index_constraint_joined(1))
  qed
qed

lemma resolve_indexes_joined:
  assumes "2 \<le> path_depth p"
  shows "resolve_indexes alias p = Inr (joined '' AND ''
    (inner_constraints alias 0 (map (\<lambda>d. path_index p (int d)) [1..<path_depth p - 2]) @
     last_constraint alias (path_index p (int (path_depth p) - 1)) (path_index p (int (path_depth p) - 2))))"
proof -
  let ?inner = "map (\<lambda>d. path_index p (int d)) [1..<path_depth p - 2]"
  have "index_loop alias ?inner 0 [] = joined '' AND '' (inner_constraints alias 0 ?inner)"
    using index_loop_joined [of "[]" "alias" "?inner" 0] by simp
  then show ?thesis
    using assms
    by (simp add: resolve_indexes_def Let_def last_constraint_def
        add_index_constraint_joined(2) [OF inner_constraints_nonempty])
qed


text \<open>The path \<open>alert.target(0).file(0).file_access(n).permission(0)\<close>.\<close>

definition permission_path :: "int \<Rightarrow> idmef_path" where
  "permission_path n =
    \<lparr>path_text = ''alert.target(0).file(0).file_access(n).permission(0)'', path_depth = 5,
     path_class = (\<lambda>i. [CLASS_ALERT, CLASS_TARGET, CLASS_FILE, CLASS_FILE_ACCESS] ! nat i),
     path_name = (\<lambda>i. [''alert'', ''target'', ''file'', ''file_access'', ''permission''] ! nat i),
     path_index = (\<lambda>i. [Index_forbidden, Index 0, Index 0, Index n, Index 0] ! nat i),
     path_value_type = (\<lambda>i. TYPE_STRING)\<rparr>"


text \<open>
  When the last two elements of a path are both listed, the index of the second to last
  is lost: \<open>file_access(m).permission(k)\<close> and \<open>file_access(n).permission(k)\<close> give the same
  constraints, although the table has a column for the index of the file access.
\<close>
theorem adjacent_lists_lose_index:
  assumes "path_depth p = path_depth q" and "2 \<le> path_depth p"
    and "\<forall>d. d \<noteq> int (path_depth p) - 2 \<longrightarrow> path_index p d = path_index q d"
    and "path_index p (int (path_depth p) - 1) \<noteq> Index_forbidden"
  shows "resolve_indexes alias p = resolve_indexes alias q"
proof -
  have "map (\<lambda>d. path_index p (int d)) [1..<path_depth p - 2] = map (\<lambda>d. path_index q (int d)) [1..<path_depth q - 2]"
    using assms(1,3) by (intro map_cong) auto
  moreover have "last_constraint alias (path_index p (int (path_depth p) - 1)) (path_index p (int (path_depth p) - 2)) =
      last_constraint alias (path_index q (int (path_depth q) - 1)) (path_index q (int (path_depth q) - 2))"
    using assms by (simp add: last_constraint_def)
  moreover have "2 \<le> path_depth q" using assms(1,2) by simp
  ultimately show ?thesis
    by (simp only: resolve_indexes_joined [OF assms(2)] resolve_indexes_joined)
qed

theorem adjacent_lists_lose_index_witness:
  "resolve_indexes ''t0'' (permission_path 7) = resolve_indexes ''t0'' (permission_path 8) \<and>
   path_index (permission_path 7) 3 \<noteq> path_index (permission_path 8) 3"
proof
  have "path_index (permission_path 7) d = path_index (permission_path 8) d" if "d \<noteq> 3" for d
  proof (cases "nat d = 3")
    case False
    then show ?thesis
      by (cases "nat d"; simp add: permission_path_def nth_Cons split: nat.split)
  qed (use that in auto)
  then show "resolve_indexes ''t0'' (permission_path 7) = resolve_indexes ''t0'' (permission_path 8)"
    by (intro adjacent_lists_lose_index) (simp_all add: permission_path_def)
qed (simp add: permission_path_def)

end
