(* ===== verification/ClassicResolve.thy ===== *)
theory ClassicResolve
  imports ClassicJoin
begin

text \<open>
  From paths to SQL (\<open>plugins/format/classic/classic-path-resolve.c\<close>): the table and the
  columns of a path, the select list of a path selection, and the WHERE text of a criteria
  tree.  The operations work on the join, the select list and the connection together.
\<close>

unbundle bit_operations_syntax

datatype field_context = CONTEXT_WHERE | CONTEXT_SELECT | CONTEXT_FUNCTION

text \<open>The name of the last element of a path, and the class that holds it.\<close>

definition child_name :: "idmef_path \<Rightarrow> string" where
  "child_name p = path_name p (int (path_depth p) - 1)"

definition parent_class :: "idmef_path \<Rightarrow> class_id" where
  "parent_class p = path_class p (int (path_depth p) - 2)"

section \<open>Tables\<close>

definition upcase :: "char \<Rightarrow> char" where
  "upcase c = char_of ((of_char c + 224) mod (256 :: nat))"

fun camel :: "bool \<Rightarrow> string \<Rightarrow> string" where
  "camel next_is_maj [] = []"
| "camel next_is_maj (c # cs) =
     (if c = CHR ''_'' then camel True cs
      else (if next_is_maj then upcase c else c) # camel False cs)"

definition default_table_name :: "'w env \<Rightarrow> idmef_path \<Rightarrow> string option" where
  "default_table_name E p =
     string_released E (''Requiem_'' @ camel True (idmef_class_get_name E (parent_class p)))"

definition message_table_name :: "'w env \<Rightarrow> idmef_path \<Rightarrow> string option" where
  "message_table_name E p =
    (if child_name p = ''create_time'' then Some ''Requiem_CreateTime''
     else if child_name p = ''detect_time'' then Some ''Requiem_DetectTime''
     else if child_name p = ''analyzer_time'' then Some ''Requiem_AnalyzerTime''
     else default_table_name E p)"

definition process_table_name :: "idmef_path \<Rightarrow> string option" where
  "process_table_name p =
    (if child_name p = ''arg'' then Some ''Requiem_ProcessArg''
     else if child_name p = ''env'' then Some ''Requiem_ProcessEnv''
     else Some ''Requiem_Process'')"

definition file_access_table_name :: "idmef_path \<Rightarrow> string option" where
  "file_access_table_name p =
    (if child_name p = ''permission'' then Some ''Requiem_FileAccess_Permission''
     else Some ''Requiem_FileAccess'')"

definition web_service_table_name :: "idmef_path \<Rightarrow> string option" where
  "web_service_table_name p =
    (if child_name p = ''arg'' then Some ''Requiem_WebServiceArg'' else Some ''Requiem_WebService'')"

section \<open>Columns\<close>

definition default_field_name :: "idmef_path \<Rightarrow> string \<Rightarrow> string" where
  "default_field_name p t = t @ ''.'' @ child_name p"

definition time_with_usec_field_name :: "field_context \<Rightarrow> string \<Rightarrow> string" where
  "time_with_usec_field_name ctx t =
    (if ctx = CONTEXT_SELECT then t @ ''.time, '' @ t @ ''.gmtoff, '' @ t @ ''.usec'' else t @ ''.time'')"

definition time_without_usec_field_name :: "idmef_path \<Rightarrow> field_context \<Rightarrow> string \<Rightarrow> string" where
  "time_without_usec_field_name p ctx t =
    (if ctx = CONTEXT_SELECT
     then t @ ''.'' @ child_name p @ '', '' @ t @ ''.'' @ child_name p @ ''_gmtoff, 0''
     else t @ ''.'' @ child_name p)"

definition message_field_name :: "idmef_path \<Rightarrow> field_context \<Rightarrow> string \<Rightarrow> string" where
  "message_field_name p ctx t =
    (if child_name p = ''create_time'' \<or> child_name p = ''detect_time'' \<or> child_name p = ''analyzer_time''
     then time_with_usec_field_name ctx t
     else default_field_name p t)"

definition snmp_field_name :: "idmef_path \<Rightarrow> string \<Rightarrow> string" where
  "snmp_field_name p t = t @ ''.'' @ (if child_name p = ''oid'' then ''snmp_oid'' else child_name p)"

definition checksum_field_name :: "idmef_path \<Rightarrow> string \<Rightarrow> string" where
  "checksum_field_name p t = t @ ''.'' @ (if child_name p = ''key'' then ''checksum_key'' else child_name p)"

definition file_field_name :: "idmef_path \<Rightarrow> field_context \<Rightarrow> string \<Rightarrow> string" where
  "file_field_name p ctx t =
    (if child_name p = ''create_time'' \<or> child_name p = ''modify_time'' \<or> child_name p = ''access_time''
     then time_without_usec_field_name p ctx t
     else t @ ''.'' @ child_name p)"

text \<open>The table \<open>classes\<close>: the resolvers of the class that holds the path's last element.\<close>

definition resolve_table_name :: "'w env \<Rightarrow> idmef_path \<Rightarrow> string option" where
  "resolve_table_name E p =
    (case parent_class p of
       CLASS_ALERT \<Rightarrow> message_table_name E p
     | CLASS_HEARTBEAT \<Rightarrow> message_table_name E p
     | CLASS_PROCESS \<Rightarrow> process_table_name p
     | CLASS_WEB_SERVICE \<Rightarrow> web_service_table_name p
     | CLASS_FILE_ACCESS \<Rightarrow> file_access_table_name p
     | _ \<Rightarrow> default_table_name E p)"

definition resolve_field_name :: "idmef_path \<Rightarrow> field_context \<Rightarrow> string \<Rightarrow> string" where
  "resolve_field_name p ctx t =
    (case parent_class p of
       CLASS_ALERT \<Rightarrow> message_field_name p ctx t
     | CLASS_HEARTBEAT \<Rightarrow> message_field_name p ctx t
     | CLASS_SNMP_SERVICE \<Rightarrow> snmp_field_name p t
     | CLASS_CHECKSUM \<Rightarrow> checksum_field_name p t
     | CLASS_FILE \<Rightarrow> file_field_name p ctx t
     | _ \<Rightarrow> default_field_name p t)"

definition classic_path_resolve :: "'w env \<Rightarrow> idmef_path \<Rightarrow> field_context \<Rightarrow> (sql_join, err, string) cop" where
  "classic_path_resolve E p ctx =
    (if path_depth p = 2 \<and> path_value_type p 1 \<noteq> TYPE_TIME then retn (default_field_name p ''top_table'')
     else (\<lambda>j. case classic_sql_join_lookup_table E j p of
                 Some t \<Rightarrow> (Inr (resolve_field_name p ctx (aliased_table_name t)), j)
               | None \<Rightarrow>
                   bindr (classic_sql_join_new_table p (resolve_table_name E p))
                     (\<lambda>t. retn (resolve_field_name p ctx (aliased_table_name t))) j))"

section \<open>Selections and criteria\<close>

record 'w qbuild =
  qb_join :: sql_join
  qb_select :: sql_select
  qb_sql :: "'w sql"

definition on_join :: "(sql_join, err, 'a) cop \<Rightarrow> ('w qbuild, err, 'a) cop" where
  "on_join f = (\<lambda>b. case f (qb_join b) of (r, j) \<Rightarrow> (r, b\<lparr>qb_join := j\<rparr>))"

definition on_sql :: "('w, 'a) sqlop \<Rightarrow> ('w qbuild, err, 'a) cop" where
  "on_sql f = (\<lambda>b. case f (qb_sql b) of (r, s) \<Rightarrow> (r, b\<lparr>qb_sql := s\<rparr>))"

definition add_field :: "string \<Rightarrow> path_flags \<Rightarrow> ('w qbuild, err, unit) cop" where
  "add_field name flags = (\<lambda>b. (Inr (), b\<lparr>qb_select := classic_sql_select_add_field name flags (qb_select b)\<rparr>))"

definition any_function :: path_flags where
  "any_function = FUNCTION_MIN OR FUNCTION_MAX OR FUNCTION_AVG OR FUNCTION_STD OR FUNCTION_COUNT"

definition selected_context :: "path_flags \<Rightarrow> field_context" where
  "selected_context flags = (if flags AND any_function \<noteq> 0 then CONTEXT_FUNCTION else CONTEXT_SELECT)"

definition classic_path_resolve_selected :: "'w env \<Rightarrow> selected_path \<Rightarrow> ('w qbuild, err, unit) cop" where
  "classic_path_resolve_selected E sp =
     bindr (on_join (classic_path_resolve E (sp_path sp) (selected_context (sp_flags sp))))
       (\<lambda>name. add_field name (sp_flags sp))"

text \<open>The loop over the selection stands at the path returned last.\<close>

function resolve_selection_from ::
    "'w env \<Rightarrow> path_selection \<Rightarrow> nat option \<Rightarrow> ('w qbuild, err, unit) cop" where
  "resolve_selection_from E sel pos =
    (case path_selection_get_next sel pos of
       None \<Rightarrow> retn ()
     | Some i \<Rightarrow> bindr (classic_path_resolve_selected E (sel_list sel ! i)) (\<lambda>_. resolve_selection_from E sel (Some i)))"
  by pat_completeness auto
termination
  by (relation "measure (\<lambda>(E, sel, pos). case pos of None \<Rightarrow> length (sel_list sel) + 1
        | Some i \<Rightarrow> length (sel_list sel) - i)")
    (auto simp: path_selection_get_next_def Let_def split: option.splits if_splits)

declare resolve_selection_from.simps [simp del]

definition classic_path_resolve_selection :: "'w env \<Rightarrow> path_selection \<Rightarrow> ('w qbuild, err, unit) cop" where
  "classic_path_resolve_selection E sel = resolve_selection_from E sel None"

definition classic_path_resolve_criterion :: "'w env \<Rightarrow> criterion \<Rightarrow> ('w qbuild, err, string) cop" where
  "classic_path_resolve_criterion E c =
     bindr (on_join (classic_path_resolve E (crit_path c) CONTEXT_WHERE)) (\<lambda>name.
       on_sql (requiemdb_sql_build_criterion_string E name (crit_op_of c) (crit_val c)))"

fun classic_path_resolve_criteria :: "'w env \<Rightarrow> criteria \<Rightarrow> ('w qbuild, err, string) cop" where
  "classic_path_resolve_criteria E (Criteria c or_crit and_crit) =
     bindr (classic_path_resolve_criterion E c) (\<lambda>t.
     bindr (case and_crit of
              None \<Rightarrow> retn []
            | Some a \<Rightarrow> bindr (classic_path_resolve_criteria E a) (\<lambda>u. retn ('' AND '' @ u))) (\<lambda>u.
     bindr (case or_crit of
              None \<Rightarrow> retn []
            | Some b \<Rightarrow> bindr (classic_path_resolve_criteria E b) (\<lambda>v. retn ('') OR ('' @ v @ ''))''))) (\<lambda>v.
     retn ((if or_crit \<noteq> None then ''(('' else []) @ t @ u @ v))))"

section \<open>Tables are shared\<close>

lemma resolve_top:
  "path_depth p = 2 \<Longrightarrow> path_value_type p 1 \<noteq> TYPE_TIME \<Longrightarrow>
   classic_path_resolve E p ctx = retn (default_field_name p ''top_table'')"
  by (simp add: classic_path_resolve_def)

lemma resolve_cases:
  assumes "classic_path_resolve E p ctx j = (Inr out, j')"
  obtains (top) "path_depth p = 2" "path_value_type p 1 \<noteq> TYPE_TIME" "out = default_field_name p ''top_table''" "j' = j"
  | (found) t where "classic_sql_join_lookup_table E j p = Some t"
      "out = resolve_field_name p ctx (aliased_table_name t)" "j' = j"
  | (fresh) t where "classic_sql_join_lookup_table E j p = None"
      "classic_sql_join_new_table p (resolve_table_name E p) j = (Inr t, j')"
      "out = resolve_field_name p ctx (aliased_table_name t)"
proof (cases "path_depth p = 2 \<and> path_value_type p 1 \<noteq> TYPE_TIME")
  case True
  with assms show ?thesis by (intro top) (auto simp: classic_path_resolve_def)
next
  case False
  show ?thesis
  proof (cases "classic_sql_join_lookup_table E j p")
    case (Some t)
    with assms False show ?thesis by (intro found) (auto simp: classic_path_resolve_def)
  next
    case None
    obtain r k where run: "classic_sql_join_new_table p (resolve_table_name E p) j = (r, k)" by fastforce
    with assms False None obtain t where "r = Inr t" "k = j'" "out = resolve_field_name p ctx (aliased_table_name t)"
      by (cases r) (auto simp: classic_path_resolve_def)
    with run None show ?thesis by (intro fresh) auto
  qed
qed

definition resolves_in :: "'w env \<Rightarrow> idmef_path \<Rightarrow> sql_join \<Rightarrow> string \<Rightarrow> bool" where
  "resolves_in E p j t \<longleftrightarrow>
     (\<exists>u \<in> set (tables j). aliased_table_name u = t \<and> (same_table E p (jt_path u) \<or> jt_path u = p))"


text \<open>The path \<open>alert.source(0).node.name\<close>.\<close>

definition node_path :: idmef_path where
  "node_path =
    \<lparr>path_text = ''alert.source(0).node.name'', path_depth = 4,
     path_class = (\<lambda>i. if i = 0 then CLASS_ALERT else if i = 1 then CLASS_SOURCE else CLASS_OTHER 22),
     path_name = (\<lambda>i. [''alert'', ''source'', ''node'', ''name''] ! nat i),
     path_index = (\<lambda>i. if i = 1 then Index 0 else Index_forbidden),
     path_value_type = (\<lambda>_. TYPE_STRING)\<rparr>"

definition named_env :: "unit env" where
  "named_env = null_env\<lparr>idmef_class_get_name := (\<lambda>_. ''node'')\<rparr>"


section \<open>What a criteria tree says\<close>

text \<open>
  A condition is a tree of criteria texts; \<open>criteria_tree\<close> gives the meaning of a criteria
  object, \<open>(criterion AND and) OR or\<close>, and a token is a parenthesis, a connective or the
  text of one criterion.
\<close>

datatype bexp = BAtom string | BAnd bexp bexp | BOr bexp bexp

datatype btoken = TL | TR | TAnd | TOr | TAtom string

fun criteria_tree :: "'w env \<Rightarrow> criteria \<Rightarrow> ('w qbuild, err, bexp) cop" where
  "criteria_tree E (Criteria c or_crit and_crit) =
     bindr (classic_path_resolve_criterion E c) (\<lambda>t.
     bindr (case and_crit of
              None \<Rightarrow> retn (BAtom t)
            | Some a \<Rightarrow> bindr (criteria_tree E a) (\<lambda>u. retn (BAnd (BAtom t) u))) (\<lambda>u.
     (case or_crit of
        None \<Rightarrow> retn u
      | Some b \<Rightarrow> bindr (criteria_tree E b) (\<lambda>v. retn (BOr u v)))))"

fun btokens :: "bexp \<Rightarrow> btoken list" where
  "btokens (BAtom a) = [TAtom a]"
| "btokens (BAnd a b) = btokens a @ [TAnd] @ btokens b"
| "btokens (BOr a b) = [TL, TL] @ btokens a @ [TR, TOr, TL] @ btokens b @ [TR, TR]"

fun btoken_text :: "btoken \<Rightarrow> string" where
  "btoken_text TL = ''(''"
| "btoken_text TR = '')''"
| "btoken_text TAnd = '' AND ''"
| "btoken_text TOr = '' OR ''"
| "btoken_text (TAtom a) = a"

definition btext :: "bexp \<Rightarrow> string" where
  "btext e = concat (map btoken_text (btokens e))"

text \<open>
  SQL's reading of a token list: AND binds closer than OR, parentheses group.  The first
  argument bounds the depth of the recursion.
\<close>

fun parse_or :: "nat \<Rightarrow> btoken list \<Rightarrow> (bexp \<times> btoken list) option"
  and parse_and :: "nat \<Rightarrow> btoken list \<Rightarrow> (bexp \<times> btoken list) option"
  and parse_prim :: "nat \<Rightarrow> btoken list \<Rightarrow> (bexp \<times> btoken list) option" where
  "parse_or 0 ts = None"
| "parse_or (Suc n) ts =
    (case parse_and n ts of
       Some (a, TOr # ts') \<Rightarrow> map_option (\<lambda>(b, r). (BOr a b, r)) (parse_or n ts')
     | r \<Rightarrow> r)"
| "parse_and 0 ts = None"
| "parse_and (Suc n) ts =
    (case parse_prim n ts of
       Some (a, TAnd # ts') \<Rightarrow> map_option (\<lambda>(b, r). (BAnd a b, r)) (parse_and n ts')
     | r \<Rightarrow> r)"
| "parse_prim 0 ts = None"
| "parse_prim (Suc n) ts =
    (case ts of
       TAtom a # ts' \<Rightarrow> Some (BAtom a, ts')
     | TL # ts' \<Rightarrow> (case parse_or n ts' of Some (e, TR # r) \<Rightarrow> Some (e, r) | _ \<Rightarrow> None)
     | _ \<Rightarrow> None)"

text \<open>The trees criteria give: the left of an AND is one criterion.\<close>

fun criteria_shaped :: "bexp \<Rightarrow> bool" where
  "criteria_shaped (BAtom a) = True"
| "criteria_shaped (BAnd a b) = ((\<exists>t. a = BAtom t) \<and> criteria_shaped b)"
| "criteria_shaped (BOr a b) = (criteria_shaped a \<and> criteria_shaped b)"

definition stops :: "btoken list \<Rightarrow> bool" where
  "stops rest \<longleftrightarrow> (case rest of TAnd # _ \<Rightarrow> False | _ \<Rightarrow> True)"

lemma stops_simps [simp]: "stops []" "stops (TR # r)" "stops (TOr # r)"
  by (simp_all add: stops_def)

lemma parse_and_prim:
  "parse_prim n ts = Some (a, rest) \<Longrightarrow> stops rest \<Longrightarrow> parse_and (Suc n) ts = Some (a, rest)"
  by (simp add: stops_def split: list.splits btoken.splits)

fun bsize :: "bexp \<Rightarrow> nat" where
  "bsize (BAtom a) = 1"
| "bsize (BAnd a b) = bsize a + bsize b"
| "bsize (BOr a b) = bsize a + bsize b"

lemma bsize_pos [simp]: "0 < bsize e"
  by (induction e) auto

lemma parse_tokens:
  "criteria_shaped e \<Longrightarrow> stops rest \<Longrightarrow> 7 * bsize e \<le> n \<Longrightarrow> parse_and n (btokens e @ rest) = Some (e, rest)"
proof (induction e arbitrary: rest n)
  case (BAtom a)
  then have "n = Suc (Suc (n - 2))" by simp
  then obtain k where "n = Suc (Suc k)" by blast
  with BAtom show ?case by (simp add: stops_def split: list.splits btoken.splits)
next
  case (BAnd a b)
  then obtain t where a: "a = BAtom t" by auto
  from BAnd.prems have "n = Suc (Suc (n - 2))" "7 * bsize b \<le> Suc (n - 2)" by (simp_all add: a)
  then obtain k where n: "n = Suc (Suc k)" "7 * bsize b \<le> Suc k" by blast
  from BAnd.IH(2) [of rest "Suc k"] BAnd.prems n a show ?case by simp
next
  case (BOr a b)
  have "0 < bsize a" "0 < bsize b" by simp_all
  with BOr.prems have "n = Suc (Suc (Suc (Suc (Suc (Suc (Suc (n - 7)))))))" "7 * bsize a \<le> n - 7" "7 * bsize b \<le> n - 7"
    by (simp_all del: bsize_pos)
  then obtain k where n: "n = Suc (Suc (Suc (Suc (Suc (Suc (Suc k))))))"
    and s: "7 * bsize a \<le> Suc k" "7 * bsize b \<le> k" by fastforce
  let ?r = "TOr # TL # btokens b @ TR # TR # rest"
  have a: "parse_and (Suc k) (btokens a @ TR # ?r) = Some (a, TR # ?r)"
    and b: "parse_and k (btokens b @ TR # TR # rest) = Some (b, TR # TR # rest)"
    using BOr.IH BOr.prems(1) s by (simp_all del: parse_and.simps)
  have "parse_prim (Suc (Suc (Suc (Suc (Suc (Suc k)))))) (btokens (BOr a b) @ rest) = Some (BOr a b, rest)"
    using a b by (simp del: parse_and.simps add: parse_and.simps(2) [of "Suc (Suc (Suc k))"]
        parse_and.simps(2) [of "Suc (Suc k)"])
  then show ?case unfolding n by (rule parse_and_prim) (rule BOr.prems(2))
qed

lemma btext_simps [simp]:
  "btext (BAtom t) = t"
  "btext (BAnd a b) = btext a @ '' AND '' @ btext b"
  "btext (BOr a b) = ''(('' @ btext a @ '') OR ('' @ btext b @ ''))''"
  by (simp_all add: btext_def)

lemma resolve_criteria_tree:
  "classic_path_resolve_criteria E c = bindr (criteria_tree E c) (\<lambda>e. retn (btext e))"
proof (induction E c rule: classic_path_resolve_criteria.induct)
  case (1 E c or_crit and_crit)
  show ?case
    using 1 by (cases and_crit; cases or_crit) (simp_all add: bindr_assoc del: retn_run)
qed

lemma criteria_tree_shaped:
  "criteria_tree E c b = (Inr e, b') \<Longrightarrow> criteria_shaped e"
proof (induction E c arbitrary: b e b' rule: criteria_tree.induct)
  case (1 E c or_crit and_crit)
  show ?case
  proof (cases and_crit)
    case None
    with 1 show ?thesis
      by (cases or_crit) (auto simp: bindr_def retn_def split: prod.splits sum.splits)
  next
    case (Some a)
    with 1 show ?thesis
      by (cases or_crit) (auto simp: bindr_def retn_def split: prod.splits sum.splits)
  qed
qed

lemma parse_tokens_or:
  "criteria_shaped e \<Longrightarrow> parse_or (Suc (7 * bsize e)) (btokens e) = Some (e, [])"
  using parse_tokens [of e "[]" "7 * bsize e"] by simp

text \<open>
  C11.  The WHERE text of a criteria tree means what the tree says: it is the text of a token
  list that SQL's grammar, with AND binding closer than OR, reads back as
  \<open>(criterion AND and) OR or\<close> at every node, each criterion as one operand; a criterion that
  cannot be resolved or built fails the whole text with its error.
\<close>
theorem criteria_text_meaning:
  "classic_path_resolve_criteria E c b =
     (case criteria_tree E c b of
        (Inl e, b') \<Rightarrow> (Inl e, b')
      | (Inr e, b') \<Rightarrow> (Inr (concat (map btoken_text (btokens e))), b')) \<and>
   (case fst (criteria_tree E c b) of
      Inl _ \<Rightarrow> True
    | Inr e \<Rightarrow> \<exists>n. parse_or n (btokens e) = Some (e, []))"
proof -
  obtain r b' where run: "criteria_tree E c b = (r, b')" by fastforce
  show ?thesis
  proof (cases r)
    case (Inl e)
    with run show ?thesis by (simp add: resolve_criteria_tree)
  next
    case (Inr e)
    have "\<exists>n. parse_or n (btokens e) = Some (e, [])"
      by (rule exI) (rule parse_tokens_or [OF criteria_tree_shaped [OF run [unfolded Inr]]])
    with run Inr show ?thesis by (simp add: resolve_criteria_tree btext_def)
  qed
qed

section \<open>Selections\<close>

definition resolve_list :: "'w env \<Rightarrow> selected_path list \<Rightarrow> ('w qbuild, err, unit) cop" where
  "resolve_list E sps = foldr (\<lambda>sp k. thenr (classic_path_resolve_selected E sp) k) sps (retn ())"

lemma resolve_selection_drop:
  "resolve_selection_from E sel pos =
     resolve_list E (drop (case pos of None \<Rightarrow> 0 | Some i \<Rightarrow> Suc i) (sel_list sel))"
proof (induction E sel pos rule: resolve_selection_from.induct)
  case (1 E sel pos)
  let ?i = "case pos of None \<Rightarrow> 0 | Some i \<Rightarrow> Suc i"
  show ?case
  proof (cases "?i < length (sel_list sel)")
    case True
    then have next_i: "path_selection_get_next sel pos = Some ?i"
      by (auto simp: path_selection_get_next_def split: option.splits)
    have "drop ?i (sel_list sel) = (sel_list sel ! ?i) # drop (Suc ?i) (sel_list sel)"
      using True by (simp add: Cons_nth_drop_Suc)
    with 1 [OF next_i] next_i show ?thesis
      by (simp add: resolve_selection_from.simps [of E sel pos] resolve_list_def)
  next
    case False
    then have "path_selection_get_next sel pos = None"
      by (simp add: path_selection_get_next_def split: option.splits)
    with False show ?thesis
      by (simp add: resolve_selection_from.simps [of E sel pos] resolve_list_def)
  qed
qed

lemma resolve_selection_all: "classic_path_resolve_selection E sel = resolve_list E (sel_list sel)"
  by (simp add: classic_path_resolve_selection_def resolve_selection_drop)

section \<open>What resolving keeps\<close>

context sql_client begin

lemma on_join_keeps: "keeps (\<lambda>b. I (qb_sql b)) (on_join f)"
  by (rule keepsI) (simp add: on_join_def split: prod.split)

lemma on_sql_keeps: "keeps I f \<Longrightarrow> keeps (\<lambda>b. I (qb_sql b)) (on_sql f)"
  by (rule keepsI) (auto simp: on_sql_def split: prod.split dest: keepsD)

lemma add_field_keeps: "keeps (\<lambda>b. I (qb_sql b)) (add_field name flags)"
  by (rule keepsI) (simp add: add_field_def)

lemma resolve_selected_keeps: "keeps (\<lambda>b. I (qb_sql b)) (classic_path_resolve_selected E sp)"
  unfolding classic_path_resolve_selected_def by (intro keeps_bindr on_join_keeps add_field_keeps)

lemma resolve_list_keeps: "keeps (\<lambda>b. I (qb_sql b)) (resolve_list E sps)"
  unfolding resolve_list_def by (induction sps) (auto intro!: keeps_bindr resolve_selected_keeps)

lemma resolve_selection_keeps: "keeps (\<lambda>b. I (qb_sql b)) (classic_path_resolve_selection E sel)"
  by (simp add: resolve_selection_all resolve_list_keeps)

lemma resolve_criterion_keeps: "keeps (\<lambda>b. I (qb_sql b)) (classic_path_resolve_criterion E c)"
  unfolding classic_path_resolve_criterion_def
  by (intro keeps_bindr on_join_keeps on_sql_keeps criterion_string_keeps)

lemma resolve_criteria_keeps: "keeps (\<lambda>b. I (qb_sql b)) (classic_path_resolve_criteria E c)"
proof (induction c)
  case (Criteria c or_crit and_crit)
  then show ?case
    by (cases or_crit; cases and_crit) (auto intro!: keeps_bindr keeps_retn resolve_criterion_keeps)
qed

end

end
