(* ===== verification/ClassicQuery.thy ===== *)
theory ClassicQuery
  imports ClassicResolve
begin

text \<open>
  The queries of the format plugin (\<open>plugins/format/classic/classic.c\<close>): the idents of
  the messages that satisfy criteria, the values of a path selection, and how the rows of
  their results are read.
\<close>

unbundle bit_operations_syntax

text \<open>A query is built in a join, a select list and a text that live as long as the call.\<close>

definition with_builder :: "sql_join \<Rightarrow> ('w qbuild, err, 'a) cop \<Rightarrow> ('w, 'a) sqlop" where
  "with_builder j f = (\<lambda>s. case f \<lparr>qb_join = j, qb_select = classic_sql_select_new, qb_sql = s\<rparr> of
     (r, b) \<Rightarrow> (r, qb_sql b))"

definition query_text :: "bool \<Rightarrow> sql_select \<Rightarrow> sql_join \<Rightarrow> string option \<Rightarrow> string" where
  "query_text distinct_rows sel j where_text =
     ''SELECT '' @ (if distinct_rows then ''DISTINCT '' else []) @
     classic_sql_select_fields_to_string sel @ '' FROM '' @ classic_sql_join_to_string j @
     (case where_text of None \<Rightarrow> [] | Some w \<Rightarrow> '' WHERE '' @ w) @
     classic_sql_select_modifiers_to_string sel"

definition send_query :: "'w env \<Rightarrow> bool \<Rightarrow> string option \<Rightarrow> int \<Rightarrow> int \<Rightarrow> ('w qbuild, err, nat \<times> sql_res option) cop" where
  "send_query E distinct_rows where_text limit offset = (\<lambda>b.
     on_sql (bindr (requiemdb_sql_build_limit_offset_string E limit offset) (\<lambda>l.
       requiemdb_sql_query E (query_text distinct_rows (qb_select b) (qb_join b) where_text @ l) True)) b)"

section \<open>Message idents\<close>

datatype idents_order = ORDER_BY_NONE | ORDER_BY_CREATE_TIME_DESC | ORDER_BY_CREATE_TIME_ASC

definition get_message_idents_set_order :: "'w env \<Rightarrow> class_id \<Rightarrow> idents_order \<Rightarrow> ('w qbuild, err, unit) cop" where
  "get_message_idents_set_order E message_type order =
    (case idmef_path_new_fast E
            (if message_type = CLASS_ALERT then ''alert.create_time'' else ''heartbeat.create_time'') of
       Inl e \<Rightarrow> failw e
     | Inr p \<Rightarrow>
         classic_path_resolve_selected E
           \<lparr>sp_path = p, sp_flags = if order = ORDER_BY_CREATE_TIME_DESC then ORDER_DESC else ORDER_ASC\<rparr>)"

text \<open>
  When the criteria cannot be resolved the code destroys the string \<open>where\<close> and then goes to
  the exit that destroys it again.
\<close>

definition destroying_where_twice :: "('s, err, 'a) cop \<Rightarrow> ('s, err, 'a) cop" where
  "destroying_where_twice f = (\<lambda>s. case f s of (Inl e, s') \<Rightarrow> (Inl DoubleFree, s') | (Inr a, s') \<Rightarrow> (Inr a, s'))"

definition get_message_idents ::
    "'w env \<Rightarrow> class_id \<Rightarrow> criteria option \<Rightarrow> int \<Rightarrow> int \<Rightarrow> idents_order \<Rightarrow> ('w, nat \<times> sql_res option) sqlop" where
  "get_message_idents E message_type crit limit offset order =
     with_builder (classic_sql_join_set_top_class message_type classic_sql_join_new)
      (bindr (add_field ''DISTINCT(top_table._ident)'' 0) (\<lambda>_.
       bindr (if order \<noteq> ORDER_BY_NONE then get_message_idents_set_order E message_type order else retn ()) (\<lambda>_.
       bindr (case crit of
                None \<Rightarrow> retn None
              | Some c \<Rightarrow> bindr (destroying_where_twice (classic_path_resolve_criteria E c)) (\<lambda>t. retn (Some t)))
        (\<lambda>where_text. send_query E False where_text limit offset))))"

definition classic_get_alert_idents ::
    "'w env \<Rightarrow> criteria option \<Rightarrow> int \<Rightarrow> int \<Rightarrow> idents_order \<Rightarrow> ('w, nat \<times> sql_res option) sqlop" where
  "classic_get_alert_idents E = get_message_idents E CLASS_ALERT"

definition classic_get_heartbeat_idents ::
    "'w env \<Rightarrow> criteria option \<Rightarrow> int \<Rightarrow> int \<Rightarrow> idents_order \<Rightarrow> ('w, nat \<times> sql_res option) sqlop" where
  "classic_get_heartbeat_idents E = get_message_idents E CLASS_HEARTBEAT"

definition classic_get_message_ident_count :: "'w env \<Rightarrow> 'w sql \<Rightarrow> sql_res \<Rightarrow> nat" where
  "classic_get_message_ident_count E s res = requiemdb_sql_table_get_row_count E s res"

text \<open>\<open>None\<close> is the return 0: no further row, or an ident that is NULL.\<close>

definition classic_get_next_message_ident :: "'w env \<Rightarrow> sql_res \<Rightarrow> ('w, stored option) sqlop" where
  "classic_get_next_message_ident E res =
     bindr (requiemdb_sql_table_fetch_row E res) (\<lambda>row.
       case row of
         None \<Rightarrow> retn None
       | Some h \<Rightarrow>
           bindr (requiemdb_sql_row_fetch_field E res h 0) (\<lambda>field.
             case field of
               None \<Rightarrow> retn None
             | Some v \<Rightarrow> (case field_to_uint64 v of Inl e \<Rightarrow> failw e | Inr i \<Rightarrow> retn (Some i))))"

definition classic_destroy_message_idents_resource :: "'w env \<Rightarrow> sql_res \<Rightarrow> 'w sql \<Rightarrow> 'w sql" where
  "classic_destroy_message_idents_resource E res s = requiemdb_sql_table_destroy E res s"

section \<open>Values\<close>

definition classic_get_values ::
    "'w env \<Rightarrow> path_selection \<Rightarrow> criteria option \<Rightarrow> bool \<Rightarrow> int \<Rightarrow> int \<Rightarrow> ('w, nat \<times> sql_res option) sqlop" where
  "classic_get_values E sel crit distinct_rows limit offset =
     with_builder classic_sql_join_new
      (bindr (classic_path_resolve_selection E sel) (\<lambda>_.
       bindr (case crit of
                None \<Rightarrow> retn None
              | Some c \<Rightarrow> bindr (classic_path_resolve_criteria E c) (\<lambda>t. retn (Some t)))
        (\<lambda>where_text. send_query E distinct_rows where_text limit offset)))"

text \<open>
  What a value pointer holds after \<open>get_value\<close>; \<open>Got_nothing\<close> is a pointer left as it was,
  although the call succeeds.
\<close>

datatype got_value =
    Got_null | Got_uint32 stored | Got_time idmef_time | Got_value idmef_value | Got_nothing

text \<open>A variable initialised with \<open>d\<close> after a conversion into it.\<close>

definition assigned :: "int \<Rightarrow> err + stored \<Rightarrow> ('s, err, int) cop" where
  "assigned d r =
    (case r of
       Inl e \<Rightarrow> failw e
     | Inr (Stored i) \<Rightarrow> retn i
     | Inr Unset \<Rightarrow> retn d
     | Inr Undefined \<Rightarrow> failw UndefinedValue)"

definition any_value_function :: path_flags where
  "any_value_function = FUNCTION_MIN OR FUNCTION_MAX OR FUNCTION_AVG OR FUNCTION_STD"

definition multiple_time_field :: "idmef_path \<Rightarrow> path_flags \<Rightarrow> bool" where
  "multiple_time_field p flags \<longleftrightarrow>
     path_value_type p (int (path_depth p) - 1) = TYPE_TIME \<and> flags AND any_value_function = 0"

definition new_time_value :: "'w env \<Rightarrow> string \<Rightarrow> int \<Rightarrow> int \<Rightarrow> ('w, got_value) sqlop" where
  "new_time_value E text gmtoff usec = (\<lambda>s.
     case on_world (requiemdb_sql_time_from_timestamp E text gmtoff usec) s of
       (Inl _, s') \<Rightarrow> (Inr (Got_time (idmef_time_new E)), s')
     | (Inr t, s') \<Rightarrow> (Inr (Got_time t), s'))"

text \<open>
  The GMT offset and the microseconds of a time.  A microseconds field that is no number ends
  the function with the return of the fetch before it, which is 1.
\<close>

definition get_time_value :: "'w env \<Rightarrow> sql_res \<Rightarrow> sql_rowh \<Rightarrow> nat \<Rightarrow> string \<Rightarrow> ('w, nat \<times> got_value) sqlop" where
  "get_time_value E res row cnt text =
     bindr (requiemdb_sql_row_fetch_field E res row (cnt + 1)) (\<lambda>gmtoff_field.
     bindr (case gmtoff_field of None \<Rightarrow> retn 0 | Some v \<Rightarrow> assigned 0 (field_to_int32 v)) (\<lambda>gmtoff.
     bindr (requiemdb_sql_row_fetch_field E res row (cnt + 2)) (\<lambda>usec_field.
       case usec_field of
         None \<Rightarrow> bindr (new_time_value E text gmtoff 0) (\<lambda>v. retn (3, v))
       | Some u \<Rightarrow>
           (case field_to_uint32 u of
              Inl _ \<Rightarrow> retn (1, Got_nothing)
            | r \<Rightarrow> bindr (assigned 0 r) (\<lambda>usec.
                     bindr (new_time_value E text gmtoff usec) (\<lambda>v. retn (3, v)))))))"

definition get_value :: "'w env \<Rightarrow> sql_res \<Rightarrow> sql_rowh \<Rightarrow> nat \<Rightarrow> selected_path \<Rightarrow> ('w, nat \<times> got_value) sqlop" where
  "get_value E res row cnt sp =
    (let flags = sp_flags sp; p = sp_path sp; multi = multiple_time_field p flags
     in bindr (requiemdb_sql_row_fetch_field E res row cnt) (\<lambda>field.
          case field of
            None \<Rightarrow> retn (if multi then 3 else 1, Got_null)
          | Some char_val \<Rightarrow>
              if flags AND FUNCTION_COUNT \<noteq> 0 then
                (case field_to_uint32 char_val of
                   Inl e \<Rightarrow> failw e
                 | Inr count \<Rightarrow> retn (1, Got_uint32 count))
              else if path_value_type p (int (path_depth p) - 1) = TYPE_TIME then
                (if multi then get_time_value E res row cnt char_val
                 else bindr (new_time_value E char_val 0 0) (\<lambda>v. retn (1, v)))
              else
                (case idmef_value_new_from_path E p char_val of
                   Inl e \<Rightarrow> failw e
                 | Inr v \<Rightarrow> retn (1, Got_value v))))"

text \<open>The loop over the selection: the position returned last, and the next SQL column.\<close>

fun get_values_loop ::
    "'w env \<Rightarrow> sql_res \<Rightarrow> sql_rowh \<Rightarrow> path_selection \<Rightarrow> nat \<Rightarrow> nat option \<Rightarrow> nat \<Rightarrow> ('w, got_value list) sqlop" where
  "get_values_loop E res row sel 0 pos sql_cnt = retn []"
| "get_values_loop E res row sel (Suc n) pos sql_cnt =
    (case path_selection_get_next sel pos of
       None \<Rightarrow> failw NullDeref
     | Some i \<Rightarrow>
         bindr (get_value E res row sql_cnt (sel_list sel ! i)) (\<lambda>(k, v).
         bindr (get_values_loop E res row sel n (Some i) (sql_cnt + k)) (\<lambda>vs. retn (v # vs))))"

definition classic_get_next_values :: "'w env \<Rightarrow> sql_res \<Rightarrow> path_selection \<Rightarrow> ('w, got_value list option) sqlop" where
  "classic_get_next_values E res sel =
     bindr (requiemdb_sql_table_fetch_row E res) (\<lambda>row.
       case row of
         None \<Rightarrow> retn None
       | Some h \<Rightarrow> bindr (get_values_loop E res h sel (path_selection_get_count sel) None 0) (\<lambda>vs. retn (Some vs)))"

definition classic_destroy_values_resource :: "'w env \<Rightarrow> sql_res \<Rightarrow> 'w sql \<Rightarrow> 'w sql" where
  "classic_destroy_values_resource E res s = requiemdb_sql_table_destroy E res s"

text \<open>
  \<open>classic_check_schema_version\<close>.  \<open>scan_lf\<close> is \<open>sscanf\<close>'s \<open>%lf\<close>, \<open>newer\<close> and
  \<open>older\<close> compare the number with the version of the plugin (two comparisons of doubles, both
  false for a NaN), \<open>show_g\<close> prints both.
\<close>

definition classic_check_schema_version ::
    "(string \<Rightarrow> 'd option) \<Rightarrow> ('d \<Rightarrow> bool) \<Rightarrow> ('d \<Rightarrow> bool) \<Rightarrow> ('d \<Rightarrow> string) \<Rightarrow> string option \<Rightarrow> ('w world, err, unit) cop" where
  "classic_check_schema_version scan_lf newer older show_g version =
    (case version of
       None \<Rightarrow> failw (requiemdb_error ERROR_SCHEMA_VERSION_INVALID)
     | Some v \<Rightarrow>
         (case scan_lf v of
            None \<Rightarrow> failw (requiemdb_error ERROR_SCHEMA_VERSION_INVALID)
          | Some d \<Rightarrow>
              if newer d then
                error_verbose ERROR_SCHEMA_VERSION_TOO_RECENT
                  (''Database schema version '' @ show_g d @ '' is too recent (14.7 required)'')
              else if older d then
                error_verbose ERROR_SCHEMA_VERSION_TOO_OLD
                  (''Database schema version '' @ show_g d @ '' is too old (14.7 required)'')
              else retn ()))"

section \<open>Columns of a path\<close>

text \<open>
  The columns a path takes in a select list, one expression each; \<open>time_path_ok\<close> says that
  the paths librequiem gives the type TIME are the ones the resolvers treat as times.
\<close>

definition message_time :: "idmef_path \<Rightarrow> bool" where
  "message_time p \<longleftrightarrow> parent_class p \<in> {CLASS_ALERT, CLASS_HEARTBEAT} \<and>
     child_name p \<in> {''create_time'', ''detect_time'', ''analyzer_time''}"

definition file_time :: "idmef_path \<Rightarrow> bool" where
  "file_time p \<longleftrightarrow> parent_class p = CLASS_FILE \<and> child_name p \<in> {''create_time'', ''modify_time'', ''access_time''}"

definition time_path_ok :: "idmef_path \<Rightarrow> bool" where
  "time_path_ok p \<longleftrightarrow> (path_value_type p (int (path_depth p) - 1) = TYPE_TIME \<longleftrightarrow> message_time p \<or> file_time p)"

definition columns_of :: "idmef_path \<Rightarrow> path_flags \<Rightarrow> string \<Rightarrow> string list" where
  "columns_of p flags t =
    (if message_time p \<and> flags AND any_function = 0 then [t @ ''.time'', t @ ''.gmtoff'', t @ ''.usec'']
     else if file_time p \<and> flags AND any_function = 0
       then [t @ ''.'' @ child_name p, t @ ''.'' @ child_name p @ ''_gmtoff'', ''0'']
     else [field_text (resolve_field_name p (selected_context flags) t) flags])"

lemma flag_mask_cases:
  "flags AND any_function = 0 \<Longrightarrow> sql_function_name flags sql_functions_table = None"
proof -
  assume a: "flags AND any_function = 0"
  have sub: "flags AND f = 0" if "f AND any_function = f" for f :: path_flags
  proof -
    have "flags AND f = (flags AND any_function) AND f"
      using that by (metis and.assoc and.commute)
    with a show ?thesis by simp
  qed
  have "FUNCTION_MIN AND any_function = FUNCTION_MIN" "FUNCTION_MAX AND any_function = FUNCTION_MAX"
    "FUNCTION_AVG AND any_function = FUNCTION_AVG" "FUNCTION_STD AND any_function = FUNCTION_STD"
    "FUNCTION_COUNT AND any_function = FUNCTION_COUNT"
    by (simp_all add: any_function_def flag_defs)
  then show ?thesis using sub by (simp add: sql_functions_table_def)
qed

lemma no_count_masks:
  assumes "flags AND FUNCTION_COUNT = 0"
  shows "flags AND any_value_function = flags AND any_function"
proof -
  have "flags AND any_function = (flags AND any_value_function) OR (flags AND FUNCTION_COUNT)"
    by (simp only: any_function_def any_value_function_def bit.conj_disj_distrib or.assoc)
  with assms show ?thesis by simp
qed

lemma not_both_times: "message_time p \<Longrightarrow> \<not> file_time p"
  by (auto simp: message_time_def file_time_def)

lemma field_text_columns: "field_text (resolve_field_name p (selected_context flags) t) flags = joined '', '' (columns_of p flags t)"
proof (cases "(message_time p \<or> file_time p) \<and> flags AND any_function = 0")
  case True
  then have "sql_function_name flags sql_functions_table = None" "selected_context flags = CONTEXT_SELECT"
    using flag_mask_cases by (simp_all add: selected_context_def)
  with True show ?thesis
    by (auto simp: columns_of_def field_text_def resolve_field_name_def message_time_def file_time_def
        message_field_name_def file_field_name_def time_with_usec_field_name_def
        time_without_usec_field_name_def)
next
  case False
  then show ?thesis by (auto simp: columns_of_def)
qed

definition retrieves :: "nat \<Rightarrow> err + (nat \<times> got_value) \<Rightarrow> bool" where
  "retrieves n r \<longleftrightarrow> (case r of Inr (k, v) \<Rightarrow> v \<noteq> Got_nothing \<longrightarrow> k = n | Inl _ \<Rightarrow> True)"

lemma retrieves_simps [simp]:
  "retrieves n (Inl e)" "retrieves n (Inr (n, v))" "retrieves n (Inr (k, Got_nothing))"
  by (simp_all add: retrieves_def)

lemma retrieves_bindr: "(\<And>a s. retrieves n (fst (g a s))) \<Longrightarrow> retrieves n (fst (bindr f g s))"
  by (simp add: bindr_def split: prod.split sum.split)

lemma get_time_value_retrieves: "retrieves 3 (fst (get_time_value E res row cnt text s))"
  unfolding get_time_value_def
  by (intro retrieves_bindr) (auto intro!: retrieves_bindr split: option.split sum.split simp: retrieves_bindr)

lemma get_value_retrieves:
  assumes "flags = sp_flags sp" and "flags AND FUNCTION_COUNT = 0"
  shows "retrieves (if multiple_time_field (sp_path sp) flags then 3 else 1) (fst (get_value E res row cnt sp s))"
proof -
  let ?p = "sp_path sp"
  show ?thesis
    unfolding get_value_def Let_def
    using assms
    by (intro retrieves_bindr)
      (auto simp: get_time_value_retrieves multiple_time_field_def intro!: retrieves_bindr
        split: option.split sum.split)
qed


definition create_time_path :: idmef_path where
  "create_time_path =
    \<lparr>path_text = ''alert.create_time'', path_depth = 2,
     path_class = (\<lambda>i. CLASS_ALERT),
     path_name = (\<lambda>i. if i = 0 then ''alert'' else ''create_time''),
     path_index = (\<lambda>_. Index_forbidden),
     path_value_type = (\<lambda>i. TYPE_TIME)\<rparr>"

definition row_env :: "unit env" where
  "row_env = null_env\<lparr>env_plugin := null_plugin\<lparr>pl_fetch_field :=
     Some (\<lambda>r row c. retn (if c = 0 then Some ''2009-01-02 03:04:05'' else Some ''7''))\<rparr>\<rparr>"


text \<open>
  ORDER BY and GROUP BY count the paths of the selection, SQL counts columns: after a
  time, which takes three columns, the clause of the second path names the time's GMT offset.
\<close>
theorem order_by_after_time_names_gmtoff:
  assumes "message_time p" and "field \<noteq> []"
  shows "let sel = select_all [(resolve_field_name p CONTEXT_SELECT t, 0), (field, ORDER_DESC OR GROUP_BY)];
             cols = [t @ ''.time'', t @ ''.gmtoff'', t @ ''.usec'', field]
         in select_fields sel = joined '', '' cols \<and>
            order_by sel = ''2 DESC'' \<and> group_by sel = ''2'' \<and> cols ! (2 - 1) = t @ ''.gmtoff''"
proof -
  have ctx: "selected_context 0 = CONTEXT_SELECT"
    by (simp add: selected_context_def)
  have none: "sql_function_name 0 sql_functions_table = None"
    "sql_function_name (ORDER_DESC OR GROUP_BY) sql_functions_table = None"
    by (simp_all add: sql_functions_table_def flag_defs)
  have p: "resolve_field_name p CONTEXT_SELECT t = t @ ''.time, '' @ t @ ''.gmtoff, '' @ t @ ''.usec''"
    using field_text_columns [of p 0 t] assms(1) none(1)
    by (simp add: ctx columns_of_def field_text_def)
  have bits: "(ORDER_DESC OR GROUP_BY) AND GROUP_BY \<noteq> 0" "(ORDER_DESC OR GROUP_BY) AND (ORDER_ASC OR ORDER_DESC) \<noteq> 0"
    "(ORDER_DESC OR GROUP_BY) AND ORDER_ASC = 0"
    by (simp_all add: flag_defs)
  show ?thesis
    using none bits
    by (simp add: p select_all_def classic_sql_select_add_field_def Let_def classic_sql_select_new_def
        field_text_def cat_sep_def field_number_def dec_int_def dec_nat.simps digit_char_num)
qed

theorem order_by_after_time_names_gmtoff_witness:
  "order_by (select_all [(resolve_field_name create_time_path CONTEXT_SELECT ''t0'', 0),
      (''t1.severity'', ORDER_DESC OR GROUP_BY)]) = ''2 DESC''"
  using order_by_after_time_names_gmtoff [of create_time_path "''t1.severity''" "''t0''"]
  by (simp add: message_time_def parent_class_def child_name_def create_time_path_def Let_def)

section \<open>What the queries send\<close>

definition is_select :: "string \<Rightarrow> bool" where
  "is_select q \<longleftrightarrow> take 7 q = ''SELECT ''"

lemma query_text_select [simp]: "is_select (query_text d sel j w @ l)"
  by (simp add: is_select_def query_text_def)

locale select_client = sql_client E is_select I for E :: "'w env" and I
begin

lemma send_query_keeps: "keeps (\<lambda>b. I (qb_sql b)) (send_query E d w limit offset)"
proof (rule keepsI)
  fix b :: "'w qbuild" assume "I (qb_sql b)"
  moreover have "keeps (\<lambda>b. I (qb_sql b)) (on_sql (bindr (requiemdb_sql_build_limit_offset_string E limit offset)
      (\<lambda>l. requiemdb_sql_query E (query_text d (qb_select b) (qb_join b) w @ l) True)))"
    unfolding requiemdb_sql_build_limit_offset_string_def
    by (intro on_sql_keeps keeps_bindr on_world_keeps query_keeps query_text_select)
  ultimately show "I (qb_sql (snd (send_query E d w limit offset b)))"
    by (simp add: send_query_def keeps_def)
qed

lemma with_builder_keeps:
  assumes "keeps (\<lambda>b. I (qb_sql b)) f"
  shows "keeps I (with_builder j f)"
proof (rule keepsI)
  fix s :: "'w sql" assume "I s"
  with keepsD [OF assms, of "\<lparr>qb_join = j, qb_select = classic_sql_select_new, qb_sql = s\<rparr>"]
  show "I (snd (with_builder j f s))"
    by (cases "f \<lparr>qb_join = j, qb_select = classic_sql_select_new, qb_sql = s\<rparr>") (simp add: with_builder_def)
qed

lemma twice_keeps: "keeps J f \<Longrightarrow> keeps J (destroying_where_twice f)"
  by (rule keepsI) (auto simp: destroying_where_twice_def split: prod.split sum.split dest: keepsD)

lemma set_order_keeps: "keeps (\<lambda>b. I (qb_sql b)) (get_message_idents_set_order E mt order)"
  unfolding get_message_idents_set_order_def
  by (auto intro!: keeps_failw resolve_selected_keeps split: sum.split)

lemma message_idents_keeps: "keeps I (get_message_idents E mt crit limit offset order)"
  unfolding get_message_idents_def
  by (intro with_builder_keeps keeps_bindr keeps_if keeps_case_option keeps_retn add_field_keeps
      set_order_keeps twice_keeps resolve_criteria_keeps send_query_keeps)

lemma get_values_keeps: "keeps I (classic_get_values E sel crit d limit offset)"
  unfolding classic_get_values_def
  by (intro with_builder_keeps keeps_bindr keeps_case_option keeps_retn resolve_selection_keeps
      resolve_criteria_keeps send_query_keeps)

end

interpretation select_frame: select_client E "lock_frame s0" for E s0
proof unfold_locales
  fix q r row col want and s
  show "keeps (lock_frame s0) (requiemdb_sql_query E q want)" by (rule frame.query_keeps) simp
qed (rule frame.locked_keeps frame.fetch_row_keeps frame.fetch_field_keeps
      frame.world_keeps; assumption?)+

interpretation select_trace: select_client E "log_extends is_select log" for E log
  by unfold_locales

text \<open>
  C26.  The queries only read: whatever the back end answers, the statements
  \<open>get_message_idents\<close> and \<open>classic_get_values\<close> send are SELECT statements, and they leave
  the lock depth and the transaction state as they were (a transaction can only be lost by a
  reconnection).
\<close>
theorem queries_only_select:
  "log_extends is_select (logged s) (snd (get_message_idents E mt crit limit offset order s)) \<and>
   log_extends is_select (logged s) (snd (classic_get_values E sel crit d limit offset s)) \<and>
   lock_depth (snd (get_message_idents E mt crit limit offset order s)) = lock_depth s \<and>
   lock_depth (snd (classic_get_values E sel crit d limit offset s)) = lock_depth s"
proof (intro conjI)
  show "log_extends is_select (logged s) (snd (get_message_idents E mt crit limit offset order s))"
    by (rule keepsD [OF select_trace.message_idents_keeps log_extends_refl])
  show "log_extends is_select (logged s) (snd (classic_get_values E sel crit d limit offset s))"
    by (rule keepsD [OF select_trace.get_values_keeps log_extends_refl])
  have "lock_frame s (snd (get_message_idents E mt crit limit offset order s))"
    by (rule keepsD [OF select_frame.message_idents_keeps lock_frame_refl])
  then show "lock_depth (snd (get_message_idents E mt crit limit offset order s)) = lock_depth s"
    by (simp add: lock_frame_def)
  have "lock_frame s (snd (classic_get_values E sel crit d limit offset s))"
    by (rule keepsD [OF select_frame.get_values_keeps lock_frame_refl])
  then show "lock_depth (snd (classic_get_values E sel crit d limit offset s)) = lock_depth s"
    by (simp add: lock_frame_def)
qed

lemma add_field_run: "add_field name flags b = (Inr (), b\<lparr>qb_select := classic_sql_select_add_field name flags (qb_select b)\<rparr>)"
  by (simp add: add_field_def)

text \<open>
  A list of alert idents ordered by creation time is one query: its text is fixed, the
  creation time table is joined for the order, and column 2, which the ORDER BY clause names,
  is the creation time.
\<close>
theorem alert_idents_query:
  assumes "idmef_path_new_fast E ''alert.create_time'' = Inr create_time_path"
  shows "classic_get_alert_idents E None limit offset ORDER_BY_CREATE_TIME_DESC s =
    bindr (requiemdb_sql_build_limit_offset_string E limit offset) (\<lambda>l.
      requiemdb_sql_query E (
        ''SELECT DISTINCT(top_table._ident), t0.time, t0.gmtoff, t0.usec FROM Requiem_Alert AS top_table'' @
        '' LEFT JOIN Requiem_CreateTime AS t0 ON (t0._parent_type='' @ [CHR 0x27, CHR ''A'', CHR 0x27] @
        '' AND t0._message_ident=top_table._ident) ORDER BY 2 DESC'' @ l) True) s"
proof -
  let ?b = "\<lparr>qb_join = classic_sql_join_set_top_class CLASS_ALERT classic_sql_join_new,
     qb_select = classic_sql_select_add_field ''DISTINCT(top_table._ident)'' 0 classic_sql_select_new, qb_sql = s\<rparr>"
  let ?t = "\<lparr>jt_path = create_time_path, table_name = Some ''Requiem_CreateTime'', aliased_table_name = ''t0'',
     parent_type = Some (CHR ''A''), index_constraints = []\<rparr>"
  have ctp: "path_depth create_time_path = 2" "path_class create_time_path i = CLASS_ALERT"
      "path_value_type create_time_path i = TYPE_TIME" for i
    by (simp_all add: create_time_path_def)
  have ic: "resolve_indexes a create_time_path = Inr []" for a
    by (simp add: resolve_indexes_def create_time_path_def)
  have pt: "resolve_parent_type create_time_path = Some (CHR ''A'')"
    by (simp add: resolve_parent_type_def resolve_alert_parent_type_def create_time_path_def)
  have names: "resolve_table_name E create_time_path = Some ''Requiem_CreateTime''"
      "resolve_field_name create_time_path CONTEXT_SELECT t = t @ ''.time, '' @ t @ ''.gmtoff, '' @ t @ ''.usec''" for t
    by (simp_all add: resolve_table_name_def resolve_field_name_def parent_class_def child_name_def
        create_time_path_def message_table_name_def message_field_name_def time_with_usec_field_name_def)
  have fresh: "classic_sql_join_new_table create_time_path (Some ''Requiem_CreateTime'') (qb_join ?b) =
      (Inr ?t, (qb_join ?b)\<lparr>next_id := 1, tables := [?t]\<rparr>)"
    using ic pt ctp
    by (simp add: classic_sql_join_new_table_def classic_sql_join_set_top_class_def classic_sql_join_new_def
        NO_CLASS_def Let_def dec_int_def dec_nat.simps digit_char_num)
  have none: "classic_sql_join_lookup_table E (qb_join ?b) create_time_path = None"
    by (simp add: classic_sql_join_lookup_table_def classic_sql_join_set_top_class_def classic_sql_join_new_def)
  have j: "classic_path_resolve E create_time_path CONTEXT_SELECT (qb_join ?b) =
      (Inr ''t0.time, t0.gmtoff, t0.usec'', (qb_join ?b)\<lparr>next_id := 1, tables := [?t]\<rparr>)"
    using ctp none names fresh by (simp add: classic_path_resolve_def)
  have ctx: "selected_context ORDER_DESC = CONTEXT_SELECT" "sql_function_name ORDER_DESC sql_functions_table = None"
    "sql_function_name 0 sql_functions_table = None"
    by (simp_all add: selected_context_def any_function_def flag_defs sql_functions_table_def)
  let ?sel = "classic_sql_select_add_field ''t0.time, t0.gmtoff, t0.usec'' ORDER_DESC (qb_select ?b)"
  have order: "get_message_idents_set_order E CLASS_ALERT ORDER_BY_CREATE_TIME_DESC ?b =
      (Inr (), ?b\<lparr>qb_join := (qb_join ?b)\<lparr>next_id := 1, tables := [?t]\<rparr>, qb_select := ?sel\<rparr>)"
    using assms ctx j by (simp add: get_message_idents_set_order_def classic_path_resolve_selected_def on_join_def add_field_run)
  have sel: "select_fields ?sel = ''DISTINCT(top_table._ident), t0.time, t0.gmtoff, t0.usec''"
      "order_by ?sel = ''2 DESC''" "group_by ?sel = []"
    using ctx by (simp_all add: classic_sql_select_add_field_def Let_def classic_sql_select_new_def field_text_def
        cat_sep_def field_number_def dec_int_def dec_nat.simps digit_char_num flag_defs)
  have qtext: "query_text False ?sel ((qb_join ?b)\<lparr>next_id := 1, tables := [?t]\<rparr>) None =
      ''SELECT DISTINCT(top_table._ident), t0.time, t0.gmtoff, t0.usec FROM Requiem_Alert AS top_table'' @
      '' LEFT JOIN Requiem_CreateTime AS t0 ON (t0._parent_type='' @ [CHR 0x27, CHR ''A'', CHR 0x27] @
      '' AND t0._message_ident=top_table._ident) ORDER BY 2 DESC''"
    using sel by (simp add: query_text_def classic_sql_select_fields_to_string_def
        classic_sql_select_modifiers_to_string_def classic_sql_join_to_string_def
        classic_joined_table_to_string_def classic_sql_join_set_top_class_def str_or_null_def)
  show ?thesis
    using order qtext
    by (simp add: classic_get_alert_idents_def get_message_idents_def with_builder_def add_field_run
        send_query_def on_sql_def split: prod.split)
qed

definition limit_plugin :: "unit plugin_sql" where
  "limit_plugin = null_plugin\<lparr>pl_build_limit_offset := Some (\<lambda>w l k. Inr (if l \<noteq> - 1 then '' LIMIT '' @ dec_int l else []))\<rparr>"

definition idents_env :: "unit env" where
  "idents_env = null_env\<lparr>env_plugin := limit_plugin, idmef_path_new_fast := (\<lambda>p. Inr create_time_path)\<rparr>"

definition logging_sql :: "unit sql" where
  "logging_sql = (sql_fresh settings_new \<lparr>thread_error = None, session = ()\<rparr>)\<lparr>logfile := Some Log_stdout\<rparr>"

theorem alert_idents_query_witness:
  "logged (snd (classic_get_alert_idents idents_env None 10 0 ORDER_BY_CREATE_TIME_DESC logging_sql)) =
    [''SELECT DISTINCT(top_table._ident), t0.time, t0.gmtoff, t0.usec FROM Requiem_Alert AS top_table'' @
     '' LEFT JOIN Requiem_CreateTime AS t0 ON (t0._parent_type='' @ [CHR 0x27, CHR ''A'', CHR 0x27] @
     '' AND t0._message_ident=top_table._ident) ORDER BY 2 DESC LIMIT 10'']"
proof -
  have "idmef_path_new_fast idents_env ''alert.create_time'' = Inr create_time_path"
    by (simp add: idents_env_def)
  moreover have "requiemdb_sql_build_limit_offset_string idents_env 10 0 logging_sql = (Inr '' LIMIT 10'', logging_sql)"
    by (simp add: requiemdb_sql_build_limit_offset_string_def idents_env_def limit_plugin_def on_world_def
        plugin_sql_build_limit_offset_string_def built_def dec_int_def dec_nat.simps digit_char_num)
  moreover have "logged (snd (requiemdb_sql_query idents_env q True logging_sql)) = [q]" for q
    by (simp add: requiemdb_sql_query_def assert_connected_def logging_sql_def sql_fresh_def connected_def
        requiemdb_sql_connect_def on_world_def idents_env_def limit_plugin_def null_plugin_def lock_def
        unlock_def log_query_def)
  ultimately show ?thesis by (simp add: alert_idents_query)
qed

text \<open>
  Criteria that cannot be resolved end a search for message idents in a double free of
  the WHERE string, whatever the error was; \<open>classic_get_values\<close>, which shares the rest of
  the code, returns the error.
\<close>
theorem failed_criteria_double_free:
  assumes "fst (classic_path_resolve_criteria E c
      \<lparr>qb_join = classic_sql_join_set_top_class mt classic_sql_join_new,
       qb_select = classic_sql_select_add_field ''DISTINCT(top_table._ident)'' 0 classic_sql_select_new,
       qb_sql = s\<rparr>) = Inl e"
    and "fst (classic_path_resolve_criteria E c
      \<lparr>qb_join = classic_sql_join_new, qb_select = classic_sql_select_new, qb_sql = s\<rparr>) = Inl e'"
  shows "fst (get_message_idents E mt (Some c) limit offset ORDER_BY_NONE s) = Inl DoubleFree \<and>
    fst (classic_get_values E path_selection_new (Some c) d limit offset s) = Inl e'"
proof -
  let ?b1 = "\<lparr>qb_join = classic_sql_join_set_top_class mt classic_sql_join_new,
       qb_select = classic_sql_select_add_field ''DISTINCT(top_table._ident)'' 0 classic_sql_select_new, qb_sql = s\<rparr>"
  let ?b2 = "\<lparr>qb_join = classic_sql_join_new, qb_select = classic_sql_select_new, qb_sql = s\<rparr>"
  obtain u1 u2 where r: "classic_path_resolve_criteria E c ?b1 = (Inl e, u1)"
      "classic_path_resolve_criteria E c ?b2 = (Inl e', u2)"
    using assms by (metis prod.collapse)
  show ?thesis
  proof
    have "destroying_where_twice (classic_path_resolve_criteria E c) ?b1 = (Inl DoubleFree, u1)"
      using r(1) by (simp add: destroying_where_twice_def)
    then show "fst (get_message_idents E mt (Some c) limit offset ORDER_BY_NONE s) = Inl DoubleFree"
      by (simp add: get_message_idents_def with_builder_def add_field_run)
    show "fst (classic_get_values E path_selection_new (Some c) d limit offset s) = Inl e'"
      using r(2) by (simp add: classic_get_values_def with_builder_def resolve_selection_all resolve_list_def
          path_selection_new_def)
  qed
qed

text \<open>A criterion on a path that is too short to be resolved.\<close>

definition short_criteria :: criteria where
  "short_criteria = Criteria
     \<lparr>crit_path = create_time_path\<lparr>path_depth := 1\<rparr>, crit_op_of = OP_NULL, crit_val = Crit_other\<rparr> None None"

theorem failed_criteria_double_free_witness:
  "fst (get_message_idents idents_env CLASS_ALERT (Some short_criteria) 10 0 ORDER_BY_NONE logging_sql) = Inl DoubleFree \<and>
   fst (classic_get_values idents_env path_selection_new (Some short_criteria) True 10 0 logging_sql) =
     Inl (requiemdb_error ERROR_QUERY)"
proof (rule failed_criteria_double_free)
  show "fst (classic_path_resolve_criteria idents_env short_criteria
      \<lparr>qb_join = classic_sql_join_set_top_class CLASS_ALERT classic_sql_join_new,
       qb_select = classic_sql_select_add_field ''DISTINCT(top_table._ident)'' 0 classic_sql_select_new,
       qb_sql = logging_sql\<rparr>) = Inl (requiemdb_error ERROR_QUERY)" by code_simp
  show "fst (classic_path_resolve_criteria idents_env short_criteria
      \<lparr>qb_join = classic_sql_join_new, qb_select = classic_sql_select_new, qb_sql = logging_sql\<rparr>) =
      Inl (requiemdb_error ERROR_QUERY)" by code_simp
qed

end
