(* ===== verification/IdmefMessage.thy ===== *)
theory IdmefMessage
  imports Librequiem
begin

text \<open>
  An IDMEF message as the insertion reads it: one record per class of librequiem, a field per
  getter the code calls.  A getter that may return NULL is an option; the children of a class
  that come one after the other (\<open>idmef_..._get_next_...\<close>) are a list; enumerations are the
  integers the library uses; a union is a datatype with the case of an unknown tag.
\<close>

record idmef_address =
  address_ident :: "rstring option"
  address_category :: int
  address_vlan_name :: "rstring option"
  address_vlan_num :: "int option"
  address_address :: "rstring option"
  address_netmask :: "rstring option"

record idmef_node =
  node_ident :: "rstring option"
  node_category :: int
  node_location :: "rstring option"
  node_name :: "rstring option"
  node_addresses :: "idmef_address list"

record idmef_user_id =
  user_id_ident :: "rstring option"
  user_id_type :: int
  user_id_name :: "rstring option"
  user_id_tty :: "rstring option"
  user_id_number :: "32 word option"

record idmef_user =
  user_ident :: "rstring option"
  user_category :: int
  user_user_ids :: "idmef_user_id list"

record idmef_process =
  process_ident :: "rstring option"
  process_name :: "rstring option"
  process_pid :: "32 word option"
  process_path :: "rstring option"
  process_args :: "rstring list"
  process_envs :: "rstring list"

record idmef_snmp_service =
  snmp_oid :: "rstring option"
  snmp_message_processing_model :: "32 word option"
  snmp_security_model :: "32 word option"
  snmp_security_name :: "rstring option"
  snmp_security_level :: "32 word option"
  snmp_context_name :: "rstring option"
  snmp_context_engine_id :: "rstring option"
  snmp_command :: "rstring option"

record idmef_web_service =
  web_url :: "rstring option"
  web_cgi :: "rstring option"
  web_http_method :: "rstring option"
  web_args :: "rstring list"

datatype service_type =
    Service_default
  | Service_web "idmef_web_service option"
  | Service_snmp "idmef_snmp_service option"
  | Service_other

record idmef_service =
  service_ident :: "rstring option"
  service_ip_version :: "8 word option"
  service_name :: "rstring option"
  service_port :: "16 word option"
  service_iana_protocol_number :: "8 word option"
  service_iana_protocol_name :: "rstring option"
  service_portlist :: "rstring option"
  service_protocol :: "rstring option"
  service_type :: service_type

record idmef_inode =
  inode_change_time :: "idmef_time option"
  inode_number :: "32 word option"
  inode_major_device :: "32 word option"
  inode_minor_device :: "32 word option"
  inode_c_major_device :: "32 word option"
  inode_c_minor_device :: "32 word option"

record idmef_linkage =
  linkage_category :: int
  linkage_name :: "rstring option"
  linkage_path :: "rstring option"

record idmef_file_access =
  file_access_permissions :: "rstring list"
  file_access_user_id :: idmef_user_id

record idmef_checksum =
  checksum_value :: "rstring option"
  checksum_key :: "rstring option"
  checksum_algorithm :: int

record idmef_file =
  file_ident :: "rstring option"
  file_category :: int
  file_name :: "rstring option"
  file_path :: "rstring option"
  file_create_time :: "idmef_time option"
  file_modify_time :: "idmef_time option"
  file_access_time :: "idmef_time option"
  file_data_size :: "64 word option"
  file_disk_size :: "64 word option"
  file_fstype :: "int option"
  file_file_type :: "rstring option"
  file_accesses :: "idmef_file_access list"
  file_linkages :: "idmef_linkage list"
  file_inode :: "idmef_inode option"
  file_checksums :: "idmef_checksum list"

record idmef_source =
  source_ident :: "rstring option"
  source_spoofed :: int
  source_interface :: "rstring option"
  source_node :: "idmef_node option"
  source_user :: "idmef_user option"
  source_process :: "idmef_process option"
  source_service :: "idmef_service option"

record idmef_target =
  target_ident :: "rstring option"
  target_decoy :: int
  target_interface :: "rstring option"
  target_node :: "idmef_node option"
  target_user :: "idmef_user option"
  target_process :: "idmef_process option"
  target_service :: "idmef_service option"
  target_files :: "idmef_file list"

record idmef_analyzer =
  analyzer_analyzerid :: "rstring option"
  analyzer_name :: "rstring option"
  analyzer_manufacturer :: "rstring option"
  analyzer_model :: "rstring option"
  analyzer_version :: "rstring option"
  analyzer_class :: "rstring option"
  analyzer_ostype :: "rstring option"
  analyzer_osversion :: "rstring option"
  analyzer_node :: "idmef_node option"
  analyzer_process :: "idmef_process option"

record idmef_reference =
  reference_origin :: int
  reference_name :: "rstring option"
  reference_url :: "rstring option"
  reference_meaning :: "rstring option"

record idmef_classification =
  classification_ident :: "rstring option"
  classification_text :: "rstring option"
  classification_references :: "idmef_reference list"

record idmef_additional_data =
  ad_type :: int
  ad_meaning :: "rstring option"
  ad_data :: "idmef_data option"

record idmef_impact =
  impact_severity :: "int option"
  impact_completion :: "int option"
  impact_type :: int
  impact_description :: "rstring option"

record idmef_action =
  action_category :: int
  action_description :: "rstring option"

record idmef_confidence =
  confidence_rating :: int
  confidence_value :: "32 word"

record idmef_assessment =
  assessment_impact :: "idmef_impact option"
  assessment_confidence :: "idmef_confidence option"
  assessment_actions :: "idmef_action list"

record idmef_alertident =
  alertident_alertident :: "rstring option"
  alertident_analyzerid :: "rstring option"

record idmef_tool_alert =
  tool_name :: "rstring option"
  tool_command :: "rstring option"
  tool_alertidents :: "idmef_alertident list"

record idmef_overflow_alert =
  overflow_program :: "rstring option"
  overflow_size :: "32 word option"
  overflow_buffer :: "idmef_data option"

record idmef_correlation_alert =
  correlation_name :: "rstring option"
  correlation_alertidents :: "idmef_alertident list"

datatype alert_type =
    Alert_default
  | Alert_tool "idmef_tool_alert option"
  | Alert_overflow "idmef_overflow_alert option"
  | Alert_correlation "idmef_correlation_alert option"
  | Alert_other

record idmef_alert =
  alert_messageid :: "rstring option"
  alert_create_time :: "idmef_time option"
  alert_detect_time :: "idmef_time option"
  alert_analyzer_time :: "idmef_time option"
  alert_assessment :: "idmef_assessment option"
  alert_type :: alert_type
  alert_analyzers :: "idmef_analyzer list"
  alert_sources :: "idmef_source list"
  alert_targets :: "idmef_target list"
  alert_classification :: "idmef_classification option"
  alert_additional_data :: "idmef_additional_data list"

record idmef_heartbeat =
  heartbeat_messageid :: "rstring option"
  heartbeat_heartbeat_interval :: "32 word option"
  heartbeat_create_time :: "idmef_time option"
  heartbeat_analyzer_time :: "idmef_time option"
  heartbeat_analyzers :: "idmef_analyzer list"
  heartbeat_additional_data :: "idmef_additional_data list"

datatype idmef_message =
    Message_alert "idmef_alert option"
  | Message_heartbeat "idmef_heartbeat option"
  | Message_other

end
