(* ===== verification/ClassicInsertParts.thy ===== *)
theory ClassicInsertParts
  imports ClassicQuery IdmefMessage
begin

text \<open>
  Insertion of the parts of a message (\<open>plugins/format/classic/classic-insert.c\<close>, the
  functions \<open>insert_address\<close> to \<open>insert_alertident\<close>): each handler escapes the strings of
  its object and sends one INSERT, then the objects below it.  The values of an INSERT are
  printed into one text, each column's text joined by a comma; a handler's return value
  matters only by its sign.
\<close>

section \<open>Values\<close>

definition get_string :: "rstring option \<Rightarrow> string option" where
  "get_string s = (case s of None \<Rightarrow> None | Some None \<Rightarrow> Some [] | Some (Some t) \<Rightarrow> Some t)"

definition esc_string :: "'w env \<Rightarrow> rstring option \<Rightarrow> ('w, string) sqlop" where
  "esc_string E s = requiemdb_sql_escape E (get_string s)"

definition esc_enum :: "'w env \<Rightarrow> enum_kind \<Rightarrow> int \<Rightarrow> ('w, string) sqlop" where
  "esc_enum E k i = requiemdb_sql_escape E (enum_to_string E k i)"

definition get_optional_enum :: "'w env \<Rightarrow> enum_kind \<Rightarrow> int option \<Rightarrow> string option" where
  "get_optional_enum E k v = (case v of None \<Rightarrow> None | Some i \<Rightarrow> enum_to_string E k i)"

text \<open>The macro \<open>get_optional_integer\<close>: the text left in a buffer of the given size.\<close>

definition opt_uint :: "nat \<Rightarrow> 'a::len word option \<Rightarrow> string" where
  "opt_uint n v = (case v of None \<Rightarrow> snprintf n ''NULL'' | Some w \<Rightarrow> snprintf n (dec_nat (unat w)))"

definition opt_int32 :: "nat \<Rightarrow> int option \<Rightarrow> string" where
  "opt_int32 n v = (case v of None \<Rightarrow> snprintf n ''NULL'' | Some i \<Rightarrow> snprintf n (dec_int i))"

text \<open>
  \<open>get_data\<close>.  The length of a character string counts its NUL; with length 0 the length
  passed on wraps around and the bytes read are out of bounds.
\<close>

definition get_data :: "'w env \<Rightarrow> idmef_data option \<Rightarrow> ('w, string) sqlop" where
  "get_data E data =
    (case data of
       None \<Rightarrow> failw NullDeref
     | Some d \<Rightarrow>
         (case data_type_of d of
            DATA_BYTE \<Rightarrow> requiemdb_sql_escape_binary E (data_bytes d)
          | DATA_BYTE_STRING \<Rightarrow> requiemdb_sql_escape_binary E (data_bytes d)
          | DATA_CHAR_STRING \<Rightarrow>
              if data_bytes d = [] then failw UndefinedValue
              else requiemdb_sql_escape_binary E (butlast (data_bytes d))
          | DATA_CHAR \<Rightarrow>
              if data_bytes d = [] then failw UndefinedValue
              else requiemdb_sql_escape_binary E (take 1 (data_bytes d))
          | DATA_OTHER \<Rightarrow>
              (case data_to_string d of
                 Inl e \<Rightarrow> failw e
               | Inr t \<Rightarrow> requiemdb_sql_escape_binary E t)))"

definition store :: "'w env \<Rightarrow> string \<Rightarrow> string \<Rightarrow> string list \<Rightarrow> ('w, unit) sqlop" where
  "store E table cols vals = bindr (requiemdb_sql_insert E table cols (joined '', '' vals)) (\<lambda>_. retn ())"

text \<open>An operation whose failure is reported as a constant.\<close>

definition failing_with :: "int \<Rightarrow> ('s, err, 'a) cop \<Rightarrow> ('s, err, 'a) cop" where
  "failing_with n f = (\<lambda>s. case f s of (Inl e, s') \<Rightarrow> (Inl (RawErr n), s') | (Inr a, s') \<Rightarrow> (Inr a, s'))"

text \<open>
  The loops over children: each child with its index, and (\<open>insert_indexed\<close>) the last one
  once more with index \<open>-1\<close>, under which a path without a known index finds it.
\<close>

fun insert_from :: "(int \<Rightarrow> 'a \<Rightarrow> ('w, unit) sqlop) \<Rightarrow> int \<Rightarrow> 'a list \<Rightarrow> ('w, unit) sqlop" where
  "insert_from f i [] = retn ()"
| "insert_from f i (x # xs) = bindr (f i x) (\<lambda>_. insert_from f (i + 1) xs)"

definition insert_indexed :: "(int \<Rightarrow> 'a \<Rightarrow> ('w, unit) sqlop) \<Rightarrow> 'a list \<Rightarrow> ('w, unit) sqlop" where
  "insert_indexed f xs =
     bindr (insert_from f 0 xs) (\<lambda>_. if xs = [] then retn () else f (- 1) (last xs))"

text \<open>A child that may be absent.\<close>

definition insert_optional :: "('a \<Rightarrow> ('w, unit) sqlop) \<Rightarrow> 'a option \<Rightarrow> ('w, unit) sqlop" where
  "insert_optional f x = (case x of None \<Rightarrow> retn () | Some y \<Rightarrow> f y)"

section \<open>Nodes and users\<close>

definition insert_address :: "'w env \<Rightarrow> char \<Rightarrow> int \<Rightarrow> int \<Rightarrow> int \<Rightarrow> idmef_address \<Rightarrow> ('w, unit) sqlop" where
  "insert_address E ptype message_ident parent_index address_index a =
     bindr (esc_enum E ENUM_ADDRESS_CATEGORY (address_category a)) (\<lambda>category.
     bindr (esc_string E (address_ident a)) (\<lambda>ident.
     bindr (esc_string E (address_address a)) (\<lambda>addr.
     bindr (esc_string E (address_netmask a)) (\<lambda>netmask.
     bindr (esc_string E (address_vlan_name a)) (\<lambda>vlan_name.
     store E ''Requiem_Address''
       ''_parent_type, _message_ident, _parent0_index, _index,ident, category, vlan_name, vlan_num, address, netmask''
       [quoted ptype, dec_int message_ident, dec_int parent_index, dec_int address_index,
        ident, category, vlan_name, opt_int32 16 (address_vlan_num a), addr, netmask])))))"

definition insert_node :: "'w env \<Rightarrow> char \<Rightarrow> int \<Rightarrow> int \<Rightarrow> idmef_node option \<Rightarrow> ('w, unit) sqlop" where
  "insert_node E ptype message_ident parent_index = insert_optional (\<lambda>n.
     bindr (esc_enum E ENUM_NODE_CATEGORY (node_category n)) (\<lambda>category.
     bindr (esc_string E (node_ident n)) (\<lambda>ident.
     bindr (esc_string E (node_name n)) (\<lambda>name.
     bindr (failing_with (- 1) (esc_string E (node_location n))) (\<lambda>location.
     bindr (store E ''Requiem_Node''
              ''_parent_type, _message_ident, _parent0_index, ident, category, location, name''
              [quoted ptype, dec_int message_ident, dec_int parent_index, ident, category, location, name]) (\<lambda>_.
     insert_indexed (insert_address E ptype message_ident parent_index) (node_addresses n)))))))"

definition insert_user_id :: "'w env \<Rightarrow> char \<Rightarrow> int \<Rightarrow> int \<Rightarrow> int \<Rightarrow> int \<Rightarrow> int \<Rightarrow> idmef_user_id \<Rightarrow> ('w, unit) sqlop" where
  "insert_user_id E ptype message_ident parent_index file_index file_access_index index u =
     bindr (esc_string E (user_id_ident u)) (\<lambda>ident.
     bindr (esc_string E (user_id_tty u)) (\<lambda>tty.
     bindr (esc_enum E ENUM_USER_ID_TYPE (user_id_type u)) (\<lambda>type.
     bindr (esc_string E (user_id_name u)) (\<lambda>name.
     store E ''Requiem_UserId''
       ''_parent_type, _message_ident, _parent0_index, _parent1_index, _parent2_index, _index, ident, type, name, number, tty''
       [quoted ptype, dec_int message_ident, dec_int parent_index, dec_int file_index, dec_int file_access_index,
        dec_int index, ident, type, name, opt_uint 16 (user_id_number u), tty]))))"

definition insert_user :: "'w env \<Rightarrow> char \<Rightarrow> int \<Rightarrow> int \<Rightarrow> idmef_user option \<Rightarrow> ('w, unit) sqlop" where
  "insert_user E ptype message_ident parent_index = insert_optional (\<lambda>u.
     bindr (esc_string E (user_ident u)) (\<lambda>ident.
     bindr (esc_enum E ENUM_USER_CATEGORY (user_category u)) (\<lambda>category.
     bindr (store E ''Requiem_User'' ''_parent_type, _message_ident, _parent0_index, ident, category''
              [quoted ptype, dec_int message_ident, dec_int parent_index, ident, category]) (\<lambda>_.
     insert_indexed (insert_user_id E ptype message_ident parent_index 0 0) (user_user_ids u)))))"

section \<open>Processes\<close>

definition insert_process_arg :: "'w env \<Rightarrow> char \<Rightarrow> int \<Rightarrow> int \<Rightarrow> int \<Rightarrow> rstring \<Rightarrow> ('w, unit) sqlop" where
  "insert_process_arg E ptype message_ident parent_index arg_index arg =
     bindr (esc_string E (Some arg)) (\<lambda>t.
     store E ''Requiem_ProcessArg'' ''_parent_type, _message_ident, _parent0_index, _index, arg''
       [quoted ptype, dec_int message_ident, dec_int parent_index, dec_int arg_index, t])"

definition insert_process_env :: "'w env \<Rightarrow> char \<Rightarrow> int \<Rightarrow> int \<Rightarrow> int \<Rightarrow> rstring \<Rightarrow> ('w, unit) sqlop" where
  "insert_process_env E ptype message_ident parent_index env_index e =
     bindr (esc_string E (Some e)) (\<lambda>t.
     store E ''Requiem_ProcessEnv'' ''_parent_type, _message_ident, _parent0_index, _index, env''
       [quoted ptype, dec_int message_ident, dec_int parent_index, dec_int env_index, t])"

text \<open>The arguments and the environment get no row with index \<open>-1\<close>.\<close>

definition insert_process :: "'w env \<Rightarrow> char \<Rightarrow> int \<Rightarrow> int \<Rightarrow> idmef_process option \<Rightarrow> ('w, unit) sqlop" where
  "insert_process E ptype message_ident parent_index = insert_optional (\<lambda>p.
     bindr (esc_string E (process_ident p)) (\<lambda>ident.
     bindr (esc_string E (process_name p)) (\<lambda>name.
     bindr (esc_string E (process_path p)) (\<lambda>path.
     bindr (store E ''Requiem_Process'' ''_parent_type, _message_ident, _parent0_index, ident, name, pid, path''
              [quoted ptype, dec_int message_ident, dec_int parent_index, ident, name,
               opt_uint 16 (process_pid p), path]) (\<lambda>_.
     bindr (insert_from (insert_process_arg E ptype message_ident parent_index) 0 (process_args p)) (\<lambda>_.
     insert_from (insert_process_env E ptype message_ident parent_index) 0 (process_envs p)))))))"

section \<open>Services\<close>

definition insert_snmp_service :: "'w env \<Rightarrow> char \<Rightarrow> int \<Rightarrow> int \<Rightarrow> idmef_snmp_service option \<Rightarrow> ('w, unit) sqlop" where
  "insert_snmp_service E ptype message_ident parent_index = insert_optional (\<lambda>s.
     bindr (esc_string E (snmp_oid s)) (\<lambda>oid.
     bindr (esc_string E (snmp_security_name s)) (\<lambda>security_name.
     bindr (esc_string E (snmp_context_name s)) (\<lambda>context_name.
     bindr (esc_string E (snmp_context_engine_id s)) (\<lambda>context_engine_id.
     bindr (esc_string E (snmp_command s)) (\<lambda>command.
     store E ''Requiem_SnmpService''
       ''_parent_type, _message_ident, _parent0_index, snmp_oid, message_processing_model, security_model, security_name, security_level, context_name, context_engine_id, command''
       [quoted ptype, dec_int message_ident, dec_int parent_index, oid,
        opt_uint 12 (snmp_message_processing_model s), opt_uint 12 (snmp_security_model s), security_name,
        opt_uint 12 (snmp_security_level s), context_name, context_engine_id, command]))))))"

definition insert_web_service_arg :: "'w env \<Rightarrow> char \<Rightarrow> int \<Rightarrow> int \<Rightarrow> int \<Rightarrow> rstring \<Rightarrow> ('w, unit) sqlop" where
  "insert_web_service_arg E ptype message_ident parent_index arg_index arg =
     bindr (esc_string E (Some arg)) (\<lambda>t.
     store E ''Requiem_WebServiceArg'' ''_parent_type, _message_ident, _parent0_index, _index, arg''
       [quoted ptype, dec_int message_ident, dec_int parent_index, dec_int arg_index, t])"

text \<open>A statement whose result the code does not look at.\<close>

definition ignoring_result :: "('s, err, 'a) cop \<Rightarrow> ('s, err, unit) cop" where
  "ignoring_result f = (\<lambda>s. (Inr (), snd (f s)))"

definition insert_web_service :: "'w env \<Rightarrow> char \<Rightarrow> int \<Rightarrow> int \<Rightarrow> idmef_web_service option \<Rightarrow> ('w, unit) sqlop" where
  "insert_web_service E ptype message_ident parent_index = insert_optional (\<lambda>w.
     bindr (esc_string E (web_url w)) (\<lambda>url.
     bindr (failing_with (- 1) (esc_string E (web_cgi w))) (\<lambda>cgi.
     bindr (esc_string E (web_http_method w)) (\<lambda>http_method.
     bindr (ignoring_result (store E ''Requiem_WebService''
              ''_parent_type, _message_ident, _parent0_index, url, cgi, http_method''
              [quoted ptype, dec_int message_ident, dec_int parent_index, url, cgi, http_method])) (\<lambda>_.
     insert_indexed (insert_web_service_arg E ptype message_ident parent_index) (web_args w))))))"

text \<open>
  When the service's ident cannot be escaped, the pointer \<open>ident\<close>, which is not initialised,
  is freed.
\<close>

definition freeing_unset :: "('s, err, 'a) cop \<Rightarrow> ('s, err, 'a) cop" where
  "freeing_unset f = (\<lambda>s. case f s of (Inl e, s') \<Rightarrow> (Inl UndefinedValue, s') | (Inr a, s') \<Rightarrow> (Inr a, s'))"

definition insert_service :: "'w env \<Rightarrow> char \<Rightarrow> int \<Rightarrow> int \<Rightarrow> idmef_service option \<Rightarrow> ('w, unit) sqlop" where
  "insert_service E ptype message_ident parent_index = insert_optional (\<lambda>s.
     bindr (freeing_unset (esc_string E (service_ident s))) (\<lambda>ident.
     bindr (esc_string E (service_name s)) (\<lambda>name.
     bindr (esc_string E (service_iana_protocol_name s)) (\<lambda>iana_protocol_name.
     bindr (esc_string E (service_portlist s)) (\<lambda>portlist.
     bindr (esc_string E (service_protocol s)) (\<lambda>protocol.
     bindr (store E ''Requiem_Service''
              ''_parent_type, _message_ident, _parent0_index, ident, ip_version, name, port, iana_protocol_number, iana_protocol_name, portlist, protocol''
              [quoted ptype, dec_int message_ident, dec_int parent_index, ident,
               opt_uint 8 (service_ip_version s), name, opt_uint 8 (service_port s),
               opt_uint 8 (service_iana_protocol_number s), iana_protocol_name, portlist, protocol]) (\<lambda>_.
     case service_type s of
       Service_default \<Rightarrow> retn ()
     | Service_web w \<Rightarrow> insert_web_service E ptype message_ident parent_index w
     | Service_snmp n \<Rightarrow> insert_snmp_service E ptype message_ident parent_index n
     | Service_other \<Rightarrow> failw (RawErr (- 1)))))))))"

section \<open>Files\<close>

definition time_texts :: "'w env \<Rightarrow> idmef_time option \<Rightarrow> ('s, err, string \<times> string) cop" where
  "time_texts E t =
    (case requiemdb_sql_time_to_timestamp E t TIMESTAMP_STRING_SIZE (Some 16) None of
       Inl e \<Rightarrow> failw e
     | Inr (text, gmtoff, _) \<Rightarrow> retn (text, case gmtoff of Some g \<Rightarrow> g | None \<Rightarrow> []))"

definition insert_inode :: "'w env \<Rightarrow> int \<Rightarrow> int \<Rightarrow> int \<Rightarrow> idmef_inode option \<Rightarrow> ('w, unit) sqlop" where
  "insert_inode E message_ident target_index file_index = insert_optional (\<lambda>i.
     bindr (failing_with (- 1) (time_texts E (inode_change_time i))) (\<lambda>(ctime, ctime_gmtoff).
     store E ''Requiem_Inode''
       ''_message_ident, _parent0_index, _parent1_index, change_time, change_time_gmtoff, number, major_device, minor_device, c_major_device, c_minor_device''
       [dec_int message_ident, dec_int target_index, dec_int file_index, ctime, ctime_gmtoff,
        opt_uint 16 (inode_number i), opt_uint 16 (inode_major_device i), opt_uint 16 (inode_minor_device i),
        opt_uint 16 (inode_c_major_device i), opt_uint 16 (inode_c_minor_device i)]))"

definition insert_linkage :: "'w env \<Rightarrow> int \<Rightarrow> int \<Rightarrow> int \<Rightarrow> int \<Rightarrow> idmef_linkage \<Rightarrow> ('w, unit) sqlop" where
  "insert_linkage E message_ident target_index file_index index l =
     bindr (esc_enum E ENUM_LINKAGE_CATEGORY (linkage_category l)) (\<lambda>category.
     bindr (esc_string E (linkage_name l)) (\<lambda>name.
     bindr (esc_string E (linkage_path l)) (\<lambda>path.
     store E ''Requiem_Linkage'' ''_message_ident, _parent0_index, _parent1_index, _index, category, name, path''
       [dec_int message_ident, dec_int target_index, dec_int file_index, dec_int index, category, name, path])))"

definition insert_file_access_permission :: "'w env \<Rightarrow> int \<Rightarrow> int \<Rightarrow> int \<Rightarrow> int \<Rightarrow> int \<Rightarrow> rstring \<Rightarrow> ('w, unit) sqlop" where
  "insert_file_access_permission E message_ident target_index file_index file_access_index perm_index perm =
     bindr (esc_string E (Some perm)) (\<lambda>t.
     store E ''Requiem_FileAccess_Permission''
       ''_message_ident, _parent0_index, _parent1_index, _parent2_index, _index, permission''
       [dec_int message_ident, dec_int target_index, dec_int file_index, dec_int file_access_index,
        dec_int perm_index, t])"

definition insert_file_access :: "'w env \<Rightarrow> int \<Rightarrow> int \<Rightarrow> int \<Rightarrow> int \<Rightarrow> idmef_file_access \<Rightarrow> ('w, unit) sqlop" where
  "insert_file_access E message_ident target_index file_index file_access_index a =
     bindr (store E ''Requiem_FileAccess'' ''_message_ident, _parent0_index, _parent1_index, _index''
              [dec_int message_ident, dec_int target_index, dec_int file_index, dec_int file_access_index]) (\<lambda>_.
     bindr (insert_indexed (insert_file_access_permission E message_ident target_index file_index file_access_index)
              (file_access_permissions a)) (\<lambda>_.
     insert_user_id E (CHR ''F'') message_ident target_index file_index file_access_index 0 (file_access_user_id a)))"

definition insert_checksum :: "'w env \<Rightarrow> int \<Rightarrow> int \<Rightarrow> int \<Rightarrow> int \<Rightarrow> idmef_checksum \<Rightarrow> ('w, unit) sqlop" where
  "insert_checksum E message_ident target_index file_index checksum_index c =
     bindr (esc_string E (checksum_value c)) (\<lambda>value.
     bindr (esc_string E (checksum_key c)) (\<lambda>key.
     bindr (esc_enum E ENUM_CHECKSUM_ALGORITHM (checksum_algorithm c)) (\<lambda>algorithm.
     store E ''Requiem_Checksum'' ''_message_ident, _parent0_index, _parent1_index, _index, value, checksum_key, algorithm''
       [dec_int message_ident, dec_int target_index, dec_int file_index, dec_int checksum_index, value, key, algorithm])))"

definition insert_file :: "'w env \<Rightarrow> int \<Rightarrow> int \<Rightarrow> int \<Rightarrow> idmef_file \<Rightarrow> ('w, unit) sqlop" where
  "insert_file E message_ident target_index file_index f =
     bindr (time_texts E (file_create_time f)) (\<lambda>(ctime, ctime_gmtoff).
     bindr (time_texts E (file_modify_time f)) (\<lambda>(mtime, mtime_gmtoff).
     bindr (time_texts E (file_access_time f)) (\<lambda>(atime, atime_gmtoff).
     bindr (esc_enum E ENUM_FILE_CATEGORY (file_category f)) (\<lambda>category.
     bindr (esc_string E (file_ident f)) (\<lambda>ident.
     bindr (esc_string E (file_name f)) (\<lambda>name.
     bindr (esc_string E (file_path f)) (\<lambda>path.
     bindr (esc_string E (file_file_type f)) (\<lambda>file_type.
     bindr (requiemdb_sql_escape E (get_optional_enum E ENUM_FILE_FSTYPE (file_fstype f))) (\<lambda>fstype.
     bindr (store E ''Requiem_File''
              ''_message_ident, _parent0_index, _index, ident, category, name, path, create_time, create_time_gmtoff, modify_time, modify_time_gmtoff, access_time, access_time_gmtoff, data_size, disk_size, fstype, file_type''
              [dec_int message_ident, dec_int target_index, dec_int file_index, ident, category, name, path,
               ctime, ctime_gmtoff, mtime, mtime_gmtoff, atime, atime_gmtoff,
               opt_uint 32 (file_data_size f), opt_uint 32 (file_disk_size f), fstype, file_type]) (\<lambda>_.
     bindr (insert_indexed (insert_file_access E message_ident target_index file_index) (file_accesses f)) (\<lambda>_.
     bindr (insert_indexed (insert_linkage E message_ident target_index file_index) (file_linkages f)) (\<lambda>_.
     bindr (insert_inode E message_ident target_index file_index (file_inode f)) (\<lambda>_.
     insert_indexed (insert_checksum E message_ident target_index file_index) (file_checksums f))))))))))))))"

end
