(* ===== verification/SqlBracket.thy ===== *)
theory SqlBracket
  imports SqlSession
begin

text \<open>
  The transaction discipline of the format plugin: \<open>delete_message\<close> and \<open>classic_insert\<close>
  open a transaction, run a body, and commit it or, when the body fails, roll it back and
  report the error of the ROLLBACK if it fails too.  The lemmas say what such a bracket
  sends, by the statements the body sends; the query log is the trace.
\<close>

definition transactionally :: "'w env \<Rightarrow> ('w, 'a) sqlop \<Rightarrow> ('w, nat) sqlop" where
  "transactionally E body = (\<lambda>s.
     case requiemdb_sql_transaction_start E s of
       (Inl e, s1) \<Rightarrow> (Inl e, s1)
     | (Inr _, s1) \<Rightarrow>
         (case body s1 of
            (Inr _, s2) \<Rightarrow> requiemdb_sql_transaction_end E s2
          | (Inl e, s2) \<Rightarrow>
              (case requiemdb_sql_transaction_abort E s2 of
                 (Inl e', s3) \<Rightarrow> (Inl e', s3)
               | (Inr _, s3) \<Rightarrow> (Inl e, s3))))"

text \<open>Statements sent one after the other until one fails.\<close>

definition exec_list :: "'w env \<Rightarrow> string list \<Rightarrow> ('w, nat) sqlop" where
  "exec_list E qs = foldr (\<lambda>q k. thenr (sql_exec E q) k) qs (retn 0)"

section \<open>What a body sends\<close>

text \<open>
  \<open>sends R body\<close>: on a connection that is up and logged, the body leaves the connection,
  the transaction bit, the lock and the frame as they are, and the statements it sends,
  together with whether it fails, satisfy \<open>R\<close>.
\<close>

definition sends :: "(bool \<Rightarrow> string list \<Rightarrow> bool) \<Rightarrow> ('w, 'a) sqlop \<Rightarrow> bool" where
  "sends R body \<longleftrightarrow> (\<forall>s r s'. connected s \<and> logfile s \<noteq> None \<and> body s = (r, s') \<longrightarrow>
     connected s' \<and> in_transaction s' = in_transaction s \<and> lock_depth s' = lock_depth s \<and>
     same_frame s s' \<and> (\<exists>new. logged s' = logged s @ new \<and> R (isl r) new))"

lemma sendsD:
  assumes "sends R body" "connected s" "logfile s \<noteq> None" "body s = (r, s')"
  shows "connected s' \<and> in_transaction s' = in_transaction s \<and> lock_depth s' = lock_depth s \<and>
    same_frame s s' \<and> (\<exists>new. logged s' = logged s @ new \<and> R (isl r) new)"
  using assms by (auto simp: sends_def)

text \<open>
  The state predicate of a client inside a transaction: connection, transaction bit, lock and
  frame of the start, and a log grown by statements that satisfy \<open>Q\<close>.
\<close>

definition quiet :: "(string \<Rightarrow> bool) \<Rightarrow> 'w sql \<Rightarrow> 'w sql \<Rightarrow> bool" where
  "quiet Q s0 s \<longleftrightarrow> connected s \<and> in_transaction s = in_transaction s0 \<and> lock_depth s = lock_depth s0 \<and>
     same_frame s0 s \<and> log_extends Q (logged s0) s"

lemma quiet_refl: "connected s \<Longrightarrow> quiet Q s s"
  by (simp add: quiet_def)

lemma quiet_step:
  "quiet Q s0 s \<Longrightarrow> connected s' \<Longrightarrow> in_transaction s' = in_transaction s \<Longrightarrow> lock_depth s' = lock_depth s \<Longrightarrow>
   same_frame s s' \<Longrightarrow> log_extends Q (logged s0) s' \<Longrightarrow> quiet Q s0 s'"
  by (auto simp: quiet_def dest: same_frame_trans)

lemma quiet_log: "quiet Q s0 s \<Longrightarrow> log_extends Q (logged s0) s"
  by (simp add: quiet_def)

lemma quiet_connected: "quiet Q s0 s \<Longrightarrow> connected s"
  by (simp add: quiet_def)

lemma quiet_same_status:
  assumes "quiet Q s0 s" "status s' = status s" "lock_depth s' = lock_depth s" "same_frame s s'" "logged s' = logged s"
  shows "quiet Q s0 s'"
  using assms status_cong [of s' s] quiet_log [OF assms(1)] quiet_connected [OF assms(1)]
  by (intro quiet_step [OF assms(1)]) (auto intro: log_extends_same)

lemma quiet_client:
  assumes nd: "no_disconnect E"
  shows "sql_client E Q (quiet Q s0)"
proof unfold_locales
  fix q r row col want and s :: "'a sql" and w and op :: "('a world, err, string) cop"
  show "keeps (quiet Q s0) (requiemdb_sql_query E q want)" if "Q q"
  proof (rule keepsI)
    fix s assume qt: "quiet Q s0 s"
    obtain x s' where run: "requiemdb_sql_query E q want s = (x, s')" by fastforce
    have "log_extends Q (logged s0) (snd (requiemdb_sql_query E q want s))"
      by (rule keepsD [OF trace.query_keeps [of Q, OF that] quiet_log [OF qt]])
    then show "quiet Q s0 (snd (requiemdb_sql_query E q want s))"
      using query_connected [OF quiet_connected [OF qt] run] query_stays_connected [OF nd run]
        quiet_connected [OF qt] run by (auto intro: quiet_step [OF qt])
  qed
  show "keeps (quiet Q s0) (locked_world_op E op)"
  proof (rule keepsI)
    fix s assume qt: "quiet Q s0 s"
    obtain x s' where run: "locked_world_op E op s = (x, s')" by fastforce
    show "quiet Q s0 (snd (locked_world_op E op s))"
      using locked_world_op_frame [OF run] quiet_connected [OF qt] run by (auto intro: quiet_same_status [OF qt])
  qed
  show "keeps (quiet Q s0) (requiemdb_sql_table_fetch_row E r)"
  proof (rule keepsI)
    fix s assume qt: "quiet Q s0 s"
    obtain x s' where run: "requiemdb_sql_table_fetch_row E r s = (x, s')" by fastforce
    show "quiet Q s0 (snd (requiemdb_sql_table_fetch_row E r s))"
      using noting_errno_frame [OF run [unfolded requiemdb_sql_table_fetch_row_def]] nd
        quiet_connected [OF qt] quiet_log [OF qt] run
      by (auto simp: no_disconnect_def intro!: quiet_step [OF qt] intro: log_extends_same)
  qed
  show "keeps (quiet Q s0) (requiemdb_sql_row_fetch_field E r row col)"
  proof (rule keepsI)
    fix s assume qt: "quiet Q s0 s"
    obtain x s' where run: "requiemdb_sql_row_fetch_field E r row col s = (x, s')" by fastforce
    show "quiet Q s0 (snd (requiemdb_sql_row_fetch_field E r row col s))"
      using noting_errno_frame [OF run [unfolded requiemdb_sql_row_fetch_field_def]] nd
        quiet_connected [OF qt] quiet_log [OF qt] run
      by (auto simp: no_disconnect_def intro!: quiet_step [OF qt] intro: log_extends_same)
  qed
  show "quiet Q s0 s \<Longrightarrow> quiet Q s0 (s\<lparr>sql_world := w\<rparr>)"
    by (auto intro: quiet_same_status simp: same_frame_def)
qed

lemma quiet_sends:
  assumes "\<And>s0. keeps (quiet Q s0) body"
  shows "sends (\<lambda>_ new. list_all Q new) body"
  unfolding sends_def
proof (intro allI impI)
  fix s r s' assume a: "connected s \<and> logfile s \<noteq> None \<and> body s = (r, s')"
  then have "quiet Q s (snd (body s))" by (intro keepsD [OF assms quiet_refl]) simp
  with a show "connected s' \<and> in_transaction s' = in_transaction s \<and> lock_depth s' = lock_depth s \<and>
      same_frame s s' \<and> (\<exists>new. logged s' = logged s @ new \<and> list_all Q new)"
    by (auto simp: quiet_def log_extends_def)
qed

text \<open>A list of statements: all of them on success, a prefix up to the one that fails otherwise.\<close>

definition prefix_sent :: "string list \<Rightarrow> bool \<Rightarrow> string list \<Rightarrow> bool" where
  "prefix_sent qs failed new \<longleftrightarrow>
     (if failed then \<exists>k. 1 \<le> k \<and> k \<le> length qs \<and> new = take k qs else new = qs)"

lemma exec_sends:
  assumes "no_disconnect E" "connected s" "logfile s \<noteq> None" "sql_exec E q s = (r, s')"
  shows "connected s' \<and> in_transaction s' = in_transaction s \<and> lock_depth s' = lock_depth s \<and>
    same_frame s s' \<and> logged s' = logged s @ [q]"
  using sql_exec_connected [OF assms(2,4)] exec_stays_connected [OF assms(1,4)] assms(2,3) by simp

lemma exec_list_sends:
  assumes nd: "no_disconnect E"
  shows "sends (prefix_sent qs) (exec_list E qs)"
proof (induction qs)
  case Nil
  show ?case by (auto simp: sends_def exec_list_def prefix_sent_def)
next
  case (Cons q qs)
  show ?case
    unfolding sends_def
  proof (intro allI impI)
    fix s r s' assume a: "connected s \<and> logfile s \<noteq> None \<and> exec_list E (q # qs) s = (r, s')"
    obtain r1 s1 where q: "sql_exec E q s = (r1, s1)" by fastforce
    note e = exec_sends [OF nd _ _ q]
    show "connected s' \<and> in_transaction s' = in_transaction s \<and> lock_depth s' = lock_depth s \<and>
      same_frame s s' \<and> (\<exists>new. logged s' = logged s @ new \<and> prefix_sent (q # qs) (isl r) new)"
    proof (cases r1)
      case (Inl x)
      with a q have "r = Inl x" "s' = s1" by (simp_all add: exec_list_def)
      with a e show ?thesis by (auto simp: prefix_sent_def intro!: exI [of _ "1 :: nat"])
    next
      case (Inr n)
      with a q have run: "exec_list E qs s1 = (r, s')" by (simp add: exec_list_def)
      have up: "connected s1" "logfile s1 \<noteq> None" using a e by (auto simp: same_frame_def)
      from sendsD [OF Cons up run] obtain new where
        f: "connected s' \<and> in_transaction s' = in_transaction s1 \<and> lock_depth s' = lock_depth s1 \<and> same_frame s1 s'"
        and new: "logged s' = logged s1 @ new" "prefix_sent qs (isl r) new" by blast
      have "prefix_sent (q # qs) (isl r) (q # new)"
      proof (cases "isl r")
        case True
        with new(2) obtain k where "1 \<le> k" "k \<le> length qs" "new = take k qs" by (auto simp: prefix_sent_def)
        with True show ?thesis by (auto simp: prefix_sent_def intro!: exI [of _ "Suc k"])
      next
        case False
        with new(2) show ?thesis by (simp add: prefix_sent_def)
      qed
      with a e f new(1) show ?thesis by (auto dest: same_frame_trans)
    qed
  qed
qed

text \<open>One statement sent, none sent, and operations in sequence.\<close>

lemma query_sends:
  assumes nd: "no_disconnect E"
  shows "sends (\<lambda>_ new. new = [q]) (requiemdb_sql_query E q want)"
  unfolding sends_def
proof (intro allI impI)
  fix s r s' assume a: "connected s \<and> logfile s \<noteq> None \<and> requiemdb_sql_query E q want s = (r, s')"
  then have run: "requiemdb_sql_query E q want s = (r, s')" by simp
  from a query_connected [OF _ run] query_stays_connected [OF nd run]
  show "connected s' \<and> in_transaction s' = in_transaction s \<and> lock_depth s' = lock_depth s \<and>
      same_frame s s' \<and> (\<exists>new. logged s' = logged s @ new \<and> new = [q])" by auto
qed

lemma silent_sends:
  assumes "\<And>s0. keeps (quiet (\<lambda>_. False) s0) body"
  shows "sends (\<lambda>_ new. new = []) body"
  using quiet_sends [of "\<lambda>_. False" body, OF assms] by (simp add: sends_def list_all_iff)

lemma sends_mono: "sends R f \<Longrightarrow> (\<And>b new. R b new \<Longrightarrow> S b new) \<Longrightarrow> sends S f"
  unfolding sends_def by blast

lemma sends_bindr:
  assumes f: "sends R f" and g: "\<And>a. sends (S a) (g a)"
  shows "sends (\<lambda>failed new. (failed \<and> R True new) \<or> (\<exists>a u v. new = u @ v \<and> R False u \<and> S a failed v)) (bindr f g)"
  unfolding sends_def
proof (intro allI impI)
  fix s r s' assume a: "connected s \<and> logfile s \<noteq> None \<and> bindr f g s = (r, s')"
  obtain r1 s1 where b: "f s = (r1, s1)" by fastforce
  from a have up: "connected s" "logfile s \<noteq> None" by simp_all
  from sendsD [OF f up b] obtain u where u: "connected s1" "in_transaction s1 = in_transaction s"
      "lock_depth s1 = lock_depth s" "same_frame s s1" "logged s1 = logged s @ u" "R (isl r1) u" by blast
  show "connected s' \<and> in_transaction s' = in_transaction s \<and> lock_depth s' = lock_depth s \<and> same_frame s s' \<and>
      (\<exists>new. logged s' = logged s @ new \<and> ((isl r \<and> R True new) \<or> (\<exists>a u v. new = u @ v \<and> R False u \<and> S a (isl r) v)))"
  proof (cases r1)
    case (Inl e)
    with a b have "r = Inl e" "s' = s1" by simp_all
    with u Inl show ?thesis by auto
  next
    case (Inr x)
    with a b have run: "g x s1 = (r, s')" by simp
    have "logfile s1 \<noteq> None" using u(4) up(2) by (simp add: same_frame_def)
    from sendsD [OF g u(1) this run] obtain v where v: "connected s'" "in_transaction s' = in_transaction s1"
        "lock_depth s' = lock_depth s1" "same_frame s1 s'" "logged s' = logged s1 @ v" "S x (isl r) v" by blast
    with u Inr have "logged s' = logged s @ u @ v" "R False u" by simp_all
    with u v show ?thesis by (auto dest: same_frame_trans)
  qed
qed

section \<open>What the bracket sends\<close>

lemma start_sends:
  assumes nd: "no_disconnect E" and s: "\<not> internal_transaction_disabled s" "\<not> in_transaction s" "logfile s \<noteq> None"
    and run: "requiemdb_sql_transaction_start E s = (r, s')"
  shows "same_frame s s' \<and>
    (case r of Inl _ \<Rightarrow> lock_depth s' = lock_depth s \<and> \<not> in_transaction s' \<and> logged s' \<in> {logged s, logged s @ [''BEGIN'']}
     | Inr _ \<Rightarrow> lock_depth s' = lock_depth s + 1 \<and> in_transaction s' \<and> connected s' \<and> logged s' = logged s @ [''BEGIN''])"
proof -
  from run s(1) have st: "sql_transaction_start E s = (r, s')" by (simp add: requiemdb_sql_transaction_start_def)
  obtain r1 s1 where q: "sql_exec E ''BEGIN'' (lock s) = (r1, s1)" by fastforce
  from sql_exec_query [OF q] obtain r2 where q2: "requiemdb_sql_query E ''BEGIN'' False (lock s) = (r2, s1)"
      "case r1 of Inl e \<Rightarrow> r2 = Inl e | Inr n \<Rightarrow> \<exists>h. r2 = Inr (n, h)" by blast
  have log1: "logged s1 \<in> {logged s, logged s @ [''BEGIN'']}" using query_log [OF q2(1)] by auto
  note c = start_cases [OF st]
  show ?thesis
  proof (cases r1)
    case (Inl e)
    with st s(2) q have "r = Inl e" "s' = unlock s1" by (simp_all add: sql_transaction_start_def Let_def)
    with c s(2) log1 show ?thesis by auto
  next
    case (Inr n)
    with st s(2) q have r: "r = Inr n" "s' = s1\<lparr>status := status s1 OR STATUS_TRANSACTION\<rparr>"
      by (simp_all add: sql_transaction_start_def Let_def)
    have "logged s1 = logged s @ [''BEGIN'']"
    proof (cases "connected s")
      case True
      then have "connected (lock s)" by simp
      from sql_exec_connected [OF this q] s(3) show ?thesis by simp
    next
      case False
      obtain r3 s3 where k: "requiemdb_sql_connect E (lock (lock s)) = (r3, s3)" by fastforce
      with query_unconnected_fail [of "lock s" E _ s3 "''BEGIN''" False] q2 Inr False
      obtain m where m: "r3 = Inr m" by (cases r3) auto
      with query_unconnected_ok [of "lock s" E m s3 "''BEGIN''" False] k q2 False
      have qq: "requiemdb_sql_query E ''BEGIN'' False (unlock s3) = (r2, s1)" and u: "connected (unlock s3)" by simp_all
      from query_connected [OF u qq] connect_cases [OF k] s(3) show ?thesis by (auto simp: same_frame_def)
    qed
    with c r start_connected [OF nd, of s n s'] st show ?thesis by simp
  qed
qed

lemma end_sends:
  assumes nd: "no_disconnect E" and s: "\<not> internal_transaction_disabled s" "in_transaction s" "connected s" "logfile s \<noteq> None"
    and run: "requiemdb_sql_transaction_end E s = (r, s')"
  shows "same_frame s s' \<and> lock_depth s' = lock_depth s - 1 \<and> \<not> in_transaction s' \<and> logged s' = logged s @ [''COMMIT'']"
proof -
  from run s(1) have st: "sql_transaction_end E s = (r, s')" by (simp add: requiemdb_sql_transaction_end_def)
  obtain r1 s1 where q: "sql_exec E ''COMMIT'' s = (r1, s1)" by fastforce
  with st s(2) have "s' = unlock (s1\<lparr>status := status s1 AND NOT STATUS_TRANSACTION\<rparr>)"
    by (simp add: sql_transaction_end_def)
  with end_cases [OF st] exec_sends [OF nd s(3,4) q] s(2) show ?thesis by simp
qed

lemma abort_sends:
  assumes nd: "no_disconnect E" and s: "\<not> internal_transaction_disabled s" "in_transaction s" "connected s" "logfile s \<noteq> None"
    and run: "requiemdb_sql_transaction_abort E s = (r, s')"
  shows "same_frame s s' \<and> lock_depth s' = lock_depth s - 1 \<and> \<not> in_transaction s' \<and> logged s' = logged s @ [''ROLLBACK'']"
proof -
  from run s(1) have st: "sql_transaction_abort E s = (r, s')" by (simp add: requiemdb_sql_transaction_abort_def)
  let ?s = "s\<lparr>status := status s AND NOT STATUS_TRANSACTION\<rparr>"
  obtain r1 s1 where q: "sql_exec E ''ROLLBACK'' ?s = (r1, s1)" by fastforce
  have c: "connected ?s" using s(3) by (simp add: status_simps)
  have "logged s1 = logged s @ [''ROLLBACK'']" using exec_sends [OF nd c _ q] s(4) by simp
  moreover have verbose: "logged v = logged u" if "on_world (error_verbose k m) u = (x, v)" for k m u v and x :: "err + nat"
    using on_world_simps [OF that] by simp
  ultimately have "logged s' = logged s @ [''ROLLBACK'']"
    using st s(2) c q
    by (auto simp: sql_transaction_abort_def Let_def split: option.splits sum.splits prod.splits if_splits
        dest!: verbose)
  with abort_cases [OF st] s(2) show ?thesis by simp
qed

text \<open>
  The trace of a bracket whose body sends by \<open>R\<close>: BEGIN, the body's statements, COMMIT when
  it returns success; when it fails, no statement or only BEGIN, or the statements of a failed
  body closed by ROLLBACK, or a COMMIT that was refused.
\<close>

definition bracket_trace :: "(bool \<Rightarrow> string list \<Rightarrow> bool) \<Rightarrow> bool \<Rightarrow> string list \<Rightarrow> bool" where
  "bracket_trace R failed new \<longleftrightarrow>
    (if failed then
       new = [] \<or> new = [''BEGIN''] \<or>
       (\<exists>body. new = ''BEGIN'' # body @ [''ROLLBACK''] \<and> R True body) \<or>
       (\<exists>body. new = ''BEGIN'' # body @ [''COMMIT''] \<and> R False body)
     else \<exists>body. new = ''BEGIN'' # body @ [''COMMIT''] \<and> R False body)"

lemma transactionally_trace:
  assumes nd: "no_disconnect E" and body: "sends R body"
    and s: "\<not> internal_transaction_disabled s" "\<not> in_transaction s" "logfile s \<noteq> None"
    and run: "transactionally E body s = (r, s')"
  shows "same_frame s s' \<and> lock_depth s' = lock_depth s \<and> \<not> in_transaction s' \<and>
    (\<exists>new. logged s' = logged s @ new \<and> bracket_trace R (isl r) new)"
proof -
  obtain r1 s1 where st: "requiemdb_sql_transaction_start E s = (r1, s1)" by fastforce
  note f1 = start_sends [OF nd s st]
  show ?thesis
  proof (cases r1)
    case (Inl e)
    with run st have "r = Inl e" "s' = s1" by (simp_all add: transactionally_def)
    with f1 Inl show ?thesis by (auto simp: bracket_trace_def)
  next
    case (Inr n)
    have up: "connected s1" "logfile s1 \<noteq> None" "\<not> internal_transaction_disabled s1" "in_transaction s1"
      using f1 Inr s by (auto simp: same_frame_def)
    obtain r2 s2 where b: "body s1 = (r2, s2)" by fastforce
    from sendsD [OF body up(1,2) b] obtain new where
      f2: "connected s2" "in_transaction s2" "lock_depth s2 = lock_depth s1" "same_frame s1 s2"
      and new: "logged s2 = logged s1 @ new" "R (isl r2) new" using up(4) by blast
    have up2: "\<not> internal_transaction_disabled s2" "logfile s2 \<noteq> None"
      using f2(4) up by (auto simp: same_frame_def)
    show ?thesis
    proof (cases r2)
      case (Inr a)
      obtain r3 s3 where e: "requiemdb_sql_transaction_end E s2 = (r3, s3)" by fastforce
      from run st b Inr \<open>r1 = Inr n\<close> e have "r = r3" "s' = s3" by (simp_all add: transactionally_def)
      with end_sends [OF nd up2(1) f2(2,1) up2(2) e] f1 f2 new Inr \<open>r1 = Inr n\<close> show ?thesis
        by (auto simp: bracket_trace_def dest: same_frame_trans)
    next
      case (Inl x)
      obtain r3 s3 where e: "requiemdb_sql_transaction_abort E s2 = (r3, s3)" by fastforce
      from run st b Inl \<open>r1 = Inr n\<close> e have "isl r" "s' = s3"
        by (auto simp: transactionally_def split: sum.splits)
      with abort_sends [OF nd up2(1) f2(2,1) up2(2) e] f1 f2 new Inl \<open>r1 = Inr n\<close> show ?thesis
        by (auto simp: bracket_trace_def dest: same_frame_trans)
    qed
  qed
qed

text \<open>With the internal transactions disabled the bracket is its body.\<close>

lemma transactionally_disabled:
  assumes "internal_transaction_disabled s" and "body s = (r, s')" and "internal_transaction_disabled s'"
  shows "transactionally E body s = (case r of Inl e \<Rightarrow> (Inl e, s') | Inr _ \<Rightarrow> (Inr 0, s'))"
  using assms by (auto simp: transactionally_def requiemdb_sql_transaction_start_def
      requiemdb_sql_transaction_end_def requiemdb_sql_transaction_abort_def split: sum.split)

end
