(* ===== verification/ClassicDelete.thy ===== *)
theory ClassicDelete
  imports ClassicQuery SqlBracket
begin

text \<open>
  Deletion of messages (\<open>plugins/format/classic/classic-delete.c\<close>): one DELETE statement
  for each table, inside a transaction, for one ident, a list of idents, or the idents a
  query yields.  A statement is the text before and after its \<open>%s\<close>.
\<close>

definition delete_alert_queries :: "(string \<times> string) list" where
  "delete_alert_queries =
    [(''DELETE FROM Requiem_Action WHERE _message_ident '', []),
     (''DELETE FROM Requiem_AdditionalData WHERE _message_ident '', '' AND _parent_type = '' @ quoted (CHR ''A'')),
     (''DELETE FROM Requiem_Address WHERE _message_ident '', '' AND _parent_type != '' @ quoted (CHR ''H'')),
     (''DELETE FROM Requiem_Alert WHERE _ident '', []),
     (''DELETE FROM Requiem_Alertident WHERE _message_ident '', []),
     (''DELETE FROM Requiem_Analyzer WHERE _message_ident '', '' AND _parent_type = '' @ quoted (CHR ''A'')),
     (''DELETE FROM Requiem_AnalyzerTime WHERE _message_ident '', '' AND _parent_type = '' @ quoted (CHR ''A'')),
     (''DELETE FROM Requiem_Assessment WHERE _message_ident '', []),
     (''DELETE FROM Requiem_Classification WHERE _message_ident '', []),
     (''DELETE FROM Requiem_Reference WHERE _message_ident '', []),
     (''DELETE FROM Requiem_Confidence WHERE _message_ident '', []),
     (''DELETE FROM Requiem_CorrelationAlert WHERE _message_ident '', []),
     (''DELETE FROM Requiem_CreateTime WHERE _message_ident '', '' AND _parent_type = '' @ quoted (CHR ''A'')),
     (''DELETE FROM Requiem_DetectTime WHERE _message_ident '', []),
     (''DELETE FROM Requiem_File WHERE _message_ident '', []),
     (''DELETE FROM Requiem_FileAccess WHERE _message_ident '', []),
     (''DELETE FROM Requiem_FileAccess_Permission WHERE _message_ident '', []),
     (''DELETE FROM Requiem_Impact WHERE _message_ident '', []),
     (''DELETE FROM Requiem_Inode WHERE _message_ident '', []),
     (''DELETE FROM Requiem_Checksum WHERE _message_ident '', []),
     (''DELETE FROM Requiem_Linkage WHERE _message_ident '', []),
     (''DELETE FROM Requiem_Node WHERE _message_ident '', '' AND _parent_type != '' @ quoted (CHR ''H'')),
     (''DELETE FROM Requiem_OverflowAlert WHERE _message_ident '', []),
     (''DELETE FROM Requiem_Process WHERE _message_ident '', '' AND _parent_type != '' @ quoted (CHR ''H'')),
     (''DELETE FROM Requiem_ProcessArg WHERE _message_ident '', '' AND _parent_type != '' @ quoted (CHR ''H'')),
     (''DELETE FROM Requiem_ProcessEnv WHERE _message_ident '', '' AND _parent_type != '' @ quoted (CHR ''H'')),
     (''DELETE FROM Requiem_SnmpService WHERE _message_ident '', []),
     (''DELETE FROM Requiem_Service WHERE _message_ident '', []),
     (''DELETE FROM Requiem_Source WHERE _message_ident '', []),
     (''DELETE FROM Requiem_Target WHERE _message_ident '', []),
     (''DELETE FROM Requiem_ToolAlert WHERE _message_ident '', []),
     (''DELETE FROM Requiem_User WHERE _message_ident '', []),
     (''DELETE FROM Requiem_UserId WHERE _message_ident '', []),
     (''DELETE FROM Requiem_WebService WHERE _message_ident '', []),
     (''DELETE FROM Requiem_WebServiceArg WHERE _message_ident '', [])]"

definition delete_heartbeat_queries :: "(string \<times> string) list" where
  "delete_heartbeat_queries =
    [(''DELETE FROM Requiem_AdditionalData WHERE _parent_type = '' @ quoted (CHR ''H'') @ '' AND _message_ident '', []),
     (''DELETE FROM Requiem_Address WHERE _parent_type = '' @ quoted (CHR ''H'') @ '' AND _message_ident '', []),
     (''DELETE FROM Requiem_Analyzer WHERE _parent_type = '' @ quoted (CHR ''H'') @ '' AND _message_ident '', []),
     (''DELETE FROM Requiem_AnalyzerTime WHERE _parent_type = '' @ quoted (CHR ''H'') @ '' AND _message_ident '', []),
     (''DELETE FROM Requiem_CreateTime WHERE _parent_type = '' @ quoted (CHR ''H'') @ '' AND _message_ident '', []),
     (''DELETE FROM Requiem_Node WHERE _parent_type = '' @ quoted (CHR ''H'') @ '' AND _message_ident '', []),
     (''DELETE FROM Requiem_Process WHERE _parent_type = '' @ quoted (CHR ''H'') @ '' AND _message_ident '', []),
     (''DELETE FROM Requiem_ProcessArg WHERE _parent_type = '' @ quoted (CHR ''H'') @ '' AND _message_ident '', []),
     (''DELETE FROM Requiem_ProcessEnv WHERE _parent_type = '' @ quoted (CHR ''H'') @ '' AND _message_ident '', []),
     (''DELETE FROM Requiem_Heartbeat WHERE _ident '', [])]"

definition delete_texts :: "(string \<times> string) list \<Rightarrow> string \<Rightarrow> string list" where
  "delete_texts queries idents = map (\<lambda>(before, after). before @ idents @ after) queries"

definition delete_message :: "'w env \<Rightarrow> (string \<times> string) list \<Rightarrow> string \<Rightarrow> ('w, nat) sqlop" where
  "delete_message E queries idents = transactionally E (exec_list E (delete_texts queries idents))"

definition do_delete_alert :: "'w env \<Rightarrow> string \<Rightarrow> ('w, nat) sqlop" where
  "do_delete_alert E idents = delete_message E delete_alert_queries idents"

definition do_delete_heartbeat :: "'w env \<Rightarrow> string \<Rightarrow> ('w, nat) sqlop" where
  "do_delete_heartbeat E idents = delete_message E delete_heartbeat_queries idents"

section \<open>Ident lists\<close>

fun ident_list_loop :: "bool \<Rightarrow> 64 word list \<Rightarrow> string" where
  "ident_list_loop need_sep [] = []"
| "ident_list_loop need_sep (i # is) =
     (if need_sep then '', '' else []) @ dec_nat (unat i) @ ident_list_loop True is"

definition get_string_from_ident_list :: "64 word list \<Rightarrow> nat \<times> string" where
  "get_string_from_ident_list idents =
     (length idents, ''IN ('' @ ident_list_loop False idents @ '')'')"

text \<open>
  The loop over the idents of a result.  It goes on as long as the next ident is not the
  return 0: an error is not 0.  The variable \<open>ident\<close> then keeps what it held (\<open>None\<close>: not
  initialised).  The first argument bounds the number of rounds; \<open>None\<close> is a loop that has
  not ended after so many.
\<close>

fun result_ident_loop ::
    "nat \<Rightarrow> 'w env \<Rightarrow> sql_res \<Rightarrow> nat \<Rightarrow> int option \<Rightarrow> string \<Rightarrow> 'w sql \<Rightarrow> ((err + nat \<times> string) \<times> 'w sql) option" where
  "result_ident_loop 0 E res i ident acc s = None"
| "result_ident_loop (Suc n) E res i ident acc s =
    (let (r, s') = classic_get_next_message_ident E res s
     in case r of
          Inr None \<Rightarrow> Some (Inr (i, acc), s')
        | _ \<Rightarrow>
            let ident' = (case r of
                 Inr (Some (Stored v)) \<Rightarrow> Some v
               | Inr (Some Undefined) \<Rightarrow> None
               | _ \<Rightarrow> ident)
            in (case ident' of
                  None \<Rightarrow> Some (Inl UndefinedValue, s')
                | Some v \<Rightarrow>
                    result_ident_loop n E res (i + 1) ident'
                      (acc @ (if i > 0 then '', '' else []) @ dec_int v) s'))"

text \<open>A result without idents gives the count 0 and no text.\<close>

definition get_string_from_result_ident ::
    "nat \<Rightarrow> 'w env \<Rightarrow> sql_res \<Rightarrow> 'w sql \<Rightarrow> ((err + nat \<times> string) \<times> 'w sql) option" where
  "get_string_from_result_ident fuel E res s =
    map_option (\<lambda>(r, s'). (map_sum id (\<lambda>(i, acc). (i, if i = 0 then [] else acc @ '')'')) r, s'))
      (result_ident_loop fuel E res 0 None ''IN ('' s)"

section \<open>The delete operations\<close>

definition ident_text :: "64 word \<Rightarrow> string" where
  "ident_text i = ''= '' @ dec_nat (unat i)"

definition classic_delete_alert :: "'w env \<Rightarrow> 64 word \<Rightarrow> ('w, nat) sqlop" where
  "classic_delete_alert E i = do_delete_alert E (ident_text i)"

definition classic_delete_heartbeat :: "'w env \<Rightarrow> 64 word \<Rightarrow> ('w, nat) sqlop" where
  "classic_delete_heartbeat E i = do_delete_heartbeat E (ident_text i)"

definition delete_counted :: "(string \<Rightarrow> ('w, nat) sqlop) \<Rightarrow> nat \<times> string \<Rightarrow> ('w, nat) sqlop" where
  "delete_counted del = (\<lambda>(count, idents). bindr (del idents) (\<lambda>_. retn count))"

definition classic_delete_alert_from_list :: "'w env \<Rightarrow> 64 word list \<Rightarrow> ('w, nat) sqlop" where
  "classic_delete_alert_from_list E idents = delete_counted (do_delete_alert E) (get_string_from_ident_list idents)"

definition classic_delete_heartbeat_from_list :: "'w env \<Rightarrow> 64 word list \<Rightarrow> ('w, nat) sqlop" where
  "classic_delete_heartbeat_from_list E idents =
     delete_counted (do_delete_heartbeat E) (get_string_from_ident_list idents)"

definition delete_from_result ::
    "(string \<Rightarrow> ('w, nat) sqlop) \<Rightarrow> ((err + nat \<times> string) \<times> 'w sql) option \<Rightarrow> ((err + nat) \<times> 'w sql) option" where
  "delete_from_result del found =
    (case found of
       None \<Rightarrow> None
     | Some (Inl e, s) \<Rightarrow> Some (Inl e, s)
     | Some (Inr (count, idents), s) \<Rightarrow>
         if count = 0 then Some (Inr 0, s) else Some (delete_counted del (count, idents) s))"

definition classic_delete_alert_from_result_idents ::
    "nat \<Rightarrow> 'w env \<Rightarrow> sql_res \<Rightarrow> 'w sql \<Rightarrow> ((err + nat) \<times> 'w sql) option" where
  "classic_delete_alert_from_result_idents fuel E res s =
     delete_from_result (do_delete_alert E) (get_string_from_result_ident fuel E res s)"

definition classic_delete_heartbeat_from_result_idents ::
    "nat \<Rightarrow> 'w env \<Rightarrow> sql_res \<Rightarrow> 'w sql \<Rightarrow> ((err + nat) \<times> 'w sql) option" where
  "classic_delete_heartbeat_from_result_idents fuel E res s =
     delete_from_result (do_delete_heartbeat E) (get_string_from_result_ident fuel E res s)"

section \<open>Properties\<close>

lemma delete_message_trace:
  assumes "no_disconnect E" "\<not> internal_transaction_disabled s" "\<not> in_transaction s" "logfile s \<noteq> None"
    and "delete_message E queries idents s = (r, s')"
  shows "same_frame s s' \<and> lock_depth s' = lock_depth s \<and> \<not> in_transaction s' \<and>
    (\<exists>new. logged s' = logged s @ new \<and> bracket_trace (prefix_sent (delete_texts queries idents)) (isl r) new)"
  using transactionally_trace [OF assms(1) exec_list_sends [OF assms(1)] assms(2-4) assms(5) [unfolded delete_message_def]] .


lemma no_disconnect_idents_env: "no_disconnect idents_env"
  by (simp add: no_disconnect_def idents_env_def limit_plugin_def null_env_def null_plugin_def plugin_sql_fetch_row_def
      plugin_sql_fetch_field_def enotsup_def)


lemma ident_list_loop_joined:
  "ident_list_loop sep ids = (if ids = [] then [] else (if sep then '', '' else []) @ joined '', '' (map (\<lambda>i. dec_nat (unat i)) ids))"
  by (induction sep ids rule: ident_list_loop.induct) (auto simp: joined_Cons)

text \<open>The next calls of a result yield these idents, then the end.\<close>

fun yields :: "'w env \<Rightarrow> sql_res \<Rightarrow> 64 word list \<Rightarrow> 'w sql \<Rightarrow> 'w sql \<Rightarrow> bool" where
  "yields E res [] s s' \<longleftrightarrow> classic_get_next_message_ident E res s = (Inr None, s')"
| "yields E res (i # is) s s' \<longleftrightarrow>
     (let (r, s1) = classic_get_next_message_ident E res s
      in r = Inr (Some (Stored (uint i))) \<and> yields E res is s1 s')"

lemma dec_int_uint: "dec_int (uint i) = dec_nat (unat i)"
  by (simp add: dec_int_def flip: nat_uint_eq)

lemma result_ident_loop_yields:
  "yields E res ids s s' \<Longrightarrow> length ids < fuel \<Longrightarrow>
   result_ident_loop fuel E res n ident acc s =
     Some (Inr (n + length ids, acc @ ident_list_loop (n > 0) ids), s')"
proof (induction ids arbitrary: fuel n ident acc s)
  case Nil
  then show ?case by (cases fuel) simp_all
next
  case (Cons i ids)
  then obtain k where k: "fuel = Suc k" by (cases fuel) auto
  obtain s1 where "classic_get_next_message_ident E res s = (Inr (Some (Stored (uint i))), s1)"
    and "yields E res ids s1 s'"
    using Cons.prems(1) by (auto split: prod.splits)
  with Cons k show ?case by (simp add: dec_int_uint)
qed

text \<open>
  C23.  Deleting the alerts of a query result deletes those of its idents: when the result
  yields the idents \<open>ids\<close> and ends, \<open>length ids + 1\<close> rounds read it, nothing is deleted for an
  empty result, and otherwise the same statements run as for the list.
\<close>
theorem delete_from_result_refines_list:
  assumes "yields E res ids s s'" and "length ids < fuel"
  shows "classic_delete_alert_from_result_idents fuel E res s =
    Some (if ids = [] then (Inr 0, s') else classic_delete_alert_from_list E ids s')"
  using result_ident_loop_yields [OF assms, of 0 None "''IN (''"]
  by (simp add: classic_delete_alert_from_result_idents_def get_string_from_result_ident_def
      delete_from_result_def classic_delete_alert_from_list_def get_string_from_ident_list_def)

text \<open>A back end with a result of one ident: the session counts the rows that are left.\<close>

definition rows_plugin :: "bool \<Rightarrow> nat plugin_sql" where
  "rows_plugin broken = null_plugin\<lparr>
     pl_fetch_row := Some (\<lambda>r w. if session w = 0
        then (if broken then (Inl (DbErr ERROR_QUERY True), w) else (Inr None, w))
        else (Inr (Some 0), w\<lparr>session := session w - 1\<rparr>)),
     pl_fetch_field := Some (\<lambda>r row c. retn (Some ''42''))\<rparr>"

definition rows_env :: "bool \<Rightarrow> nat env" where
  "rows_env broken = null_env\<lparr>env_plugin := rows_plugin broken\<rparr>"

definition rows_sql :: "nat sql" where
  "rows_sql = sql_fresh settings_new \<lparr>thread_error = None, session = 1\<rparr>"

lemma rows_first:
  "classic_get_next_message_ident (rows_env broken) 0 rows_sql =
    (Inr (Some (Stored 42)), rows_sql\<lparr>sql_world := \<lparr>thread_error = None, session = 0\<rparr>\<rparr>)"
proof -
  have f: "field_to_uint64 ''42'' = Inr (Stored 42)" by code_simp
  show ?thesis
    by (simp add: classic_get_next_message_ident_def requiemdb_sql_table_fetch_row_def
        requiemdb_sql_row_fetch_field_def noting_errno_def on_world_def rows_env_def rows_plugin_def
        plugin_sql_fetch_row_def plugin_sql_fetch_field_def rows_sql_def sql_fresh_def bindr_def f)
qed

lemma rows_end:
  "classic_get_next_message_ident (rows_env False) 0 (rows_sql\<lparr>sql_world := \<lparr>thread_error = None, session = 0\<rparr>\<rparr>) =
    (Inr None, rows_sql\<lparr>sql_world := \<lparr>thread_error = None, session = 0\<rparr>\<rparr>)"
  by (simp add: classic_get_next_message_ident_def requiemdb_sql_table_fetch_row_def
      noting_errno_def on_world_def rows_env_def rows_plugin_def plugin_sql_fetch_row_def bindr_def)

theorem delete_from_result_refines_list_witness:
  "\<exists>s'. classic_delete_alert_from_result_idents 2 (rows_env False) 0 rows_sql =
    Some (classic_delete_alert_from_list (rows_env False) [42] s')"
proof -
  have y: "yields (rows_env False) 0 [42] rows_sql (rows_sql\<lparr>sql_world := \<lparr>thread_error = None, session = 0\<rparr>\<rparr>)"
    by (simp add: rows_first rows_end)
  show ?thesis
    using delete_from_result_refines_list [OF y, of 2] by auto
qed

text \<open>
  The loop that collects the idents of a result takes an error for one more ident: when
  the first ident is read and every later read fails, it never ends, whatever the bound,
  appending the first ident again and again.
\<close>
theorem delete_from_failing_result_never_ends:
  assumes "classic_get_next_message_ident E res s = (Inr (Some (Stored v)), s1)"
    and "J s1" and "\<And>t. J t \<Longrightarrow> \<exists>e t'. classic_get_next_message_ident E res t = (Inl e, t') \<and> J t'"
  shows "classic_delete_alert_from_result_idents fuel E res s = None"
proof -
  have loop: "J t \<Longrightarrow> result_ident_loop n E res i (Some v) acc t = None" for n i acc t
  proof (induction n arbitrary: i acc t)
    case (Suc n)
    from assms(3) [OF Suc.prems] obtain e t' where "classic_get_next_message_ident E res t = (Inl e, t')" "J t'" by blast
    with Suc.IH show ?case by simp
  qed simp
  have "result_ident_loop fuel E res 0 None acc s = None" for acc
    using assms(1) loop [OF assms(2)] by (cases fuel) simp_all
  then show ?thesis
    by (simp add: classic_delete_alert_from_result_idents_def get_string_from_result_ident_def delete_from_result_def)
qed

theorem delete_from_failing_result_never_ends_witness:
  "classic_delete_alert_from_result_idents 1000 (rows_env True) 0 rows_sql = None"
proof (rule delete_from_failing_result_never_ends [where J = "\<lambda>t. session (sql_world t) = 0"])
  show "classic_get_next_message_ident (rows_env True) 0 rows_sql =
    (Inr (Some (Stored 42)), rows_sql\<lparr>sql_world := \<lparr>thread_error = None, session = 0\<rparr>\<rparr>)"
    by (rule rows_first)
  show "session (sql_world (rows_sql\<lparr>sql_world := \<lparr>thread_error = None, session = 0\<rparr>\<rparr>)) = 0" by simp
  fix t :: "nat sql" assume t: "session (sql_world t) = 0"
  have "on_world (plugin_sql_fetch_row (rows_plugin True) 0) t = (Inl (DbErr ERROR_QUERY True), t)"
    using t by (simp add: on_world_def rows_plugin_def plugin_sql_fetch_row_def)
  then have "requiemdb_sql_table_fetch_row (rows_env True) 0 t = (Inl (DbErr ERROR_QUERY True), t)"
    by (simp add: requiemdb_sql_table_fetch_row_def noting_errno_def rows_env_def update_sql_from_errno_def)
  with t show "\<exists>e t'. classic_get_next_message_ident (rows_env True) 0 t = (Inl e, t') \<and> session (sql_world t') = 0"
    by (simp add: classic_get_next_message_ident_def)
qed

end
