(* ===== verification/ClassicInsert.thy ===== *)
theory ClassicInsert
  imports ClassicInsertParts ClassicDelete
begin

text \<open>
  Insertion of a message (\<open>plugins/format/classic/classic-insert.c\<close>, the functions from
  \<open>insert_source\<close> on): the message row, whose ident the database chooses, everything below
  it, and the transaction around both.
\<close>

section \<open>Sources, targets, analyzers\<close>

definition insert_source :: "'w env \<Rightarrow> int \<Rightarrow> int \<Rightarrow> idmef_source \<Rightarrow> ('w, unit) sqlop" where
  "insert_source E message_ident index s =
     bindr (esc_string E (source_ident s)) (\<lambda>ident.
     bindr (esc_enum E ENUM_SOURCE_SPOOFED (source_spoofed s)) (\<lambda>spoofed.
     bindr (esc_string E (source_interface s)) (\<lambda>ifc.
     bindr (store E ''Requiem_Source'' ''_message_ident, _index, ident, spoofed, interface''
              [dec_int message_ident, dec_int index, ident, spoofed, ifc]) (\<lambda>_.
     bindr (insert_node E (CHR ''S'') message_ident index (source_node s)) (\<lambda>_.
     bindr (insert_user E (CHR ''S'') message_ident index (source_user s)) (\<lambda>_.
     bindr (insert_process E (CHR ''S'') message_ident index (source_process s)) (\<lambda>_.
     insert_service E (CHR ''S'') message_ident index (source_service s))))))))"

definition insert_target :: "'w env \<Rightarrow> int \<Rightarrow> int \<Rightarrow> idmef_target \<Rightarrow> ('w, unit) sqlop" where
  "insert_target E message_ident target_index t =
     bindr (esc_enum E ENUM_TARGET_DECOY (target_decoy t)) (\<lambda>decoy.
     bindr (failing_with (- 2) (esc_string E (target_ident t))) (\<lambda>ident.
     bindr (failing_with (- 2) (esc_string E (target_interface t))) (\<lambda>ifc.
     bindr (failing_with (- 1) (store E ''Requiem_Target'' ''_message_ident, _index, ident, decoy, interface''
              [dec_int message_ident, dec_int target_index, ident, decoy, ifc])) (\<lambda>_.
     bindr (insert_node E (CHR ''T'') message_ident target_index (target_node t)) (\<lambda>_.
     bindr (insert_user E (CHR ''T'') message_ident target_index (target_user t)) (\<lambda>_.
     bindr (insert_process E (CHR ''T'') message_ident target_index (target_process t)) (\<lambda>_.
     bindr (insert_service E (CHR ''T'') message_ident target_index (target_service t)) (\<lambda>_.
     insert_indexed (insert_file E message_ident target_index) (target_files t)))))))))"

definition insert_analyzer :: "'w env \<Rightarrow> char \<Rightarrow> int \<Rightarrow> int \<Rightarrow> idmef_analyzer \<Rightarrow> ('w, unit) sqlop" where
  "insert_analyzer E ptype message_ident analyzer_index a =
     bindr (esc_string E (analyzer_analyzerid a)) (\<lambda>analyzerid.
     bindr (esc_string E (analyzer_class a)) (\<lambda>class.
     bindr (esc_string E (analyzer_name a)) (\<lambda>name.
     bindr (esc_string E (analyzer_model a)) (\<lambda>model.
     bindr (esc_string E (analyzer_version a)) (\<lambda>version.
     bindr (esc_string E (analyzer_manufacturer a)) (\<lambda>manufacturer.
     bindr (esc_string E (analyzer_ostype a)) (\<lambda>ostype.
     bindr (esc_string E (analyzer_osversion a)) (\<lambda>osversion.
     bindr (store E ''Requiem_Analyzer''
              ''_parent_type, _message_ident, _index, analyzerid, name, manufacturer, model, version, class, ostype, osversion''
              [quoted ptype, dec_int message_ident, dec_int analyzer_index, analyzerid, name, manufacturer,
               model, version, class, ostype, osversion]) (\<lambda>_.
     bindr (insert_node E ptype message_ident analyzer_index (analyzer_node a)) (\<lambda>_.
     insert_process E ptype message_ident analyzer_index (analyzer_process a)))))))))))"

section \<open>Classification, additional data, times\<close>

definition insert_reference :: "'w env \<Rightarrow> int \<Rightarrow> int \<Rightarrow> idmef_reference \<Rightarrow> ('w, unit) sqlop" where
  "insert_reference E message_ident reference_index r =
     bindr (esc_enum E ENUM_REFERENCE_ORIGIN (reference_origin r)) (\<lambda>origin.
     bindr (esc_string E (reference_url r)) (\<lambda>url.
     bindr (esc_string E (reference_name r)) (\<lambda>name.
     bindr (esc_string E (reference_meaning r)) (\<lambda>meaning.
     store E ''Requiem_Reference'' ''_message_ident, _index, origin, name, url, meaning''
       [dec_int message_ident, dec_int reference_index, origin, name, url, meaning]))))"

definition insert_classification :: "'w env \<Rightarrow> int \<Rightarrow> idmef_classification option \<Rightarrow> ('w, unit) sqlop" where
  "insert_classification E message_ident = insert_optional (\<lambda>c.
     bindr (esc_string E (classification_ident c)) (\<lambda>ident.
     bindr (esc_string E (classification_text c)) (\<lambda>ctext.
     bindr (ignoring_result (store E ''Requiem_Classification'' ''_message_ident, ident, text''
              [dec_int message_ident, ident, ctext])) (\<lambda>_.
     insert_indexed (insert_reference E message_ident) (classification_references c)))))"

definition insert_additional_data :: "'w env \<Rightarrow> char \<Rightarrow> int \<Rightarrow> int \<Rightarrow> idmef_additional_data \<Rightarrow> ('w, unit) sqlop" where
  "insert_additional_data E ptype message_ident ad_index a =
     bindr (esc_enum E ENUM_ADDITIONAL_DATA_TYPE (ad_type a)) (\<lambda>type.
     bindr (esc_string E (ad_meaning a)) (\<lambda>meaning.
     bindr (get_data E (ad_data a)) (\<lambda>data.
     store E ''Requiem_AdditionalData'' ''_parent_type, _message_ident, _index, type, meaning, data''
       [quoted ptype, dec_int message_ident, dec_int ad_index, type, meaning, data])))"

definition full_time_texts :: "'w env \<Rightarrow> idmef_time option \<Rightarrow> ('s, err, string list) cop" where
  "full_time_texts E t =
    (case requiemdb_sql_time_to_timestamp E t TIMESTAMP_STRING_SIZE (Some 16) (Some 16) of
       Inl e \<Rightarrow> failw e
     | Inr (tm, gmtoff, usec) \<Rightarrow> retn [tm, str_or_null gmtoff, str_or_null usec])"

definition insert_createtime :: "'w env \<Rightarrow> char \<Rightarrow> int \<Rightarrow> idmef_time option \<Rightarrow> ('w, unit) sqlop" where
  "insert_createtime E ptype message_ident t =
     bindr (full_time_texts E t) (\<lambda>ts.
     store E ''Requiem_CreateTime'' ''_parent_type, _message_ident, time, gmtoff, usec''
       ([quoted ptype, dec_int message_ident] @ ts))"

definition insert_detecttime :: "'w env \<Rightarrow> int \<Rightarrow> idmef_time option \<Rightarrow> ('w, unit) sqlop" where
  "insert_detecttime E message_ident = insert_optional (\<lambda>t.
     bindr (full_time_texts E (Some t)) (\<lambda>ts.
     store E ''Requiem_DetectTime'' ''_message_ident, time, gmtoff, usec'' ([dec_int message_ident] @ ts)))"

definition insert_analyzertime :: "'w env \<Rightarrow> char \<Rightarrow> int \<Rightarrow> idmef_time option \<Rightarrow> ('w, unit) sqlop" where
  "insert_analyzertime E ptype message_ident = insert_optional (\<lambda>t.
     bindr (full_time_texts E (Some t)) (\<lambda>ts.
     store E ''Requiem_AnalyzerTime'' ''_parent_type, _message_ident, time, gmtoff, usec''
       ([quoted ptype, dec_int message_ident] @ ts)))"

section \<open>Assessment\<close>

definition insert_impact :: "'w env \<Rightarrow> int \<Rightarrow> idmef_impact option \<Rightarrow> ('w, unit) sqlop" where
  "insert_impact E message_ident = insert_optional (\<lambda>i.
     bindr (requiemdb_sql_escape E (get_optional_enum E ENUM_IMPACT_COMPLETION (impact_completion i))) (\<lambda>completion.
     bindr (esc_enum E ENUM_IMPACT_TYPE (impact_type i)) (\<lambda>type.
     bindr (requiemdb_sql_escape E (get_optional_enum E ENUM_IMPACT_SEVERITY (impact_severity i))) (\<lambda>severity.
     bindr (esc_string E (impact_description i)) (\<lambda>description.
     store E ''Requiem_Impact'' ''_message_ident, severity, completion, type, description''
       [dec_int message_ident, severity, completion, type, description])))))"

definition insert_action :: "'w env \<Rightarrow> int \<Rightarrow> int \<Rightarrow> idmef_action \<Rightarrow> ('w, unit) sqlop" where
  "insert_action E message_ident action_index a =
     bindr (esc_enum E ENUM_ACTION_CATEGORY (action_category a)) (\<lambda>category.
     bindr (esc_string E (action_description a)) (\<lambda>description.
     store E ''Requiem_Action'' ''_message_ident, _index, category, description''
       [dec_int message_ident, dec_int action_index, category, description]))"

definition insert_confidence :: "'w env \<Rightarrow> int \<Rightarrow> idmef_confidence option \<Rightarrow> ('w, unit) sqlop" where
  "insert_confidence E message_ident = insert_optional (\<lambda>c.
     bindr (esc_enum E ENUM_CONFIDENCE_RATING (confidence_rating c)) (\<lambda>rating.
     store E ''Requiem_Confidence'' ''_message_ident, rating, confidence''
       [dec_int message_ident, rating, format_float E (confidence_value c)]))"

definition insert_assessment :: "'w env \<Rightarrow> int \<Rightarrow> idmef_assessment option \<Rightarrow> ('w, unit) sqlop" where
  "insert_assessment E message_ident = insert_optional (\<lambda>a.
     bindr (store E ''Requiem_Assessment'' ''_message_ident'' [dec_int message_ident]) (\<lambda>_.
     bindr (insert_impact E message_ident (assessment_impact a)) (\<lambda>_.
     bindr (insert_confidence E message_ident (assessment_confidence a)) (\<lambda>_.
     insert_indexed (insert_action E message_ident) (assessment_actions a)))))"

section \<open>Kinds of alerts\<close>

text \<open>The overflow alert is not tested for NULL.\<close>

definition insert_overflow_alert :: "'w env \<Rightarrow> int \<Rightarrow> idmef_overflow_alert option \<Rightarrow> ('w, unit) sqlop" where
  "insert_overflow_alert E message_ident oa =
    (case oa of
       None \<Rightarrow> failw NullDeref
     | Some a \<Rightarrow>
         bindr (esc_string E (overflow_program a)) (\<lambda>program.
         bindr (get_data E (overflow_buffer a)) (\<lambda>buffer.
         store E ''Requiem_OverflowAlert'' ''_message_ident, program, size, buffer''
           [dec_int message_ident, program, opt_uint 16 (overflow_size a), buffer])))"

definition insert_alertident :: "'w env \<Rightarrow> char \<Rightarrow> int \<Rightarrow> int \<Rightarrow> idmef_alertident \<Rightarrow> ('w, unit) sqlop" where
  "insert_alertident E ptype message_ident alertident_index a =
     bindr (esc_string E (alertident_analyzerid a)) (\<lambda>analyzerid.
     bindr (esc_string E (alertident_alertident a)) (\<lambda>messageid.
     store E ''Requiem_Alertident'' ''_parent_type, _message_ident, _index, alertident, analyzerid''
       [quoted ptype, dec_int message_ident, dec_int alertident_index, messageid, analyzerid]))"

text \<open>
  After the loop over the alertidents of a tool alert, the test of \<open>last_alertident\<close> is a
  test of \<open>ret\<close>: it holds only when there was no alertident and the INSERT of the tool alert,
  whose result was not looked at, failed; the alertident inserted then is NULL.
\<close>

definition insert_tool_alert :: "'w env \<Rightarrow> int \<Rightarrow> idmef_tool_alert option \<Rightarrow> ('w, unit) sqlop" where
  "insert_tool_alert E message_ident = insert_optional (\<lambda>ta.
     bindr (esc_string E (tool_name ta)) (\<lambda>name.
     bindr (esc_string E (tool_command ta)) (\<lambda>command. \<lambda>s.
     case store E ''Requiem_ToolAlert'' ''_message_ident, name, command''
            [dec_int message_ident, name, command] s of
       (r, s1) \<Rightarrow>
         if tool_alertidents ta = [] then (case r of Inl _ \<Rightarrow> (Inl NullDeref, s1) | Inr _ \<Rightarrow> (Inr (), s1))
         else insert_from (insert_alertident E (CHR ''T'') message_ident) 0 (tool_alertidents ta) s1)))"

definition insert_correlation_alert :: "'w env \<Rightarrow> int \<Rightarrow> idmef_correlation_alert option \<Rightarrow> ('w, unit) sqlop" where
  "insert_correlation_alert E message_ident = insert_optional (\<lambda>c.
     bindr (esc_string E (correlation_name c)) (\<lambda>name.
     bindr (store E ''Requiem_CorrelationAlert'' ''_message_ident, name'' [dec_int message_ident, name]) (\<lambda>_.
     insert_indexed (insert_alertident E (CHR ''C'') message_ident) (correlation_alertidents c))))"

section \<open>The message row\<close>

text \<open>
  \<open>get_last_insert_ident\<close>.  A query without result, a result without row, a row whose field
  is NULL, and a field that is no number leave a variable the code goes on to use.
\<close>

definition last_ident_query :: "string \<Rightarrow> string" where
  "last_ident_query table = ''SELECT max(_ident) FROM '' @ table @ '';''"

definition destroying :: "'w env \<Rightarrow> sql_res \<Rightarrow> ('w, 'a) sqlop \<Rightarrow> ('w, 'a) sqlop" where
  "destroying E t f = (\<lambda>s. case f s of (r, s') \<Rightarrow> (r, requiemdb_sql_table_destroy E t s'))"

definition read_last_ident :: "'w env \<Rightarrow> sql_res \<Rightarrow> ('w, int) sqlop" where
  "read_last_ident E t =
     bindr (requiemdb_sql_table_fetch_row E t) (\<lambda>row.
       case row of
         None \<Rightarrow> failw UndefinedValue
       | Some h \<Rightarrow>
           bindr (requiemdb_sql_row_fetch_field E t h 0) (\<lambda>field.
             case field of
               None \<Rightarrow> failw UndefinedValue
             | Some v \<Rightarrow>
                 (case field_to_uint64 v of
                    Inl e \<Rightarrow> failw e
                  | Inr (Stored i) \<Rightarrow> retn i
                  | Inr _ \<Rightarrow> failw UndefinedValue)))"

definition get_last_insert_ident :: "'w env \<Rightarrow> string \<Rightarrow> ('w, int) sqlop" where
  "get_last_insert_ident E table =
     bindr (requiemdb_sql_query E (last_ident_query table) True) (\<lambda>(_, res).
       case res of
         None \<Rightarrow> failw UndefinedValue
       | Some t \<Rightarrow> destroying E t (read_last_ident E t))"

definition insert_message_messageid :: "'w env \<Rightarrow> string \<Rightarrow> rstring option \<Rightarrow> ('w, int) sqlop" where
  "insert_message_messageid E table messageid =
     bindr (esc_string E messageid) (\<lambda>t.
     bindr (store E table ''messageid'' [t]) (\<lambda>_.
     get_last_insert_ident E table))"

text \<open>What \<open>insert_alert\<close> and \<open>insert_heartbeat\<close> store below the message row, under its ident.\<close>

definition insert_alert_objects :: "'w env \<Rightarrow> idmef_alert \<Rightarrow> int \<Rightarrow> ('w, unit) sqlop" where
  "insert_alert_objects E a ident =
     bindr (insert_createtime E (CHR ''A'') ident (alert_create_time a)) (\<lambda>_.
     bindr (insert_detecttime E ident (alert_detect_time a)) (\<lambda>_.
     bindr (insert_analyzertime E (CHR ''A'') ident (alert_analyzer_time a)) (\<lambda>_.
     bindr (insert_assessment E ident (alert_assessment a)) (\<lambda>_.
     bindr (case alert_type a of
              Alert_default \<Rightarrow> retn ()
            | Alert_tool x \<Rightarrow> insert_tool_alert E ident x
            | Alert_overflow x \<Rightarrow> insert_overflow_alert E ident x
            | Alert_correlation x \<Rightarrow> insert_correlation_alert E ident x
            | Alert_other \<Rightarrow> failw (RawErr (- 1))) (\<lambda>_.
     bindr (insert_indexed (insert_analyzer E (CHR ''A'') ident) (alert_analyzers a)) (\<lambda>_.
     bindr (insert_indexed (insert_source E ident) (alert_sources a)) (\<lambda>_.
     bindr (insert_indexed (insert_target E ident) (alert_targets a)) (\<lambda>_.
     bindr (insert_classification E ident (alert_classification a)) (\<lambda>_.
     insert_indexed (insert_additional_data E (CHR ''A'') ident) (alert_additional_data a))))))))))"

definition insert_alert :: "'w env \<Rightarrow> idmef_alert option \<Rightarrow> ('w, unit) sqlop" where
  "insert_alert E = insert_optional (\<lambda>a.
     bindr (insert_message_messageid E ''Requiem_Alert'' (alert_messageid a)) (insert_alert_objects E a))"

definition insert_heartbeat_objects :: "'w env \<Rightarrow> idmef_heartbeat \<Rightarrow> int \<Rightarrow> ('w, unit) sqlop" where
  "insert_heartbeat_objects E h ident =
     bindr (insert_indexed (insert_analyzer E (CHR ''H'') ident) (heartbeat_analyzers h)) (\<lambda>_.
     bindr (insert_createtime E (CHR ''H'') ident (heartbeat_create_time h)) (\<lambda>_.
     bindr (insert_analyzertime E (CHR ''H'') ident (heartbeat_analyzer_time h)) (\<lambda>_.
     insert_indexed (insert_additional_data E (CHR ''H'') ident) (heartbeat_additional_data h))))"

definition insert_heartbeat :: "'w env \<Rightarrow> idmef_heartbeat option \<Rightarrow> ('w, unit) sqlop" where
  "insert_heartbeat E = insert_optional (\<lambda>h.
     bindr (esc_string E (heartbeat_messageid h)) (\<lambda>messageid.
     bindr (store E ''Requiem_Heartbeat'' ''messageid, heartbeat_interval''
              [messageid, opt_uint 16 (heartbeat_heartbeat_interval h)]) (\<lambda>_.
     bindr (get_last_insert_ident E ''Requiem_Heartbeat'') (insert_heartbeat_objects E h))))"

definition insert_body :: "'w env \<Rightarrow> idmef_message \<Rightarrow> ('w, unit) sqlop" where
  "insert_body E m =
    (case m of
       Message_alert a \<Rightarrow> insert_alert E a
     | Message_heartbeat h \<Rightarrow> insert_heartbeat E h
     | Message_other \<Rightarrow> failw (RawErr (- 1)))"

definition classic_insert :: "'w env \<Rightarrow> idmef_message option \<Rightarrow> ('w, nat) sqlop" where
  "classic_insert E message =
    (case message of
       None \<Rightarrow> retn 0
     | Some m \<Rightarrow> transactionally E (insert_body E m))"

end
