(* ===== verification/ClassicStored.thy ===== *)
theory ClassicStored
  imports ClassicInsert
begin

text \<open>
  What an insertion stores, against what a deletion removes.  A deletion is described by the
  tables it clears and the condition it puts on their parent type; a statement is covered by
  it when it inserts a row that meets the condition of its table.  The locale carries the
  lemma that each handler sends covered statements only; the transaction lemmas then give the
  trace of a whole insertion.
\<close>

section \<open>Deletions as tables and conditions\<close>

datatype parent_cond = Any_parent | Parent_is char | Parent_is_not char

definition alert_deletes :: "(string \<times> parent_cond) list" where
  "alert_deletes =
    [(''Requiem_Action'', Any_parent), (''Requiem_AdditionalData'', Parent_is (CHR ''A'')),
     (''Requiem_Address'', Parent_is_not (CHR ''H'')), (''Requiem_Alert'', Any_parent),
     (''Requiem_Alertident'', Any_parent), (''Requiem_Analyzer'', Parent_is (CHR ''A'')),
     (''Requiem_AnalyzerTime'', Parent_is (CHR ''A'')), (''Requiem_Assessment'', Any_parent),
     (''Requiem_Classification'', Any_parent), (''Requiem_Reference'', Any_parent),
     (''Requiem_Confidence'', Any_parent), (''Requiem_CorrelationAlert'', Any_parent),
     (''Requiem_CreateTime'', Parent_is (CHR ''A'')), (''Requiem_DetectTime'', Any_parent),
     (''Requiem_File'', Any_parent), (''Requiem_FileAccess'', Any_parent),
     (''Requiem_FileAccess_Permission'', Any_parent), (''Requiem_Impact'', Any_parent),
     (''Requiem_Inode'', Any_parent), (''Requiem_Checksum'', Any_parent), (''Requiem_Linkage'', Any_parent),
     (''Requiem_Node'', Parent_is_not (CHR ''H'')), (''Requiem_OverflowAlert'', Any_parent),
     (''Requiem_Process'', Parent_is_not (CHR ''H'')), (''Requiem_ProcessArg'', Parent_is_not (CHR ''H'')),
     (''Requiem_ProcessEnv'', Parent_is_not (CHR ''H'')), (''Requiem_SnmpService'', Any_parent),
     (''Requiem_Service'', Any_parent), (''Requiem_Source'', Any_parent), (''Requiem_Target'', Any_parent),
     (''Requiem_ToolAlert'', Any_parent), (''Requiem_User'', Any_parent), (''Requiem_UserId'', Any_parent),
     (''Requiem_WebService'', Any_parent), (''Requiem_WebServiceArg'', Any_parent)]"

definition heartbeat_deletes :: "(string \<times> parent_cond) list" where
  "heartbeat_deletes =
    map (\<lambda>t. (t, Parent_is (CHR ''H'')))
      [''Requiem_AdditionalData'', ''Requiem_Address'', ''Requiem_Analyzer'', ''Requiem_AnalyzerTime'',
       ''Requiem_CreateTime'', ''Requiem_Node'', ''Requiem_Process'', ''Requiem_ProcessArg'', ''Requiem_ProcessEnv''] @
    [(''Requiem_Heartbeat'', Any_parent)]"

text \<open>The DELETE statement of a table, as the two functions write it.\<close>

definition ident_column :: "string \<Rightarrow> string" where
  "ident_column t = (if t = ''Requiem_Alert'' \<or> t = ''Requiem_Heartbeat'' then ''_ident '' else ''_message_ident '')"

definition alert_delete_text :: "string \<times> parent_cond \<Rightarrow> string \<times> string" where
  "alert_delete_text = (\<lambda>(t, c).
    (''DELETE FROM '' @ t @ '' WHERE '' @ ident_column t,
     case c of
       Any_parent \<Rightarrow> []
     | Parent_is p \<Rightarrow> '' AND _parent_type = '' @ quoted p
     | Parent_is_not p \<Rightarrow> '' AND _parent_type != '' @ quoted p))"

definition heartbeat_delete_text :: "string \<times> parent_cond \<Rightarrow> string \<times> string" where
  "heartbeat_delete_text = (\<lambda>(t, c).
    (''DELETE FROM '' @ t @ '' WHERE '' @
     (case c of
        Any_parent \<Rightarrow> []
      | Parent_is p \<Rightarrow> ''_parent_type = '' @ quoted p @ '' AND ''
      | Parent_is_not p \<Rightarrow> ''_parent_type != '' @ quoted p @ '' AND '') @ ident_column t, []))"

lemma alert_queries_deletes: "delete_alert_queries = map alert_delete_text alert_deletes"
  by (simp add: delete_alert_queries_def alert_deletes_def alert_delete_text_def ident_column_def)

lemma heartbeat_queries_deletes: "delete_heartbeat_queries = map heartbeat_delete_text heartbeat_deletes"
  by (simp add: delete_heartbeat_queries_def heartbeat_deletes_def heartbeat_delete_text_def ident_column_def)

section \<open>Covered statements\<close>

fun cond_holds :: "parent_cond \<Rightarrow> char option \<Rightarrow> bool" where
  "cond_holds Any_parent p = True"
| "cond_holds (Parent_is c) p = (p = Some c)"
| "cond_holds (Parent_is_not c) p = (\<exists>d. p = Some d \<and> d \<noteq> c)"

definition covers :: "(string \<times> parent_cond) list \<Rightarrow> string \<Rightarrow> char option \<Rightarrow> bool" where
  "covers dels table p \<longleftrightarrow> (\<exists>c. (table, c) \<in> set dels \<and> cond_holds c p)"

text \<open>
  The statements about the message with ident \<open>m\<close> that a deletion undoes: an INSERT into a
  table the deletion clears, whose row carries the ident and meets the condition on the
  parent type (the first column, where the table has one).
\<close>

definition typed_columns :: "string \<Rightarrow> bool" where
  "typed_columns cols \<longleftrightarrow> take 12 cols = ''_parent_type''"

definition covered :: "(string \<times> parent_cond) list \<Rightarrow> int \<Rightarrow> string \<Rightarrow> bool" where
  "covered dels m q \<longleftrightarrow>
     (\<exists>table cols vals. q = insert_text table cols (joined '', '' vals) \<and>
        (if typed_columns cols then \<exists>p vs. vals = quoted p # dec_int m # vs \<and> covers dels table (Some p)
         else \<exists>vs. vals = dec_int m # vs \<and> covers dels table None))"

lemma coversI: "(table, c) \<in> set dels \<Longrightarrow> cond_holds c p \<Longrightarrow> covers dels table p"
  by (auto simp: covers_def)

lemma covered_typed:
  "covers dels table (Some p) \<Longrightarrow> typed_columns cols \<Longrightarrow>
   covered dels m (insert_text table cols (joined '', '' (quoted p # dec_int m # vs)))"
  unfolding covered_def by (intro exI [of _ table] exI [of _ cols] exI conjI [OF refl]) auto

lemma covered_untyped:
  "covers dels table None \<Longrightarrow> \<not> typed_columns cols \<Longrightarrow>
   covered dels m (insert_text table cols (joined '', '' (dec_int m # vs)))"
  unfolding covered_def by (intro exI [of _ table] exI [of _ cols] exI conjI [OF refl]) auto

locale covered_client = sql_client E "covered dels m" I for E :: "'w env" and dels and m and I
begin

lemma store_keeps: "covered dels m (insert_text table cols (joined '', '' vals)) \<Longrightarrow> keeps I (store E table cols vals)"
  unfolding store_def by (intro keeps_bindr keeps_retn insert_keeps)

lemma store_typed_keeps:
  "covers dels table (Some p) \<Longrightarrow> typed_columns cols \<Longrightarrow> keeps I (store E table cols (quoted p # dec_int m # vals))"
  by (intro store_keeps covered_typed)

lemma store_untyped_keeps:
  "covers dels table None \<Longrightarrow> \<not> typed_columns cols \<Longrightarrow> keeps I (store E table cols (dec_int m # vals))"
  by (intro store_keeps covered_untyped)

lemma esc_string_keeps: "keeps I (esc_string E s)"
  unfolding esc_string_def by (rule escape_keeps)

lemma esc_enum_keeps: "keeps I (esc_enum E k i)"
  unfolding esc_enum_def by (rule escape_keeps)

lemma get_data_keeps: "keeps I (get_data E d)"
  unfolding get_data_def
  by (auto intro!: keeps_failw escape_binary_keeps split: option.split data_type.split sum.split)

lemma time_texts_keeps: "keeps I (time_texts E t)"
  unfolding time_texts_def by (auto intro!: keeps_failw keeps_retn split: sum.split prod.split)

lemma full_time_texts_keeps: "keeps I (full_time_texts E t)"
  unfolding full_time_texts_def by (auto intro!: keeps_failw keeps_retn split: sum.split prod.split)

lemma failing_with_keeps: "keeps I f \<Longrightarrow> keeps I (failing_with n f)"
  by (rule keepsI) (auto simp: failing_with_def split: prod.split sum.split dest: keepsD)

lemma freeing_unset_keeps: "keeps I f \<Longrightarrow> keeps I (freeing_unset f)"
  by (rule keepsI) (auto simp: freeing_unset_def split: prod.split sum.split dest: keepsD)

lemma ignoring_result_keeps: "keeps I f \<Longrightarrow> keeps I (ignoring_result f)"
  by (simp add: keeps_def ignoring_result_def)

lemma insert_from_keeps: "(\<And>i x. keeps I (f i x)) \<Longrightarrow> keeps I (insert_from f i xs)"
  by (induction f i xs rule: insert_from.induct) (auto intro!: keeps_bindr keeps_retn)

lemma insert_indexed_keeps: "(\<And>i x. keeps I (f i x)) \<Longrightarrow> keeps I (insert_indexed f xs)"
  unfolding insert_indexed_def by (auto intro!: keeps_bindr keeps_retn insert_from_keeps)

lemma insert_optional_keeps: "(\<And>x. keeps I (f x)) \<Longrightarrow> keeps I (insert_optional f x)"
  unfolding insert_optional_def by (auto intro!: keeps_retn split: option.split)

lemma keeps_case_pair: "(\<And>a b. keeps I (f a b)) \<Longrightarrow> keeps I (case p of (a, b) \<Rightarrow> f a b)"
  by (cases p) simp

lemmas handler_keeps = keeps_bindr keeps_retn keeps_failw esc_string_keeps esc_enum_keeps escape_keeps
  get_data_keeps time_texts_keeps full_time_texts_keeps failing_with_keeps freeing_unset_keeps
  ignoring_result_keeps insert_indexed_keeps insert_from_keeps insert_optional_keeps keeps_case_pair

lemma node_keeps:
  "covers dels ''Requiem_Node'' (Some p) \<Longrightarrow> covers dels ''Requiem_Address'' (Some p) \<Longrightarrow> keeps I (insert_node E p m i n)"
  unfolding insert_node_def insert_address_def
  by (intro handler_keeps store_typed_keeps) (simp_all add: typed_columns_def)

lemma process_keeps:
  "covers dels ''Requiem_Process'' (Some p) \<Longrightarrow> covers dels ''Requiem_ProcessArg'' (Some p) \<Longrightarrow>
   covers dels ''Requiem_ProcessEnv'' (Some p) \<Longrightarrow> keeps I (insert_process E p m i x)"
  unfolding insert_process_def insert_process_arg_def insert_process_env_def
  by (intro handler_keeps store_typed_keeps) (simp_all add: typed_columns_def)

lemma user_id_keeps: "covers dels ''Requiem_UserId'' (Some p) \<Longrightarrow> keeps I (insert_user_id E p m i j k l u)"
  unfolding insert_user_id_def by (intro handler_keeps store_typed_keeps) (simp_all add: typed_columns_def)

lemma user_keeps:
  "covers dels ''Requiem_User'' (Some p) \<Longrightarrow> covers dels ''Requiem_UserId'' (Some p) \<Longrightarrow> keeps I (insert_user E p m i u)"
  unfolding insert_user_def by (intro handler_keeps store_typed_keeps user_id_keeps) (simp_all add: typed_columns_def)

lemma service_keeps:
  assumes "covers dels ''Requiem_Service'' (Some p)" "covers dels ''Requiem_WebService'' (Some p)"
    "covers dels ''Requiem_WebServiceArg'' (Some p)" "covers dels ''Requiem_SnmpService'' (Some p)"
  shows "keeps I (insert_service E p m i x)"
proof -
  have "keeps I (insert_web_service E p m i w)" for w
    unfolding insert_web_service_def insert_web_service_arg_def
    using assms by (intro handler_keeps store_typed_keeps) (simp_all add: typed_columns_def)
  moreover have "keeps I (insert_snmp_service E p m i w)" for w
    unfolding insert_snmp_service_def using assms by (intro handler_keeps store_typed_keeps) (simp_all add: typed_columns_def)
  ultimately have "keeps I (case service_type s of Service_default \<Rightarrow> retn ()
      | Service_web w \<Rightarrow> insert_web_service E p m i w | Service_snmp n \<Rightarrow> insert_snmp_service E p m i n
      | Service_other \<Rightarrow> failw (RawErr (- 1)))" for s
    by (cases "service_type s") (auto intro: keeps_retn keeps_failw)
  then show ?thesis
    unfolding insert_service_def using assms by (intro handler_keeps store_typed_keeps) (simp_all add: typed_columns_def)
qed

lemma analyzer_keeps:
  assumes "covers dels ''Requiem_Analyzer'' (Some p)" "covers dels ''Requiem_Node'' (Some p)"
    "covers dels ''Requiem_Address'' (Some p)" "covers dels ''Requiem_Process'' (Some p)"
    "covers dels ''Requiem_ProcessArg'' (Some p)" "covers dels ''Requiem_ProcessEnv'' (Some p)"
  shows "keeps I (insert_analyzer E p m i a)"
  unfolding insert_analyzer_def using assms
  by (intro handler_keeps store_typed_keeps node_keeps process_keeps) (simp_all add: typed_columns_def)

lemma additional_data_keeps:
  "covers dels ''Requiem_AdditionalData'' (Some p) \<Longrightarrow> keeps I (insert_additional_data E p m i a)"
  unfolding insert_additional_data_def by (intro handler_keeps store_typed_keeps) (simp_all add: typed_columns_def)

lemma createtime_keeps: "covers dels ''Requiem_CreateTime'' (Some p) \<Longrightarrow> keeps I (insert_createtime E p m t)"
  unfolding insert_createtime_def by (simp, intro handler_keeps store_typed_keeps) (simp_all add: typed_columns_def)

lemma analyzertime_keeps: "covers dels ''Requiem_AnalyzerTime'' (Some p) \<Longrightarrow> keeps I (insert_analyzertime E p m t)"
  unfolding insert_analyzertime_def by (simp, intro handler_keeps store_typed_keeps) (simp_all add: typed_columns_def)

lemma alertident_keeps: "covers dels ''Requiem_Alertident'' (Some p) \<Longrightarrow> keeps I (insert_alertident E p m i a)"
  unfolding insert_alertident_def by (intro handler_keeps store_typed_keeps) (simp_all add: typed_columns_def)

lemma file_keeps:
  assumes "covers dels ''Requiem_File'' None" "covers dels ''Requiem_FileAccess'' None"
    "covers dels ''Requiem_FileAccess_Permission'' None" "covers dels ''Requiem_UserId'' (Some (CHR ''F''))"
    "covers dels ''Requiem_Linkage'' None" "covers dels ''Requiem_Inode'' None" "covers dels ''Requiem_Checksum'' None"
  shows "keeps I (insert_file E m i j f)"
  unfolding insert_file_def insert_file_access_def insert_file_access_permission_def insert_linkage_def
    insert_inode_def insert_checksum_def
  using assms by (intro handler_keeps store_untyped_keeps user_id_keeps) (simp_all add: typed_columns_def)

lemma source_keeps:
  assumes "covers dels ''Requiem_Source'' None" "covers dels ''Requiem_Node'' (Some (CHR ''S''))"
    "covers dels ''Requiem_Address'' (Some (CHR ''S''))" "covers dels ''Requiem_User'' (Some (CHR ''S''))"
    "covers dels ''Requiem_UserId'' (Some (CHR ''S''))" "covers dels ''Requiem_Process'' (Some (CHR ''S''))"
    "covers dels ''Requiem_ProcessArg'' (Some (CHR ''S''))" "covers dels ''Requiem_ProcessEnv'' (Some (CHR ''S''))"
    "covers dels ''Requiem_Service'' (Some (CHR ''S''))" "covers dels ''Requiem_WebService'' (Some (CHR ''S''))"
    "covers dels ''Requiem_WebServiceArg'' (Some (CHR ''S''))" "covers dels ''Requiem_SnmpService'' (Some (CHR ''S''))"
  shows "keeps I (insert_source E m i x)"
  unfolding insert_source_def using assms
  by (intro handler_keeps store_untyped_keeps node_keeps user_keeps process_keeps service_keeps) (simp_all add: typed_columns_def)

end

section \<open>Alerts and heartbeats\<close>

lemma alert_covers:
  "covers alert_deletes ''Requiem_Action'' None" "covers alert_deletes ''Requiem_AdditionalData'' (Some (CHR ''A''))"
  "p \<noteq> CHR ''H'' \<Longrightarrow> covers alert_deletes ''Requiem_Address'' (Some p)" "covers alert_deletes ''Requiem_Alert'' None"
  "covers alert_deletes ''Requiem_Alertident'' (Some p)" "covers alert_deletes ''Requiem_Analyzer'' (Some (CHR ''A''))"
  "covers alert_deletes ''Requiem_AnalyzerTime'' (Some (CHR ''A''))" "covers alert_deletes ''Requiem_Assessment'' None"
  "covers alert_deletes ''Requiem_Classification'' None" "covers alert_deletes ''Requiem_Reference'' None"
  "covers alert_deletes ''Requiem_Confidence'' None" "covers alert_deletes ''Requiem_CorrelationAlert'' None"
  "covers alert_deletes ''Requiem_CreateTime'' (Some (CHR ''A''))" "covers alert_deletes ''Requiem_DetectTime'' None"
  "covers alert_deletes ''Requiem_File'' None" "covers alert_deletes ''Requiem_FileAccess'' None"
  "covers alert_deletes ''Requiem_FileAccess_Permission'' None" "covers alert_deletes ''Requiem_Impact'' None"
  "covers alert_deletes ''Requiem_Inode'' None" "covers alert_deletes ''Requiem_Checksum'' None"
  "covers alert_deletes ''Requiem_Linkage'' None" "p \<noteq> CHR ''H'' \<Longrightarrow> covers alert_deletes ''Requiem_Node'' (Some p)"
  "covers alert_deletes ''Requiem_OverflowAlert'' None" "p \<noteq> CHR ''H'' \<Longrightarrow> covers alert_deletes ''Requiem_Process'' (Some p)"
  "p \<noteq> CHR ''H'' \<Longrightarrow> covers alert_deletes ''Requiem_ProcessArg'' (Some p)"
  "p \<noteq> CHR ''H'' \<Longrightarrow> covers alert_deletes ''Requiem_ProcessEnv'' (Some p)"
  "covers alert_deletes ''Requiem_SnmpService'' (Some p)" "covers alert_deletes ''Requiem_Service'' (Some p)"
  "covers alert_deletes ''Requiem_Source'' None" "covers alert_deletes ''Requiem_Target'' None"
  "covers alert_deletes ''Requiem_ToolAlert'' None" "covers alert_deletes ''Requiem_User'' (Some p)"
  "covers alert_deletes ''Requiem_UserId'' (Some p)" "covers alert_deletes ''Requiem_WebService'' (Some p)"
  "covers alert_deletes ''Requiem_WebServiceArg'' (Some p)"
  by (simp_all add: covers_def alert_deletes_def)

lemma heartbeat_covers:
  "covers heartbeat_deletes ''Requiem_AdditionalData'' (Some (CHR ''H''))"
  "covers heartbeat_deletes ''Requiem_Address'' (Some (CHR ''H''))"
  "covers heartbeat_deletes ''Requiem_Analyzer'' (Some (CHR ''H''))"
  "covers heartbeat_deletes ''Requiem_AnalyzerTime'' (Some (CHR ''H''))"
  "covers heartbeat_deletes ''Requiem_CreateTime'' (Some (CHR ''H''))"
  "covers heartbeat_deletes ''Requiem_Node'' (Some (CHR ''H''))"
  "covers heartbeat_deletes ''Requiem_Process'' (Some (CHR ''H''))"
  "covers heartbeat_deletes ''Requiem_ProcessArg'' (Some (CHR ''H''))"
  "covers heartbeat_deletes ''Requiem_ProcessEnv'' (Some (CHR ''H''))"
  "covers heartbeat_deletes ''Requiem_Heartbeat'' None"
  by (simp_all add: covers_def heartbeat_deletes_def)

locale alert_client = covered_client E alert_deletes m I for E :: "'w env" and m and I
begin

lemma assessment_keeps: "keeps I (insert_assessment E m a)"
  unfolding insert_assessment_def insert_impact_def insert_confidence_def insert_action_def
  by (intro handler_keeps store_untyped_keeps alert_covers) (simp_all add: typed_columns_def)

lemma classification_keeps: "keeps I (insert_classification E m c)"
  unfolding insert_classification_def insert_reference_def
  by (intro handler_keeps store_untyped_keeps alert_covers) (simp_all add: typed_columns_def)

lemma tool_alert_keeps: "keeps I (insert_tool_alert E m t)"
proof -
  have tail: "keeps I (\<lambda>s. case store E ''Requiem_ToolAlert'' ''_message_ident, name, command''
            [dec_int m, name, command] s of
       (r, s1) \<Rightarrow>
         if ids = [] then (case r of Inl _ \<Rightarrow> (Inl NullDeref, s1) | Inr _ \<Rightarrow> (Inr (), s1))
         else insert_from (insert_alertident E (CHR ''T'') m) 0 ids s1)" for name command ids
  proof (rule keepsI)
    fix s :: "'w sql" assume "I s"
    let ?f = "store E ''Requiem_ToolAlert'' ''_message_ident, name, command'' [dec_int m, name, command]"
    have "keeps I ?f" by (rule store_untyped_keeps [OF alert_covers(31)]) (simp add: typed_columns_def)
    then have "I (snd (?f s))" using \<open>I s\<close> by (rule keepsD)
    moreover have "keeps I (insert_from (insert_alertident E (CHR ''T'') m) 0 ids)"
      by (intro insert_from_keeps alertident_keeps alert_covers)
    ultimately show "I (snd (case ?f s of (r, s1) \<Rightarrow>
         if ids = [] then (case r of Inl _ \<Rightarrow> (Inl NullDeref, s1) | Inr _ \<Rightarrow> (Inr (), s1))
         else insert_from (insert_alertident E (CHR ''T'') m) 0 ids s1))"
      by (cases "?f s") (auto split: sum.split dest: keepsD)
  qed
  show ?thesis
    unfolding insert_tool_alert_def by (intro insert_optional_keeps keeps_bindr esc_string_keeps tail)
qed

lemma overflow_alert_keeps: "keeps I (insert_overflow_alert E m t)"
  unfolding insert_overflow_alert_def
  by (cases t) (auto intro!: handler_keeps store_untyped_keeps alert_covers simp: typed_columns_def)

lemma correlation_alert_keeps: "keeps I (insert_correlation_alert E m t)"
  unfolding insert_correlation_alert_def
  by (intro handler_keeps store_untyped_keeps alertident_keeps alert_covers) (simp_all add: typed_columns_def)

lemma target_keeps: "keeps I (insert_target E m i t)"
  unfolding insert_target_def
  by (intro handler_keeps store_untyped_keeps node_keeps user_keeps process_keeps service_keeps file_keeps
      alert_covers) (simp_all add: typed_columns_def)

lemma detecttime_keeps: "keeps I (insert_detecttime E m t)"
  unfolding insert_detecttime_def
  by (simp, intro handler_keeps store_untyped_keeps alert_covers) (simp_all add: typed_columns_def)

lemma alert_type_keeps:
  "keeps I (case t of Alert_default \<Rightarrow> retn () | Alert_tool x \<Rightarrow> insert_tool_alert E m x
     | Alert_overflow x \<Rightarrow> insert_overflow_alert E m x | Alert_correlation x \<Rightarrow> insert_correlation_alert E m x
     | Alert_other \<Rightarrow> failw (RawErr (- 1)))"
  by (cases t) (auto intro: keeps_retn keeps_failw tool_alert_keeps overflow_alert_keeps correlation_alert_keeps)

lemma alert_keeps: "keeps I (insert_alert_objects E a m)"
  unfolding insert_alert_objects_def
  by (intro keeps_bindr insert_indexed_keeps createtime_keeps detecttime_keeps
      analyzertime_keeps assessment_keeps alert_type_keeps analyzer_keeps source_keeps target_keeps
      classification_keeps additional_data_keeps alert_covers) simp_all

end

locale heartbeat_client = covered_client E heartbeat_deletes m I for E :: "'w env" and m and I
begin

lemma heartbeat_keeps: "keeps I (insert_heartbeat_objects E h m)"
  unfolding insert_heartbeat_objects_def
  by (intro keeps_bindr insert_indexed_keeps
      analyzer_keeps createtime_keeps analyzertime_keeps additional_data_keeps heartbeat_covers)

end

interpretation alert_trace: alert_client E m "log_extends (covered alert_deletes m) log" for E m log
  by unfold_locales

interpretation heartbeat_trace: heartbeat_client E m "log_extends (covered heartbeat_deletes m) log" for E m log
  by unfold_locales

lemma alert_quiet: "no_disconnect E \<Longrightarrow> alert_client E m (quiet (covered alert_deletes m) s0)"
  by (intro alert_client.intro covered_client.intro quiet_client)

lemma heartbeat_quiet: "no_disconnect E \<Longrightarrow> heartbeat_client E m (quiet (covered heartbeat_deletes m) s0)"
  by (intro heartbeat_client.intro covered_client.intro quiet_client)

section \<open>The statements of a whole message\<close>

text \<open>
  The message row first, without ident; then the query for the ident it got; then rows that
  carry this ident.
\<close>

definition message_trace :: "string \<Rightarrow> (string \<times> parent_cond) list \<Rightarrow> bool \<Rightarrow> string list \<Rightarrow> bool" where
  "message_trace table dels failed new \<longleftrightarrow>
     (failed \<and> new = []) \<or>
     (\<exists>cols vals. let row = insert_text table cols (joined '', '' vals) in
        (failed \<and> new = [row]) \<or>
        (\<exists>m below. new = row # last_ident_query table # below \<and> list_all (covered dels m) below))"

lemma message_trace_failed:
  "message_trace table dels True []" "message_trace table dels True [insert_text table cols (joined '', '' vals)]"
  unfolding message_trace_def Let_def by blast+

lemma message_trace_rows:
  "list_all (covered dels m) below \<Longrightarrow>
   message_trace table dels failed (insert_text table cols (joined '', '' vals) # last_ident_query table # below)"
  unfolding message_trace_def Let_def by blast

lemma message_trace_ident:
  "message_trace table dels failed [insert_text table cols (joined '', '' vals), last_ident_query table]"
  using message_trace_rows [of dels 0 "[]"] by simp

lemma store_sends:
  assumes "no_disconnect E"
  shows "sends (\<lambda>_ new. new = [insert_text table cols (joined '', '' vals)]) (store E table cols vals)"
  unfolding store_def requiemdb_sql_insert_def sql_exec_def
  by (rule sends_mono [OF sends_bindr [OF sends_bindr [OF query_sends [OF assms] silent_sends] silent_sends]])
    (auto intro: keeps_retn split: prod.split)

lemma esc_string_sends:
  assumes "no_disconnect E"
  shows "sends (\<lambda>_ new. new = []) (esc_string E t)"
  unfolding esc_string_def by (rule silent_sends) (rule sql_client.escape_keeps [OF quiet_client [OF assms]])

context sql_client
begin

lemma destroying_keeps: "keeps I f \<Longrightarrow> keeps I (destroying E t f)"
  unfolding keeps_def destroying_def by (auto split: prod.split intro!: destroy_keeps)

lemma read_last_ident_keeps: "keeps I (read_last_ident E t)"
  unfolding read_last_ident_def
  by (auto intro!: keeps_bindr keeps_failw keeps_retn fetch_row_keeps fetch_field_keeps keeps_case_option
      split: sum.split stored.split)

end

lemma last_ident_sends:
  assumes nd: "no_disconnect E"
  shows "sends (\<lambda>_ new. new = [last_ident_query table]) (get_last_insert_ident E table)"
proof -
  note q = quiet_client [OF nd]
  have "keeps (quiet (\<lambda>_. False) s0) (destroying E t (read_last_ident E t))" for s0 t
    by (rule sql_client.destroying_keeps [OF q sql_client.read_last_ident_keeps [OF q]])
  then show ?thesis
    unfolding get_last_insert_ident_def
    by (intro sends_mono [OF sends_bindr [OF query_sends [OF nd] silent_sends]])
      (auto intro: keeps_case_option keeps_failw split: prod.split)
qed

lemma message_sends:
  assumes nd: "no_disconnect E"
    and below: "\<And>m s0. keeps (quiet (covered dels m) s0) (below m)"
  shows "sends (message_trace table dels)
    (bindr (esc_string E x) (\<lambda>t. bindr (store E table cols (row t)) (\<lambda>_.
       bindr (get_last_insert_ident E table) below)))"
  by (rule sends_mono [OF sends_bindr [OF esc_string_sends [OF nd] sends_bindr [OF store_sends [OF nd]
          sends_bindr [OF last_ident_sends [OF nd] quiet_sends [OF below]]]]])
    (auto intro: message_trace_failed message_trace_rows message_trace_ident)

definition deletes_of :: "idmef_message \<Rightarrow> (string \<times> parent_cond) list" where
  "deletes_of m = (case m of Message_alert _ \<Rightarrow> alert_deletes | _ \<Rightarrow> heartbeat_deletes)"

definition message_table :: "idmef_message \<Rightarrow> string" where
  "message_table m = (case m of Message_alert _ \<Rightarrow> ''Requiem_Alert'' | _ \<Rightarrow> ''Requiem_Heartbeat'')"

definition message_present :: "idmef_message \<Rightarrow> bool" where
  "message_present m =
    (case m of Message_alert a \<Rightarrow> a \<noteq> None | Message_heartbeat h \<Rightarrow> h \<noteq> None | Message_other \<Rightarrow> False)"

lemma absent_sends:
  assumes "\<not> message_present m"
  shows "sends (\<lambda>_ new. new = []) (insert_body E m)"
  using assms
  by (intro silent_sends, cases m)
    (auto simp: message_present_def insert_body_def insert_alert_def insert_heartbeat_def insert_optional_def
      intro: keeps_failw keeps_retn)

lemma insert_body_sends:
  assumes nd: "no_disconnect E" and "message_present m"
  shows "sends (message_trace (message_table m) (deletes_of m)) (insert_body E m)"
proof (cases m)
  case (Message_alert a)
  with assms obtain x where a: "a = Some x" by (auto simp: message_present_def)
  show ?thesis
    unfolding a Message_alert insert_body_def insert_alert_def insert_optional_def insert_message_messageid_def
    by (simp add: bindr_assoc message_table_def deletes_of_def)
      (rule message_sends [OF nd alert_client.alert_keeps [OF alert_quiet [OF nd]]])
next
  case (Message_heartbeat h)
  with assms obtain x where h: "h = Some x" by (auto simp: message_present_def)
  show ?thesis
    unfolding h Message_heartbeat insert_body_def insert_heartbeat_def insert_optional_def
    by (simp add: message_table_def deletes_of_def)
      (rule message_sends [OF nd heartbeat_client.heartbeat_keeps [OF heartbeat_quiet [OF nd]]])
qed (use assms in \<open>simp add: message_present_def\<close>)

section \<open>Properties\<close>


text \<open>A back end that accepts every statement and answers a SELECT with one row \<open>1\<close>.\<close>

definition store_plugin :: "unit plugin_sql" where
  "store_plugin = null_plugin\<lparr>
     pl_escape := Some (\<lambda>t. retn ([CHR 0x27] @ t @ [CHR 0x27])),
     pl_query := (\<lambda>q. retn (if is_select q then Some 0 else None)),
     pl_fetch_row := Some (\<lambda>r. retn (Some 0)),
     pl_fetch_field := Some (\<lambda>r row c. retn (Some ''1''))\<rparr>"

definition store_env :: "unit env" where
  "store_env = null_env\<lparr>env_plugin := store_plugin\<rparr>"

definition small_alert :: idmef_alert where
  "small_alert =
    \<lparr>alert_messageid = Some (Some ''m''), alert_create_time = None, alert_detect_time = None,
     alert_analyzer_time = None, alert_assessment = None, alert_type = Alert_default, alert_analyzers = [],
     alert_sources = [], alert_targets = [], alert_classification = None, alert_additional_data = []\<rparr>"

lemma no_disconnect_store_env: "no_disconnect store_env"
  by (simp add: no_disconnect_def store_env_def store_plugin_def null_env_def null_plugin_def
      plugin_sql_fetch_row_def plugin_sql_fetch_field_def)


text \<open>
  The children of an object are stored under the indexes \<open>0\<close> to \<open>n - 1\<close>, in order, and
  the last one again under \<open>-1\<close>; the first failure ends the loop with its error.
\<close>
theorem insert_indexed_order:
  "insert_indexed f xs =
     foldr (\<lambda>g k. thenr g k)
       (map (\<lambda>i. f (int i) (xs ! i)) [0..<length xs] @ (if xs = [] then [] else [f (- 1) (last xs)]))
       (retn ())"
proof -
  have shift: "map (\<lambda>i. f (int i + k) ((x # xs) ! i)) [0..<Suc (length xs)] =
      f k x # map (\<lambda>i. f (int i + (k + 1)) (xs ! i)) [0..<length xs]" for k x and xs :: "'b list"
    by (subst upt_conv_Cons) (simp_all add: map_Suc_upt [symmetric] add.commute add.left_commute del: upt_Suc)
  have run: "bindr (insert_from f k xs) (\<lambda>_. g) =
      foldr (\<lambda>g k. thenr g k) (map (\<lambda>i. f (int i + k) (xs ! i)) [0..<length xs]) g" for k xs g
  proof (induction xs arbitrary: k)
    case (Cons x xs)
    then show ?case by (simp add: shift bindr_assoc del: upt_Suc)
  qed simp
  have "thenr g (retn ()) = g" for g :: "('a, unit) sqlop"
    using bindr_retn_right [of g] by (simp add: fun_eq_iff unit_eq)
  then show ?thesis
    unfolding insert_indexed_def run by (simp del: bindr_retn_right)
qed

text \<open>
  No integer is cut off: the buffers the insertion prints its optional integers into hold
  every value of their type and the word NULL.
\<close>
theorem integer_buffers_fit:
  "opt_uint 8 (Some (b :: 8 word)) = dec_nat (unat b) \<and> opt_uint 8 (Some (h :: 16 word)) = dec_nat (unat h) \<and>
   opt_uint 12 (Some (w :: 32 word)) = dec_nat (unat w) \<and> opt_uint 16 (Some w) = dec_nat (unat w) \<and>
   opt_uint 32 (Some (q :: 64 word)) = dec_nat (unat q) \<and> opt_uint 8 (None :: 8 word option) = ''NULL'' \<and>
   opt_int32 16 (Some (sint w)) = dec_int (sint w)"
proof -
  have len: "n < 10 ^ Suc d \<Longrightarrow> length (dec_nat n) \<le> Suc d" for n d
  proof (induction d arbitrary: n)
    case 0
    then show ?case by (simp add: dec_nat.simps)
  next
    case (Suc d)
    then have "n div 10 < 10 ^ Suc d" by simp
    from Suc.IH [OF this] show ?case by (simp add: dec_nat.simps [of n])
  qed
  have bound: "length (dec_nat (unat v)) \<le> Suc d" if "(2 :: nat) ^ LENGTH('l) \<le> 10 ^ Suc d" for v :: "'l::len word" and d
    by (rule len) (use unsigned_less [of v, where 'a = nat] that in linarith)
  have keep: "length t < n \<Longrightarrow> snprintf n t = t" for n t
    by (simp add: snprintf_def)
  have b8: "length (dec_nat (unat b)) \<le> Suc 2" and b16: "length (dec_nat (unat h)) \<le> Suc 4"
    and b32: "length (dec_nat (unat w)) \<le> Suc 9" and b64: "length (dec_nat (unat q)) \<le> Suc 19"
    by (rule bound; simp)+
  have "length (dec_int (sint w)) \<le> Suc (Suc 9)"
  proof -
    have r: "- (2 ^ 31) \<le> sint w" "sint w < 2 ^ 31" using sint_greater_eq [of w] sint_less [of w] by simp_all
    then have "nat (sint w) < 10 ^ Suc 9" "nat (- sint w) < 10 ^ Suc 9" by simp_all
    from len [OF this(1)] len [OF this(2)] show ?thesis by (simp add: dec_int_def)
  qed
  with b8 b16 b32 b64 show ?thesis
    by (simp add: opt_uint_def opt_int32_def keep)
qed

text \<open>
  C40.  Three handlers do not look at the result of their INSERT.  When strings can be escaped,
  the insertion of a classification without references and of a web service without arguments
  succeeds whatever the database answers, so that the transaction is committed without the
  row; and that of a tool alert without alertidents never reports the database's error: a
  refused INSERT makes it insert an alertident that is NULL.
\<close>
theorem refused_rows_unreported:
  assumes "\<And>t s. \<not> isl (fst (requiemdb_sql_escape E t s))"
    and "classification_references c = []" "web_args w = []" "tool_alertidents ta = []"
  shows "fst (insert_classification E m (Some c) s) = Inr () \<and>
    fst (insert_web_service E p m i (Some w) s) = Inr () \<and>
    fst (insert_tool_alert E m (Some ta) s) \<in> {Inr (), Inl NullDeref}"
proof -
  have esc: "\<exists>x s'. requiemdb_sql_escape E t s = (Inr x, s')" for t s
    using assms(1) [of t s] by (cases "requiemdb_sql_escape E t s"; cases "fst (requiemdb_sql_escape E t s)") auto
  have step: "fst (bindr (requiemdb_sql_escape E t) g s) \<in> A"
    "fst (bindr (failing_with n (requiemdb_sql_escape E t)) g s) \<in> A"
    if "\<And>x s'. fst (g x s') \<in> A" for n t s A and g :: "string \<Rightarrow> ('a, unit) sqlop"
    using esc [of t s] that by (auto simp: failing_with_def bindr_def)
  have ign: "fst (ignoring_result f s) = Inr ()" for f :: "('a, unit) sqlop" and s
    by (simp add: ignoring_result_def)
  have "fst (insert_classification E m (Some c) s) \<in> {Inr ()}"
    unfolding insert_classification_def insert_optional_def option.case esc_string_def
    by (intro step) (simp add: assms(2) insert_indexed_def ign)
  moreover have "fst (insert_web_service E p m i (Some w) s) \<in> {Inr ()}"
    unfolding insert_web_service_def insert_optional_def option.case esc_string_def
    by (intro step) (simp add: assms(3) insert_indexed_def ign)
  moreover have "fst (insert_tool_alert E m (Some ta) s) \<in> {Inr (), Inl NullDeref}"
    unfolding insert_tool_alert_def insert_optional_def option.case esc_string_def
    by (intro step) (simp add: assms(4) split: prod.split sum.split)
  ultimately show ?thesis by simp
qed

text \<open>A back end that refuses every statement.\<close>

definition refusing_env :: "unit env" where
  "refusing_env = null_env\<lparr>env_plugin := store_plugin\<lparr>pl_query := (\<lambda>q. failw (DbErr ERROR_QUERY False))\<rparr>\<rparr>"

theorem refused_rows_unreported_witness:
  "fst (insert_classification refusing_env 7 (Some
       \<lparr>classification_ident = None, classification_text = Some (Some ''probe''), classification_references = []\<rparr>)
     logging_sql) = Inr () \<and>
   fst (store refusing_env ''Requiem_Classification'' ''_message_ident, ident, text'' [''7'', ''NULL'', ''NULL''] logging_sql) =
     Inl (DbErr ERROR_QUERY False)"
proof -
  have "\<not> isl (fst (requiemdb_sql_escape refusing_env t s))" for t s
  proof (cases t)
    case (Some x)
    have "\<not> isl (fst (assert_connected refusing_env (\<lambda>s. case on_world (retn y) s of (r, s') \<Rightarrow> (r, unlock s')) u))"
      for y :: string and u
      by (simp add: assert_connected_def requiemdb_sql_connect_def on_world_def refusing_env_def store_plugin_def
          null_env_def null_plugin_def)
    with Some show ?thesis
      by (simp add: requiemdb_sql_escape_def requiemdb_sql_escape_fast_def locked_world_op_def plugin_sql_escape_def
          refusing_env_def store_plugin_def)
  qed (simp add: requiemdb_sql_escape_def)
  from refused_rows_unreported [OF this, where w = "\<lparr>web_url = None, web_cgi = None, web_http_method = None, web_args = []\<rparr>"
      and ta = "\<lparr>tool_name = None, tool_command = None, tool_alertidents = []\<rparr>"]
  show ?thesis by (intro conjI) (simp, code_simp)
qed

end
