(* ===== verification/ClassicGetParts.thy ===== *)
theory ClassicGetParts
  imports ClassicInsert
begin

text \<open>
  Reading a message back (\<open>plugins/format/classic/classic-get.c\<close>, the functions from
  \<open>_get_string\<close> to \<open>get_action\<close>).  A function returns the children it would add to its
  parent; a message whose reading fails is destroyed as a whole, so nothing else of it
  matters.  A new object of librequiem has no strings and numbers, and the default of each
  enumeration.
\<close>

section \<open>Fields\<close>

definition get_string_field :: "'w env \<Rightarrow> sql_res \<Rightarrow> sql_rowh \<Rightarrow> nat \<Rightarrow> ('w, rstring option) sqlop" where
  "get_string_field E t row c = bindr (requiemdb_sql_row_fetch_field E t row c) (\<lambda>f. retn (map_option Some f))"

definition get_enum :: "'w env \<Rightarrow> enum_kind \<Rightarrow> sql_res \<Rightarrow> sql_rowh \<Rightarrow> nat \<Rightarrow> ('w, int option) sqlop" where
  "get_enum E k t row c =
     bindr (requiemdb_sql_row_fetch_field E t row c) (\<lambda>f. retn (map_option (\<lambda>v. enum_to_numeric E k (cstr v)) f))"

text \<open>An enumeration that is always there keeps its default when the field is NULL.\<close>

definition get_required_enum :: "'w env \<Rightarrow> enum_kind \<Rightarrow> sql_res \<Rightarrow> sql_rowh \<Rightarrow> nat \<Rightarrow> ('w, int) sqlop" where
  "get_required_enum E k t row c =
     bindr (get_enum E k t row c) (\<lambda>e. retn (case e of None \<Rightarrow> enum_default E k | Some i \<Rightarrow> i))"

text \<open>
  The macro \<open>get_\<close>.  A field that is no number leaves what the new child holds, a number out of
  range what C leaves undefined.
\<close>

definition get_number :: "(string \<Rightarrow> err + stored) \<Rightarrow> 'w env \<Rightarrow> sql_res \<Rightarrow> sql_rowh \<Rightarrow> nat \<Rightarrow> ('w, int option) sqlop" where
  "get_number field_to_number E t row c =
     bindr (requiemdb_sql_row_fetch_field E t row c) (\<lambda>f.
       case f of
         None \<Rightarrow> retn None
       | Some v \<Rightarrow>
           (case field_to_number v of
              Inl e \<Rightarrow> failw e
            | Inr (Stored i) \<Rightarrow> retn (Some i)
            | Inr _ \<Rightarrow> failw UndefinedValue))"

definition get_uint :: "(string \<Rightarrow> err + stored) \<Rightarrow> 'w env \<Rightarrow> sql_res \<Rightarrow> sql_rowh \<Rightarrow> nat \<Rightarrow> ('w, 'a::len word option) sqlop" where
  "get_uint field_to_number E t row c =
     bindr (get_number field_to_number E t row c) (\<lambda>i. retn (map_option word_of_int i))"

abbreviation get_uint8 :: "'w env \<Rightarrow> sql_res \<Rightarrow> sql_rowh \<Rightarrow> nat \<Rightarrow> ('w, 8 word option) sqlop" where
  "get_uint8 \<equiv> get_uint field_to_uint8"

abbreviation get_uint16 :: "'w env \<Rightarrow> sql_res \<Rightarrow> sql_rowh \<Rightarrow> nat \<Rightarrow> ('w, 16 word option) sqlop" where
  "get_uint16 \<equiv> get_uint field_to_uint16"

abbreviation get_uint32 :: "'w env \<Rightarrow> sql_res \<Rightarrow> sql_rowh \<Rightarrow> nat \<Rightarrow> ('w, 32 word option) sqlop" where
  "get_uint32 \<equiv> get_uint field_to_uint32"

text \<open>
  Two callers pass a child of another type: a signed one, and one of eight bytes, of which the
  four bytes stored are the low ones (on a little-endian machine; the child starts as zero).
\<close>

definition get_uint32_as_int :: "'w env \<Rightarrow> sql_res \<Rightarrow> sql_rowh \<Rightarrow> nat \<Rightarrow> ('w, int option) sqlop" where
  "get_uint32_as_int E t row c = bindr (get_uint32 E t row c) (\<lambda>w. retn (map_option sint w))"

definition get_uint32_as_uint64 :: "'w env \<Rightarrow> sql_res \<Rightarrow> sql_rowh \<Rightarrow> nat \<Rightarrow> ('w, 64 word option) sqlop" where
  "get_uint32_as_uint64 E t row c = bindr (get_uint32 E t row c) (\<lambda>w. retn (map_option ucast w))"

definition get_float :: "'w env \<Rightarrow> sql_res \<Rightarrow> sql_rowh \<Rightarrow> nat \<Rightarrow> ('w, 32 word option) sqlop" where
  "get_float E t row c =
     bindr (requiemdb_sql_row_fetch_field E t row c) (\<lambda>f.
       case f of
         None \<Rightarrow> retn None
       | Some v \<Rightarrow>
           (case field_to_float E v of
              Inl e \<Rightarrow> failw e
            | Inr (Some x) \<Rightarrow> retn (Some x)
            | Inr None \<Rightarrow> failw UndefinedValue))"

definition required_field :: "('w, string option) sqlop \<Rightarrow> ('w, string) sqlop" where
  "required_field f = bindr f (\<lambda>x. case x of None \<Rightarrow> failw (RawErr (- 1)) | Some v \<Rightarrow> retn v)"

definition get_timestamp ::
    "'w env \<Rightarrow> sql_res \<Rightarrow> sql_rowh \<Rightarrow> nat \<Rightarrow> nat \<Rightarrow> nat option \<Rightarrow> ('w, idmef_time option) sqlop" where
  "get_timestamp E t row time_index gmtoff_index usec_index =
     bindr (requiemdb_sql_row_fetch_field E t row time_index) (\<lambda>time_field.
       case time_field of
         None \<Rightarrow> retn None
       | Some tm \<Rightarrow>
           bindr (required_field (requiemdb_sql_row_fetch_field E t row gmtoff_index)) (\<lambda>gmtoff_field.
           bindr (case usec_index of
                    None \<Rightarrow> retn 0
                  | Some u \<Rightarrow> bindr (required_field (requiemdb_sql_row_fetch_field E t row u))
                                (\<lambda>v. assigned 0 (field_to_uint32 v))) (\<lambda>usec.
           bindr (case field_to_int32 gmtoff_field of
                    Inl e \<Rightarrow> failw e
                  | Inr (Stored i) \<Rightarrow> retn i
                  | Inr _ \<Rightarrow> failw UndefinedValue) (\<lambda>gmtoff.
           bindr (on_world (requiemdb_sql_time_from_timestamp E tm gmtoff usec)) (\<lambda>x. retn (Some x))))))"

section \<open>Results\<close>

text \<open>
  The frame of every function: a query; without rows the value \<open>none\<close>; otherwise the body, and
  the table destroyed.
\<close>

definition with_result :: "'w env \<Rightarrow> string \<Rightarrow> 'a \<Rightarrow> (sql_res \<Rightarrow> ('w, 'a) sqlop) \<Rightarrow> ('w, 'a) sqlop" where
  "with_result E query none body =
     bindr (requiemdb_sql_query E query True) (\<lambda>(n, res).
       if n = 0 then retn none
       else case res of None \<Rightarrow> failw UndefinedValue | Some t \<Rightarrow> destroying E t (body t))"

definition first_row :: "'w env \<Rightarrow> sql_res \<Rightarrow> (sql_rowh \<Rightarrow> ('w, 'a) sqlop) \<Rightarrow> ('w, 'a option) sqlop" where
  "first_row E t body =
     bindr (requiemdb_sql_table_fetch_row E t) (\<lambda>row.
       case row of None \<Rightarrow> retn None | Some h \<Rightarrow> bindr (body h) (\<lambda>x. retn (Some x)))"

text \<open>The loop over the rows of a table, with the index of the row and a bound on the rounds.\<close>

fun each_row :: "nat \<Rightarrow> 'w env \<Rightarrow> sql_res \<Rightarrow> int \<Rightarrow> (int \<Rightarrow> sql_rowh \<Rightarrow> ('w, 'a) sqlop) \<Rightarrow> ('w, 'a list) sqlop" where
  "each_row 0 E t i body = failw NotEnded"
| "each_row (Suc n) E t i body =
     bindr (requiemdb_sql_table_fetch_row E t) (\<lambda>row.
       case row of
         None \<Rightarrow> retn []
       | Some h \<Rightarrow> bindr (body i h) (\<lambda>x. bindr (each_row n E t (i + 1) body) (\<lambda>xs. retn (x # xs))))"

definition one_object :: "'w env \<Rightarrow> string \<Rightarrow> (sql_res \<Rightarrow> sql_rowh \<Rightarrow> ('w, 'a) sqlop) \<Rightarrow> ('w, 'a option) sqlop" where
  "one_object E query body = with_result E query None (\<lambda>t. first_row E t (body t))"

definition listed_objects ::
    "nat \<Rightarrow> 'w env \<Rightarrow> string \<Rightarrow> (sql_res \<Rightarrow> sql_rowh \<Rightarrow> ('w, 'a) sqlop) \<Rightarrow> ('w, 'a list) sqlop" where
  "listed_objects n E query body = with_result E query [] (\<lambda>t. each_row n E t 0 (\<lambda>_. body t))"

text \<open>A row whose string is NULL adds no child.\<close>

definition listed_strings :: "nat \<Rightarrow> 'w env \<Rightarrow> string \<Rightarrow> ('w, rstring list) sqlop" where
  "listed_strings n E query =
     bindr (listed_objects n E query (\<lambda>t row. get_string_field E t row 0)) (\<lambda>xs. retn (List.map_filter id xs))"

text \<open>The second loop over children that have been read.\<close>

fun each_child :: "int \<Rightarrow> (int \<Rightarrow> 'a \<Rightarrow> ('w, 'b) sqlop) \<Rightarrow> 'a list \<Rightarrow> ('w, 'b list) sqlop" where
  "each_child i f [] = retn []"
| "each_child i f (x # xs) = bindr (f i x) (\<lambda>y. bindr (each_child (i + 1) f xs) (\<lambda>ys. retn (y # ys)))"

section \<open>Query texts\<close>

definition of_message :: "int \<Rightarrow> string" where
  "of_message m = ''_message_ident = '' @ dec_int m"

definition of_typed_message :: "char \<Rightarrow> int \<Rightarrow> string" where
  "of_typed_message p m = ''_parent_type = '' @ quoted p @ '' AND '' @ of_message m"

definition parent_is :: "nat \<Rightarrow> int \<Rightarrow> string" where
  "parent_is l i = '' AND _parent'' @ dec_nat l @ ''_index = '' @ dec_int i"

definition listed_order :: string where
  "listed_order = '' AND _index != -1 ORDER BY _index ASC''"

section \<open>Times\<close>

definition get_time_of :: "'w env \<Rightarrow> string \<Rightarrow> string \<Rightarrow> ('w, idmef_time option) sqlop" where
  "get_time_of E table cond =
     bindr (one_object E (''SELECT time, gmtoff, usec FROM '' @ table @ '' WHERE '' @ cond)
        (\<lambda>t row. get_timestamp E t row 0 1 (Some 2))) (\<lambda>x. retn (case x of None \<Rightarrow> None | Some y \<Rightarrow> y))"

definition get_analyzer_time :: "'w env \<Rightarrow> int \<Rightarrow> char \<Rightarrow> ('w, idmef_time option) sqlop" where
  "get_analyzer_time E m p = get_time_of E ''Requiem_AnalyzerTime'' (of_typed_message p m)"

definition get_detect_time :: "'w env \<Rightarrow> int \<Rightarrow> ('w, idmef_time option) sqlop" where
  "get_detect_time E m = get_time_of E ''Requiem_DetectTime'' (of_message m)"

definition get_create_time :: "'w env \<Rightarrow> int \<Rightarrow> char \<Rightarrow> ('w, idmef_time option) sqlop" where
  "get_create_time E m p = get_time_of E ''Requiem_CreateTime'' (of_typed_message p m)"

section \<open>Users\<close>

definition read_user_id :: "'w env \<Rightarrow> sql_res \<Rightarrow> sql_rowh \<Rightarrow> ('w, idmef_user_id) sqlop" where
  "read_user_id E t row =
     bindr (get_string_field E t row 0) (\<lambda>ident.
     bindr (get_required_enum E ENUM_USER_ID_TYPE t row 1) (\<lambda>type.
     bindr (get_string_field E t row 2) (\<lambda>name.
     bindr (get_uint32 E t row 3) (\<lambda>number.
     bindr (get_string_field E t row 4) (\<lambda>tty.
     retn \<lparr>user_id_ident = ident, user_id_type = type, user_id_name = name, user_id_tty = tty,
           user_id_number = number\<rparr>)))))"

definition get_user_id :: "nat \<Rightarrow> 'w env \<Rightarrow> int \<Rightarrow> char \<Rightarrow> int \<Rightarrow> int \<Rightarrow> int \<Rightarrow> ('w, idmef_user_id list) sqlop" where
  "get_user_id n E m p parent_index file_index file_access_index =
     listed_objects n E
      (''SELECT ident, type, name, number, tty FROM Requiem_UserId WHERE '' @ of_typed_message p m @
       parent_is 0 parent_index @ parent_is 1 file_index @ parent_is 2 file_access_index @ listed_order)
      (read_user_id E)"

definition get_user :: "nat \<Rightarrow> 'w env \<Rightarrow> int \<Rightarrow> char \<Rightarrow> int \<Rightarrow> ('w, idmef_user option) sqlop" where
  "get_user n E m p parent_index =
     one_object E (''SELECT ident, category FROM Requiem_User WHERE '' @ of_typed_message p m @ parent_is 0 parent_index)
      (\<lambda>t row.
       bindr (get_string_field E t row 0) (\<lambda>ident.
       bindr (get_required_enum E ENUM_USER_CATEGORY t row 1) (\<lambda>category.
       bindr (get_user_id n E m p parent_index 0 0) (\<lambda>ids.
       retn \<lparr>user_ident = ident, user_category = category, user_user_ids = ids\<rparr>))))"

section \<open>Processes\<close>

text \<open>\<open>get_process_arg\<close> takes the index of the parent as a \<open>char\<close>, signed on the usual machines.\<close>

definition as_char :: "int \<Rightarrow> int" where
  "as_char i = sint (word_of_int i :: 8 word)"

definition get_process_arg :: "nat \<Rightarrow> 'w env \<Rightarrow> int \<Rightarrow> char \<Rightarrow> int \<Rightarrow> ('w, rstring list) sqlop" where
  "get_process_arg n E m p parent_index =
     listed_strings n E (''SELECT arg FROM Requiem_ProcessArg WHERE '' @ of_typed_message p m @
       parent_is 0 (as_char parent_index) @ listed_order)"

definition get_process_env :: "nat \<Rightarrow> 'w env \<Rightarrow> int \<Rightarrow> char \<Rightarrow> int \<Rightarrow> ('w, rstring list) sqlop" where
  "get_process_env n E m p parent_index =
     listed_strings n E (''SELECT env FROM Requiem_ProcessEnv WHERE '' @ of_typed_message p m @
       parent_is 0 parent_index @ listed_order)"

definition get_process :: "nat \<Rightarrow> 'w env \<Rightarrow> int \<Rightarrow> char \<Rightarrow> int \<Rightarrow> ('w, idmef_process option) sqlop" where
  "get_process n E m p parent_index =
     one_object E (''SELECT ident, name, pid, path FROM Requiem_Process WHERE '' @ of_typed_message p m @
         parent_is 0 parent_index)
      (\<lambda>t row.
       bindr (get_string_field E t row 0) (\<lambda>ident.
       bindr (get_string_field E t row 1) (\<lambda>name.
       bindr (get_uint32 E t row 2) (\<lambda>pid.
       bindr (get_string_field E t row 3) (\<lambda>path.
       bindr (get_process_arg n E m p parent_index) (\<lambda>args.
       bindr (get_process_env n E m p parent_index) (\<lambda>envs.
       retn \<lparr>process_ident = ident, process_name = name, process_pid = pid, process_path = path,
             process_args = args, process_envs = envs\<rparr>)))))))"

section \<open>Services\<close>

definition get_web_service_arg :: "nat \<Rightarrow> 'w env \<Rightarrow> int \<Rightarrow> char \<Rightarrow> int \<Rightarrow> ('w, rstring list) sqlop" where
  "get_web_service_arg n E m p parent_index =
     listed_strings n E (''SELECT arg FROM Requiem_WebServiceArg WHERE '' @ of_typed_message p m @
       parent_is 0 parent_index @ listed_order)"

definition get_web_service :: "nat \<Rightarrow> 'w env \<Rightarrow> int \<Rightarrow> char \<Rightarrow> int \<Rightarrow> ('w, idmef_web_service option) sqlop" where
  "get_web_service n E m p parent_index =
     one_object E (''SELECT url, cgi, http_method FROM Requiem_WebService WHERE '' @ of_typed_message p m @
         parent_is 0 parent_index)
      (\<lambda>t row.
       bindr (get_string_field E t row 0) (\<lambda>url.
       bindr (get_string_field E t row 1) (\<lambda>cgi.
       bindr (get_string_field E t row 2) (\<lambda>http_method.
       bindr (get_web_service_arg n E m p parent_index) (\<lambda>args.
       retn \<lparr>web_url = url, web_cgi = cgi, web_http_method = http_method, web_args = args\<rparr>)))))"

definition get_snmp_service :: "'w env \<Rightarrow> int \<Rightarrow> char \<Rightarrow> int \<Rightarrow> ('w, idmef_snmp_service option) sqlop" where
  "get_snmp_service E m p parent_index =
     one_object E (''SELECT snmp_oid, message_processing_model, security_model, security_name, security_level, context_name, context_engine_id, command FROM Requiem_SnmpService WHERE '' @
         of_typed_message p m @ parent_is 0 parent_index)
      (\<lambda>t row.
       bindr (get_string_field E t row 0) (\<lambda>oid.
       bindr (get_uint32 E t row 1) (\<lambda>message_processing_model.
       bindr (get_uint32 E t row 2) (\<lambda>security_model.
       bindr (get_string_field E t row 3) (\<lambda>security_name.
       bindr (get_uint32 E t row 4) (\<lambda>security_level.
       bindr (get_string_field E t row 5) (\<lambda>context_name.
       bindr (get_string_field E t row 6) (\<lambda>context_engine_id.
       bindr (get_string_field E t row 7) (\<lambda>command.
       retn \<lparr>snmp_oid = oid, snmp_message_processing_model = message_processing_model,
             snmp_security_model = security_model, snmp_security_name = security_name,
             snmp_security_level = security_level, snmp_context_name = context_name,
             snmp_context_engine_id = context_engine_id, snmp_command = command\<rparr>)))))))))"

text \<open>
  A service whose query fails is taken for one that is not there.  The SNMP part, read last,
  replaces a web part.
\<close>

definition ignoring_query_failure :: "'w env \<Rightarrow> string \<Rightarrow> 'a \<Rightarrow> (sql_res \<Rightarrow> ('w, 'a) sqlop) \<Rightarrow> ('w, 'a) sqlop" where
  "ignoring_query_failure E query none body = (\<lambda>s.
     case requiemdb_sql_query E query True s of
       (Inl _, s') \<Rightarrow> (Inr none, s')
     | (Inr (n, res), s') \<Rightarrow>
         (if n = 0 then retn none
          else case res of None \<Rightarrow> failw UndefinedValue | Some t \<Rightarrow> destroying E t (body t)) s')"

definition get_service :: "nat \<Rightarrow> 'w env \<Rightarrow> int \<Rightarrow> char \<Rightarrow> int \<Rightarrow> ('w, idmef_service option) sqlop" where
  "get_service n E m p parent_index =
     ignoring_query_failure E
      (''SELECT ident, ip_version, name, port, iana_protocol_number, iana_protocol_name, portlist, protocol FROM Requiem_Service WHERE '' @
         of_typed_message p m @ parent_is 0 parent_index) None
      (\<lambda>t. first_row E t (\<lambda>row.
       bindr (get_string_field E t row 0) (\<lambda>ident.
       bindr (get_uint8 E t row 1) (\<lambda>ip_version.
       bindr (get_string_field E t row 2) (\<lambda>name.
       bindr (get_uint16 E t row 3) (\<lambda>port.
       bindr (get_uint8 E t row 4) (\<lambda>iana_protocol_number.
       bindr (get_string_field E t row 5) (\<lambda>iana_protocol_name.
       bindr (get_string_field E t row 6) (\<lambda>portlist.
       bindr (get_string_field E t row 7) (\<lambda>protocol.
       bindr (get_web_service n E m p parent_index) (\<lambda>web.
       bindr (get_snmp_service E m p parent_index) (\<lambda>snmp.
       retn \<lparr>service_ident = ident, service_ip_version = ip_version, service_name = name, service_port = port,
             service_iana_protocol_number = iana_protocol_number, service_iana_protocol_name = iana_protocol_name,
             service_portlist = portlist, service_protocol = protocol,
             service_type = (case snmp of
                Some x \<Rightarrow> Service_snmp (Some x)
              | None \<Rightarrow> (case web of Some w \<Rightarrow> Service_web (Some w) | None \<Rightarrow> Service_default))\<rparr>))))))))))))"

section \<open>Nodes and analyzers\<close>

definition read_address :: "'w env \<Rightarrow> sql_res \<Rightarrow> sql_rowh \<Rightarrow> ('w, idmef_address) sqlop" where
  "read_address E t row =
     bindr (get_string_field E t row 0) (\<lambda>ident.
     bindr (get_required_enum E ENUM_ADDRESS_CATEGORY t row 1) (\<lambda>category.
     bindr (get_string_field E t row 2) (\<lambda>vlan_name.
     bindr (get_uint32_as_int E t row 3) (\<lambda>vlan_num.
     bindr (get_string_field E t row 4) (\<lambda>addr.
     bindr (get_string_field E t row 5) (\<lambda>netmask.
     retn \<lparr>address_ident = ident, address_category = category, address_vlan_name = vlan_name,
           address_vlan_num = vlan_num, address_address = addr, address_netmask = netmask\<rparr>))))))"

definition get_address :: "nat \<Rightarrow> 'w env \<Rightarrow> int \<Rightarrow> char \<Rightarrow> int \<Rightarrow> ('w, idmef_address list) sqlop" where
  "get_address n E m p parent_index =
     listed_objects n E (''SELECT ident, category, vlan_name, vlan_num, address, netmask FROM Requiem_Address WHERE '' @
         of_typed_message p m @ parent_is 0 parent_index @ listed_order)
      (read_address E)"

definition get_node :: "nat \<Rightarrow> 'w env \<Rightarrow> int \<Rightarrow> char \<Rightarrow> int \<Rightarrow> ('w, idmef_node option) sqlop" where
  "get_node n E m p parent_index =
     one_object E (''SELECT ident, category, location, name FROM Requiem_Node WHERE '' @ of_typed_message p m @
         parent_is 0 parent_index)
      (\<lambda>t row.
       bindr (get_string_field E t row 0) (\<lambda>ident.
       bindr (get_required_enum E ENUM_NODE_CATEGORY t row 1) (\<lambda>category.
       bindr (get_string_field E t row 2) (\<lambda>location.
       bindr (get_string_field E t row 3) (\<lambda>name.
       bindr (get_address n E m p parent_index) (\<lambda>addresses.
       retn \<lparr>node_ident = ident, node_category = category, node_location = location, node_name = name,
             node_addresses = addresses\<rparr>))))))"

definition read_analyzer :: "nat \<Rightarrow> 'w env \<Rightarrow> int \<Rightarrow> char \<Rightarrow> int \<Rightarrow> sql_res \<Rightarrow> sql_rowh \<Rightarrow> ('w, idmef_analyzer) sqlop" where
  "read_analyzer n E m p i t row =
     bindr (get_string_field E t row 0) (\<lambda>analyzerid.
     bindr (get_string_field E t row 1) (\<lambda>name.
     bindr (get_string_field E t row 2) (\<lambda>manufacturer.
     bindr (get_string_field E t row 3) (\<lambda>model.
     bindr (get_string_field E t row 4) (\<lambda>version.
     bindr (get_string_field E t row 5) (\<lambda>class.
     bindr (get_string_field E t row 6) (\<lambda>ostype.
     bindr (get_string_field E t row 7) (\<lambda>osversion.
     bindr (get_node n E m p i) (\<lambda>node.
     bindr (get_process n E m p i) (\<lambda>process.
     retn \<lparr>analyzer_analyzerid = analyzerid, analyzer_name = name, analyzer_manufacturer = manufacturer,
           analyzer_model = model, analyzer_version = version, analyzer_class = class, analyzer_ostype = ostype,
           analyzer_osversion = osversion, analyzer_node = node, analyzer_process = process\<rparr>))))))))))"

definition get_analyzer :: "nat \<Rightarrow> 'w env \<Rightarrow> int \<Rightarrow> char \<Rightarrow> ('w, idmef_analyzer list) sqlop" where
  "get_analyzer n E m p =
     with_result E (''SELECT analyzerid, name, manufacturer, model, version, class, ostype, osversion FROM Requiem_Analyzer WHERE '' @
         of_typed_message p m @ listed_order) []
      (\<lambda>t. each_row n E t 0 (\<lambda>i. read_analyzer n E m p i t))"

end
