(* ===== verification/ClassicGet.thy ===== *)
theory ClassicGet
  imports ClassicGetParts
begin

text \<open>
  Reading a message back (\<open>plugins/format/classic/classic-get.c\<close>): the assessment, files,
  sources and targets, additional data, classification, the kinds of alert, and the two
  functions of the plugin.
\<close>

section \<open>Assessment\<close>

definition read_action :: "'w env \<Rightarrow> sql_res \<Rightarrow> sql_rowh \<Rightarrow> ('w, idmef_action) sqlop" where
  "read_action E t row =
     bindr (get_required_enum E ENUM_ACTION_CATEGORY t row 0) (\<lambda>category.
     bindr (get_string_field E t row 1) (\<lambda>description.
     retn \<lparr>action_category = category, action_description = description\<rparr>))"

definition get_action :: "nat \<Rightarrow> 'w env \<Rightarrow> int \<Rightarrow> ('w, idmef_action list) sqlop" where
  "get_action n E m =
     listed_objects n E (''SELECT category, description FROM Requiem_Action WHERE '' @ of_message m @ listed_order)
      (read_action E)"

text \<open>The number of a new confidence is zero.\<close>

definition get_confidence :: "'w env \<Rightarrow> int \<Rightarrow> ('w, idmef_confidence option) sqlop" where
  "get_confidence E m =
     one_object E (''SELECT rating, confidence FROM Requiem_Confidence WHERE '' @ of_message m)
      (\<lambda>t row.
       bindr (get_required_enum E ENUM_CONFIDENCE_RATING t row 0) (\<lambda>rating.
       bindr (get_float E t row 1) (\<lambda>v.
       retn \<lparr>confidence_rating = rating, confidence_value = (case v of None \<Rightarrow> 0 | Some x \<Rightarrow> x)\<rparr>)))"

definition get_impact :: "'w env \<Rightarrow> int \<Rightarrow> ('w, idmef_impact option) sqlop" where
  "get_impact E m =
     one_object E (''SELECT severity, completion, type, description FROM Requiem_Impact WHERE '' @ of_message m)
      (\<lambda>t row.
       bindr (get_enum E ENUM_IMPACT_SEVERITY t row 0) (\<lambda>severity.
       bindr (get_enum E ENUM_IMPACT_COMPLETION t row 1) (\<lambda>completion.
       bindr (get_required_enum E ENUM_IMPACT_TYPE t row 2) (\<lambda>type.
       bindr (get_string_field E t row 3) (\<lambda>description.
       retn \<lparr>impact_severity = severity, impact_completion = completion, impact_type = type,
             impact_description = description\<rparr>)))))"

text \<open>The table of the assessment is destroyed unread.\<close>

definition destroy_table :: "'w env \<Rightarrow> sql_res \<Rightarrow> ('w, unit) sqlop" where
  "destroy_table E t = (\<lambda>s. (Inr (), requiemdb_sql_table_destroy E t s))"

definition get_assessment :: "nat \<Rightarrow> 'w env \<Rightarrow> int \<Rightarrow> ('w, idmef_assessment option) sqlop" where
  "get_assessment n E m =
     bindr (requiemdb_sql_query E (''SELECT _message_ident FROM Requiem_Assessment WHERE '' @ of_message m) True)
      (\<lambda>(rows, res).
       if rows = 0 then retn None
       else case res of
         None \<Rightarrow> failw UndefinedValue
       | Some t \<Rightarrow>
           thenr (destroy_table E t)
           (bindr (get_impact E m) (\<lambda>impact.
            bindr (get_confidence E m) (\<lambda>confidence.
            bindr (get_action n E m) (\<lambda>actions.
            retn (Some \<lparr>assessment_impact = impact, assessment_confidence = confidence,
                        assessment_actions = actions\<rparr>))))))"

section \<open>Files\<close>

definition in_file :: "int \<Rightarrow> int \<Rightarrow> int \<Rightarrow> string" where
  "in_file m target_index file_index = of_message m @ parent_is 0 target_index @ parent_is 1 file_index"

definition get_file_access_permission :: "nat \<Rightarrow> 'w env \<Rightarrow> int \<Rightarrow> int \<Rightarrow> int \<Rightarrow> int \<Rightarrow> ('w, rstring list) sqlop" where
  "get_file_access_permission n E m target_index file_index file_access_index =
     listed_strings n E (''SELECT permission FROM Requiem_FileAccess_Permission WHERE '' @
       in_file m target_index file_index @ parent_is 2 file_access_index @ listed_order)"

text \<open>
  The rows of the accesses are only counted.  An access always has one user: the default one
  when no row is found, the one of the last row when there are several.
\<close>

definition new_user_id :: "'w env \<Rightarrow> idmef_user_id" where
  "new_user_id E = \<lparr>user_id_ident = None, user_id_type = enum_default E ENUM_USER_ID_TYPE, user_id_name = None,
     user_id_tty = None, user_id_number = None\<rparr>"

definition read_count :: "'w env \<Rightarrow> sql_res \<Rightarrow> ('w, nat) sqlop" where
  "read_count E t =
     bindr (requiemdb_sql_table_fetch_row E t) (\<lambda>row.
       case row of
         None \<Rightarrow> retn 0
       | Some h \<Rightarrow> bindr (get_number field_to_uint32 E t h 0) (\<lambda>c. retn (case c of None \<Rightarrow> 0 | Some i \<Rightarrow> nat i)))"

definition read_file_access :: "nat \<Rightarrow> 'w env \<Rightarrow> int \<Rightarrow> int \<Rightarrow> int \<Rightarrow> int \<Rightarrow> ('w, idmef_file_access) sqlop" where
  "read_file_access n E m target_index file_index cnt =
     bindr (get_user_id n E m CHR ''F'' target_index file_index cnt) (\<lambda>users.
     bindr (get_file_access_permission n E m target_index file_index cnt) (\<lambda>permissions.
     retn \<lparr>file_access_permissions = permissions,
           file_access_user_id = (if users = [] then new_user_id E else last users)\<rparr>))"

definition get_file_access :: "nat \<Rightarrow> 'w env \<Rightarrow> int \<Rightarrow> int \<Rightarrow> int \<Rightarrow> ('w, idmef_file_access list) sqlop" where
  "get_file_access n E m target_index file_index =
     with_result E (''SELECT COUNT(*) FROM Requiem_FileAccess WHERE '' @ in_file m target_index file_index @
         '' AND _index != -1'') []
      (\<lambda>t. bindr (read_count E t) (\<lambda>count.
           each_child 0 (\<lambda>cnt _. read_file_access n E m target_index file_index cnt) (replicate count ())))"

definition read_linkage :: "'w env \<Rightarrow> sql_res \<Rightarrow> sql_rowh \<Rightarrow> ('w, idmef_linkage) sqlop" where
  "read_linkage E t row =
     bindr (get_required_enum E ENUM_LINKAGE_CATEGORY t row 0) (\<lambda>category.
     bindr (get_string_field E t row 1) (\<lambda>name.
     bindr (get_string_field E t row 2) (\<lambda>path.
     retn \<lparr>linkage_category = category, linkage_name = name, linkage_path = path\<rparr>)))"

definition get_linkage :: "nat \<Rightarrow> 'w env \<Rightarrow> int \<Rightarrow> int \<Rightarrow> int \<Rightarrow> ('w, idmef_linkage list) sqlop" where
  "get_linkage n E m target_index file_index =
     listed_objects n E (''SELECT category, name, path FROM Requiem_Linkage WHERE '' @
         in_file m target_index file_index @ listed_order)
      (read_linkage E)"

definition get_inode :: "'w env \<Rightarrow> int \<Rightarrow> int \<Rightarrow> int \<Rightarrow> ('w, idmef_inode option) sqlop" where
  "get_inode E m target_index file_index =
     one_object E (''SELECT change_time, change_time_gmtoff, number, major_device, minor_device, c_major_device, c_minor_device FROM Requiem_Inode WHERE '' @
         in_file m target_index file_index)
      (\<lambda>t row.
       bindr (get_timestamp E t row 0 1 None) (\<lambda>change_time.
       bindr (get_uint32 E t row 2) (\<lambda>number.
       bindr (get_uint32 E t row 3) (\<lambda>major_device.
       bindr (get_uint32 E t row 4) (\<lambda>minor_device.
       bindr (get_uint32 E t row 5) (\<lambda>c_major_device.
       bindr (get_uint32 E t row 6) (\<lambda>c_minor_device.
       retn \<lparr>inode_change_time = change_time, inode_number = number, inode_major_device = major_device,
             inode_minor_device = minor_device, inode_c_major_device = c_major_device,
             inode_c_minor_device = c_minor_device\<rparr>)))))))"

definition read_checksum :: "'w env \<Rightarrow> sql_res \<Rightarrow> sql_rowh \<Rightarrow> ('w, idmef_checksum) sqlop" where
  "read_checksum E t row =
     bindr (get_string_field E t row 0) (\<lambda>v.
     bindr (get_string_field E t row 1) (\<lambda>key.
     bindr (get_required_enum E ENUM_CHECKSUM_ALGORITHM t row 2) (\<lambda>algorithm.
     retn \<lparr>checksum_value = v, checksum_key = key, checksum_algorithm = algorithm\<rparr>)))"

definition get_checksum :: "nat \<Rightarrow> 'w env \<Rightarrow> int \<Rightarrow> int \<Rightarrow> int \<Rightarrow> ('w, idmef_checksum list) sqlop" where
  "get_checksum n E m target_index file_index =
     listed_objects n E (''SELECT value, checksum_key, algorithm FROM Requiem_Checksum WHERE '' @
         in_file m target_index file_index @ listed_order)
      (read_checksum E)"

definition read_file :: "'w env \<Rightarrow> sql_res \<Rightarrow> sql_rowh \<Rightarrow> ('w, idmef_file) sqlop" where
  "read_file E t row =
     bindr (get_string_field E t row 0) (\<lambda>ident.
     bindr (get_required_enum E ENUM_FILE_CATEGORY t row 1) (\<lambda>category.
     bindr (get_string_field E t row 2) (\<lambda>name.
     bindr (get_string_field E t row 3) (\<lambda>path.
     bindr (get_timestamp E t row 4 5 None) (\<lambda>create_time.
     bindr (get_timestamp E t row 6 7 None) (\<lambda>modify_time.
     bindr (get_timestamp E t row 8 9 None) (\<lambda>access_time.
     bindr (get_uint32_as_uint64 E t row 10) (\<lambda>data_size.
     bindr (get_uint32_as_uint64 E t row 11) (\<lambda>disk_size.
     bindr (get_enum E ENUM_FILE_FSTYPE t row 12) (\<lambda>fstype.
     bindr (get_string_field E t row 13) (\<lambda>file_type.
     retn \<lparr>file_ident = ident, file_category = category, file_name = name, file_path = path,
           file_create_time = create_time, file_modify_time = modify_time, file_access_time = access_time,
           file_data_size = data_size, file_disk_size = disk_size, file_fstype = fstype, file_file_type = file_type,
           file_accesses = [], file_linkages = [], file_inode = None, file_checksums = []\<rparr>)))))))))))"

definition get_file_children :: "nat \<Rightarrow> 'w env \<Rightarrow> int \<Rightarrow> int \<Rightarrow> int \<Rightarrow> idmef_file \<Rightarrow> ('w, idmef_file) sqlop" where
  "get_file_children n E m target_index cnt file =
     bindr (get_file_access n E m target_index cnt) (\<lambda>accesses.
     bindr (get_linkage n E m target_index cnt) (\<lambda>linkages.
     bindr (get_inode E m target_index cnt) (\<lambda>inode.
     bindr (get_checksum n E m target_index cnt) (\<lambda>checksums.
     retn (file\<lparr>file_accesses := accesses, file_linkages := linkages, file_inode := inode,
                file_checksums := checksums\<rparr>)))))"

text \<open>
  The rows first, then the children of each object read, with the table still open.  A failure
  to fetch a row ends the first loop; it is only reported when no object has been read before,
  since the second loop overwrites the result.
\<close>

fun rows_until_failure ::
    "nat \<Rightarrow> 'w env \<Rightarrow> sql_res \<Rightarrow> (sql_rowh \<Rightarrow> ('w, 'a) sqlop) \<Rightarrow> ('w, 'a list \<times> err option) sqlop" where
  "rows_until_failure 0 E t body = failw NotEnded"
| "rows_until_failure (Suc n) E t body = (\<lambda>s.
     case requiemdb_sql_table_fetch_row E t s of
       (Inl e, s') \<Rightarrow> (Inr ([], Some e), s')
     | (Inr None, s') \<Rightarrow> (Inr ([], None), s')
     | (Inr (Some h), s') \<Rightarrow>
         bindr (body h) (\<lambda>x. bindr (rows_until_failure n E t body) (\<lambda>(xs, e). retn (x # xs, e))) s')"

definition objects_with_children ::
    "nat \<Rightarrow> 'w env \<Rightarrow> string \<Rightarrow> (sql_res \<Rightarrow> sql_rowh \<Rightarrow> ('w, 'a) sqlop) \<Rightarrow> (int \<Rightarrow> 'a \<Rightarrow> ('w, 'a) sqlop) \<Rightarrow>
     ('w, 'a list) sqlop" where
  "objects_with_children n E query body children =
     with_result E query []
      (\<lambda>t. bindr (rows_until_failure n E t (body t)) (\<lambda>(xs, e).
         case (xs, e) of ([], Some err) \<Rightarrow> failw err | _ \<Rightarrow> each_child 0 children xs))"

definition get_file :: "nat \<Rightarrow> 'w env \<Rightarrow> int \<Rightarrow> int \<Rightarrow> ('w, idmef_file list) sqlop" where
  "get_file n E m target_index =
     objects_with_children n E (''SELECT ident, category, name, path, create_time, create_time_gmtoff, modify_time, modify_time_gmtoff, access_time, access_time_gmtoff, data_size, disk_size, fstype, file_type FROM Requiem_File WHERE '' @
         of_message m @ parent_is 0 target_index @ listed_order)
      (read_file E) (get_file_children n E m target_index)"

section \<open>Sources and targets\<close>

definition read_source :: "'w env \<Rightarrow> sql_res \<Rightarrow> sql_rowh \<Rightarrow> ('w, idmef_source) sqlop" where
  "read_source E t row =
     bindr (get_string_field E t row 0) (\<lambda>ident.
     bindr (get_required_enum E ENUM_SOURCE_SPOOFED t row 1) (\<lambda>spoofed.
     bindr (get_string_field E t row 2) (\<lambda>interface.
     retn \<lparr>source_ident = ident, source_spoofed = spoofed, source_interface = interface, source_node = None,
           source_user = None, source_process = None, source_service = None\<rparr>)))"

definition get_source_children :: "nat \<Rightarrow> 'w env \<Rightarrow> int \<Rightarrow> int \<Rightarrow> idmef_source \<Rightarrow> ('w, idmef_source) sqlop" where
  "get_source_children n E m cnt source =
     bindr (get_node n E m CHR ''S'' cnt) (\<lambda>node.
     bindr (get_user n E m CHR ''S'' cnt) (\<lambda>user.
     bindr (get_process n E m CHR ''S'' cnt) (\<lambda>process.
     bindr (get_service n E m CHR ''S'' cnt) (\<lambda>service.
     retn (source\<lparr>source_node := node, source_user := user, source_process := process,
                  source_service := service\<rparr>)))))"

definition get_source :: "nat \<Rightarrow> 'w env \<Rightarrow> int \<Rightarrow> ('w, idmef_source list) sqlop" where
  "get_source n E m =
     objects_with_children n E (''SELECT ident, spoofed, interface FROM Requiem_Source WHERE '' @ of_message m @ listed_order)
      (read_source E) (get_source_children n E m)"

definition read_target :: "'w env \<Rightarrow> sql_res \<Rightarrow> sql_rowh \<Rightarrow> ('w, idmef_target) sqlop" where
  "read_target E t row =
     bindr (get_string_field E t row 0) (\<lambda>ident.
     bindr (get_required_enum E ENUM_TARGET_DECOY t row 1) (\<lambda>decoy.
     bindr (get_string_field E t row 2) (\<lambda>interface.
     retn \<lparr>target_ident = ident, target_decoy = decoy, target_interface = interface, target_node = None,
           target_user = None, target_process = None, target_service = None, target_files = []\<rparr>)))"

definition get_target_children :: "nat \<Rightarrow> 'w env \<Rightarrow> int \<Rightarrow> int \<Rightarrow> idmef_target \<Rightarrow> ('w, idmef_target) sqlop" where
  "get_target_children n E m cnt target =
     bindr (get_node n E m CHR ''T'' cnt) (\<lambda>node.
     bindr (get_user n E m CHR ''T'' cnt) (\<lambda>user.
     bindr (get_process n E m CHR ''T'' cnt) (\<lambda>process.
     bindr (get_service n E m CHR ''T'' cnt) (\<lambda>service.
     bindr (get_file n E m cnt) (\<lambda>files.
     retn (target\<lparr>target_node := node, target_user := user, target_process := process,
                  target_service := service, target_files := files\<rparr>))))))"

definition get_target :: "nat \<Rightarrow> 'w env \<Rightarrow> int \<Rightarrow> ('w, idmef_target list) sqlop" where
  "get_target n E m =
     objects_with_children n E (''SELECT ident, decoy, interface FROM Requiem_Target WHERE '' @ of_message m @ listed_order)
      (read_target E) (get_target_children n E m)"

section \<open>Additional data\<close>

text \<open>
  A number that cannot be read is kept as its text.  Of a type the switch does not know, the
  data stays as it was created.
\<close>

definition number_or_text :: "string \<Rightarrow> err + stored \<Rightarrow> (int \<Rightarrow> data_value) \<Rightarrow> ('s, err, data_value) cop" where
  "number_or_text v r set_number =
    (case r of
       Inl _ \<Rightarrow> retn (Data_char_string (cstr v))
     | Inr (Stored i) \<Rightarrow> retn (set_number i)
     | Inr _ \<Rightarrow> failw UndefinedValue)"

definition float_or_text :: "string \<Rightarrow> err + 32 word option \<Rightarrow> ('s, err, data_value) cop" where
  "float_or_text v r =
    (case r of
       Inl _ \<Rightarrow> retn (Data_char_string (cstr v))
     | Inr (Some x) \<Rightarrow> retn (Data_float x)
     | Inr None \<Rightarrow> failw UndefinedValue)"

definition read_data :: "'w env \<Rightarrow> ad_kind option \<Rightarrow> string \<Rightarrow> ('w, data_value) sqlop" where
  "read_data E kind v =
    (case kind of
       None \<Rightarrow> retn Data_unset
     | Some AD_BOOLEAN \<Rightarrow> number_or_text v (field_to_uint8 v) (\<lambda>i. Data_byte (word_of_int i))
     | Some AD_BYTE \<Rightarrow> number_or_text v (field_to_uint8 v) (\<lambda>i. Data_byte (word_of_int i))
     | Some AD_CHARACTER \<Rightarrow> number_or_text v (field_to_uint8 v) (\<lambda>i. Data_char (word_of_int i))
     | Some AD_DATE_TIME \<Rightarrow> retn (Data_char_string (cstr v))
     | Some AD_PORTLIST \<Rightarrow> retn (Data_char_string (cstr v))
     | Some AD_STRING \<Rightarrow> retn (Data_char_string (cstr v))
     | Some AD_XML \<Rightarrow> retn (Data_char_string (cstr v))
     | Some AD_REAL \<Rightarrow> float_or_text v (field_to_float E v)
     | Some AD_INTEGER \<Rightarrow> number_or_text v (field_to_uint32 v) (\<lambda>i. Data_uint32 (word_of_int i))
     | Some AD_BYTE_STRING \<Rightarrow> bindr (requiemdb_sql_unescape_binary E v) (\<lambda>b. retn (Data_byte_string b))
     | Some AD_NTPSTAMP \<Rightarrow> number_or_text v (field_to_uint64 v) (\<lambda>i. Data_uint64 (word_of_int i))
     | Some AD_ERROR \<Rightarrow> failw (RawErr (- 1)))"

text \<open>A NULL in the data column ends the loop: the rows behind it are not read.\<close>

fun additional_data_loop :: "nat \<Rightarrow> 'w env \<Rightarrow> sql_res \<Rightarrow> ('w, idmef_additional_data list) sqlop" where
  "additional_data_loop 0 E t = failw NotEnded"
| "additional_data_loop (Suc n) E t =
     bindr (requiemdb_sql_table_fetch_row E t) (\<lambda>row.
       case row of
         None \<Rightarrow> retn []
       | Some h \<Rightarrow>
           bindr (get_required_enum E ENUM_ADDITIONAL_DATA_TYPE t h 0) (\<lambda>type.
           bindr (get_string_field E t h 1) (\<lambda>meaning.
           bindr (requiemdb_sql_row_fetch_field E t h 2) (\<lambda>f.
             case f of
               None \<Rightarrow> retn [\<lparr>ad_type = type, ad_meaning = meaning, ad_data = None\<rparr>]
             | Some v \<Rightarrow>
                 bindr (read_data E (additional_data_kind E type) v) (\<lambda>d.
                 bindr (additional_data_loop n E t) (\<lambda>xs.
                 retn (\<lparr>ad_type = type, ad_meaning = meaning, ad_data = Some (idmef_data_set E d)\<rparr> # xs)))))))"

definition get_additional_data :: "nat \<Rightarrow> 'w env \<Rightarrow> int \<Rightarrow> char \<Rightarrow> ('w, idmef_additional_data list) sqlop" where
  "get_additional_data n E m p =
     with_result E (''SELECT type, meaning, data FROM Requiem_AdditionalData WHERE '' @ of_typed_message p m @ listed_order) []
      (additional_data_loop n E)"

section \<open>Classification\<close>

definition read_reference :: "'w env \<Rightarrow> sql_res \<Rightarrow> sql_rowh \<Rightarrow> ('w, idmef_reference) sqlop" where
  "read_reference E t row =
     bindr (get_required_enum E ENUM_REFERENCE_ORIGIN t row 0) (\<lambda>origin.
     bindr (get_string_field E t row 1) (\<lambda>name.
     bindr (get_string_field E t row 2) (\<lambda>url.
     bindr (get_string_field E t row 3) (\<lambda>meaning.
     retn \<lparr>reference_origin = origin, reference_name = name, reference_url = url, reference_meaning = meaning\<rparr>))))"

definition get_reference :: "nat \<Rightarrow> 'w env \<Rightarrow> int \<Rightarrow> ('w, idmef_reference list) sqlop" where
  "get_reference n E m =
     listed_objects n E (''SELECT origin, name, url, meaning FROM Requiem_Reference WHERE '' @ of_message m @ listed_order)
      (read_reference E)"

definition get_classification :: "nat \<Rightarrow> 'w env \<Rightarrow> int \<Rightarrow> ('w, idmef_classification option) sqlop" where
  "get_classification n E m =
     one_object E (''SELECT ident, text FROM Requiem_Classification WHERE '' @ of_message m)
      (\<lambda>t row.
       bindr (get_string_field E t row 0) (\<lambda>ident.
       bindr (get_string_field E t row 1) (\<lambda>txt_field.
       bindr (get_reference n E m) (\<lambda>references.
       retn \<lparr>classification_ident = ident, classification_text = txt_field,
             classification_references = references\<rparr>))))"

section \<open>The kinds of alert\<close>

definition read_alertident :: "'w env \<Rightarrow> sql_res \<Rightarrow> sql_rowh \<Rightarrow> ('w, idmef_alertident) sqlop" where
  "read_alertident E t row =
     bindr (get_string_field E t row 0) (\<lambda>alertident.
     bindr (get_string_field E t row 1) (\<lambda>analyzerid.
     retn \<lparr>alertident_alertident = alertident, alertident_analyzerid = analyzerid\<rparr>))"

definition get_alertident :: "nat \<Rightarrow> 'w env \<Rightarrow> int \<Rightarrow> char \<Rightarrow> ('w, idmef_alertident list) sqlop" where
  "get_alertident n E m p =
     listed_objects n E (''SELECT alertident, analyzerid FROM Requiem_Alertident WHERE '' @ of_typed_message p m @ listed_order)
      (read_alertident E)"

definition get_tool_alert :: "nat \<Rightarrow> 'w env \<Rightarrow> int \<Rightarrow> ('w, idmef_tool_alert option) sqlop" where
  "get_tool_alert n E m =
     one_object E (''SELECT name, command FROM Requiem_ToolAlert WHERE '' @ of_message m)
      (\<lambda>t row.
       bindr (get_string_field E t row 0) (\<lambda>name.
       bindr (get_string_field E t row 1) (\<lambda>command.
       bindr (get_alertident n E m CHR ''T'') (\<lambda>alertidents.
       retn \<lparr>tool_name = name, tool_command = command, tool_alertidents = alertidents\<rparr>))))"

definition get_correlation_alert :: "nat \<Rightarrow> 'w env \<Rightarrow> int \<Rightarrow> ('w, idmef_correlation_alert option) sqlop" where
  "get_correlation_alert n E m =
     one_object E (''SELECT name FROM Requiem_CorrelationAlert WHERE '' @ of_message m)
      (\<lambda>t row.
       bindr (get_string_field E t row 0) (\<lambda>name.
       bindr (get_alertident n E m CHR ''C'') (\<lambda>alertidents.
       retn \<lparr>correlation_name = name, correlation_alertidents = alertidents\<rparr>)))"

text \<open>A NULL buffer is used although it was not fetched.\<close>

definition get_overflow_alert :: "'w env \<Rightarrow> int \<Rightarrow> ('w, idmef_overflow_alert option) sqlop" where
  "get_overflow_alert E m =
     one_object E (''SELECT program, size, buffer FROM Requiem_OverflowAlert WHERE '' @ of_message m)
      (\<lambda>t row.
       bindr (get_string_field E t row 0) (\<lambda>program.
       bindr (get_uint32 E t row 1) (\<lambda>sz.
       bindr (requiemdb_sql_row_fetch_field E t row 2) (\<lambda>f.
         case f of
           None \<Rightarrow> failw UndefinedValue
         | Some v \<Rightarrow>
             bindr (requiemdb_sql_unescape_binary E v) (\<lambda>b.
             retn \<lparr>overflow_program = program, overflow_size = sz,
                   overflow_buffer = Some (idmef_data_set E (Data_byte_string b))\<rparr>)))))"

section \<open>Messages\<close>

text \<open>A result that announces rows and gives none leaves the row undefined.\<close>

definition message_row :: "'w env \<Rightarrow> string \<Rightarrow> (sql_res \<Rightarrow> sql_rowh \<Rightarrow> ('w, 'a) sqlop) \<Rightarrow> ('w, 'a) sqlop" where
  "message_row E query body =
     bindr (requiemdb_sql_query E query True) (\<lambda>(n, res).
       if n = 0 then failw (requiemdb_error ERROR_INVALID_MESSAGE_IDENT)
       else case res of
         None \<Rightarrow> failw UndefinedValue
       | Some t \<Rightarrow>
           destroying E t
            (bindr (requiemdb_sql_table_fetch_row E t) (\<lambda>row.
               case row of None \<Rightarrow> failw UndefinedValue | Some h \<Rightarrow> body t h)))"

definition get_alert_messageid :: "'w env \<Rightarrow> int \<Rightarrow> ('w, rstring option) sqlop" where
  "get_alert_messageid E m =
     message_row E (''SELECT messageid FROM Requiem_Alert WHERE _ident = '' @ dec_int m)
      (\<lambda>t row. get_string_field E t row 0)"

text \<open>The kinds share a union: the one created last stays.\<close>

definition read_alert_type :: "idmef_tool_alert option \<Rightarrow> idmef_correlation_alert option \<Rightarrow> idmef_overflow_alert option \<Rightarrow> alert_type" where
  "read_alert_type tool correlation overflow =
    (case overflow of
       Some x \<Rightarrow> Alert_overflow (Some x)
     | None \<Rightarrow>
         (case correlation of
            Some x \<Rightarrow> Alert_correlation (Some x)
          | None \<Rightarrow> (case tool of Some x \<Rightarrow> Alert_tool (Some x) | None \<Rightarrow> Alert_default)))"

definition get_alert_objects :: "nat \<Rightarrow> 'w env \<Rightarrow> int \<Rightarrow> ('w, idmef_alert) sqlop" where
  "get_alert_objects n E m =
     bindr (get_alert_messageid E m) (\<lambda>messageid.
     bindr (get_assessment n E m) (\<lambda>assessment.
     bindr (get_analyzer n E m CHR ''A'') (\<lambda>analyzers.
     bindr (get_create_time E m CHR ''A'') (\<lambda>create_time.
     bindr (get_detect_time E m) (\<lambda>detect_time.
     bindr (get_analyzer_time E m CHR ''A'') (\<lambda>analyzer_time.
     bindr (get_source n E m) (\<lambda>sources.
     bindr (get_target n E m) (\<lambda>targets.
     bindr (get_classification n E m) (\<lambda>classification.
     bindr (get_additional_data n E m CHR ''A'') (\<lambda>additional_data.
     bindr (get_tool_alert n E m) (\<lambda>tool.
     bindr (get_correlation_alert n E m) (\<lambda>correlation.
     bindr (get_overflow_alert E m) (\<lambda>overflow.
     retn \<lparr>alert_messageid = messageid, alert_create_time = create_time, alert_detect_time = detect_time,
           alert_analyzer_time = analyzer_time, alert_assessment = assessment,
           alert_type = read_alert_type tool correlation overflow, alert_analyzers = analyzers,
           alert_sources = sources, alert_targets = targets, alert_classification = classification,
           alert_additional_data = additional_data\<rparr>)))))))))))))"

definition classic_get_alert :: "nat \<Rightarrow> 'w env \<Rightarrow> 64 word \<Rightarrow> ('w, idmef_message) sqlop" where
  "classic_get_alert n E ident = bindr (get_alert_objects n E (uint ident)) (\<lambda>a. retn (Message_alert (Some a)))"

definition get_heartbeat_row :: "'w env \<Rightarrow> int \<Rightarrow> ('w, rstring option \<times> 32 word option) sqlop" where
  "get_heartbeat_row E m =
     message_row E (''SELECT messageid, heartbeat_interval FROM Requiem_Heartbeat WHERE _ident = '' @ dec_int m)
      (\<lambda>t row.
       bindr (get_string_field E t row 0) (\<lambda>messageid.
       bindr (get_uint32 E t row 1) (\<lambda>interval. retn (messageid, interval))))"

definition get_heartbeat_objects :: "nat \<Rightarrow> 'w env \<Rightarrow> int \<Rightarrow> ('w, idmef_heartbeat) sqlop" where
  "get_heartbeat_objects n E m =
     bindr (get_heartbeat_row E m) (\<lambda>(messageid, interval).
     bindr (get_analyzer n E m CHR ''H'') (\<lambda>analyzers.
     bindr (get_create_time E m CHR ''H'') (\<lambda>create_time.
     bindr (get_analyzer_time E m CHR ''H'') (\<lambda>analyzer_time.
     bindr (get_additional_data n E m CHR ''H'') (\<lambda>additional_data.
     retn \<lparr>heartbeat_messageid = messageid, heartbeat_heartbeat_interval = interval,
           heartbeat_create_time = create_time, heartbeat_analyzer_time = analyzer_time,
           heartbeat_analyzers = analyzers, heartbeat_additional_data = additional_data\<rparr>)))))"

definition classic_get_heartbeat :: "nat \<Rightarrow> 'w env \<Rightarrow> 64 word \<Rightarrow> ('w, idmef_message) sqlop" where
  "classic_get_heartbeat n E ident =
     bindr (get_heartbeat_objects n E (uint ident)) (\<lambda>h. retn (Message_heartbeat (Some h)))"

end
