(* ===== verification/ClassicReading.thy ===== *)
theory ClassicReading
  imports ClassicStored ClassicGet
begin

text \<open>
  What reading a message back does to the connection: it only sends SELECT statements, leaves
  the lock and the transaction alone, and refuses an ident that is not there.
\<close>

section \<open>A client that reads\<close>

context select_client
begin

lemma case_prod_keeps: "(\<And>x y. keeps I (f x y)) \<Longrightarrow> keeps I (case p of (x, y) \<Rightarrow> f x y)"
  by (cases p) simp

lemma case_sum_keeps: "(\<And>x. keeps I (f x)) \<Longrightarrow> (\<And>y. keeps I (g y)) \<Longrightarrow> keeps I (case r of Inl x \<Rightarrow> f x | Inr y \<Rightarrow> g y)"
  by (cases r) simp_all

lemma case_stored_keeps:
  "(\<And>i. keeps I (f i)) \<Longrightarrow> keeps I g \<Longrightarrow> keeps I h \<Longrightarrow>
   keeps I (case x of Unset \<Rightarrow> g | Stored i \<Rightarrow> f i | Undefined \<Rightarrow> h)"
  by (cases x) simp_all

lemmas step_keeps = keeps_bindr keeps_retn keeps_failw keeps_if keeps_case_option case_prod_keeps case_sum_keeps
  case_stored_keeps fetch_row_keeps fetch_field_keeps on_world_keeps destroying_keeps

lemma string_field_keeps: "keeps I (get_string_field E t row c)"
  unfolding get_string_field_def by (intro step_keeps)

lemma enum_keeps: "keeps I (get_enum E k t row c)" "keeps I (get_required_enum E k t row c)"
  unfolding get_required_enum_def get_enum_def by (intro step_keeps)+

lemma uint_keeps: "keeps I (get_number f E t row c)" "keeps I (get_uint f E t row c)"
  unfolding get_uint_def get_number_def by (intro step_keeps)+

lemma uint32_keeps: "keeps I (get_uint32_as_int E t row c)" "keeps I (get_uint32_as_uint64 E t row c)"
  unfolding get_uint32_as_int_def get_uint32_as_uint64_def by (intro step_keeps uint_keeps)+

lemma float_keeps: "keeps I (get_float E t row c)"
  unfolding get_float_def by (intro step_keeps)

lemma required_keeps: "keeps I f \<Longrightarrow> keeps I (required_field f)"
  unfolding required_field_def by (intro step_keeps)

lemma assigned_keeps: "keeps I (assigned old r)"
  unfolding assigned_def by (auto split: sum.split stored.split intro: keeps_retn keeps_failw)

lemma timestamp_keeps: "keeps I (get_timestamp E t row a b c)"
  unfolding get_timestamp_def by (intro step_keeps required_keeps assigned_keeps)

lemmas field_keeps = step_keeps string_field_keeps enum_keeps uint_keeps uint32_keeps float_keeps timestamp_keeps
  unescape_binary_keeps

lemma result_keeps: "is_select q \<Longrightarrow> (\<And>t. keeps I (body t)) \<Longrightarrow> keeps I (with_result E q none body)"
  unfolding with_result_def by (intro step_keeps query_keeps)

lemma first_row_keeps: "(\<And>h. keeps I (body h)) \<Longrightarrow> keeps I (first_row E t body)"
  unfolding first_row_def by (intro step_keeps)

lemma each_row_keeps: "(\<And>i h. keeps I (body i h)) \<Longrightarrow> keeps I (each_row n E t i body)"
  by (induction n arbitrary: i) (auto intro!: step_keeps)

lemma each_child_keeps: "(\<And>i x. keeps I (f i x)) \<Longrightarrow> keeps I (each_child i f xs)"
  by (induction xs arbitrary: i) (auto intro!: step_keeps)

lemma one_object_keeps: "is_select q \<Longrightarrow> (\<And>t h. keeps I (body t h)) \<Longrightarrow> keeps I (one_object E q body)"
  unfolding one_object_def by (intro result_keeps first_row_keeps)

lemma listed_keeps:
  "is_select q \<Longrightarrow> (\<And>t h. keeps I (body t h)) \<Longrightarrow> keeps I (listed_objects n E q body)"
  "is_select q \<Longrightarrow> keeps I (listed_strings n E q)"
  unfolding listed_strings_def listed_objects_def
  by (intro result_keeps each_row_keeps step_keeps string_field_keeps; assumption)+

lemma until_failure_keeps: "(\<And>h. keeps I (body h)) \<Longrightarrow> keeps I (rows_until_failure n E t body)"
proof (induction n)
  case (Suc n)
  show ?case
  proof (rule keepsI)
    fix s assume "I s"
    obtain r s' where run: "requiemdb_sql_table_fetch_row E t s = (r, s')" by fastforce
    then have s': "I s'" using keepsD [OF fetch_row_keeps \<open>I s\<close>, of t] by simp
    have "keeps I (bindr (body h) (\<lambda>x. bindr (rows_until_failure n E t body) (\<lambda>(xs, e). retn (x # xs, e))))" for h
      by (intro step_keeps Suc)
    from keepsD [OF this s'] show "I (snd (rows_until_failure (Suc n) E t body s))"
      using s' by (simp add: run split: sum.split option.split)
  qed
qed (simp add: keeps_failw)

lemma with_children_keeps:
  assumes "is_select q" "\<And>t h. keeps I (body t h)" "\<And>i x. keeps I (children i x)"
  shows "keeps I (objects_with_children n E q body children)"
proof -
  have "keeps I (case ys of [] \<Rightarrow> (case e of None \<Rightarrow> each_child 0 children xs | Some err \<Rightarrow> failw err)
      | _ # _ \<Rightarrow> each_child 0 children xs)" for xs ys e
    using each_child_keeps [of children 0 xs, OF assms(3)]
    by (auto split: list.split option.split intro: keeps_failw simp del: each_child.simps)
  then show ?thesis
    unfolding objects_with_children_def by (intro result_keeps assms step_keeps until_failure_keeps)
qed

lemma ignoring_failure_keeps:
  assumes "is_select q" "\<And>t. keeps I (body t)"
  shows "keeps I (ignoring_query_failure E q none body)"
proof (rule keepsI)
  fix s assume "I s"
  obtain r s' where run: "requiemdb_sql_query E q True s = (r, s')" by fastforce
  then have s': "I s'" using keepsD [OF query_keeps [OF assms(1)] \<open>I s\<close>, of True] by simp
  show "I (snd (ignoring_query_failure E q none body s))"
  proof (cases r)
    case (Inr x)
    then obtain k res where r: "r = Inr (k, res)" by (cases x) auto
    have "keeps I (if k = (0 :: nat) then retn none else case res of None \<Rightarrow> failw UndefinedValue | Some t \<Rightarrow> destroying E t (body t))"
      by (intro step_keeps assms)
    from keepsD [OF this s'] show ?thesis unfolding ignoring_query_failure_def run r by simp
  qed (use s' run in \<open>simp add: ignoring_query_failure_def\<close>)
qed

lemma message_row_keeps: "is_select q \<Longrightarrow> (\<And>t h. keeps I (body t h)) \<Longrightarrow> keeps I (message_row E q body)"
  unfolding message_row_def by (intro step_keeps query_keeps)

lemmas object_keeps = field_keeps result_keeps first_row_keeps each_row_keeps each_child_keeps one_object_keeps listed_keeps
  with_children_keeps ignoring_failure_keeps message_row_keeps

lemma times_keep: "keeps I (get_analyzer_time E m p)" "keeps I (get_detect_time E m)" "keeps I (get_create_time E m p)"
  unfolding get_analyzer_time_def get_detect_time_def get_create_time_def get_time_of_def
  by (intro object_keeps; simp add: is_select_def)+

lemma users_keep: "keeps I (get_user_id n E m p i j k)" "keeps I (get_user n E m p i)"
  unfolding get_user_def get_user_id_def read_user_id_def by (intro object_keeps; simp add: is_select_def)+

lemma process_keeps: "keeps I (get_process n E m p i)"
  unfolding get_process_def get_process_arg_def get_process_env_def by (intro object_keeps; simp add: is_select_def)

lemma service_keeps: "keeps I (get_service n E m p i)"
  unfolding get_service_def get_web_service_def get_web_service_arg_def get_snmp_service_def
  by (intro object_keeps; simp add: is_select_def)

lemma node_keeps: "keeps I (get_node n E m p i)"
  unfolding get_node_def get_address_def read_address_def by (intro object_keeps; simp add: is_select_def)

lemma analyzer_keeps: "keeps I (get_analyzer n E m p)"
  unfolding get_analyzer_def read_analyzer_def
  by (intro object_keeps node_keeps process_keeps; simp add: is_select_def)

lemma assessment_keeps: "keeps I (get_assessment n E m)"
proof -
  have "keeps I (destroy_table E t)" for t
    by (rule keepsI) (simp add: destroy_table_def destroy_keeps)
  then show ?thesis
    unfolding get_assessment_def get_impact_def get_confidence_def get_action_def read_action_def
    by (intro object_keeps query_keeps; simp add: is_select_def)
qed

lemma file_access_keeps: "keeps I (get_file_access n E m i j)"
  unfolding get_file_access_def read_count_def read_file_access_def get_file_access_permission_def
  by (intro object_keeps users_keep; simp add: is_select_def)

lemma file_keeps: "keeps I (get_file n E m i)"
  unfolding get_file_def read_file_def get_file_children_def get_linkage_def read_linkage_def get_inode_def
    get_checksum_def read_checksum_def
  by (intro object_keeps file_access_keeps; simp add: is_select_def)

lemma source_keeps: "keeps I (get_source n E m)"
  unfolding get_source_def read_source_def get_source_children_def
  by (intro object_keeps node_keeps users_keep process_keeps service_keeps; simp add: is_select_def)

lemma target_keeps: "keeps I (get_target n E m)"
  unfolding get_target_def read_target_def get_target_children_def
  by (intro object_keeps node_keeps users_keep process_keeps service_keeps file_keeps; simp add: is_select_def)

lemma read_data_keeps: "keeps I (read_data E k v)"
  unfolding read_data_def number_or_text_def float_or_text_def
  by (cases k) (auto intro!: object_keeps split: ad_kind.split)

lemma data_loop_keeps: "keeps I (additional_data_loop n E t)"
  by (induction n) (auto intro!: field_keeps read_data_keeps)

lemma additional_data_keeps: "keeps I (get_additional_data n E m p)"
  unfolding get_additional_data_def by (intro object_keeps data_loop_keeps) (simp add: is_select_def)

lemma classification_keeps: "keeps I (get_classification n E m)"
  unfolding get_classification_def get_reference_def read_reference_def by (intro object_keeps; simp add: is_select_def)

lemma kinds_keep: "keeps I (get_tool_alert n E m)" "keeps I (get_correlation_alert n E m)" "keeps I (get_overflow_alert E m)"
  unfolding get_tool_alert_def get_correlation_alert_def get_overflow_alert_def get_alertident_def read_alertident_def
  by (intro object_keeps; simp add: is_select_def)+

lemma get_alert_keeps: "keeps I (classic_get_alert n E ident)"
  unfolding classic_get_alert_def get_alert_objects_def get_alert_messageid_def
  by (intro object_keeps assessment_keeps analyzer_keeps times_keep source_keeps target_keeps classification_keeps
      additional_data_keeps kinds_keep; simp add: is_select_def)

lemma get_heartbeat_keeps: "keeps I (classic_get_heartbeat n E ident)"
  unfolding classic_get_heartbeat_def get_heartbeat_objects_def get_heartbeat_row_def
  by (intro object_keeps analyzer_keeps times_keep additional_data_keeps; simp add: is_select_def)

end

text \<open>
  C27.  Reading a message back only reads: whatever the back end answers and however the reading
  ends, the statements \<open>classic_get_alert\<close> and \<open>classic_get_heartbeat\<close> send are SELECT
  statements, and they leave the lock depth as it was.
\<close>
theorem reading_only_selects:
  "log_extends is_select (logged s) (snd (classic_get_alert n E ident s)) \<and>
   log_extends is_select (logged s) (snd (classic_get_heartbeat n E ident s)) \<and>
   lock_depth (snd (classic_get_alert n E ident s)) = lock_depth s \<and>
   lock_depth (snd (classic_get_heartbeat n E ident s)) = lock_depth s"
proof (intro conjI)
  show "log_extends is_select (logged s) (snd (classic_get_alert n E ident s))"
    by (rule keepsD [OF select_trace.get_alert_keeps log_extends_refl])
  show "log_extends is_select (logged s) (snd (classic_get_heartbeat n E ident s))"
    by (rule keepsD [OF select_trace.get_heartbeat_keeps log_extends_refl])
  have "lock_frame s (snd (classic_get_alert n E ident s))"
    by (rule keepsD [OF select_frame.get_alert_keeps lock_frame_refl])
  then show "lock_depth (snd (classic_get_alert n E ident s)) = lock_depth s" by (simp add: lock_frame_def)
  have "lock_frame s (snd (classic_get_heartbeat n E ident s))"
    by (rule keepsD [OF select_frame.get_heartbeat_keeps lock_frame_refl])
  then show "lock_depth (snd (classic_get_heartbeat n E ident s)) = lock_depth s" by (simp add: lock_frame_def)
qed

section \<open>The index of the process arguments\<close>

lemma as_char_id: "- 128 \<le> i \<Longrightarrow> i < 128 \<Longrightarrow> as_char i = i"
  by (simp add: as_char_def sint_sbintrunc' signed_take_bit_int_eq_self)

text \<open>
  \<open>get_process_arg\<close> takes the index of the parent as a \<open>char\<close>, \<open>get_process_env\<close> as an
  \<open>int\<close>: the arguments of a parent with an index of 128 or more are looked for under the index less
  256, which no inserted row carries; up to 127 the index is right.
\<close>
theorem process_arg_index_wraps:
  assumes "128 \<le> i" "i < 256"
  shows "get_process_arg n E m p i =
      listed_strings n E (''SELECT arg FROM Requiem_ProcessArg WHERE '' @ of_typed_message p m @
        parent_is 0 (i - 256) @ listed_order) \<and>
    get_process_env n E m p i =
      listed_strings n E (''SELECT env FROM Requiem_ProcessEnv WHERE '' @ of_typed_message p m @
        parent_is 0 i @ listed_order) \<and>
    get_process_arg n E m p (i - 128) =
      listed_strings n E (''SELECT arg FROM Requiem_ProcessArg WHERE '' @ of_typed_message p m @
        parent_is 0 (i - 128) @ listed_order)"
proof -
  have "(word_of_int (i - 256) :: 8 word) = word_of_int i"
    using minus_mod_self2 [of i 256] by (simp only: word_of_int_eq_iff take_bit_eq_mod) simp
  then have "as_char i = as_char (i - 256)" unfolding as_char_def by (simp only:)
  also have "\<dots> = i - 256" using assms by (intro as_char_id) simp_all
  finally show ?thesis
    using as_char_id [of "i - 128"] assms by (simp add: get_process_arg_def get_process_env_def)
qed

theorem process_arg_index_wraps_witness:
  "get_process_arg 9 (null_env :: unit env) 7 CHR ''A'' 200 =
      listed_strings 9 null_env (''SELECT arg FROM Requiem_ProcessArg WHERE '' @ of_typed_message CHR ''A'' 7 @
        parent_is 0 (200 - 256) @ listed_order) \<and>
    get_process_env 9 (null_env :: unit env) 7 CHR ''A'' 200 =
      listed_strings 9 null_env (''SELECT env FROM Requiem_ProcessEnv WHERE '' @ of_typed_message CHR ''A'' 7 @
        parent_is 0 200 @ listed_order) \<and>
    get_process_arg 9 (null_env :: unit env) 7 CHR ''A'' (200 - 128) =
      listed_strings 9 null_env (''SELECT arg FROM Requiem_ProcessArg WHERE '' @ of_typed_message CHR ''A'' 7 @
        parent_is 0 (200 - 128) @ listed_order)"
  by (rule process_arg_index_wraps) simp_all

end
