(* ===== verification/PluginFormat.thy ===== *)
theory PluginFormat
  imports ClassicReading
begin

text \<open>
  The table of functions of a format plugin (\<open>src/requiemdb-plugin-format.c\<close>), the functions
  the library runs when a plugin leaves a deletion out, and the table the classic plugin fills
  in (\<open>classic_LTX_requiemdb_plugin_init\<close> in \<open>plugins/format/classic/classic.c\<close>).  A
  function pointer is an option: calling the NULL pointer is \<open>NullDeref\<close>.
\<close>

section \<open>The table\<close>

text \<open>A loop with a bound on its rounds: \<open>None\<close> has not ended.\<close>

type_synonym ('w, 'a) fuelop = "nat \<Rightarrow> 'w sql \<Rightarrow> ((err + 'a) \<times> 'w sql) option"

record 'w plugin_format =
  pf_check_schema_version :: "(string option \<Rightarrow> ('w world, err, unit) cop) option"
  pf_get_alert_idents :: "(criteria option \<Rightarrow> int \<Rightarrow> int \<Rightarrow> idents_order \<Rightarrow> ('w, nat \<times> sql_res option) sqlop) option"
  pf_get_heartbeat_idents :: "(criteria option \<Rightarrow> int \<Rightarrow> int \<Rightarrow> idents_order \<Rightarrow> ('w, nat \<times> sql_res option) sqlop) option"
  pf_get_message_ident_count :: "('w sql \<Rightarrow> sql_res \<Rightarrow> nat) option"
  pf_get_next_message_ident :: "(sql_res \<Rightarrow> ('w, stored option) sqlop) option"
  pf_destroy_message_idents_resource :: "(sql_res \<Rightarrow> 'w sql \<Rightarrow> 'w sql) option"
  pf_get_alert :: "(64 word \<Rightarrow> ('w, idmef_message) sqlop) option"
  pf_get_heartbeat :: "(64 word \<Rightarrow> ('w, idmef_message) sqlop) option"
  pf_delete_alert :: "(64 word \<Rightarrow> ('w, nat) sqlop) option"
  pf_delete_alert_from_list :: "(64 word list \<Rightarrow> ('w, nat) sqlop) option"
  pf_delete_alert_from_result_idents :: "(sql_res \<Rightarrow> ('w, nat) fuelop) option"
  pf_delete_heartbeat :: "(64 word \<Rightarrow> ('w, nat) sqlop) option"
  pf_delete_heartbeat_from_list :: "(64 word list \<Rightarrow> ('w, nat) sqlop) option"
  pf_delete_heartbeat_from_result_idents :: "(sql_res \<Rightarrow> ('w, nat) fuelop) option"
  pf_insert_message :: "(idmef_message option \<Rightarrow> ('w, nat) sqlop) option"
  pf_get_values :: "(path_selection \<Rightarrow> criteria option \<Rightarrow> bool \<Rightarrow> int \<Rightarrow> int \<Rightarrow> ('w, nat \<times> sql_res option) sqlop) option"
  pf_get_next_values :: "(sql_res \<Rightarrow> path_selection \<Rightarrow> ('w, got_value list option) sqlop) option"
  pf_destroy_values_resource :: "(sql_res \<Rightarrow> 'w sql \<Rightarrow> 'w sql) option"

text \<open>\<open>requiemdb_plugin_format_new\<close>: a zeroed table.\<close>

definition plugin_format_new :: "'w plugin_format" where
  "plugin_format_new =
    \<lparr>pf_check_schema_version = None, pf_get_alert_idents = None, pf_get_heartbeat_idents = None,
     pf_get_message_ident_count = None, pf_get_next_message_ident = None,
     pf_destroy_message_idents_resource = None, pf_get_alert = None, pf_get_heartbeat = None,
     pf_delete_alert = None, pf_delete_alert_from_list = None, pf_delete_alert_from_result_idents = None,
     pf_delete_heartbeat = None, pf_delete_heartbeat_from_list = None,
     pf_delete_heartbeat_from_result_idents = None, pf_insert_message = None, pf_get_values = None,
     pf_get_next_values = None, pf_destroy_values_resource = None\<rparr>"

definition called :: "'f option \<Rightarrow> ('f \<Rightarrow> ('s, err, 'a) cop) \<Rightarrow> ('s, err, 'a) cop" where
  "called f k = (case f of None \<Rightarrow> failw NullDeref | Some g \<Rightarrow> k g)"

section \<open>Deletions a plugin leaves out\<close>

text \<open>The loop over a list of idents, with the number of those deleted so far.\<close>

fun delete_each :: "(64 word \<Rightarrow> ('w, nat) sqlop) \<Rightarrow> nat \<Rightarrow> 64 word list \<Rightarrow> ('w, nat) sqlop" where
  "delete_each del i [] = retn i"
| "delete_each del i (x # xs) = bindr (del x) (\<lambda>_. delete_each del (i + 1) xs)"

text \<open>
  The loop over the idents of a result: it ends at the return 0 of the next ident, and takes
  an error for an ident, deleting again the one read before.
\<close>

fun delete_next ::
    "(64 word \<Rightarrow> ('w, nat) sqlop) \<Rightarrow> ('w, stored option) sqlop \<Rightarrow> 64 word option \<Rightarrow> nat \<Rightarrow> ('w, nat) fuelop" where
  "delete_next del get_next ident count 0 s = None"
| "delete_next del get_next ident count (Suc n) s =
    (let (r, s1) = get_next s
     in case r of
          Inr None \<Rightarrow> Some (Inr count, s1)
        | _ \<Rightarrow>
            let ident' = (case r of
                 Inr (Some (Stored v)) \<Rightarrow> Some (word_of_int v)
               | Inr (Some Undefined) \<Rightarrow> None
               | _ \<Rightarrow> ident)
            in (case ident' of
                  None \<Rightarrow> Some (Inl UndefinedValue, s1)
                | Some v \<Rightarrow>
                    (case del v s1 of
                       (Inl e, s2) \<Rightarrow> Some (Inl e, s2)
                     | (Inr _, s2) \<Rightarrow> delete_next del get_next ident' (count + 1) n s2)))"

definition plugin_format_delete_alert_from_list :: "'w plugin_format \<Rightarrow> 64 word list \<Rightarrow> ('w, nat) sqlop" where
  "plugin_format_delete_alert_from_list p idents =
    (case pf_delete_alert_from_list p of
       Some f \<Rightarrow> f idents
     | None \<Rightarrow> delete_each (\<lambda>i. called (pf_delete_alert p) (\<lambda>f. f i)) 0 idents)"

definition plugin_format_delete_heartbeat_from_list :: "'w plugin_format \<Rightarrow> 64 word list \<Rightarrow> ('w, nat) sqlop" where
  "plugin_format_delete_heartbeat_from_list p idents =
    (case pf_delete_heartbeat_from_list p of
       Some f \<Rightarrow> f idents
     | None \<Rightarrow> delete_each (\<lambda>i. called (pf_delete_heartbeat p) (\<lambda>f. f i)) 0 idents)"

text \<open>\<open>requiemdb_result_idents_get_next\<close> runs the plugin of the result's own database.\<close>

definition result_idents_next :: "'w plugin_format \<Rightarrow> sql_res \<Rightarrow> ('w, stored option) sqlop" where
  "result_idents_next p res = called (pf_get_next_message_ident p) (\<lambda>f. f res)"

definition plugin_format_delete_alert_from_result_idents ::
    "'w plugin_format \<Rightarrow> 'w plugin_format \<Rightarrow> sql_res \<Rightarrow> ('w, nat) fuelop" where
  "plugin_format_delete_alert_from_result_idents p q res =
    (case pf_delete_alert_from_result_idents p of
       Some f \<Rightarrow> f res
     | None \<Rightarrow> delete_next (\<lambda>i. called (pf_delete_alert p) (\<lambda>f. f i)) (result_idents_next q res) None 0)"

definition plugin_format_delete_heartbeat_from_result_idents ::
    "'w plugin_format \<Rightarrow> 'w plugin_format \<Rightarrow> sql_res \<Rightarrow> ('w, nat) fuelop" where
  "plugin_format_delete_heartbeat_from_result_idents p q res =
    (case pf_delete_heartbeat_from_result_idents p of
       Some f \<Rightarrow> f res
     | None \<Rightarrow> delete_next (\<lambda>i. called (pf_delete_heartbeat p) (\<lambda>f. f i)) (result_idents_next q res) None 0)"

section \<open>The classic plugin\<close>

text \<open>
  The version check is an argument, and so is the bound \<open>n\<close> on the rows of a result when a
  message is read back.
\<close>

definition classic_plugin ::
    "nat \<Rightarrow> 'w env \<Rightarrow> (string option \<Rightarrow> ('w world, err, unit) cop) \<Rightarrow> 'w plugin_format" where
  "classic_plugin n E check_version =
     plugin_format_new
      \<lparr>pf_check_schema_version := Some check_version,
       pf_get_alert_idents := Some (classic_get_alert_idents E),
       pf_get_heartbeat_idents := Some (classic_get_heartbeat_idents E),
       pf_get_message_ident_count := Some (classic_get_message_ident_count E),
       pf_get_next_message_ident := Some (classic_get_next_message_ident E),
       pf_destroy_message_idents_resource := Some (classic_destroy_message_idents_resource E),
       pf_get_alert := Some (classic_get_alert n E),
       pf_get_heartbeat := Some (classic_get_heartbeat n E),
       pf_delete_alert := Some (classic_delete_alert E),
       pf_delete_alert_from_list := Some (classic_delete_alert_from_list E),
       pf_delete_alert_from_result_idents := Some (\<lambda>res n. classic_delete_alert_from_result_idents n E res),
       pf_delete_heartbeat := Some (classic_delete_heartbeat E),
       pf_delete_heartbeat_from_list := Some (classic_delete_heartbeat_from_list E),
       pf_delete_heartbeat_from_result_idents := Some (\<lambda>res n. classic_delete_heartbeat_from_result_idents n E res),
       pf_insert_message := Some (classic_insert E),
       pf_get_values := Some (classic_get_values E),
       pf_get_next_values := Some (classic_get_next_values E),
       pf_destroy_values_resource := Some (classic_destroy_values_resource E)\<rparr>"

end
