(* ===== verification/RequiemDb.thy ===== *)
theory RequiemDb
  imports PluginFormat
begin

text \<open>
  The functions an application calls (\<open>src/requiemdb.c\<close>): loading the plugins, opening a
  database with a format plugin, and the operations that hand over to the plugin, inside a
  transaction of their own or of the application.
\<close>

section \<open>The library\<close>

text \<open>
  The two plugin lists, with the number of users.  What the loaders of librequiem find is an
  argument: each step fails or yields its plugins.
\<close>

record ('w, 'p) library =
  lib_refcount :: int
  lib_formats :: "(string \<times> 'w plugin_format) list"
  lib_sqls :: "'p list"

record ('w, 'p) loader =
  ld_requiem_init :: "err option"
  ld_format_dir :: bool
  ld_formats :: "err + (string \<times> 'w plugin_format) list"
  ld_sql_dir :: bool
  ld_sqls :: "err + 'p list"

definition requiemdb_init :: "('w, 'p) loader \<Rightarrow> (('w, 'p) library, err, unit) cop" where
  "requiemdb_init L = (\<lambda>lib0.
     let lib = lib0\<lparr>lib_refcount := lib_refcount lib0 + 1\<rparr>
     in if lib_refcount lib0 > 0 then (Inr (), lib)
        else case ld_requiem_init L of
          Some e \<Rightarrow> (Inl e, lib)
        | None \<Rightarrow>
            if \<not> ld_format_dir L then (Inl (DbErr ERROR_CANNOT_LOAD_FORMAT_PLUGIN True), lib)
            else case ld_formats L of
              Inl e \<Rightarrow> (Inl e, lib)
            | Inr fs \<Rightarrow>
                let lib1 = lib\<lparr>lib_formats := lib_formats lib @ fs\<rparr>
                in if \<not> ld_sql_dir L then (Inl (DbErr ERROR_CANNOT_LOAD_SQL_PLUGIN True), lib1)
                   else case ld_sqls L of
                     Inl e \<Rightarrow> (Inl e, lib1)
                   | Inr ss \<Rightarrow> (Inr (), lib1\<lparr>lib_sqls := lib_sqls lib1 @ ss\<rparr>))"

definition requiemdb_deinit :: "('w, 'p) library \<Rightarrow> ('w, 'p) library" where
  "requiemdb_deinit lib0 =
    (let lib = lib0\<lparr>lib_refcount := lib_refcount lib0 - 1\<rparr>
     in if lib_refcount lib > 0 then lib else lib\<lparr>lib_formats := [], lib_sqls := []\<rparr>)"

section \<open>A database\<close>

record 'w requiemdb =
  db_format_version :: "string option"
  db_sql :: "'w sql"
  db_plugin :: "'w plugin_format option"

definition on_db :: "('w, 'a) sqlop \<Rightarrow> ('w requiemdb, err, 'a) cop" where
  "on_db f = (\<lambda>db. case f (db_sql db) of (r, s) \<Rightarrow> (r, db\<lparr>db_sql := s\<rparr>))"

text \<open>An operation of the plugin, reached through the database's plugin pointer.\<close>

definition through_plugin ::
    "('w plugin_format \<Rightarrow> 'f option) \<Rightarrow> ('f \<Rightarrow> ('w, 'a) sqlop) \<Rightarrow> ('w requiemdb, err, 'a) cop" where
  "through_plugin field k = (\<lambda>db.
     case db_plugin db of
       None \<Rightarrow> (Inl NullDeref, db)
     | Some p \<Rightarrow> on_db (called (field p) k) db)"

text \<open>The pointer is replaced before it is tested: a failure leaves the database without plugin.\<close>

definition requiemdb_set_format ::
    "(string \<times> 'w plugin_format) list \<Rightarrow> string \<Rightarrow> ('w requiemdb, err, unit) cop" where
  "requiemdb_set_format formats name = (\<lambda>db.
     let db' = db\<lparr>db_plugin := map_of formats name\<rparr>
     in if db_plugin db' = None then
          on_db (on_world (error_verbose ERROR_CANNOT_LOAD_FORMAT_PLUGIN
            (''could not find format plugin '' @ [CHR 0x27] @ name @ [CHR 0x27]))) db'
        else (Inr (), db'))"

definition format_query :: string where
  "format_query = ''SELECT name, version from _format''"

text \<open>
  \<open>requiemdb_autodetect_format\<close>.  A row or a field that is missing leaves a variable the code
  goes on to use.
\<close>

definition required :: "('s, err, 'a option) cop \<Rightarrow> ('s, err, 'a) cop" where
  "required f = bindr f (\<lambda>x. case x of None \<Rightarrow> failw UndefinedValue | Some a \<Rightarrow> retn a)"

definition read_format ::
    "'w env \<Rightarrow> (string \<times> 'w plugin_format) list \<Rightarrow> sql_res \<Rightarrow> ('w requiemdb, err, unit) cop" where
  "read_format E formats t =
     bindr (on_db (required (requiemdb_sql_table_fetch_row E t))) (\<lambda>row.
     bindr (on_db (required (requiemdb_sql_row_fetch_field E t row 0))) (\<lambda>name.
     bindr (requiemdb_set_format formats name) (\<lambda>_.
     bindr (on_db (required (requiemdb_sql_row_fetch_field E t row 1))) (\<lambda>version.
     bindr (through_plugin pf_check_schema_version (\<lambda>f. on_world (f (Some version)))) (\<lambda>_.
     \<lambda>db. (Inr (), db\<lparr>db_format_version := Some version\<rparr>))))))"

definition requiemdb_autodetect_format ::
    "'w env \<Rightarrow> (string \<times> 'w plugin_format) list \<Rightarrow> ('w requiemdb, err, unit) cop" where
  "requiemdb_autodetect_format E formats =
     bindr (on_db (requiemdb_sql_query E format_query True)) (\<lambda>(n, res).
       if n = 0 then failw (RawErr (- 1))
       else case res of
         None \<Rightarrow> failw UndefinedValue
       | Some t \<Rightarrow> (\<lambda>db. case read_format E formats t db of
           (r, db') \<Rightarrow> (r, db'\<lparr>db_sql := requiemdb_sql_table_destroy E t (db_sql db')\<rparr>)))"

text \<open>On failure the database is freed; the connection stays with the caller.\<close>

definition requiemdb_new ::
    "'w env \<Rightarrow> (string \<times> 'w plugin_format) list \<Rightarrow> string option \<Rightarrow> 'w sql \<Rightarrow> (err \<times> 'w sql) + 'w requiemdb" where
  "requiemdb_new E formats format_name s =
    (let db = \<lparr>db_format_version = None, db_sql = s, db_plugin = None\<rparr>
     in case (case format_name of
                Some name \<Rightarrow> requiemdb_set_format formats name db
              | None \<Rightarrow> requiemdb_autodetect_format E formats db) of
          (Inl e, db') \<Rightarrow> Inl (e, db_sql db')
        | (Inr _, db') \<Rightarrow> Inr db')"

definition requiemdb_destroy :: "'w env \<Rightarrow> 'w requiemdb \<Rightarrow> 'w world" where
  "requiemdb_destroy E db = requiemdb_sql_destroy E (db_sql db)"

section \<open>Operations of the plugin\<close>

definition requiemdb_insert_message :: "idmef_message option \<Rightarrow> ('w requiemdb, err, nat) cop" where
  "requiemdb_insert_message message = through_plugin pf_insert_message (\<lambda>f. f message)"

definition requiemdb_get_alert_idents ::
    "criteria option \<Rightarrow> int \<Rightarrow> int \<Rightarrow> idents_order \<Rightarrow> ('w requiemdb, err, nat \<times> sql_res option) cop" where
  "requiemdb_get_alert_idents c limit offset order =
     through_plugin pf_get_alert_idents (\<lambda>f. f c limit offset order)"

definition requiemdb_get_heartbeat_idents ::
    "criteria option \<Rightarrow> int \<Rightarrow> int \<Rightarrow> idents_order \<Rightarrow> ('w requiemdb, err, nat \<times> sql_res option) cop" where
  "requiemdb_get_heartbeat_idents c limit offset order =
     through_plugin pf_get_heartbeat_idents (\<lambda>f. f c limit offset order)"

definition requiemdb_result_idents_get_next :: "sql_res \<Rightarrow> ('w requiemdb, err, stored option) cop" where
  "requiemdb_result_idents_get_next res = through_plugin pf_get_next_message_ident (\<lambda>f. f res)"

definition requiemdb_get_alert :: "64 word \<Rightarrow> ('w requiemdb, err, idmef_message) cop" where
  "requiemdb_get_alert i = through_plugin pf_get_alert (\<lambda>f. f i)"

definition requiemdb_get_heartbeat :: "64 word \<Rightarrow> ('w requiemdb, err, idmef_message) cop" where
  "requiemdb_get_heartbeat i = through_plugin pf_get_heartbeat (\<lambda>f. f i)"

definition requiemdb_delete_alert :: "64 word \<Rightarrow> ('w requiemdb, err, nat) cop" where
  "requiemdb_delete_alert i = through_plugin pf_delete_alert (\<lambda>f. f i)"

definition requiemdb_delete_heartbeat :: "64 word \<Rightarrow> ('w requiemdb, err, nat) cop" where
  "requiemdb_delete_heartbeat i = through_plugin pf_delete_heartbeat (\<lambda>f. f i)"

text \<open>The functions that run in the library when the plugin leaves them out.\<close>

definition requiemdb_delete_alert_from_list :: "64 word list \<Rightarrow> ('w requiemdb, err, nat) cop" where
  "requiemdb_delete_alert_from_list idents =
    (if idents = [] then retn 0
     else through_plugin Some (\<lambda>p. plugin_format_delete_alert_from_list p idents))"

definition requiemdb_delete_heartbeat_from_list :: "64 word list \<Rightarrow> ('w requiemdb, err, nat) cop" where
  "requiemdb_delete_heartbeat_from_list idents =
    (if idents = [] then retn 0
     else through_plugin Some (\<lambda>p. plugin_format_delete_heartbeat_from_list p idents))"

definition requiemdb_get_values ::
    "path_selection \<Rightarrow> criteria option \<Rightarrow> bool \<Rightarrow> int \<Rightarrow> int \<Rightarrow> ('w requiemdb, err, nat \<times> sql_res option) cop" where
  "requiemdb_get_values sel c distinct_rows limit offset =
     through_plugin pf_get_values (\<lambda>f. f sel c distinct_rows limit offset)"

definition requiemdb_result_values_get_next ::
    "sql_res \<Rightarrow> path_selection \<Rightarrow> ('w requiemdb, err, got_value list option) cop" where
  "requiemdb_result_values_get_next res sel = through_plugin pf_get_next_values (\<lambda>f. f res sel)"

text \<open>
  The deletions of the idents of a result, with a bound on the rounds of their loop; the result
  belongs to the database itself.
\<close>

definition through_plugin_bounded ::
    "('w plugin_format \<Rightarrow> ('w, 'a) fuelop) \<Rightarrow> nat \<Rightarrow> 'w requiemdb \<Rightarrow> ((err + 'a) \<times> 'w requiemdb) option" where
  "through_plugin_bounded f n db =
    (case db_plugin db of
       None \<Rightarrow> Some (Inl NullDeref, db)
     | Some p \<Rightarrow> map_option (\<lambda>(r, s). (r, db\<lparr>db_sql := s\<rparr>)) (f p n (db_sql db)))"

definition requiemdb_delete_alert_from_result_idents ::
    "sql_res \<Rightarrow> nat \<Rightarrow> 'w requiemdb \<Rightarrow> ((err + nat) \<times> 'w requiemdb) option" where
  "requiemdb_delete_alert_from_result_idents res =
     through_plugin_bounded (\<lambda>p. plugin_format_delete_alert_from_result_idents p p res)"

definition requiemdb_delete_heartbeat_from_result_idents ::
    "sql_res \<Rightarrow> nat \<Rightarrow> 'w requiemdb \<Rightarrow> ((err + nat) \<times> 'w requiemdb) option" where
  "requiemdb_delete_heartbeat_from_result_idents res =
     through_plugin_bounded (\<lambda>p. plugin_format_delete_heartbeat_from_result_idents p p res)"

text \<open>The end of a result's life.\<close>

definition requiemdb_result_idents_destroy :: "sql_res \<Rightarrow> ('w requiemdb, err, unit) cop" where
  "requiemdb_result_idents_destroy res =
     through_plugin pf_destroy_message_idents_resource (\<lambda>f s. (Inr (), f res s))"

definition requiemdb_result_values_destroy :: "sql_res \<Rightarrow> ('w requiemdb, err, unit) cop" where
  "requiemdb_result_values_destroy res =
     through_plugin pf_destroy_values_resource (\<lambda>f s. (Inr (), f res s))"

section \<open>Transactions of the application\<close>

definition requiemdb_transaction_start :: "'w env \<Rightarrow> ('w requiemdb, err, nat) cop" where
  "requiemdb_transaction_start E = on_db (\<lambda>s.
     case sql_transaction_start E s of
       (Inl e, s') \<Rightarrow> (Inl e, s')
     | (Inr n, s') \<Rightarrow> (Inr n, sql_disable_internal_transaction s'))"

definition requiemdb_transaction_end :: "'w env \<Rightarrow> ('w requiemdb, err, nat) cop" where
  "requiemdb_transaction_end E = on_db (\<lambda>s.
     case sql_transaction_end E s of (r, s') \<Rightarrow> (r, sql_enable_internal_transaction s'))"

definition requiemdb_transaction_abort :: "'w env \<Rightarrow> ('w requiemdb, err, nat) cop" where
  "requiemdb_transaction_abort E = on_db (\<lambda>s.
     case sql_transaction_abort E s of (r, s') \<Rightarrow> (r, sql_enable_internal_transaction s'))"

section \<open>What an application's transaction sends\<close>

text \<open>The calls an application can make between the start and the end of its transaction.\<close>

datatype db_call =
    Insert_message "idmef_message option"
  | Delete_alert "64 word"
  | Delete_heartbeat "64 word"
  | Delete_alerts "64 word list"
  | Delete_heartbeats "64 word list"
  | Alert_idents "criteria option" int int idents_order
  | Heartbeat_idents "criteria option" int int idents_order
  | Get_alert "64 word"
  | Get_heartbeat "64 word"
  | Values path_selection "criteria option" bool int int

text \<open>The state a call leaves, whatever it returns.\<close>

fun run_call :: "db_call \<Rightarrow> 'w requiemdb \<Rightarrow> 'w requiemdb" where
  "run_call (Insert_message m) db = snd (requiemdb_insert_message m db)"
| "run_call (Delete_alert i) db = snd (requiemdb_delete_alert i db)"
| "run_call (Delete_heartbeat i) db = snd (requiemdb_delete_heartbeat i db)"
| "run_call (Delete_alerts is) db = snd (requiemdb_delete_alert_from_list is db)"
| "run_call (Delete_heartbeats is) db = snd (requiemdb_delete_heartbeat_from_list is db)"
| "run_call (Alert_idents c l f ord) db = snd (requiemdb_get_alert_idents c l f ord db)"
| "run_call (Heartbeat_idents c l f ord) db = snd (requiemdb_get_heartbeat_idents c l f ord db)"
| "run_call (Get_alert i) db = snd (requiemdb_get_alert i db)"
| "run_call (Get_heartbeat i) db = snd (requiemdb_get_heartbeat i db)"
| "run_call (Values sel c d l f) db = snd (requiemdb_get_values sel c d l f db)"

definition plain :: "string \<Rightarrow> bool" where
  "plain q \<longleftrightarrow> q \<notin> {''BEGIN'', ''COMMIT'', ''ROLLBACK''}"

text \<open>
  An operation that, while the internal transactions are disabled, keeps what \<open>sends\<close> keeps
  and sends no transaction statement.
\<close>

definition plain_op :: "('w, 'a) sqlop \<Rightarrow> bool" where
  "plain_op f \<longleftrightarrow> (\<forall>s r s'. connected s \<and> logfile s \<noteq> None \<and> internal_transaction_disabled s \<and> f s = (r, s') \<longrightarrow>
     connected s' \<and> in_transaction s' = in_transaction s \<and> lock_depth s' = lock_depth s \<and>
     same_frame s s' \<and> (\<exists>new. logged s' = logged s @ new \<and> list_all plain new))"

lemma sends_plain: "sends (\<lambda>_. list_all plain) f \<Longrightarrow> plain_op f"
  unfolding sends_def plain_op_def by blast

lemma transactionally_plain:
  assumes "sends (\<lambda>_. list_all plain) body"
  shows "plain_op (transactionally E body)"
  unfolding plain_op_def
proof (intro allI impI)
  fix s r s' assume a: "connected s \<and> logfile s \<noteq> None \<and> internal_transaction_disabled s \<and> transactionally E body s = (r, s')"
  obtain r1 s1 where b: "body s = (r1, s1)" by fastforce
  with sendsD [OF assms] a have f: "connected s1 \<and> in_transaction s1 = in_transaction s \<and> lock_depth s1 = lock_depth s \<and>
      same_frame s s1 \<and> (\<exists>new. logged s1 = logged s @ new \<and> list_all plain new)" by blast
  with a have "internal_transaction_disabled s1" by (auto dest: same_frameD)
  with a b have "transactionally E body s = (case r1 of Inl e \<Rightarrow> (Inl e, s1) | Inr _ \<Rightarrow> (Inr 0, s1))"
    by (intro transactionally_disabled) simp_all
  with a have "s' = s1" by (auto split: sum.splits)
  with f show "connected s' \<and> in_transaction s' = in_transaction s \<and> lock_depth s' = lock_depth s \<and>
      same_frame s s' \<and> (\<exists>new. logged s' = logged s @ new \<and> list_all plain new)" by simp
qed

lemma plain_insert_text: "plain (insert_text table cols vals)"
  by (simp add: plain_def insert_text_def)

lemma plain_last_ident: "plain (last_ident_query table)"
  by (simp add: plain_def last_ident_query_def)

lemma plain_select: "is_select q \<Longrightarrow> plain q"
  by (auto simp: plain_def is_select_def)

lemma covered_plain: "covered dels m q \<Longrightarrow> plain q"
  unfolding covered_def by (elim exE conjE) (simp add: plain_insert_text)

lemma list_covered_plain: "list_all (covered dels m) qs \<Longrightarrow> list_all plain qs"
  by (erule list.pred_mono_strong) (rule covered_plain)

lemma message_trace_plain: "message_trace table dels failed new \<Longrightarrow> list_all plain new"
  by (auto simp: message_trace_def Let_def plain_insert_text plain_last_ident dest: list_covered_plain)

lemma insert_plain:
  assumes nd: "no_disconnect E"
  shows "plain_op (classic_insert E m)"
proof (cases m)
  case None
  then show ?thesis by (auto simp: classic_insert_def plain_op_def)
next
  case (Some x)
  have "sends (\<lambda>_. list_all plain) (insert_body E x)"
  proof (cases "message_present x")
    case True
    show ?thesis by (rule sends_mono [OF insert_body_sends [OF nd True]]) (rule message_trace_plain)
  next
    case False
    show ?thesis by (rule sends_mono [OF absent_sends [OF False]]) simp
  qed
  with Some show ?thesis by (simp add: classic_insert_def transactionally_plain)
qed

lemma delete_plain:
  assumes "no_disconnect E" "list_all plain (delete_texts queries t)"
  shows "plain_op (delete_message E queries t)"
proof -
  have "prefix_sent (delete_texts queries t) failed new \<Longrightarrow> list_all plain new" for failed new
    using assms(2) by (auto simp: prefix_sent_def list_all_iff split: if_splits dest: in_set_takeD)
  note sent = this
  show ?thesis
    unfolding delete_message_def
    by (rule transactionally_plain, rule sends_mono [OF exec_list_sends [OF assms(1)]], rule sent)
qed

lemma plain_deletes: "list_all plain (delete_texts delete_alert_queries t)" "list_all plain (delete_texts delete_heartbeat_queries t)"
proof -
  have plain: "list_all plain (delete_texts qs t)" if "list_all (\<lambda>q. take 1 (fst q) = ''D'') qs" for qs
  proof -
    have "plain (b @ t @ a)" if "take 1 b = ''D''" for a b
      using that by (cases b) (simp_all add: plain_def)
    with that show ?thesis by (auto simp: delete_texts_def list_all_iff)
  qed
  show "list_all plain (delete_texts delete_alert_queries t)" "list_all plain (delete_texts delete_heartbeat_queries t)"
    by (rule plain, simp add: delete_alert_queries_def delete_heartbeat_queries_def)+
qed

lemma plain_bindr_retn:
  assumes "plain_op f"
  shows "plain_op (bindr f (\<lambda>_. retn n))"
proof -
  have "snd (bindr f (\<lambda>_. retn n) s) = snd (f s)" for s
    by (simp add: bindr_def split: prod.split sum.split)
  then have "\<exists>r0. f s = (r0, s')" if "bindr f (\<lambda>_. retn n) s = (r, s')" for s r s'
    using that by (metis prod.collapse snd_conv)
  with assms show ?thesis unfolding plain_op_def by fast
qed

lemma counted_plain: "(\<And>t. plain_op (del t)) \<Longrightarrow> plain_op (delete_counted del p)"
  unfolding delete_counted_def by (cases p) (simp add: plain_bindr_retn)

lemma query_client: "no_disconnect E \<Longrightarrow> select_client E (quiet is_select s0)"
  by (intro select_client.intro quiet_client)

lemma queries_plain:
  assumes nd: "no_disconnect E"
  shows "plain_op (get_message_idents E mt c l f ord)" "plain_op (classic_get_values E sel c d l f)"
    "plain_op (classic_get_alert k E i)" "plain_op (classic_get_heartbeat k E i)"
proof -
  have sel: "list_all is_select new \<Longrightarrow> list_all plain new" for new
    by (auto simp: list_all_iff plain_select)
  note q = query_client [OF nd]
  have plain: "plain_op g" if "\<And>s0. keeps (quiet is_select s0) g" for g :: "('a, 'b) sqlop"
    by (rule sends_plain, rule sends_mono [OF quiet_sends [OF that]], rule sel)
  show "plain_op (get_message_idents E mt c l f ord)"
    by (rule plain) (rule select_client.message_idents_keeps [OF q])
  show "plain_op (classic_get_values E sel c d l f)"
    by (rule plain) (rule select_client.get_values_keeps [OF q])
  show "plain_op (classic_get_alert k E i)" by (rule plain) (rule select_client.get_alert_keeps [OF q])
  show "plain_op (classic_get_heartbeat k E i)" by (rule plain) (rule select_client.get_heartbeat_keeps [OF q])
qed

text \<open>Inside the application's transaction: the plugin stays, the connection is quiet.\<close>

definition in_user_transaction :: "'w plugin_format \<Rightarrow> 'w sql \<Rightarrow> 'w requiemdb \<Rightarrow> bool" where
  "in_user_transaction p s0 db \<longleftrightarrow>
     db_plugin db = Some p \<and> quiet plain s0 (db_sql db) \<and> logfile s0 \<noteq> None \<and> internal_transaction_disabled s0"

lemma plain_op_quiet:
  assumes "plain_op f" "quiet plain s0 s" "logfile s0 \<noteq> None" "internal_transaction_disabled s0" "f s = (r, s')"
  shows "quiet plain s0 s'"
proof -
  have up: "connected s" "logfile s \<noteq> None" "internal_transaction_disabled s"
    using assms(2-4) by (auto simp: quiet_def dest: same_frameD)
  with assms(1,5) obtain new where "connected s'" "in_transaction s' = in_transaction s" "lock_depth s' = lock_depth s"
    "same_frame s s'" "logged s' = logged s @ new" "list_all plain new" unfolding plain_op_def by blast
  then show ?thesis
    using quiet_log [OF assms(2)] by (intro quiet_step [OF assms(2)]) (auto simp: log_extends_def)
qed

lemma through_plugin_user:
  assumes "in_user_transaction p s0 db" and "field p = Some f" and "plain_op (k f)"
  shows "in_user_transaction p s0 (snd (through_plugin field k db))"
proof -
  obtain r s' where run: "k f (db_sql db) = (r, s')" by fastforce
  with assms plain_op_quiet [OF assms(3) _ _ _ run, of s0] show ?thesis
    by (simp add: in_user_transaction_def through_plugin_def on_db_def called_def)
qed

lemma classic_fields:
  fixes k E v defines "p \<equiv> classic_plugin k E v"
  shows "pf_insert_message p = Some (classic_insert E)" "pf_delete_alert p = Some (classic_delete_alert E)"
    "pf_delete_heartbeat p = Some (classic_delete_heartbeat E)"
    "pf_delete_alert_from_list p = Some (classic_delete_alert_from_list E)"
    "pf_delete_heartbeat_from_list p = Some (classic_delete_heartbeat_from_list E)"
    "pf_get_alert_idents p = Some (classic_get_alert_idents E)"
    "pf_get_heartbeat_idents p = Some (classic_get_heartbeat_idents E)"
    "pf_get_alert p = Some (classic_get_alert k E)" "pf_get_heartbeat p = Some (classic_get_heartbeat k E)"
    "pf_get_values p = Some (classic_get_values E)" "pf_check_schema_version p = Some v"
  by (simp_all add: p_def classic_plugin_def)

lemma run_call_user:
  assumes nd: "no_disconnect E" and u: "in_user_transaction (classic_plugin k E v) s0 db"
  shows "in_user_transaction (classic_plugin k E v) s0 (run_call c db)"
proof -
  let ?p = "classic_plugin k E v"
  note step = through_plugin_user [OF u]
  note del = delete_plain [OF nd plain_deletes(1)] delete_plain [OF nd plain_deletes(2)]
  have one: "plain_op (classic_delete_alert E i)" "plain_op (classic_delete_heartbeat E i)" for i
    by (simp_all add: classic_delete_alert_def classic_delete_heartbeat_def do_delete_alert_def
        do_delete_heartbeat_def del)
  have many: "plain_op (classic_delete_alert_from_list E is)" "plain_op (classic_delete_heartbeat_from_list E is)" for "is"
    by (simp_all add: classic_delete_alert_from_list_def classic_delete_heartbeat_from_list_def do_delete_alert_def
        do_delete_heartbeat_def counted_plain del)
  have lists: "plain_op (plugin_format_delete_alert_from_list ?p is)"
      "plain_op (plugin_format_delete_heartbeat_from_list ?p is)" for "is"
    by (simp_all add: plugin_format_delete_alert_from_list_def plugin_format_delete_heartbeat_from_list_def
        classic_fields many)
  show ?thesis
  proof (cases c)
    case (Insert_message m)
    then show ?thesis by (simp add: requiemdb_insert_message_def) (rule step, rule classic_fields, rule insert_plain [OF nd])
  next
    case (Delete_alert i)
    then show ?thesis by (simp add: requiemdb_delete_alert_def) (rule step, rule classic_fields, rule one(1))
  next
    case (Delete_heartbeat i)
    then show ?thesis by (simp add: requiemdb_delete_heartbeat_def) (rule step, rule classic_fields, rule one(2))
  next
    case (Delete_alerts ids)
    then show ?thesis
      using step [of Some ?p "\<lambda>p. plugin_format_delete_alert_from_list p ids"] lists(1) [of ids] u
      by (simp add: requiemdb_delete_alert_from_list_def)
  next
    case (Delete_heartbeats ids)
    then show ?thesis
      using step [of Some ?p "\<lambda>p. plugin_format_delete_heartbeat_from_list p ids"] lists(2) [of ids] u
      by (simp add: requiemdb_delete_heartbeat_from_list_def)
  next
    case (Alert_idents cr l f ord)
    then show ?thesis
      by (simp add: requiemdb_get_alert_idents_def)
        (rule step, rule classic_fields, simp add: classic_get_alert_idents_def queries_plain [OF nd])
  next
    case (Heartbeat_idents cr l f ord)
    then show ?thesis
      by (simp add: requiemdb_get_heartbeat_idents_def)
        (rule step, rule classic_fields, simp add: classic_get_heartbeat_idents_def queries_plain [OF nd])
  next
    case (Get_alert i)
    then show ?thesis by (simp add: requiemdb_get_alert_def) (rule step, rule classic_fields, rule queries_plain [OF nd])
  next
    case (Get_heartbeat i)
    then show ?thesis by (simp add: requiemdb_get_heartbeat_def) (rule step, rule classic_fields, rule queries_plain [OF nd])
  next
    case (Values sel cr d l f)
    then show ?thesis by (simp add: requiemdb_get_values_def) (rule step, rule classic_fields, rule queries_plain [OF nd])
  qed
qed

lemma run_calls_user:
  assumes "no_disconnect E" "in_user_transaction (classic_plugin k E v) s0 db"
  shows "in_user_transaction (classic_plugin k E v) s0 (foldl (\<lambda>d c. run_call c d) db calls)"
  using assms(2) by (induction calls arbitrary: db) (simp_all add: run_call_user [OF assms(1)])


definition store_db :: "unit requiemdb" where
  "store_db =
    \<lparr>db_format_version = None, db_sql = logging_sql,
     db_plugin = Some (classic_plugin 9 store_env (\<lambda>_. retn ()))\<rparr>"

lemma store_db_plugin:
  "db_plugin store_db = Some (classic_plugin 9 store_env (\<lambda>_. retn ()))"
  by (simp add: store_db_def)

definition store_calls :: "db_call list" where
  "store_calls = [Insert_message (Some (Message_alert (Some small_alert))), Delete_alerts []]"




section \<open>Opening a database\<close>

lemma bindr_InrE:
  assumes "bindr f g s = (Inr x, s')"
  obtains a s1 where "f s = (Inr a, s1)" "g a s1 = (Inr x, s')"
  using assms by (auto simp: bindr_def split: prod.splits sum.splits)


definition format_env :: "unit env" where
  "format_env = null_env\<lparr>env_plugin := store_plugin\<lparr>pl_get_row_count := (\<lambda>_ _. 1),
     pl_fetch_field := Some (\<lambda>r row c. retn (Some (if c = 0 then ''Classic'' else ''14.7'')))\<rparr>\<rparr>"

definition version_check :: "string option \<Rightarrow> (unit world, err, unit) cop" where
  "version_check v = (if v = Some ''14.7'' then retn () else failw (requiemdb_error ERROR_SCHEMA_VERSION_INVALID))"


section \<open>Users of the library\<close>

definition library_fresh :: "('w, 'p) library" where
  "library_fresh = \<lparr>lib_refcount = 0, lib_formats = [], lib_sqls = []\<rparr>"

text \<open>The states of the library when each user that leaves has come before.\<close>

inductive library_state :: "('w, 'p) loader \<Rightarrow> ('w, 'p) library \<Rightarrow> bool" for L where
  Fresh: "library_state L library_fresh"
| Init: "library_state L lib \<Longrightarrow> requiemdb_init L lib = (r, lib') \<Longrightarrow> library_state L lib'"
| Deinit: "library_state L lib \<Longrightarrow> lib_refcount lib > 0 \<Longrightarrow> library_state L (requiemdb_deinit lib)"

definition loads :: "('w, 'p) loader \<Rightarrow> (string \<times> 'w plugin_format) list \<Rightarrow> 'p list \<Rightarrow> bool" where
  "loads L fs ss \<longleftrightarrow> ld_requiem_init L = None \<and> ld_format_dir L \<and> ld_formats L = Inr fs \<and>
     ld_sql_dir L \<and> ld_sqls L = Inr ss"

text \<open>
  C35.  The plugins are loaded once and as long as the library has a user: when the loader
  works, the lists hold what it found exactly while the count of users is positive, and
  initialising succeeds.
\<close>
theorem library_loaded_while_used:
  assumes "loads L fs ss" and "library_state L lib"
  shows "lib_refcount lib \<ge> 0 \<and> fst (requiemdb_init L lib) = Inr () \<and>
    (lib_formats lib, lib_sqls lib) = (if lib_refcount lib > 0 then (fs, ss) else ([], []))"
  using assms(2)
proof induction
  case Fresh
  then show ?case using assms(1) by (simp add: library_fresh_def requiemdb_init_def loads_def)
next
  case (Init lib r lib')
  then show ?case using assms(1) by (auto simp: requiemdb_init_def loads_def Let_def split: if_splits)
next
  case (Deinit lib)
  then show ?case using assms(1) by (auto simp: requiemdb_deinit_def requiemdb_init_def loads_def Let_def split: if_splits)
qed

definition small_loader :: "(unit, nat) loader" where
  "small_loader =
    \<lparr>ld_requiem_init = None, ld_format_dir = True, ld_formats = Inr [(''Classic'', plugin_format_new)],
     ld_sql_dir = True, ld_sqls = Inr [1, 2]\<rparr>"

theorem library_loaded_while_used_witness:
  "lib_sqls (requiemdb_deinit (snd (requiemdb_init small_loader (snd (requiemdb_init small_loader library_fresh))))) = [1, 2]"
proof -
  let ?one = "snd (requiemdb_init small_loader library_fresh)"
  let ?two = "snd (requiemdb_init small_loader ?one)"
  have count: "lib_refcount ?two = 2" "lib_refcount (requiemdb_deinit ?two) = 1"
    by (simp_all add: requiemdb_init_def requiemdb_deinit_def small_loader_def library_fresh_def)
  have "library_state small_loader ?two"
    by (intro library_state.Init [OF library_state.Init [OF library_state.Fresh]]) (rule prod.collapse [symmetric])+
  then have st: "library_state small_loader (requiemdb_deinit ?two)"
    using count by (intro library_state.Deinit) simp_all
  have "loads small_loader [(''Classic'', plugin_format_new)] [1, 2]"
    by (simp add: loads_def small_loader_def)
  from library_loaded_while_used [OF this st] count show ?thesis by simp
qed

text \<open>
  A failed initialisation counts as a user: whatever made it fail, a later one reports
  success without loading anything, and leaves the library without SQL plugin.
\<close>
theorem failed_init_counted:
  assumes "requiemdb_init L library_fresh = (Inl e, lib)"
  shows "requiemdb_init L' lib = (Inr (), lib\<lparr>lib_refcount := 2\<rparr>) \<and> lib_sqls lib = []"
  using assms by (auto simp: requiemdb_init_def library_fresh_def Let_def split: option.splits sum.splits if_splits)

theorem failed_init_counted_witness:
  "fst (requiemdb_init small_loader (snd (requiemdb_init (small_loader\<lparr>ld_sql_dir := False\<rparr>) library_fresh))) = Inr () \<and>
   lib_sqls (snd (requiemdb_init small_loader (snd (requiemdb_init (small_loader\<lparr>ld_sql_dir := False\<rparr>) library_fresh)))) = []"
proof -
  obtain lib where "requiemdb_init (small_loader\<lparr>ld_sql_dir := False\<rparr>) library_fresh = (Inl (DbErr ERROR_CANNOT_LOAD_SQL_PLUGIN True), lib)"
    by (simp add: requiemdb_init_def small_loader_def library_fresh_def)
  with failed_init_counted [OF this, of small_loader] show ?thesis by simp
qed

end
