(* ===== verification/SqlStore.thy ===== *)
theory SqlStore
  imports ClassicGet "HOL-Library.Multiset"
begin

text \<open>
  The SQL database behind the plugin, as far as insertion and reading rely on it: a multiset of
  rows, result sets that give their rows one after the other, and the documented behaviour of
  INSERT, SELECT, MAX, BEGIN and COMMIT and of the escape functions.  All of it is a hypothesis
  (\<open>sql_database\<close>) on the plugin, stated over a view of its state; \<open>MiniSql\<close> shows
  that an interpreter of these statements meets it.  Two judgements carry the proofs: what an
  operation writes, and what it reads.
\<close>

section \<open>Rows and conditions\<close>

datatype lit = L_null | L_int int | L_text string

fun lit_field :: "lit \<Rightarrow> string option" where
  "lit_field L_null = None"
| "lit_field (L_int i) = Some (dec_int i)"
| "lit_field (L_text t) = Some t"

type_synonym sql_row = "string \<times> (string \<times> lit) list"

definition cell :: "sql_row \<Rightarrow> string \<Rightarrow> lit" where
  "cell r c = (case map_of (snd r) c of Some l \<Rightarrow> l | None \<Rightarrow> L_null)"

text \<open>The names of a column list as it stands in a statement.\<close>

fun split_columns :: "string \<Rightarrow> string \<Rightarrow> string list" where
  "split_columns acc [] = [rev acc]"
| "split_columns acc (c # cs) =
    (if c = CHR '','' then rev acc # split_columns [] cs
     else if c = CHR '' '' then split_columns acc cs
     else split_columns (c # acc) cs)"

definition column_names :: "string \<Rightarrow> string list" where
  "column_names t = split_columns [] t"

text \<open>The characters of column lists.\<close>

definition column_char :: "char \<Rightarrow> bool" where
  [simp]: "column_char c \<longleftrightarrow> (let n = of_char c :: nat in 97 \<le> n \<and> n \<le> 122 \<or> 48 \<le> n \<and> n \<le> 57 \<or> n = 95)"

primrec column_text :: "string \<Rightarrow> bool" where
  "column_text [] = True"
| "column_text (c # cs) = ((column_char c \<or> c = CHR '','' \<or> c = CHR '' '') \<and> column_text cs)"

primrec column_name :: "string \<Rightarrow> bool" where
  "column_name [] = True"
| "column_name (c # cs) = (column_char c \<and> column_name cs)"

text \<open>The rows of a table that meet \<open>c = v AND ...\<close>, and \<open>_index != -1\<close> when listed.\<close>

definition index_of :: "sql_row \<Rightarrow> int" where
  "index_of r = (case cell r ''_index'' of L_int i \<Rightarrow> i | _ \<Rightarrow> 0)"

definition listed_row :: "sql_row \<Rightarrow> bool" where
  "listed_row r = (case cell r ''_index'' of L_int i \<Rightarrow> i \<noteq> - 1 | _ \<Rightarrow> False)"

definition matches :: "string \<Rightarrow> (string \<times> lit) list \<Rightarrow> bool \<Rightarrow> sql_row \<Rightarrow> bool" where
  "matches T cs listed r \<longleftrightarrow>
     fst r = T \<and> list_all (\<lambda>(c, v). cell r c = v \<and> v \<noteq> L_null) cs \<and> (listed \<longrightarrow> listed_row r)"

definition fields_of :: "string \<Rightarrow> sql_row \<Rightarrow> string option list" where
  "fields_of cols r = map (\<lambda>c. lit_field (cell r c)) (column_names cols)"

text \<open>A SELECT gives the matching rows, ordered by index when listed, in any order otherwise.\<close>

definition selected :: "string \<Rightarrow> string \<Rightarrow> (string \<times> lit) list \<Rightarrow> bool \<Rightarrow> sql_row multiset \<Rightarrow> string option list list \<Rightarrow> bool" where
  "selected cols T cs listed D rs \<longleftrightarrow>
     (\<exists>xs. mset xs = filter_mset (matches T cs listed) D \<and> (listed \<longrightarrow> sorted (map index_of xs)) \<and>
           rs = map (fields_of cols) xs)"

section \<open>Statement texts\<close>

definition conditions :: "(string \<times> string) list \<Rightarrow> string" where
  "conditions cs = joined '' AND '' (map (\<lambda>(c, v). c @ '' = '' @ v) cs)"

definition select_text :: "string \<Rightarrow> string \<Rightarrow> (string \<times> string) list \<Rightarrow> bool \<Rightarrow> string" where
  "select_text cols T cs listed =
     ''SELECT '' @ cols @ '' FROM '' @ T @ '' WHERE '' @ conditions cs @ (if listed then listed_order else [])"

definition count_text :: "string \<Rightarrow> (string \<times> string) list \<Rightarrow> string" where
  "count_text T cs = ''SELECT COUNT(*) FROM '' @ T @ '' WHERE '' @ conditions cs @ '' AND _index != -1''"

section \<open>The database\<close>

record db_state =
  db_rows :: "sql_row multiset"
  db_next :: "string \<Rightarrow> int"
  db_pending :: "sql_res \<Rightarrow> string option list list option"
  db_fetched :: "sql_res \<Rightarrow> sql_rowh \<Rightarrow> string option list option"

text \<open>
  A view of the plugin's state, the literals of its SQL, and the text it returns for binary
  data and for floating point numbers.
\<close>

record 'w database =
  contents :: "'w world \<Rightarrow> db_state"
  denotes :: "string \<Rightarrow> lit \<Rightarrow> bool"
  stored_binary :: "string \<Rightarrow> string"
  stored_float :: "32 word \<Rightarrow> string"

definition answers :: "'w env \<Rightarrow> 'w database \<Rightarrow> 'w world \<Rightarrow> string option list list \<Rightarrow> (err + sql_res option) \<times> 'w world \<Rightarrow> bool" where
  "answers E V w rs res \<longleftrightarrow>
    (if rs = [] then fst res = Inr None \<and> contents V (snd res) = contents V w
     else \<exists>h. fst res = Inr (Some h) \<and> db_pending (contents V w) h = None \<and>
            pl_get_row_count (env_plugin E) (snd res) h = length rs \<and>
            contents V (snd res) = (contents V w)\<lparr>db_pending := (db_pending (contents V w))(h := Some rs)\<rparr>)"

definition literal_law :: "'w env \<Rightarrow> 'w database \<Rightarrow> bool" where
  "literal_law E V \<longleftrightarrow> (\<forall>x. denotes V (format_float E x) (L_text (stored_float V x))) \<and> denotes V ''NULL'' L_null \<and> (\<forall>i. denotes V (dec_int i) (L_int i)) \<and>
     (\<forall>t. CHR 0x27 \<notin> set t \<and> CHR 0x5C \<notin> set t \<longrightarrow> denotes V ([CHR 0x27] @ t @ [CHR 0x27]) (L_text t))"

definition escape_law :: "'w env \<Rightarrow> 'w database \<Rightarrow> bool" where
  "escape_law E V \<longleftrightarrow>
     (\<forall>t w. NUL \<notin> set t \<longrightarrow> (\<exists>x w'. plugin_sql_escape (env_plugin E) t w = (Inr x, w') \<and>
        contents V w' = contents V w \<and> denotes V x (L_text t))) \<and>
     (\<forall>b w. \<exists>x w'. plugin_sql_escape_binary (env_plugin E) b w = (Inr x, w') \<and>
        contents V w' = contents V w \<and> denotes V x (L_text (stored_binary V b))) \<and>
     (\<forall>b w. \<exists>w'. plugin_sql_unescape_binary (env_plugin E) (stored_binary V b) w = (Inr b, w') \<and>
        contents V w' = contents V w)"

text \<open>The two message tables number their rows in a column \<open>_ident\<close>.\<close>

definition numbered :: "string \<Rightarrow> bool" where
  "numbered T \<longleftrightarrow> T = ''Requiem_Alert'' \<or> T = ''Requiem_Heartbeat''"

definition new_row :: "db_state \<Rightarrow> string \<Rightarrow> string \<Rightarrow> lit list \<Rightarrow> sql_row" where
  "new_row d T cols ls =
     (T, (if numbered T then [(''_ident'', L_int (db_next d T))] else []) @ zip (column_names cols) ls)"

text \<open>The tables of the classic schema; the columns of each are those the statements name.\<close>

definition schema_table :: "string \<Rightarrow> bool" where
  "schema_table T \<longleftrightarrow> T \<in> set
     [''Requiem_Action'', ''Requiem_AdditionalData'', ''Requiem_Address'', ''Requiem_Alert'', ''Requiem_Alertident'',
      ''Requiem_Analyzer'', ''Requiem_AnalyzerTime'', ''Requiem_Assessment'', ''Requiem_Checksum'',
      ''Requiem_Classification'', ''Requiem_Confidence'', ''Requiem_CorrelationAlert'', ''Requiem_CreateTime'',
      ''Requiem_DetectTime'', ''Requiem_File'', ''Requiem_FileAccess'', ''Requiem_FileAccess_Permission'',
      ''Requiem_Heartbeat'', ''Requiem_Impact'', ''Requiem_Inode'', ''Requiem_Linkage'', ''Requiem_Node'',
      ''Requiem_OverflowAlert'', ''Requiem_Process'', ''Requiem_ProcessArg'', ''Requiem_ProcessEnv'',
      ''Requiem_Reference'', ''Requiem_Service'', ''Requiem_SnmpService'', ''Requiem_Source'', ''Requiem_Target'',
      ''Requiem_ToolAlert'', ''Requiem_User'', ''Requiem_UserId'', ''Requiem_WebService'', ''Requiem_WebServiceArg'']"

definition insert_law :: "'w env \<Rightarrow> 'w database \<Rightarrow> bool" where
  "insert_law E V \<longleftrightarrow>
     (\<forall>T cols vals ls w. schema_table T \<and> column_text cols \<and> list_all2 (denotes V) vals ls \<and> length (column_names cols) = length vals \<longrightarrow>
        (\<exists>w' i. pl_query (env_plugin E) (insert_text T cols (joined '', '' vals)) w = (Inr None, w') \<and>
           db_next (contents V w) T < i \<and>
           contents V w' = (contents V w)
             \<lparr>db_rows := add_mset (new_row (contents V w) T cols ls) (db_rows (contents V w)),
              db_next := (if numbered T then (db_next (contents V w))(T := i) else db_next (contents V w))\<rparr>))"

definition select_law :: "'w env \<Rightarrow> 'w database \<Rightarrow> bool" where
  "select_law E V \<longleftrightarrow>
     (\<forall>cols T cs ls listed w. schema_table T \<and> column_text cols \<and> list_all (\<lambda>c. column_name (fst c)) cs \<and> list_all2 (denotes V) (map snd cs) ls \<longrightarrow>
        (\<exists>rs. selected cols T (zip (map fst cs) ls) listed (db_rows (contents V w)) rs \<and>
              answers E V w rs (pl_query (env_plugin E) (select_text cols T cs listed) w)))"

definition count_law :: "'w env \<Rightarrow> 'w database \<Rightarrow> bool" where
  "count_law E V \<longleftrightarrow>
     (\<forall>T cs ls w. schema_table T \<and> list_all (\<lambda>c. column_name (fst c)) cs \<and> list_all2 (denotes V) (map snd cs) ls \<longrightarrow>
        answers E V w
          [[Some (dec_nat (size (filter_mset (matches T (zip (map fst cs) ls) True) (db_rows (contents V w)))))]]
          (pl_query (env_plugin E) (count_text T cs) w))"

definition max_law :: "'w env \<Rightarrow> 'w database \<Rightarrow> bool" where
  "max_law E V \<longleftrightarrow>
     (\<forall>T i w. schema_table T \<and> (\<exists>r \<in># db_rows (contents V w). fst r = T \<and> cell r ''_ident'' = L_int i) \<and>
        (\<forall>r \<in># db_rows (contents V w). fst r = T \<longrightarrow> (\<exists>j. cell r ''_ident'' = L_int j \<and> j \<le> i)) \<longrightarrow>
        answers E V w [[Some (dec_int i)]] (pl_query (env_plugin E) (last_ident_query T) w))"

definition bracket_law :: "'w env \<Rightarrow> 'w database \<Rightarrow> bool" where
  "bracket_law E V \<longleftrightarrow>
     (\<forall>q w. q \<in> {''BEGIN'', ''COMMIT''} \<longrightarrow>
        (\<exists>w'. pl_query (env_plugin E) q w = (Inr None, w') \<and> contents V w' = contents V w))"

definition result_law :: "'w env \<Rightarrow> 'w database \<Rightarrow> bool" where
  "result_law E V \<longleftrightarrow>
     (\<forall>w t r rs. db_pending (contents V w) t = Some (r # rs) \<longrightarrow>
        (\<exists>h w'. plugin_sql_fetch_row (env_plugin E) t w = (Inr (Some h), w') \<and>
           contents V w' = (contents V w)
             \<lparr>db_pending := (db_pending (contents V w))(t := Some rs),
              db_fetched := (db_fetched (contents V w))(t := (db_fetched (contents V w) t)(h := Some r))\<rparr>)) \<and>
     (\<forall>w t. db_pending (contents V w) t = Some [] \<longrightarrow>
        (\<exists>w'. plugin_sql_fetch_row (env_plugin E) t w = (Inr None, w') \<and> contents V w' = contents V w)) \<and>
     (\<forall>w t h r c. db_fetched (contents V w) t h = Some r \<and> c < length r \<longrightarrow>
        (\<exists>w'. plugin_sql_fetch_field (env_plugin E) t h c w = (Inr (r ! c), w') \<and> contents V w' = contents V w)) \<and>
     (\<forall>w t. contents V (pl_resource_destroy (env_plugin E) t w) =
        (contents V w)\<lparr>db_pending := (db_pending (contents V w))(t := None)\<rparr>)"

definition sql_database :: "'w env \<Rightarrow> 'w database \<Rightarrow> bool" where
  "sql_database E V \<longleftrightarrow> literal_law E V \<and> escape_law E V \<and> insert_law E V \<and> select_law E V \<and> count_law E V \<and>
     max_law E V \<and> bracket_law E V \<and> result_law E V"

abbreviation database_of :: "'w database \<Rightarrow> 'w sql \<Rightarrow> db_state" where
  "database_of V s \<equiv> contents V (sql_world s)"

section \<open>Running on a connection\<close>

lemma on_world_run: "f (sql_world s) = (r, w') \<Longrightarrow> on_world f s = (r, s\<lparr>sql_world := w'\<rparr>)"
  by (simp add: on_world_def)

lemma connected_update [simp]:
  "connected (s\<lparr>sql_world := w\<rparr>) = connected s" "connected (lock s) = connected s"
  "connected (unlock s) = connected s" "connected (log_query q s) = connected s"
  "connected (s\<lparr>lock_depth := d\<rparr>) = connected s"
  by (simp_all add: connected_def lock_def unlock_def log_query_def)

lemma world_update [simp]:
  "sql_world (lock s) = sql_world s" "sql_world (unlock s) = sql_world s" "sql_world (log_query q s) = sql_world s"
  by (simp_all add: lock_def unlock_def log_query_def)

text \<open>What an operation leaves of the connection when it succeeds.\<close>

definition same_session :: "'w sql \<Rightarrow> 'w sql \<Rightarrow> bool" where
  "same_session s s' \<longleftrightarrow> status s' = status s \<and> internal_transaction_disabled s' = internal_transaction_disabled s"

lemma same_session_refl [simp]: "same_session s s"
  by (simp add: same_session_def)

lemma same_session_trans: "same_session s t \<Longrightarrow> same_session t u \<Longrightarrow> same_session s u"
  by (simp add: same_session_def)

lemma same_session_connected: "same_session s s' \<Longrightarrow> connected s' = connected s"
  by (simp add: same_session_def connected_def)

lemma same_session_update [simp]:
  "same_session s (t\<lparr>sql_world := w\<rparr>) = same_session s t" "same_session s (lock t) = same_session s t"
  "same_session s (unlock t) = same_session s t" "same_session s (log_query q t) = same_session s t"
  by (simp_all add: same_session_def lock_def unlock_def log_query_def)

lemma query_run:
  assumes "connected s" "pl_query (env_plugin E) q (sql_world s) = (Inr x, w')"
  shows "\<exists>s'. same_session s s' \<and> sql_world s' = w' \<and>
    requiemdb_sql_query E q want s =
      (case x of None \<Rightarrow> (Inr (0, None), s')
       | Some h \<Rightarrow> if want then (Inr (pl_get_row_count (env_plugin E) w' h, Some h), s') else (Inl NullDeref, s'))"
proof -
  have "connected (lock s)" "pl_query (env_plugin E) q (sql_world (lock s)) = (Inr x, w')"
    using assms by simp_all
  then show ?thesis
    by (auto simp: requiemdb_sql_query_def assert_connected_def on_world_run Let_def split: option.split
        intro!: exI [of _ "log_query q (unlock ((lock s)\<lparr>sql_world := w'\<rparr>))"])
qed

lemma locked_run:
  assumes "connected s" "f (sql_world s) = (Inr x, w')"
  shows "\<exists>s'. locked_world_op E f s = (Inr x, s') \<and> same_session s s' \<and> sql_world s' = w'"
  using assms by (auto simp: locked_world_op_def assert_connected_def on_world_run)

lemma fetch_row_run:
  assumes "plugin_sql_fetch_row (env_plugin E) t (sql_world s) = (Inr x, w')"
  shows "requiemdb_sql_table_fetch_row E t s = (Inr x, s\<lparr>sql_world := w'\<rparr>)"
  using assms by (simp add: requiemdb_sql_table_fetch_row_def noting_errno_def on_world_run)

lemma fetch_field_run:
  assumes "plugin_sql_fetch_field (env_plugin E) t h c (sql_world s) = (Inr x, w')"
  shows "requiemdb_sql_row_fetch_field E t h c s = (Inr x, s\<lparr>sql_world := w'\<rparr>)"
  using assms by (simp add: requiemdb_sql_row_fetch_field_def noting_errno_def on_world_run)

section \<open>What an operation writes\<close>

text \<open>
  The operation succeeds, has added exactly the rows \<open>rs\<close>, to detail tables, and its value
  satisfies \<open>Q\<close>.
\<close>

definition writes :: "'w database \<Rightarrow> ('a \<Rightarrow> bool) \<Rightarrow> sql_row list \<Rightarrow> ('w, 'a) sqlop \<Rightarrow> bool" where
  "writes V Q rs f \<longleftrightarrow>
     (\<forall>s. connected s \<longrightarrow>
        (\<exists>x s'. f s = (Inr x, s') \<and> same_session s s' \<and> Q x \<and>
           db_rows (database_of V s') = db_rows (database_of V s) + mset rs \<and>
           db_next (database_of V s') = db_next (database_of V s)))"

abbreviation any_value :: "'a \<Rightarrow> bool" where "any_value \<equiv> \<lambda>_. True"

lemma writesI:
  "(\<And>s. connected s \<Longrightarrow> \<exists>x s'. f s = (Inr x, s') \<and> same_session s s' \<and> Q x \<and>
     db_rows (database_of V s') = db_rows (database_of V s) + mset rs \<and>
     db_next (database_of V s') = db_next (database_of V s)) \<Longrightarrow> writes V Q rs f"
  unfolding writes_def by blast

lemma writesE:
  assumes "writes V Q rs f" "connected s"
  obtains x s' where "f s = (Inr x, s')" "same_session s s'" "Q x"
    "db_rows (database_of V s') = db_rows (database_of V s) + mset rs"
    "db_next (database_of V s') = db_next (database_of V s)"
  using assms unfolding writes_def by blast

lemma writes_retn: "Q a \<Longrightarrow> writes V Q [] (retn a)"
  by (rule writesI) auto

lemma writes_bindr:
  assumes "writes V Q r1 f" "\<And>x. Q x \<Longrightarrow> writes V R r2 (g x)"
  shows "writes V R (r1 @ r2) (bindr f g)"
proof (rule writesI)
  fix s :: "'a sql" assume c: "connected s"
  from assms(1) c obtain a s1 where f: "f s = (Inr a, s1)" "same_session s s1" "Q a"
    "db_rows (database_of V s1) = db_rows (database_of V s) + mset r1"
    "db_next (database_of V s1) = db_next (database_of V s)" by (rule writesE)
  have "connected s1" using c f(2) by (simp add: same_session_connected)
  with assms(2) [OF f(3)] obtain x s2 where "g a s1 = (Inr x, s2)" "same_session s1 s2" "R x"
    "db_rows (database_of V s2) = db_rows (database_of V s1) + mset r2"
    "db_next (database_of V s2) = db_next (database_of V s1)" by (rule writesE)
  with f show "\<exists>x s'. bindr f g s = (Inr x, s') \<and> same_session s s' \<and> R x \<and>
      db_rows (database_of V s') = db_rows (database_of V s) + mset (r1 @ r2) \<and>
      db_next (database_of V s') = db_next (database_of V s)"
    by (auto intro: same_session_trans)
qed

text \<open>A first operation that writes nothing.\<close>

lemma writes_quiet_bindr:
  "writes V Q [] f \<Longrightarrow> (\<And>x. Q x \<Longrightarrow> writes V R rs (g x)) \<Longrightarrow> writes V R rs (bindr f g)"
  using writes_bindr [of V Q "[]" f R rs g] by simp

lemma writes_failing_with: "writes V Q rs f \<Longrightarrow> writes V Q rs (failing_with n f)"
  unfolding writes_def failing_with_def by fastforce

lemma writes_freeing_unset: "writes V Q rs f \<Longrightarrow> writes V Q rs (freeing_unset f)"
  unfolding writes_def freeing_unset_def by fastforce

lemma store_run:
  assumes "sql_database E V" "schema_table T" "list_all2 (denotes V) vals ls"
    "length (column_names cols) = length vals" "connected s" "column_text cols"
  shows "\<exists>s' i. store E T cols vals s = (Inr (), s') \<and> same_session s s' \<and> db_next (database_of V s) T < i \<and>
    db_rows (database_of V s') = add_mset (new_row (database_of V s) T cols ls) (db_rows (database_of V s)) \<and>
    db_next (database_of V s') =
      (if numbered T then (db_next (database_of V s))(T := i) else db_next (database_of V s))"
proof -
  obtain w' i where q: "pl_query (env_plugin E) (insert_text T cols (joined '', '' vals)) (sql_world s) = (Inr None, w')"
    and i: "db_next (contents V (sql_world s)) T < i"
    and c: "contents V w' = (contents V (sql_world s))
             \<lparr>db_rows := add_mset (new_row (contents V (sql_world s)) T cols ls) (db_rows (contents V (sql_world s))),
              db_next := (if numbered T then (db_next (contents V (sql_world s)))(T := i)
                          else db_next (contents V (sql_world s)))\<rparr>"
    using assms(1-4,6) unfolding sql_database_def insert_law_def by blast
  obtain s' where "same_session s s'" "sql_world s' = w'"
    "requiemdb_sql_query E (insert_text T cols (joined '', '' vals)) False s = (Inr (0, None), s')"
    using query_run [OF assms(5) q, of False] by auto
  with i c show ?thesis
    by (auto simp: store_def requiemdb_sql_insert_def sql_exec_def intro!: exI [of _ s'])
qed

lemma writes_store:
  assumes "sql_database E V" "schema_table T" "\<not> numbered T" "list_all2 (denotes V) vals ls"
    "column_names cols = ns" "length ns = length vals" "column_text cols"
  shows "writes V any_value [(T, zip ns ls)] (store E T cols vals)"
    and "writes V any_value [(T, zip ns ls)] (ignoring_result (store E T cols vals))"
proof -
  have run: "\<exists>s1. store E T cols vals s = (Inr (), s1) \<and> same_session s s1 \<and>
      db_rows (database_of V s1) = db_rows (database_of V s) + mset [(T, zip ns ls)] \<and>
      db_next (database_of V s1) = db_next (database_of V s)" if "connected s" for s
    using store_run [OF assms(1,2,4) _ that assms(7)] assms(3,5,6) by (auto simp: new_row_def)
  show "writes V any_value [(T, zip ns ls)] (store E T cols vals)"
    using run by (intro writesI) blast
  show "writes V any_value [(T, zip ns ls)] (ignoring_result (store E T cols vals))"
    using run by (intro writesI) (fastforce simp: ignoring_result_def)
qed

text \<open>The literal of an optional string.\<close>

definition text_lit :: "string option \<Rightarrow> lit" where
  "text_lit t = (case t of None \<Rightarrow> L_null | Some x \<Rightarrow> L_text (cstr x))"

lemma no_nul_cstr: "NUL \<notin> set (cstr t)"
  by (auto simp: cstr_def dest: set_takeWhileD)

lemma writes_escape:
  assumes "sql_database E V"
  shows "writes V (\<lambda>x. denotes V x (text_lit t)) [] (requiemdb_sql_escape E t)"
proof (rule writesI)
  fix s :: "'a sql" assume c: "connected s"
  show "\<exists>x s'. requiemdb_sql_escape E t s = (Inr x, s') \<and> same_session s s' \<and> denotes V x (text_lit t) \<and>
      db_rows (database_of V s') = db_rows (database_of V s) + mset [] \<and>
      db_next (database_of V s') = db_next (database_of V s)"
  proof (cases t)
    case None
    with assms show ?thesis
      by (auto simp: requiemdb_sql_escape_def text_lit_def sql_database_def literal_law_def)
  next
    case (Some y)
    obtain x' w' where e: "plugin_sql_escape (env_plugin E) (cstr y) (sql_world s) = (Inr x', w')"
      "contents V w' = contents V (sql_world s)" "denotes V x' (L_text (cstr y))"
      using assms no_nul_cstr [of y] unfolding sql_database_def escape_law_def by blast
    with locked_run [where f = "plugin_sql_escape (env_plugin E) (cstr y)", OF c e(1), of E] Some show ?thesis
      by (auto simp: requiemdb_sql_escape_def requiemdb_sql_escape_fast_def text_lit_def)
  qed
qed

lemma writes_escape_binary:
  assumes "sql_database E V"
  shows "writes V (\<lambda>x. denotes V x (L_text (stored_binary V b))) [] (requiemdb_sql_escape_binary E b)"
proof (rule writesI)
  fix s :: "'a sql" assume c: "connected s"
  obtain x' w' where e: "plugin_sql_escape_binary (env_plugin E) b (sql_world s) = (Inr x', w')"
    "contents V w' = contents V (sql_world s)" "denotes V x' (L_text (stored_binary V b))"
    using assms unfolding sql_database_def escape_law_def by blast
  with locked_run [where f = "plugin_sql_escape_binary (env_plugin E) b", OF c e(1), of E]
  show "\<exists>x s'. requiemdb_sql_escape_binary E b s = (Inr x, s') \<and> same_session s s' \<and>
      denotes V x (L_text (stored_binary V b)) \<and>
      db_rows (database_of V s') = db_rows (database_of V s) + mset [] \<and>
      db_next (database_of V s') = db_next (database_of V s)"
    by (auto simp: requiemdb_sql_escape_binary_def)
qed

text \<open>Children, and the last one once more.\<close>

fun rows_from :: "(int \<Rightarrow> 'a \<Rightarrow> sql_row list) \<Rightarrow> int \<Rightarrow> 'a list \<Rightarrow> sql_row list" where
  "rows_from g i [] = []"
| "rows_from g i (x # xs) = g i x @ rows_from g (i + 1) xs"

definition indexed_rows :: "(int \<Rightarrow> 'a \<Rightarrow> sql_row list) \<Rightarrow> 'a list \<Rightarrow> sql_row list" where
  "indexed_rows g xs = rows_from g 0 xs @ (if xs = [] then [] else g (- 1) (last xs))"

definition optional_rows :: "('a \<Rightarrow> sql_row list) \<Rightarrow> 'a option \<Rightarrow> sql_row list" where
  "optional_rows g x = (case x of None \<Rightarrow> [] | Some y \<Rightarrow> g y)"

lemma writes_insert_from:
  "(\<And>i x. x \<in> set xs \<Longrightarrow> writes V any_value (g i x) (f i x)) \<Longrightarrow> writes V any_value (rows_from g i xs) (insert_from f i xs)"
  by (induction f i xs rule: insert_from.induct) (auto intro!: writes_retn writes_bindr [where Q = any_value])

lemma writes_insert_indexed:
  assumes "\<And>i x. x \<in> set xs \<Longrightarrow> writes V any_value (g i x) (f i x)"
  shows "writes V any_value (indexed_rows g xs) (insert_indexed f xs)"
  unfolding insert_indexed_def indexed_rows_def using assms
  by (intro writes_bindr [where Q = any_value] writes_insert_from) (simp_all add: writes_retn)

lemma writes_insert_optional:
  "(\<And>y. x = Some y \<Longrightarrow> writes V any_value (g y) (f y)) \<Longrightarrow> writes V any_value (optional_rows g x) (insert_optional f x)"
  by (cases x) (auto simp: optional_rows_def insert_optional_def intro: writes_retn)

end
