(* ===== verification/SqlReads.thy ===== *)
theory SqlReads
  imports SqlStore
begin

text \<open>
  What an operation reads from a database that keeps its rows: the judgement \<open>reads\<close>, a rule
  for each way \<open>classic-get.c\<close> queries a table, and the rows a SELECT finds among those a
  message was stored as.
\<close>

section \<open>The judgement\<close>

text \<open>
  An operation with a value the rows determine: it succeeds with this value, and leaves the
  rows and every result set that was open as they were.  \<open>K\<close> says what is known of the
  result set around it.
\<close>

definition frame :: "db_state \<Rightarrow> db_state \<Rightarrow> bool" where
  "frame c c' \<longleftrightarrow>
     (\<forall>t. db_pending c t \<noteq> None \<longrightarrow> db_pending c' t = db_pending c t \<and> db_fetched c' t = db_fetched c t)"

definition at_row :: "sql_res \<Rightarrow> sql_rowh \<Rightarrow> string option list \<Rightarrow> db_state \<Rightarrow> bool" where
  "at_row t h vs c \<longleftrightarrow> db_pending c t \<noteq> None \<and> db_fetched c t h = Some vs"

definition stable :: "(db_state \<Rightarrow> bool) \<Rightarrow> bool" where
  "stable K \<longleftrightarrow> (\<forall>c c'. K c \<and> frame c c' \<longrightarrow> K c')"

definition reads :: "'w database \<Rightarrow> sql_row multiset \<Rightarrow> (db_state \<Rightarrow> bool) \<Rightarrow> 'a \<Rightarrow> ('w, 'a) sqlop \<Rightarrow> bool" where
  "reads V D K x f \<longleftrightarrow>
     (\<forall>s. connected s \<and> db_rows (database_of V s) = D \<and> K (database_of V s) \<longrightarrow>
        (\<exists>s'. f s = (Inr x, s') \<and> connected s' \<and> db_rows (database_of V s') = D \<and>
              frame (database_of V s) (database_of V s')))"

named_theorems reads_intros \<open>how an operation reads the database\<close>

lemma frame_refl: "frame c c"
  by (simp add: frame_def)

lemma frame_trans: "frame a b \<Longrightarrow> frame b c \<Longrightarrow> frame a c"
  by (simp add: frame_def)

lemma stable_True [simp]: "stable (\<lambda>_. True)"
  by (simp add: stable_def)

lemma stable_at_row [simp]: "stable (at_row t h vs)"
  by (auto simp: stable_def at_row_def frame_def)

lemma readsI:
  "(\<And>s. connected s \<Longrightarrow> db_rows (database_of V s) = D \<Longrightarrow> K (database_of V s) \<Longrightarrow>
     \<exists>s'. f s = (Inr x, s') \<and> connected s' \<and> db_rows (database_of V s') = D \<and>
       frame (database_of V s) (database_of V s')) \<Longrightarrow> reads V D K x f"
  unfolding reads_def by blast

lemma readsE:
  assumes "reads V D K x f" "connected s" "db_rows (database_of V s) = D" "K (database_of V s)"
  obtains s' where "f s = (Inr x, s')" "connected s'" "db_rows (database_of V s') = D"
    "frame (database_of V s) (database_of V s')"
  using assms unfolding reads_def by blast

lemma reads_weaken: "reads V D (\<lambda>_. True) x f \<Longrightarrow> reads V D K x f"
  unfolding reads_def by blast

lemma reads_retn [reads_intros]: "x = y \<Longrightarrow> reads V D K x (retn y)"
  by (rule readsI) (simp add: frame_refl)

lemma reads_retn_same [simp]: "reads V D K x (retn x)"
  by (simp add: reads_retn)

lemma reads_Pair [simp]: "reads V D K x (Pair (Inr y)) \<longleftrightarrow> (\<forall>s. connected s \<and> db_rows (database_of V s) = D \<and> K (database_of V s) \<longrightarrow> y = x)"
  by (auto simp: reads_def frame_refl)

lemma reads_bindr [reads_intros]:
  assumes "stable K" "reads V D K x f" "reads V D K y (g x)"
  shows "reads V D K y (bindr f g)"
proof (rule readsI)
  fix s assume s: "connected s" "db_rows (database_of V s) = D" "K (database_of V s)"
  from assms(2) s obtain s1 where s1: "f s = (Inr x, s1)" "connected s1" "db_rows (database_of V s1) = D"
    "frame (database_of V s) (database_of V s1)" by (rule readsE)
  with assms(1) s have "K (database_of V s1)" by (auto simp: stable_def)
  with assms(3) s1(2,3) obtain s2 where "g x s1 = (Inr y, s2)" "connected s2" "db_rows (database_of V s2) = D"
    "frame (database_of V s1) (database_of V s2)" by (rule readsE)
  with s1 show "\<exists>s'. bindr f g s = (Inr y, s') \<and> connected s' \<and> db_rows (database_of V s') = D \<and>
      frame (database_of V s) (database_of V s')"
    by (auto intro: frame_trans)
qed

lemma reads_each_child [reads_intros]:
  "(\<And>j. j < length xs \<Longrightarrow> reads V D (\<lambda>_. True) (ys ! j) (f (i + int j) (xs ! j))) \<Longrightarrow> length ys = length xs \<Longrightarrow>
   reads V D (\<lambda>_. True) ys (each_child i f xs)"
proof (induction xs arbitrary: i ys)
  case Nil
  then show ?case by (auto intro: reads_retn)
next
  case (Cons x xs)
  then obtain z zs where ys: "ys = z # zs" "length zs = length xs" by (cases ys) auto
  have "reads V D (\<lambda>_. True) (zs ! j) (f (i + 1 + int j) (xs ! j))" if "j < length xs" for j
    using Cons.prems(1) [of "Suc j"] that ys by (simp add: algebra_simps)
  then have "reads V D (\<lambda>_. True) zs (each_child (i + 1) f xs)" using ys by (intro Cons.IH)
  with Cons.prems(1) [of 0] ys show ?case by (auto intro!: reads_bindr [of _ _ _ z] reads_bindr [of _ _ _ zs] reads_retn)
qed

section \<open>Fields\<close>

lemma reads_field [reads_intros]:
  assumes "sql_database E V" "i < length vs"
  shows "reads V D (at_row t h vs) (vs ! i) (requiemdb_sql_row_fetch_field E t h i)"
proof (rule readsI)
  fix s :: "'a sql" assume s: "connected s" "db_rows (database_of V s) = D" "at_row t h vs (database_of V s)"
  then obtain w' where "plugin_sql_fetch_field (env_plugin E) t h i (sql_world s) = (Inr (vs ! i), w')"
    "contents V w' = database_of V s"
    using assms unfolding sql_database_def result_law_def at_row_def by blast
  with s fetch_field_run [of E t h i s] show
    "\<exists>s'. requiemdb_sql_row_fetch_field E t h i s = (Inr (vs ! i), s') \<and> connected s' \<and>
       db_rows (database_of V s') = D \<and> frame (database_of V s) (database_of V s')"
    by (auto simp: frame_refl)
qed

lemma reads_string_field [reads_intros]:
  assumes "sql_database E V" "i < length vs"
  shows "reads V D (at_row t h vs) (map_option Some (vs ! i)) (get_string_field E t h i)"
  unfolding get_string_field_def
  by (rule reads_bindr [OF stable_at_row reads_field [OF assms]]) simp

lemma reads_enum [reads_intros]:
  assumes "sql_database E V" "i < length vs"
  shows "reads V D (at_row t h vs) (map_option (\<lambda>v. enum_to_numeric E k (cstr v)) (vs ! i)) (get_enum E k t h i)"
  unfolding get_enum_def by (rule reads_bindr [OF stable_at_row reads_field [OF assms]]) simp

lemma reads_required_enum [reads_intros]:
  assumes "sql_database E V" "i < length vs"
  shows "reads V D (at_row t h vs)
    (case vs ! i of None \<Rightarrow> enum_default E k | Some v \<Rightarrow> enum_to_numeric E k (cstr v)) (get_required_enum E k t h i)"
  unfolding get_required_enum_def
  by (rule reads_bindr [OF stable_at_row reads_enum [OF assms]]) (simp split: option.split)

lemma reads_uint [reads_intros]:
  assumes "sql_database E V" "i < length vs" "\<And>v. vs ! i = Some v \<Longrightarrow> to_number v = Inr (Stored (number v))"
  shows "reads V D (at_row t h vs) (map_option (\<lambda>v. word_of_int (number v)) (vs ! i)) (get_uint to_number E t h i)"
  unfolding get_uint_def get_number_def bindr_assoc
  by (intro reads_bindr [OF stable_at_row reads_field [OF assms(1,2)]])
    (auto simp: assms(3) intro: reads_retn split: option.split)

section \<open>Result sets\<close>

lemma reads_first_row:
  assumes db: "sql_database E V" and body: "\<And>h. reads V D (at_row t h r) x (body h)"
    and s: "connected s" "db_rows (database_of V s) = D" "db_pending (database_of V s) t = Some [r]"
  shows "\<exists>s'. first_row E t body s = (Inr (Some x), s') \<and> connected s' \<and> db_rows (database_of V s') = D \<and>
    (\<forall>u. u \<noteq> t \<longrightarrow> db_pending (database_of V s) u \<noteq> None \<longrightarrow>
       db_pending (database_of V s') u = db_pending (database_of V s) u \<and>
       db_fetched (database_of V s') u = db_fetched (database_of V s) u)"
proof -
  let ?c = "database_of V s"
  obtain h w' where f: "plugin_sql_fetch_row (env_plugin E) t (sql_world s) = (Inr (Some h), w')"
    and c: "contents V w' = ?c\<lparr>db_pending := (db_pending ?c)(t := Some []),
              db_fetched := (db_fetched ?c)(t := (db_fetched ?c t)(h := Some r))\<rparr>"
    using db s(3) unfolding sql_database_def result_law_def by blast
  let ?s1 = "s\<lparr>sql_world := w'\<rparr>"
  have "connected ?s1" "db_rows (database_of V ?s1) = D" "at_row t h r (database_of V ?s1)"
    using s c by (simp_all add: at_row_def)
  with body [of h] obtain s2 where s2: "body h ?s1 = (Inr x, s2)" "connected s2" "db_rows (database_of V s2) = D"
    "frame (database_of V ?s1) (database_of V s2)" by (rule readsE)
  have "first_row E t body s = (Inr (Some x), s2)"
    using fetch_row_run [OF f] s2(1) by (simp add: first_row_def)
  with s2 c show ?thesis by (auto simp: frame_def intro!: exI [of _ s2])
qed

lemma reads_each_row:
  assumes db: "sql_database E V"
    and body: "\<And>j h. j < length rs \<Longrightarrow> reads V D (at_row t h (rs ! j)) (xs ! j) (body (i + int j) h)"
    and len: "length xs = length rs" "length rs < n"
    and s: "connected s" "db_rows (database_of V s) = D" "db_pending (database_of V s) t = Some rs"
  shows "\<exists>s'. each_row n E t i body s = (Inr xs, s') \<and> connected s' \<and> db_rows (database_of V s') = D \<and>
    db_pending (database_of V s') t = Some [] \<and>
    (\<forall>u. u \<noteq> t \<longrightarrow> db_pending (database_of V s) u \<noteq> None \<longrightarrow>
       db_pending (database_of V s') u = db_pending (database_of V s) u \<and>
       db_fetched (database_of V s') u = db_fetched (database_of V s) u)"
  using body len s
proof (induction rs arbitrary: xs i n s)
  case Nil
  then obtain m where n: "n = Suc m" by (cases n) auto
  obtain w' where "plugin_sql_fetch_row (env_plugin E) t (sql_world s) = (Inr None, w')"
    "contents V w' = database_of V s"
    using db Nil.prems(6) unfolding sql_database_def result_law_def by blast
  with fetch_row_run [of E t s None w'] Nil.prems n show ?case by auto
next
  case (Cons r rs)
  let ?c = "database_of V s"
  obtain m where n: "n = Suc m" "length rs < m" using Cons.prems(3) by (cases n) auto
  obtain z zs where xs: "xs = z # zs" "length zs = length rs" using Cons.prems(2) by (cases xs) auto
  obtain h w' where f: "plugin_sql_fetch_row (env_plugin E) t (sql_world s) = (Inr (Some h), w')"
    and c: "contents V w' = ?c\<lparr>db_pending := (db_pending ?c)(t := Some rs),
              db_fetched := (db_fetched ?c)(t := (db_fetched ?c t)(h := Some r))\<rparr>"
    using db Cons.prems(6) unfolding sql_database_def result_law_def by blast
  let ?s1 = "s\<lparr>sql_world := w'\<rparr>"
  have s1: "connected ?s1" "db_rows (database_of V ?s1) = D" "at_row t h r (database_of V ?s1)"
    using Cons.prems c by (simp_all add: at_row_def)
  have "reads V D (at_row t h r) z (body i h)" using Cons.prems(1) [of 0 h] xs by simp
  then obtain s2 where s2: "body i h ?s1 = (Inr z, s2)" "connected s2" "db_rows (database_of V s2) = D"
    "frame (database_of V ?s1) (database_of V s2)" using s1 by (rule readsE)
  have "reads V D (at_row t h (rs ! j)) (zs ! j) (body (i + 1 + int j) h)" if "j < length rs" for j h
    using Cons.prems(1) [of "Suc j" h] that xs by (simp add: algebra_simps)
  moreover have "db_pending (database_of V s2) t = Some rs" using s2(4) c by (simp add: frame_def)
  ultimately obtain s3 where s3: "each_row m E t (i + 1) body s2 = (Inr zs, s3)" "connected s3"
    "db_rows (database_of V s3) = D" "db_pending (database_of V s3) t = Some []"
    "\<forall>u. u \<noteq> t \<longrightarrow> db_pending (database_of V s2) u \<noteq> None \<longrightarrow>
       db_pending (database_of V s3) u = db_pending (database_of V s2) u \<and>
       db_fetched (database_of V s3) u = db_fetched (database_of V s2) u"
    using Cons.IH [of zs "i + 1" m s2] xs n s2 by blast
  have "each_row n E t i body s = (Inr xs, s3)"
    using fetch_row_run [OF f] s2(1) s3(1) n xs by simp
  with s2(4) s3 c show ?case by (auto simp: frame_def intro!: exI [of _ s3])
qed

text \<open>A query and a body that works through its result set.\<close>

definition works_through ::
    "'w database \<Rightarrow> sql_row multiset \<Rightarrow> string option list list \<Rightarrow> 'a \<Rightarrow> (sql_res \<Rightarrow> ('w, 'a) sqlop) \<Rightarrow> bool" where
  "works_through V D rs x body \<longleftrightarrow>
     (\<forall>t s. connected s \<and> db_rows (database_of V s) = D \<and> db_pending (database_of V s) t = Some rs \<longrightarrow>
        (\<exists>s'. body t s = (Inr x, s') \<and> connected s' \<and> db_rows (database_of V s') = D \<and>
           (\<forall>u. u \<noteq> t \<longrightarrow> db_pending (database_of V s) u \<noteq> None \<longrightarrow>
              db_pending (database_of V s') u = db_pending (database_of V s) u \<and>
              db_fetched (database_of V s') u = db_fetched (database_of V s) u)))"

lemma destroyed:
  assumes db: "sql_database E V"
    and "\<forall>u. u \<noteq> t \<longrightarrow> db_pending c u \<noteq> None \<longrightarrow>
       db_pending (database_of V s) u = db_pending c u \<and> db_fetched (database_of V s) u = db_fetched c u"
    and "c = d\<lparr>db_pending := (db_pending d)(t := Some rs)\<rparr>" "db_pending d t = None"
  shows "frame d (database_of V (requiemdb_sql_table_destroy E t s))"
proof -
  have e: "contents V (pl_resource_destroy (env_plugin E) t w) =
      (contents V w)\<lparr>db_pending := (db_pending (contents V w))(t := None)\<rparr>" for w
    using db by (simp add: sql_database_def result_law_def)
  show ?thesis using assms(2-4) by (auto simp: frame_def requiemdb_sql_table_destroy_def e)
qed

lemma destroy_keeps_rows:
  assumes "sql_database E V"
  shows "db_rows (database_of V (requiemdb_sql_table_destroy E t s)) = db_rows (database_of V s)"
    "connected (requiemdb_sql_table_destroy E t s) = connected s"
proof -
  have "contents V (pl_resource_destroy (env_plugin E) t w) =
      (contents V w)\<lparr>db_pending := (db_pending (contents V w))(t := None)\<rparr>" for w
    using assms by (simp add: sql_database_def result_law_def)
  then show "db_rows (database_of V (requiemdb_sql_table_destroy E t s)) = db_rows (database_of V s)"
    by (simp add: requiemdb_sql_table_destroy_def)
qed (simp add: requiemdb_sql_table_destroy_def)

text \<open>The shape of all queries: an operation for the case without rows, or the body.\<close>

lemma reads_query:
  assumes db: "sql_database E V"
    and ans: "\<And>w. db_rows (contents V w) = D \<Longrightarrow> answers E V w rs (pl_query (env_plugin E) q w)"
    and empty: "rs = [] \<Longrightarrow> reads V D K x none"
    and body: "rs \<noteq> [] \<Longrightarrow> works_through V D rs x body"
  shows "reads V D K x (bindr (requiemdb_sql_query E q True) (\<lambda>(n, res).
       if n = 0 then none else case res of None \<Rightarrow> failw UndefinedValue | Some t \<Rightarrow> destroying E t (body t)))"
    (is "reads V D K x ?run")
proof (rule readsI)
  fix s assume s: "connected s" "db_rows (database_of V s) = D" and K: "K (database_of V s)"
  obtain r w' where q: "pl_query (env_plugin E) q (sql_world s) = (r, w')" by fastforce
  with ans [of "sql_world s"] s have a: "answers E V (sql_world s) rs (r, w')" by simp
  show "\<exists>s'. ?run s = (Inr x, s') \<and> connected s' \<and> db_rows (database_of V s') = D \<and>
      frame (database_of V s) (database_of V s')"
  proof (cases "rs = []")
    case True
    with a have r: "r = Inr None" and c: "contents V w' = database_of V s" by (simp_all add: answers_def)
    obtain s1 where s1: "same_session s s1" "sql_world s1 = w'" "requiemdb_sql_query E q True s = (Inr (0, None), s1)"
      using query_run [OF s(1) q [unfolded r], of True] by auto
    have "db_rows (database_of V s1) = D" "K (database_of V s1)" using s1(2) c s K by simp_all
    moreover have "connected s1" using s1(1) s(1) by (simp add: same_session_connected)
    ultimately obtain s2 where s2: "none s1 = (Inr x, s2)" "connected s2" "db_rows (database_of V s2) = D"
      "frame (database_of V s1) (database_of V s2)"
      using empty [OF True] unfolding reads_def by blast
    with s1 c show ?thesis by auto
  next
    case False
    with a obtain h where r: "r = Inr (Some h)" and new: "db_pending (database_of V s) h = None"
      and n: "pl_get_row_count (env_plugin E) w' h = length rs"
      and c: "contents V w' = (database_of V s)\<lparr>db_pending := (db_pending (database_of V s))(h := Some rs)\<rparr>"
      by (auto simp: answers_def)
    obtain s1 where s1: "same_session s s1" "sql_world s1 = w'" "requiemdb_sql_query E q True s = (Inr (length rs, Some h), s1)"
      using query_run [OF s(1) q [unfolded r], of True] n by auto
    have "connected s1" "db_rows (database_of V s1) = D" "db_pending (database_of V s1) h = Some rs"
      using s1(1,2) c s by (simp_all add: same_session_connected)
    then obtain s2 where s2: "body h s1 = (Inr x, s2)" "connected s2" "db_rows (database_of V s2) = D"
      "\<forall>u. u \<noteq> h \<longrightarrow> db_pending (database_of V s1) u \<noteq> None \<longrightarrow>
        db_pending (database_of V s2) u = db_pending (database_of V s1) u \<and>
        db_fetched (database_of V s2) u = db_fetched (database_of V s1) u"
      using body [OF False] unfolding works_through_def by blast
    have "frame (database_of V s) (database_of V (requiemdb_sql_table_destroy E h s2))"
      by (rule destroyed [OF db s2(4)]) (use s1(2) c new in auto)
    moreover have "?run s = (Inr x, requiemdb_sql_table_destroy E h s2)"
      using s1(3) s2(1) False by (simp add: destroying_def)
    ultimately show ?thesis using s2(2,3) destroy_keeps_rows [OF db] by auto
  qed
qed

lemma reads_with_answer:
  assumes "sql_database E V" "\<And>w. db_rows (contents V w) = D \<Longrightarrow> answers E V w rs (pl_query (env_plugin E) q w)"
    and "rs = [] \<Longrightarrow> x = none" "rs \<noteq> [] \<Longrightarrow> works_through V D rs x body"
  shows "reads V D K x (with_result E q none body)"
  unfolding with_result_def by (rule reads_query [OF assms(1,2)]) (use assms(3,4) in \<open>auto simp: reads_retn\<close>)

text \<open>A query whose failure is ignored does not fail.\<close>

lemma reads_ignoring_query_failure:
  assumes "reads V D K x (with_result E q none body)"
  shows "reads V D K x (ignoring_query_failure E q none body)"
proof (rule readsI)
  fix s assume "connected s" "db_rows (database_of V s) = D" "K (database_of V s)"
  with assms obtain s' where s': "with_result E q none body s = (Inr x, s')" "connected s'" "db_rows (database_of V s') = D"
    "frame (database_of V s) (database_of V s')" by (rule readsE)
  have "ignoring_query_failure E q none body s = (Inr x, s')"
    using s'(1) by (cases "requiemdb_sql_query E q True s"; cases "fst (requiemdb_sql_query E q True s)")
      (auto simp: with_result_def ignoring_query_failure_def bindr_def)
  with s' show "\<exists>s'. ignoring_query_failure E q none body s = (Inr x, s') \<and> connected s' \<and>
      db_rows (database_of V s') = D \<and> frame (database_of V s) (database_of V s')" by blast
qed

section \<open>SELECT on known rows\<close>

text \<open>Literals as the conditions of the code spell them.\<close>

fun lit_text :: "lit \<Rightarrow> string" where
  "lit_text L_null = ''NULL''"
| "lit_text (L_int i) = dec_int i"
| "lit_text (L_text t) = [CHR 0x27] @ t @ [CHR 0x27]"

fun plain_lit :: "lit \<Rightarrow> bool" where
  "plain_lit L_null = False"
| "plain_lit (L_int i) = True"
| "plain_lit (L_text t) = (CHR 0x27 \<notin> set t \<and> CHR 0x5C \<notin> set t)"

definition plain_cond :: "string \<times> lit \<Rightarrow> bool" where
  [simp]: "plain_cond c \<longleftrightarrow> column_name (fst c) \<and> plain_lit (snd c)"

definition select_query :: "string \<Rightarrow> string \<Rightarrow> (string \<times> lit) list \<Rightarrow> bool \<Rightarrow> string" where
  "select_query cols T cs listed = select_text cols T (map (\<lambda>(c, v). (c, lit_text v)) cs) listed"

lemma denotes_lit_text: "sql_database E V \<Longrightarrow> plain_lit l \<Longrightarrow> denotes V (lit_text l) l"
  by (cases l) (auto simp: sql_database_def literal_law_def)

lemma denotes_conditions:
  "sql_database E V \<Longrightarrow> list_all plain_cond cs \<Longrightarrow>
   list_all2 (denotes V) (map snd (map (\<lambda>(c, v). (c, lit_text v)) cs)) (map snd cs) \<and>
   list_all (\<lambda>c. column_name (fst c)) (map (\<lambda>(c, v). (c, lit_text v)) cs)"
  by (induction cs) (auto simp: denotes_lit_text)

lemma conditions_zip: "zip (map fst (map (\<lambda>(c, v). (c, lit_text v)) cs)) (map snd cs) = cs"
  by (induction cs) auto

text \<open>The order of the result is determined when there is at most one row, or by the index.\<close>

definition in_order :: "bool \<Rightarrow> sql_row list \<Rightarrow> bool" where
  "in_order listed xs \<longleftrightarrow>
     (if listed then sorted (map index_of xs) \<and> distinct (map index_of xs) else length xs \<le> 1)"

lemma same_order:
  assumes "in_order listed xs" "mset ys = mset xs" "listed \<longrightarrow> sorted (map index_of ys)"
  shows "ys = xs"
proof (cases listed)
  case True
  with assms have "sorted (map index_of xs)" "sorted (map index_of ys)" "distinct (map index_of xs)"
    by (simp_all add: in_order_def)
  moreover from this assms(2) have "distinct (map index_of ys)"
    by (metis distinct_map mset_eq_imp_distinct_iff mset_eq_setD)
  moreover have "inj_on index_of (set ys \<union> set xs)"
    using \<open>distinct (map index_of xs)\<close> mset_eq_setD [OF assms(2)] by (simp add: distinct_map)
  ultimately show ?thesis
    using mset_eq_setD [OF assms(2)] by (metis map_sorted_distinct_set_unique)
next
  case False
  with assms have "length xs \<le> 1" by (simp add: in_order_def)
  with assms(2) show ?thesis by (cases xs) auto
qed

lemma select_answers:
  assumes "sql_database E V" "schema_table T" "list_all plain_cond cs"
    and "filter_mset (matches T cs listed) (db_rows (contents V w)) = mset xs" "in_order listed xs"
    and "column_text cols"
  shows "answers E V w (map (fields_of cols) xs) (pl_query (env_plugin E) (select_query cols T cs listed) w)"
proof -
  from assms(1) have law: "select_law E V" by (simp add: sql_database_def)
  let ?cs = "map (\<lambda>(c, v). (c, lit_text v)) cs"
  have law': "\<exists>rs. selected cols T (zip (map fst ?cs) (map snd cs)) listed (db_rows (contents V w)) rs \<and>
      answers E V w rs (pl_query (env_plugin E) (select_text cols T ?cs listed) w)"
    using law denotes_conditions [OF assms(1,3)] assms(2,6) unfolding select_law_def by blast
  then obtain rs where rs: "selected cols T cs listed (db_rows (contents V w)) rs"
    "answers E V w rs (pl_query (env_plugin E) (select_query cols T cs listed) w)"
    unfolding conditions_zip select_query_def by blast
  then obtain ys where ys: "mset ys = mset xs" "listed \<longrightarrow> sorted (map index_of ys)" "rs = map (fields_of cols) ys"
    using assms(4) unfolding selected_def by auto
  from same_order [OF assms(5) ys(1,2)] ys(3) rs(2) show ?thesis by simp
qed

lemma reads_select:
  assumes "sql_database E V" "schema_table T" "list_all plain_cond cs" "q = select_query cols T cs listed"
    and "filter_mset (matches T cs listed) D = mset xs" "in_order listed xs"
    and "xs = [] \<Longrightarrow> x = none" and "xs \<noteq> [] \<Longrightarrow> works_through V D (map (fields_of cols) xs) x body"
    and "column_text cols"
  shows "reads V D K x (with_result E q none body)"
  using assms select_answers [OF assms(1-3) _ assms(6,9)]
  by (intro reads_with_answer [where rs = "map (fields_of cols) xs"]) auto

lemma works_first_row:
  assumes "sql_database E V" "\<And>t h. reads V D (at_row t h r) x (body t h)"
  shows "works_through V D [r] (Some x) (\<lambda>t. first_row E t (body t))"
  unfolding works_through_def using reads_first_row [OF assms(1) assms(2)] by blast

lemma works_each_row:
  assumes "sql_database E V"
    and "\<And>j t h. j < length rs \<Longrightarrow> reads V D (at_row t h (rs ! j)) (xs ! j) (body t (int j) h)"
    and "length xs = length rs" "length rs < n"
  shows "works_through V D rs xs (\<lambda>t. each_row n E t 0 (body t))"
  unfolding works_through_def
proof (intro allI impI)
  fix t s assume s: "connected s \<and> db_rows (database_of V s) = D \<and> db_pending (database_of V s) t = Some rs"
  have "j < length rs \<Longrightarrow> reads V D (at_row t h (rs ! j)) (xs ! j) (body t (0 + int j) h)" for j h
    using assms(2) by simp
  from reads_each_row [OF assms(1) this assms(3,4)] s
  show "\<exists>s'. each_row n E t 0 (body t) s = (Inr xs, s') \<and> connected s' \<and> db_rows (database_of V s') = D \<and>
      (\<forall>u. u \<noteq> t \<longrightarrow> db_pending (database_of V s) u \<noteq> None \<longrightarrow>
         db_pending (database_of V s') u = db_pending (database_of V s) u \<and>
         db_fetched (database_of V s') u = db_fetched (database_of V s) u)"
    by blast
qed

text \<open>A table asked for one row.\<close>

lemma reads_one_object:
  assumes "sql_database E V" "schema_table T" "list_all plain_cond cs" "q = select_query cols T cs False"
    and "filter_mset (matches T cs False) D = mset (case y of None \<Rightarrow> [] | Some z \<Rightarrow> [row z])"
    and "\<And>z t h. y = Some z \<Longrightarrow> reads V D (at_row t h (fields_of cols (row z))) (value z) (body t h)"
    and "column_text cols"
  shows "reads V D K (map_option value y) (one_object E q body)"
  unfolding one_object_def
proof (rule reads_select [OF assms(1-5)])
  show "in_order False (case y of None \<Rightarrow> [] | Some z \<Rightarrow> [row z])" by (simp add: in_order_def split: option.split)
  show "(case y of None \<Rightarrow> [] | Some z \<Rightarrow> [row z]) = [] \<Longrightarrow> map_option value y = None" by (simp split: option.splits)
  assume "(case y of None \<Rightarrow> [] | Some z \<Rightarrow> [row z]) \<noteq> []"
  then obtain z where "y = Some z" by (auto split: option.splits)
  with works_first_row [OF assms(1) assms(6) [of z]]
  show "works_through V D (map (fields_of cols) (case y of None \<Rightarrow> [] | Some z \<Rightarrow> [row z])) (map_option value y)
      (\<lambda>t. first_row E t (body t))" by simp
qed (rule assms(7))

lemma reads_message_row:
  assumes db: "sql_database E V" and "schema_table T" "list_all plain_cond cs" "q = select_query cols T cs False"
    and "filter_mset (matches T cs False) D = mset [r]"
    and body: "\<And>t h. reads V D (at_row t h (fields_of cols r)) x (body t h)" and cols: "column_text cols"
  shows "reads V D K x (message_row E q body)"
  unfolding message_row_def
proof (rule reads_query [OF db])
  show "answers E V w (map (fields_of cols) [r]) (pl_query (env_plugin E) q w)" if "db_rows (contents V w) = D" for w
    unfolding assms(4) by (rule select_answers [OF assms(1-3)]) (use that assms(5) cols in \<open>simp_all add: in_order_def\<close>)
  show "works_through V D (map (fields_of cols) [r]) x
      (\<lambda>t. bindr (requiemdb_sql_table_fetch_row E t) (\<lambda>row. case row of None \<Rightarrow> failw UndefinedValue | Some h \<Rightarrow> body t h))"
    unfolding works_through_def
  proof (intro allI impI)
    fix t s assume s: "connected s \<and> db_rows (database_of V s) = D \<and>
        db_pending (database_of V s) t = Some (map (fields_of cols) [r])"
    then obtain s' where s': "first_row E t (body t) s = (Inr (Some x), s')" "connected s'" "db_rows (database_of V s') = D"
      "\<forall>u. u \<noteq> t \<longrightarrow> db_pending (database_of V s) u \<noteq> None \<longrightarrow>
         db_pending (database_of V s') u = db_pending (database_of V s) u \<and>
         db_fetched (database_of V s') u = db_fetched (database_of V s) u"
      using reads_first_row [OF db, of D t "fields_of cols r" x "body t" s] body by auto
    have "bindr (requiemdb_sql_table_fetch_row E t) (\<lambda>row. case row of None \<Rightarrow> failw UndefinedValue | Some h \<Rightarrow> body t h) s = (Inr x, s')"
      using s'(1) by (auto simp: first_row_def bindr_def split: prod.splits sum.splits option.splits)
    with s' show "\<exists>s'. bindr (requiemdb_sql_table_fetch_row E t)
          (\<lambda>row. case row of None \<Rightarrow> failw UndefinedValue | Some h \<Rightarrow> body t h) s = (Inr x, s') \<and>
        connected s' \<and> db_rows (database_of V s') = D \<and>
        (\<forall>u. u \<noteq> t \<longrightarrow> db_pending (database_of V s) u \<noteq> None \<longrightarrow>
           db_pending (database_of V s') u = db_pending (database_of V s) u \<and>
           db_fetched (database_of V s') u = db_fetched (database_of V s) u)" by blast
  qed
qed simp

text \<open>A table asked for the rows of a list: the row of the element \<open>j\<close> has the index \<open>j\<close>.\<close>

definition listed_rows :: "(int \<Rightarrow> 'a \<Rightarrow> sql_row) \<Rightarrow> 'a list \<Rightarrow> sql_row list" where
  "listed_rows row ys = map (\<lambda>j. row (int j) (ys ! j)) [0..<length ys]"

lemma listed_rows_in_order: "(\<And>i y. index_of (row i y) = i) \<Longrightarrow> in_order True (listed_rows row ys)"
  by (auto simp: in_order_def listed_rows_def comp_def sorted_iff_nth_mono distinct_conv_nth)

lemma reads_each_listed:
  assumes "sql_database E V" "schema_table T" "list_all plain_cond cs" "q = select_query cols T cs True"
    and "filter_mset (matches T cs True) D = mset (listed_rows row ys)" "\<And>i y. index_of (row i y) = i" "length ys < n"
    and "\<And>j t h. j < length ys \<Longrightarrow>
      reads V D (at_row t h (fields_of cols (row (int j) (ys ! j)))) (value (ys ! j)) (body t (int j) h)"
    and "column_text cols"
  shows "reads V D K (map value ys) (with_result E q [] (\<lambda>t. each_row n E t 0 (body t)))"
proof (rule reads_select [OF assms(1-5)])
  show "in_order True (listed_rows row ys)" by (rule listed_rows_in_order) (rule assms(6))
  show "listed_rows row ys = [] \<Longrightarrow> map value ys = []" by (simp add: listed_rows_def)
  show "works_through V D (map (fields_of cols) (listed_rows row ys)) (map value ys) (\<lambda>t. each_row n E t 0 (body t))"
    by (rule works_each_row [OF assms(1)]) (simp_all add: listed_rows_def assms(7,8))
qed (rule assms(9))

lemma reads_listed_objects:
  assumes "sql_database E V" "schema_table T" "list_all plain_cond cs" "q = select_query cols T cs True"
    and "filter_mset (matches T cs True) D = mset (listed_rows row ys)" "\<And>i y. index_of (row i y) = i" "length ys < n"
    and "\<And>j t h. j < length ys \<Longrightarrow>
      reads V D (at_row t h (fields_of cols (row (int j) (ys ! j)))) (value (ys ! j)) (body t h)"
    and "column_text cols"
  shows "reads V D K (map value ys) (listed_objects n E q body)"
  unfolding listed_objects_def by (rule reads_each_listed [OF assms(1-7) _ assms(9)]) (rule assms(8))

text \<open>A list of strings.\<close>

lemma reads_listed_strings:
  assumes "sql_database E V" "schema_table T" "list_all plain_cond cs" "q = select_query cols T cs True"
    and "filter_mset (matches T cs True) D = mset (listed_rows row ys)" "\<And>i y. index_of (row i y) = i" "length ys < n"
    and "\<And>i y. fields_of cols (row i y) = [Some (value y)]"
    and "column_text cols"
  shows "reads V D (\<lambda>_. True) (map (\<lambda>y. Some (value y)) ys) (listed_strings n E q)"
proof -
  have "reads V D (at_row t h (fields_of cols (row (int j) (ys ! j)))) (Some (Some (value (ys ! j)))) (get_string_field E t h 0)"
    for j t h
    using reads_string_field [OF assms(1), of 0 "[Some (value (ys ! j))]" D t h] assms(8) by simp
  then have "reads V D (\<lambda>_. True) (map (\<lambda>y. Some (Some (value y))) ys)
      (listed_objects n E q (\<lambda>t row. get_string_field E t row 0))"
    by (intro reads_listed_objects [OF assms(1-7)] assms(9))
  then show ?thesis
    unfolding listed_strings_def
    by (rule reads_bindr [OF stable_True]) (rule reads_retn, induction ys; simp add: List.map_filter_def)
qed

end
