(* ===== verification/StoredRows.thy ===== *)
theory StoredRows
  imports SqlReads
begin

text \<open>
  The rows a message is stored as: one function per table and one per object of the message,
  and that each handler of the insertion writes exactly these rows.
\<close>

section \<open>Literals\<close>

definition str_lit :: "rstring option \<Rightarrow> lit" where
  "str_lit s = text_lit (get_string s)"

definition enum_lit :: "'w env \<Rightarrow> enum_kind \<Rightarrow> int \<Rightarrow> lit" where
  "enum_lit E k i = text_lit (enum_to_string E k i)"

definition num_lit :: "'a::len word option \<Rightarrow> lit" where
  "num_lit n = (case n of None \<Rightarrow> L_null | Some w \<Rightarrow> L_int (uint w))"

definition int_lit :: "int option \<Rightarrow> lit" where
  "int_lit n = (case n of None \<Rightarrow> L_null | Some i \<Rightarrow> L_int i)"

definition data_text :: "idmef_data \<Rightarrow> string option" where
  "data_text d =
    (case data_type_of d of
       DATA_BYTE \<Rightarrow> Some (data_bytes d)
     | DATA_BYTE_STRING \<Rightarrow> Some (data_bytes d)
     | DATA_CHAR_STRING \<Rightarrow> (if data_bytes d = [] then None else Some (butlast (data_bytes d)))
     | DATA_CHAR \<Rightarrow> (if data_bytes d = [] then None else Some (take 1 (data_bytes d)))
     | DATA_OTHER \<Rightarrow> (case data_to_string d of Inl _ \<Rightarrow> None | Inr t \<Rightarrow> Some t))"

definition data_ok :: "idmef_data option \<Rightarrow> bool" where
  "data_ok d \<longleftrightarrow> (case d of None \<Rightarrow> False | Some x \<Rightarrow> data_text x \<noteq> None)"

definition data_lit :: "'w database \<Rightarrow> idmef_data option \<Rightarrow> lit" where
  "data_lit V d = (case d of None \<Rightarrow> L_null | Some x \<Rightarrow> L_text (stored_binary V (the (data_text x))))"

text \<open>
  A time the C library splits and librequiem joins again, of a length the buffer holds, with
  an offset and microseconds that fit.
\<close>

definition time_ok :: "'w env \<Rightarrow> idmef_time \<Rightarrow> bool" where
  "time_ok E t \<longleftrightarrow>
    (case gmtime_r E (time_sec t) of
       None \<Rightarrow> False
     | Some utc \<Rightarrow> requiem_timegm E (utc\<lparr>tm_wday := 0, tm_yday := 0\<rparr>) = time_sec t \<and> length (timestamp_text utc) < 126) \<and>
     - (2 ^ 31) \<le> time_gmtoff t \<and> time_gmtoff t < 2 ^ 31 \<and> 0 \<le> time_usec t \<and> time_usec t < 2 ^ 31"

definition time_lits :: "'w env \<Rightarrow> idmef_time option \<Rightarrow> lit list" where
  "time_lits E t =
    (case t of
       None \<Rightarrow> [L_null, L_null, L_null]
     | Some x \<Rightarrow> [L_text (timestamp_text (the (gmtime_r E (time_sec x)))), L_int (time_gmtoff x), L_int (time_usec x)])"

lemma length_dec_nat: "n < 10 ^ Suc d \<Longrightarrow> length (dec_nat n) \<le> Suc d"
proof (induction d arbitrary: n)
  case 0
  then show ?case by (simp add: dec_nat.simps)
next
  case (Suc d)
  then have "n div 10 < 10 ^ Suc d" by simp
  from Suc.IH [OF this] show ?case by (simp add: dec_nat.simps [of n])
qed

lemma snprintf_short: "length t < k \<Longrightarrow> snprintf k t = t"
  by (simp add: snprintf_def)

lemma opt_uint_text:
  assumes "(2 :: nat) ^ LENGTH('a::len) \<le> 10 ^ Suc d" "Suc d < k"
  shows "opt_uint k (Some (w :: 'a word)) = dec_nat (unat w)"
proof -
  have "unat w < 10 ^ Suc d" using unsigned_less [of w, where 'a = nat] assms(1) by linarith
  from length_dec_nat [OF this] assms(2) show ?thesis by (simp add: opt_uint_def snprintf_short)
qed

lemma dec_int_text:
  assumes "- (2 ^ 31) \<le> i" "i < 2 ^ 31" "11 < k"
  shows "snprintf k (dec_int i) = dec_int i"
proof -
  have "nat i < 10 ^ Suc 9" "nat (- i) < 10 ^ Suc 9" using assms by simp_all
  from length_dec_nat [OF this(1)] length_dec_nat [OF this(2)] assms(3)
  show ?thesis by (intro snprintf_short) (simp add: dec_int_def)
qed

lemma dec_nat_unat: "dec_nat (unat w) = dec_int (uint w)"
  by (simp add: dec_int_def)

lemma dec_nat_no_quote: "CHR 0x27 \<notin> set (dec_nat n)" "CHR 0x5C \<notin> set (dec_nat n)"
  using dec_nat_digits [of n] by (auto simp: list_all_iff isdigit_def)

lemma timestamp_no_quote: "CHR 0x27 \<notin> set (timestamp_text t)" "CHR 0x5C \<notin> set (timestamp_text t)"
  by (simp_all add: timestamp_text_def dec_int_def dec2_int_def pad2_def dec_nat_no_quote)

text \<open>The texts an INSERT is built from, as literals.\<close>

lemma denotes_null: "sql_database E V \<Longrightarrow> denotes V ''NULL'' L_null"
  by (simp add: sql_database_def literal_law_def)

lemma denotes_int: "sql_database E V \<Longrightarrow> denotes V (dec_int i) (L_int i)"
  by (simp add: sql_database_def literal_law_def)

lemma denotes_quoted:
  "sql_database E V \<Longrightarrow> p \<noteq> CHR 0x27 \<Longrightarrow> p \<noteq> CHR 0x5C \<Longrightarrow> denotes V (quoted p) (L_text [p])"
  using denotes_lit_text [of E V "L_text [p]"] by (simp add: quoted_def)

lemma denotes_opt_uint:
  assumes "sql_database E V" "(2 :: nat) ^ LENGTH('a::len) \<le> 10 ^ Suc d" "Suc d < k" "4 < k"
  shows "denotes V (opt_uint k (n :: 'a word option)) (num_lit n)"
proof (cases n)
  case None
  have "opt_uint k n = ''NULL''" using None assms(4) by (simp add: opt_uint_def snprintf_short)
  with None assms(1) show ?thesis by (simp add: num_lit_def denotes_null)
next
  case (Some w)
  with opt_uint_text [OF assms(2,3), of w] assms(1) show ?thesis
    by (simp add: num_lit_def dec_nat_unat denotes_int)
qed

lemma denotes_opt_int32:
  assumes "sql_database E V" "\<And>i. n = Some i \<Longrightarrow> - (2 ^ 31) \<le> i \<and> i < 2 ^ 31"
  shows "denotes V (opt_int32 16 n) (int_lit n)"
proof (cases n)
  case None
  then show ?thesis using assms(1) by (simp add: opt_int32_def int_lit_def snprintf_short denotes_null)
next
  case (Some i)
  with assms dec_int_text [of i 16] show ?thesis by (simp add: opt_int32_def int_lit_def denotes_int)
qed

section \<open>Values being written\<close>

named_theorems value_writes \<open>operations that compute the text of a value\<close>

lemma writes_esc_string [value_writes]:
  "sql_database E V \<Longrightarrow> writes V (\<lambda>x. denotes V x (str_lit s)) [] (esc_string E s)"
  unfolding esc_string_def str_lit_def by (rule writes_escape)

lemma writes_esc_enum [value_writes]:
  "sql_database E V \<Longrightarrow> writes V (\<lambda>x. denotes V x (enum_lit E k i)) [] (esc_enum E k i)"
  unfolding esc_enum_def enum_lit_def by (rule writes_escape)

lemma writes_esc_string_failing [value_writes]:
  "sql_database E V \<Longrightarrow> writes V (\<lambda>x. denotes V x (str_lit s)) [] (failing_with n (esc_string E s))"
  by (intro writes_failing_with writes_esc_string)

lemma writes_get_data:
  assumes "sql_database E V" "data_ok d"
  shows "writes V (\<lambda>x. denotes V x (data_lit V d)) [] (get_data E d)"
proof (cases d)
  case (Some x)
  then show ?thesis
    using writes_escape_binary [OF assms(1)] assms(2)
    by (cases "data_type_of x")
      (auto simp: get_data_def data_lit_def data_text_def data_ok_def split: sum.splits if_splits)
qed (use assms(2) in \<open>simp add: data_ok_def\<close>)

lemma writes_full_time_texts:
  assumes "sql_database E V" "pl_build_timestamp (env_plugin E) = None" "\<And>x. t = Some x \<Longrightarrow> time_ok E x"
  shows "writes V (\<lambda>ts. list_all2 (denotes V) ts (time_lits E t)) [] (full_time_texts E t)"
proof (cases t)
  case None
  then show ?thesis
    using assms(1)
    by (auto simp: full_time_texts_def requiemdb_sql_time_to_timestamp_def TIMESTAMP_STRING_SIZE_def snprintf_short
        str_or_null_def time_lits_def denotes_null intro: writes_retn)
next
  case (Some x)
  with assms(3) obtain utc where utc: "gmtime_r E (time_sec x) = Some utc" "length (timestamp_text utc) < 126"
    and off: "- (2 ^ 31) \<le> time_gmtoff x" "time_gmtoff x < 2 ^ 31"
    and us: "0 \<le> time_usec x" "time_usec x < 2 ^ 31"
    by (auto simp: time_ok_def split: option.splits)
  have eq: "full_time_texts E t =
      retn [[CHR 0x27] @ timestamp_text utc @ [CHR 0x27], dec_int (time_gmtoff x), dec_int (time_usec x)]"
    using Some utc us assms(2) dec_int_text [OF off, of 16] dec_int_text [of "time_usec x" 16]
    by (simp add: full_time_texts_def requiemdb_sql_time_to_timestamp_def TIMESTAMP_STRING_SIZE_def
        plugin_sql_build_timestamp_string_def str_or_null_def as_int32_def)
  have "denotes V ([CHR 0x27] @ timestamp_text utc @ [CHR 0x27]) (L_text (timestamp_text utc))"
    using denotes_lit_text [OF assms(1), of "L_text (timestamp_text utc)"] by (simp add: timestamp_no_quote)
  with Some utc assms(1) show ?thesis
    unfolding eq by (intro writes_retn) (simp add: time_lits_def denotes_int)
qed

text \<open>One row, given with its columns.\<close>

lemma writes_row:
  assumes "sql_database E V" "row = (T, r)" "schema_table T" "\<not> numbered T" "column_names cols = map fst r"
    "list_all2 (denotes V) vals (map snd r)" "column_text cols"
  shows "writes V any_value [row] (store E T cols vals)"
    and "writes V any_value [row] (ignoring_result (store E T cols vals))"
proof -
  have "length (map fst r) = length vals" using list_all2_lengthD [OF assms(6)] by simp
  from writes_store [OF assms(1,3,4,6,5) this assms(7)]
  show "writes V any_value [row] (store E T cols vals)"
    "writes V any_value [row] (ignoring_result (store E T cols vals))"
    using assms(2) by (simp_all add: zip_map_fst_snd)
qed

section \<open>Nodes, processes, analyzers\<close>

text \<open>The columns that say whose row it is.\<close>

definition typed_key :: "char \<Rightarrow> int \<Rightarrow> (string \<times> lit) list" where
  "typed_key p m = [(''_parent_type'', L_text [p]), (''_message_ident'', L_int m)]"

definition parent_char :: "char \<Rightarrow> bool" where
  "parent_char p \<longleftrightarrow> p \<noteq> CHR 0x27 \<and> p \<noteq> CHR 0x5C"

definition address_row :: "'w env \<Rightarrow> char \<Rightarrow> int \<Rightarrow> int \<Rightarrow> int \<Rightarrow> idmef_address \<Rightarrow> sql_row" where
  "address_row E p m i j a = (''Requiem_Address'', typed_key p m @
     [(''_parent0_index'', L_int i), (''_index'', L_int j), (''ident'', str_lit (address_ident a)),
      (''category'', enum_lit E ENUM_ADDRESS_CATEGORY (address_category a)),
      (''vlan_name'', str_lit (address_vlan_name a)), (''vlan_num'', int_lit (address_vlan_num a)),
      (''address'', str_lit (address_address a)), (''netmask'', str_lit (address_netmask a))])"

definition node_row :: "'w env \<Rightarrow> char \<Rightarrow> int \<Rightarrow> int \<Rightarrow> idmef_node \<Rightarrow> sql_row" where
  "node_row E p m i n = (''Requiem_Node'', typed_key p m @
     [(''_parent0_index'', L_int i), (''ident'', str_lit (node_ident n)),
      (''category'', enum_lit E ENUM_NODE_CATEGORY (node_category n)),
      (''location'', str_lit (node_location n)), (''name'', str_lit (node_name n))])"

definition node_rows :: "'w env \<Rightarrow> char \<Rightarrow> int \<Rightarrow> int \<Rightarrow> idmef_node option \<Rightarrow> sql_row list" where
  "node_rows E p m i = optional_rows (\<lambda>n. [node_row E p m i n] @ indexed_rows (\<lambda>j a. [address_row E p m i j a]) (node_addresses n))"

definition address_ok :: "idmef_address \<Rightarrow> bool" where
  "address_ok a \<longleftrightarrow> (case address_vlan_num a of None \<Rightarrow> True | Some i \<Rightarrow> - (2 ^ 31) \<le> i \<and> i < 2 ^ 31)"

definition node_ok :: "idmef_node \<Rightarrow> bool" where
  "node_ok n \<longleftrightarrow> list_all address_ok (node_addresses n)"

lemmas row_simps = typed_key_def parent_char_def schema_table_def numbered_def column_names_def
  denotes_int denotes_null denotes_quoted denotes_opt_uint [where d = 2] denotes_opt_uint [where d = 4]
  denotes_opt_uint [where d = 9] denotes_opt_uint [where d = 19]

lemma writes_address:
  assumes "sql_database E V" "parent_char p" "address_ok a"
  shows "writes V any_value [address_row E p m i j a] (insert_address E p m i j a)"
  unfolding insert_address_def
  apply (rule writes_quiet_bindr, rule value_writes [OF assms(1)])+
  by (rule writes_row [OF assms(1) address_row_def])
    (use assms in \<open>auto simp: row_simps address_ok_def intro!: denotes_opt_int32 split: option.splits\<close>)

lemma writes_node:
  assumes "sql_database E V" "parent_char p" "\<And>n. x = Some n \<Longrightarrow> node_ok n"
  shows "writes V any_value (node_rows E p m i x) (insert_node E p m i x)"
  unfolding insert_node_def node_rows_def
  apply (rule writes_insert_optional)
  apply (rule writes_quiet_bindr, rule value_writes [OF assms(1)])+
  apply (rule writes_bindr, rule writes_row [OF assms(1) node_row_def])
  using assms by (auto simp: row_simps node_ok_def list_all_iff intro!: writes_insert_indexed writes_address [unfolded parent_char_def])

definition process_arg_row :: "char \<Rightarrow> int \<Rightarrow> int \<Rightarrow> int \<Rightarrow> rstring \<Rightarrow> sql_row" where
  "process_arg_row p m i j a = (''Requiem_ProcessArg'', typed_key p m @
     [(''_parent0_index'', L_int i), (''_index'', L_int j), (''arg'', str_lit (Some a))])"

definition process_env_row :: "char \<Rightarrow> int \<Rightarrow> int \<Rightarrow> int \<Rightarrow> rstring \<Rightarrow> sql_row" where
  "process_env_row p m i j a = (''Requiem_ProcessEnv'', typed_key p m @
     [(''_parent0_index'', L_int i), (''_index'', L_int j), (''env'', str_lit (Some a))])"

definition process_row :: "char \<Rightarrow> int \<Rightarrow> int \<Rightarrow> idmef_process \<Rightarrow> sql_row" where
  "process_row p m i x = (''Requiem_Process'', typed_key p m @
     [(''_parent0_index'', L_int i), (''ident'', str_lit (process_ident x)), (''name'', str_lit (process_name x)),
      (''pid'', num_lit (process_pid x)), (''path'', str_lit (process_path x))])"

definition process_rows :: "char \<Rightarrow> int \<Rightarrow> int \<Rightarrow> idmef_process option \<Rightarrow> sql_row list" where
  "process_rows p m i = optional_rows (\<lambda>x. [process_row p m i x] @
     (rows_from (\<lambda>j a. [process_arg_row p m i j a]) 0 (process_args x) @
      rows_from (\<lambda>j a. [process_env_row p m i j a]) 0 (process_envs x)))"

definition analyzer_row :: "char \<Rightarrow> int \<Rightarrow> int \<Rightarrow> idmef_analyzer \<Rightarrow> sql_row" where
  "analyzer_row p m i a = (''Requiem_Analyzer'', typed_key p m @
     [(''_index'', L_int i), (''analyzerid'', str_lit (analyzer_analyzerid a)), (''name'', str_lit (analyzer_name a)),
      (''manufacturer'', str_lit (analyzer_manufacturer a)), (''model'', str_lit (analyzer_model a)),
      (''version'', str_lit (analyzer_version a)), (''class'', str_lit (analyzer_class a)),
      (''ostype'', str_lit (analyzer_ostype a)), (''osversion'', str_lit (analyzer_osversion a))])"

definition analyzer_rows :: "'w env \<Rightarrow> char \<Rightarrow> int \<Rightarrow> int \<Rightarrow> idmef_analyzer \<Rightarrow> sql_row list" where
  "analyzer_rows E p m i a = [analyzer_row p m i a] @
     (node_rows E p m i (analyzer_node a) @ process_rows p m i (analyzer_process a))"

definition analyzer_ok :: "idmef_analyzer \<Rightarrow> bool" where
  "analyzer_ok a \<longleftrightarrow> (case analyzer_node a of None \<Rightarrow> True | Some n \<Rightarrow> node_ok n)"

lemma writes_process_arg:
  assumes "sql_database E V" "parent_char p"
  shows "writes V any_value [process_arg_row p m i j a] (insert_process_arg E p m i j a)"
  unfolding insert_process_arg_def
  apply (rule writes_quiet_bindr, rule value_writes [OF assms(1)])+
  by (rule writes_row [OF assms(1) process_arg_row_def]) (use assms in \<open>auto simp: row_simps\<close>)

lemma writes_process_env:
  assumes "sql_database E V" "parent_char p"
  shows "writes V any_value [process_env_row p m i j a] (insert_process_env E p m i j a)"
  unfolding insert_process_env_def
  apply (rule writes_quiet_bindr, rule value_writes [OF assms(1)])+
  by (rule writes_row [OF assms(1) process_env_row_def]) (use assms in \<open>auto simp: row_simps\<close>)

lemma writes_process:
  assumes "sql_database E V" "parent_char p"
  shows "writes V any_value (process_rows p m i x) (insert_process E p m i x)"
  unfolding insert_process_def process_rows_def
  apply (rule writes_insert_optional)
  apply (rule writes_quiet_bindr, rule value_writes [OF assms(1)])+
  apply (rule writes_bindr, rule writes_row [OF assms(1) process_row_def])
       apply (use assms in \<open>auto simp: row_simps\<close>)[5]
  by (intro writes_bindr [where Q = any_value] writes_insert_from writes_process_arg writes_process_env assms)

lemma writes_analyzer:
  assumes "sql_database E V" "parent_char p" "analyzer_ok a"
  shows "writes V any_value (analyzer_rows E p m i a) (insert_analyzer E p m i a)"
  unfolding insert_analyzer_def analyzer_rows_def
  apply (rule writes_quiet_bindr, rule value_writes [OF assms(1)])+
  apply (rule writes_bindr, rule writes_row [OF assms(1) analyzer_row_def])
       apply (use assms in \<open>auto simp: row_simps\<close>)[5]
  by (intro writes_bindr [where Q = any_value] writes_node writes_process assms)
    (use assms in \<open>simp add: analyzer_ok_def\<close>)

section \<open>Times and additional data\<close>

definition time_row :: "'w env \<Rightarrow> string \<Rightarrow> (string \<times> lit) list \<Rightarrow> idmef_time option \<Rightarrow> sql_row" where
  "time_row E T key t = (T, key @ zip [''time'', ''gmtoff'', ''usec''] (time_lits E t))"

definition time_law :: "'w env \<Rightarrow> idmef_time option \<Rightarrow> bool" where
  "time_law E t \<longleftrightarrow> pl_build_timestamp (env_plugin E) = None \<and> (case t of None \<Rightarrow> True | Some x \<Rightarrow> time_ok E x)"

lemma writes_time_texts:
  "sql_database E V \<Longrightarrow> time_law E t \<Longrightarrow> writes V (\<lambda>ts. list_all2 (denotes V) ts (time_lits E t)) [] (full_time_texts E t)"
  by (rule writes_full_time_texts) (auto simp: time_law_def)

lemma time_lits_three: "\<exists>a b c. time_lits E t = [a, b, c]"
  by (cases t) (auto simp: time_lits_def)

lemma writes_createtime:
  assumes "sql_database E V" "parent_char p" "time_law E t"
  shows "writes V any_value [time_row E ''Requiem_CreateTime'' (typed_key p m) t] (insert_createtime E p m t)"
proof -
  obtain a b c where t: "time_lits E t = [a, b, c]" using time_lits_three by blast
  show ?thesis
    unfolding insert_createtime_def
    apply (rule writes_quiet_bindr, rule writes_time_texts [OF assms(1,3)])
    by (rule writes_row [OF assms(1) time_row_def]) (use assms(1,2) in \<open>auto simp: row_simps t list_all2_Cons2\<close>)
qed

lemma writes_detecttime:
  assumes "sql_database E V" "time_law E t"
  shows "writes V any_value (optional_rows (\<lambda>x. [time_row E ''Requiem_DetectTime'' [(''_message_ident'', L_int m)] (Some x)]) t)
    (insert_detecttime E m t)"
  unfolding insert_detecttime_def
proof (rule writes_insert_optional)
  fix x assume x: "t = Some x"
  obtain a b c where t: "time_lits E (Some x) = [a, b, c]" using time_lits_three by blast
  show "writes V any_value [time_row E ''Requiem_DetectTime'' [(''_message_ident'', L_int m)] (Some x)]
      (bindr (full_time_texts E (Some x)) (\<lambda>ts.
     store E ''Requiem_DetectTime'' ''_message_ident, time, gmtoff, usec'' ([dec_int m] @ ts)))"
    apply (rule writes_quiet_bindr, rule writes_time_texts [OF assms(1)], use assms(2) x in simp)
    by (rule writes_row [OF assms(1) time_row_def]) (use assms(1) in \<open>auto simp: row_simps t list_all2_Cons2\<close>)
qed

lemma writes_analyzertime:
  assumes "sql_database E V" "parent_char p" "time_law E t"
  shows "writes V any_value (optional_rows (\<lambda>x. [time_row E ''Requiem_AnalyzerTime'' (typed_key p m) (Some x)]) t)
    (insert_analyzertime E p m t)"
  unfolding insert_analyzertime_def
proof (rule writes_insert_optional)
  fix x assume x: "t = Some x"
  obtain a b c where t: "time_lits E (Some x) = [a, b, c]" using time_lits_three by blast
  show "writes V any_value [time_row E ''Requiem_AnalyzerTime'' (typed_key p m) (Some x)]
      (bindr (full_time_texts E (Some x)) (\<lambda>ts.
     store E ''Requiem_AnalyzerTime'' ''_parent_type, _message_ident, time, gmtoff, usec''
       ([quoted p, dec_int m] @ ts)))"
    apply (rule writes_quiet_bindr, rule writes_time_texts [OF assms(1)], use assms(3) x in simp)
    by (rule writes_row [OF assms(1) time_row_def]) (use assms(1,2) in \<open>auto simp: row_simps t list_all2_Cons2\<close>)
qed

definition additional_data_row :: "'w env \<Rightarrow> 'w database \<Rightarrow> char \<Rightarrow> int \<Rightarrow> int \<Rightarrow> idmef_additional_data \<Rightarrow> sql_row" where
  "additional_data_row E V p m i a = (''Requiem_AdditionalData'', typed_key p m @
     [(''_index'', L_int i), (''type'', enum_lit E ENUM_ADDITIONAL_DATA_TYPE (ad_type a)),
      (''meaning'', str_lit (ad_meaning a)), (''data'', data_lit V (ad_data a))])"

lemma writes_additional_data:
  assumes "sql_database E V" "parent_char p" "data_ok (ad_data a)"
  shows "writes V any_value [additional_data_row E V p m i a] (insert_additional_data E p m i a)"
  unfolding insert_additional_data_def
  apply (rule writes_quiet_bindr, rule value_writes [OF assms(1)])+
  apply (rule writes_quiet_bindr, rule writes_get_data [OF assms(1,3)])
  by (rule writes_row [OF assms(1) additional_data_row_def]) (use assms in \<open>auto simp: row_simps\<close>)

section \<open>Heartbeats\<close>

definition heartbeat_rows :: "'w env \<Rightarrow> 'w database \<Rightarrow> int \<Rightarrow> idmef_heartbeat \<Rightarrow> sql_row list" where
  "heartbeat_rows E V m h =
     indexed_rows (analyzer_rows E CHR ''H'' m) (heartbeat_analyzers h) @
     ([time_row E ''Requiem_CreateTime'' (typed_key CHR ''H'' m) (heartbeat_create_time h)] @
      (optional_rows (\<lambda>x. [time_row E ''Requiem_AnalyzerTime'' (typed_key CHR ''H'' m) (Some x)]) (heartbeat_analyzer_time h) @
       indexed_rows (\<lambda>i a. [additional_data_row E V CHR ''H'' m i a]) (heartbeat_additional_data h)))"

definition heartbeat_ok :: "'w env \<Rightarrow> idmef_heartbeat \<Rightarrow> bool" where
  "heartbeat_ok E h \<longleftrightarrow> list_all analyzer_ok (heartbeat_analyzers h) \<and>
     time_law E (heartbeat_create_time h) \<and> time_law E (heartbeat_analyzer_time h) \<and>
     list_all (\<lambda>a. data_ok (ad_data a)) (heartbeat_additional_data h)"

lemma writes_heartbeat_objects:
  assumes "sql_database E V" "heartbeat_ok E h"
  shows "writes V any_value (heartbeat_rows E V m h) (insert_heartbeat_objects E h m)"
  unfolding insert_heartbeat_objects_def heartbeat_rows_def
  by (intro writes_bindr [where Q = any_value] writes_insert_indexed writes_analyzer writes_createtime
      writes_analyzertime writes_additional_data assms)
    (use assms(2) in \<open>auto simp: heartbeat_ok_def list_all_iff parent_char_def\<close>)

end
