(* ===== verification/ReadBack.thy ===== *)
theory ReadBack
  imports StoredRows
begin

text \<open>
  Reading the rows of a message back: what the fields of a stored row give, which stored rows
  a query finds, and the object each function of \<open>classic-get.c\<close> makes of them.
\<close>

section \<open>Fields of stored rows\<close>

definition norm_str :: "rstring option \<Rightarrow> rstring option" where
  "norm_str s = map_option (\<lambda>t. Some (cstr t)) (get_string s)"

definition norm_enum :: "'w env \<Rightarrow> enum_kind \<Rightarrow> int \<Rightarrow> int" where
  "norm_enum E k i = (case enum_to_string E k i of None \<Rightarrow> enum_default E k | Some t \<Rightarrow> enum_to_numeric E k (cstr t))"

lemma cstr_cstr [simp]: "cstr (cstr t) = cstr t"
  by (rule cstr_no_nul) (rule no_nul_cstr)

lemma str_field: "map_option Some (lit_field (str_lit s)) = norm_str s"
  by (cases s) (auto simp: str_lit_def text_lit_def norm_str_def get_string_def split: option.split)

lemma enum_field:
  "(case lit_field (enum_lit E k i) of None \<Rightarrow> enum_default E k | Some v \<Rightarrow> enum_to_numeric E k (cstr v)) = norm_enum E k i"
  by (auto simp: enum_lit_def text_lit_def norm_enum_def split: option.split)

lemma reads_str:
  assumes "sql_database E V" "i < length vs" "vs ! i = lit_field (str_lit s)"
  shows "reads V D (at_row t h vs) (norm_str s) (get_string_field E t h i)"
  using reads_string_field [OF assms(1,2), of D t h] by (simp add: assms(3) str_field)

lemma reads_enum_lit:
  assumes "sql_database E V" "i < length vs" "vs ! i = lit_field (enum_lit E k e)"
  shows "reads V D (at_row t h vs) (norm_enum E k e) (get_required_enum E k t h i)"
  using reads_required_enum [OF assms(1,2), of D t h k] by (simp add: assms(3) enum_field)

lemma scan_uint: "scan_int (cstr (dec_int (uint w))) = Scan_int (uint w) []"
proof -
  have "scan_int (dec_int (uint w)) = Scan_int (uint w) []"
    using scan_int_dec_int [of "[]" "uint w"] by (simp add: stops_digits_def)
  then show ?thesis by (simp add: cstr_no_nul [OF no_nul_dec_int(1)])
qed

lemma store_unsigned_uint: "store_unsigned LENGTH('a) (uint (w :: 'a::len word)) = Stored (uint w)"
proof -
  have "uint w < 2 ^ LENGTH('a)" "0 \<le> uint w" by simp_all
  moreover from this have "- (2 ^ LENGTH('a)) < uint w" by (smt (verit) zero_less_power)
  ultimately show ?thesis by (simp add: store_unsigned_def)
qed

lemma field_to_uint: "field_to (store_unsigned LENGTH('a)) (dec_int (uint (w :: 'a::len word))) = Inr (Stored (uint w))"
  unfolding field_to_def scan_uint scan.case store_unsigned_uint by (rule refl)

lemma field_to_uint_widths:
  "field_to_uint16 (dec_int (uint (a :: 16 word))) = Inr (Stored (uint a))"
  "field_to_uint32 (dec_int (uint (b :: 32 word))) = Inr (Stored (uint b))"
  "field_to_uint64 (dec_int (uint (c :: 64 word))) = Inr (Stored (uint c))"
  using field_to_uint [of a] field_to_uint [of b] field_to_uint [of c]
  by (simp_all add: field_to_uint16_def field_to_uint32_def field_to_uint64_def)

lemma field_to_uint8_dec: "field_to_uint8 (dec_int (uint (w :: 8 word))) = Inr (Stored (uint w))"
proof -
  have "uint w < 256" using uint_lt2p [of w] by simp
  moreover have "- (2 ^ 32) < uint w" by (rule less_le_trans [of _ 0]) simp_all
  with \<open>uint w < 256\<close> have "store_unsigned 32 (uint w) = Stored (uint w)" by (simp add: store_unsigned_def)
  ultimately show ?thesis
    by (simp add: field_to_uint8_def field_to_int8_with_def scan_uint as_int32_def)
qed

lemma reads_num:
  assumes "sql_database E V" "i < length vs" "vs ! i = lit_field (num_lit (n :: 'a::len word option))"
    and "\<And>w. to_number (dec_int (uint (w :: 'a word))) = Inr (Stored (uint w))"
  shows "reads V D (at_row t h vs) n (get_uint to_number E t h i)"
proof (cases n)
  case None
  then show ?thesis
    using reads_uint [OF assms(1,2), of to_number undefined D t h] assms(3) by (simp add: num_lit_def)
next
  case (Some w)
  then have "vs ! i = Some (dec_int (uint w))" using assms(3) by (simp add: num_lit_def)
  moreover have "(word_of_int (uint w) :: 'a word) = w" by simp
  ultimately have n: "map_option (\<lambda>v. word_of_int (uint w) :: 'a word) (vs ! i) = n" using Some by (simp only: option.map)
  have "to_number v = Inr (Stored (uint w))" if "vs ! i = Some v" for v
    using assms(4) [of w] that \<open>vs ! i = Some (dec_int (uint w))\<close> by simp
  then have "reads V D (at_row t h vs) (map_option (\<lambda>v. word_of_int (uint w) :: 'a word) (vs ! i)) (get_uint to_number E t h i)"
    by (rule reads_uint [OF assms(1,2)])
  then show ?thesis unfolding n .
qed

lemmas reads_nums = reads_num [OF _ _ _ field_to_uint8_dec] reads_num [OF _ _ _ field_to_uint_widths(1)]
  reads_num [OF _ _ _ field_to_uint_widths(2)]

lemma field_to_uint32_int:
  assumes "- (2 ^ 31) \<le> i" "i < 2 ^ 31"
  shows "field_to_uint32 (dec_int i) = Inr (Stored (i mod 2 ^ 32))"
proof -
  have "scan_int (cstr (dec_int i)) = Scan_int i []"
    using scan_int_dec_int [of "[]" i] by (simp add: stops_digits_def cstr_no_nul [OF no_nul_dec_int(1)])
  with assms show ?thesis by (simp add: field_to_uint32_def field_to_def store_unsigned_def)
qed

lemma sint_of_int32:
  assumes "- (2 ^ 31) \<le> i" "i < 2 ^ 31"
  shows "sint (word_of_int (i mod 2 ^ 32) :: 32 word) = i"
proof -
  have "(word_of_int (i mod 2 ^ 32) :: 32 word) = word_of_int i"
    by (simp add: word_of_int_eq_iff take_bit_eq_mod)
  then show ?thesis using assms by (simp add: sint_sbintrunc' signed_take_bit_int_eq_self)
qed

lemma reads_int_lit:
  assumes "sql_database E V" "i < length vs" "vs ! i = lit_field (int_lit n)"
    and "\<And>i. n = Some i \<Longrightarrow> - (2 ^ 31) \<le> i \<and> i < 2 ^ 31"
  shows "reads V D (at_row t h vs) n (get_uint32_as_int E t h i)"
proof -
  have "reads V D (at_row t h vs) (map_option (\<lambda>i. word_of_int (i mod 2 ^ 32)) n) (get_uint32 E t h i)"
  proof (cases n)
    case None
    then show ?thesis
      using reads_uint [OF assms(1,2), of field_to_uint32 undefined D t h] assms(3) by (simp add: int_lit_def)
  next
    case (Some k)
    then show ?thesis
      using reads_uint [OF assms(1,2), of field_to_uint32 "\<lambda>_. k mod 2 ^ 32" D t h] assms(3,4)
      by (simp add: int_lit_def field_to_uint32_int)
  qed
  then show ?thesis
    unfolding get_uint32_as_int_def
    by (rule reads_bindr [OF stable_at_row]) (rule reads_retn, use assms(4) sint_of_int32 in \<open>cases n; force\<close>)
qed

section \<open>Rows under a key\<close>

text \<open>Rows of the tables \<open>Ts\<close> that carry the columns of \<open>key\<close>.\<close>

definition keyed :: "string list \<Rightarrow> (string \<times> lit) list \<Rightarrow> sql_row \<Rightarrow> bool" where
  "keyed Ts key r \<longleftrightarrow> fst r \<in> set Ts \<and> list_all (\<lambda>(c, v). cell r c = v) key"

lemma keyed_other_table:
  "list_all (keyed Ts key) L \<Longrightarrow> T \<notin> set Ts \<Longrightarrow> filter (matches T cs l) L = []"
  by (induction L) (auto simp: keyed_def matches_def)

lemma keyed_other_value:
  "list_all (keyed Ts key) L \<Longrightarrow> (c, v) \<in> set key \<Longrightarrow> (c, v') \<in> set cs \<Longrightarrow> v \<noteq> v' \<Longrightarrow> filter (matches T cs l) L = []"
  by (induction L) (fastforce simp: keyed_def matches_def list_all_iff)+

lemma keyed_append [simp]: "list_all (keyed Ts key) (xs @ ys) \<longleftrightarrow> list_all (keyed Ts key) xs \<and> list_all (keyed Ts key) ys"
  by simp

lemma keyed_rows_from: "(\<And>i x. list_all (keyed Ts key) (g i x)) \<Longrightarrow> list_all (keyed Ts key) (rows_from g i xs)"
  by (induction g i xs rule: rows_from.induct) auto

lemma keyed_indexed: "(\<And>i x. list_all (keyed Ts key) (g i x)) \<Longrightarrow> list_all (keyed Ts key) (indexed_rows g xs)"
  by (auto simp: indexed_rows_def intro: keyed_rows_from)

lemma keyed_optional: "(\<And>x. list_all (keyed Ts key) (g x)) \<Longrightarrow> list_all (keyed Ts key) (optional_rows g x)"
  by (auto simp: optional_rows_def split: option.split)

text \<open>What a query finds among the rows of children.\<close>

lemma filter_rows_from_none: "(\<And>j x. i \<le> j \<Longrightarrow> filter P (g j x) = []) \<Longrightarrow> filter P (rows_from g i xs) = []"
  by (induction g i xs rule: rows_from.induct) auto

lemma filter_indexed_none: "(\<And>j x. filter P (g j x) = []) \<Longrightarrow> filter P (indexed_rows g xs) = []"
  by (simp add: indexed_rows_def filter_rows_from_none)

lemma filter_rows_from_cong: "(\<And>j x. filter P (g j x) = filter P (h j x)) \<Longrightarrow> filter P (rows_from g i xs) = filter P (rows_from h i xs)"
  by (induction h i xs rule: rows_from.induct) auto

lemma filter_indexed_cong: "(\<And>j x. filter P (g j x) = filter P (h j x)) \<Longrightarrow> filter P (indexed_rows g xs) = filter P (indexed_rows h xs)"
  using filter_rows_from_cong [of P g h 0 xs] by (simp add: indexed_rows_def)

lemma filter_optional_none: "(\<And>x. filter P (g x) = []) \<Longrightarrow> filter P (optional_rows g x) = []"
  by (simp add: optional_rows_def split: option.split)

lemma filter_rows_from_at:
  "(\<And>j x. j \<noteq> k \<Longrightarrow> filter P (g j x) = []) \<Longrightarrow> i \<le> k \<Longrightarrow> k < i + int (length xs) \<Longrightarrow>
   filter P (rows_from g i xs) = filter P (g k (xs ! nat (k - i)))"
proof (induction g i xs rule: rows_from.induct)
  case (2 g i x xs)
  show ?case
  proof (cases "k = i")
    case True
    then have "filter P (rows_from g (i + 1) xs) = []" by (intro filter_rows_from_none 2(2)) simp
    with True show ?thesis by simp
  next
    case False
    with 2(3) have "nat (k - i) = Suc (nat (k - (i + 1)))" by simp
    with False 2 show ?thesis by simp
  qed
qed simp

lemma filter_indexed_at:
  assumes "\<And>j x. j \<noteq> int k \<Longrightarrow> filter P (g j x) = []" "k < length xs"
  shows "filter P (indexed_rows g xs) = filter P (g (int k) (xs ! k))"
  using assms filter_rows_from_at [of "int k" P g 0 xs] by (simp add: indexed_rows_def)

lemma filter_rows_from_listed:
  "(\<And>j x. j \<noteq> - 1 \<Longrightarrow> filter P (g j x) = [row j x]) \<Longrightarrow> 0 \<le> i \<Longrightarrow>
   filter P (rows_from g i xs) = map (\<lambda>j. row (i + int j) (xs ! j)) [0..<length xs]"
proof (induction g i xs rule: rows_from.induct)
  case (2 g i x xs)
  have "map (\<lambda>j. row (i + int j) ((x # xs) ! j)) [0..<Suc (length xs)] =
      row i x # map (\<lambda>j. row (i + 1 + int j) (xs ! j)) [0..<length xs]"
    by (subst upt_conv_Cons) (simp_all add: map_Suc_upt [symmetric] add.commute add.left_commute del: upt_Suc)
  with 2 show ?case by simp
qed simp

lemma filter_indexed_listed:
  assumes "\<And>j x. j \<noteq> - 1 \<Longrightarrow> filter P (g j x) = [row j x]" "\<And>x. filter P (g (- 1) x) = []"
  shows "filter P (indexed_rows g xs) = listed_rows row xs"
  using assms filter_rows_from_listed [of P g row 0 xs] by (simp add: indexed_rows_def listed_rows_def)

lemma filter_from_listed:
  assumes "\<And>j x. j \<noteq> - 1 \<Longrightarrow> filter P (g j x) = [row j x]"
  shows "filter P (rows_from g 0 xs) = listed_rows row xs"
  using assms filter_rows_from_listed [of P g row 0 xs] by (simp add: listed_rows_def)

text \<open>The database holds, for every query that names the key, the rows of \<open>L\<close> and no others.\<close>

definition holds :: "sql_row multiset \<Rightarrow> (string \<times> lit) list \<Rightarrow> string list \<Rightarrow> sql_row list \<Rightarrow> bool" where
  "holds D key Ts L \<longleftrightarrow>
     (\<forall>T cs l. T \<in> set Ts \<and> set key \<subseteq> set cs \<longrightarrow>
        filter_mset (matches T cs l) D = mset (filter (matches T cs l) L))"

lemma holdsD:
  "holds D key Ts L \<Longrightarrow> T \<in> set Ts \<Longrightarrow> set key \<subseteq> set cs \<Longrightarrow>
   filter_mset (matches T cs l) D = mset (filter (matches T cs l) L)"
  unfolding holds_def by blast

lemma holds_narrow:
  assumes "holds D key Ts L" "set key \<subseteq> set key'" "set Ts' \<subseteq> set Ts"
    and "\<And>T cs l. T \<in> set Ts' \<Longrightarrow> set key' \<subseteq> set cs \<Longrightarrow> filter (matches T cs l) L = filter (matches T cs l) L'"
  shows "holds D key' Ts' L'"
  using assms unfolding holds_def by (metis subset_eq order_trans)

section \<open>Nodes\<close>

definition norm_address :: "'w env \<Rightarrow> idmef_address \<Rightarrow> idmef_address" where
  "norm_address E a =
     \<lparr>address_ident = norm_str (address_ident a), address_category = norm_enum E ENUM_ADDRESS_CATEGORY (address_category a),
      address_vlan_name = norm_str (address_vlan_name a), address_vlan_num = address_vlan_num a,
      address_address = norm_str (address_address a), address_netmask = norm_str (address_netmask a)\<rparr>"

definition norm_node :: "'w env \<Rightarrow> idmef_node \<Rightarrow> idmef_node" where
  "norm_node E n =
     \<lparr>node_ident = norm_str (node_ident n), node_category = norm_enum E ENUM_NODE_CATEGORY (node_category n),
      node_location = norm_str (node_location n), node_name = norm_str (node_name n),
      node_addresses = map (norm_address E) (node_addresses n)\<rparr>"

lemmas cell_simps = cell_def typed_key_def fields_of_def column_names_def
lemmas field_reads = reads_str reads_enum_lit reads_nums

lemma reads_vlan_num:
  assumes "address_ok a" "sql_database E V" "i < length vs" "vs ! i = lit_field (int_lit (address_vlan_num a))"
  shows "reads V D (at_row t h vs) (address_vlan_num a) (get_uint32_as_int E t h i)"
  using assms(1) by (intro reads_int_lit [OF assms(2-4)]) (simp add: address_ok_def)

lemma reads_address:
  assumes "sql_database E V" "address_ok a"
  shows "reads V D (at_row t h (fields_of ''ident, category, vlan_name, vlan_num, address, netmask'' (address_row E p m i j a)))
    (norm_address E a) (read_address E t h)"
proof -
  have f: "fields_of ''ident, category, vlan_name, vlan_num, address, netmask'' (address_row E p m i j a) =
      map lit_field [str_lit (address_ident a), enum_lit E ENUM_ADDRESS_CATEGORY (address_category a),
        str_lit (address_vlan_name a), int_lit (address_vlan_num a), str_lit (address_address a), str_lit (address_netmask a)]"
    by (simp add: cell_simps address_row_def)
  show ?thesis
    unfolding f read_address_def norm_address_def
    by ((rule reads_bindr [OF stable_at_row], rule field_reads reads_vlan_num [OF assms(2)], rule assms(1), simp, simp)+) simp
qed

lemma parent_is_simps:
  "parent_is 0 i = '' AND _parent0_index = '' @ dec_int i" "parent_is (Suc 0) i = '' AND _parent1_index = '' @ dec_int i"
  "parent_is 2 i = '' AND _parent2_index = '' @ dec_int i"
proof -
  have "dec_nat 0 = ''0''" "dec_nat 1 = ''1''" "dec_nat 2 = ''2''" by code_simp+
  then show "parent_is 0 i = '' AND _parent0_index = '' @ dec_int i" "parent_is (Suc 0) i = '' AND _parent1_index = '' @ dec_int i"
    "parent_is 2 i = '' AND _parent2_index = '' @ dec_int i" by (simp_all add: parent_is_def)
qed

lemmas query_simps = select_query_def select_text_def conditions_def of_typed_message_def of_message_def
  parent_is_simps typed_key_def quoted_def
lemmas match_simps = matches_def cell_simps listed_row_def index_of_def schema_table_def

text \<open>The table of a row, and the queries that find it.\<close>

lemma no_match [simp]: "fst r \<noteq> T \<Longrightarrow> \<not> matches T cs l r"
  by (simp add: matches_def)

lemma plain_typed_key [simp]:
  "list_all plain_cond (typed_key p m @ xs) \<longleftrightarrow> parent_char p \<and> list_all plain_cond xs"
  "list_all plain_cond (typed_key p m) \<longleftrightarrow> parent_char p"
  by (auto simp: typed_key_def parent_char_def)

named_theorems row_facts \<open>table, index and matching queries of the stored rows\<close>

lemma node_row_facts [row_facts]:
  "fst (node_row E p m i n) = ''Requiem_Node''" "fst (address_row E p m i j a) = ''Requiem_Address''"
  "index_of (address_row E p m i j a) = j"
  "matches ''Requiem_Node'' (typed_key p m @ [(''_parent0_index'', L_int k)]) False (node_row E p m i n) \<longleftrightarrow> i = k"
  "matches ''Requiem_Address'' (typed_key p m @ [(''_parent0_index'', L_int k)]) True (address_row E p m i j a) \<longleftrightarrow>
     i = k \<and> j \<noteq> - 1"
  by (auto simp: match_simps node_row_def address_row_def)

lemma reads_node:
  assumes db: "sql_database E V" and p: "parent_char p"
    and rows: "holds D (typed_key p m @ [(''_parent0_index'', L_int i)]) [''Requiem_Node'', ''Requiem_Address''] (node_rows E p m i x)"
    and ok: "\<And>n. x = Some n \<Longrightarrow> node_ok n \<and> length (node_addresses n) < fuel"
  shows "reads V D (\<lambda>_. True) (map_option (norm_node E) x) (get_node fuel E m p i)"
  unfolding get_node_def
proof (rule reads_one_object [OF db, where row = "node_row E p m i" and T = "''Requiem_Node''" and
      cs = "typed_key p m @ [(''_parent0_index'', L_int i)]"])
  let ?cs = "typed_key p m @ [(''_parent0_index'', L_int i)]"
  show "''SELECT ident, category, location, name FROM Requiem_Node WHERE '' @ of_typed_message p m @ parent_is 0 i =
      select_query ''ident, category, location, name'' ''Requiem_Node'' ?cs False"
    by (simp add: query_simps)
  show "filter_mset (matches ''Requiem_Node'' ?cs False) D = mset (case x of None \<Rightarrow> [] | Some z \<Rightarrow> [node_row E p m i z])"
    by (simp add: holdsD [OF rows] node_rows_def optional_rows_def filter_indexed_none row_facts del: mset_filter split: option.split)
  fix n t h assume x: "x = Some n"
  have addresses: "reads V D (\<lambda>_. True) (map (norm_address E) (node_addresses n)) (get_address fuel E m p i)"
    unfolding get_address_def
  proof (rule reads_listed_objects [OF db, where row = "address_row E p m i" and T = "''Requiem_Address''" and cs = ?cs])
    show "''SELECT ident, category, vlan_name, vlan_num, address, netmask FROM Requiem_Address WHERE '' @
        of_typed_message p m @ parent_is 0 i @ listed_order =
        select_query ''ident, category, vlan_name, vlan_num, address, netmask'' ''Requiem_Address'' ?cs True"
      by (simp add: query_simps)
    show "filter_mset (matches ''Requiem_Address'' ?cs True) D = mset (listed_rows (address_row E p m i) (node_addresses n))"
      by (simp add: holdsD [OF rows] x node_rows_def optional_rows_def filter_indexed_listed row_facts del: mset_filter)
    show "index_of (address_row E p m i j a) = j" for j a by (simp add: row_facts)
    show "length (node_addresses n) < fuel" using ok [OF x] by simp
    show "reads V D (at_row t h (fields_of ''ident, category, vlan_name, vlan_num, address, netmask''
          (address_row E p m i (int j) (node_addresses n ! j)))) (norm_address E (node_addresses n ! j)) (read_address E t h)"
      if "j < length (node_addresses n)" for j t h
      by (rule reads_address [OF db]) (use ok [OF x] that in \<open>simp add: node_ok_def list_all_length\<close>)
  qed (use p in \<open>simp_all add: schema_table_def\<close>)
  have f: "fields_of ''ident, category, location, name'' (node_row E p m i n) =
      map lit_field [str_lit (node_ident n), enum_lit E ENUM_NODE_CATEGORY (node_category n),
        str_lit (node_location n), str_lit (node_name n)]"
    by (simp add: cell_simps node_row_def)
  show "reads V D (at_row t h (fields_of ''ident, category, location, name'' (node_row E p m i n))) (norm_node E n)
     (bindr (get_string_field E t h 0) (\<lambda>ident. bindr (get_required_enum E ENUM_NODE_CATEGORY t h 1) (\<lambda>category.
      bindr (get_string_field E t h 2) (\<lambda>location. bindr (get_string_field E t h 3) (\<lambda>name.
      bindr (get_address fuel E m p i) (\<lambda>addresses.
      retn \<lparr>node_ident = ident, node_category = category, node_location = location, node_name = name,
            node_addresses = addresses\<rparr>))))))"
    unfolding f norm_node_def
    by ((rule reads_bindr [OF stable_at_row], rule field_reads, rule db, simp, simp)+)
      (rule reads_bindr [OF stable_at_row reads_weaken [OF addresses]], simp)
qed (use p in \<open>simp_all add: schema_table_def\<close>)

section \<open>Processes\<close>

definition norm_item :: "rstring \<Rightarrow> rstring" where
  "norm_item a = Some (cstr (case a of None \<Rightarrow> [] | Some t \<Rightarrow> t))"

definition norm_process :: "idmef_process \<Rightarrow> idmef_process" where
  "norm_process x =
     \<lparr>process_ident = norm_str (process_ident x), process_name = norm_str (process_name x),
      process_pid = process_pid x, process_path = norm_str (process_path x),
      process_args = map norm_item (process_args x), process_envs = map norm_item (process_envs x)\<rparr>"

definition process_fits :: "nat \<Rightarrow> idmef_process \<Rightarrow> bool" where
  "process_fits k x \<longleftrightarrow> length (process_args x) < k \<and> length (process_envs x) < k"

lemma process_row_facts [row_facts]:
  "fst (process_row p m i x) = ''Requiem_Process''" "fst (process_arg_row p m i j a) = ''Requiem_ProcessArg''"
  "fst (process_env_row p m i j a) = ''Requiem_ProcessEnv''"
  "index_of (process_arg_row p m i j a) = j" "index_of (process_env_row p m i j a) = j"
  "matches ''Requiem_Process'' (typed_key p m @ [(''_parent0_index'', L_int k)]) False (process_row p m i x) \<longleftrightarrow> i = k"
  "matches ''Requiem_ProcessArg'' (typed_key p m @ [(''_parent0_index'', L_int k)]) True (process_arg_row p m i j a) \<longleftrightarrow>
     i = k \<and> j \<noteq> - 1"
  "matches ''Requiem_ProcessEnv'' (typed_key p m @ [(''_parent0_index'', L_int k)]) True (process_env_row p m i j a) \<longleftrightarrow>
     i = k \<and> j \<noteq> - 1"
  "fields_of ''arg'' (process_arg_row p m i j a) = [lit_field (str_lit (Some a))]"
  "fields_of ''env'' (process_env_row p m i j a) = [lit_field (str_lit (Some a))]"
  by (auto simp: match_simps process_row_def process_arg_row_def process_env_row_def)

lemma str_item: "lit_field (str_lit (Some a)) = Some (cstr (case a of None \<Rightarrow> [] | Some t \<Rightarrow> t))"
  by (simp add: str_lit_def text_lit_def get_string_def split: option.split)

lemma as_char_small: "- 128 \<le> i \<Longrightarrow> i < 128 \<Longrightarrow> as_char i = i"
  by (simp add: as_char_def sint_sbintrunc' signed_take_bit_int_eq_self)

lemma reads_items:
  assumes "sql_database E V" "schema_table T" "list_all plain_cond cs" "q = select_query cols T cs True"
    and "filter_mset (matches T cs True) D = mset (listed_rows row ys)" "\<And>i y. index_of (row i y) = i" "length ys < n"
    and "\<And>i y. fields_of cols (row i y) = [lit_field (str_lit (Some y))]" "column_text cols"
  shows "reads V D (\<lambda>_. True) (map norm_item ys) (listed_strings n E q)"
  using reads_listed_strings [OF assms(1-7), of "\<lambda>y. cstr (case y of None \<Rightarrow> [] | Some t \<Rightarrow> t)"] assms(8,9)
  by (simp add: str_item norm_item_def [abs_def])

lemma reads_process:
  assumes db: "sql_database E V" and p: "parent_char p" and i: "- 128 \<le> i" "i < 128"
    and rows: "holds D (typed_key p m @ [(''_parent0_index'', L_int i)])
      [''Requiem_Process'', ''Requiem_ProcessArg'', ''Requiem_ProcessEnv''] (process_rows p m i x)"
    and fits: "\<And>y. x = Some y \<Longrightarrow> process_fits fuel y"
  shows "reads V D (\<lambda>_. True) (map_option norm_process x) (get_process fuel E m p i)"
  unfolding get_process_def
proof (rule reads_one_object [OF db, where row = "process_row p m i" and T = "''Requiem_Process''" and
      cs = "typed_key p m @ [(''_parent0_index'', L_int i)]"])
  let ?cs = "typed_key p m @ [(''_parent0_index'', L_int i)]"
  note find = holdsD [OF rows] process_rows_def optional_rows_def filter_rows_from_none filter_from_listed row_facts
  show "''SELECT ident, name, pid, path FROM Requiem_Process WHERE '' @ of_typed_message p m @ parent_is 0 i =
      select_query ''ident, name, pid, path'' ''Requiem_Process'' ?cs False"
    by (simp add: query_simps)
  show "filter_mset (matches ''Requiem_Process'' ?cs False) D = mset (case x of None \<Rightarrow> [] | Some z \<Rightarrow> [process_row p m i z])"
    by (simp add: find del: mset_filter split: option.split)
  fix y t h assume x: "x = Some y"
  have args: "reads V D (\<lambda>_. True) (map norm_item (process_args y)) (get_process_arg fuel E m p i)"
    unfolding get_process_arg_def as_char_small [OF i]
  proof (rule reads_items [OF db, where row = "process_arg_row p m i" and T = "''Requiem_ProcessArg''" and cs = ?cs])
    show "''SELECT arg FROM Requiem_ProcessArg WHERE '' @ of_typed_message p m @ parent_is 0 i @ listed_order =
        select_query ''arg'' ''Requiem_ProcessArg'' ?cs True"
      by (simp add: query_simps)
    show "filter_mset (matches ''Requiem_ProcessArg'' ?cs True) D = mset (listed_rows (process_arg_row p m i) (process_args y))"
      by (simp add: find x del: mset_filter)
  qed (use p fits [OF x] in \<open>simp_all add: schema_table_def process_fits_def row_facts\<close>)
  have envs: "reads V D (\<lambda>_. True) (map norm_item (process_envs y)) (get_process_env fuel E m p i)"
    unfolding get_process_env_def
  proof (rule reads_items [OF db, where row = "process_env_row p m i" and T = "''Requiem_ProcessEnv''" and cs = ?cs])
    show "''SELECT env FROM Requiem_ProcessEnv WHERE '' @ of_typed_message p m @ parent_is 0 i @ listed_order =
        select_query ''env'' ''Requiem_ProcessEnv'' ?cs True"
      by (simp add: query_simps)
    show "filter_mset (matches ''Requiem_ProcessEnv'' ?cs True) D = mset (listed_rows (process_env_row p m i) (process_envs y))"
      by (simp add: find x del: mset_filter)
  qed (use p fits [OF x] in \<open>simp_all add: schema_table_def process_fits_def row_facts\<close>)
  have f: "fields_of ''ident, name, pid, path'' (process_row p m i y) =
      map lit_field [str_lit (process_ident y), str_lit (process_name y), num_lit (process_pid y), str_lit (process_path y)]"
    by (simp add: cell_simps process_row_def)
  show "reads V D (at_row t h (fields_of ''ident, name, pid, path'' (process_row p m i y))) (norm_process y)
     (bindr (get_string_field E t h 0) (\<lambda>ident. bindr (get_string_field E t h 1) (\<lambda>name.
      bindr (get_uint32 E t h 2) (\<lambda>pid. bindr (get_string_field E t h 3) (\<lambda>path.
      bindr (get_process_arg fuel E m p i) (\<lambda>args. bindr (get_process_env fuel E m p i) (\<lambda>envs.
      retn \<lparr>process_ident = ident, process_name = name, process_pid = pid, process_path = path,
            process_args = args, process_envs = envs\<rparr>)))))))"
    unfolding f norm_process_def
    by ((rule reads_bindr [OF stable_at_row], rule field_reads, rule db, simp, simp)+)
      (rule reads_bindr [OF stable_at_row reads_weaken [OF args]],
       rule reads_bindr [OF stable_at_row reads_weaken [OF envs]], simp)
qed (use p in \<open>simp_all add: schema_table_def\<close>)

section \<open>Times\<close>

lemma stable_at_row_time: "time_ok E x \<Longrightarrow> \<exists>utc. gmtime_r E (time_sec x) = Some utc \<and>
    requiem_timegm E (utc\<lparr>tm_wday := 0, tm_yday := 0\<rparr>) = time_sec x"
  by (auto simp: time_ok_def split: option.splits)

lemma reads_on_world:
  "(\<And>w. f w = (Inr x, w)) \<Longrightarrow> reads V D K x (on_world f)"
  by (rule readsI) (simp add: on_world_def frame_refl)

text \<open>A stored time, without its microseconds where the table has no column for them.\<close>

definition without_usec :: "idmef_time \<Rightarrow> idmef_time" where
  "without_usec x = x\<lparr>time_usec := 0\<rparr>"

lemma reads_timestamp:
  assumes db: "sql_database E V" and law: "time_law E t"
    and idx: "ti < length vs" "gi < length vs" "\<And>u. ui = Some u \<Longrightarrow> u < length vs"
    and vs: "vs ! ti = lit_field (time_lits E t ! 0)" "vs ! gi = lit_field (time_lits E t ! 1)"
      "\<And>u. ui = Some u \<Longrightarrow> vs ! u = lit_field (time_lits E t ! 2)"
  shows "reads V D (at_row tab h vs) (if ui = None then map_option without_usec t else t) (get_timestamp E tab h ti gi ui)"
proof (cases t)
  case None
  with vs have "vs ! ti = None" by (simp add: time_lits_def)
  then show ?thesis
    unfolding get_timestamp_def using None
    by (intro reads_bindr [OF stable_at_row reads_field [OF db idx(1)]]) simp
next
  case (Some x)
  with law have ok: "time_ok E x" by (simp add: time_law_def)
  then obtain utc where utc: "gmtime_r E (time_sec x) = Some utc"
    "requiem_timegm E (utc\<lparr>tm_wday := 0, tm_yday := 0\<rparr>) = time_sec x"
    using stable_at_row_time by blast
  have off: "field_to_int32 (dec_int (time_gmtoff x)) = Inr (Stored (time_gmtoff x))"
  proof -
    have "scan_int (cstr (dec_int (time_gmtoff x))) = Scan_int (time_gmtoff x) []"
      using scan_int_dec_int [of "[]" "time_gmtoff x"] by (simp add: stops_digits_def cstr_no_nul [OF no_nul_dec_int(1)])
    with ok show ?thesis by (simp add: field_to_int32_def field_to_def store_signed_def time_ok_def)
  qed
  have us: "field_to_uint32 (dec_int (time_usec x)) = Inr (Stored (time_usec x))"
    using field_to_uint32_int [of "time_usec x"] ok by (simp add: time_ok_def)
  have f: "vs ! ti = Some (timestamp_text utc)" "vs ! gi = Some (dec_int (time_gmtoff x))"
    "\<And>u. ui = Some u \<Longrightarrow> vs ! u = Some (dec_int (time_usec x))"
    using vs Some utc by (simp_all add: time_lits_def)
  let ?usec = "if ui = None then 0 else time_usec x"
  have gmtoff: "reads V D (at_row tab h vs) (dec_int (time_gmtoff x)) (required_field (requiemdb_sql_row_fetch_field E tab h gi))"
    unfolding required_field_def
    by (rule reads_bindr [OF stable_at_row reads_field [OF db idx(2)]]) (simp add: f)
  have usec: "reads V D (at_row tab h vs) ?usec (case ui of None \<Rightarrow> retn 0
      | Some u \<Rightarrow> bindr (required_field (requiemdb_sql_row_fetch_field E tab h u)) (\<lambda>v. assigned 0 (field_to_uint32 v)))"
  proof (cases ui)
    case (Some u)
    have "reads V D (at_row tab h vs) (dec_int (time_usec x)) (required_field (requiemdb_sql_row_fetch_field E tab h u))"
      unfolding required_field_def
      by (rule reads_bindr [OF stable_at_row reads_field [OF db idx(3) [OF Some]]]) (simp add: f(3) [OF Some])
    then show ?thesis using Some us by (auto intro!: reads_bindr simp: assigned_def)
  qed simp
  have result: "(if ui = None then map_option without_usec t else t) =
      Some \<lparr>time_sec = time_sec x, time_usec = ?usec, time_gmtoff = time_gmtoff x\<rparr>"
    using Some by (simp add: without_usec_def)
  show ?thesis
    unfolding get_timestamp_def result
    apply (rule reads_bindr [OF stable_at_row reads_field [OF db idx(1)]])
    apply (simp only: f(1) option.case)
    apply (rule reads_bindr [OF stable_at_row gmtoff], rule reads_bindr [OF stable_at_row usec])
    by (simp only: off sum.case stored.case bindr_retn_left)
      (rule reads_bindr [OF stable_at_row reads_on_world [OF timestamp_read [OF utc(2)]]], simp)
qed

lemma time_row_facts [row_facts]: "fst (time_row E T key t) = T"
  by (simp add: time_row_def)

text \<open>The time tables; the row may be missing, or be there for a time that is not.\<close>

lemma reads_time_of:
  assumes db: "sql_database E V" and T: "schema_table T" and key: "list_all plain_cond key"
    and cond: "cond = conditions (map (\<lambda>(c, v). (c, lit_text v)) key)"
    and names: "\<And>c. c \<in> set [''time'', ''gmtoff'', ''usec''] \<Longrightarrow> c \<notin> fst ` set key"
    and rows: "filter_mset (matches T key False) D = mset (case y of None \<Rightarrow> [] | Some t \<Rightarrow> [time_row E T key t])"
    and law: "\<And>t. y = Some t \<Longrightarrow> time_law E t"
  shows "reads V D (\<lambda>_. True) (case y of None \<Rightarrow> None | Some t \<Rightarrow> t) (get_time_of E T cond)"
proof -
  have "reads V D (\<lambda>_. True) (map_option id y)
     (one_object E (''SELECT time, gmtoff, usec FROM '' @ T @ '' WHERE '' @ cond) (\<lambda>t row. get_timestamp E t row 0 1 (Some 2)))"
  proof (rule reads_one_object [OF db T key _ rows])
    show "''SELECT time, gmtoff, usec FROM '' @ T @ '' WHERE '' @ cond = select_query ''time, gmtoff, usec'' T key False"
      by (simp add: select_query_def select_text_def cond)
    fix t tab h assume y: "y = Some t"
    obtain a b c where l: "time_lits E t = [a, b, c]" using time_lits_three by blast
    have "cell (T, key @ zs) n = cell (T, zs) n" if "n \<in> set [''time'', ''gmtoff'', ''usec'']" for n zs
      using iffD2 [OF map_of_eq_None_iff names [OF that]] by (simp add: cell_def map_add_def)
    then have "fields_of ''time, gmtoff, usec'' (time_row E T key t) =
        map (\<lambda>n. lit_field (cell (T, zip [''time'', ''gmtoff'', ''usec''] [a, b, c]) n)) [''time'', ''gmtoff'', ''usec'']"
      by (simp add: fields_of_def column_names_def time_row_def l)
    then have "fields_of ''time, gmtoff, usec'' (time_row E T key t) = map lit_field [a, b, c]"
      by (simp add: cell_def)
    then show "reads V D (at_row tab h (fields_of ''time, gmtoff, usec'' (time_row E T key t))) (id t)
        (get_timestamp E tab h 0 1 (Some 2))"
      using reads_timestamp [OF db law [OF y], of 0 "map lit_field [a, b, c]" 1 "Some 2" D tab h] l by simp
  qed simp
  then show ?thesis
    unfolding get_time_of_def
    by (rule reads_bindr [OF stable_True]) (cases y; simp)
qed

section \<open>Additional data\<close>

text \<open>
  What the stored text of a data object is read as, by the type of the additional data; none
  when the reading fails.
\<close>

definition number_value :: "string \<Rightarrow> err + stored \<Rightarrow> (int \<Rightarrow> data_value) \<Rightarrow> data_value option" where
  "number_value v r set_number =
    (case r of Inl _ \<Rightarrow> Some (Data_char_string (cstr v)) | Inr (Stored i) \<Rightarrow> Some (set_number i) | Inr _ \<Rightarrow> None)"

definition float_value :: "string \<Rightarrow> err + 32 word option \<Rightarrow> data_value option" where
  "float_value v r = (case r of Inl _ \<Rightarrow> Some (Data_char_string (cstr v)) | Inr x \<Rightarrow> map_option Data_float x)"

definition value_read :: "'w env \<Rightarrow> 'w database \<Rightarrow> ad_kind option \<Rightarrow> string \<Rightarrow> data_value option" where
  "value_read E V kind b =
    (let v = stored_binary V b in
     case kind of
       None \<Rightarrow> Some Data_unset
     | Some AD_BOOLEAN \<Rightarrow> number_value v (field_to_uint8 v) (\<lambda>i. Data_byte (word_of_int i))
     | Some AD_BYTE \<Rightarrow> number_value v (field_to_uint8 v) (\<lambda>i. Data_byte (word_of_int i))
     | Some AD_CHARACTER \<Rightarrow> number_value v (field_to_uint8 v) (\<lambda>i. Data_char (word_of_int i))
     | Some AD_DATE_TIME \<Rightarrow> Some (Data_char_string (cstr v))
     | Some AD_PORTLIST \<Rightarrow> Some (Data_char_string (cstr v))
     | Some AD_STRING \<Rightarrow> Some (Data_char_string (cstr v))
     | Some AD_XML \<Rightarrow> Some (Data_char_string (cstr v))
     | Some AD_REAL \<Rightarrow> float_value v (field_to_float E v)
     | Some AD_INTEGER \<Rightarrow> number_value v (field_to_uint32 v) (\<lambda>i. Data_uint32 (word_of_int i))
     | Some AD_BYTE_STRING \<Rightarrow> Some (Data_byte_string b)
     | Some AD_NTPSTAMP \<Rightarrow> number_value v (field_to_uint64 v) (\<lambda>i. Data_uint64 (word_of_int i))
     | Some AD_ERROR \<Rightarrow> None)"

definition norm_additional_data :: "'w env \<Rightarrow> 'w database \<Rightarrow> idmef_additional_data \<Rightarrow> idmef_additional_data" where
  "norm_additional_data E V a =
    (let type = norm_enum E ENUM_ADDITIONAL_DATA_TYPE (ad_type a) in
     \<lparr>ad_type = type, ad_meaning = norm_str (ad_meaning a),
      ad_data = map_option (\<lambda>d. idmef_data_set E
        (the (value_read E V (additional_data_kind E type) (the (data_text d))))) (ad_data a)\<rparr>)"

definition additional_data_ok :: "'w env \<Rightarrow> 'w database \<Rightarrow> idmef_additional_data \<Rightarrow> bool" where
  "additional_data_ok E V a \<longleftrightarrow>
    (case ad_data a of
       None \<Rightarrow> False
     | Some d \<Rightarrow> (case data_text d of
          None \<Rightarrow> False
        | Some b \<Rightarrow> value_read E V (additional_data_kind E (norm_enum E ENUM_ADDITIONAL_DATA_TYPE (ad_type a))) b \<noteq> None))"

lemma unescape_run:
  assumes "sql_database E V" "connected s"
  shows "\<exists>s'. requiemdb_sql_unescape_binary E (stored_binary V b) s = (Inr b, s') \<and> connected s' \<and>
    database_of V s' = database_of V s"
proof -
  obtain w' where "plugin_sql_unescape_binary (env_plugin E) (stored_binary V b) (sql_world s) = (Inr b, w')"
    "contents V w' = database_of V s"
    using assms(1) unfolding sql_database_def escape_law_def by blast
  with locked_run [where f = "plugin_sql_unescape_binary (env_plugin E) (stored_binary V b)", OF assms(2) this(1), of E] assms(2)
  show ?thesis by (auto simp: requiemdb_sql_unescape_binary_def same_session_connected)
qed

lemma reads_unescape:
  assumes "sql_database E V"
  shows "reads V D K b (requiemdb_sql_unescape_binary E (stored_binary V b))"
  by (rule readsI) (use unescape_run [OF assms] in \<open>fastforce simp: frame_refl\<close>)

lemma reads_number_or_text: "number_value v r g = Some x \<Longrightarrow> reads V D K x (number_or_text v r g)"
  by (auto simp: number_value_def number_or_text_def split: sum.splits stored.splits)

lemma reads_float_or_text: "float_value v r = Some x \<Longrightarrow> reads V D K x (float_or_text v r)"
  by (auto simp: float_value_def float_or_text_def split: sum.splits option.splits)

lemma reads_data:
  assumes "sql_database E V" "value_read E V kind b = Some x"
  shows "reads V D (\<lambda>_. True) x (read_data E kind (stored_binary V b))"
proof (cases kind)
  case (Some k)
  have "reads V D (\<lambda>_. True) (Data_byte_string b)
      (bindr (requiemdb_sql_unescape_binary E (stored_binary V b)) (\<lambda>b. retn (Data_byte_string b)))"
    by (rule reads_bindr [OF stable_True reads_unescape [OF assms(1)]]) simp
  with Some assms(2) show ?thesis
    by (cases k) (auto simp: value_read_def read_data_def Let_def intro: reads_number_or_text reads_float_or_text)
qed (use assms(2) in \<open>simp add: value_read_def read_data_def\<close>)

lemma additional_data_facts [row_facts]:
  "fst (additional_data_row E V p m i a) = ''Requiem_AdditionalData''"
  "index_of (additional_data_row E V p m i a) = i"
  "matches ''Requiem_AdditionalData'' (typed_key p m) True (additional_data_row E V p m i a) \<longleftrightarrow> i \<noteq> - 1"
  "fields_of ''type, meaning, data'' (additional_data_row E V p m i a) =
     map lit_field [enum_lit E ENUM_ADDITIONAL_DATA_TYPE (ad_type a), str_lit (ad_meaning a), data_lit V (ad_data a)]"
  by (auto simp: match_simps additional_data_row_def)

text \<open>While no data is NULL, the loop is one over all rows.\<close>

definition read_additional_data :: "'w env \<Rightarrow> sql_res \<Rightarrow> sql_rowh \<Rightarrow> ('w, idmef_additional_data) sqlop" where
  "read_additional_data E t h =
     bindr (get_required_enum E ENUM_ADDITIONAL_DATA_TYPE t h 0) (\<lambda>type.
     bindr (get_string_field E t h 1) (\<lambda>meaning.
     bindr (required_field (requiemdb_sql_row_fetch_field E t h 2)) (\<lambda>v.
     bindr (read_data E (additional_data_kind E type) v) (\<lambda>d.
     retn \<lparr>ad_type = type, ad_meaning = meaning, ad_data = Some (idmef_data_set E d)\<rparr>))))"

lemma additional_data_loop_rows:
  "each_row n E t i (\<lambda>_. read_additional_data E t) s = (Inr xs, s') \<Longrightarrow> additional_data_loop n E t s = (Inr xs, s')"
  by (induction n arbitrary: i s xs)
    (fastforce simp: read_additional_data_def bindr_assoc required_field_def bindr_def
      split: prod.splits sum.splits option.splits)+

lemma reads_read_additional_data:
  assumes db: "sql_database E V" and ok: "additional_data_ok E V a"
  shows "reads V D (at_row t h (fields_of ''type, meaning, data'' (additional_data_row E V p m i a)))
    (norm_additional_data E V a) (read_additional_data E t h)"
proof -
  from ok obtain d b where d: "ad_data a = Some d" "data_text d = Some b"
    and "value_read E V (additional_data_kind E (norm_enum E ENUM_ADDITIONAL_DATA_TYPE (ad_type a))) b \<noteq> None"
    by (auto simp: additional_data_ok_def split: option.splits)
  then obtain x where x: "value_read E V (additional_data_kind E (norm_enum E ENUM_ADDITIONAL_DATA_TYPE (ad_type a))) b = Some x"
    by auto
  let ?vs = "map lit_field [enum_lit E ENUM_ADDITIONAL_DATA_TYPE (ad_type a), str_lit (ad_meaning a), data_lit V (ad_data a)]"
  have data: "reads V D (at_row t h ?vs) (stored_binary V b) (required_field (requiemdb_sql_row_fetch_field E t h 2))"
    unfolding required_field_def
    by (rule reads_bindr [OF stable_at_row reads_field [OF db]]) (simp_all add: data_lit_def d)
  show ?thesis
    unfolding row_facts read_additional_data_def norm_additional_data_def Let_def
    apply ((rule reads_bindr [OF stable_at_row], rule field_reads, rule db, simp, simp)+)
    by (rule reads_bindr [OF stable_at_row data],
        rule reads_bindr [OF stable_at_row reads_weaken [OF reads_data [OF db x]]]) (simp add: d x)
qed

lemma reads_additional_data:
  assumes db: "sql_database E V" and p: "parent_char p"
    and rows: "holds D (typed_key p m) [''Requiem_AdditionalData''] (indexed_rows (\<lambda>i a. [additional_data_row E V p m i a]) xs)"
    and ok: "list_all (additional_data_ok E V) xs" and fits: "length xs < fuel"
  shows "reads V D (\<lambda>_. True) (map (norm_additional_data E V) xs) (get_additional_data fuel E m p)"
  unfolding get_additional_data_def
proof (rule reads_select [OF db, where T = "''Requiem_AdditionalData''" and cs = "typed_key p m"])
  let ?L = "listed_rows (additional_data_row E V p m) xs"
  show "''SELECT type, meaning, data FROM Requiem_AdditionalData WHERE '' @ of_typed_message p m @ listed_order =
      select_query ''type, meaning, data'' ''Requiem_AdditionalData'' (typed_key p m) True"
    by (simp add: query_simps)
  show "filter_mset (matches ''Requiem_AdditionalData'' (typed_key p m) True) D = mset ?L"
    by (simp add: holdsD [OF rows] filter_indexed_listed row_facts del: mset_filter)
  show "in_order True ?L" by (rule listed_rows_in_order) (simp add: row_facts)
  have body: "reads V D (at_row t h (map (fields_of ''type, meaning, data'') ?L ! j)) (map (norm_additional_data E V) xs ! j)
      (read_additional_data E t h)" if "j < length (map (fields_of ''type, meaning, data'') ?L)" for j t h
    using reads_read_additional_data [OF db, of "xs ! j" D t h p m "int j"] ok that
    by (simp add: listed_rows_def list_all_length)
  have "works_through V D (map (fields_of ''type, meaning, data'') ?L) (map (norm_additional_data E V) xs)
      (\<lambda>t. each_row fuel E t 0 (\<lambda>_. read_additional_data E t))"
    by (rule works_each_row [OF db, where body = "\<lambda>t _. read_additional_data E t", OF body])
      (simp_all add: listed_rows_def fits)
  then show "works_through V D (map (fields_of ''type, meaning, data'') ?L) (map (norm_additional_data E V) xs)
      (additional_data_loop fuel E)"
    unfolding works_through_def using additional_data_loop_rows by blast
qed (use p in \<open>simp_all add: schema_table_def listed_rows_def\<close>)

section \<open>Analyzers\<close>

definition norm_analyzer :: "'w env \<Rightarrow> idmef_analyzer \<Rightarrow> idmef_analyzer" where
  "norm_analyzer E a =
     \<lparr>analyzer_analyzerid = norm_str (analyzer_analyzerid a), analyzer_name = norm_str (analyzer_name a),
      analyzer_manufacturer = norm_str (analyzer_manufacturer a), analyzer_model = norm_str (analyzer_model a),
      analyzer_version = norm_str (analyzer_version a), analyzer_class = norm_str (analyzer_class a),
      analyzer_ostype = norm_str (analyzer_ostype a), analyzer_osversion = norm_str (analyzer_osversion a),
      analyzer_node = map_option (norm_node E) (analyzer_node a),
      analyzer_process = map_option norm_process (analyzer_process a)\<rparr>"

definition analyzer_fits :: "nat \<Rightarrow> idmef_analyzer \<Rightarrow> bool" where
  "analyzer_fits k a \<longleftrightarrow>
     (case analyzer_node a of None \<Rightarrow> True | Some n \<Rightarrow> length (node_addresses n) < k) \<and>
     (case analyzer_process a of None \<Rightarrow> True | Some x \<Rightarrow> process_fits k x)"

lemma analyzer_row_facts [row_facts]:
  "fst (analyzer_row p m i a) = ''Requiem_Analyzer''" "index_of (analyzer_row p m i a) = i"
  "matches ''Requiem_Analyzer'' (typed_key p m) True (analyzer_row p m i a) \<longleftrightarrow> i \<noteq> - 1"
  "fields_of ''analyzerid, name, manufacturer, model, version, class, ostype, osversion'' (analyzer_row p m i a) =
     map lit_field [str_lit (analyzer_analyzerid a), str_lit (analyzer_name a), str_lit (analyzer_manufacturer a),
       str_lit (analyzer_model a), str_lit (analyzer_version a), str_lit (analyzer_class a),
       str_lit (analyzer_ostype a), str_lit (analyzer_osversion a)]"
  by (auto simp: match_simps analyzer_row_def)

text \<open>Which table the rows of an object are in, and the index of its parent.\<close>

lemma keyed_node_rows:
  "list_all (keyed [''Requiem_Node'', ''Requiem_Address''] (typed_key p m @ [(''_parent0_index'', L_int i)])) (node_rows E p m i x)"
  unfolding node_rows_def
  by (intro keyed_optional) (simp add: keyed_indexed, simp add: keyed_def node_row_def cell_simps,
      intro keyed_indexed, simp add: keyed_def address_row_def cell_simps)

lemma keyed_process_rows:
  "list_all (keyed [''Requiem_Process'', ''Requiem_ProcessArg'', ''Requiem_ProcessEnv'']
     (typed_key p m @ [(''_parent0_index'', L_int i)])) (process_rows p m i x)"
  unfolding process_rows_def
  by (intro keyed_optional) (simp, intro conjI keyed_rows_from;
      simp add: keyed_def process_row_def process_arg_row_def process_env_row_def cell_simps)

text \<open>The rows of one part of the child \<open>k\<close>, among those of all children.\<close>

lemma holds_child:
  assumes "holds D key Ts (indexed_rows g xs)" "k < length xs" "set Ts' \<subseteq> set Ts"
    and part: "\<And>T cs l i x. T \<in> set Ts' \<Longrightarrow> set key \<subseteq> set cs \<Longrightarrow>
      filter (matches T cs l) (g i x) = filter (matches T cs l) (part i x)"
    and keyed: "\<And>i x. list_all (keyed Us (key @ [(c, L_int i)])) (part i x)"
  shows "holds D (key @ [(c, L_int (int k))]) Ts' (part (int k) (xs ! k))"
proof (rule holds_narrow [OF assms(1)])
  fix T cs l assume T: "T \<in> set Ts'" and cs: "set (key @ [(c, L_int (int k))]) \<subseteq> set cs"
  have p: "filter (matches T cs l) (g i x) = filter (matches T cs l) (part i x)" for i x
    by (rule part [OF T]) (use cs in auto)
  have "filter (matches T cs l) (g j x) = []" if "j \<noteq> int k" for j x
    unfolding p
    by (rule keyed_other_value [OF keyed, where c = c and v = "L_int j" and v' = "L_int (int k)"])
      (use cs that in auto)
  from filter_indexed_at [OF this assms(2)]
  show "filter (matches T cs l) (indexed_rows g xs) = filter (matches T cs l) (part (int k) (xs ! k))"
    by (simp add: p)
qed (use assms(3) in auto)

lemma holds_part:
  assumes "holds D key Ts (indexed_rows g xs)" "k < length xs" "set Ts' \<subseteq> set Ts"
    and "\<And>T cs l i x. T \<in> set Ts' \<Longrightarrow> filter (matches T cs l) (g i x) = filter (matches T cs l) (part i x)"
    and "\<And>i x. list_all (keyed Us (key @ [(c, L_int i)])) (part i x)"
  shows "holds D (key @ [(c, L_int (int k))]) Ts' (part (int k) (xs ! k))"
  by (rule holds_child [OF assms(1-3) assms(4) assms(5)])

lemma analyzer_parts:
  "T \<in> set [''Requiem_Node'', ''Requiem_Address''] \<Longrightarrow>
     filter (matches T cs l) (analyzer_rows E p m i a) = filter (matches T cs l) (node_rows E p m i (analyzer_node a))"
  "T \<in> set [''Requiem_Process'', ''Requiem_ProcessArg'', ''Requiem_ProcessEnv''] \<Longrightarrow>
     filter (matches T cs l) (analyzer_rows E p m i a) = filter (matches T cs l) (process_rows p m i (analyzer_process a))"
  by (auto simp: analyzer_rows_def row_facts keyed_other_table [OF keyed_node_rows] keyed_other_table [OF keyed_process_rows])

lemma reads_analyzers:
  assumes db: "sql_database E V" and p: "parent_char p"
    and rows: "holds D (typed_key p m) [''Requiem_Analyzer'', ''Requiem_Node'', ''Requiem_Address'', ''Requiem_Process'',
      ''Requiem_ProcessArg'', ''Requiem_ProcessEnv''] (indexed_rows (analyzer_rows E p m) xs)"
    and ok: "list_all (\<lambda>a. analyzer_ok a \<and> analyzer_fits fuel a) xs" and fits: "length xs < fuel" "length xs \<le> 128"
  shows "reads V D (\<lambda>_. True) (map (norm_analyzer E) xs) (get_analyzer fuel E m p)"
  unfolding get_analyzer_def
proof (rule reads_each_listed [OF db, where row = "analyzer_row p m" and T = "''Requiem_Analyzer''" and cs = "typed_key p m"])
  show "''SELECT analyzerid, name, manufacturer, model, version, class, ostype, osversion FROM Requiem_Analyzer WHERE '' @
      of_typed_message p m @ listed_order =
      select_query ''analyzerid, name, manufacturer, model, version, class, ostype, osversion'' ''Requiem_Analyzer''
        (typed_key p m) True"
    by (simp add: query_simps)
  have "filter (matches ''Requiem_Analyzer'' cs l) (analyzer_rows E p m i a) =
      filter (matches ''Requiem_Analyzer'' cs l) [analyzer_row p m i a]" for cs l i a
    by (simp add: analyzer_rows_def keyed_other_table [OF keyed_node_rows] keyed_other_table [OF keyed_process_rows])
  then show "filter_mset (matches ''Requiem_Analyzer'' (typed_key p m) True) D = mset (listed_rows (analyzer_row p m) xs)"
    by (simp add: holdsD [OF rows] filter_indexed_listed row_facts del: mset_filter)
  fix k t h assume k: "k < length xs"
  with ok have a: "analyzer_ok (xs ! k)" "analyzer_fits fuel (xs ! k)" by (simp_all add: list_all_length)
  have node: "reads V D (\<lambda>_. True) (map_option (norm_node E) (analyzer_node (xs ! k))) (get_node fuel E m p (int k))"
    by (rule reads_node [OF db p holds_part [OF rows k _ analyzer_parts(1) keyed_node_rows]])
      (use a in \<open>auto simp: analyzer_ok_def analyzer_fits_def\<close>)
  have process: "reads V D (\<lambda>_. True) (map_option norm_process (analyzer_process (xs ! k))) (get_process fuel E m p (int k))"
    by (rule reads_process [OF db p _ _ holds_part [OF rows k _ analyzer_parts(2) keyed_process_rows]])
      (use a fits(2) k in \<open>auto simp: analyzer_fits_def\<close>)
  show "reads V D (at_row t h (fields_of ''analyzerid, name, manufacturer, model, version, class, ostype, osversion''
      (analyzer_row p m (int k) (xs ! k)))) (norm_analyzer E (xs ! k)) (read_analyzer fuel E m p (int k) t h)"
    unfolding row_facts read_analyzer_def norm_analyzer_def
    by ((rule reads_bindr [OF stable_at_row], rule field_reads, rule db, simp, simp)+)
      (rule reads_bindr [OF stable_at_row reads_weaken [OF node]],
       rule reads_bindr [OF stable_at_row reads_weaken [OF process]], simp)
qed (use p fits in \<open>simp_all add: schema_table_def row_facts\<close>)

end
