(* ===== verification/AlertRows.thy ===== *)
theory AlertRows
  imports StoredRows
begin

text \<open>
  The rows an alert is stored as, beyond those it shares with a heartbeat: users, services,
  files, sources, targets, the classification, the assessment and the kinds of alert; and that
  each handler of the insertion writes exactly its rows.
\<close>

section \<open>Keys and literals\<close>

definition message_key :: "int \<Rightarrow> (string \<times> lit) list" where
  "message_key m = [(''_message_ident'', L_int m)]"

definition file_key :: "int \<Rightarrow> int \<Rightarrow> int \<Rightarrow> (string \<times> lit) list" where
  "file_key m i j = [(''_message_ident'', L_int m), (''_parent0_index'', L_int i), (''_parent1_index'', L_int j)]"

definition opt_enum_lit :: "'w env \<Rightarrow> enum_kind \<Rightarrow> int option \<Rightarrow> lit" where
  "opt_enum_lit E k v = text_lit (get_optional_enum E k v)"

lemma writes_esc_opt_enum [value_writes]:
  "sql_database E V \<Longrightarrow>
   writes V (\<lambda>x. denotes V x (opt_enum_lit E k v)) [] (requiemdb_sql_escape E (get_optional_enum E k v))"
  unfolding opt_enum_lit_def by (rule writes_escape)

lemma writes_esc_string_freeing [value_writes]:
  "sql_database E V \<Longrightarrow> writes V (\<lambda>x. denotes V x (str_lit s)) [] (freeing_unset (esc_string E s))"
  by (intro writes_freeing_unset writes_esc_string)

lemma denotes_float: "sql_database E V \<Longrightarrow> denotes V (format_float E x) (L_text (stored_float V x))"
  by (simp add: sql_database_def literal_law_def)

text \<open>A time stored without microseconds.\<close>

definition time_lit :: "'w env \<Rightarrow> idmef_time option \<Rightarrow> lit" where
  "time_lit E t = time_lits E t ! 0"

definition gmtoff_lit :: "'w env \<Rightarrow> idmef_time option \<Rightarrow> lit" where
  "gmtoff_lit E t = time_lits E t ! 1"

lemma writes_time_pair:
  assumes db: "sql_database E V" and law: "time_law E t"
  shows "writes V (\<lambda>(a, b). denotes V a (time_lit E t) \<and> denotes V b (gmtoff_lit E t)) [] (time_texts E t)"
proof (cases t)
  case None
  then show ?thesis
    using db
    by (auto simp: time_texts_def requiemdb_sql_time_to_timestamp_def TIMESTAMP_STRING_SIZE_def snprintf_short
        str_or_null_def time_lits_def time_lit_def gmtoff_lit_def denotes_null intro: writes_retn)
next
  case (Some x)
  with law have ok: "time_ok E x" and b: "pl_build_timestamp (env_plugin E) = None" by (simp_all add: time_law_def)
  then obtain utc where utc: "gmtime_r E (time_sec x) = Some utc" "length (timestamp_text utc) < 126"
    and off: "- (2 ^ 31) \<le> time_gmtoff x" "time_gmtoff x < 2 ^ 31"
    by (auto simp: time_ok_def split: option.splits)
  have eq: "time_texts E t = retn ([CHR 0x27] @ timestamp_text utc @ [CHR 0x27], dec_int (time_gmtoff x))"
    using Some utc b dec_int_text [OF off, of 16]
    by (simp add: time_texts_def requiemdb_sql_time_to_timestamp_def TIMESTAMP_STRING_SIZE_def
        plugin_sql_build_timestamp_string_def)
  have "denotes V ([CHR 0x27] @ timestamp_text utc @ [CHR 0x27]) (L_text (timestamp_text utc))"
    using denotes_lit_text [OF db, of "L_text (timestamp_text utc)"] by (simp add: timestamp_no_quote)
  with Some utc db show ?thesis
    unfolding eq by (intro writes_retn) (simp add: time_lits_def time_lit_def gmtoff_lit_def denotes_int)
qed

lemma writes_pair_bindr:
  "writes V (\<lambda>(a, b). Q a b) [] f \<Longrightarrow> (\<And>a b. Q a b \<Longrightarrow> writes V R rs (g a b)) \<Longrightarrow> writes V R rs (bindr f (\<lambda>(a, b). g a b))"
  by (rule writes_quiet_bindr [where Q = "\<lambda>(a, b). Q a b"]) auto

lemmas alert_row_simps = row_simps message_key_def file_key_def denotes_float

section \<open>Users\<close>

definition user_id_row :: "'w env \<Rightarrow> char \<Rightarrow> int \<Rightarrow> int \<Rightarrow> int \<Rightarrow> int \<Rightarrow> int \<Rightarrow> idmef_user_id \<Rightarrow> sql_row" where
  "user_id_row E p m i j k l u = (''Requiem_UserId'', typed_key p m @
     [(''_parent0_index'', L_int i), (''_parent1_index'', L_int j), (''_parent2_index'', L_int k), (''_index'', L_int l),
      (''ident'', str_lit (user_id_ident u)), (''type'', enum_lit E ENUM_USER_ID_TYPE (user_id_type u)),
      (''name'', str_lit (user_id_name u)), (''number'', num_lit (user_id_number u)), (''tty'', str_lit (user_id_tty u))])"

definition user_row :: "'w env \<Rightarrow> char \<Rightarrow> int \<Rightarrow> int \<Rightarrow> idmef_user \<Rightarrow> sql_row" where
  "user_row E p m i u = (''Requiem_User'', typed_key p m @
     [(''_parent0_index'', L_int i), (''ident'', str_lit (user_ident u)),
      (''category'', enum_lit E ENUM_USER_CATEGORY (user_category u))])"

definition user_rows :: "'w env \<Rightarrow> char \<Rightarrow> int \<Rightarrow> int \<Rightarrow> idmef_user option \<Rightarrow> sql_row list" where
  "user_rows E p m i = optional_rows (\<lambda>u. [user_row E p m i u] @ indexed_rows (\<lambda>l x. [user_id_row E p m i 0 0 l x]) (user_user_ids u))"

lemma writes_user_id:
  assumes "sql_database E V" "parent_char p"
  shows "writes V any_value [user_id_row E p m i j k l u] (insert_user_id E p m i j k l u)"
  unfolding insert_user_id_def
  apply (rule writes_quiet_bindr, rule value_writes [OF assms(1)])+
  by (rule writes_row [OF assms(1) user_id_row_def]) (use assms in \<open>auto simp: row_simps\<close>)

lemma writes_user:
  assumes "sql_database E V" "parent_char p"
  shows "writes V any_value (user_rows E p m i x) (insert_user E p m i x)"
  unfolding insert_user_def user_rows_def
  apply (rule writes_insert_optional)
  apply (rule writes_quiet_bindr, rule value_writes [OF assms(1)])+
  apply (rule writes_bindr, rule writes_row [OF assms(1) user_row_def])
       apply (use assms in \<open>auto simp: row_simps\<close>)[5]
  by (intro writes_insert_indexed writes_user_id assms)

section \<open>Services\<close>

definition snmp_service_row :: "char \<Rightarrow> int \<Rightarrow> int \<Rightarrow> idmef_snmp_service \<Rightarrow> sql_row" where
  "snmp_service_row p m i x = (''Requiem_SnmpService'', typed_key p m @
     [(''_parent0_index'', L_int i), (''snmp_oid'', str_lit (snmp_oid x)),
      (''message_processing_model'', num_lit (snmp_message_processing_model x)),
      (''security_model'', num_lit (snmp_security_model x)), (''security_name'', str_lit (snmp_security_name x)),
      (''security_level'', num_lit (snmp_security_level x)), (''context_name'', str_lit (snmp_context_name x)),
      (''context_engine_id'', str_lit (snmp_context_engine_id x)), (''command'', str_lit (snmp_command x))])"

definition web_service_arg_row :: "char \<Rightarrow> int \<Rightarrow> int \<Rightarrow> int \<Rightarrow> rstring \<Rightarrow> sql_row" where
  "web_service_arg_row p m i j a = (''Requiem_WebServiceArg'', typed_key p m @
     [(''_parent0_index'', L_int i), (''_index'', L_int j), (''arg'', str_lit (Some a))])"

definition web_service_row :: "char \<Rightarrow> int \<Rightarrow> int \<Rightarrow> idmef_web_service \<Rightarrow> sql_row" where
  "web_service_row p m i x = (''Requiem_WebService'', typed_key p m @
     [(''_parent0_index'', L_int i), (''url'', str_lit (web_url x)), (''cgi'', str_lit (web_cgi x)),
      (''http_method'', str_lit (web_http_method x))])"

definition service_row :: "char \<Rightarrow> int \<Rightarrow> int \<Rightarrow> idmef_service \<Rightarrow> sql_row" where
  "service_row p m i x = (''Requiem_Service'', typed_key p m @
     [(''_parent0_index'', L_int i), (''ident'', str_lit (service_ident x)), (''ip_version'', num_lit (service_ip_version x)),
      (''name'', str_lit (service_name x)), (''port'', num_lit (service_port x)),
      (''iana_protocol_number'', num_lit (service_iana_protocol_number x)),
      (''iana_protocol_name'', str_lit (service_iana_protocol_name x)), (''portlist'', str_lit (service_portlist x)),
      (''protocol'', str_lit (service_protocol x))])"

definition web_service_rows :: "char \<Rightarrow> int \<Rightarrow> int \<Rightarrow> idmef_web_service option \<Rightarrow> sql_row list" where
  "web_service_rows p m i = optional_rows (\<lambda>x. [web_service_row p m i x] @ indexed_rows (\<lambda>j a. [web_service_arg_row p m i j a]) (web_args x))"

definition service_type_rows :: "char \<Rightarrow> int \<Rightarrow> int \<Rightarrow> service_type \<Rightarrow> sql_row list" where
  "service_type_rows p m i t =
    (case t of
       Service_web x \<Rightarrow> web_service_rows p m i x
     | Service_snmp x \<Rightarrow> optional_rows (\<lambda>y. [snmp_service_row p m i y]) x
     | _ \<Rightarrow> [])"

definition service_rows :: "char \<Rightarrow> int \<Rightarrow> int \<Rightarrow> idmef_service option \<Rightarrow> sql_row list" where
  "service_rows p m i = optional_rows (\<lambda>x. [service_row p m i x] @ service_type_rows p m i (service_type x))"

definition service_ok :: "idmef_service option \<Rightarrow> bool" where
  "service_ok x \<longleftrightarrow> (case x of None \<Rightarrow> True | Some y \<Rightarrow> service_type y \<noteq> Service_other)"

lemma writes_snmp_service:
  assumes "sql_database E V" "parent_char p"
  shows "writes V any_value (optional_rows (\<lambda>y. [snmp_service_row p m i y]) x) (insert_snmp_service E p m i x)"
  unfolding insert_snmp_service_def
  apply (rule writes_insert_optional)
  apply (rule writes_quiet_bindr, rule value_writes [OF assms(1)])+
  by (rule writes_row [OF assms(1) snmp_service_row_def]) (use assms in \<open>auto simp: row_simps\<close>)

lemma writes_web_service_arg:
  assumes "sql_database E V" "parent_char p"
  shows "writes V any_value [web_service_arg_row p m i j a] (insert_web_service_arg E p m i j a)"
  unfolding insert_web_service_arg_def
  apply (rule writes_quiet_bindr, rule value_writes [OF assms(1)])+
  by (rule writes_row [OF assms(1) web_service_arg_row_def]) (use assms in \<open>auto simp: row_simps\<close>)

lemma writes_web_service:
  assumes "sql_database E V" "parent_char p"
  shows "writes V any_value (web_service_rows p m i x) (insert_web_service E p m i x)"
  unfolding insert_web_service_def web_service_rows_def
  apply (rule writes_insert_optional)
  apply (rule writes_quiet_bindr, rule value_writes [OF assms(1)])+
  apply (rule writes_bindr, rule writes_row(2) [OF assms(1) web_service_row_def])
       apply (use assms in \<open>auto simp: row_simps\<close>)[5]
  by (intro writes_insert_indexed writes_web_service_arg assms)

lemma writes_service:
  assumes "sql_database E V" "parent_char p" "service_ok x"
  shows "writes V any_value (service_rows p m i x) (insert_service E p m i x)"
  unfolding insert_service_def service_rows_def
  apply (rule writes_insert_optional)
  apply (rule writes_quiet_bindr, rule value_writes [OF assms(1)])+
  apply (rule writes_bindr, rule writes_row [OF assms(1) service_row_def])
       apply (use assms in \<open>auto simp: row_simps\<close>)[5]
  using assms by (auto simp: service_type_rows_def service_ok_def split: service_type.splits
      intro: writes_web_service writes_snmp_service writes_retn)

section \<open>Files\<close>

definition inode_row :: "'w env \<Rightarrow> int \<Rightarrow> int \<Rightarrow> int \<Rightarrow> idmef_inode \<Rightarrow> sql_row" where
  "inode_row E m i j x = (''Requiem_Inode'', file_key m i j @
     [(''change_time'', time_lit E (inode_change_time x)), (''change_time_gmtoff'', gmtoff_lit E (inode_change_time x)),
      (''number'', num_lit (inode_number x)), (''major_device'', num_lit (inode_major_device x)),
      (''minor_device'', num_lit (inode_minor_device x)), (''c_major_device'', num_lit (inode_c_major_device x)),
      (''c_minor_device'', num_lit (inode_c_minor_device x))])"

definition linkage_row :: "'w env \<Rightarrow> int \<Rightarrow> int \<Rightarrow> int \<Rightarrow> int \<Rightarrow> idmef_linkage \<Rightarrow> sql_row" where
  "linkage_row E m i j k x = (''Requiem_Linkage'', file_key m i j @
     [(''_index'', L_int k), (''category'', enum_lit E ENUM_LINKAGE_CATEGORY (linkage_category x)),
      (''name'', str_lit (linkage_name x)), (''path'', str_lit (linkage_path x))])"

definition permission_row :: "int \<Rightarrow> int \<Rightarrow> int \<Rightarrow> int \<Rightarrow> int \<Rightarrow> rstring \<Rightarrow> sql_row" where
  "permission_row m i j k l x = (''Requiem_FileAccess_Permission'', file_key m i j @
     [(''_parent2_index'', L_int k), (''_index'', L_int l), (''permission'', str_lit (Some x))])"

definition file_access_row :: "int \<Rightarrow> int \<Rightarrow> int \<Rightarrow> int \<Rightarrow> sql_row" where
  "file_access_row m i j k = (''Requiem_FileAccess'', file_key m i j @ [(''_index'', L_int k)])"

definition file_access_rows :: "'w env \<Rightarrow> int \<Rightarrow> int \<Rightarrow> int \<Rightarrow> int \<Rightarrow> idmef_file_access \<Rightarrow> sql_row list" where
  "file_access_rows E m i j k x = [file_access_row m i j k] @
     (indexed_rows (\<lambda>l y. [permission_row m i j k l y]) (file_access_permissions x) @
      [user_id_row E CHR ''F'' m i j k 0 (file_access_user_id x)])"

definition checksum_row :: "'w env \<Rightarrow> int \<Rightarrow> int \<Rightarrow> int \<Rightarrow> int \<Rightarrow> idmef_checksum \<Rightarrow> sql_row" where
  "checksum_row E m i j k x = (''Requiem_Checksum'', file_key m i j @
     [(''_index'', L_int k), (''value'', str_lit (checksum_value x)), (''checksum_key'', str_lit (checksum_key x)),
      (''algorithm'', enum_lit E ENUM_CHECKSUM_ALGORITHM (checksum_algorithm x))])"

definition file_row :: "'w env \<Rightarrow> int \<Rightarrow> int \<Rightarrow> int \<Rightarrow> idmef_file \<Rightarrow> sql_row" where
  "file_row E m i j x = (''Requiem_File'', message_key m @
     [(''_parent0_index'', L_int i), (''_index'', L_int j), (''ident'', str_lit (file_ident x)),
      (''category'', enum_lit E ENUM_FILE_CATEGORY (file_category x)), (''name'', str_lit (file_name x)),
      (''path'', str_lit (file_path x)),
      (''create_time'', time_lit E (file_create_time x)), (''create_time_gmtoff'', gmtoff_lit E (file_create_time x)),
      (''modify_time'', time_lit E (file_modify_time x)), (''modify_time_gmtoff'', gmtoff_lit E (file_modify_time x)),
      (''access_time'', time_lit E (file_access_time x)), (''access_time_gmtoff'', gmtoff_lit E (file_access_time x)),
      (''data_size'', num_lit (file_data_size x)), (''disk_size'', num_lit (file_disk_size x)),
      (''fstype'', opt_enum_lit E ENUM_FILE_FSTYPE (file_fstype x)), (''file_type'', str_lit (file_file_type x))])"

definition file_rows :: "'w env \<Rightarrow> int \<Rightarrow> int \<Rightarrow> int \<Rightarrow> idmef_file \<Rightarrow> sql_row list" where
  "file_rows E m i j x = [file_row E m i j x] @
     (indexed_rows (file_access_rows E m i j) (file_accesses x) @
      (indexed_rows (\<lambda>k y. [linkage_row E m i j k y]) (file_linkages x) @
       (optional_rows (\<lambda>y. [inode_row E m i j y]) (file_inode x) @
        indexed_rows (\<lambda>k y. [checksum_row E m i j k y]) (file_checksums x))))"

definition file_ok :: "'w env \<Rightarrow> idmef_file \<Rightarrow> bool" where
  "file_ok E x \<longleftrightarrow> time_law E (file_create_time x) \<and> time_law E (file_modify_time x) \<and> time_law E (file_access_time x) \<and>
     (case file_inode x of None \<Rightarrow> True | Some y \<Rightarrow> time_law E (inode_change_time y))"

lemma writes_inode:
  assumes "sql_database E V" "\<And>y. x = Some y \<Longrightarrow> time_law E (inode_change_time y)"
  shows "writes V any_value (optional_rows (\<lambda>y. [inode_row E m i j y]) x) (insert_inode E m i j x)"
  unfolding insert_inode_def
  apply (rule writes_insert_optional)
  apply (rule writes_pair_bindr, rule writes_failing_with, rule writes_time_pair [OF assms], assumption)
  by (rule writes_row [OF assms(1) inode_row_def]) (use assms in \<open>auto simp: alert_row_simps\<close>)

lemma writes_linkage:
  assumes "sql_database E V"
  shows "writes V any_value [linkage_row E m i j k x] (insert_linkage E m i j k x)"
  unfolding insert_linkage_def
  apply (rule writes_quiet_bindr, rule value_writes [OF assms])+
  by (rule writes_row [OF assms linkage_row_def]) (use assms in \<open>auto simp: alert_row_simps\<close>)

lemma writes_permission:
  assumes "sql_database E V"
  shows "writes V any_value [permission_row m i j k l x] (insert_file_access_permission E m i j k l x)"
  unfolding insert_file_access_permission_def
  apply (rule writes_quiet_bindr, rule value_writes [OF assms])+
  by (rule writes_row [OF assms permission_row_def]) (use assms in \<open>auto simp: alert_row_simps\<close>)

lemma writes_file_access:
  assumes "sql_database E V"
  shows "writes V any_value (file_access_rows E m i j k x) (insert_file_access E m i j k x)"
  unfolding insert_file_access_def file_access_rows_def
  apply (rule writes_bindr, rule writes_row [OF assms file_access_row_def])
       apply (use assms in \<open>auto simp: alert_row_simps\<close>)[5]
  by (intro writes_bindr [where Q = any_value] writes_insert_indexed writes_permission writes_user_id assms)
    (simp add: parent_char_def)

lemma writes_checksum:
  assumes "sql_database E V"
  shows "writes V any_value [checksum_row E m i j k x] (insert_checksum E m i j k x)"
  unfolding insert_checksum_def
  apply (rule writes_quiet_bindr, rule value_writes [OF assms])+
  by (rule writes_row [OF assms checksum_row_def]) (use assms in \<open>auto simp: alert_row_simps\<close>)

lemma writes_file:
  assumes "sql_database E V" "file_ok E x"
  shows "writes V any_value (file_rows E m i j x) (insert_file E m i j x)"
proof -
  have t: "time_law E (file_create_time x)" "time_law E (file_modify_time x)" "time_law E (file_access_time x)"
    "\<And>y. file_inode x = Some y \<Longrightarrow> time_law E (inode_change_time y)"
    using assms(2) by (simp_all add: file_ok_def)
  show ?thesis
    unfolding insert_file_def file_rows_def
    apply (rule writes_pair_bindr, rule writes_time_pair [OF assms(1) t(1)])
    apply (rule writes_pair_bindr, rule writes_time_pair [OF assms(1) t(2)])
    apply (rule writes_pair_bindr, rule writes_time_pair [OF assms(1) t(3)])
    apply (rule writes_quiet_bindr, rule value_writes [OF assms(1)])+
    apply (rule writes_bindr, rule writes_row [OF assms(1) file_row_def])
         apply (use assms(1) in \<open>auto simp: alert_row_simps\<close>)[5]
    by (intro writes_bindr [where Q = any_value] writes_insert_indexed writes_file_access writes_linkage writes_checksum
        writes_inode assms(1) t)
qed

section \<open>Sources and targets\<close>

definition source_row :: "'w env \<Rightarrow> int \<Rightarrow> int \<Rightarrow> idmef_source \<Rightarrow> sql_row" where
  "source_row E m i x = (''Requiem_Source'', message_key m @
     [(''_index'', L_int i), (''ident'', str_lit (source_ident x)),
      (''spoofed'', enum_lit E ENUM_SOURCE_SPOOFED (source_spoofed x)), (''interface'', str_lit (source_interface x))])"

definition target_row :: "'w env \<Rightarrow> int \<Rightarrow> int \<Rightarrow> idmef_target \<Rightarrow> sql_row" where
  "target_row E m i x = (''Requiem_Target'', message_key m @
     [(''_index'', L_int i), (''ident'', str_lit (target_ident x)),
      (''decoy'', enum_lit E ENUM_TARGET_DECOY (target_decoy x)), (''interface'', str_lit (target_interface x))])"

text \<open>The rows of what sources and targets have in common.\<close>

definition host_rows :: "'w env \<Rightarrow> char \<Rightarrow> int \<Rightarrow> int \<Rightarrow> idmef_node option \<Rightarrow> idmef_user option \<Rightarrow> idmef_process option \<Rightarrow>
    idmef_service option \<Rightarrow> sql_row list" where
  "host_rows E p m i n u x v = node_rows E p m i n @ (user_rows E p m i u @ (process_rows p m i x @ service_rows p m i v))"

definition source_rows :: "'w env \<Rightarrow> int \<Rightarrow> int \<Rightarrow> idmef_source \<Rightarrow> sql_row list" where
  "source_rows E m i x = [source_row E m i x] @
     host_rows E CHR ''S'' m i (source_node x) (source_user x) (source_process x) (source_service x)"

definition target_rows :: "'w env \<Rightarrow> int \<Rightarrow> int \<Rightarrow> idmef_target \<Rightarrow> sql_row list" where
  "target_rows E m i x = [target_row E m i x] @
     (host_rows E CHR ''T'' m i (target_node x) (target_user x) (target_process x) (target_service x) @
      indexed_rows (file_rows E m i) (target_files x))"

definition source_ok :: "idmef_source \<Rightarrow> bool" where
  "source_ok x \<longleftrightarrow> (case source_node x of None \<Rightarrow> True | Some n \<Rightarrow> node_ok n) \<and> service_ok (source_service x)"

definition target_ok :: "'w env \<Rightarrow> idmef_target \<Rightarrow> bool" where
  "target_ok E x \<longleftrightarrow> (case target_node x of None \<Rightarrow> True | Some n \<Rightarrow> node_ok n) \<and> service_ok (target_service x) \<and>
     list_all (file_ok E) (target_files x)"

lemma writes_source:
  assumes "sql_database E V" "source_ok x"
  shows "writes V any_value (source_rows E m i x) (insert_source E m i x)"
  unfolding insert_source_def source_rows_def host_rows_def
  apply (rule writes_quiet_bindr, rule value_writes [OF assms(1)])+
  apply (rule writes_bindr, rule writes_row [OF assms(1) source_row_def])
       apply (use assms in \<open>auto simp: alert_row_simps\<close>)[5]
  by (intro writes_bindr [where Q = any_value] writes_node writes_user writes_process writes_service assms)
    (use assms(2) in \<open>simp_all add: source_ok_def parent_char_def\<close>)

lemma writes_target:
  assumes "sql_database E V" "target_ok E x"
  shows "writes V any_value (target_rows E m i x) (insert_target E m i x)"
  unfolding insert_target_def target_rows_def host_rows_def append_assoc
  apply (rule writes_quiet_bindr, rule value_writes [OF assms(1)])+
  apply (rule writes_bindr, rule writes_failing_with, rule writes_row [OF assms(1) target_row_def])
       apply (use assms in \<open>auto simp: alert_row_simps\<close>)[5]
  by (intro writes_bindr [where Q = any_value] writes_node writes_user writes_process writes_service
      writes_insert_indexed writes_file assms)
    (use assms(2) in \<open>auto simp: target_ok_def parent_char_def list_all_iff\<close>)

section \<open>Classification and assessment\<close>

definition reference_row :: "'w env \<Rightarrow> int \<Rightarrow> int \<Rightarrow> idmef_reference \<Rightarrow> sql_row" where
  "reference_row E m i x = (''Requiem_Reference'', message_key m @
     [(''_index'', L_int i), (''origin'', enum_lit E ENUM_REFERENCE_ORIGIN (reference_origin x)),
      (''name'', str_lit (reference_name x)), (''url'', str_lit (reference_url x)), (''meaning'', str_lit (reference_meaning x))])"

definition classification_row :: "int \<Rightarrow> idmef_classification \<Rightarrow> sql_row" where
  "classification_row m x = (''Requiem_Classification'', message_key m @
     [(''ident'', str_lit (classification_ident x)), (''text'', str_lit (classification_text x))])"

definition classification_rows :: "'w env \<Rightarrow> int \<Rightarrow> idmef_classification option \<Rightarrow> sql_row list" where
  "classification_rows E m = optional_rows (\<lambda>x. [classification_row m x] @
     indexed_rows (\<lambda>i y. [reference_row E m i y]) (classification_references x))"

definition impact_row :: "'w env \<Rightarrow> int \<Rightarrow> idmef_impact \<Rightarrow> sql_row" where
  "impact_row E m x = (''Requiem_Impact'', message_key m @
     [(''severity'', opt_enum_lit E ENUM_IMPACT_SEVERITY (impact_severity x)),
      (''completion'', opt_enum_lit E ENUM_IMPACT_COMPLETION (impact_completion x)),
      (''type'', enum_lit E ENUM_IMPACT_TYPE (impact_type x)), (''description'', str_lit (impact_description x))])"

definition action_row :: "'w env \<Rightarrow> int \<Rightarrow> int \<Rightarrow> idmef_action \<Rightarrow> sql_row" where
  "action_row E m i x = (''Requiem_Action'', message_key m @
     [(''_index'', L_int i), (''category'', enum_lit E ENUM_ACTION_CATEGORY (action_category x)),
      (''description'', str_lit (action_description x))])"

definition confidence_row :: "'w env \<Rightarrow> 'w database \<Rightarrow> int \<Rightarrow> idmef_confidence \<Rightarrow> sql_row" where
  "confidence_row E V m x = (''Requiem_Confidence'', message_key m @
     [(''rating'', enum_lit E ENUM_CONFIDENCE_RATING (confidence_rating x)),
      (''confidence'', L_text (stored_float V (confidence_value x)))])"

definition assessment_row :: "int \<Rightarrow> sql_row" where
  "assessment_row m = (''Requiem_Assessment'', message_key m)"

definition assessment_rows :: "'w env \<Rightarrow> 'w database \<Rightarrow> int \<Rightarrow> idmef_assessment option \<Rightarrow> sql_row list" where
  "assessment_rows E V m = optional_rows (\<lambda>x. [assessment_row m] @
     (optional_rows (\<lambda>y. [impact_row E m y]) (assessment_impact x) @
      (optional_rows (\<lambda>y. [confidence_row E V m y]) (assessment_confidence x) @
       indexed_rows (\<lambda>i y. [action_row E m i y]) (assessment_actions x))))"

lemma writes_reference:
  assumes "sql_database E V"
  shows "writes V any_value [reference_row E m i x] (insert_reference E m i x)"
  unfolding insert_reference_def
  apply (rule writes_quiet_bindr, rule value_writes [OF assms])+
  by (rule writes_row [OF assms reference_row_def]) (use assms in \<open>auto simp: alert_row_simps\<close>)

lemma writes_classification:
  assumes "sql_database E V"
  shows "writes V any_value (classification_rows E m x) (insert_classification E m x)"
  unfolding insert_classification_def classification_rows_def
  apply (rule writes_insert_optional)
  apply (rule writes_quiet_bindr, rule value_writes [OF assms])+
  apply (rule writes_bindr, rule writes_row(2) [OF assms classification_row_def])
       apply (use assms in \<open>auto simp: alert_row_simps\<close>)[5]
  by (intro writes_insert_indexed writes_reference assms)

lemma writes_impact:
  assumes "sql_database E V"
  shows "writes V any_value (optional_rows (\<lambda>y. [impact_row E m y]) x) (insert_impact E m x)"
  unfolding insert_impact_def
  apply (rule writes_insert_optional)
  apply (rule writes_quiet_bindr, rule value_writes [OF assms])+
  by (rule writes_row [OF assms impact_row_def]) (use assms in \<open>auto simp: alert_row_simps\<close>)

lemma writes_action:
  assumes "sql_database E V"
  shows "writes V any_value [action_row E m i x] (insert_action E m i x)"
  unfolding insert_action_def
  apply (rule writes_quiet_bindr, rule value_writes [OF assms])+
  by (rule writes_row [OF assms action_row_def]) (use assms in \<open>auto simp: alert_row_simps\<close>)

lemma writes_confidence:
  assumes "sql_database E V"
  shows "writes V any_value (optional_rows (\<lambda>y. [confidence_row E V m y]) x) (insert_confidence E m x)"
  unfolding insert_confidence_def
  apply (rule writes_insert_optional)
  apply (rule writes_quiet_bindr, rule value_writes [OF assms])+
  by (rule writes_row [OF assms confidence_row_def]) (use assms in \<open>auto simp: alert_row_simps\<close>)

lemma writes_assessment:
  assumes "sql_database E V"
  shows "writes V any_value (assessment_rows E V m x) (insert_assessment E m x)"
  unfolding insert_assessment_def assessment_rows_def
  apply (rule writes_insert_optional)
  apply (rule writes_bindr, rule writes_row [OF assms assessment_row_def])
       apply (use assms in \<open>auto simp: alert_row_simps\<close>)[5]
  by (intro writes_bindr [where Q = any_value] writes_insert_indexed writes_impact writes_confidence writes_action assms)

section \<open>Kinds of alerts\<close>

definition overflow_row :: "'w database \<Rightarrow> int \<Rightarrow> idmef_overflow_alert \<Rightarrow> sql_row" where
  "overflow_row V m x = (''Requiem_OverflowAlert'', message_key m @
     [(''program'', str_lit (overflow_program x)), (''size'', num_lit (overflow_size x)),
      (''buffer'', data_lit V (overflow_buffer x))])"

definition alertident_row :: "char \<Rightarrow> int \<Rightarrow> int \<Rightarrow> idmef_alertident \<Rightarrow> sql_row" where
  "alertident_row p m i x = (''Requiem_Alertident'', typed_key p m @
     [(''_index'', L_int i), (''alertident'', str_lit (alertident_alertident x)),
      (''analyzerid'', str_lit (alertident_analyzerid x))])"

definition tool_row :: "int \<Rightarrow> idmef_tool_alert \<Rightarrow> sql_row" where
  "tool_row m x = (''Requiem_ToolAlert'', message_key m @
     [(''name'', str_lit (tool_name x)), (''command'', str_lit (tool_command x))])"

definition correlation_row :: "int \<Rightarrow> idmef_correlation_alert \<Rightarrow> sql_row" where
  "correlation_row m x = (''Requiem_CorrelationAlert'', message_key m @ [(''name'', str_lit (correlation_name x))])"

definition tool_rows :: "int \<Rightarrow> idmef_tool_alert option \<Rightarrow> sql_row list" where
  "tool_rows m = optional_rows (\<lambda>x. [tool_row m x] @ rows_from (\<lambda>i y. [alertident_row CHR ''T'' m i y]) 0 (tool_alertidents x))"

definition correlation_rows :: "int \<Rightarrow> idmef_correlation_alert option \<Rightarrow> sql_row list" where
  "correlation_rows m = optional_rows (\<lambda>x. [correlation_row m x] @
     indexed_rows (\<lambda>i y. [alertident_row CHR ''C'' m i y]) (correlation_alertidents x))"

definition type_rows :: "'w database \<Rightarrow> int \<Rightarrow> alert_type \<Rightarrow> sql_row list" where
  "type_rows V m t =
    (case t of
       Alert_tool x \<Rightarrow> tool_rows m x
     | Alert_overflow x \<Rightarrow> optional_rows (\<lambda>y. [overflow_row V m y]) x
     | Alert_correlation x \<Rightarrow> correlation_rows m x
     | _ \<Rightarrow> [])"

definition type_ok :: "alert_type \<Rightarrow> bool" where
  "type_ok t \<longleftrightarrow>
    (case t of
       Alert_other \<Rightarrow> False
     | Alert_overflow x \<Rightarrow> (case x of None \<Rightarrow> False | Some y \<Rightarrow> data_ok (overflow_buffer y))
     | _ \<Rightarrow> True)"

lemma writes_overflow:
  assumes "sql_database E V" "data_ok (overflow_buffer x)"
  shows "writes V any_value [overflow_row V m x] (insert_overflow_alert E m (Some x))"
  unfolding insert_overflow_alert_def option.case
  apply (rule writes_quiet_bindr, rule value_writes [OF assms(1)])+
  apply (rule writes_quiet_bindr, rule writes_get_data [OF assms])
  by (rule writes_row [OF assms(1) overflow_row_def]) (use assms in \<open>auto simp: alert_row_simps\<close>)

lemma writes_alertident:
  assumes "sql_database E V" "parent_char p"
  shows "writes V any_value [alertident_row p m i x] (insert_alertident E p m i x)"
  unfolding insert_alertident_def
  apply (rule writes_quiet_bindr, rule value_writes [OF assms(1)])+
  by (rule writes_row [OF assms(1) alertident_row_def]) (use assms in \<open>auto simp: alert_row_simps\<close>)

text \<open>While the INSERT succeeds, the alertidents follow it.\<close>

lemma writes_insert_then:
  assumes "writes V any_value r1 f" "writes V any_value r2 g" "xs = [] \<Longrightarrow> r2 = []"
  shows "writes V any_value (r1 @ r2)
    (\<lambda>s. case f s of (r, s1) \<Rightarrow>
       if xs = [] then (case r of Inl _ \<Rightarrow> (Inl NullDeref, s1) | Inr _ \<Rightarrow> (Inr (), s1)) else g s1)"
proof (rule writesI)
  fix s :: "'a sql" assume c: "connected s"
  from assms(1) c obtain u s1 where f: "f s = (Inr u, s1)" "same_session s s1"
    "db_rows (database_of V s1) = db_rows (database_of V s) + mset r1"
    "db_next (database_of V s1) = db_next (database_of V s)" by (rule writesE)
  have "connected s1" using c f(2) by (simp add: same_session_connected)
  with assms(2) obtain v s2 where "g s1 = (Inr v, s2)" "same_session s1 s2"
    "db_rows (database_of V s2) = db_rows (database_of V s1) + mset r2"
    "db_next (database_of V s2) = db_next (database_of V s1)" by (rule writesE)
  with f assms(3) show "\<exists>x s'. (case f s of (r, s1) \<Rightarrow>
       if xs = [] then (case r of Inl _ \<Rightarrow> (Inl NullDeref, s1) | Inr _ \<Rightarrow> (Inr (), s1)) else g s1) = (Inr x, s') \<and>
      same_session s s' \<and> any_value x \<and> db_rows (database_of V s') = db_rows (database_of V s) + mset (r1 @ r2) \<and>
      db_next (database_of V s') = db_next (database_of V s)"
    by (cases "xs = []") (auto intro: same_session_trans)
qed

lemma writes_tool:
  assumes "sql_database E V"
  shows "writes V any_value (tool_rows m x) (insert_tool_alert E m x)"
  unfolding insert_tool_alert_def tool_rows_def
  apply (rule writes_insert_optional)
  apply (rule writes_quiet_bindr, rule value_writes [OF assms])+
  apply (rule writes_insert_then, rule writes_row [OF assms tool_row_def])
       apply (use assms in \<open>auto simp: alert_row_simps\<close>)[5]
  by (intro writes_insert_from writes_alertident assms) (simp_all add: parent_char_def)

lemma writes_correlation:
  assumes "sql_database E V"
  shows "writes V any_value (correlation_rows m x) (insert_correlation_alert E m x)"
  unfolding insert_correlation_alert_def correlation_rows_def
  apply (rule writes_insert_optional)
  apply (rule writes_quiet_bindr, rule value_writes [OF assms])+
  apply (rule writes_bindr, rule writes_row [OF assms correlation_row_def])
       apply (use assms in \<open>auto simp: alert_row_simps\<close>)[5]
  by (intro writes_insert_indexed writes_alertident assms) (simp add: parent_char_def)

section \<open>Alerts\<close>

definition alert_rows :: "'w env \<Rightarrow> 'w database \<Rightarrow> int \<Rightarrow> idmef_alert \<Rightarrow> sql_row list" where
  "alert_rows E V m a =
     [time_row E ''Requiem_CreateTime'' (typed_key CHR ''A'' m) (alert_create_time a)] @
     (optional_rows (\<lambda>x. [time_row E ''Requiem_DetectTime'' (message_key m) (Some x)]) (alert_detect_time a) @
      (optional_rows (\<lambda>x. [time_row E ''Requiem_AnalyzerTime'' (typed_key CHR ''A'' m) (Some x)]) (alert_analyzer_time a) @
       (assessment_rows E V m (alert_assessment a) @
        (type_rows V m (alert_type a) @
         (indexed_rows (analyzer_rows E CHR ''A'' m) (alert_analyzers a) @
          (indexed_rows (source_rows E m) (alert_sources a) @
           (indexed_rows (target_rows E m) (alert_targets a) @
            (classification_rows E m (alert_classification a) @
             indexed_rows (\<lambda>i x. [additional_data_row E V CHR ''A'' m i x]) (alert_additional_data a)))))))))"

definition alert_ok :: "'w env \<Rightarrow> idmef_alert \<Rightarrow> bool" where
  "alert_ok E a \<longleftrightarrow>
     time_law E (alert_create_time a) \<and> time_law E (alert_detect_time a) \<and> time_law E (alert_analyzer_time a) \<and>
     type_ok (alert_type a) \<and> list_all analyzer_ok (alert_analyzers a) \<and> list_all source_ok (alert_sources a) \<and>
     list_all (target_ok E) (alert_targets a) \<and> list_all (\<lambda>x. data_ok (ad_data x)) (alert_additional_data a)"

lemma writes_type:
  assumes "sql_database E V" "type_ok t"
  shows "writes V any_value (type_rows V m t)
    (case t of
       Alert_default \<Rightarrow> retn ()
     | Alert_tool x \<Rightarrow> insert_tool_alert E m x
     | Alert_overflow x \<Rightarrow> insert_overflow_alert E m x
     | Alert_correlation x \<Rightarrow> insert_correlation_alert E m x
     | Alert_other \<Rightarrow> failw (RawErr (- 1)))"
  using assms
  by (auto simp: type_rows_def type_ok_def optional_rows_def writes_overflow writes_tool writes_correlation writes_retn
      split: alert_type.splits option.splits)

lemma writes_alert_objects:
  assumes "sql_database E V" "alert_ok E a"
  shows "writes V any_value (alert_rows E V m a) (insert_alert_objects E a m)"
  unfolding insert_alert_objects_def alert_rows_def message_key_def
  by (intro writes_bindr [where Q = any_value] writes_insert_indexed writes_createtime writes_detecttime
      writes_analyzertime writes_assessment writes_type writes_analyzer writes_source writes_target
      writes_classification writes_additional_data assms)
    (use assms(2) in \<open>auto simp: alert_ok_def list_all_iff parent_char_def\<close>)

end
