(* ===== verification/AlertReads.thy ===== *)
theory AlertReads
  imports ReadBack AlertRows
begin

text \<open>
  Reading back what an alert has beyond a heartbeat: users, services, files, sources, targets,
  the assessment, the classification and the kinds of alert.  Each lemma says which object a
  function of \<open>classic-get.c\<close> makes of the rows its counterpart in \<open>classic-insert.c\<close> wrote.
\<close>

section \<open>Fields\<close>

definition norm_opt_enum :: "'w env \<Rightarrow> enum_kind \<Rightarrow> int option \<Rightarrow> int option" where
  "norm_opt_enum E k v = map_option (\<lambda>t. enum_to_numeric E k (cstr t)) (get_optional_enum E k v)"

lemma reads_opt_enum_lit:
  assumes "sql_database E V" "i < length vs" "vs ! i = lit_field (opt_enum_lit E k e)"
  shows "reads V D (at_row t h vs) (norm_opt_enum E k e) (get_enum E k t h i)"
proof -
  have "map_option (\<lambda>v. enum_to_numeric E k (cstr v)) (lit_field (opt_enum_lit E k e)) = norm_opt_enum E k e"
    by (simp add: opt_enum_lit_def text_lit_def norm_opt_enum_def split: option.split)
  with reads_enum [OF assms(1,2), of D t h k] assms(3) show ?thesis by simp
qed

lemma reads_float_lit:
  assumes "sql_database E V" "i < length vs" "vs ! i = Some (stored_float V x)"
    and "field_to_float E (stored_float V x) = Inr (Some y)"
  shows "reads V D (at_row t h vs) (Some y) (get_float E t h i)"
  unfolding get_float_def
  by (rule reads_bindr [OF stable_at_row reads_field [OF assms(1,2)]]) (simp add: assms(3,4))

text \<open>A 64-bit size is read as 32 bits; the low ones suffice below \<open>2 ^ 32\<close>.\<close>

definition small_size :: "64 word option \<Rightarrow> bool" where
  "small_size n \<longleftrightarrow> (case n of None \<Rightarrow> True | Some w \<Rightarrow> uint w < 2 ^ 32)"

lemma reads_size:
  assumes "small_size n" "sql_database E V" "i < length vs" "vs ! i = lit_field (num_lit n)"
  shows "reads V D (at_row t h vs) n (get_uint32_as_uint64 E t h i)"
proof -
  have low: "uint (ucast w :: 32 word) = uint w" if "n = Some w" for w
    using that assms(1) by (simp add: small_size_def unsigned_ucast_eq take_bit_int_eq_self)
  have up: "(ucast (ucast w :: 32 word) :: 64 word) = w" if "n = Some w" for w
  proof -
    have "uint (ucast (ucast w :: 32 word) :: 64 word) = uint (ucast w :: 32 word)"
      by (rule uint_up_ucast) (simp add: is_up)
    with low [OF that] show ?thesis by (simp add: word_uint_eq_iff)
  qed
  have "vs ! i = lit_field (num_lit (map_option ucast n :: 32 word option))"
    using assms(4) low by (cases n) (simp_all add: num_lit_def)
  then have "reads V D (at_row t h vs) (map_option ucast n :: 32 word option) (get_uint32 E t h i)"
    by (rule reads_nums(3) [OF assms(2,3)])
  moreover have "n = map_option ucast (map_option ucast n :: 32 word option)"
    using up by (cases n) simp_all
  ultimately show ?thesis
    unfolding get_uint32_as_uint64_def by (intro reads_bindr [OF stable_at_row] reads_retn) auto
qed

text \<open>A time without microseconds.\<close>

lemma reads_time_lit:
  assumes "sql_database E V" "time_law E t" "ti < length vs" "gi < length vs"
    and "vs ! ti = lit_field (time_lit E t)" "vs ! gi = lit_field (gmtoff_lit E t)"
  shows "reads V D (at_row tab h vs) (map_option without_usec t) (get_timestamp E tab h ti gi None)"
  using reads_timestamp [OF assms(1-4), of None D tab h] assms(5,6) by (simp add: time_lit_def gmtoff_lit_def)

lemmas alert_field_reads = field_reads reads_opt_enum_lit reads_time_lit reads_size

lemma plain_message_key [simp]:
  "list_all plain_cond (message_key m @ xs) \<longleftrightarrow> list_all plain_cond xs" "list_all plain_cond (message_key m)"
  by (auto simp: message_key_def)

lemma plain_file_key [simp]: "list_all plain_cond (file_key m i j @ xs) \<longleftrightarrow> list_all plain_cond xs"
  "list_all plain_cond (file_key m i j)"
  by (auto simp: file_key_def)

lemmas alert_query_simps = query_simps message_key_def file_key_def in_file_def
lemmas alert_match_simps = match_simps message_key_def file_key_def

section \<open>Objects whose children are read in a second loop\<close>

lemma each_row_until_failure:
  "each_row n E t i (\<lambda>_. body) s = (Inr xs, s') \<Longrightarrow> rows_until_failure n E t body s = (Inr (xs, None), s')"
  by (induction n arbitrary: i s xs)
    (fastforce simp: bindr_def retn_def split: prod.splits sum.splits option.splits)+

lemma reads_objects_with_children:
  assumes db: "sql_database E V" and T: "schema_table T" and key: "list_all plain_cond cs" and q: "q = select_query cols T cs True"
    and found: "filter_mset (matches T cs True) D = mset (listed_rows row ys)" and index: "\<And>i y. index_of (row i y) = i"
    and fits: "length ys < n"
    and body: "\<And>j t h. j < length ys \<Longrightarrow>
      reads V D (at_row t h (fields_of cols (row (int j) (ys ! j)))) (base (ys ! j)) (body t h)"
    and children: "\<And>j. j < length ys \<Longrightarrow> reads V D (\<lambda>_. True) (value (ys ! j)) (children (int j) (base (ys ! j)))"
    and cols: "column_text cols"
  shows "reads V D K (map value ys) (objects_with_children n E q body children)"
  unfolding objects_with_children_def
proof (rule reads_select [OF db T key q found])
  show "in_order True (listed_rows row ys)" by (rule listed_rows_in_order) (rule index)
  show "listed_rows row ys = [] \<Longrightarrow> map value ys = []" by (simp add: listed_rows_def)
  let ?rs = "map (fields_of cols) (listed_rows row ys)"
  show "works_through V D ?rs (map value ys) (\<lambda>t. bindr (rows_until_failure n E t (body t)) (\<lambda>(xs, e).
      case (xs, e) of ([], Some err) \<Rightarrow> failw err | _ \<Rightarrow> each_child 0 children xs))"
    unfolding works_through_def
  proof (intro allI impI)
    fix t s assume s: "connected s \<and> db_rows (database_of V s) = D \<and> db_pending (database_of V s) t = Some ?rs"
    have "works_through V D ?rs (map base ys) (\<lambda>t. each_row n E t 0 (\<lambda>_. body t))"
      by (intro works_each_row [OF db]) (use body fits in \<open>simp_all add: listed_rows_def\<close>)
    with s obtain s1 where s1: "each_row n E t 0 (\<lambda>_. body t) s = (Inr (map base ys), s1)" "connected s1"
      "db_rows (database_of V s1) = D"
      "\<forall>u. u \<noteq> t \<longrightarrow> db_pending (database_of V s) u \<noteq> None \<longrightarrow>
         db_pending (database_of V s1) u = db_pending (database_of V s) u \<and>
         db_fetched (database_of V s1) u = db_fetched (database_of V s) u"
      unfolding works_through_def by blast
    have "reads V D (\<lambda>_. True) (map value ys) (each_child 0 children (map base ys))"
      by (rule reads_each_child) (simp_all add: children)
    then obtain s2 where s2: "each_child 0 children (map base ys) s1 = (Inr (map value ys), s2)" "connected s2"
      "db_rows (database_of V s2) = D" "frame (database_of V s1) (database_of V s2)"
      using s1(2,3) by (rule readsE) simp
    have "bindr (rows_until_failure n E t (body t)) (\<lambda>(xs, e).
        case (xs, e) of ([], Some err) \<Rightarrow> failw err | _ \<Rightarrow> each_child 0 children xs) s = (Inr (map value ys), s2)"
      using each_row_until_failure [OF s1(1)] s2(1) by (auto simp: bindr_def split: list.split)
    with s1(4) s2 show "\<exists>s'. bindr (rows_until_failure n E t (body t)) (\<lambda>(xs, e).
        case (xs, e) of ([], Some err) \<Rightarrow> failw err | _ \<Rightarrow> each_child 0 children xs) s = (Inr (map value ys), s') \<and>
      connected s' \<and> db_rows (database_of V s') = D \<and>
      (\<forall>u. u \<noteq> t \<longrightarrow> db_pending (database_of V s) u \<noteq> None \<longrightarrow>
         db_pending (database_of V s') u = db_pending (database_of V s) u \<and>
         db_fetched (database_of V s') u = db_fetched (database_of V s) u)"
      by (auto simp: frame_def)
  qed
qed (rule cols)

section \<open>Users\<close>

definition norm_user_id :: "'w env \<Rightarrow> idmef_user_id \<Rightarrow> idmef_user_id" where
  "norm_user_id E u =
     \<lparr>user_id_ident = norm_str (user_id_ident u), user_id_type = norm_enum E ENUM_USER_ID_TYPE (user_id_type u),
      user_id_name = norm_str (user_id_name u), user_id_tty = norm_str (user_id_tty u), user_id_number = user_id_number u\<rparr>"

definition norm_user :: "'w env \<Rightarrow> idmef_user \<Rightarrow> idmef_user" where
  "norm_user E u =
     \<lparr>user_ident = norm_str (user_ident u), user_category = norm_enum E ENUM_USER_CATEGORY (user_category u),
      user_user_ids = map (norm_user_id E) (user_user_ids u)\<rparr>"

abbreviation user_id_key :: "char \<Rightarrow> int \<Rightarrow> int \<Rightarrow> int \<Rightarrow> int \<Rightarrow> (string \<times> lit) list" where
  "user_id_key p m i j k \<equiv> typed_key p m @ [(''_parent0_index'', L_int i), (''_parent1_index'', L_int j), (''_parent2_index'', L_int k)]"

lemma user_row_facts [row_facts]:
  "fst (user_row E p m i u) = ''Requiem_User''" "fst (user_id_row E p m i j k l v) = ''Requiem_UserId''"
  "index_of (user_id_row E p m i j k l v) = l"
  "matches ''Requiem_User'' (typed_key p m @ [(''_parent0_index'', L_int i')]) False (user_row E p m i u) \<longleftrightarrow> i = i'"
  "matches ''Requiem_UserId'' (user_id_key p m i' j' k') True (user_id_row E p m i j k l v) \<longleftrightarrow>
     i = i' \<and> j = j' \<and> k = k' \<and> l \<noteq> - 1"
  "fields_of ''ident, type, name, number, tty'' (user_id_row E p m i j k l v) =
     map lit_field [str_lit (user_id_ident v), enum_lit E ENUM_USER_ID_TYPE (user_id_type v), str_lit (user_id_name v),
       num_lit (user_id_number v), str_lit (user_id_tty v)]"
  "fields_of ''ident, category'' (user_row E p m i u) =
     map lit_field [str_lit (user_ident u), enum_lit E ENUM_USER_CATEGORY (user_category u)]"
  by (auto simp: match_simps user_row_def user_id_row_def)

lemma reads_user_ids:
  assumes db: "sql_database E V" and p: "parent_char p"
    and found: "filter_mset (matches ''Requiem_UserId'' (user_id_key p m i j k) True) D =
      mset (listed_rows (user_id_row E p m i j k) us)" and fits: "length us < fuel"
  shows "reads V D K (map (norm_user_id E) us) (get_user_id fuel E m p i j k)"
  unfolding get_user_id_def
proof (rule reads_listed_objects [OF db _ _ _ found])
  show "''SELECT ident, type, name, number, tty FROM Requiem_UserId WHERE '' @ of_typed_message p m @
       parent_is 0 i @ parent_is 1 j @ parent_is 2 k @ listed_order =
      select_query ''ident, type, name, number, tty'' ''Requiem_UserId'' (user_id_key p m i j k) True"
    by (simp add: query_simps)
  show "reads V D (at_row t h (fields_of ''ident, type, name, number, tty'' (user_id_row E p m i j k (int l) (us ! l))))
      (norm_user_id E (us ! l)) (read_user_id E t h)" for l t h
    unfolding row_facts read_user_id_def norm_user_id_def
    by ((rule reads_bindr [OF stable_at_row], rule field_reads, rule db, simp, simp)+) simp
qed (use p fits in \<open>simp_all add: schema_table_def row_facts\<close>)

lemma reads_user:
  assumes db: "sql_database E V" and p: "parent_char p"
    and rows: "holds D (typed_key p m @ [(''_parent0_index'', L_int i)]) [''Requiem_User'', ''Requiem_UserId''] (user_rows E p m i x)"
    and fits: "\<And>u. x = Some u \<Longrightarrow> length (user_user_ids u) < fuel"
  shows "reads V D (\<lambda>_. True) (map_option (norm_user E) x) (get_user fuel E m p i)"
  unfolding get_user_def
proof (rule reads_one_object [OF db, where row = "user_row E p m i" and T = "''Requiem_User''" and
      cs = "typed_key p m @ [(''_parent0_index'', L_int i)]"])
  let ?cs = "typed_key p m @ [(''_parent0_index'', L_int i)]"
  show "''SELECT ident, category FROM Requiem_User WHERE '' @ of_typed_message p m @ parent_is 0 i =
      select_query ''ident, category'' ''Requiem_User'' ?cs False"
    by (simp add: query_simps)
  show "filter_mset (matches ''Requiem_User'' ?cs False) D = mset (case x of None \<Rightarrow> [] | Some z \<Rightarrow> [user_row E p m i z])"
    by (simp add: holdsD [OF rows] user_rows_def optional_rows_def filter_indexed_none row_facts del: mset_filter split: option.split)
  fix u t h assume x: "x = Some u"
  have ids: "reads V D (\<lambda>_. True) (map (norm_user_id E) (user_user_ids u)) (get_user_id fuel E m p i 0 0)"
    by (rule reads_user_ids [OF db p _ fits [OF x]])
      (subst holdsD [OF rows], simp, force,
       simp add: x user_rows_def optional_rows_def filter_indexed_listed row_facts del: mset_filter)
  show "reads V D (at_row t h (fields_of ''ident, category'' (user_row E p m i u))) (norm_user E u)
     (bindr (get_string_field E t h 0) (\<lambda>ident. bindr (get_required_enum E ENUM_USER_CATEGORY t h 1) (\<lambda>category.
      bindr (get_user_id fuel E m p i 0 0) (\<lambda>ids.
      retn \<lparr>user_ident = ident, user_category = category, user_user_ids = ids\<rparr>))))"
    unfolding row_facts norm_user_def
    by ((rule reads_bindr [OF stable_at_row], rule field_reads, rule db, simp, simp)+)
      (rule reads_bindr [OF stable_at_row reads_weaken [OF ids]], simp)
qed (use p in \<open>simp_all add: schema_table_def\<close>)

section \<open>Services\<close>

definition norm_web_service :: "idmef_web_service \<Rightarrow> idmef_web_service" where
  "norm_web_service x =
     \<lparr>web_url = norm_str (web_url x), web_cgi = norm_str (web_cgi x), web_http_method = norm_str (web_http_method x),
      web_args = map norm_item (web_args x)\<rparr>"

definition norm_snmp_service :: "idmef_snmp_service \<Rightarrow> idmef_snmp_service" where
  "norm_snmp_service x =
     \<lparr>snmp_oid = norm_str (snmp_oid x), snmp_message_processing_model = snmp_message_processing_model x,
      snmp_security_model = snmp_security_model x, snmp_security_name = norm_str (snmp_security_name x),
      snmp_security_level = snmp_security_level x, snmp_context_name = norm_str (snmp_context_name x),
      snmp_context_engine_id = norm_str (snmp_context_engine_id x), snmp_command = norm_str (snmp_command x)\<rparr>"

definition web_of :: "service_type \<Rightarrow> idmef_web_service option" where
  "web_of t = (case t of Service_web x \<Rightarrow> x | _ \<Rightarrow> None)"

definition snmp_of :: "service_type \<Rightarrow> idmef_snmp_service option" where
  "snmp_of t = (case t of Service_snmp x \<Rightarrow> x | _ \<Rightarrow> None)"

text \<open>A web or SNMP part that was not there is read as none.\<close>

definition norm_service_type :: "service_type \<Rightarrow> service_type" where
  "norm_service_type t =
    (case snmp_of t of
       Some x \<Rightarrow> Service_snmp (Some (norm_snmp_service x))
     | None \<Rightarrow> (case web_of t of Some w \<Rightarrow> Service_web (Some (norm_web_service w)) | None \<Rightarrow> Service_default))"

definition norm_service :: "idmef_service \<Rightarrow> idmef_service" where
  "norm_service x =
     \<lparr>service_ident = norm_str (service_ident x), service_ip_version = service_ip_version x,
      service_name = norm_str (service_name x), service_port = service_port x,
      service_iana_protocol_number = service_iana_protocol_number x,
      service_iana_protocol_name = norm_str (service_iana_protocol_name x),
      service_portlist = norm_str (service_portlist x), service_protocol = norm_str (service_protocol x),
      service_type = norm_service_type (service_type x)\<rparr>"

definition service_fits :: "nat \<Rightarrow> idmef_service \<Rightarrow> bool" where
  "service_fits k x \<longleftrightarrow> (case web_of (service_type x) of None \<Rightarrow> True | Some w \<Rightarrow> length (web_args w) < k)"

lemma service_type_rows_split:
  "service_type_rows p m i t =
     web_service_rows p m i (web_of t) @ optional_rows (\<lambda>y. [snmp_service_row p m i y]) (snmp_of t)"
  by (cases t) (simp_all add: service_type_rows_def web_of_def snmp_of_def web_service_rows_def optional_rows_def)

lemma service_row_facts [row_facts]:
  "fst (service_row p m i x) = ''Requiem_Service''" "fst (web_service_row p m i w) = ''Requiem_WebService''"
  "fst (web_service_arg_row p m i j a) = ''Requiem_WebServiceArg''" "fst (snmp_service_row p m i y) = ''Requiem_SnmpService''"
  "index_of (web_service_arg_row p m i j a) = j"
  "matches ''Requiem_Service'' (typed_key p m @ [(''_parent0_index'', L_int k)]) False (service_row p m i x) \<longleftrightarrow> i = k"
  "matches ''Requiem_WebService'' (typed_key p m @ [(''_parent0_index'', L_int k)]) False (web_service_row p m i w) \<longleftrightarrow> i = k"
  "matches ''Requiem_WebServiceArg'' (typed_key p m @ [(''_parent0_index'', L_int k)]) True (web_service_arg_row p m i j a) \<longleftrightarrow>
     i = k \<and> j \<noteq> - 1"
  "matches ''Requiem_SnmpService'' (typed_key p m @ [(''_parent0_index'', L_int k)]) False (snmp_service_row p m i y) \<longleftrightarrow> i = k"
  "fields_of ''arg'' (web_service_arg_row p m i j a) = [lit_field (str_lit (Some a))]"
  "fields_of ''url, cgi, http_method'' (web_service_row p m i w) =
     map lit_field [str_lit (web_url w), str_lit (web_cgi w), str_lit (web_http_method w)]"
  by (auto simp: match_simps service_row_def web_service_row_def web_service_arg_row_def snmp_service_row_def)

lemma snmp_service_fields [row_facts]:
  "fields_of ''snmp_oid, message_processing_model, security_model, security_name, security_level, context_name, context_engine_id, command''
     (snmp_service_row p m i y) =
   map lit_field [str_lit (snmp_oid y), num_lit (snmp_message_processing_model y), num_lit (snmp_security_model y),
     str_lit (snmp_security_name y), num_lit (snmp_security_level y), str_lit (snmp_context_name y),
     str_lit (snmp_context_engine_id y), str_lit (snmp_command y)]"
  by (simp add: match_simps snmp_service_row_def)

lemma service_fields [row_facts]:
  "fields_of ''ident, ip_version, name, port, iana_protocol_number, iana_protocol_name, portlist, protocol''
     (service_row p m i x) =
   map lit_field [str_lit (service_ident x), num_lit (service_ip_version x), str_lit (service_name x),
     num_lit (service_port x), num_lit (service_iana_protocol_number x), str_lit (service_iana_protocol_name x),
     str_lit (service_portlist x), str_lit (service_protocol x)]"
  by (simp add: match_simps service_row_def)

lemmas find_simps = optional_rows_def filter_indexed_none filter_indexed_listed filter_rows_from_none filter_from_listed

lemma reads_web_service:
  assumes db: "sql_database E V" and p: "parent_char p"
    and rows: "holds D (typed_key p m @ [(''_parent0_index'', L_int i)]) [''Requiem_WebService'', ''Requiem_WebServiceArg'']
      (web_service_rows p m i x)"
    and fits: "\<And>w. x = Some w \<Longrightarrow> length (web_args w) < fuel"
  shows "reads V D (\<lambda>_. True) (map_option norm_web_service x) (get_web_service fuel E m p i)"
  unfolding get_web_service_def
proof (rule reads_one_object [OF db, where row = "web_service_row p m i" and T = "''Requiem_WebService''" and
      cs = "typed_key p m @ [(''_parent0_index'', L_int i)]"])
  let ?cs = "typed_key p m @ [(''_parent0_index'', L_int i)]"
  show "''SELECT url, cgi, http_method FROM Requiem_WebService WHERE '' @ of_typed_message p m @ parent_is 0 i =
      select_query ''url, cgi, http_method'' ''Requiem_WebService'' ?cs False"
    by (simp add: query_simps)
  show "filter_mset (matches ''Requiem_WebService'' ?cs False) D = mset (case x of None \<Rightarrow> [] | Some z \<Rightarrow> [web_service_row p m i z])"
    by (simp add: holdsD [OF rows] web_service_rows_def find_simps row_facts del: mset_filter split: option.split)
  fix w t h assume x: "x = Some w"
  have args: "reads V D (\<lambda>_. True) (map norm_item (web_args w)) (get_web_service_arg fuel E m p i)"
    unfolding get_web_service_arg_def
  proof (rule reads_items [OF db, where row = "web_service_arg_row p m i" and T = "''Requiem_WebServiceArg''" and cs = ?cs])
    show "''SELECT arg FROM Requiem_WebServiceArg WHERE '' @ of_typed_message p m @ parent_is 0 i @ listed_order =
        select_query ''arg'' ''Requiem_WebServiceArg'' ?cs True"
      by (simp add: query_simps)
    show "filter_mset (matches ''Requiem_WebServiceArg'' ?cs True) D = mset (listed_rows (web_service_arg_row p m i) (web_args w))"
      by (simp add: holdsD [OF rows] web_service_rows_def x find_simps row_facts del: mset_filter)
  qed (use p fits [OF x] in \<open>simp_all add: schema_table_def row_facts\<close>)
  show "reads V D (at_row t h (fields_of ''url, cgi, http_method'' (web_service_row p m i w))) (norm_web_service w)
     (bindr (get_string_field E t h 0) (\<lambda>url. bindr (get_string_field E t h 1) (\<lambda>cgi.
      bindr (get_string_field E t h 2) (\<lambda>http_method. bindr (get_web_service_arg fuel E m p i) (\<lambda>args.
      retn \<lparr>web_url = url, web_cgi = cgi, web_http_method = http_method, web_args = args\<rparr>)))))"
    unfolding row_facts norm_web_service_def
    by ((rule reads_bindr [OF stable_at_row], rule field_reads, rule db, simp, simp)+)
      (rule reads_bindr [OF stable_at_row reads_weaken [OF args]], simp)
qed (use p in \<open>simp_all add: schema_table_def\<close>)

lemma reads_snmp_service:
  assumes db: "sql_database E V" and p: "parent_char p"
    and found: "filter_mset (matches ''Requiem_SnmpService'' (typed_key p m @ [(''_parent0_index'', L_int i)]) False) D =
      mset (case x of None \<Rightarrow> [] | Some z \<Rightarrow> [snmp_service_row p m i z])"
  shows "reads V D (\<lambda>_. True) (map_option norm_snmp_service x) (get_snmp_service E m p i)"
  unfolding get_snmp_service_def
proof (rule reads_one_object [OF db _ _ _ found])
  show "''SELECT snmp_oid, message_processing_model, security_model, security_name, security_level, context_name, context_engine_id, command FROM Requiem_SnmpService WHERE '' @
      of_typed_message p m @ parent_is 0 i =
    select_query ''snmp_oid, message_processing_model, security_model, security_name, security_level, context_name, context_engine_id, command''
      ''Requiem_SnmpService'' (typed_key p m @ [(''_parent0_index'', L_int i)]) False"
    by (simp add: query_simps)
  fix y t h
  show "reads V D (at_row t h (fields_of ''snmp_oid, message_processing_model, security_model, security_name, security_level, context_name, context_engine_id, command''
        (snmp_service_row p m i y))) (norm_snmp_service y)
     (bindr (get_string_field E t h 0) (\<lambda>oid. bindr (get_uint32 E t h 1) (\<lambda>message_processing_model.
      bindr (get_uint32 E t h 2) (\<lambda>security_model. bindr (get_string_field E t h 3) (\<lambda>security_name.
      bindr (get_uint32 E t h 4) (\<lambda>security_level. bindr (get_string_field E t h 5) (\<lambda>context_name.
      bindr (get_string_field E t h 6) (\<lambda>context_engine_id. bindr (get_string_field E t h 7) (\<lambda>command.
      retn \<lparr>snmp_oid = oid, snmp_message_processing_model = message_processing_model,
            snmp_security_model = security_model, snmp_security_name = security_name,
            snmp_security_level = security_level, snmp_context_name = context_name,
            snmp_context_engine_id = context_engine_id, snmp_command = command\<rparr>)))))))))"
    unfolding row_facts norm_snmp_service_def
    by ((rule reads_bindr [OF stable_at_row], rule field_reads, rule db, simp, simp)+) simp
qed (use p in \<open>simp_all add: schema_table_def\<close>)

abbreviation service_tables :: "string list" where
  "service_tables \<equiv> [''Requiem_Service'', ''Requiem_WebService'', ''Requiem_WebServiceArg'', ''Requiem_SnmpService'']"

lemma reads_service:
  assumes db: "sql_database E V" and p: "parent_char p"
    and rows: "holds D (typed_key p m @ [(''_parent0_index'', L_int i)]) service_tables (service_rows p m i x)"
    and fits: "\<And>y. x = Some y \<Longrightarrow> service_fits fuel y"
  shows "reads V D (\<lambda>_. True) (map_option norm_service x) (get_service fuel E m p i)"
  unfolding get_service_def
proof (rule reads_ignoring_query_failure, fold one_object_def, rule reads_one_object [OF db, where row = "service_row p m i" and
      T = "''Requiem_Service''" and cs = "typed_key p m @ [(''_parent0_index'', L_int i)]"])
  let ?cs = "typed_key p m @ [(''_parent0_index'', L_int i)]"
  note find = service_rows_def service_type_rows_split web_service_rows_def find_simps row_facts
  show "''SELECT ident, ip_version, name, port, iana_protocol_number, iana_protocol_name, portlist, protocol FROM Requiem_Service WHERE '' @
      of_typed_message p m @ parent_is 0 i =
      select_query ''ident, ip_version, name, port, iana_protocol_number, iana_protocol_name, portlist, protocol''
        ''Requiem_Service'' ?cs False"
    by (simp add: query_simps)
  show "filter_mset (matches ''Requiem_Service'' ?cs False) D = mset (case x of None \<Rightarrow> [] | Some z \<Rightarrow> [service_row p m i z])"
    by (simp add: holdsD [OF rows] find del: mset_filter split: option.split)
  fix y t h assume x: "x = Some y"
  have "holds D ?cs [''Requiem_WebService'', ''Requiem_WebServiceArg''] (web_service_rows p m i (web_of (service_type y)))"
    by (rule holds_narrow [OF rows]) (auto simp: x find split: option.split)
  then have web: "reads V D (\<lambda>_. True) (map_option norm_web_service (web_of (service_type y))) (get_web_service fuel E m p i)"
    by (rule reads_web_service [OF db p]) (use fits [OF x] in \<open>simp add: service_fits_def\<close>)
  have snmp: "reads V D (\<lambda>_. True) (map_option norm_snmp_service (snmp_of (service_type y))) (get_snmp_service E m p i)"
    by (rule reads_snmp_service [OF db p]) (simp add: holdsD [OF rows] x find del: mset_filter split: option.split)
  have type: "norm_service_type (service_type y) =
      (case map_option norm_snmp_service (snmp_of (service_type y)) of
         Some x \<Rightarrow> Service_snmp (Some x)
       | None \<Rightarrow> (case map_option norm_web_service (web_of (service_type y)) of
            Some w \<Rightarrow> Service_web (Some w) | None \<Rightarrow> Service_default))"
    by (simp add: norm_service_type_def split: option.split)
  show "reads V D (at_row t h (fields_of ''ident, ip_version, name, port, iana_protocol_number, iana_protocol_name, portlist, protocol''
        (service_row p m i y))) (norm_service y)
     (bindr (get_string_field E t h 0) (\<lambda>ident. bindr (get_uint8 E t h 1) (\<lambda>ip_version.
      bindr (get_string_field E t h 2) (\<lambda>name. bindr (get_uint16 E t h 3) (\<lambda>port.
      bindr (get_uint8 E t h 4) (\<lambda>iana_protocol_number. bindr (get_string_field E t h 5) (\<lambda>iana_protocol_name.
      bindr (get_string_field E t h 6) (\<lambda>portlist. bindr (get_string_field E t h 7) (\<lambda>protocol.
      bindr (get_web_service fuel E m p i) (\<lambda>web. bindr (get_snmp_service E m p i) (\<lambda>snmp.
      retn \<lparr>service_ident = ident, service_ip_version = ip_version, service_name = name, service_port = port,
            service_iana_protocol_number = iana_protocol_number, service_iana_protocol_name = iana_protocol_name,
            service_portlist = portlist, service_protocol = protocol,
            service_type = (case snmp of
               Some x \<Rightarrow> Service_snmp (Some x)
             | None \<Rightarrow> (case web of Some w \<Rightarrow> Service_web (Some w) | None \<Rightarrow> Service_default))\<rparr>)))))))))))"
    unfolding row_facts norm_service_def type
    by ((rule reads_bindr [OF stable_at_row], rule field_reads, rule db, simp, simp)+)
      (rule reads_bindr [OF stable_at_row reads_weaken [OF web]],
       rule reads_bindr [OF stable_at_row reads_weaken [OF snmp]], simp)
qed (use p in \<open>simp_all add: schema_table_def\<close>)

section \<open>Counting rows\<close>

lemma works_first_row_then:
  assumes db: "sql_database E V" and body: "\<And>t h. reads V D (at_row t h r) z (body t h)"
    and rest: "reads V D (\<lambda>_. True) y (g (Some z))"
  shows "works_through V D [r] y (\<lambda>t. bindr (first_row E t (body t)) g)"
  unfolding works_through_def
proof (intro allI impI)
  fix t s assume s: "connected s \<and> db_rows (database_of V s) = D \<and> db_pending (database_of V s) t = Some [r]"
  then obtain s1 where s1: "first_row E t (body t) s = (Inr (Some z), s1)" "connected s1" "db_rows (database_of V s1) = D"
    "\<forall>u. u \<noteq> t \<longrightarrow> db_pending (database_of V s) u \<noteq> None \<longrightarrow>
       db_pending (database_of V s1) u = db_pending (database_of V s) u \<and>
       db_fetched (database_of V s1) u = db_fetched (database_of V s) u"
    using reads_first_row [OF db body] by blast
  from rest s1(2,3) obtain s2 where "g (Some z) s1 = (Inr y, s2)" "connected s2" "db_rows (database_of V s2) = D"
    "frame (database_of V s1) (database_of V s2)" by (rule readsE) simp
  with s1 show "\<exists>s'. bindr (first_row E t (body t)) g s = (Inr y, s') \<and> connected s' \<and> db_rows (database_of V s') = D \<and>
      (\<forall>u. u \<noteq> t \<longrightarrow> db_pending (database_of V s) u \<noteq> None \<longrightarrow>
         db_pending (database_of V s') u = db_pending (database_of V s) u \<and>
         db_fetched (database_of V s') u = db_fetched (database_of V s) u)"
    by (auto simp: frame_def)
qed

lemma read_count_first_row:
  "bindr (read_count E t) g =
   bindr (first_row E t (\<lambda>h. get_number field_to_uint32 E t h 0)) (\<lambda>x. g (case x of Some (Some i) \<Rightarrow> nat i | _ \<Rightarrow> 0))"
  by (rule ext) (auto simp: read_count_def first_row_def bindr_def retn_def split: prod.splits sum.splits option.splits)

lemma count_answers:
  assumes "sql_database E V" "schema_table T" "list_all plain_cond cs"
  shows "answers E V w [[Some (dec_nat (size (filter_mset (matches T cs True) (db_rows (contents V w)))))]]
    (pl_query (env_plugin E) (count_text T (map (\<lambda>(c, v). (c, lit_text v)) cs)) w)"
proof -
  from assms(1) have law: "count_law E V" by (simp add: sql_database_def)
  let ?cs = "map (\<lambda>(c, v). (c, lit_text v)) cs"
  have "answers E V w [[Some (dec_nat (size (filter_mset (matches T (zip (map fst ?cs) (map snd cs)) True) (db_rows (contents V w)))))]]
      (pl_query (env_plugin E) (count_text T ?cs) w)"
    using law denotes_conditions [OF assms(1,3)] assms(2) unfolding count_law_def by blast
  then show ?thesis unfolding conditions_zip .
qed

text \<open>A table asked for the number of its rows, and an object read for each.\<close>

lemma reads_counted:
  assumes db: "sql_database E V" and "schema_table T" "list_all plain_cond cs"
    and q: "q = count_text T (map (\<lambda>(c, v). (c, lit_text v)) cs)"
    and found: "size (filter_mset (matches T cs True) D) = n" and small: "n < 2 ^ 32"
    and g: "reads V D (\<lambda>_. True) y (g n)"
  shows "reads V D K y (with_result E q none (\<lambda>t. bindr (read_count E t) g))"
proof (rule reads_with_answer [OF db, where rs = "[[Some (dec_nat n)]]"])
  show "answers E V w [[Some (dec_nat n)]] (pl_query (env_plugin E) q w)" if "db_rows (contents V w) = D" for w
    using count_answers [OF db assms(2,3), of w] that found by (simp add: q)
  have "uint (word_of_int (int n) :: 32 word) = int n" using small by (simp add: unsigned_of_nat take_bit_nat_eq_self)
  then have num: "field_to_uint32 (dec_nat n) = Inr (Stored (int n))"
    using field_to_uint_widths(2) [of "word_of_int (int n)"] by (simp add: dec_int_def)
  have number: "reads V D (at_row t h [Some (dec_nat n)]) (Some (int n)) (get_number field_to_uint32 E t h 0)" for t h
    unfolding get_number_def
    by (rule reads_bindr [OF stable_at_row reads_field [OF db]]) (simp_all add: num)
  show "works_through V D [[Some (dec_nat n)]] y (\<lambda>t. bindr (read_count E t) g)"
    unfolding read_count_first_row
    by (rule works_first_row_then [OF db, where body = "\<lambda>t h. get_number field_to_uint32 E t h 0", OF number]) (simp add: g)
qed simp

section \<open>Files\<close>

definition norm_file_access :: "'w env \<Rightarrow> idmef_file_access \<Rightarrow> idmef_file_access" where
  "norm_file_access E x =
     \<lparr>file_access_permissions = map norm_item (file_access_permissions x),
      file_access_user_id = norm_user_id E (file_access_user_id x)\<rparr>"

definition norm_linkage :: "'w env \<Rightarrow> idmef_linkage \<Rightarrow> idmef_linkage" where
  "norm_linkage E x =
     \<lparr>linkage_category = norm_enum E ENUM_LINKAGE_CATEGORY (linkage_category x), linkage_name = norm_str (linkage_name x),
      linkage_path = norm_str (linkage_path x)\<rparr>"

definition norm_inode :: "idmef_inode \<Rightarrow> idmef_inode" where
  "norm_inode x = x\<lparr>inode_change_time := map_option without_usec (inode_change_time x)\<rparr>"

definition norm_checksum :: "'w env \<Rightarrow> idmef_checksum \<Rightarrow> idmef_checksum" where
  "norm_checksum E x =
     \<lparr>checksum_value = norm_str (checksum_value x), checksum_key = norm_str (checksum_key x),
      checksum_algorithm = norm_enum E ENUM_CHECKSUM_ALGORITHM (checksum_algorithm x)\<rparr>"

definition norm_file_row :: "'w env \<Rightarrow> idmef_file \<Rightarrow> idmef_file" where
  "norm_file_row E x =
     \<lparr>file_ident = norm_str (file_ident x), file_category = norm_enum E ENUM_FILE_CATEGORY (file_category x),
      file_name = norm_str (file_name x), file_path = norm_str (file_path x),
      file_create_time = map_option without_usec (file_create_time x),
      file_modify_time = map_option without_usec (file_modify_time x),
      file_access_time = map_option without_usec (file_access_time x),
      file_data_size = file_data_size x, file_disk_size = file_disk_size x,
      file_fstype = norm_opt_enum E ENUM_FILE_FSTYPE (file_fstype x), file_file_type = norm_str (file_file_type x),
      file_accesses = [], file_linkages = [], file_inode = None, file_checksums = []\<rparr>"

definition norm_file :: "'w env \<Rightarrow> idmef_file \<Rightarrow> idmef_file" where
  "norm_file E x = (norm_file_row E x)
     \<lparr>file_accesses := map (norm_file_access E) (file_accesses x), file_linkages := map (norm_linkage E) (file_linkages x),
      file_inode := map_option norm_inode (file_inode x), file_checksums := map (norm_checksum E) (file_checksums x)\<rparr>"

definition file_fits :: "nat \<Rightarrow> idmef_file \<Rightarrow> bool" where
  "file_fits k x \<longleftrightarrow> small_size (file_data_size x) \<and> small_size (file_disk_size x) \<and> 1 < k \<and>
     length (file_accesses x) < 2 ^ 32 \<and> list_all (\<lambda>a. length (file_access_permissions a) < k) (file_accesses x) \<and>
     length (file_linkages x) < k \<and> length (file_checksums x) < k"

definition file_user_rows :: "'w env \<Rightarrow> int \<Rightarrow> int \<Rightarrow> int \<Rightarrow> idmef_file \<Rightarrow> sql_row list" where
  "file_user_rows E m i j x = indexed_rows (\<lambda>k a. [user_id_row E CHR ''F'' m i j k 0 (file_access_user_id a)]) (file_accesses x)"

definition file_child_rows :: "'w env \<Rightarrow> int \<Rightarrow> int \<Rightarrow> int \<Rightarrow> idmef_file \<Rightarrow> sql_row list" where
  "file_child_rows E m i j x =
     indexed_rows (file_access_rows E m i j) (file_accesses x) @
     (indexed_rows (\<lambda>k y. [linkage_row E m i j k y]) (file_linkages x) @
      (optional_rows (\<lambda>y. [inode_row E m i j y]) (file_inode x) @
       indexed_rows (\<lambda>k y. [checksum_row E m i j k y]) (file_checksums x)))"

abbreviation file_child_tables :: "string list" where
  "file_child_tables \<equiv> [''Requiem_FileAccess'', ''Requiem_FileAccess_Permission'', ''Requiem_Linkage'', ''Requiem_Inode'', ''Requiem_Checksum'']"

lemma file_row_facts [row_facts]:
  "fst (file_row E m i j x) = ''Requiem_File''" "fst (file_access_row m i j k) = ''Requiem_FileAccess''"
  "fst (permission_row m i j k l a) = ''Requiem_FileAccess_Permission''" "fst (linkage_row E m i j k y) = ''Requiem_Linkage''"
  "fst (inode_row E m i j z) = ''Requiem_Inode''" "fst (checksum_row E m i j k c) = ''Requiem_Checksum''"
  "index_of (file_row E m i j x) = j" "index_of (file_access_row m i j k) = k" "index_of (permission_row m i j k l a) = l"
  "index_of (linkage_row E m i j k y) = k" "index_of (checksum_row E m i j k c) = k"
  by (simp_all add: alert_match_simps file_row_def file_access_row_def permission_row_def linkage_row_def inode_row_def
      checksum_row_def)

lemma file_match_facts [row_facts]:
  "matches ''Requiem_File'' (message_key m @ [(''_parent0_index'', L_int i')]) True (file_row E m i j x) \<longleftrightarrow> i = i' \<and> j \<noteq> - 1"
  "matches ''Requiem_FileAccess'' (file_key m i' j') True (file_access_row m i j k) \<longleftrightarrow> i = i' \<and> j = j' \<and> k \<noteq> - 1"
  "matches ''Requiem_FileAccess_Permission'' (file_key m i' j' @ [(''_parent2_index'', L_int k')]) True (permission_row m i j k l a) \<longleftrightarrow>
     i = i' \<and> j = j' \<and> k = k' \<and> l \<noteq> - 1"
  "matches ''Requiem_Linkage'' (file_key m i' j') True (linkage_row E m i j k y) \<longleftrightarrow> i = i' \<and> j = j' \<and> k \<noteq> - 1"
  "matches ''Requiem_Inode'' (file_key m i' j') False (inode_row E m i j z) \<longleftrightarrow> i = i' \<and> j = j'"
  "matches ''Requiem_Checksum'' (file_key m i' j') True (checksum_row E m i j k c) \<longleftrightarrow> i = i' \<and> j = j' \<and> k \<noteq> - 1"
  by (auto simp: alert_match_simps file_row_def file_access_row_def permission_row_def linkage_row_def inode_row_def
      checksum_row_def)

lemma file_fields_facts [row_facts]:
  "fields_of ''permission'' (permission_row m i j k l a) = [lit_field (str_lit (Some a))]"
  "fields_of ''category, name, path'' (linkage_row E m i j k y) =
     map lit_field [enum_lit E ENUM_LINKAGE_CATEGORY (linkage_category y), str_lit (linkage_name y), str_lit (linkage_path y)]"
  "fields_of ''change_time, change_time_gmtoff, number, major_device, minor_device, c_major_device, c_minor_device'' (inode_row E m i j z) =
     map lit_field [time_lit E (inode_change_time z), gmtoff_lit E (inode_change_time z), num_lit (inode_number z),
       num_lit (inode_major_device z), num_lit (inode_minor_device z), num_lit (inode_c_major_device z),
       num_lit (inode_c_minor_device z)]"
  "fields_of ''value, checksum_key, algorithm'' (checksum_row E m i j k c) =
     map lit_field [str_lit (checksum_value c), str_lit (checksum_key c), enum_lit E ENUM_CHECKSUM_ALGORITHM (checksum_algorithm c)]"
  by (simp_all add: alert_match_simps permission_row_def linkage_row_def inode_row_def checksum_row_def)

lemma file_row_fields [row_facts]:
  "fields_of ''ident, category, name, path, create_time, create_time_gmtoff, modify_time, modify_time_gmtoff, access_time, access_time_gmtoff, data_size, disk_size, fstype, file_type''
     (file_row E m i j x) =
   map lit_field [str_lit (file_ident x), enum_lit E ENUM_FILE_CATEGORY (file_category x), str_lit (file_name x),
     str_lit (file_path x), time_lit E (file_create_time x), gmtoff_lit E (file_create_time x),
     time_lit E (file_modify_time x), gmtoff_lit E (file_modify_time x), time_lit E (file_access_time x),
     gmtoff_lit E (file_access_time x), num_lit (file_data_size x), num_lit (file_disk_size x),
     opt_enum_lit E ENUM_FILE_FSTYPE (file_fstype x), str_lit (file_file_type x)]"
  by (simp add: alert_match_simps file_row_def)

lemmas file_find = file_child_rows_def file_access_rows_def find_simps

lemma reads_permissions:
  assumes db: "sql_database E V"
    and rows: "holds D (file_key m i j @ [(''_parent2_index'', L_int k)]) [''Requiem_FileAccess_Permission'']
      (indexed_rows (\<lambda>l y. [permission_row m i j k l y]) xs)"
    and fits: "length xs < fuel"
  shows "reads V D (\<lambda>_. True) (map norm_item xs) (get_file_access_permission fuel E m i j k)"
  unfolding get_file_access_permission_def
proof (rule reads_items [OF db, where row = "permission_row m i j k" and T = "''Requiem_FileAccess_Permission''" and
      cs = "file_key m i j @ [(''_parent2_index'', L_int k)]"])
  show "''SELECT permission FROM Requiem_FileAccess_Permission WHERE '' @ in_file m i j @ parent_is 2 k @ listed_order =
      select_query ''permission'' ''Requiem_FileAccess_Permission'' (file_key m i j @ [(''_parent2_index'', L_int k)]) True"
    by (simp add: alert_query_simps)
  show "filter_mset (matches ''Requiem_FileAccess_Permission'' (file_key m i j @ [(''_parent2_index'', L_int k)]) True) D =
      mset (listed_rows (permission_row m i j k) xs)"
    by (simp add: holdsD [OF rows] find_simps row_facts del: mset_filter)
qed (use fits in \<open>simp_all add: schema_table_def row_facts\<close>)

lemma reads_file_access:
  assumes db: "sql_database E V"
    and rows: "holds D (file_key m i j) file_child_tables (file_child_rows E m i j x)"
    and users: "holds D (typed_key CHR ''F'' m @ [(''_parent0_index'', L_int i), (''_parent1_index'', L_int j)]) [''Requiem_UserId'']
      (file_user_rows E m i j x)"
    and fits: "file_fits fuel x"
  shows "reads V D (\<lambda>_. True) (map (norm_file_access E) (file_accesses x)) (get_file_access fuel E m i j)"
  unfolding get_file_access_def
proof (rule reads_counted [OF db, where T = "''Requiem_FileAccess''" and cs = "file_key m i j" and n = "length (file_accesses x)"])
  show "''SELECT COUNT(*) FROM Requiem_FileAccess WHERE '' @ in_file m i j @ '' AND _index != -1'' =
      count_text ''Requiem_FileAccess'' (map (\<lambda>(c, v). (c, lit_text v)) (file_key m i j))"
    by (simp add: alert_query_simps count_text_def)
  have "filter_mset (matches ''Requiem_FileAccess'' (file_key m i j) True) D =
      mset (listed_rows (\<lambda>k _. file_access_row m i j k) (file_accesses x))"
    by (simp add: holdsD [OF rows] file_find row_facts del: mset_filter split: option.split)
  then show "size (filter_mset (matches ''Requiem_FileAccess'' (file_key m i j) True) D) = length (file_accesses x)"
    by (simp add: listed_rows_def del: mset_filter)
  have permissions: "holds D (file_key m i j) [''Requiem_FileAccess_Permission''] (indexed_rows (file_access_rows E m i j) (file_accesses x))"
    by (rule holds_narrow [OF rows]) (auto simp: file_child_rows_def find_simps row_facts split: option.split)
  have child: "reads V D (\<lambda>_. True) (norm_file_access E (file_accesses x ! k)) (read_file_access fuel E m i j (int k))"
    if k: "k < length (file_accesses x)" for k
  proof -
    let ?a = "file_accesses x ! k"
    have "holds D (file_key m i j @ [(''_parent2_index'', L_int (int k))]) [''Requiem_FileAccess_Permission'']
        (indexed_rows (\<lambda>l y. [permission_row m i j (int k) l y]) (file_access_permissions ?a))"
    proof (rule holds_part [OF permissions k, where part =
          "\<lambda>k a. indexed_rows (\<lambda>l y. [permission_row m i j k l y]) (file_access_permissions a)"])
      show "list_all (keyed [''Requiem_FileAccess_Permission''] (file_key m i j @ [(''_parent2_index'', L_int i')]))
          (indexed_rows (\<lambda>l y. [permission_row m i j i' l y]) (file_access_permissions a))" for i' a
        by (rule keyed_indexed) (simp add: keyed_def alert_match_simps permission_row_def)
    qed (auto simp: file_access_rows_def find_simps row_facts)
    then have perms: "reads V D (\<lambda>_. True) (map norm_item (file_access_permissions ?a)) (get_file_access_permission fuel E m i j (int k))"
      by (rule reads_permissions [OF db]) (use fits k in \<open>simp add: file_fits_def list_all_length\<close>)
    have "holds D ((typed_key CHR ''F'' m @ [(''_parent0_index'', L_int i), (''_parent1_index'', L_int j)]) @
        [(''_parent2_index'', L_int (int k))]) [''Requiem_UserId''] [user_id_row E CHR ''F'' m i j (int k) 0 (file_access_user_id ?a)]"
    proof (rule holds_part [OF users [unfolded file_user_rows_def] k, where part =
          "\<lambda>k a. [user_id_row E CHR ''F'' m i j k 0 (file_access_user_id a)]"])
      show "list_all (keyed [''Requiem_UserId''] ((typed_key CHR ''F'' m @ [(''_parent0_index'', L_int i), (''_parent1_index'', L_int j)]) @
          [(''_parent2_index'', L_int i')])) [user_id_row E CHR ''F'' m i j i' 0 (file_access_user_id a)]" for i' a
        by (simp add: keyed_def alert_match_simps user_id_row_def)
    qed auto
    then have "filter_mset (matches ''Requiem_UserId'' (user_id_key CHR ''F'' m i j (int k)) True) D =
        mset (listed_rows (user_id_row E CHR ''F'' m i j (int k)) [file_access_user_id ?a])"
      by (simp add: holdsD row_facts listed_rows_def del: mset_filter)
    then have user: "reads V D K (map (norm_user_id E) [file_access_user_id ?a]) (get_user_id fuel E m CHR ''F'' i j (int k))" for K
      by (rule reads_user_ids [OF db, rotated]) (use fits in \<open>simp_all add: parent_char_def file_fits_def\<close>)
    show ?thesis
      unfolding read_file_access_def norm_file_access_def
      by (rule reads_bindr [OF stable_True user], rule reads_bindr [OF stable_True perms]) simp
  qed
  show "reads V D (\<lambda>_. True) (map (norm_file_access E) (file_accesses x))
      (each_child 0 (\<lambda>cnt _. read_file_access fuel E m i j cnt) (replicate (length (file_accesses x)) ()))"
    by (rule reads_each_child) (simp_all add: child)
qed (use fits in \<open>simp_all add: schema_table_def file_fits_def\<close>)

lemma reads_linkages:
  assumes db: "sql_database E V"
    and rows: "holds D (file_key m i j) file_child_tables (file_child_rows E m i j x)" and fits: "file_fits fuel x"
  shows "reads V D (\<lambda>_. True) (map (norm_linkage E) (file_linkages x)) (get_linkage fuel E m i j)"
  unfolding get_linkage_def
proof (rule reads_listed_objects [OF db, where row = "linkage_row E m i j" and T = "''Requiem_Linkage''" and cs = "file_key m i j"])
  show "''SELECT category, name, path FROM Requiem_Linkage WHERE '' @ in_file m i j @ listed_order =
      select_query ''category, name, path'' ''Requiem_Linkage'' (file_key m i j) True"
    by (simp add: alert_query_simps)
  show "filter_mset (matches ''Requiem_Linkage'' (file_key m i j) True) D = mset (listed_rows (linkage_row E m i j) (file_linkages x))"
    by (simp add: holdsD [OF rows] file_find row_facts del: mset_filter split: option.split)
  show "reads V D (at_row t h (fields_of ''category, name, path'' (linkage_row E m i j (int k) (file_linkages x ! k))))
      (norm_linkage E (file_linkages x ! k)) (read_linkage E t h)" for k t h
    unfolding row_facts read_linkage_def norm_linkage_def
    by ((rule reads_bindr [OF stable_at_row], rule field_reads, rule db, simp, simp)+) simp
qed (use fits in \<open>simp_all add: schema_table_def row_facts file_fits_def\<close>)

lemma reads_checksums:
  assumes db: "sql_database E V"
    and rows: "holds D (file_key m i j) file_child_tables (file_child_rows E m i j x)" and fits: "file_fits fuel x"
  shows "reads V D (\<lambda>_. True) (map (norm_checksum E) (file_checksums x)) (get_checksum fuel E m i j)"
  unfolding get_checksum_def
proof (rule reads_listed_objects [OF db, where row = "checksum_row E m i j" and T = "''Requiem_Checksum''" and cs = "file_key m i j"])
  show "''SELECT value, checksum_key, algorithm FROM Requiem_Checksum WHERE '' @ in_file m i j @ listed_order =
      select_query ''value, checksum_key, algorithm'' ''Requiem_Checksum'' (file_key m i j) True"
    by (simp add: alert_query_simps)
  show "filter_mset (matches ''Requiem_Checksum'' (file_key m i j) True) D = mset (listed_rows (checksum_row E m i j) (file_checksums x))"
    by (simp add: holdsD [OF rows] file_find row_facts del: mset_filter split: option.split)
  show "reads V D (at_row t h (fields_of ''value, checksum_key, algorithm'' (checksum_row E m i j (int k) (file_checksums x ! k))))
      (norm_checksum E (file_checksums x ! k)) (read_checksum E t h)" for k t h
    unfolding row_facts read_checksum_def norm_checksum_def
    by ((rule reads_bindr [OF stable_at_row], rule field_reads, rule db, simp, simp)+) simp
qed (use fits in \<open>simp_all add: schema_table_def row_facts file_fits_def\<close>)

lemma reads_inode:
  assumes db: "sql_database E V"
    and rows: "holds D (file_key m i j) file_child_tables (file_child_rows E m i j x)" and ok: "file_ok E x"
  shows "reads V D (\<lambda>_. True) (map_option norm_inode (file_inode x)) (get_inode E m i j)"
  unfolding get_inode_def
proof (rule reads_one_object [OF db, where row = "inode_row E m i j" and T = "''Requiem_Inode''" and cs = "file_key m i j"])
  show "''SELECT change_time, change_time_gmtoff, number, major_device, minor_device, c_major_device, c_minor_device FROM Requiem_Inode WHERE '' @
      in_file m i j =
      select_query ''change_time, change_time_gmtoff, number, major_device, minor_device, c_major_device, c_minor_device''
        ''Requiem_Inode'' (file_key m i j) False"
    by (simp add: alert_query_simps)
  show "filter_mset (matches ''Requiem_Inode'' (file_key m i j) False) D =
      mset (case file_inode x of None \<Rightarrow> [] | Some z \<Rightarrow> [inode_row E m i j z])"
    by (simp add: holdsD [OF rows] file_find row_facts del: mset_filter split: option.split)
  fix z t h assume "file_inode x = Some z"
  with ok have law: "time_law E (inode_change_time z)" by (simp add: file_ok_def)
  have norm: "norm_inode z = \<lparr>inode_change_time = map_option without_usec (inode_change_time z), inode_number = inode_number z,
      inode_major_device = inode_major_device z, inode_minor_device = inode_minor_device z,
      inode_c_major_device = inode_c_major_device z, inode_c_minor_device = inode_c_minor_device z\<rparr>"
    by (simp add: norm_inode_def)
  show "reads V D (at_row t h (fields_of ''change_time, change_time_gmtoff, number, major_device, minor_device, c_major_device, c_minor_device''
        (inode_row E m i j z))) (norm_inode z)
     (bindr (get_timestamp E t h 0 1 None) (\<lambda>change_time. bindr (get_uint32 E t h 2) (\<lambda>number.
      bindr (get_uint32 E t h 3) (\<lambda>major_device. bindr (get_uint32 E t h 4) (\<lambda>minor_device.
      bindr (get_uint32 E t h 5) (\<lambda>c_major_device. bindr (get_uint32 E t h 6) (\<lambda>c_minor_device.
      retn \<lparr>inode_change_time = change_time, inode_number = number, inode_major_device = major_device,
            inode_minor_device = minor_device, inode_c_major_device = c_major_device,
            inode_c_minor_device = c_minor_device\<rparr>)))))))"
    unfolding row_facts norm
    by (rule reads_bindr [OF stable_at_row], rule reads_time_lit [OF db law]; simp?)
      ((rule reads_bindr [OF stable_at_row], rule field_reads, rule db, simp, simp)+, simp)
qed (simp_all add: schema_table_def)

end
