(* ===== verification/AlertParts.thy ===== *)
theory AlertParts
  imports AlertReads
begin

text \<open>
  Reading back the sources and targets of an alert with their files, its classification, its
  assessment and what its kind adds.
\<close>

section \<open>Lists of files\<close>

lemma list_all_rows_from: "(\<And>i x. list_all P (g i x)) \<Longrightarrow> list_all P (rows_from g i xs)"
  by (induction g i xs rule: rows_from.induct) auto

lemma list_all_indexed: "(\<And>i x. list_all P (g i x)) \<Longrightarrow> list_all P (indexed_rows g xs)"
  by (auto simp: indexed_rows_def intro: list_all_rows_from)

lemma list_all_optional: "(\<And>x. list_all P (g x)) \<Longrightarrow> list_all P (optional_rows g x)"
  by (auto simp: optional_rows_def split: option.split)

lemma keyed_file_access_rows:
  "list_all (keyed (file_child_tables @ [''Requiem_UserId'']) ((message_key m @ [(''_parent0_index'', L_int i)]) @ [(''_parent1_index'', L_int j)]))
     (file_access_rows E m i j k x)"
  unfolding file_access_rows_def
  by (simp, intro conjI keyed_indexed;
      simp add: keyed_def alert_match_simps file_access_row_def permission_row_def user_id_row_def)

lemma keyed_file_child_rows:
  "list_all (keyed (file_child_tables @ [''Requiem_UserId'']) ((message_key m @ [(''_parent0_index'', L_int i)]) @ [(''_parent1_index'', L_int j)]))
     (file_child_rows E m i j x)"
  unfolding file_child_rows_def keyed_append
  by (intro conjI keyed_indexed keyed_optional keyed_file_access_rows;
      simp add: keyed_def alert_match_simps linkage_row_def inode_row_def checksum_row_def)

lemma keyed_file_user_rows:
  "list_all (keyed [''Requiem_UserId''] ((typed_key CHR ''F'' m @ [(''_parent0_index'', L_int i)]) @ [(''_parent1_index'', L_int j)]))
     (file_user_rows E m i j x)"
  unfolding file_user_rows_def
  by (rule keyed_indexed) (simp add: keyed_def alert_match_simps user_id_row_def)

lemma file_rows_child: "file_rows E m i j x = file_row E m i j x # file_child_rows E m i j x"
  by (simp add: file_rows_def file_child_rows_def)

lemma file_parts:
  "T \<in> set file_child_tables \<Longrightarrow> filter (matches T cs l) (file_rows E m i j x) = filter (matches T cs l) (file_child_rows E m i j x)"
  "T \<in> set [''Requiem_UserId''] \<Longrightarrow> filter (matches T cs l) (file_rows E m i j x) = filter (matches T cs l) (file_user_rows E m i j x)"
proof -
  show "T \<in> set file_child_tables \<Longrightarrow> filter (matches T cs l) (file_rows E m i j x) = filter (matches T cs l) (file_child_rows E m i j x)"
    by (auto simp: file_rows_child row_facts)
  have "filter (matches ''Requiem_UserId'' cs l) (file_access_rows E m i j k a) =
      filter (matches ''Requiem_UserId'' cs l) [user_id_row E CHR ''F'' m i j k 0 (file_access_user_id a)]" for k a
    by (simp add: file_access_rows_def find_simps row_facts)
  then have "filter (matches ''Requiem_UserId'' cs l) (indexed_rows (file_access_rows E m i j) (file_accesses x)) =
      filter (matches ''Requiem_UserId'' cs l) (file_user_rows E m i j x)"
    unfolding file_user_rows_def by (rule filter_indexed_cong)
  then show "T \<in> set [''Requiem_UserId''] \<Longrightarrow> filter (matches T cs l) (file_rows E m i j x) = filter (matches T cs l) (file_user_rows E m i j x)"
    by (simp add: file_rows_child file_child_rows_def find_simps row_facts split: option.split)
qed

lemma reads_file_row:
  assumes db: "sql_database E V" and ok: "file_ok E x" and fits: "file_fits fuel x"
  shows "reads V D (at_row t h (fields_of ''ident, category, name, path, create_time, create_time_gmtoff, modify_time, modify_time_gmtoff, access_time, access_time_gmtoff, data_size, disk_size, fstype, file_type''
      (file_row E m i j x))) (norm_file_row E x) (read_file E t h)"
proof -
  have law: "time_law E (file_create_time x)" "time_law E (file_modify_time x)" "time_law E (file_access_time x)"
    using ok by (simp_all add: file_ok_def)
  have small: "small_size (file_data_size x)" "small_size (file_disk_size x)" using fits by (simp_all add: file_fits_def)
  note reads_times = reads_time_lit [OF db law(1)] reads_time_lit [OF db law(2)] reads_time_lit [OF db law(3)]
  note reads_sizes = reads_size [OF small(1) db] reads_size [OF small(2) db]
  note reads_others = reads_str [OF db] reads_enum_lit [OF db] reads_opt_enum_lit [OF db]
  show ?thesis
    unfolding row_facts read_file_def norm_file_row_def
    by ((rule reads_bindr [OF stable_at_row], rule reads_others, simp, simp)+,
        (rule reads_bindr [OF stable_at_row], rule reads_times, simp, simp, simp, simp)+,
        (rule reads_bindr [OF stable_at_row], rule reads_sizes, simp, simp)+,
        (rule reads_bindr [OF stable_at_row], rule reads_others, simp, simp)+, simp)
qed

lemma reads_files:
  assumes db: "sql_database E V"
    and rows: "holds D (message_key m @ [(''_parent0_index'', L_int i)]) (''Requiem_File'' # file_child_tables) (indexed_rows (file_rows E m i) xs)"
    and users: "holds D (typed_key CHR ''F'' m @ [(''_parent0_index'', L_int i)]) [''Requiem_UserId''] (indexed_rows (file_rows E m i) xs)"
    and ok: "list_all (\<lambda>x. file_ok E x \<and> file_fits fuel x) xs" and fits: "length xs < fuel"
  shows "reads V D (\<lambda>_. True) (map (norm_file E) xs) (get_file fuel E m i)"
  unfolding get_file_def
proof (rule reads_objects_with_children [OF db, where row = "file_row E m i" and T = "''Requiem_File''" and
      cs = "message_key m @ [(''_parent0_index'', L_int i)]" and base = "norm_file_row E"])
  show "''SELECT ident, category, name, path, create_time, create_time_gmtoff, modify_time, modify_time_gmtoff, access_time, access_time_gmtoff, data_size, disk_size, fstype, file_type FROM Requiem_File WHERE '' @
      of_message m @ parent_is 0 i @ listed_order =
    select_query ''ident, category, name, path, create_time, create_time_gmtoff, modify_time, modify_time_gmtoff, access_time, access_time_gmtoff, data_size, disk_size, fstype, file_type''
      ''Requiem_File'' (message_key m @ [(''_parent0_index'', L_int i)]) True"
    by (simp add: alert_query_simps)
  have "filter (matches ''Requiem_File'' cs l) (file_rows E m i j x) = filter (matches ''Requiem_File'' cs l) [file_row E m i j x]" for cs l j x
    by (simp add: file_rows_child keyed_other_table [OF keyed_file_child_rows])
  then show "filter_mset (matches ''Requiem_File'' (message_key m @ [(''_parent0_index'', L_int i)]) True) D =
      mset (listed_rows (file_row E m i) xs)"
    by (simp add: holdsD [OF rows] find_simps row_facts del: mset_filter)
  fix j assume j: "j < length xs"
  with ok have x: "file_ok E (xs ! j)" "file_fits fuel (xs ! j)" by (simp_all add: list_all_length)
  have child: "holds D (file_key m i (int j)) file_child_tables (file_child_rows E m i (int j) (xs ! j))"
    using holds_part [OF rows j, where Ts' = file_child_tables, OF _ file_parts(1) keyed_file_child_rows]
    by (simp add: file_key_def message_key_def subset_iff)
  have user: "holds D (typed_key CHR ''F'' m @ [(''_parent0_index'', L_int i), (''_parent1_index'', L_int (int j))]) [''Requiem_UserId'']
      (file_user_rows E m i (int j) (xs ! j))"
    using holds_part [OF users j, where Ts' = "[''Requiem_UserId'']", OF _ file_parts(2) keyed_file_user_rows] by simp
  show "reads V D (\<lambda>_. True) (norm_file E (xs ! j)) (get_file_children fuel E m i (int j) (norm_file_row E (xs ! j)))"
    unfolding get_file_children_def norm_file_def
    by (rule reads_bindr [OF stable_True reads_file_access [OF db child user x(2)]],
        rule reads_bindr [OF stable_True reads_linkages [OF db child x(2)]],
        rule reads_bindr [OF stable_True reads_inode [OF db child x(1)]],
        rule reads_bindr [OF stable_True reads_checksums [OF db child x(2)]]) simp
  show "reads V D (at_row t h (fields_of ''ident, category, name, path, create_time, create_time_gmtoff, modify_time, modify_time_gmtoff, access_time, access_time_gmtoff, data_size, disk_size, fstype, file_type''
      (file_row E m i (int j) (xs ! j)))) (norm_file_row E (xs ! j)) (read_file E t h)" for t h
    by (rule reads_file_row [OF db x])
qed (simp_all add: schema_table_def row_facts fits)

text \<open>Where the rows of a file are: in its own tables, and its users among those of type \<open>F\<close>.\<close>

lemma file_rows_tables:
  "list_all (\<lambda>r. fst r \<in> set (''Requiem_File'' # file_child_tables) \<or> fst r = ''Requiem_UserId'' \<and> cell r ''_parent_type'' = L_text ''F'')
     (file_rows E m i j x)"
proof -
  have "cell (user_id_row E CHR ''F'' m i j k l u) ''_parent_type'' = L_text ''F''" for k l u
    by (simp add: cell_simps user_id_row_def)
  then show ?thesis
    unfolding file_rows_child file_child_rows_def file_access_rows_def
    by (auto simp: row_facts intro!: list_all_indexed list_all_optional)
qed

lemma filter_file_rows_other:
  assumes "T \<notin> set (''Requiem_File'' # file_child_tables)" "(''_parent_type'', L_text [q]) \<in> set cs" "q \<noteq> CHR ''F''"
  shows "filter (matches T cs l) (file_rows E m i j x) = []"
  using file_rows_tables [of E m i j x] assms
  by (fastforce simp: filter_empty_conv list_all_iff matches_def)

lemma filter_file_rows_other_table:
  assumes "T \<notin> set (''Requiem_UserId'' # ''Requiem_File'' # file_child_tables)"
  shows "filter (matches T cs l) (file_rows E m i j x) = []"
  using file_rows_tables [of E m i j x] assms by (fastforce simp: filter_empty_conv list_all_iff matches_def)

section \<open>Sources and targets\<close>

abbreviation node_tables :: "string list" where
  "node_tables \<equiv> [''Requiem_Node'', ''Requiem_Address'']"

abbreviation user_tables :: "string list" where
  "user_tables \<equiv> [''Requiem_User'', ''Requiem_UserId'']"

abbreviation process_tables :: "string list" where
  "process_tables \<equiv> [''Requiem_Process'', ''Requiem_ProcessArg'', ''Requiem_ProcessEnv'']"

abbreviation host_tables :: "string list" where
  "host_tables \<equiv> node_tables @ user_tables @ process_tables @ service_tables"

lemma keyed_user_rows: "list_all (keyed user_tables (typed_key p m @ [(''_parent0_index'', L_int i)])) (user_rows E p m i x)"
  unfolding user_rows_def
  by (intro keyed_optional) (simp, intro conjI keyed_indexed; simp add: keyed_def user_row_def user_id_row_def cell_simps)

lemma keyed_service_rows:
  "list_all (keyed service_tables (typed_key p m @ [(''_parent0_index'', L_int i)])) (service_rows p m i x)"
  unfolding service_rows_def service_type_rows_split web_service_rows_def
  by (intro keyed_optional)
    (simp, intro conjI keyed_optional keyed_indexed;
     (simp, intro conjI keyed_indexed)?;
     simp add: keyed_def service_row_def web_service_row_def web_service_arg_row_def snmp_service_row_def cell_simps)

lemma keyed_weaken:
  "list_all (keyed Ts key) L \<Longrightarrow> set Ts \<subseteq> set Us \<Longrightarrow> set key' \<subseteq> set key \<Longrightarrow> list_all (keyed Us key') L"
  by (erule list.pred_mono_strong) (unfold keyed_def, auto simp: list_all_iff split: prod.splits)

lemma keyed_more_tables: "list_all (keyed Ts key) L \<Longrightarrow> set Ts \<subseteq> set Us \<Longrightarrow> list_all (keyed Us key) L"
  by (rule keyed_weaken [OF _ _ order_refl])

lemma keyed_host_rows:
  "list_all (keyed host_tables (typed_key p m @ [(''_parent0_index'', L_int i)])) (host_rows E p m i n u x v)"
  unfolding host_rows_def keyed_append
  by (intro conjI; rule keyed_more_tables [OF keyed_node_rows] keyed_more_tables [OF keyed_user_rows]
      keyed_more_tables [OF keyed_process_rows] keyed_more_tables [OF keyed_service_rows]; simp)

definition host_fits :: "nat \<Rightarrow> idmef_node option \<Rightarrow> idmef_user option \<Rightarrow> idmef_process option \<Rightarrow> idmef_service option \<Rightarrow> bool" where
  "host_fits k n u x v \<longleftrightarrow>
     (case n of None \<Rightarrow> True | Some y \<Rightarrow> node_ok y \<and> length (node_addresses y) < k) \<and>
     (case u of None \<Rightarrow> True | Some y \<Rightarrow> length (user_user_ids y) < k) \<and>
     (case x of None \<Rightarrow> True | Some y \<Rightarrow> process_fits k y) \<and>
     (case v of None \<Rightarrow> True | Some y \<Rightarrow> service_fits k y)"

lemma reads_host:
  assumes db: "sql_database E V" and p: "parent_char p" and i: "- 128 \<le> i" "i < 128"
    and rows: "holds D (typed_key p m @ [(''_parent0_index'', L_int i)]) host_tables (host_rows E p m i n u x v)"
    and fits: "host_fits fuel n u x v"
  shows "reads V D (\<lambda>_. True) (map_option (norm_node E) n) (get_node fuel E m p i)"
    "reads V D (\<lambda>_. True) (map_option (norm_user E) u) (get_user fuel E m p i)"
    "reads V D (\<lambda>_. True) (map_option norm_process x) (get_process fuel E m p i)"
    "reads V D (\<lambda>_. True) (map_option norm_service v) (get_service fuel E m p i)"
proof -
  let ?key = "typed_key p m @ [(''_parent0_index'', L_int i)]"
  note others = keyed_other_table [OF keyed_node_rows] keyed_other_table [OF keyed_user_rows]
    keyed_other_table [OF keyed_process_rows] keyed_other_table [OF keyed_service_rows]
  have parts: "holds D ?key node_tables (node_rows E p m i n)" "holds D ?key user_tables (user_rows E p m i u)"
    "holds D ?key process_tables (process_rows p m i x)" "holds D ?key service_tables (service_rows p m i v)"
    by (rule holds_narrow [OF rows]; force simp: host_rows_def others)+
  show "reads V D (\<lambda>_. True) (map_option (norm_node E) n) (get_node fuel E m p i)"
    by (rule reads_node [OF db p parts(1)]) (use fits in \<open>auto simp: host_fits_def\<close>)
  show "reads V D (\<lambda>_. True) (map_option (norm_user E) u) (get_user fuel E m p i)"
    by (rule reads_user [OF db p parts(2)]) (use fits in \<open>auto simp: host_fits_def\<close>)
  show "reads V D (\<lambda>_. True) (map_option norm_process x) (get_process fuel E m p i)"
    by (rule reads_process [OF db p i parts(3)]) (use fits in \<open>auto simp: host_fits_def\<close>)
  show "reads V D (\<lambda>_. True) (map_option norm_service v) (get_service fuel E m p i)"
    by (rule reads_service [OF db p parts(4)]) (use fits in \<open>auto simp: host_fits_def\<close>)
qed

definition norm_source_row :: "'w env \<Rightarrow> idmef_source \<Rightarrow> idmef_source" where
  "norm_source_row E x =
     \<lparr>source_ident = norm_str (source_ident x), source_spoofed = norm_enum E ENUM_SOURCE_SPOOFED (source_spoofed x),
      source_interface = norm_str (source_interface x), source_node = None, source_user = None, source_process = None,
      source_service = None\<rparr>"

definition norm_source :: "'w env \<Rightarrow> idmef_source \<Rightarrow> idmef_source" where
  "norm_source E x = (norm_source_row E x)
     \<lparr>source_node := map_option (norm_node E) (source_node x), source_user := map_option (norm_user E) (source_user x),
      source_process := map_option norm_process (source_process x), source_service := map_option norm_service (source_service x)\<rparr>"

definition source_fits :: "nat \<Rightarrow> idmef_source \<Rightarrow> bool" where
  "source_fits k x \<longleftrightarrow> host_fits k (source_node x) (source_user x) (source_process x) (source_service x)"

definition norm_target_row :: "'w env \<Rightarrow> idmef_target \<Rightarrow> idmef_target" where
  "norm_target_row E x =
     \<lparr>target_ident = norm_str (target_ident x), target_decoy = norm_enum E ENUM_TARGET_DECOY (target_decoy x),
      target_interface = norm_str (target_interface x), target_node = None, target_user = None, target_process = None,
      target_service = None, target_files = []\<rparr>"

definition norm_target :: "'w env \<Rightarrow> idmef_target \<Rightarrow> idmef_target" where
  "norm_target E x = (norm_target_row E x)
     \<lparr>target_node := map_option (norm_node E) (target_node x), target_user := map_option (norm_user E) (target_user x),
      target_process := map_option norm_process (target_process x), target_service := map_option norm_service (target_service x),
      target_files := map (norm_file E) (target_files x)\<rparr>"

definition target_fits :: "nat \<Rightarrow> idmef_target \<Rightarrow> bool" where
  "target_fits k x \<longleftrightarrow> host_fits k (target_node x) (target_user x) (target_process x) (target_service x) \<and>
     list_all (file_fits k) (target_files x) \<and> length (target_files x) < k"

lemma source_row_facts [row_facts]:
  "fst (source_row E m i x) = ''Requiem_Source''" "index_of (source_row E m i x) = i"
  "matches ''Requiem_Source'' (message_key m) True (source_row E m i x) \<longleftrightarrow> i \<noteq> - 1"
  "fields_of ''ident, spoofed, interface'' (source_row E m i x) =
     map lit_field [str_lit (source_ident x), enum_lit E ENUM_SOURCE_SPOOFED (source_spoofed x), str_lit (source_interface x)]"
  "fst (target_row E m i y) = ''Requiem_Target''" "index_of (target_row E m i y) = i"
  "matches ''Requiem_Target'' (message_key m) True (target_row E m i y) \<longleftrightarrow> i \<noteq> - 1"
  "fields_of ''ident, decoy, interface'' (target_row E m i y) =
     map lit_field [str_lit (target_ident y), enum_lit E ENUM_TARGET_DECOY (target_decoy y), str_lit (target_interface y)]"
  by (auto simp: alert_match_simps source_row_def target_row_def)

lemma reads_sources:
  assumes db: "sql_database E V"
    and own: "holds D (message_key m) [''Requiem_Source''] (indexed_rows (source_rows E m) xs)"
    and rows: "holds D (typed_key CHR ''S'' m) host_tables (indexed_rows (source_rows E m) xs)"
    and fits: "list_all (source_fits fuel) xs" "length xs < fuel" "length xs \<le> 128"
  shows "reads V D (\<lambda>_. True) (map (norm_source E) xs) (get_source fuel E m)"
  unfolding get_source_def
proof (rule reads_objects_with_children [OF db, where row = "source_row E m" and T = "''Requiem_Source''" and
      cs = "message_key m" and base = "norm_source_row E"])
  show "''SELECT ident, spoofed, interface FROM Requiem_Source WHERE '' @ of_message m @ listed_order =
      select_query ''ident, spoofed, interface'' ''Requiem_Source'' (message_key m) True"
    by (simp add: alert_query_simps)
  have "filter (matches ''Requiem_Source'' cs l) (source_rows E m i x) = filter (matches ''Requiem_Source'' cs l) [source_row E m i x]" for cs l i x
    by (simp add: source_rows_def keyed_other_table [OF keyed_host_rows])
  then show "filter_mset (matches ''Requiem_Source'' (message_key m) True) D = mset (listed_rows (source_row E m) xs)"
    by (simp add: holdsD [OF own] find_simps row_facts del: mset_filter)
  show "reads V D (at_row t h (fields_of ''ident, spoofed, interface'' (source_row E m (int k) (xs ! k))))
      (norm_source_row E (xs ! k)) (read_source E t h)" for k t h
    unfolding row_facts read_source_def norm_source_row_def
    by ((rule reads_bindr [OF stable_at_row], rule field_reads, rule db, simp, simp)+) simp
  fix k assume k: "k < length xs"
  let ?x = "xs ! k"
  have "holds D (typed_key CHR ''S'' m @ [(''_parent0_index'', L_int (int k))]) host_tables
      (host_rows E CHR ''S'' m (int k) (source_node ?x) (source_user ?x) (source_process ?x) (source_service ?x))"
    by (rule holds_part [OF rows k _ _ keyed_host_rows]) (auto simp: source_rows_def row_facts)
  note host = reads_host [OF db _ _ _ this]
  have "host_fits fuel (source_node ?x) (source_user ?x) (source_process ?x) (source_service ?x)"
    using fits(1) k by (simp add: source_fits_def list_all_length)
  then have "reads V D (\<lambda>_. True) (map_option (norm_node E) (source_node ?x)) (get_node fuel E m CHR ''S'' (int k))"
    "reads V D (\<lambda>_. True) (map_option (norm_user E) (source_user ?x)) (get_user fuel E m CHR ''S'' (int k))"
    "reads V D (\<lambda>_. True) (map_option norm_process (source_process ?x)) (get_process fuel E m CHR ''S'' (int k))"
    "reads V D (\<lambda>_. True) (map_option norm_service (source_service ?x)) (get_service fuel E m CHR ''S'' (int k))"
    by (rule host [rotated 3]; use k fits(3) in \<open>simp add: parent_char_def\<close>)+
  then show "reads V D (\<lambda>_. True) (norm_source E ?x) (get_source_children fuel E m (int k) (norm_source_row E ?x))"
    unfolding get_source_children_def norm_source_def
    by (elim reads_bindr [OF stable_True]) simp
qed (simp_all add: schema_table_def row_facts fits)

abbreviation file_tables :: "string list" where
  "file_tables \<equiv> ''Requiem_File'' # file_child_tables"

lemma keyed_file_rows:
  "list_all (keyed (file_tables @ [''Requiem_UserId'']) (message_key m @ [(''_parent0_index'', L_int i)])) (indexed_rows (file_rows E m i) xs)"
proof (rule keyed_indexed)
  fix j x
  have "list_all (keyed (file_tables @ [''Requiem_UserId'']) (message_key m @ [(''_parent0_index'', L_int i)])) (file_child_rows E m i j x)"
    by (rule keyed_weaken [OF keyed_file_child_rows]) auto
  then show "list_all (keyed (file_tables @ [''Requiem_UserId'']) (message_key m @ [(''_parent0_index'', L_int i)])) (file_rows E m i j x)"
    by (simp add: file_rows_child) (simp add: keyed_def alert_match_simps file_row_def)
qed

lemma keyed_file_users:
  "list_all (keyed [''Requiem_UserId''] (typed_key CHR ''F'' m @ [(''_parent0_index'', L_int i)])) (indexed_rows (file_user_rows E m i) xs)"
  by (rule keyed_indexed, rule keyed_weaken [OF keyed_file_user_rows]) auto

lemma filter_file_users:
  "filter (matches ''Requiem_UserId'' cs l) (indexed_rows (file_rows E m i) xs) =
   filter (matches ''Requiem_UserId'' cs l) (indexed_rows (file_user_rows E m i) xs)"
  by (rule filter_indexed_cong) (simp add: file_parts(2))

lemma target_parts:
  "T \<in> set host_tables \<Longrightarrow> set (typed_key CHR ''T'' m) \<subseteq> set cs \<Longrightarrow> filter (matches T cs l) (target_rows E m i x) =
     filter (matches T cs l) (host_rows E CHR ''T'' m i (target_node x) (target_user x) (target_process x) (target_service x))"
  "T \<in> set file_tables \<Longrightarrow> filter (matches T cs l) (target_rows E m i x) =
     filter (matches T cs l) (indexed_rows (file_rows E m i) (target_files x))"
  "T \<in> set [''Requiem_UserId''] \<Longrightarrow> set (typed_key CHR ''F'' m) \<subseteq> set cs \<Longrightarrow> filter (matches T cs l) (target_rows E m i x) =
     filter (matches T cs l) (indexed_rows (file_user_rows E m i) (target_files x))"
proof -
  assume T: "T \<in> set host_tables" and cs: "set (typed_key CHR ''T'' m) \<subseteq> set cs"
  have "filter (matches T cs l) (file_rows E m i j y) = []" for j y
    by (rule filter_file_rows_other [where q = "CHR ''T''"]) (use T cs in \<open>auto simp: typed_key_def\<close>)
  with T show "filter (matches T cs l) (target_rows E m i x) =
      filter (matches T cs l) (host_rows E CHR ''T'' m i (target_node x) (target_user x) (target_process x) (target_service x))"
    by (auto simp: target_rows_def filter_indexed_none row_facts)
next
  show "T \<in> set file_tables \<Longrightarrow> filter (matches T cs l) (target_rows E m i x) =
      filter (matches T cs l) (indexed_rows (file_rows E m i) (target_files x))"
    by (auto simp: target_rows_def row_facts keyed_other_table [OF keyed_host_rows])
next
  assume T: "T \<in> set [''Requiem_UserId'']" and cs: "set (typed_key CHR ''F'' m) \<subseteq> set cs"
  have "filter (matches T cs l) (host_rows E CHR ''T'' m i n u z v) = []" for n u z v
    by (rule keyed_other_value [OF keyed_host_rows, where c = "''_parent_type''" and v = "L_text ''T''" and v' = "L_text ''F''"])
      (use cs in \<open>auto simp: typed_key_def\<close>)
  with T show "filter (matches T cs l) (target_rows E m i x) =
      filter (matches T cs l) (indexed_rows (file_user_rows E m i) (target_files x))"
    by (simp add: target_rows_def row_facts filter_file_users)
qed

lemma reads_targets:
  assumes db: "sql_database E V"
    and own: "holds D (message_key m) (''Requiem_Target'' # file_tables) (indexed_rows (target_rows E m) xs)"
    and rows: "holds D (typed_key CHR ''T'' m) host_tables (indexed_rows (target_rows E m) xs)"
    and users: "holds D (typed_key CHR ''F'' m) [''Requiem_UserId''] (indexed_rows (target_rows E m) xs)"
    and ok: "list_all (target_ok E) xs" and fits: "list_all (target_fits fuel) xs" "length xs < fuel" "length xs \<le> 128"
  shows "reads V D (\<lambda>_. True) (map (norm_target E) xs) (get_target fuel E m)"
  unfolding get_target_def
proof (rule reads_objects_with_children [OF db, where row = "target_row E m" and T = "''Requiem_Target''" and
      cs = "message_key m" and base = "norm_target_row E"])
  show "''SELECT ident, decoy, interface FROM Requiem_Target WHERE '' @ of_message m @ listed_order =
      select_query ''ident, decoy, interface'' ''Requiem_Target'' (message_key m) True"
    by (simp add: alert_query_simps)
  have "filter (matches ''Requiem_Target'' cs l) (target_rows E m i x) = filter (matches ''Requiem_Target'' cs l) [target_row E m i x]" for cs l i x
    by (simp add: target_rows_def keyed_other_table [OF keyed_host_rows] keyed_other_table [OF keyed_file_rows])
  then show "filter_mset (matches ''Requiem_Target'' (message_key m) True) D = mset (listed_rows (target_row E m) xs)"
    by (simp add: holdsD [OF own] find_simps row_facts del: mset_filter)
  show "reads V D (at_row t h (fields_of ''ident, decoy, interface'' (target_row E m (int k) (xs ! k))))
      (norm_target_row E (xs ! k)) (read_target E t h)" for k t h
    unfolding row_facts read_target_def norm_target_row_def
    by ((rule reads_bindr [OF stable_at_row], rule field_reads, rule db, simp, simp)+) simp
  fix k assume k: "k < length xs"
  let ?x = "xs ! k"
  have x: "list_all (\<lambda>y. file_ok E y \<and> file_fits fuel y) (target_files ?x)" "length (target_files ?x) < fuel"
    "host_fits fuel (target_node ?x) (target_user ?x) (target_process ?x) (target_service ?x)"
    using ok fits(1) k by (simp_all add: target_fits_def target_ok_def list_all_length)
  have "holds D (typed_key CHR ''T'' m @ [(''_parent0_index'', L_int (int k))]) host_tables
      (host_rows E CHR ''T'' m (int k) (target_node ?x) (target_user ?x) (target_process ?x) (target_service ?x))"
    by (rule holds_child [OF rows k _ target_parts(1) keyed_host_rows]) simp_all
  note host = reads_host [OF db _ _ _ this x(3)]
  have hosts: "reads V D (\<lambda>_. True) (map_option (norm_node E) (target_node ?x)) (get_node fuel E m CHR ''T'' (int k))"
    "reads V D (\<lambda>_. True) (map_option (norm_user E) (target_user ?x)) (get_user fuel E m CHR ''T'' (int k))"
    "reads V D (\<lambda>_. True) (map_option norm_process (target_process ?x)) (get_process fuel E m CHR ''T'' (int k))"
    "reads V D (\<lambda>_. True) (map_option norm_service (target_service ?x)) (get_service fuel E m CHR ''T'' (int k))"
    by (rule host; use k fits(3) in \<open>simp add: parent_char_def\<close>)+
  have f: "holds D (message_key m @ [(''_parent0_index'', L_int (int k))]) file_tables (indexed_rows (file_rows E m (int k)) (target_files ?x))"
    by (rule holds_part [OF own k _ target_parts(2) keyed_file_rows]) auto
  have "holds D (typed_key CHR ''F'' m @ [(''_parent0_index'', L_int (int k))]) [''Requiem_UserId'']
      (indexed_rows (file_user_rows E m (int k)) (target_files ?x))"
    by (rule holds_child [OF users k _ target_parts(3) keyed_file_users]) auto
  then have u: "holds D (typed_key CHR ''F'' m @ [(''_parent0_index'', L_int (int k))]) [''Requiem_UserId'']
      (indexed_rows (file_rows E m (int k)) (target_files ?x))"
    by (rule holds_narrow) (simp_all add: filter_file_users)
  from hosts reads_files [OF db f u x(1,2)]
  show "reads V D (\<lambda>_. True) (norm_target E ?x) (get_target_children fuel E m (int k) (norm_target_row E ?x))"
    unfolding get_target_children_def norm_target_def
    by (elim reads_bindr [OF stable_True]) simp
qed (simp_all add: schema_table_def row_facts fits)

end
