(* ===== verification/AlertKinds.thy ===== *)
theory AlertKinds
  imports AlertReads
begin

text \<open>
  Reading back the classification of an alert, its assessment, and what the kind of the alert
  adds: a tool, a correlation or an overflow.
\<close>

section \<open>Classification\<close>

definition norm_reference :: "'w env \<Rightarrow> idmef_reference \<Rightarrow> idmef_reference" where
  "norm_reference E x =
     \<lparr>reference_origin = norm_enum E ENUM_REFERENCE_ORIGIN (reference_origin x), reference_name = norm_str (reference_name x),
      reference_url = norm_str (reference_url x), reference_meaning = norm_str (reference_meaning x)\<rparr>"

definition norm_classification :: "'w env \<Rightarrow> idmef_classification \<Rightarrow> idmef_classification" where
  "norm_classification E x =
     \<lparr>classification_ident = norm_str (classification_ident x), classification_text = norm_str (classification_text x),
      classification_references = map (norm_reference E) (classification_references x)\<rparr>"

lemma classification_row_facts [row_facts]:
  "fst (classification_row m x) = ''Requiem_Classification''" "fst (reference_row E m i y) = ''Requiem_Reference''"
  "index_of (reference_row E m i y) = i"
  "matches ''Requiem_Classification'' (message_key m) False (classification_row m x)"
  "matches ''Requiem_Reference'' (message_key m) True (reference_row E m i y) \<longleftrightarrow> i \<noteq> - 1"
  "fields_of ''ident, text'' (classification_row m x) = map lit_field [str_lit (classification_ident x), str_lit (classification_text x)]"
  "fields_of ''origin, name, url, meaning'' (reference_row E m i y) =
     map lit_field [enum_lit E ENUM_REFERENCE_ORIGIN (reference_origin y), str_lit (reference_name y),
       str_lit (reference_url y), str_lit (reference_meaning y)]"
  by (auto simp: alert_match_simps classification_row_def reference_row_def)

lemma reads_classification:
  assumes db: "sql_database E V"
    and rows: "holds D (message_key m) [''Requiem_Classification'', ''Requiem_Reference''] (classification_rows E m x)"
    and fits: "\<And>y. x = Some y \<Longrightarrow> length (classification_references y) < fuel"
  shows "reads V D (\<lambda>_. True) (map_option (norm_classification E) x) (get_classification fuel E m)"
  unfolding get_classification_def
proof (rule reads_one_object [OF db, where row = "classification_row m" and T = "''Requiem_Classification''" and cs = "message_key m"])
  note find = classification_rows_def find_simps row_facts
  show "''SELECT ident, text FROM Requiem_Classification WHERE '' @ of_message m =
      select_query ''ident, text'' ''Requiem_Classification'' (message_key m) False"
    by (simp add: alert_query_simps)
  show "filter_mset (matches ''Requiem_Classification'' (message_key m) False) D =
      mset (case x of None \<Rightarrow> [] | Some z \<Rightarrow> [classification_row m z])"
    by (simp add: holdsD [OF rows] find del: mset_filter split: option.split)
  fix y t h assume x: "x = Some y"
  have references: "reads V D (\<lambda>_. True) (map (norm_reference E) (classification_references y)) (get_reference fuel E m)"
    unfolding get_reference_def
  proof (rule reads_listed_objects [OF db, where row = "reference_row E m" and T = "''Requiem_Reference''" and cs = "message_key m"])
    show "''SELECT origin, name, url, meaning FROM Requiem_Reference WHERE '' @ of_message m @ listed_order =
        select_query ''origin, name, url, meaning'' ''Requiem_Reference'' (message_key m) True"
      by (simp add: alert_query_simps)
    show "filter_mset (matches ''Requiem_Reference'' (message_key m) True) D =
        mset (listed_rows (reference_row E m) (classification_references y))"
      by (simp add: holdsD [OF rows] x find del: mset_filter)
    show "reads V D (at_row t h (fields_of ''origin, name, url, meaning'' (reference_row E m (int k) (classification_references y ! k))))
        (norm_reference E (classification_references y ! k)) (read_reference E t h)" for k t h
      unfolding row_facts read_reference_def norm_reference_def
      by ((rule reads_bindr [OF stable_at_row], rule field_reads, rule db, simp, simp)+) simp
  qed (use fits [OF x] in \<open>simp_all add: schema_table_def row_facts\<close>)
  show "reads V D (at_row t h (fields_of ''ident, text'' (classification_row m y))) (norm_classification E y)
     (bindr (get_string_field E t h 0) (\<lambda>ident. bindr (get_string_field E t h 1) (\<lambda>txt_field.
      bindr (get_reference fuel E m) (\<lambda>references.
      retn \<lparr>classification_ident = ident, classification_text = txt_field, classification_references = references\<rparr>))))"
    unfolding row_facts norm_classification_def
    by ((rule reads_bindr [OF stable_at_row], rule field_reads, rule db, simp, simp)+)
      (rule reads_bindr [OF stable_at_row reads_weaken [OF references]], simp)
qed (simp_all add: schema_table_def)

section \<open>Assessment\<close>

definition norm_impact :: "'w env \<Rightarrow> idmef_impact \<Rightarrow> idmef_impact" where
  "norm_impact E x =
     \<lparr>impact_severity = norm_opt_enum E ENUM_IMPACT_SEVERITY (impact_severity x),
      impact_completion = norm_opt_enum E ENUM_IMPACT_COMPLETION (impact_completion x),
      impact_type = norm_enum E ENUM_IMPACT_TYPE (impact_type x), impact_description = norm_str (impact_description x)\<rparr>"

definition norm_action :: "'w env \<Rightarrow> idmef_action \<Rightarrow> idmef_action" where
  "norm_action E x =
     \<lparr>action_category = norm_enum E ENUM_ACTION_CATEGORY (action_category x), action_description = norm_str (action_description x)\<rparr>"

text \<open>The number that reading the stored text of a number gives.\<close>

definition float_read :: "'w env \<Rightarrow> 'w database \<Rightarrow> 32 word \<Rightarrow> 32 word option" where
  "float_read E V x = (case field_to_float E (stored_float V x) of Inl _ \<Rightarrow> None | Inr y \<Rightarrow> y)"

definition norm_confidence :: "'w env \<Rightarrow> 'w database \<Rightarrow> idmef_confidence \<Rightarrow> idmef_confidence" where
  "norm_confidence E V x =
     \<lparr>confidence_rating = norm_enum E ENUM_CONFIDENCE_RATING (confidence_rating x),
      confidence_value = the (float_read E V (confidence_value x))\<rparr>"

definition norm_assessment :: "'w env \<Rightarrow> 'w database \<Rightarrow> idmef_assessment \<Rightarrow> idmef_assessment" where
  "norm_assessment E V x =
     \<lparr>assessment_impact = map_option (norm_impact E) (assessment_impact x),
      assessment_confidence = map_option (norm_confidence E V) (assessment_confidence x),
      assessment_actions = map (norm_action E) (assessment_actions x)\<rparr>"

definition assessment_fits :: "'w env \<Rightarrow> 'w database \<Rightarrow> nat \<Rightarrow> idmef_assessment \<Rightarrow> bool" where
  "assessment_fits E V k x \<longleftrightarrow> length (assessment_actions x) < k \<and>
     (case assessment_confidence x of None \<Rightarrow> True | Some y \<Rightarrow> float_read E V (confidence_value y) \<noteq> None)"

lemma assessment_row_facts [row_facts]:
  "fst (assessment_row m) = ''Requiem_Assessment''" "fst (impact_row E m x) = ''Requiem_Impact''"
  "fst (confidence_row E V m y) = ''Requiem_Confidence''" "fst (action_row E m i z) = ''Requiem_Action''"
  "index_of (action_row E m i z) = i"
  "matches ''Requiem_Assessment'' (message_key m) False (assessment_row m)"
  "matches ''Requiem_Impact'' (message_key m) False (impact_row E m x)"
  "matches ''Requiem_Confidence'' (message_key m) False (confidence_row E V m y)"
  "matches ''Requiem_Action'' (message_key m) True (action_row E m i z) \<longleftrightarrow> i \<noteq> - 1"
  by (auto simp: alert_match_simps assessment_row_def impact_row_def confidence_row_def action_row_def)

lemma assessment_fields [row_facts]:
  "fields_of ''severity, completion, type, description'' (impact_row E m x) =
     map lit_field [opt_enum_lit E ENUM_IMPACT_SEVERITY (impact_severity x), opt_enum_lit E ENUM_IMPACT_COMPLETION (impact_completion x),
       enum_lit E ENUM_IMPACT_TYPE (impact_type x), str_lit (impact_description x)]"
  "fields_of ''rating, confidence'' (confidence_row E V m y) =
     map lit_field [enum_lit E ENUM_CONFIDENCE_RATING (confidence_rating y), L_text (stored_float V (confidence_value y))]"
  "fields_of ''category, description'' (action_row E m i z) =
     map lit_field [enum_lit E ENUM_ACTION_CATEGORY (action_category z), str_lit (action_description z)]"
  by (simp_all add: alert_match_simps impact_row_def confidence_row_def action_row_def)

lemma reads_impact:
  assumes db: "sql_database E V"
    and found: "filter_mset (matches ''Requiem_Impact'' (message_key m) False) D = mset (case x of None \<Rightarrow> [] | Some z \<Rightarrow> [impact_row E m z])"
  shows "reads V D (\<lambda>_. True) (map_option (norm_impact E) x) (get_impact E m)"
  unfolding get_impact_def
proof (rule reads_one_object [OF db _ _ _ found])
  show "''SELECT severity, completion, type, description FROM Requiem_Impact WHERE '' @ of_message m =
      select_query ''severity, completion, type, description'' ''Requiem_Impact'' (message_key m) False"
    by (simp add: alert_query_simps)
  show "reads V D (at_row t h (fields_of ''severity, completion, type, description'' (impact_row E m z))) (norm_impact E z)
     (bindr (get_enum E ENUM_IMPACT_SEVERITY t h 0) (\<lambda>severity. bindr (get_enum E ENUM_IMPACT_COMPLETION t h 1) (\<lambda>completion.
      bindr (get_required_enum E ENUM_IMPACT_TYPE t h 2) (\<lambda>type. bindr (get_string_field E t h 3) (\<lambda>description.
      retn \<lparr>impact_severity = severity, impact_completion = completion, impact_type = type,
            impact_description = description\<rparr>)))))" for z t h
    unfolding row_facts norm_impact_def
    by ((rule reads_bindr [OF stable_at_row], rule field_reads reads_opt_enum_lit, rule db, simp, simp)+) simp
qed (simp_all add: schema_table_def)

lemma reads_confidence:
  assumes db: "sql_database E V"
    and found: "filter_mset (matches ''Requiem_Confidence'' (message_key m) False) D =
      mset (case x of None \<Rightarrow> [] | Some z \<Rightarrow> [confidence_row E V m z])"
    and fits: "\<And>z. x = Some z \<Longrightarrow> float_read E V (confidence_value z) \<noteq> None"
  shows "reads V D (\<lambda>_. True) (map_option (norm_confidence E V) x) (get_confidence E m)"
  unfolding get_confidence_def
proof (rule reads_one_object [OF db _ _ _ found])
  show "''SELECT rating, confidence FROM Requiem_Confidence WHERE '' @ of_message m =
      select_query ''rating, confidence'' ''Requiem_Confidence'' (message_key m) False"
    by (simp add: alert_query_simps)
  fix z t h assume "x = Some z"
  with fits obtain y where y: "field_to_float E (stored_float V (confidence_value z)) = Inr (Some y)"
    by (fastforce simp: float_read_def split: sum.splits)
  then have norm: "norm_confidence E V z = \<lparr>confidence_rating = norm_enum E ENUM_CONFIDENCE_RATING (confidence_rating z),
      confidence_value = y\<rparr>" by (simp add: norm_confidence_def float_read_def)
  show "reads V D (at_row t h (fields_of ''rating, confidence'' (confidence_row E V m z))) (norm_confidence E V z)
     (bindr (get_required_enum E ENUM_CONFIDENCE_RATING t h 0) (\<lambda>rating. bindr (get_float E t h 1) (\<lambda>v.
      retn \<lparr>confidence_rating = rating, confidence_value = (case v of None \<Rightarrow> 0 | Some x \<Rightarrow> x)\<rparr>)))"
    unfolding row_facts norm
    by (rule reads_bindr [OF stable_at_row], rule reads_enum_lit, rule db, simp, simp,
        rule reads_bindr [OF stable_at_row], rule reads_float_lit [OF db _ _ y]) simp_all
qed (simp_all add: schema_table_def)

lemma reads_actions:
  assumes db: "sql_database E V"
    and found: "filter_mset (matches ''Requiem_Action'' (message_key m) True) D = mset (listed_rows (action_row E m) xs)"
    and fits: "length xs < fuel"
  shows "reads V D (\<lambda>_. True) (map (norm_action E) xs) (get_action fuel E m)"
  unfolding get_action_def
proof (rule reads_listed_objects [OF db _ _ _ found])
  show "''SELECT category, description FROM Requiem_Action WHERE '' @ of_message m @ listed_order =
      select_query ''category, description'' ''Requiem_Action'' (message_key m) True"
    by (simp add: alert_query_simps)
  show "reads V D (at_row t h (fields_of ''category, description'' (action_row E m (int k) (xs ! k)))) (norm_action E (xs ! k)) (read_action E t h)"
    for k t h
    unfolding row_facts read_action_def norm_action_def
    by ((rule reads_bindr [OF stable_at_row], rule field_reads, rule db, simp, simp)+) simp
qed (simp_all add: schema_table_def row_facts fits)

text \<open>The table of the assessment is destroyed before the rest is read.\<close>

lemma reads_query_unread:
  assumes db: "sql_database E V"
    and ans: "\<And>w. db_rows (contents V w) = D \<Longrightarrow> answers E V w rs (pl_query (env_plugin E) q w)"
    and empty: "rs = [] \<Longrightarrow> reads V D (\<lambda>_. True) x none" and rest: "rs \<noteq> [] \<Longrightarrow> reads V D (\<lambda>_. True) x g"
  shows "reads V D K x (bindr (requiemdb_sql_query E q True) (\<lambda>(n, res).
       if n = 0 then none else case res of None \<Rightarrow> failw UndefinedValue | Some t \<Rightarrow> thenr (destroy_table E t) g))"
    (is "reads V D K x ?run")
proof (rule readsI)
  fix s assume s: "connected s" "db_rows (database_of V s) = D"
  obtain r w' where q: "pl_query (env_plugin E) q (sql_world s) = (r, w')" by fastforce
  with ans [of "sql_world s"] s have a: "answers E V (sql_world s) rs (r, w')" by simp
  show "\<exists>s'. ?run s = (Inr x, s') \<and> connected s' \<and> db_rows (database_of V s') = D \<and>
      frame (database_of V s) (database_of V s')"
  proof (cases "rs = []")
    case True
    with a have r: "r = Inr None" and c: "contents V w' = database_of V s" by (simp_all add: answers_def)
    obtain s1 where s1: "same_session s s1" "sql_world s1 = w'" "requiemdb_sql_query E q True s = (Inr (0, None), s1)"
      using query_run [OF s(1) q [unfolded r], of True] by auto
    have "connected s1" "db_rows (database_of V s1) = D" using s1(1,2) c s by (simp_all add: same_session_connected)
    with empty [OF True] obtain s2 where "none s1 = (Inr x, s2)" "connected s2" "db_rows (database_of V s2) = D"
      "frame (database_of V s1) (database_of V s2)" by (rule readsE) simp
    with s1 c show ?thesis by auto
  next
    case False
    with a obtain h where r: "r = Inr (Some h)" and new: "db_pending (database_of V s) h = None"
      and n: "pl_get_row_count (env_plugin E) w' h = length rs"
      and c: "contents V w' = (database_of V s)\<lparr>db_pending := (db_pending (database_of V s))(h := Some rs)\<rparr>"
      by (auto simp: answers_def)
    obtain s1 where s1: "same_session s s1" "sql_world s1 = w'" "requiemdb_sql_query E q True s = (Inr (length rs, Some h), s1)"
      using query_run [OF s(1) q [unfolded r], of True] n by auto
    let ?s2 = "requiemdb_sql_table_destroy E h s1"
    have f: "frame (database_of V s) (database_of V ?s2)"
      by (rule destroyed [OF db, where c = "database_of V s1"]) (use s1(2) c new in auto)
    have "connected ?s2" "db_rows (database_of V ?s2) = D"
      using s1(1,2) c s destroy_keeps_rows [OF db] by (simp_all add: same_session_connected)
    with rest [OF False] obtain s3 where "g ?s2 = (Inr x, s3)" "connected s3" "db_rows (database_of V s3) = D"
      "frame (database_of V ?s2) (database_of V s3)" by (rule readsE) simp
    with s1(3) f False show ?thesis by (auto simp: destroy_table_def intro: frame_trans)
  qed
qed

abbreviation assessment_tables :: "string list" where
  "assessment_tables \<equiv> [''Requiem_Assessment'', ''Requiem_Impact'', ''Requiem_Confidence'', ''Requiem_Action'']"

lemma reads_assessment:
  assumes db: "sql_database E V"
    and rows: "holds D (message_key m) assessment_tables (assessment_rows E V m x)"
    and fits: "\<And>y. x = Some y \<Longrightarrow> assessment_fits E V fuel y"
  shows "reads V D (\<lambda>_. True) (map_option (norm_assessment E V) x) (get_assessment fuel E m)"
  unfolding get_assessment_def
proof (rule reads_query_unread [OF db])
  note find = assessment_rows_def find_simps row_facts
  let ?rows = "case x of None \<Rightarrow> [] | Some _ \<Rightarrow> [assessment_row m]"
  have q: "''SELECT _message_ident FROM Requiem_Assessment WHERE '' @ of_message m =
      select_query ''_message_ident'' ''Requiem_Assessment'' (message_key m) False"
    by (simp add: alert_query_simps)
  have "filter_mset (matches ''Requiem_Assessment'' (message_key m) False) D = mset ?rows"
    by (simp add: holdsD [OF rows] find del: mset_filter split: option.split)
  then show "answers E V w (map (fields_of ''_message_ident'') ?rows)
      (pl_query (env_plugin E) (''SELECT _message_ident FROM Requiem_Assessment WHERE '' @ of_message m) w)"
    if "db_rows (contents V w) = D" for w
    unfolding q using that
    by (intro select_answers [OF db]) (simp_all add: schema_table_def in_order_def split: option.split)
  show "map (fields_of ''_message_ident'') ?rows = [] \<Longrightarrow> reads V D (\<lambda>_. True) (map_option (norm_assessment E V) x) (retn None)"
    by (simp split: option.splits)
  assume "map (fields_of ''_message_ident'') ?rows \<noteq> []"
  then obtain y where x: "x = Some y" by (auto split: option.splits)
  have impact: "reads V D (\<lambda>_. True) (map_option (norm_impact E) (assessment_impact y)) (get_impact E m)"
    by (rule reads_impact [OF db]) (simp add: holdsD [OF rows] x find del: mset_filter split: option.split)
  have confidence: "reads V D (\<lambda>_. True) (map_option (norm_confidence E V) (assessment_confidence y)) (get_confidence E m)"
    by (rule reads_confidence [OF db])
      (use fits [OF x] in \<open>simp_all add: holdsD [OF rows] x find assessment_fits_def del: mset_filter split: option.split\<close>)
  have actions: "reads V D (\<lambda>_. True) (map (norm_action E) (assessment_actions y)) (get_action fuel E m)"
    by (rule reads_actions [OF db])
      (use fits [OF x] in \<open>simp_all add: holdsD [OF rows] x find assessment_fits_def del: mset_filter split: option.split\<close>)
  show "reads V D (\<lambda>_. True) (map_option (norm_assessment E V) x)
     (bindr (get_impact E m) (\<lambda>impact. bindr (get_confidence E m) (\<lambda>confidence. bindr (get_action fuel E m) (\<lambda>actions.
      retn (Some \<lparr>assessment_impact = impact, assessment_confidence = confidence, assessment_actions = actions\<rparr>)))))"
    by (rule reads_bindr [OF stable_True impact], rule reads_bindr [OF stable_True confidence],
        rule reads_bindr [OF stable_True actions]) (simp add: x norm_assessment_def)
qed

section \<open>Kinds of alerts\<close>

definition norm_alertident :: "idmef_alertident \<Rightarrow> idmef_alertident" where
  "norm_alertident x =
     \<lparr>alertident_alertident = norm_str (alertident_alertident x), alertident_analyzerid = norm_str (alertident_analyzerid x)\<rparr>"

definition norm_tool :: "idmef_tool_alert \<Rightarrow> idmef_tool_alert" where
  "norm_tool x =
     \<lparr>tool_name = norm_str (tool_name x), tool_command = norm_str (tool_command x),
      tool_alertidents = map norm_alertident (tool_alertidents x)\<rparr>"

definition norm_correlation :: "idmef_correlation_alert \<Rightarrow> idmef_correlation_alert" where
  "norm_correlation x =
     \<lparr>correlation_name = norm_str (correlation_name x), correlation_alertidents = map norm_alertident (correlation_alertidents x)\<rparr>"

text \<open>The buffer of an overflow comes back as a byte string, whatever its type was.\<close>

definition norm_overflow :: "'w env \<Rightarrow> idmef_overflow_alert \<Rightarrow> idmef_overflow_alert" where
  "norm_overflow E x =
     \<lparr>overflow_program = norm_str (overflow_program x), overflow_size = overflow_size x,
      overflow_buffer = map_option (\<lambda>d. idmef_data_set E (Data_byte_string (the (data_text d)))) (overflow_buffer x)\<rparr>"

definition tool_of :: "alert_type \<Rightarrow> idmef_tool_alert option" where
  "tool_of t = (case t of Alert_tool x \<Rightarrow> x | _ \<Rightarrow> None)"

definition overflow_of :: "alert_type \<Rightarrow> idmef_overflow_alert option" where
  "overflow_of t = (case t of Alert_overflow x \<Rightarrow> x | _ \<Rightarrow> None)"

definition correlation_of :: "alert_type \<Rightarrow> idmef_correlation_alert option" where
  "correlation_of t = (case t of Alert_correlation x \<Rightarrow> x | _ \<Rightarrow> None)"

definition norm_type :: "'w env \<Rightarrow> alert_type \<Rightarrow> alert_type" where
  "norm_type E t = read_alert_type (map_option norm_tool (tool_of t)) (map_option norm_correlation (correlation_of t))
     (map_option (norm_overflow E) (overflow_of t))"

definition type_fits :: "nat \<Rightarrow> alert_type \<Rightarrow> bool" where
  "type_fits k t \<longleftrightarrow>
    (case t of
       Alert_tool (Some x) \<Rightarrow> length (tool_alertidents x) < k
     | Alert_correlation (Some x) \<Rightarrow> length (correlation_alertidents x) < k
     | _ \<Rightarrow> True)"

lemma type_rows_split:
  "type_rows V m t = tool_rows m (tool_of t) @ (optional_rows (\<lambda>y. [overflow_row V m y]) (overflow_of t) @
     correlation_rows m (correlation_of t))"
  by (cases t) (simp_all add: type_rows_def tool_of_def overflow_of_def correlation_of_def tool_rows_def
      correlation_rows_def optional_rows_def)

lemma one_kind: "tool_of t = Some x \<Longrightarrow> correlation_of t = None" "correlation_of t = Some y \<Longrightarrow> tool_of t = None"
  by (cases t; simp add: tool_of_def correlation_of_def)+

lemma kind_row_facts [row_facts]:
  "fst (tool_row m x) = ''Requiem_ToolAlert''" "fst (correlation_row m y) = ''Requiem_CorrelationAlert''"
  "fst (overflow_row V m z) = ''Requiem_OverflowAlert''" "fst (alertident_row p m i a) = ''Requiem_Alertident''"
  "index_of (alertident_row p m i a) = i"
  "matches ''Requiem_ToolAlert'' (message_key m) False (tool_row m x)"
  "matches ''Requiem_CorrelationAlert'' (message_key m) False (correlation_row m y)"
  "matches ''Requiem_OverflowAlert'' (message_key m) False (overflow_row V m z)"
  "matches ''Requiem_Alertident'' (typed_key p m) True (alertident_row p' m i a) \<longleftrightarrow> p' = p \<and> i \<noteq> - 1"
  "fields_of ''name, command'' (tool_row m x) = map lit_field [str_lit (tool_name x), str_lit (tool_command x)]"
  "fields_of ''name'' (correlation_row m y) = map lit_field [str_lit (correlation_name y)]"
  "fields_of ''program, size, buffer'' (overflow_row V m z) =
     map lit_field [str_lit (overflow_program z), num_lit (overflow_size z), data_lit V (overflow_buffer z)]"
  "fields_of ''alertident, analyzerid'' (alertident_row p m i a) =
     map lit_field [str_lit (alertident_alertident a), str_lit (alertident_analyzerid a)]"
  by (auto simp: alert_match_simps tool_row_def correlation_row_def overflow_row_def alertident_row_def)

lemma reads_alertidents:
  assumes db: "sql_database E V" and p: "parent_char p"
    and found: "filter_mset (matches ''Requiem_Alertident'' (typed_key p m) True) D = mset (listed_rows (alertident_row p m) xs)"
    and fits: "length xs < fuel"
  shows "reads V D K (map norm_alertident xs) (get_alertident fuel E m p)"
  unfolding get_alertident_def
proof (rule reads_listed_objects [OF db _ _ _ found])
  show "''SELECT alertident, analyzerid FROM Requiem_Alertident WHERE '' @ of_typed_message p m @ listed_order =
      select_query ''alertident, analyzerid'' ''Requiem_Alertident'' (typed_key p m) True"
    by (simp add: alert_query_simps)
  show "reads V D (at_row t h (fields_of ''alertident, analyzerid'' (alertident_row p m (int k) (xs ! k))))
      (norm_alertident (xs ! k)) (read_alertident E t h)" for k t h
    unfolding row_facts read_alertident_def norm_alertident_def
    by ((rule reads_bindr [OF stable_at_row], rule field_reads, rule db, simp, simp)+) simp
qed (use p fits in \<open>simp_all add: schema_table_def row_facts\<close>)

lemma reads_tool:
  assumes db: "sql_database E V"
    and found: "filter_mset (matches ''Requiem_ToolAlert'' (message_key m) False) D = mset (case x of None \<Rightarrow> [] | Some z \<Rightarrow> [tool_row m z])"
    and idents: "\<And>z. x = Some z \<Longrightarrow> filter_mset (matches ''Requiem_Alertident'' (typed_key CHR ''T'' m) True) D =
      mset (listed_rows (alertident_row CHR ''T'' m) (tool_alertidents z))"
    and fits: "\<And>z. x = Some z \<Longrightarrow> length (tool_alertidents z) < fuel"
  shows "reads V D (\<lambda>_. True) (map_option norm_tool x) (get_tool_alert fuel E m)"
  unfolding get_tool_alert_def
proof (rule reads_one_object [OF db _ _ _ found])
  show "''SELECT name, command FROM Requiem_ToolAlert WHERE '' @ of_message m =
      select_query ''name, command'' ''Requiem_ToolAlert'' (message_key m) False"
    by (simp add: alert_query_simps)
  fix z t h assume x: "x = Some z"
  have idents: "reads V D K (map norm_alertident (tool_alertidents z)) (get_alertident fuel E m CHR ''T'')" for K
    by (rule reads_alertidents [OF db _ idents [OF x] fits [OF x]]) (simp add: parent_char_def)
  show "reads V D (at_row t h (fields_of ''name, command'' (tool_row m z))) (norm_tool z)
     (bindr (get_string_field E t h 0) (\<lambda>name. bindr (get_string_field E t h 1) (\<lambda>command.
      bindr (get_alertident fuel E m CHR ''T'') (\<lambda>alertidents.
      retn \<lparr>tool_name = name, tool_command = command, tool_alertidents = alertidents\<rparr>))))"
    unfolding row_facts norm_tool_def
    by ((rule reads_bindr [OF stable_at_row], rule field_reads, rule db, simp, simp)+)
      (rule reads_bindr [OF stable_at_row idents], simp)
qed (simp_all add: schema_table_def)

lemma reads_correlation:
  assumes db: "sql_database E V"
    and found: "filter_mset (matches ''Requiem_CorrelationAlert'' (message_key m) False) D =
      mset (case x of None \<Rightarrow> [] | Some z \<Rightarrow> [correlation_row m z])"
    and idents: "\<And>z. x = Some z \<Longrightarrow> filter_mset (matches ''Requiem_Alertident'' (typed_key CHR ''C'' m) True) D =
      mset (listed_rows (alertident_row CHR ''C'' m) (correlation_alertidents z))"
    and fits: "\<And>z. x = Some z \<Longrightarrow> length (correlation_alertidents z) < fuel"
  shows "reads V D (\<lambda>_. True) (map_option norm_correlation x) (get_correlation_alert fuel E m)"
  unfolding get_correlation_alert_def
proof (rule reads_one_object [OF db _ _ _ found])
  show "''SELECT name FROM Requiem_CorrelationAlert WHERE '' @ of_message m =
      select_query ''name'' ''Requiem_CorrelationAlert'' (message_key m) False"
    by (simp add: alert_query_simps)
  fix z t h assume x: "x = Some z"
  have idents: "reads V D K (map norm_alertident (correlation_alertidents z)) (get_alertident fuel E m CHR ''C'')" for K
    by (rule reads_alertidents [OF db _ idents [OF x] fits [OF x]]) (simp add: parent_char_def)
  show "reads V D (at_row t h (fields_of ''name'' (correlation_row m z))) (norm_correlation z)
     (bindr (get_string_field E t h 0) (\<lambda>name. bindr (get_alertident fuel E m CHR ''C'') (\<lambda>alertidents.
      retn \<lparr>correlation_name = name, correlation_alertidents = alertidents\<rparr>)))"
    unfolding row_facts norm_correlation_def
    by ((rule reads_bindr [OF stable_at_row], rule field_reads, rule db, simp, simp)+)
      (rule reads_bindr [OF stable_at_row idents], simp)
qed (simp_all add: schema_table_def)

lemma reads_overflow:
  assumes db: "sql_database E V"
    and found: "filter_mset (matches ''Requiem_OverflowAlert'' (message_key m) False) D =
      mset (case x of None \<Rightarrow> [] | Some z \<Rightarrow> [overflow_row V m z])"
    and ok: "\<And>z. x = Some z \<Longrightarrow> data_ok (overflow_buffer z)"
  shows "reads V D (\<lambda>_. True) (map_option (norm_overflow E) x) (get_overflow_alert E m)"
  unfolding get_overflow_alert_def
proof (rule reads_one_object [OF db _ _ _ found])
  show "''SELECT program, size, buffer FROM Requiem_OverflowAlert WHERE '' @ of_message m =
      select_query ''program, size, buffer'' ''Requiem_OverflowAlert'' (message_key m) False"
    by (simp add: alert_query_simps)
  fix z t h assume "x = Some z"
  from ok [OF this] obtain d b where d: "overflow_buffer z = Some d" "data_text d = Some b"
    by (auto simp: data_ok_def split: option.splits)
  show "reads V D (at_row t h (fields_of ''program, size, buffer'' (overflow_row V m z))) (norm_overflow E z)
     (bindr (get_string_field E t h 0) (\<lambda>program. bindr (get_uint32 E t h 1) (\<lambda>sz.
      bindr (requiemdb_sql_row_fetch_field E t h 2) (\<lambda>f.
        case f of
          None \<Rightarrow> failw UndefinedValue
        | Some v \<Rightarrow> bindr (requiemdb_sql_unescape_binary E v) (\<lambda>b.
            retn \<lparr>overflow_program = program, overflow_size = sz,
                  overflow_buffer = Some (idmef_data_set E (Data_byte_string b))\<rparr>)))))"
    unfolding row_facts norm_overflow_def
    apply ((rule reads_bindr [OF stable_at_row], rule field_reads, rule db, simp, simp)+)
    apply (rule reads_bindr [OF stable_at_row reads_field [OF db]], simp)
    apply (simp add: d data_lit_def)
    by (rule reads_bindr [OF stable_at_row reads_unescape [OF db]]) simp
qed (simp_all add: schema_table_def)

text \<open>The rows of a kind, as each of the three queries for kinds finds them.\<close>

abbreviation kind_tables :: "string list" where
  "kind_tables \<equiv> [''Requiem_ToolAlert'', ''Requiem_OverflowAlert'', ''Requiem_CorrelationAlert'']"

lemma reads_kinds:
  assumes db: "sql_database E V"
    and own: "holds D (message_key m) kind_tables (type_rows V m t)"
    and idents: "\<And>p. p \<in> {CHR ''T'', CHR ''C''} \<Longrightarrow> holds D (typed_key p m) [''Requiem_Alertident''] (type_rows V m t)"
    and ok: "type_ok t" and fits: "type_fits fuel t"
  shows "reads V D (\<lambda>_. True) (map_option norm_tool (tool_of t)) (get_tool_alert fuel E m)"
    "reads V D (\<lambda>_. True) (map_option norm_correlation (correlation_of t)) (get_correlation_alert fuel E m)"
    "reads V D (\<lambda>_. True) (map_option (norm_overflow E) (overflow_of t)) (get_overflow_alert E m)"
proof -
  note find = type_rows_split tool_rows_def correlation_rows_def find_simps row_facts
  have tool_idents: "holds D (typed_key CHR ''T'' m) [''Requiem_Alertident''] (type_rows V m t)" by (rule idents) simp
  have correlation_idents: "holds D (typed_key CHR ''C'' m) [''Requiem_Alertident''] (type_rows V m t)" by (rule idents) simp
  show "reads V D (\<lambda>_. True) (map_option norm_tool (tool_of t)) (get_tool_alert fuel E m)"
  proof (rule reads_tool [OF db])
    show "filter_mset (matches ''Requiem_ToolAlert'' (message_key m) False) D =
        mset (case tool_of t of None \<Rightarrow> [] | Some z \<Rightarrow> [tool_row m z])"
      by (simp add: holdsD [OF own] find del: mset_filter split: option.split)
    fix z assume z: "tool_of t = Some z"
    show "filter_mset (matches ''Requiem_Alertident'' (typed_key CHR ''T'' m) True) D =
        mset (listed_rows (alertident_row CHR ''T'' m) (tool_alertidents z))"
      by (simp add: holdsD [OF tool_idents] z one_kind(1) [OF z] find del: mset_filter split: option.split)
    show "length (tool_alertidents z) < fuel"
      using z fits by (auto simp: tool_of_def type_fits_def split: alert_type.splits)
  qed
  show "reads V D (\<lambda>_. True) (map_option norm_correlation (correlation_of t)) (get_correlation_alert fuel E m)"
  proof (rule reads_correlation [OF db])
    show "filter_mset (matches ''Requiem_CorrelationAlert'' (message_key m) False) D =
        mset (case correlation_of t of None \<Rightarrow> [] | Some z \<Rightarrow> [correlation_row m z])"
      by (simp add: holdsD [OF own] find del: mset_filter split: option.split)
    fix z assume z: "correlation_of t = Some z"
    show "filter_mset (matches ''Requiem_Alertident'' (typed_key CHR ''C'' m) True) D =
        mset (listed_rows (alertident_row CHR ''C'' m) (correlation_alertidents z))"
      by (simp add: holdsD [OF correlation_idents] z one_kind(2) [OF z] find del: mset_filter split: option.split)
    show "length (correlation_alertidents z) < fuel"
      using z fits by (auto simp: correlation_of_def type_fits_def split: alert_type.splits)
  qed
  show "reads V D (\<lambda>_. True) (map_option (norm_overflow E) (overflow_of t)) (get_overflow_alert E m)"
  proof (rule reads_overflow [OF db])
    show "filter_mset (matches ''Requiem_OverflowAlert'' (message_key m) False) D =
        mset (case overflow_of t of None \<Rightarrow> [] | Some z \<Rightarrow> [overflow_row V m z])"
      by (simp add: holdsD [OF own] find del: mset_filter split: option.split)
    show "data_ok (overflow_buffer z)" if "overflow_of t = Some z" for z
      using that ok by (auto simp: overflow_of_def type_ok_def split: alert_type.splits)
  qed
qed

end
