(* ===== verification/MessageIdents.thy ===== *)
theory MessageIdents
  imports ReadBack
begin

text \<open>
  Idents and transactions: the idents a database hands out, the message row that is given one,
  the rows below it, and the transaction around an insertion that succeeds.
\<close>

section \<open>Idents\<close>

text \<open>
  The database hands out the idents of each message table in increasing order; no row carries
  one that has not been handed out.  In the tables alerts and heartbeats share, the type of the
  parent says whose row it is.
\<close>

definition typed_table :: "string \<Rightarrow> bool" where
  "typed_table T \<longleftrightarrow> T \<in> set
     [''Requiem_AdditionalData'', ''Requiem_Address'', ''Requiem_Alertident'', ''Requiem_Analyzer'', ''Requiem_AnalyzerTime'',
      ''Requiem_CreateTime'', ''Requiem_Node'', ''Requiem_Process'', ''Requiem_ProcessArg'', ''Requiem_ProcessEnv'',
      ''Requiem_Service'', ''Requiem_SnmpService'', ''Requiem_User'', ''Requiem_UserId'', ''Requiem_WebService'',
      ''Requiem_WebServiceArg'']"

definition message_of_row :: "sql_row \<Rightarrow> string" where
  "message_of_row r =
    (if typed_table (fst r) \<and> cell r ''_parent_type'' = L_text ''H'' then ''Requiem_Heartbeat'' else ''Requiem_Alert'')"

definition ident_below :: "(string \<Rightarrow> int) \<Rightarrow> sql_row \<Rightarrow> bool" where
  "ident_below next r \<longleftrightarrow>
     (if numbered (fst r) then \<exists>j. cell r ''_ident'' = L_int j \<and> j < next (fst r)
      else \<forall>j. cell r ''_message_ident'' = L_int j \<longrightarrow> j < next (message_of_row r))"

definition idents_given :: "db_state \<Rightarrow> bool" where
  "idents_given c \<longleftrightarrow> (\<forall>r \<in># db_rows c. ident_below (db_next c) r)"

lemma connected_status [simp]:
  "connected (s\<lparr>status := status s OR STATUS_TRANSACTION\<rparr>) = connected s"
  "connected (s\<lparr>status := status s AND NOT STATUS_TRANSACTION\<rparr>) = connected s"
  by (simp_all add: connected_bit bit_or_iff bit_and_iff status_bits)

lemma exec_run:
  assumes "sql_database E V" "connected s" "q \<in> {''BEGIN'', ''COMMIT''}"
  shows "\<exists>s'. sql_exec E q s = (Inr 0, s') \<and> same_session s s' \<and> database_of V s' = database_of V s"
proof -
  obtain w' where w: "pl_query (env_plugin E) q (sql_world s) = (Inr None, w')" "contents V w' = database_of V s"
    using assms(1,3) unfolding sql_database_def bracket_law_def by blast
  obtain s' where "same_session s s'" "sql_world s' = w'" "requiemdb_sql_query E q False s = (Inr (0, None), s')"
    using query_run [OF assms(2) w(1), of False] by auto
  with w(2) show ?thesis by (auto simp: sql_exec_def)
qed

text \<open>A transaction around a body that succeeds and keeps the session.\<close>

definition can_begin :: "'w sql \<Rightarrow> bool" where
  "can_begin s \<longleftrightarrow> connected s \<and> (internal_transaction_disabled s \<or> \<not> in_transaction s)"

lemma transactionally_run:
  assumes db: "sql_database E V" and s: "can_begin s"
    and body: "\<And>s1. connected s1 \<Longrightarrow> database_of V s1 = database_of V s \<Longrightarrow>
      \<exists>y s2. body s1 = (Inr y, s2) \<and> same_session s1 s2 \<and> P (database_of V s2)"
  shows "\<exists>s'. transactionally E body s = (Inr 0, s') \<and> can_begin s' \<and> P (database_of V s')"
proof (cases "internal_transaction_disabled s")
  case True
  from body [of s] s obtain y s2 where s2: "body s = (Inr y, s2)" "same_session s s2" "P (database_of V s2)"
    by (auto simp: can_begin_def)
  then have "internal_transaction_disabled s2" "connected s2"
    using True s by (auto simp: same_session_def can_begin_def connected_def)
  with s2 True show ?thesis
    by (simp add: transactionally_def requiemdb_sql_transaction_start_def requiemdb_sql_transaction_end_def can_begin_def)
next
  case False
  have "connected (lock s)" "\<not> in_transaction (lock s)" using s False by (simp_all add: can_begin_def)
  from exec_run [OF db this(1), of "''BEGIN''"] obtain s0 where s0: "sql_exec E ''BEGIN'' (lock s) = (Inr 0, s0)"
    "same_session (lock s) s0" "database_of V s0 = database_of V s" by auto
  let ?s1 = "s0\<lparr>status := status s0 OR STATUS_TRANSACTION\<rparr>"
  have "connected ?s1" using s s0(2) by (simp add: can_begin_def same_session_connected)
  from body [OF this] s0(3) obtain y s2 where s2: "body ?s1 = (Inr y, s2)" "same_session ?s1 s2" "P (database_of V s2)"
    by auto
  have f: "in_transaction s2" "connected s2" "\<not> internal_transaction_disabled s2"
    using s2(2) s0(2) \<open>connected ?s1\<close> False
    by (simp_all add: same_session_def in_transaction_bit connected_bit bit_or_iff status_bits lock_def)
  from exec_run [OF db f(2), of "''COMMIT''"] obtain s3 where s3: "sql_exec E ''COMMIT'' s2 = (Inr 0, s3)"
    "same_session s2 s3" "database_of V s3 = database_of V s2" by auto
  let ?s' = "unlock (s3\<lparr>status := status s3 AND NOT STATUS_TRANSACTION\<rparr>)"
  have "transactionally E body s = (Inr 0, ?s')"
    using False \<open>\<not> in_transaction (lock s)\<close> s0(1) s2(1) f s3(1)
    by (simp add: transactionally_def requiemdb_sql_transaction_start_def sql_transaction_start_def Let_def
        requiemdb_sql_transaction_end_def sql_transaction_end_def)
  moreover have "connected ?s'" "\<not> in_transaction ?s'"
    using f(2) s3(2) by (simp_all add: same_session_def in_transaction_bit connected_bit bit_and_iff status_bits unlock_def)
  ultimately show ?thesis using s2(3) s3(3) by (simp add: can_begin_def)
qed

section \<open>The message row\<close>

lemma last_ident_run:
  assumes db: "sql_database E V" and c: "connected s" and T: "numbered T" "schema_table T"
    and m: "0 \<le> m" "m < 2 ^ 64"
    and max: "\<exists>r \<in># db_rows (database_of V s). fst r = T \<and> cell r ''_ident'' = L_int m"
      "\<And>r. r \<in># db_rows (database_of V s) \<Longrightarrow> fst r = T \<Longrightarrow> \<exists>j. cell r ''_ident'' = L_int j \<and> j \<le> m"
  shows "\<exists>s'. get_last_insert_ident E T s = (Inr m, s') \<and> same_session s s' \<and>
    db_rows (database_of V s') = db_rows (database_of V s) \<and> db_next (database_of V s') = db_next (database_of V s)"
proof -
  let ?rs = "[[Some (dec_int m)]]"
  have "max_law E V" using db by (simp add: sql_database_def)
  then have "answers E V (sql_world s) ?rs (pl_query (env_plugin E) (last_ident_query T) (sql_world s))"
    using T(2) max unfolding max_law_def by blast
  then obtain h w1 where q: "pl_query (env_plugin E) (last_ident_query T) (sql_world s) = (Inr (Some h), w1)"
    and c1: "contents V w1 = (database_of V s)\<lparr>db_pending := (db_pending (database_of V s))(h := Some ?rs)\<rparr>"
    by (cases "pl_query (env_plugin E) (last_ident_query T) (sql_world s)") (auto simp: answers_def)
  obtain s1 where s1: "same_session s s1" "sql_world s1 = w1"
    "requiemdb_sql_query E (last_ident_query T) True s = (Inr (pl_get_row_count (env_plugin E) w1 h, Some h), s1)"
    using query_run [OF c q, of True] by auto
  have "db_pending (contents V w1) h = Some ([Some (dec_int m)] # [])" using c1 by simp
  then obtain r w2 where f: "plugin_sql_fetch_row (env_plugin E) h w1 = (Inr (Some r), w2)"
    and c2: "contents V w2 = (contents V w1)\<lparr>db_pending := (db_pending (contents V w1))(h := Some []),
       db_fetched := (db_fetched (contents V w1))(h := (db_fetched (contents V w1) h)(r := Some [Some (dec_int m)]))\<rparr>"
    using db unfolding sql_database_def result_law_def by blast
  have "db_fetched (contents V w2) h r = Some [Some (dec_int m)] \<and> 0 < length [Some (dec_int m)]" using c2 by simp
  then obtain w3 where g: "plugin_sql_fetch_field (env_plugin E) h r 0 w2 = (Inr ([Some (dec_int m)] ! 0), w3)"
    and c3: "contents V w3 = contents V w2"
    using db unfolding sql_database_def result_law_def by blast
  have "uint (word_of_int m :: 64 word) = m" using m by (simp add: uint_word_of_int)
  then have n: "field_to_uint64 (dec_int m) = Inr (Stored m)"
    using field_to_uint_widths(3) [of "word_of_int m"] by simp
  have "read_last_ident E h s1 = (Inr m, s1\<lparr>sql_world := w3\<rparr>)"
    using fetch_row_run [of E h s1 "Some r" w2] fetch_field_run [of E h r 0 "s1\<lparr>sql_world := w2\<rparr>" "Some (dec_int m)" w3] f g s1 n
    by (simp add: read_last_ident_def)
  moreover have "contents V (pl_resource_destroy (env_plugin E) h w3) =
      (contents V w3)\<lparr>db_pending := (db_pending (contents V w3))(h := None)\<rparr>"
    using db by (simp add: sql_database_def result_law_def)
  ultimately show ?thesis
    using s1 c1 c2 c3 by (simp add: get_last_insert_ident_def destroying_def requiemdb_sql_table_destroy_def)
qed

text \<open>
  Storing a numbered row and asking for its ident, which is the next one; the rows stay below
  the idents handed out.
\<close>

lemma ident_below_mono: "ident_below n r \<Longrightarrow> n ''Requiem_Alert'' \<le> n' ''Requiem_Alert'' \<Longrightarrow>
    n ''Requiem_Heartbeat'' \<le> n' ''Requiem_Heartbeat'' \<Longrightarrow> ident_below n' r"
  by (auto simp: ident_below_def message_of_row_def numbered_def split: if_splits)

lemma message_row_run:
  assumes db: "sql_database E V" and c: "connected s" and T: "numbered T"
    and vals: "list_all2 (denotes V) vals ls" "length (column_names cols) = length vals" "column_text cols"
    and m: "m = db_next (database_of V s) T" "0 \<le> m" "m < 2 ^ 64" and given: "idents_given (database_of V s)"
  obtains s1 where "bindr (store E T cols vals) (\<lambda>_. bindr (get_last_insert_ident E T) below) s = below m s1"
    "same_session s s1"
    "db_rows (database_of V s1) = add_mset (T, (''_ident'', L_int m) # zip (column_names cols) ls) (db_rows (database_of V s))"
    "m < db_next (database_of V s1) T" "idents_given (database_of V s1)"
proof -
  have S: "schema_table T" using T by (auto simp: numbered_def schema_table_def)
  obtain s0 i where st: "store E T cols vals s = (Inr (), s0)" and s0: "same_session s s0" and i: "m < i"
    and rows: "db_rows (database_of V s0) = add_mset (T, (''_ident'', L_int m) # zip (column_names cols) ls) (db_rows (database_of V s))"
    and nxt: "db_next (database_of V s0) = (db_next (database_of V s))(T := i)"
    using store_run [OF db S vals(1,2) c vals(3)] T m(1) by (auto simp: new_row_def)
  let ?r = "(T, (''_ident'', L_int m) # zip (column_names cols) ls)"
  have cell: "cell ?r ''_ident'' = L_int m" by (simp add: cell_def)
  have below_next: "\<exists>j. cell r ''_ident'' = L_int j \<and> j < m" if "r \<in># db_rows (database_of V s)" "fst r = T" for r
    using given that T m(1) by (auto simp: idents_given_def ident_below_def)
  have "\<exists>r \<in># db_rows (database_of V s0). fst r = T \<and> cell r ''_ident'' = L_int m"
    using cell rows by auto
  moreover have "\<exists>j. cell r ''_ident'' = L_int j \<and> j \<le> m" if "r \<in># db_rows (database_of V s0)" "fst r = T" for r
    using that below_next [of r] cell rows by force
  moreover have "connected s0" using c s0 by (simp add: same_session_connected)
  ultimately obtain s1 where s1: "get_last_insert_ident E T s0 = (Inr m, s1)" "same_session s0 s1"
    "db_rows (database_of V s1) = db_rows (database_of V s0)" "db_next (database_of V s1) = db_next (database_of V s0)"
    using last_ident_run [OF db _ T S m(2,3)] by blast
  have "ident_below (db_next (database_of V s1)) r" if "r \<in># db_rows (database_of V s1)" for r
  proof (cases "r = ?r")
    case True
    then show ?thesis using T i s1(4) nxt cell by (simp add: ident_below_def)
  next
    case False
    with that s1(3) rows have "r \<in># db_rows (database_of V s)" by auto
    then have "ident_below (db_next (database_of V s)) r" using given by (simp add: idents_given_def)
    then show ?thesis by (rule ident_below_mono) (use s1(4) nxt i m(1) in auto)
  qed
  then have "idents_given (database_of V s1)" by (simp add: idents_given_def)
  moreover have "same_session s s1" using s0 s1(2) by (rule same_session_trans)
  moreover have "bindr (store E T cols vals) (\<lambda>_. bindr (get_last_insert_ident E T) below) s = below m s1"
    using st s1(1) by simp
  ultimately show thesis using that [of s1] s1 rows nxt i by simp
qed

text \<open>Rows of the new message keep the idents in order.\<close>

definition row_of_message :: "string \<Rightarrow> int \<Rightarrow> sql_row \<Rightarrow> bool" where
  "row_of_message T m r \<longleftrightarrow> \<not> numbered (fst r) \<and> cell r ''_message_ident'' = L_int m \<and> message_of_row r = T"

lemma rows_below:
  assumes "list_all (row_of_message T m) L"
    "m < db_next c T" "idents_given c" "db_rows d = db_rows c + mset L" "db_next d = db_next c"
  shows "idents_given d"
  using assms by (auto simp: idents_given_def ident_below_def list_all_iff row_of_message_def)

text \<open>The queries of a new ident find nothing that was there before.\<close>

lemma older_rows:
  assumes "idents_given c" "m = db_next c T'" "(''_message_ident'', L_int m) \<in> set cs" "\<not> numbered T"
    and "T' = ''Requiem_Heartbeat'' \<and> typed_table T \<and> (''_parent_type'', L_text ''H'') \<in> set cs \<or>
      T' = ''Requiem_Alert'' \<and> (typed_table T \<longrightarrow> (\<exists>p. p \<noteq> CHR ''H'' \<and> (''_parent_type'', L_text [p]) \<in> set cs))"
  shows "filter_mset (matches T cs l) (db_rows c) = {#}"
proof -
  have "\<not> matches T cs l r" if "r \<in># db_rows c" for r
  proof
    assume a: "matches T cs l r"
    then have r: "fst r = T" "cell r ''_message_ident'' = L_int m"
      "\<And>v. (''_parent_type'', v) \<in> set cs \<Longrightarrow> cell r ''_parent_type'' = v"
      using assms(3) by (auto simp: matches_def list_all_iff)
    from assms(5) have "message_of_row r = T'"
    proof
      assume "T' = ''Requiem_Heartbeat'' \<and> typed_table T \<and> (''_parent_type'', L_text ''H'') \<in> set cs"
      with r show ?thesis by (simp add: message_of_row_def)
    next
      assume T': "T' = ''Requiem_Alert'' \<and> (typed_table T \<longrightarrow> (\<exists>p. p \<noteq> CHR ''H'' \<and> (''_parent_type'', L_text [p]) \<in> set cs))"
      have "cell r ''_parent_type'' \<noteq> L_text ''H''" if "typed_table T"
      proof -
        from T' that obtain p where "p \<noteq> CHR ''H''" "(''_parent_type'', L_text [p]) \<in> set cs" by blast
        with r(3) [OF this(2)] show ?thesis by simp
      qed
      with T' r(1) show ?thesis by (auto simp: message_of_row_def)
    qed
    moreover have "\<forall>j. cell r ''_message_ident'' = L_int j \<longrightarrow> j < db_next c (message_of_row r)"
      using assms(1,4) that r(1) by (auto simp: idents_given_def ident_below_def)
    ultimately show False using r(2) assms(2) by simp
  qed
  then show ?thesis by (simp add: filter_mset_eq_conv)
qed

end
