(* ===== verification/MiniSql.thy ===== *)
theory MiniSql
  imports SqlReads "HOL-Library.AList"
begin

text \<open>
  An interpreter of the SQL the classic plugin sends: it parses the text of a statement and runs
  it on a list of rows.  It shows that the hypothesis \<open>sql_database\<close> can hold, and runs the
  examples; it models no code of the repository.
\<close>

section \<open>Parsing\<close>

fun strip :: "string \<Rightarrow> string \<Rightarrow> string option" where
  "strip [] t = Some t"
| "strip (a # p) (b # t) = (if a = b then strip p t else None)"
| "strip (a # p) [] = None"

abbreviation quote :: char where "quote \<equiv> CHR 0x27"

text \<open>The rest of a quoted literal; two quotes stand for one.\<close>

fun parse_quoted :: "string \<Rightarrow> (string \<times> string) option" where
  "parse_quoted [] = None"
| "parse_quoted (c # cs) =
    (if c = quote then
       (case cs of
          [] \<Rightarrow> Some ([], [])
        | d # ds \<Rightarrow> if d = quote then map_option (\<lambda>(t, r). (quote # t, r)) (parse_quoted ds) else Some ([], cs))
     else map_option (\<lambda>(t, r). (c # t, r)) (parse_quoted cs))"

fun doubled :: "string \<Rightarrow> string" where
  "doubled [] = []"
| "doubled (c # cs) = (if c = quote then [quote, quote] else [c]) @ doubled cs"

definition separator :: "char \<Rightarrow> bool" where
  "separator c \<longleftrightarrow> c = CHR '','' \<or> c = CHR '')'' \<or> c = CHR '' ''"

definition token_lit :: "string \<Rightarrow> lit" where
  "token_lit tok =
    (if tok = ''NULL'' then L_null
     else case scan_int tok of
       Scan_int i r \<Rightarrow> if r = [] \<and> dec_int i = tok then L_int i else L_text tok
     | _ \<Rightarrow> L_text tok)"

definition parse_lit :: "string \<Rightarrow> (lit \<times> string) option" where
  "parse_lit t =
    (case t of
       [] \<Rightarrow> None
     | c # cs \<Rightarrow>
         if c = quote then map_option (\<lambda>(s, r). (L_text s, r)) (parse_quoted cs)
         else let tok = takeWhile (\<lambda>c. \<not> separator c) t in Some (token_lit tok, drop (length tok) t))"

fun parse_values :: "nat \<Rightarrow> string \<Rightarrow> lit list option" where
  "parse_values 0 t = None"
| "parse_values (Suc n) t =
    (case parse_lit t of
       None \<Rightarrow> None
     | Some (l, r) \<Rightarrow>
         if r = '')'' then Some [l]
         else (case strip '', '' r of None \<Rightarrow> None | Some r' \<Rightarrow> map_option ((#) l) (parse_values n r')))"

definition parse_cond :: "string \<Rightarrow> ((string \<times> lit) \<times> string) option" where
  "parse_cond t =
    (let c = takeWhile (\<lambda>x. x \<noteq> CHR '' '') t in
     case strip '' = '' (drop (length c) t) of
       None \<Rightarrow> None
     | Some r \<Rightarrow> map_option (\<lambda>(l, r'). ((c, l), r')) (parse_lit r))"

fun parse_conds :: "nat \<Rightarrow> string \<Rightarrow> (string \<times> lit) list \<times> string" where
  "parse_conds 0 t = ([], t)"
| "parse_conds (Suc n) t =
    (case parse_cond t of
       None \<Rightarrow> ([], t)
     | Some (x, r) \<Rightarrow>
         (case strip '' AND '' r of
            None \<Rightarrow> ([x], r)
          | Some r' \<Rightarrow>
              if parse_cond r' = None then ([x], r)
              else (case parse_conds n r' of (xs, rest) \<Rightarrow> (x # xs, rest))))"

section \<open>The interpreter\<close>

definition column_list_char :: "char \<Rightarrow> bool" where
  "column_list_char c \<longleftrightarrow> column_char c \<or> c = CHR '','' \<or> c = CHR '' ''"

record mini =
  m_rows :: "sql_row list"
  m_next :: "string \<Rightarrow> int"
  m_pending :: "(sql_res \<times> string option list list) list"
  m_fetched :: "sql_res \<Rightarrow> sql_rowh \<Rightarrow> string option list option"

definition mini_open :: "string option list list \<Rightarrow> mini \<Rightarrow> (err + sql_res option) \<times> mini" where
  "mini_open rs w =
    (if rs = [] then (Inr None, w)
     else let h = Suc (foldr max (map fst (m_pending w)) 0) in (Inr (Some h), w\<lparr>m_pending := (h, rs) # m_pending w\<rparr>))"

definition mini_error :: "mini \<Rightarrow> (err + sql_res option) \<times> mini" where
  "mini_error w = (Inl (DbErr ERROR_QUERY False), w)"

definition mini_insert :: "string \<Rightarrow> mini \<Rightarrow> (err + sql_res option) \<times> mini" where
  "mini_insert t w =
    (let T = takeWhile (\<lambda>x. x \<noteq> CHR '' '') t in
     case strip '' ('' (drop (length T) t) of
       None \<Rightarrow> mini_error w
     | Some u \<Rightarrow>
         (let cols = takeWhile (\<lambda>x. x \<noteq> CHR '')'') u in
          case strip '') VALUES('' (drop (length cols) u) of
            None \<Rightarrow> mini_error w
          | Some v \<Rightarrow>
              (case parse_values (length v) v of
                 None \<Rightarrow> mini_error w
               | Some ls \<Rightarrow>
                   (Inr None,
                    w\<lparr>m_rows := m_rows w @ [(T, (if numbered T then [(''_ident'', L_int (m_next w T))] else []) @
                                          zip (column_names cols) ls)],
                      m_next := (if numbered T then (m_next w)(T := m_next w T + 1) else m_next w)\<rparr>))))"

definition mini_select :: "string \<Rightarrow> string \<Rightarrow> (string \<times> lit) list \<Rightarrow> bool \<Rightarrow> mini \<Rightarrow> string option list list" where
  "mini_select cols T cs listed w =
     map (fields_of cols)
       ((if listed then sort_key index_of else id) (filter (matches T cs listed) (m_rows w)))"

definition max_ident :: "int list \<Rightarrow> string option" where
  "max_ident js = (case js of [] \<Rightarrow> None | j # js \<Rightarrow> Some (dec_int (foldr max js j)))"

definition idents_of :: "string \<Rightarrow> sql_row list \<Rightarrow> int list" where
  "idents_of T rs = map (\<lambda>r. case cell r ''_ident'' of L_int i \<Rightarrow> i | _ \<Rightarrow> 0) (filter (\<lambda>r. fst r = T) rs)"

definition parse_where :: "string \<Rightarrow> (string \<times> (string \<times> lit) list \<times> string) option" where
  "parse_where t =
    (let T = takeWhile (\<lambda>x. x \<noteq> CHR '' '') t in
     case strip '' WHERE '' (drop (length T) t) of
       None \<Rightarrow> None
     | Some u \<Rightarrow> Some (T, parse_conds (length u) u))"

definition count_tail :: string where
  "count_tail = '' AND _index != -1''"

definition mini_query :: "string \<Rightarrow> mini \<Rightarrow> (err + sql_res option) \<times> mini" where
  "mini_query q w =
    (if q = ''BEGIN'' \<or> q = ''COMMIT'' then (Inr None, w)
     else case strip ''INSERT INTO '' q of
       Some t \<Rightarrow> mini_insert t w
     | None \<Rightarrow>
    (case strip ''SELECT COUNT(*) FROM '' q of
       Some t \<Rightarrow>
         (case parse_where t of
            None \<Rightarrow> mini_error w
          | Some (T, cs, rest) \<Rightarrow>
              if rest = count_tail then mini_open [[Some (dec_nat (length (filter (matches T cs True) (m_rows w))))]] w
              else mini_error w)
     | None \<Rightarrow>
    (case strip ''SELECT max(_ident) FROM '' q of
       Some t \<Rightarrow> mini_open [[max_ident (idents_of (takeWhile (\<lambda>x. x \<noteq> CHR '';'') t) (m_rows w))]] w
     | None \<Rightarrow>
    (case strip ''SELECT '' q of
       None \<Rightarrow> mini_error w
     | Some t \<Rightarrow>
         (let cols = takeWhile column_list_char t in
          case strip ''FROM '' (drop (length cols) t) of
            None \<Rightarrow> mini_error w
          | Some u \<Rightarrow>
              (case parse_where u of
                 None \<Rightarrow> mini_error w
               | Some (T, cs, rest) \<Rightarrow>
                   if rest = [] then mini_open (mini_select (butlast cols) T cs False w) w
                   else if rest = listed_order then mini_open (mini_select (butlast cols) T cs True w) w
                   else mini_error w))))))"

definition mini_fetch_row :: "sql_res \<Rightarrow> mini \<Rightarrow> (err + sql_rowh option) \<times> mini" where
  "mini_fetch_row t w =
    (case map_of (m_pending w) t of
       Some (r # rs) \<Rightarrow> (Inr (Some 0), w\<lparr>m_pending := (t, rs) # m_pending w,
                          m_fetched := (m_fetched w)(t := (m_fetched w t)(0 := Some r))\<rparr>)
     | _ \<Rightarrow> (Inr None, w))"

definition mini_fetch_field :: "sql_res \<Rightarrow> sql_rowh \<Rightarrow> nat \<Rightarrow> mini \<Rightarrow> (err + string option) \<times> mini" where
  "mini_fetch_field t h c w =
    (case m_fetched w t h of
       Some r \<Rightarrow> if c < length r then (Inr (r ! c), w) else (Inl (DbErr ERROR_INVALID_COLUMN_NUM False), w)
     | None \<Rightarrow> (Inl (DbErr ERROR_GENERIC False), w))"

definition in_session :: "('w \<Rightarrow> 'a \<times> 'w) \<Rightarrow> 'w world \<Rightarrow> 'a \<times> 'w world" where
  "in_session f w = (case f (session w) of (r, m) \<Rightarrow> (r, w\<lparr>session := m\<rparr>))"

definition mini_plugin :: "mini plugin_sql" where
  "mini_plugin = null_plugin
    \<lparr>pl_escape := Some (\<lambda>t. retn ([quote] @ doubled t @ [quote])),
     pl_escape_binary := Some (\<lambda>t. retn ([quote] @ doubled t @ [quote])),
     pl_unescape_binary := Some (\<lambda>t. retn t),
     pl_query := (\<lambda>q. in_session (mini_query q)),
     pl_get_row_count := (\<lambda>w t. case map_of (m_pending (session w)) t of None \<Rightarrow> 0 | Some rs \<Rightarrow> length rs),
     pl_resource_destroy := (\<lambda>t w. w\<lparr>session := (session w)\<lparr>m_pending := AList.delete t (m_pending (session w))\<rparr>\<rparr>),
     pl_fetch_row := Some (\<lambda>t. in_session (mini_fetch_row t)),
     pl_fetch_field := Some (\<lambda>t h c. in_session (mini_fetch_field t h c))\<rparr>"

definition mini_env :: "mini env" where
  "mini_env = null_env
    \<lparr>env_plugin := mini_plugin,
     enum_to_string := (\<lambda>_ i. if i = 0 then Some ''unknown'' else if i = 1 then Some ''string'' else None),
     enum_to_numeric := (\<lambda>_ t. if t = ''string'' then 1 else 0),
     idmef_data_set := (\<lambda>v. case v of
         Data_char_string t \<Rightarrow> \<lparr>data_type_of = DATA_CHAR_STRING, data_bytes = t @ [NUL], data_to_string = Inr t\<rparr>
       | Data_byte_string b \<Rightarrow> \<lparr>data_type_of = DATA_BYTE_STRING, data_bytes = b, data_to_string = Inr b\<rparr>
       | _ \<Rightarrow> \<lparr>data_type_of = DATA_OTHER, data_bytes = [], data_to_string = Inr []\<rparr>),
     additional_data_kind := (\<lambda>i. if i = 1 then Some AD_STRING else None),
     scan_float := (\<lambda>t. if t = ''0.0'' then Some (Some 0) else None)\<rparr>"

section \<open>The view\<close>

text \<open>A literal is a text that parses, in front of a separator, as its value.\<close>

definition mini_denotes :: "string \<Rightarrow> lit \<Rightarrow> bool" where
  "mini_denotes t l \<longleftrightarrow> t \<noteq> [] \<and> (\<forall>rest. rest = [] \<or> separator (hd rest) \<longrightarrow> parse_lit (t @ rest) = Some (l, rest))"

definition mini_database :: "mini database" where
  "mini_database =
    \<lparr>contents = (\<lambda>w. \<lparr>db_rows = mset (m_rows (session w)), db_next = m_next (session w),
                      db_pending = map_of (m_pending (session w)), db_fetched = m_fetched (session w)\<rparr>),
     denotes = mini_denotes, stored_binary = id, stored_float = (\<lambda>_. ''0.0'')\<rparr>"

section \<open>Parsing what was printed\<close>

lemma strip_append [simp]: "strip p (p @ t) = Some t"
  by (induction p) auto

lemma parse_doubled:
  "rest = [] \<or> hd rest \<noteq> quote \<Longrightarrow> parse_quoted (doubled t @ quote # rest) = Some (t, rest)"
proof (induction t)
  case Nil
  then show ?case by (cases rest) auto
qed auto

lemma denotes_doubled: "mini_denotes ([quote] @ doubled t @ [quote]) (L_text t)"
  unfolding mini_denotes_def
proof (intro conjI allI impI)
  fix rest :: string assume "rest = [] \<or> separator (hd rest)"
  then have "rest = [] \<or> hd rest \<noteq> quote" by (auto simp: separator_def)
  from parse_doubled [OF this, of t] show "parse_lit (([quote] @ doubled t @ [quote]) @ rest) = Some (L_text t, rest)"
    by (simp add: parse_lit_def)
qed simp

lemma doubled_plain: "quote \<notin> set t \<Longrightarrow> doubled t = t"
  by (induction t) auto

lemma denotes_token:
  assumes "tok \<noteq> []" "hd tok \<noteq> quote" "list_all (\<lambda>c. \<not> separator c) tok"
  shows "mini_denotes tok (token_lit tok)"
  unfolding mini_denotes_def
proof (intro conjI allI impI)
  fix rest :: string assume r: "rest = [] \<or> separator (hd rest)"
  obtain c cs where tok: "tok = c # cs" using assms(1) by (cases tok) auto
  have "takeWhile (\<lambda>c. \<not> separator c) (tok @ rest) = tok"
    using assms(3) r by (cases rest) (auto simp: takeWhile_append list_all_iff)
  with assms(2) tok show "parse_lit (tok @ rest) = Some (token_lit tok, rest)"
    by (simp add: parse_lit_def Let_def)
qed (rule assms(1))

lemma dec_int_token: "dec_int i \<noteq> []" "hd (dec_int i) \<noteq> quote" "list_all (\<lambda>c. \<not> separator c) (dec_int i)"
proof -
  have d: "isdigit c \<Longrightarrow> \<not> separator c \<and> c \<noteq> quote" for c by (auto simp: isdigit_def separator_def)
  have n: "list_all (\<lambda>c. \<not> separator c) (dec_nat n)" for n
    using dec_nat_digits [of n] d by (auto simp: list_all_iff)
  have h: "hd (dec_nat n) \<noteq> quote" for n
    using dec_nat_digits [of n] d dec_nat_not_Nil [of n] by (metis hd_in_set list_all_iff)
  show "dec_int i \<noteq> []" "hd (dec_int i) \<noteq> quote" "list_all (\<lambda>c. \<not> separator c) (dec_int i)"
    using n h by (auto simp: dec_int_def separator_def)
qed

lemma token_lit_int: "token_lit (dec_int i) = L_int i"
proof -
  have "scan_int (dec_int i) = Scan_int i []"
    using scan_int_dec_int [of "[]" i] by (simp add: stops_digits_def)
  moreover have "dec_int i \<noteq> ''NULL''"
  proof
    assume e: "dec_int i = ''NULL''"
    have "isdigit (last (dec_nat n))" for n
      using dec_nat_digits [of n] dec_nat_not_Nil [of n] by (metis last_in_set list_all_iff)
    then have "isdigit (last (dec_int i))" by (simp add: dec_int_def)
    with e show False by (simp add: isdigit_def)
  qed
  ultimately show ?thesis by (simp add: token_lit_def)
qed

lemma mini_literals: "literal_law mini_env mini_database"
proof -
  have "mini_denotes ''NULL'' L_null"
    using denotes_token [of "''NULL''"] by (simp add: token_lit_def separator_def)
  moreover have "mini_denotes ''0.0'' (L_text ''0.0'')"
  proof -
    have "token_lit ''0.0'' = L_text ''0.0''" by code_simp
    with denotes_token [of "''0.0''"] show ?thesis by (simp add: separator_def)
  qed
  moreover have "mini_denotes (dec_int i) (L_int i)" for i
    using denotes_token [OF dec_int_token, of i] by (simp add: token_lit_int)
  moreover have "mini_denotes ([quote] @ t @ [quote]) (L_text t)" if "quote \<notin> set t" for t
    using denotes_doubled [of t] that by (simp add: doubled_plain)
  ultimately show ?thesis by (auto simp: literal_law_def mini_database_def mini_env_def null_env_def)
qed

lemma mini_escape: "escape_law mini_env mini_database"
  using denotes_doubled
  by (auto simp: escape_law_def mini_env_def mini_plugin_def null_plugin_def mini_database_def null_env_def plugin_sql_escape_def
      plugin_sql_escape_binary_def plugin_sql_unescape_binary_def)

section \<open>Statements that parse as printed\<close>

lemma strip_eq: "strip p t = Some r \<longleftrightarrow> t = p @ r"
  by (induction p t rule: strip.induct) auto

lemma takeWhile_stop: "list_all P xs \<Longrightarrow> ys = [] \<or> \<not> P (hd ys) \<Longrightarrow> takeWhile P (xs @ ys) = xs"
  by (induction xs) (cases ys; auto)+

lemma parse_denoted:
  "mini_denotes t l \<Longrightarrow> rest = [] \<or> separator (hd rest) \<Longrightarrow> parse_lit (t @ rest) = Some (l, rest)"
  by (auto simp: mini_denotes_def)

lemma parse_values_printed:
  "list_all2 mini_denotes vals ls \<Longrightarrow> vals \<noteq> [] \<Longrightarrow> length vals \<le> n \<Longrightarrow>
   parse_values n (joined '', '' vals @ '')'') = Some ls"
proof (induction vals arbitrary: ls n)
  case (Cons v vals)
  from Cons.prems obtain l ls' m where ls: "ls = l # ls'" "mini_denotes v l" "list_all2 mini_denotes vals ls'"
    and n: "n = Suc m" "length vals \<le> m" by (cases n) (auto simp: list_all2_Cons1)
  show ?case
  proof (cases vals)
    case Nil
    with ls n show ?thesis by (simp add: parse_denoted separator_def)
  next
    case (Cons u us)
    with Cons.IH [OF ls(3) _ n(2)] have IH: "parse_values m (joined '', '' vals @ '')'') = Some ls'" by simp
    have "joined '', '' (v # vals) @ '')'' = v @ ('', '' @ joined '', '' vals @ '')'')" using Cons by simp
    moreover have "parse_lit (v @ ('', '' @ joined '', '' vals @ '')'')) = Some (l, '', '' @ joined '', '' vals @ '')'')"
      by (rule parse_denoted [OF ls(2)]) (simp add: separator_def)
    ultimately show ?thesis using IH ls(1) n(1) by simp
  qed
qed simp

lemma parse_cond_printed:
  assumes "column_name c" "mini_denotes v l" "rest = [] \<or> separator (hd rest)"
  shows "parse_cond ((c @ '' = '' @ v) @ rest) = Some ((c, l), rest)"
proof -
  have "list_all (\<lambda>x. x \<noteq> CHR '' '') c" using assms(1) by (induction c) auto
  then have "takeWhile (\<lambda>x. x \<noteq> CHR '' '') (c @ ('' = '' @ v @ rest)) = c" by (rule takeWhile_stop) simp
  then show ?thesis
    using parse_denoted [OF assms(2,3)] strip_append [of "'' = ''" "v @ rest"]
    by (simp add: parse_cond_def Let_def)
qed

text \<open>What may follow the conditions: nothing, or a text that goes on with no further condition.\<close>

definition cond_end :: "string \<Rightarrow> bool" where
  "cond_end t \<longleftrightarrow> parse_cond t = None \<and> (t = [] \<or> separator (hd t)) \<and>
     (case strip '' AND '' t of None \<Rightarrow> True | Some r \<Rightarrow> parse_cond r = None)"

lemma cond_ends: "cond_end []" "cond_end listed_order" "cond_end count_tail"
  by (simp_all add: cond_end_def parse_cond_def listed_order_def count_tail_def separator_def)

lemma parse_conds_printed:
  assumes "cond_end rest"
  shows "list_all (\<lambda>c. column_name (fst c)) cs \<Longrightarrow> list_all2 mini_denotes (map snd cs) ls \<Longrightarrow> length cs \<le> n \<Longrightarrow>
    parse_conds n (conditions cs @ rest) = (zip (map fst cs) ls, rest)"
proof (induction cs arbitrary: ls n)
  case Nil
  with assms show ?case by (cases n) (simp_all add: conditions_def cond_end_def)
next
  case (Cons cv cs)
  obtain c v where cv: "cv = (c, v)" by (cases cv)
  from Cons.prems cv obtain l ls' m where ls: "ls = l # ls'" "mini_denotes v l" "list_all2 mini_denotes (map snd cs) ls'"
    and n: "n = Suc m" "length cs \<le> m" and c: "column_name c" "list_all (\<lambda>c. column_name (fst c)) cs"
    by (cases n) (auto simp: list_all2_Cons1)
  show ?case
  proof (cases cs)
    case Nil
    have "parse_cond ((c @ '' = '' @ v) @ rest) = Some ((c, l), rest)"
      using c(1) ls(2) assms by (intro parse_cond_printed) (auto simp: cond_end_def)
    with Nil cv ls n assms show ?thesis
      by (auto simp: conditions_def cond_end_def split: option.splits)
  next
    case (Cons d ds)
    have e: "conditions (cv # cs) @ rest = (c @ '' = '' @ v) @ ('' AND '' @ (conditions cs @ rest))"
      using Cons cv by (simp add: conditions_def)
    have p: "parse_cond ((c @ '' = '' @ v) @ ('' AND '' @ (conditions cs @ rest))) =
        Some ((c, l), '' AND '' @ (conditions cs @ rest))"
      by (rule parse_cond_printed [OF c(1) ls(2)]) (simp add: separator_def)
    have IH: "parse_conds m (conditions cs @ rest) = (zip (map fst cs) ls', rest)"
      by (rule Cons.IH [OF c(2) ls(3) n(2)])
    have ne: "parse_cond (conditions cs @ rest) \<noteq> None"
    proof -
      obtain m' where "m = Suc m'" using n(2) Cons by (cases m) auto
      with IH Cons ls(3) show ?thesis by (auto simp: list_all2_Cons1 split: option.splits)
    qed
    show ?thesis unfolding e n(1) using p IH ne strip_append [of "'' AND ''" "conditions cs @ rest"] cv ls(1)
      by simp
  qed
qed

lemma length_conditions: "length cs \<le> length (conditions cs)"
  by (induction cs rule: induct_list012) (auto simp: conditions_def)

lemma schema_table_word: "schema_table T \<Longrightarrow> list_all (\<lambda>x. x \<noteq> CHR '' '' \<and> x \<noteq> CHR '';'') T"
  by (auto simp: schema_table_def)

lemma parse_where_printed:
  assumes "schema_table T" "cond_end rest" "list_all (\<lambda>c. column_name (fst c)) cs" "list_all2 mini_denotes (map snd cs) ls"
  shows "parse_where (T @ '' WHERE '' @ conditions cs @ rest) = Some (T, zip (map fst cs) ls, rest)"
proof -
  have "list_all (\<lambda>x. x \<noteq> CHR '' '') T" using schema_table_word [OF assms(1)] by (simp add: list_all_iff)
  then have "takeWhile (\<lambda>x. x \<noteq> CHR '' '') (T @ ('' WHERE '' @ conditions cs @ rest)) = T"
    by (rule takeWhile_stop) simp
  moreover have "parse_conds (length (conditions cs @ rest)) (conditions cs @ rest) = (zip (map fst cs) ls, rest)"
    using length_conditions [of cs] by (intro parse_conds_printed [OF assms(2-4)]) simp
  ultimately show ?thesis using strip_append [of "'' WHERE ''" "conditions cs @ rest"]
    by (simp add: parse_where_def Let_def)
qed

end
