(* ===== verification/MiniDatabase.thy ===== *)
theory MiniDatabase
  imports MiniSql
begin

text \<open>
  The interpreter of \<open>MiniSql\<close> meets the hypothesis \<open>sql_database\<close>, law by law.
\<close>

section \<open>Results\<close>

lemma mini_parts [simp]:
  "denotes mini_database = mini_denotes"
  "db_rows (contents mini_database w) = mset (m_rows (session w))"
  "db_next (contents mini_database w) = m_next (session w)"
  "db_pending (contents mini_database w) = map_of (m_pending (session w))"
  "db_fetched (contents mini_database w) = m_fetched (session w)"
  by (simp_all add: mini_database_def)

lemma mini_plugin_query: "pl_query (env_plugin mini_env) q = in_session (mini_query q)"
  by (simp add: mini_env_def mini_plugin_def)

lemma foldr_max: "x \<in> set xs \<Longrightarrow> x \<le> foldr max xs (a :: 'a :: linorder)"
  by (induction xs) (auto simp: le_max_iff_disj)

lemma fresh_handle: "map_of xs (Suc (foldr max (map fst xs) 0)) = None"
proof (rule ccontr)
  assume "map_of xs (Suc (foldr max (map fst xs) 0)) \<noteq> None"
  then have "Suc (foldr max (map fst xs) 0) \<in> set (map fst xs)"
    by (auto dest: map_of_SomeD intro: rev_image_eqI)
  then show False using foldr_max [of _ "map fst xs" 0] by fastforce
qed

lemma mini_open_answers: "answers mini_env mini_database w rs (in_session (mini_open rs) w)"
  using fresh_handle [of "m_pending (session w)"]
  by (auto simp: answers_def in_session_def mini_open_def Let_def mini_env_def mini_plugin_def mini_database_def)

lemma mini_result: "result_law mini_env mini_database"
proof -
  have [simp]: "plugin_sql_fetch_row (env_plugin mini_env) t = in_session (mini_fetch_row t)"
    "plugin_sql_fetch_field (env_plugin mini_env) t h c = in_session (mini_fetch_field t h c)"
    "pl_resource_destroy (env_plugin mini_env) t w =
       w\<lparr>session := (session w)\<lparr>m_pending := AList.delete t (m_pending (session w))\<rparr>\<rparr>" for t h c w
    by (simp_all add: plugin_sql_fetch_row_def plugin_sql_fetch_field_def mini_env_def mini_plugin_def)
  show ?thesis
    by (auto simp: result_law_def in_session_def mini_fetch_row_def mini_fetch_field_def mini_database_def delete_conv')
qed

lemma mini_bracket: "bracket_law mini_env mini_database"
  by (auto simp: bracket_law_def mini_plugin_query in_session_def mini_query_def)

section \<open>Insertion\<close>

lemma column_text_stop: "column_text t \<Longrightarrow> list_all (\<lambda>x. x \<noteq> CHR '')'') t"
  by (induction t) auto

lemma mini_insert_printed:
  assumes "schema_table T" "column_text cols" "list_all2 mini_denotes vals ls" "vals \<noteq> []"
  shows "mini_query (insert_text T cols (joined '', '' vals)) w =
    (Inr None, w\<lparr>m_rows := m_rows w @ [(T, (if numbered T then [(''_ident'', L_int (m_next w T))] else []) @
                                     zip (column_names cols) ls)],
                 m_next := (if numbered T then (m_next w)(T := m_next w T + 1) else m_next w)\<rparr>)"
proof -
  let ?v = "joined '', '' vals @ '')''"
  have q: "insert_text T cols (joined '', '' vals) = ''INSERT INTO '' @ (T @ ('' ('' @ (cols @ ('') VALUES('' @ ?v))))"
    by (simp add: insert_text_def)
  have "list_all (\<lambda>x. x \<noteq> CHR '' '') T" using schema_table_word [OF assms(1)] by (simp add: list_all_iff)
  then have T: "takeWhile (\<lambda>x. x \<noteq> CHR '' '') (T @ ('' ('' @ (cols @ ('') VALUES('' @ ?v)))) = T"
    by (rule takeWhile_stop) simp
  have c: "takeWhile (\<lambda>x. x \<noteq> CHR '')'') (cols @ ('') VALUES('' @ ?v)) = cols"
    by (rule takeWhile_stop [OF column_text_stop [OF assms(2)]]) simp
  have n: "length vals \<le> length ?v"
    by (induction vals rule: induct_list012) auto
  show ?thesis
    unfolding q using T c parse_values_printed [OF assms(3,4) n]
      strip_append [of "''INSERT INTO ''" "T @ ('' ('' @ (cols @ ('') VALUES('' @ ?v)))"]
      strip_append [of "'' (''" "cols @ ('') VALUES('' @ ?v)"] strip_append [of "'') VALUES(''" ?v]
    by (simp add: mini_query_def mini_insert_def Let_def)
qed

lemma column_names_nonempty: "column_names t \<noteq> []"
proof -
  have "split_columns acc t \<noteq> []" for acc by (induction t arbitrary: acc) auto
  then show ?thesis by (simp add: column_names_def)
qed

lemma mini_inserts: "insert_law mini_env mini_database"
  unfolding insert_law_def
proof (intro allI impI, elim conjE)
  fix T cols vals ls and w :: "mini world"
  assume a: "schema_table T" "column_text cols" "list_all2 (denotes mini_database) vals ls"
    and n: "length (column_names cols) = length vals"
  from n have "vals \<noteq> []" using column_names_nonempty [of cols] by auto
  with mini_insert_printed [OF a(1,2) _ this, of ls "session w"] a(3)
  show "\<exists>w' i. pl_query (env_plugin mini_env) (insert_text T cols (joined '', '' vals)) w = (Inr None, w') \<and>
      db_next (contents mini_database w) T < i \<and>
      contents mini_database w' = (contents mini_database w)
        \<lparr>db_rows := add_mset (new_row (contents mini_database w) T cols ls) (db_rows (contents mini_database w)),
         db_next := (if numbered T then (db_next (contents mini_database w))(T := i)
                     else db_next (contents mini_database w))\<rparr>"
    by (auto simp: mini_plugin_query in_session_def mini_database_def new_row_def
        intro!: exI [of _ "m_next (session w) T + 1"])
qed

section \<open>Queries\<close>

lemma mini_select_query:
  assumes "column_text cols"
  shows "mini_query (''SELECT '' @ cols @ '' FROM '' @ u) w =
    (case parse_where u of
       None \<Rightarrow> mini_error w
     | Some (T, cs, rest) \<Rightarrow>
         if rest = [] then mini_open (mini_select cols T cs False w) w
         else if rest = listed_order then mini_open (mini_select cols T cs True w) w
         else mini_error w)"
proof -
  let ?t = "cols @ '' FROM '' @ u"
  have sp: "column_list_char CHR '' ''" "\<not> column_list_char CHR ''F''"
    by (simp_all add: column_list_char_def Let_def)
  have "list_all column_list_char cols" using assms by (induction cols) (auto simp: column_list_char_def)
  then have "list_all column_list_char (cols @ '' '')" using sp by simp
  then have "takeWhile column_list_char ((cols @ '' '') @ (''FROM '' @ u)) = cols @ '' ''"
    by (rule takeWhile_stop) (simp add: sp)
  then have t: "takeWhile column_list_char ?t = cols @ '' ''" by simp
  have n: "strip p ?t = None" if "takeWhile column_list_char p = q" "q \<noteq> p" "\<And>xs. q \<noteq> xs @ '' ''" for p q
  proof (rule ccontr)
    assume "\<not> ?thesis"
    then obtain r where "?t = p @ r" by (auto simp: strip_eq)
    with t have "takeWhile column_list_char (p @ r) = cols @ '' ''" by simp
    moreover have "takeWhile column_list_char (p @ r) = q"
      using that(1,2) by (metis takeWhile_append1 takeWhile_eq_all_conv)
    ultimately show False using that(3) by auto
  qed
  have "strip ''COUNT(*) FROM '' ?t = None"
    by (rule n [of _ "[]"]) (simp_all add: column_list_char_def Let_def)
  moreover have "strip ''max(_ident) FROM '' ?t = None"
  proof (rule n [of _ "''max''"])
    show "''max'' \<noteq> xs @ '' ''" for xs
    proof
      assume "''max'' = xs @ '' ''"
      then have "last ''max'' = last (xs @ '' '')" by (rule arg_cong)
      then show False by simp
    qed
  qed (simp_all add: column_list_char_def Let_def)
  moreover have "drop (length (cols @ '' '')) ?t = ''FROM '' @ u" by simp
  moreover have "strip ''INSERT INTO '' (''SELECT '' @ ?t) = None" "strip ''SELECT '' (''SELECT '' @ ?t) = Some ?t"
    "strip ''SELECT COUNT(*) FROM '' (''SELECT '' @ ?t) = strip ''COUNT(*) FROM '' ?t"
    "strip ''SELECT max(_ident) FROM '' (''SELECT '' @ ?t) = strip ''max(_ident) FROM '' ?t"
    "''SELECT '' @ ?t \<noteq> ''BEGIN''" "''SELECT '' @ ?t \<noteq> ''COMMIT''"
    by simp_all
  ultimately show ?thesis
    unfolding mini_query_def Let_def by (simp only: t option.case if_False simp_thms strip_append butlast_snoc)
qed

lemma mini_selected:
  "selected cols T cs listed (mset rows)
     (map (fields_of cols) ((if listed then sort_key index_of else id) (filter (matches T cs listed) rows)))"
  unfolding selected_def by (intro exI conjI) (auto simp: mset_filter)

lemma mini_selects: "select_law mini_env mini_database"
  unfolding select_law_def
proof (intro allI impI, elim conjE)
  fix cols T ls listed and cs :: "(string \<times> string) list" and w :: "mini world"
  assume a: "schema_table T" "column_text cols" "list_all (\<lambda>c. column_name (fst c)) cs"
    "list_all2 (denotes mini_database) (map snd cs) ls"
  let ?rs = "mini_select cols T (zip (map fst cs) ls) listed (session w)"
  have p: "parse_where (T @ '' WHERE '' @ conditions cs @ rest) = Some (T, zip (map fst cs) ls, rest)"
    if "rest = (if listed then listed_order else [])" for rest
    using a that by (intro parse_where_printed) (auto simp: cond_ends)
  have "listed_order \<noteq> []" by (simp add: listed_order_def)
  with p [OF refl] mini_select_query [OF a(2), of "T @ '' WHERE '' @ conditions cs @ (if listed then listed_order else [])" "session w"]
  have "mini_query (select_text cols T cs listed) (session w) = mini_open ?rs (session w)"
    by (simp add: select_text_def split: if_splits)
  then have "answers mini_env mini_database w ?rs (pl_query (env_plugin mini_env) (select_text cols T cs listed) w)"
    using mini_open_answers [of w ?rs] by (simp add: mini_plugin_query in_session_def)
  then show "\<exists>rs. selected cols T (zip (map fst cs) ls) listed (db_rows (contents mini_database w)) rs \<and>
      answers mini_env mini_database w rs (pl_query (env_plugin mini_env) (select_text cols T cs listed) w)"
    using mini_selected [of cols T "zip (map fst cs) ls" listed "m_rows (session w)"] by (auto simp: mini_select_def)
qed

lemma mini_counts: "count_law mini_env mini_database"
  unfolding count_law_def
proof (intro allI impI, elim conjE)
  fix T ls and cs :: "(string \<times> string) list" and w :: "mini world"
  assume a: "schema_table T" "list_all (\<lambda>c. column_name (fst c)) cs" "list_all2 (denotes mini_database) (map snd cs) ls"
  let ?u = "T @ '' WHERE '' @ conditions cs @ count_tail"
  have "parse_where ?u = Some (T, zip (map fst cs) ls, count_tail)"
    using a by (intro parse_where_printed) (auto simp: cond_ends)
  moreover have "count_text T cs = ''SELECT COUNT(*) FROM '' @ ?u"
    by (simp add: count_text_def count_tail_def)
  ultimately have "mini_query (count_text T cs) (session w) =
      mini_open [[Some (dec_nat (size (filter_mset (matches T (zip (map fst cs) ls) True) (mset (m_rows (session w))))))]] (session w)"
    using strip_append [of "''SELECT COUNT(*) FROM ''" ?u] by (simp add: mini_query_def flip: mset_filter)
  then show "answers mini_env mini_database w
      [[Some (dec_nat (size (filter_mset (matches T (zip (map fst cs) ls) True) (db_rows (contents mini_database w)))))]]
      (pl_query (env_plugin mini_env) (count_text T cs) w)"
    using mini_open_answers [of w] by (simp add: mini_plugin_query in_session_def)
qed

lemma foldr_max_is: "i \<in> set (j # js) \<Longrightarrow> (\<And>x. x \<in> set (j # js) \<Longrightarrow> x \<le> i) \<Longrightarrow> foldr max js j = (i :: int)"
proof -
  assume a: "i \<in> set (j # js)" "\<And>x. x \<in> set (j # js) \<Longrightarrow> x \<le> i"
  have "foldr max js j \<in> set (j # js)" by (induction js) (auto simp: max_def)
  moreover have "x \<le> foldr max js j" if "x \<in> set (j # js)" for x
    using that by (induction js) (auto simp: le_max_iff_disj)
  ultimately show ?thesis using a by (meson order.antisym)
qed

lemma mini_max: "max_law mini_env mini_database"
  unfolding max_law_def
proof (intro allI impI, elim conjE)
  fix T i and w :: "mini world"
  assume a: "schema_table T" and ex: "\<exists>r \<in># db_rows (contents mini_database w). fst r = T \<and> cell r ''_ident'' = L_int i"
    and all: "\<forall>r \<in># db_rows (contents mini_database w). fst r = T \<longrightarrow> (\<exists>j. cell r ''_ident'' = L_int j \<and> j \<le> i)"
  let ?js = "idents_of T (m_rows (session w))"
  have "i \<in> set ?js" using ex by (force simp: idents_of_def)
  moreover have "x \<le> i" if "x \<in> set ?js" for x using that all by (fastforce simp: idents_of_def)
  ultimately have m: "max_ident ?js = Some (dec_int i)"
    using foldr_max_is by (cases ?js) (auto simp: max_ident_def)
  have "list_all (\<lambda>x. x \<noteq> CHR '';'') T" using schema_table_word [OF a] by (simp add: list_all_iff)
  then have "takeWhile (\<lambda>x. x \<noteq> CHR '';'') (T @ '';'') = T" by (rule takeWhile_stop) simp
  then have "mini_query (last_ident_query T) (session w) = mini_open [[Some (dec_int i)]] (session w)"
    using m strip_append [of "''SELECT max(_ident) FROM ''" "T @ '';''"]
    by (simp add: mini_query_def last_ident_query_def)
  then show "answers mini_env mini_database w [[Some (dec_int i)]] (pl_query (env_plugin mini_env) (last_ident_query T) w)"
    using mini_open_answers [of w] by (simp add: mini_plugin_query in_session_def)
qed

lemma mini_sql_database: "sql_database mini_env mini_database"
  unfolding sql_database_def
  by (intro conjI mini_literals mini_escape mini_inserts mini_selects mini_counts mini_max mini_bracket mini_result)

end
