(* ===== verification/HeartbeatBack.thy ===== *)
theory HeartbeatBack
  imports MessageIdents MiniDatabase
begin

text \<open>
  A heartbeat through the database: what its insertion leaves there, and that reading the
  ident back gives the heartbeat.
\<close>

section \<open>The rows of a heartbeat\<close>

definition heartbeat_row :: "int \<Rightarrow> idmef_heartbeat \<Rightarrow> sql_row" where
  "heartbeat_row m h = (''Requiem_Heartbeat'',
     [(''_ident'', L_int m), (''messageid'', str_lit (heartbeat_messageid h)),
      (''heartbeat_interval'', num_lit (heartbeat_heartbeat_interval h))])"

lemma keyed_analyzer_rows:
  "list_all (keyed [''Requiem_Analyzer'', ''Requiem_Node'', ''Requiem_Address'', ''Requiem_Process'', ''Requiem_ProcessArg'',
     ''Requiem_ProcessEnv''] (typed_key p m)) (analyzer_rows E p m i a)"
proof -
  have w: "list_all (keyed Ts (key @ xs)) L \<Longrightarrow> set Ts \<subseteq> set Ts' \<Longrightarrow> list_all (keyed Ts' key) L" for Ts Ts' key xs L
    by (auto simp: keyed_def list_all_iff)
  let ?Ts = "[''Requiem_Analyzer'', ''Requiem_Node'', ''Requiem_Address'', ''Requiem_Process'', ''Requiem_ProcessArg'',
     ''Requiem_ProcessEnv'']"
  have "keyed ?Ts (typed_key p m) (analyzer_row p m i a)" by (simp add: keyed_def analyzer_row_def cell_simps)
  moreover have "list_all (keyed ?Ts (typed_key p m)) (node_rows E p m i (analyzer_node a))"
    by (rule w [OF keyed_node_rows]) simp
  moreover have "list_all (keyed ?Ts (typed_key p m)) (process_rows p m i (analyzer_process a))"
    by (rule w [OF keyed_process_rows]) simp
  ultimately show ?thesis by (simp add: analyzer_rows_def)
qed

lemma keyed_of_heartbeat:
  "list_all (keyed Ts (typed_key CHR ''H'' m)) L \<Longrightarrow> \<not> list_ex numbered Ts \<Longrightarrow> list_all typed_table Ts \<Longrightarrow>
   list_all (row_of_message ''Requiem_Heartbeat'' m) L"
  by (auto simp: list_all_iff list_ex_iff keyed_def typed_key_def row_of_message_def message_of_row_def)

lemma heartbeat_rows_of_message: "list_all (row_of_message ''Requiem_Heartbeat'' m) (heartbeat_rows E V m h)"
proof -
  have a: "list_all (row_of_message ''Requiem_Heartbeat'' m) (indexed_rows (analyzer_rows E CHR ''H'' m) xs)" for xs
    by (rule keyed_of_heartbeat [OF keyed_indexed [OF keyed_analyzer_rows]]) (simp_all add: numbered_def typed_table_def)
  have d: "list_all (row_of_message ''Requiem_Heartbeat'' m) (indexed_rows (\<lambda>i a. [additional_data_row E V CHR ''H'' m i a]) xs)" for xs
    by (rule keyed_of_heartbeat [where Ts = "[''Requiem_AdditionalData'']", OF keyed_indexed])
      (simp_all add: keyed_def additional_data_row_def cell_simps numbered_def typed_table_def)
  have t: "row_of_message ''Requiem_Heartbeat'' m (time_row E T (typed_key CHR ''H'' m) t)" if "\<not> numbered T" "typed_table T" for T t
    using that by (simp add: row_of_message_def message_of_row_def time_row_def cell_simps)
  show ?thesis
    by (simp add: heartbeat_rows_def a d t optional_rows_def numbered_def typed_table_def split: option.split)
qed

lemma insert_heartbeat_run:
  assumes db: "sql_database E V" and c: "connected s" and ok: "heartbeat_ok E h"
    and m: "m = db_next (database_of V s) ''Requiem_Heartbeat''" "0 \<le> m" "m < 2 ^ 64"
    and given: "idents_given (database_of V s)"
  shows "\<exists>s'. insert_body E (Message_heartbeat (Some h)) s = (Inr (), s') \<and> same_session s s' \<and>
    db_rows (database_of V s') = db_rows (database_of V s) + mset (heartbeat_row m h # heartbeat_rows E V m h) \<and>
    idents_given (database_of V s')"
proof -
  from writes_esc_string [OF db] c obtain t s0 where e: "esc_string E (heartbeat_messageid h) s = (Inr t, s0)"
    "same_session s s0" and s0: "denotes V t (str_lit (heartbeat_messageid h))"
    "db_rows (database_of V s0) = db_rows (database_of V s) + mset []" "db_next (database_of V s0) = db_next (database_of V s)"
    by (rule writesE)
  have c0: "connected s0" using c e(2) by (simp add: same_session_connected)
  have given0: "idents_given (database_of V s0)" using given s0 by (simp add: idents_given_def)
  have vals: "list_all2 (denotes V) [t, opt_uint 16 (heartbeat_heartbeat_interval h)]
      [str_lit (heartbeat_messageid h), num_lit (heartbeat_heartbeat_interval h)]"
    using s0(1) denotes_opt_uint [OF db, of 9 16 "heartbeat_heartbeat_interval h"] by simp
  have names: "length (column_names ''messageid, heartbeat_interval'') =
      length [t, opt_uint 16 (heartbeat_heartbeat_interval h)]" by (simp add: column_names_def)
  have m0: "m = db_next (database_of V s0) ''Requiem_Heartbeat''" using m(1) s0(3) by simp
  have T: "numbered ''Requiem_Heartbeat''" by (simp add: numbered_def)
  have cols: "column_text ''messageid, heartbeat_interval''" by simp
  obtain s1 where run: "bindr (store E ''Requiem_Heartbeat'' ''messageid, heartbeat_interval''
        [t, opt_uint 16 (heartbeat_heartbeat_interval h)])
      (\<lambda>_. bindr (get_last_insert_ident E ''Requiem_Heartbeat'') (insert_heartbeat_objects E h)) s0 =
      insert_heartbeat_objects E h m s1" and s1: "same_session s0 s1"
    and rows1: "db_rows (database_of V s1) = add_mset (''Requiem_Heartbeat'', (''_ident'', L_int m) #
        zip (column_names ''messageid, heartbeat_interval'')
          [str_lit (heartbeat_messageid h), num_lit (heartbeat_heartbeat_interval h)]) (db_rows (database_of V s0))"
    and given1: "m < db_next (database_of V s1) ''Requiem_Heartbeat''" "idents_given (database_of V s1)"
    by (rule message_row_run [OF db c0 T vals names cols m0 m(2,3) given0])
  have r: "db_rows (database_of V s1) = add_mset (heartbeat_row m h) (db_rows (database_of V s))"
    using rows1 s0(2) by (simp add: heartbeat_row_def column_names_def)
  have "connected s1" using c0 s1 by (simp add: same_session_connected)
  with writes_heartbeat_objects [OF db ok] obtain x s2 where s2: "insert_heartbeat_objects E h m s1 = (Inr x, s2)"
    "same_session s1 s2" "db_rows (database_of V s2) = db_rows (database_of V s1) + mset (heartbeat_rows E V m h)"
    "db_next (database_of V s2) = db_next (database_of V s1)"
    by (rule writesE)
  have "same_session s s2" using e(2) s1 s2(2) by (blast intro: same_session_trans)
  moreover have "insert_body E (Message_heartbeat (Some h)) s = (Inr (), s2)"
    using e(1) run s2(1) by (simp add: insert_body_def insert_heartbeat_def insert_optional_def)
  moreover have "idents_given (database_of V s2)"
    by (rule rows_below [OF heartbeat_rows_of_message given1 s2(3,4)])
  ultimately show ?thesis using r s2(3) by auto
qed

section \<open>Reading it back\<close>

definition norm_heartbeat :: "'w env \<Rightarrow> 'w database \<Rightarrow> idmef_heartbeat \<Rightarrow> idmef_heartbeat" where
  "norm_heartbeat E V h =
     \<lparr>heartbeat_messageid = norm_str (heartbeat_messageid h),
      heartbeat_heartbeat_interval = heartbeat_heartbeat_interval h,
      heartbeat_create_time = heartbeat_create_time h, heartbeat_analyzer_time = heartbeat_analyzer_time h,
      heartbeat_analyzers = map (norm_analyzer E) (heartbeat_analyzers h),
      heartbeat_additional_data = map (norm_additional_data E V) (heartbeat_additional_data h)\<rparr>"

definition heartbeat_readable :: "'w env \<Rightarrow> 'w database \<Rightarrow> nat \<Rightarrow> idmef_heartbeat \<Rightarrow> bool" where
  "heartbeat_readable E V k h \<longleftrightarrow>
     list_all (analyzer_fits k) (heartbeat_analyzers h) \<and> length (heartbeat_analyzers h) < k \<and>
     length (heartbeat_analyzers h) \<le> 128 \<and>
     list_all (additional_data_ok E V) (heartbeat_additional_data h) \<and> length (heartbeat_additional_data h) < k"

lemma reads_heartbeat:
  assumes db: "sql_database E V" and ok: "heartbeat_ok E h" and fits: "heartbeat_readable E V k h"
    and given: "idents_given c" and m: "m = db_next c ''Requiem_Heartbeat''"
    and D: "D = db_rows c + mset (heartbeat_row m h # heartbeat_rows E V m h)"
  shows "reads V D (\<lambda>_. True) (norm_heartbeat E V h) (get_heartbeat_objects k E m)"
proof -
  let ?key = "typed_key CHR ''H'' m"
  let ?analyzers = "[''Requiem_Analyzer'', ''Requiem_Node'', ''Requiem_Address'', ''Requiem_Process'', ''Requiem_ProcessArg'',
    ''Requiem_ProcessEnv'']"
  have p: "parent_char CHR ''H''" by (simp add: parent_char_def)
  have new: "filter_mset (matches T cs l) D = mset (filter (matches T cs l) (heartbeat_rows E V m h))"
    if "set ?key \<subseteq> set cs" "\<not> numbered T" "typed_table T" for T cs l
  proof -
    have "\<not> matches T cs l (heartbeat_row m h)"
      using that(2) by (intro no_match) (auto simp: heartbeat_row_def numbered_def)
    moreover have k: "(''_message_ident'', L_int m) \<in> set cs" "(''_parent_type'', L_text ''H'') \<in> set cs"
      using that(1) by (auto simp: typed_key_def)
    moreover have "filter_mset (matches T cs l) (db_rows c) = {#}"
      by (rule older_rows [OF given m k(1) that(2)]) (simp add: that(3) k(2))
    ultimately show ?thesis using D by simp
  qed
  have tables: "filter (matches T cs l) (indexed_rows (analyzer_rows E CHR ''H'' m) xs) = []" if "T \<notin> set ?analyzers" for T cs l xs
    by (rule keyed_other_table [OF keyed_indexed [OF keyed_analyzer_rows] that])
  have data: "filter (matches T cs l) (indexed_rows (\<lambda>i a. [additional_data_row E V CHR ''H'' m i a]) xs) = []"
    if "T \<noteq> ''Requiem_AdditionalData''" for T cs l xs
    by (rule filter_indexed_none) (use that in \<open>simp add: row_facts\<close>)
  have analyzer_time: "filter (matches T cs l) (optional_rows (\<lambda>x. [time_row E T' key (Some x)]) t) = []" if "T \<noteq> T'"
    for T T' cs l key t
    by (rule filter_optional_none) (use that in \<open>simp add: row_facts\<close>)
  note find = new heartbeat_rows_def numbered_def typed_table_def tables data analyzer_time row_facts
  have analyzers: "holds D ?key ?analyzers (indexed_rows (analyzer_rows E CHR ''H'' m) (heartbeat_analyzers h))"
    unfolding holds_def by (auto simp: find simp del: mset_filter)
  have ads: "holds D ?key [''Requiem_AdditionalData''] (indexed_rows (\<lambda>i a. [additional_data_row E V CHR ''H'' m i a]) (heartbeat_additional_data h))"
    unfolding holds_def by (auto simp: find simp del: mset_filter)
  have create: "filter_mset (matches ''Requiem_CreateTime'' ?key False) D =
      mset (case Some (heartbeat_create_time h) of None \<Rightarrow> [] | Some t \<Rightarrow> [time_row E ''Requiem_CreateTime'' ?key t])"
    by (simp add: find del: mset_filter) (simp add: match_simps time_row_def)
  have analyzer: "filter_mset (matches ''Requiem_AnalyzerTime'' ?key False) D =
      mset (case map_option Some (heartbeat_analyzer_time h) of None \<Rightarrow> [] | Some t \<Rightarrow> [time_row E ''Requiem_AnalyzerTime'' ?key t])"
    by (simp add: find del: mset_filter) (simp add: match_simps time_row_def optional_rows_def split: option.split)
  have times: "reads V D (\<lambda>_. True) (heartbeat_create_time h) (get_create_time E m CHR ''H'')"
    "reads V D (\<lambda>_. True) (heartbeat_analyzer_time h) (get_analyzer_time E m CHR ''H'')"
  proof -
    have k: "list_all plain_cond ?key"
      "of_typed_message CHR ''H'' m = conditions (map (\<lambda>(c, v). (c, lit_text v)) ?key)"
      "\<And>c. c \<in> set [''time'', ''gmtoff'', ''usec''] \<Longrightarrow> c \<notin> fst ` set ?key"
      using p by (simp, simp add: query_simps) (auto simp: typed_key_def)
    show "reads V D (\<lambda>_. True) (heartbeat_create_time h) (get_create_time E m CHR ''H'')"
      unfolding get_create_time_def
      using reads_time_of [OF db _ k(1,2,3) create] ok by (simp add: schema_table_def heartbeat_ok_def)
    show "reads V D (\<lambda>_. True) (heartbeat_analyzer_time h) (get_analyzer_time E m CHR ''H'')"
      unfolding get_analyzer_time_def
      using reads_time_of [OF db _ k(1,2,3) analyzer] ok
      by (cases "heartbeat_analyzer_time h") (auto simp: schema_table_def heartbeat_ok_def)
  qed
  have row: "reads V D (\<lambda>_. True) (norm_str (heartbeat_messageid h), heartbeat_heartbeat_interval h) (get_heartbeat_row E m)"
    unfolding get_heartbeat_row_def
  proof (rule reads_message_row [OF db, where T = "''Requiem_Heartbeat''" and cs = "[(''_ident'', L_int m)]"])
    show "''SELECT messageid, heartbeat_interval FROM Requiem_Heartbeat WHERE _ident = '' @ dec_int m =
        select_query ''messageid, heartbeat_interval'' ''Requiem_Heartbeat'' [(''_ident'', L_int m)] False"
      by (simp add: query_simps)
    have "\<not> matches ''Requiem_Heartbeat'' [(''_ident'', L_int m)] False r" if "r \<in># db_rows c" for r
      using given that m by (auto simp: idents_given_def ident_below_def matches_def numbered_def)
    then have "filter_mset (matches ''Requiem_Heartbeat'' [(''_ident'', L_int m)] False) (db_rows c) = {#}"
      by (simp add: filter_mset_eq_conv)
    moreover have "filter (matches ''Requiem_Heartbeat'' [(''_ident'', L_int m)] False) (heartbeat_rows E V m h) = []"
      by (simp add: heartbeat_rows_def tables data analyzer_time row_facts)
    moreover have "matches ''Requiem_Heartbeat'' [(''_ident'', L_int m)] False (heartbeat_row m h)"
      by (simp add: match_simps heartbeat_row_def)
    ultimately show "filter_mset (matches ''Requiem_Heartbeat'' [(''_ident'', L_int m)] False) D = mset [heartbeat_row m h]"
      by (simp add: D del: mset_filter add: mset_filter [symmetric])
    have f: "fields_of ''messageid, heartbeat_interval'' (heartbeat_row m h) =
        map lit_field [str_lit (heartbeat_messageid h), num_lit (heartbeat_heartbeat_interval h)]"
      by (simp add: cell_simps heartbeat_row_def)
    show "reads V D (at_row t r (fields_of ''messageid, heartbeat_interval'' (heartbeat_row m h)))
        (norm_str (heartbeat_messageid h), heartbeat_heartbeat_interval h)
        (bindr (get_string_field E t r 0) (\<lambda>messageid. bindr (get_uint32 E t r 1) (\<lambda>interval. retn (messageid, interval))))"
      for t r
      unfolding f by ((rule reads_bindr [OF stable_at_row], rule field_reads, rule db, simp, simp)+) simp
  qed (simp_all add: schema_table_def)
  have all: "list_all (\<lambda>a. analyzer_ok a \<and> analyzer_fits k a) (heartbeat_analyzers h)"
    using ok fits by (simp add: heartbeat_ok_def heartbeat_readable_def list_all_iff)
  show ?thesis
    unfolding get_heartbeat_objects_def norm_heartbeat_def
    apply (rule reads_bindr [OF stable_True row], simp only: prod.case)
    apply (rule reads_bindr [OF stable_True reads_analyzers [OF db p analyzers all]])
      apply (use fits in \<open>simp_all add: heartbeat_readable_def\<close>)[2]
    apply (rule reads_bindr [OF stable_True times(1)], rule reads_bindr [OF stable_True times(2)])
    apply (rule reads_bindr [OF stable_True reads_additional_data [OF db p ads]])
      apply (use fits in \<open>simp_all add: heartbeat_readable_def\<close>)[2]
    by simp
qed

text \<open>
  C3.  Round trip of a heartbeat.  On a connection to a database as \<open>sql_database\<close> describes it,
  whose rows carry only idents it has handed out, a heartbeat is inserted without error, and
  reading the ident it got gives it back, with every older row still there, up to what the text columns can hold
  (\<open>norm_heartbeat\<close>): strings end at their first NUL, a string without buffer comes back as
  an empty one, enumerations go through their names, and data is typed anew.  There are at most
  128 analyzers: their index must fit the \<open>char\<close> of \<open>get_process_arg\<close>.
\<close>
theorem heartbeat_roundtrip:
  assumes "sql_database E V" "can_begin s" "idents_given (database_of V s)"
    and "ident = db_next (database_of V s) ''Requiem_Heartbeat''" "0 \<le> ident" "ident < 2 ^ 64"
    and "heartbeat_ok E h" "heartbeat_readable E V k h"
  shows "\<exists>s'. classic_insert E (Some (Message_heartbeat (Some h))) s = (Inr 0, s') \<and>
    fst (classic_get_heartbeat k E (word_of_int ident) s') = Inr (Message_heartbeat (Some (norm_heartbeat E V h))) \<and>
    db_rows (database_of V s) \<subseteq># db_rows (database_of V s') \<and> can_begin s' \<and> idents_given (database_of V s')"
proof -
  let ?D = "db_rows (database_of V s) + mset (heartbeat_row ident h # heartbeat_rows E V ident h)"
  have "\<exists>y s2. insert_body E (Message_heartbeat (Some h)) s1 = (Inr y, s2) \<and> same_session s1 s2 \<and>
      (db_rows (database_of V s2) = ?D \<and> idents_given (database_of V s2))" if "connected s1" "database_of V s1 = database_of V s" for s1
    using insert_heartbeat_run [OF assms(1) that(1) assms(7) _ assms(5,6)] that(2) assms(3,4) by auto
  from transactionally_run [OF assms(1,2), where P = "\<lambda>d. db_rows d = ?D \<and> idents_given d", OF this]
  obtain s' where s': "classic_insert E (Some (Message_heartbeat (Some h))) s = (Inr 0, s')" "can_begin s'"
    "db_rows (database_of V s') = ?D" "idents_given (database_of V s')" by (auto simp: classic_insert_def)
  then have "connected s'" by (simp add: can_begin_def)
  have "reads V ?D (\<lambda>_. True) (norm_heartbeat E V h) (get_heartbeat_objects k E ident)"
    by (rule reads_heartbeat [OF assms(1,7,8,3,4)]) simp
  with s' \<open>connected s'\<close> obtain s3 where "get_heartbeat_objects k E ident s' = (Inr (norm_heartbeat E V h), s3)"
    unfolding reads_def by blast
  moreover have "uint (word_of_int ident :: 64 word) = ident" using assms(5,6) by (simp add: uint_word_of_int)
  ultimately show ?thesis using s' by (simp add: classic_get_heartbeat_def)
qed

text \<open>A heartbeat with an analyzer on a node, a process and a string, on a database with one row.\<close>

definition mini_heartbeat :: idmef_heartbeat where
  "mini_heartbeat =
     \<lparr>heartbeat_messageid = Some (Some ''it's up''), heartbeat_heartbeat_interval = Some 600,
      heartbeat_create_time = Some \<lparr>time_sec = 0, time_usec = 5, time_gmtoff = - 3600\<rparr>, heartbeat_analyzer_time = None,
      heartbeat_analyzers =
        [\<lparr>analyzer_analyzerid = Some (Some ''a1''), analyzer_name = None, analyzer_manufacturer = None, analyzer_model = None,
          analyzer_version = None, analyzer_class = None, analyzer_ostype = Some (Some ''Linux''), analyzer_osversion = None,
          analyzer_node = Some
            \<lparr>node_ident = None, node_category = 0, node_location = None, node_name = Some (Some ''gw''),
             node_addresses =
               [\<lparr>address_ident = None, address_category = 0, address_vlan_name = None, address_vlan_num = Some (- 7),
                 address_address = Some (Some ''10.0.0.1''), address_netmask = None\<rparr>]\<rparr>,
          analyzer_process = Some
            \<lparr>process_ident = None, process_name = Some (Some ''sensor''), process_pid = Some 4711, process_path = None,
             process_args = [Some ''-d'', Some ''-v''], process_envs = []\<rparr>\<rparr>],
      heartbeat_additional_data =
        [\<lparr>ad_type = 1, ad_meaning = None,
          ad_data = Some \<lparr>data_type_of = DATA_CHAR_STRING, data_bytes = ''x y'' @ [NUL], data_to_string = Inr ''x y''\<rparr>\<rparr>]\<rparr>"

definition mini_sql :: "mini sql" where
  "mini_sql = (sql_fresh settings_new \<lparr>thread_error = None, session =
      \<lparr>m_rows = [(''Requiem_Analyzer'', [(''_parent_type'', L_text ''H''), (''_message_ident'', L_int 3)])],
       m_next = (\<lambda>_. 4), m_pending = [], m_fetched = (\<lambda>_ _. None)\<rparr>\<rparr>)\<lparr>status := STATUS_CONNECTED\<rparr>"

lemma mini_heartbeat_ok: "heartbeat_ok mini_env mini_heartbeat"
  by (simp add: heartbeat_ok_def mini_heartbeat_def analyzer_ok_def node_ok_def address_ok_def time_law_def time_ok_def
      data_ok_def data_text_def mini_env_def mini_plugin_def null_plugin_def null_env_def timestamp_text_def epoch_tm_def
      dec_int_def dec2_int_def pad2_def dec_nat.simps)

lemma mini_heartbeat_readable: "heartbeat_readable mini_env mini_database 3 mini_heartbeat"
  by (simp add: heartbeat_readable_def mini_heartbeat_def analyzer_fits_def process_fits_def additional_data_ok_def
      data_text_def value_read_def norm_enum_def cstr_def mini_env_def)

lemma mini_heartbeat_normal: "norm_heartbeat mini_env mini_database mini_heartbeat = mini_heartbeat"
  by (simp add: norm_heartbeat_def mini_heartbeat_def norm_analyzer_def norm_node_def norm_address_def norm_process_def
      norm_item_def norm_str_def get_string_def norm_additional_data_def data_text_def value_read_def norm_enum_def cstr_def
      mini_env_def null_env_def mini_database_def)

theorem heartbeat_roundtrip_witness:
  "\<exists>s'. classic_insert mini_env (Some (Message_heartbeat (Some mini_heartbeat))) mini_sql = (Inr 0, s') \<and>
    fst (classic_get_heartbeat 3 mini_env 4 s') = Inr (Message_heartbeat (Some mini_heartbeat)) \<and>
    db_rows (database_of mini_database mini_sql) \<subseteq># db_rows (database_of mini_database s') \<and> can_begin s' \<and>
    idents_given (database_of mini_database s')"
proof -
  have "can_begin mini_sql"
    by (simp add: can_begin_def mini_sql_def sql_fresh_def connected_def in_transaction_def STATUS_CONNECTED_def STATUS_TRANSACTION_def)
  moreover have "idents_given (database_of mini_database mini_sql)"
    by (simp add: idents_given_def ident_below_def numbered_def message_of_row_def cell_def mini_sql_def sql_fresh_def)
  moreover have "(4 :: int) = db_next (database_of mini_database mini_sql) ''Requiem_Heartbeat''"
    by (simp add: mini_sql_def sql_fresh_def)
  ultimately show ?thesis
    using heartbeat_roundtrip [OF mini_sql_database _ _ _ _ _ mini_heartbeat_ok mini_heartbeat_readable, of mini_sql 4]
    by (simp add: mini_heartbeat_normal)
qed

section \<open>Unknown idents\<close>

lemma message_row_unknown:
  assumes "sql_database E V" "schema_table T" "column_text cols" "connected s"
    and none: "filter_mset (matches T [(''_ident'', L_int m)] False) (db_rows (database_of V s)) = {#}"
  shows "\<exists>s'. message_row E (select_query cols T [(''_ident'', L_int m)] False) body s =
      (Inl (requiemdb_error ERROR_INVALID_MESSAGE_IDENT), s') \<and> same_session s s' \<and> database_of V s' = database_of V s"
proof -
  let ?q = "select_query cols T [(''_ident'', L_int m)] False"
  have "answers E V (sql_world s) (map (fields_of cols) []) (pl_query (env_plugin E) ?q (sql_world s))"
    by (rule select_answers [OF assms(1,2) _ _ _ assms(3)]) (use none in \<open>simp_all add: in_order_def\<close>)
  then obtain w' where q: "pl_query (env_plugin E) ?q (sql_world s) = (Inr None, w')" "contents V w' = database_of V s"
    by (cases "pl_query (env_plugin E) ?q (sql_world s)") (auto simp: answers_def)
  obtain s' where "same_session s s'" "sql_world s' = w'" "requiemdb_sql_query E ?q True s = (Inr (0, None), s')"
    using query_run [OF assms(4) q(1), of True] by auto
  with q(2) show ?thesis by (auto simp: message_row_def)
qed

lemma failing_bindr: "\<exists>s'. f s = (Inl e, s') \<and> P s' \<Longrightarrow> \<exists>s'. bindr f g s = (Inl e, s') \<and> P s'"
  by auto



end
