(* ===== verification/AlertBack.thy ===== *)
theory AlertBack
  imports AlertParts AlertKinds HeartbeatBack
begin

text \<open>
  An alert through the database: what its insertion leaves there, and that reading the ident
  back gives the alert.
\<close>

section \<open>Which rows are whose\<close>

abbreviation analyzer_tables :: "string list" where
  "analyzer_tables \<equiv> [''Requiem_Analyzer'', ''Requiem_Node'', ''Requiem_Address'', ''Requiem_Process'', ''Requiem_ProcessArg'',
     ''Requiem_ProcessEnv'']"

text \<open>What a query for another table, or for rows of another type, finds in each part: nothing.\<close>

lemma other_type:
  "list_all (keyed Ts (typed_key p m)) L \<Longrightarrow> (''_parent_type'', L_text [q]) \<in> set cs \<Longrightarrow> p \<noteq> q \<Longrightarrow> filter (matches T cs l) L = []"
  by (rule keyed_other_value [where c = "''_parent_type''" and v = "L_text [p]" and v' = "L_text [q]"])
    (auto simp: typed_key_def)

lemma keyed_host_type: "list_all (keyed host_tables (typed_key p m)) (host_rows E p m i n u x v)"
  by (rule keyed_weaken [OF keyed_host_rows]) auto

lemma filter_analyzers_other:
  "T \<notin> set analyzer_tables \<Longrightarrow> filter (matches T cs l) (indexed_rows (analyzer_rows E p m) xs) = []"
  "(''_parent_type'', L_text [q]) \<in> set cs \<Longrightarrow> p \<noteq> q \<Longrightarrow> filter (matches T cs l) (indexed_rows (analyzer_rows E p m) xs) = []"
  by (rule keyed_other_table [OF keyed_indexed [OF keyed_analyzer_rows]], assumption)
    (rule other_type [OF keyed_indexed [OF keyed_analyzer_rows]])

lemma filter_sources_other:
  "T \<noteq> ''Requiem_Source'' \<Longrightarrow> T \<notin> set host_tables \<Longrightarrow> filter (matches T cs l) (indexed_rows (source_rows E m) xs) = []"
  "T \<noteq> ''Requiem_Source'' \<Longrightarrow> (''_parent_type'', L_text [q]) \<in> set cs \<Longrightarrow> q \<noteq> CHR ''S'' \<Longrightarrow>
     filter (matches T cs l) (indexed_rows (source_rows E m) xs) = []"
proof -
  show "T \<noteq> ''Requiem_Source'' \<Longrightarrow> T \<notin> set host_tables \<Longrightarrow> filter (matches T cs l) (indexed_rows (source_rows E m) xs) = []"
    by (rule filter_indexed_none) (simp add: source_rows_def row_facts keyed_other_table [OF keyed_host_type])
  assume "T \<noteq> ''Requiem_Source''" and q: "(''_parent_type'', L_text [q]) \<in> set cs" "q \<noteq> CHR ''S''"
  then show "filter (matches T cs l) (indexed_rows (source_rows E m) xs) = []"
    by (intro filter_indexed_none) (simp add: source_rows_def row_facts other_type [OF keyed_host_type q(1)])
qed

lemma filter_targets_other:
  "T \<notin> set (''Requiem_Target'' # host_tables @ file_tables) \<Longrightarrow> filter (matches T cs l) (indexed_rows (target_rows E m) xs) = []"
  "T \<notin> set (''Requiem_Target'' # file_tables) \<Longrightarrow> (''_parent_type'', L_text [q]) \<in> set cs \<Longrightarrow> q \<noteq> CHR ''T'' \<Longrightarrow> q \<noteq> CHR ''F'' \<Longrightarrow>
     filter (matches T cs l) (indexed_rows (target_rows E m) xs) = []"
proof -
  show "T \<notin> set (''Requiem_Target'' # host_tables @ file_tables) \<Longrightarrow> filter (matches T cs l) (indexed_rows (target_rows E m) xs) = []"
    by (rule filter_indexed_none)
      (auto simp: target_rows_def row_facts keyed_other_table [OF keyed_host_type] keyed_other_table [OF keyed_file_rows])
  assume T: "T \<notin> set (''Requiem_Target'' # file_tables)" and q: "(''_parent_type'', L_text [q]) \<in> set cs" "q \<noteq> CHR ''T''" "q \<noteq> CHR ''F''"
  then have "filter (matches T cs l) (indexed_rows (file_rows E m i) ys) = []" for i ys
    by (intro filter_indexed_none filter_file_rows_other [OF _ q(1)]) simp_all
  with T q show "filter (matches T cs l) (indexed_rows (target_rows E m) xs) = []"
    by (intro filter_indexed_none) (auto simp: target_rows_def row_facts other_type [OF keyed_host_type q(1)])
qed

lemma filter_type_rows_other:
  "T \<notin> set (''Requiem_Alertident'' # kind_tables) \<Longrightarrow> filter (matches T cs l) (type_rows V m t) = []"
  by (auto simp: type_rows_split tool_rows_def correlation_rows_def find_simps row_facts split: option.split)

lemma filter_assessment_rows_other:
  "T \<notin> set assessment_tables \<Longrightarrow> filter (matches T cs l) (assessment_rows E V m x) = []"
  by (auto simp: assessment_rows_def find_simps row_facts split: option.split)

lemma filter_classification_rows_other:
  "T \<notin> set [''Requiem_Classification'', ''Requiem_Reference''] \<Longrightarrow> filter (matches T cs l) (classification_rows E m x) = []"
  by (auto simp: classification_rows_def find_simps row_facts split: option.split)

lemma filter_data_other:
  "T \<noteq> ''Requiem_AdditionalData'' \<Longrightarrow> filter (matches T cs l) (indexed_rows (\<lambda>i a. [additional_data_row E V p m i a]) xs) = []"
  by (rule filter_indexed_none) (simp add: row_facts)

lemma filter_time_other: "T \<noteq> T' \<Longrightarrow> filter (matches T cs l) (optional_rows (\<lambda>x. [time_row E T' key (Some x)]) t) = []"
  by (rule filter_optional_none) (simp add: row_facts)

lemmas filter_others = filter_analyzers_other(1) filter_sources_other(1) filter_targets_other(1) filter_type_rows_other
  filter_assessment_rows_other filter_classification_rows_other filter_data_other filter_time_other

section \<open>The rows of an alert\<close>

definition alert_row :: "int \<Rightarrow> idmef_alert \<Rightarrow> sql_row" where
  "alert_row m a = (''Requiem_Alert'', [(''_ident'', L_int m), (''messageid'', str_lit (alert_messageid a))])"

text \<open>A row an alert may own: in a table both kinds of message use, its type is not that of a heartbeat.\<close>

lemma alert_row_typed:
  "list_all (keyed Ts (typed_key p m)) L \<Longrightarrow> \<not> list_ex numbered Ts \<Longrightarrow> p \<noteq> CHR ''H'' \<Longrightarrow>
   list_all (row_of_message ''Requiem_Alert'' m) L"
  by (auto simp: list_all_iff list_ex_iff keyed_def typed_key_def row_of_message_def message_of_row_def)

lemma alert_row_untyped:
  "list_all (keyed Ts (message_key m)) L \<Longrightarrow> \<not> list_ex numbered Ts \<Longrightarrow> \<not> list_ex typed_table Ts \<Longrightarrow>
   list_all (row_of_message ''Requiem_Alert'' m) L"
  by (auto simp: list_all_iff list_ex_iff keyed_def message_key_def row_of_message_def message_of_row_def)

lemma file_rows_of_message: "list_all (row_of_message ''Requiem_Alert'' m) (indexed_rows (file_rows E m i) xs)"
proof (rule list_all_indexed)
  fix j x
  let ?Ts = "file_tables @ [''Requiem_UserId'']"
  have "list_all (keyed ?Ts (message_key m)) (file_child_rows E m i j x)"
    by (rule keyed_weaken [OF keyed_file_child_rows]) auto
  moreover have "keyed ?Ts (message_key m) (file_row E m i j x)" by (simp add: keyed_def alert_match_simps file_row_def)
  ultimately have keyed: "list_all (keyed ?Ts (message_key m)) (file_rows E m i j x)" by (simp add: file_rows_child)
  have "row_of_message ''Requiem_Alert'' m r" if "keyed ?Ts (message_key m) r"
    "fst r \<in> set file_tables \<or> fst r = ''Requiem_UserId'' \<and> cell r ''_parent_type'' = L_text ''F''" for r
  proof -
    have ident: "cell r ''_message_ident'' = L_int m" using that(1) by (simp add: keyed_def message_key_def)
    from that(2) show ?thesis
    proof
      assume "fst r \<in> set file_tables"
      moreover have "T \<in> set file_tables \<Longrightarrow> \<not> numbered T \<and> \<not> typed_table T" for T by (auto simp: numbered_def typed_table_def)
      ultimately have "\<not> numbered (fst r)" "\<not> typed_table (fst r)" by blast+
      with ident show ?thesis by (simp only: row_of_message_def message_of_row_def) simp
    next
      assume "fst r = ''Requiem_UserId'' \<and> cell r ''_parent_type'' = L_text ''F''"
      then have f: "fst r = ''Requiem_UserId''" "cell r ''_parent_type'' = L_text ''F''" by blast+
      show ?thesis by (simp only: row_of_message_def message_of_row_def f ident) (simp add: numbered_def)
    qed
  qed
  with keyed file_rows_tables [of E m i j x] show "list_all (row_of_message ''Requiem_Alert'' m) (file_rows E m i j x)"
    unfolding list_all_iff by blast
qed

lemma host_rows_of_message: "p \<noteq> CHR ''H'' \<Longrightarrow> list_all (row_of_message ''Requiem_Alert'' m) (host_rows E p m i n u x v)"
  by (rule alert_row_typed [OF keyed_host_type]) (simp_all add: numbered_def)

lemma source_rows_of_message: "list_all (row_of_message ''Requiem_Alert'' m) (indexed_rows (source_rows E m) xs)"
  by (rule list_all_indexed)
    (simp add: source_rows_def host_rows_of_message row_of_message_def message_of_row_def source_row_def cell_simps
      message_key_def numbered_def typed_table_def)

lemma target_rows_of_message: "list_all (row_of_message ''Requiem_Alert'' m) (indexed_rows (target_rows E m) xs)"
proof (rule list_all_indexed)
  fix i x
  have "row_of_message ''Requiem_Alert'' m (target_row E m i x)"
    by (simp add: row_of_message_def message_of_row_def target_row_def cell_simps message_key_def numbered_def typed_table_def)
  then show "list_all (row_of_message ''Requiem_Alert'' m) (target_rows E m i x)"
    by (simp add: target_rows_def host_rows_of_message file_rows_of_message)
qed

lemma type_rows_of_message: "list_all (row_of_message ''Requiem_Alert'' m) (type_rows V m t)"
proof -
  have "row_of_message ''Requiem_Alert'' m (tool_row m x)" "row_of_message ''Requiem_Alert'' m (correlation_row m y)"
    "row_of_message ''Requiem_Alert'' m (overflow_row V m z)"
    "p \<noteq> CHR ''H'' \<Longrightarrow> row_of_message ''Requiem_Alert'' m (alertident_row p m i a)" for x y z p i a
    by (simp_all add: row_of_message_def message_of_row_def tool_row_def correlation_row_def overflow_row_def
        alertident_row_def cell_simps message_key_def numbered_def typed_table_def)
  then show ?thesis
    by (auto simp: type_rows_split tool_rows_def correlation_rows_def intro!: list_all_optional list_all_indexed list_all_rows_from)
qed

lemma assessment_rows_of_message: "list_all (row_of_message ''Requiem_Alert'' m) (assessment_rows E V m x)"
proof (rule alert_row_untyped)
  show "list_all (keyed assessment_tables (message_key m)) (assessment_rows E V m x)"
    unfolding assessment_rows_def
    by (intro keyed_optional) (simp, intro conjI keyed_optional keyed_indexed;
      simp add: keyed_def alert_match_simps assessment_row_def impact_row_def confidence_row_def action_row_def)
qed (simp_all add: numbered_def typed_table_def)

lemma classification_rows_of_message: "list_all (row_of_message ''Requiem_Alert'' m) (classification_rows E m x)"
proof (rule alert_row_untyped)
  show "list_all (keyed [''Requiem_Classification'', ''Requiem_Reference''] (message_key m)) (classification_rows E m x)"
    unfolding classification_rows_def
    by (intro keyed_optional) (simp, intro conjI keyed_indexed;
      simp add: keyed_def alert_match_simps classification_row_def reference_row_def)
qed (simp_all add: numbered_def typed_table_def)

lemma alert_rows_of_message: "list_all (row_of_message ''Requiem_Alert'' m) (alert_rows E V m a)"
proof -
  have analyzers: "list_all (row_of_message ''Requiem_Alert'' m) (indexed_rows (analyzer_rows E CHR ''A'' m) xs)" for xs
    by (rule alert_row_typed [OF keyed_indexed [OF keyed_analyzer_rows]]) (simp_all add: numbered_def)
  have data: "list_all (row_of_message ''Requiem_Alert'' m) (indexed_rows (\<lambda>i x. [additional_data_row E V CHR ''A'' m i x]) xs)" for xs
    by (rule list_all_indexed)
      (simp add: row_of_message_def message_of_row_def additional_data_row_def cell_simps numbered_def)
  have times: "row_of_message ''Requiem_Alert'' m (time_row E T (typed_key CHR ''A'' m) t)" if "\<not> numbered T" for T t
    using that by (simp add: row_of_message_def message_of_row_def time_row_def cell_simps)
  have detect: "row_of_message ''Requiem_Alert'' m (time_row E ''Requiem_DetectTime'' (message_key m) t)" for t
    by (simp add: row_of_message_def message_of_row_def time_row_def cell_simps message_key_def numbered_def typed_table_def)
  show ?thesis
    by (simp add: alert_rows_def analyzers data times detect source_rows_of_message target_rows_of_message type_rows_of_message
        assessment_rows_of_message classification_rows_of_message optional_rows_def numbered_def split: option.split)
qed

lemma insert_alert_run:
  assumes db: "sql_database E V" and c: "connected s" and ok: "alert_ok E a"
    and m: "m = db_next (database_of V s) ''Requiem_Alert''" "0 \<le> m" "m < 2 ^ 64"
    and given: "idents_given (database_of V s)"
  shows "\<exists>s'. insert_body E (Message_alert (Some a)) s = (Inr (), s') \<and> same_session s s' \<and>
    db_rows (database_of V s') = db_rows (database_of V s) + mset (alert_row m a # alert_rows E V m a) \<and>
    idents_given (database_of V s')"
proof -
  from writes_esc_string [OF db] c obtain t s0 where e: "esc_string E (alert_messageid a) s = (Inr t, s0)"
    "same_session s s0" and s0: "denotes V t (str_lit (alert_messageid a))"
    "db_rows (database_of V s0) = db_rows (database_of V s) + mset []" "db_next (database_of V s0) = db_next (database_of V s)"
    by (rule writesE)
  have c0: "connected s0" using c e(2) by (simp add: same_session_connected)
  have given0: "idents_given (database_of V s0)" using given s0 by (simp add: idents_given_def)
  have vals: "list_all2 (denotes V) [t] [str_lit (alert_messageid a)]" using s0(1) by simp
  have names: "length (column_names ''messageid'') = length [t]" by (simp add: column_names_def)
  have m0: "m = db_next (database_of V s0) ''Requiem_Alert''" using m(1) s0(3) by simp
  have T: "numbered ''Requiem_Alert''" by (simp add: numbered_def)
  have cols: "column_text ''messageid''" by simp
  obtain s1 where run: "bindr (store E ''Requiem_Alert'' ''messageid'' [t])
      (\<lambda>_. bindr (get_last_insert_ident E ''Requiem_Alert'') (insert_alert_objects E a)) s0 =
      insert_alert_objects E a m s1" and s1: "same_session s0 s1"
    and rows1: "db_rows (database_of V s1) = add_mset (''Requiem_Alert'', (''_ident'', L_int m) #
        zip (column_names ''messageid'') [str_lit (alert_messageid a)]) (db_rows (database_of V s0))"
    and given1: "m < db_next (database_of V s1) ''Requiem_Alert''" "idents_given (database_of V s1)"
    by (rule message_row_run [OF db c0 T vals names cols m0 m(2,3) given0])
  have r: "db_rows (database_of V s1) = add_mset (alert_row m a) (db_rows (database_of V s))"
    using rows1 s0(2) by (simp add: alert_row_def column_names_def)
  have "connected s1" using c0 s1 by (simp add: same_session_connected)
  with writes_alert_objects [OF db ok] obtain x s2 where s2: "insert_alert_objects E a m s1 = (Inr x, s2)"
    "same_session s1 s2" "db_rows (database_of V s2) = db_rows (database_of V s1) + mset (alert_rows E V m a)"
    "db_next (database_of V s2) = db_next (database_of V s1)"
    by (rule writesE)
  have "same_session s s2" using e(2) s1 s2(2) by (blast intro: same_session_trans)
  moreover have "insert_body E (Message_alert (Some a)) s = (Inr (), s2)"
    using e(1) run s2(1) by (simp add: insert_body_def insert_alert_def insert_message_messageid_def insert_optional_def bindr_assoc)
  moreover have "idents_given (database_of V s2)"
    by (rule rows_below [OF alert_rows_of_message given1 s2(3,4)])
  ultimately show ?thesis using r s2(3) by auto
qed

section \<open>Reading it back\<close>

definition norm_alert :: "'w env \<Rightarrow> 'w database \<Rightarrow> idmef_alert \<Rightarrow> idmef_alert" where
  "norm_alert E V a =
     \<lparr>alert_messageid = norm_str (alert_messageid a), alert_create_time = alert_create_time a,
      alert_detect_time = alert_detect_time a, alert_analyzer_time = alert_analyzer_time a,
      alert_assessment = map_option (norm_assessment E V) (alert_assessment a), alert_type = norm_type E (alert_type a),
      alert_analyzers = map (norm_analyzer E) (alert_analyzers a), alert_sources = map (norm_source E) (alert_sources a),
      alert_targets = map (norm_target E) (alert_targets a),
      alert_classification = map_option (norm_classification E) (alert_classification a),
      alert_additional_data = map (norm_additional_data E V) (alert_additional_data a)\<rparr>"

definition alert_readable :: "'w env \<Rightarrow> 'w database \<Rightarrow> nat \<Rightarrow> idmef_alert \<Rightarrow> bool" where
  "alert_readable E V k a \<longleftrightarrow>
     list_all (analyzer_fits k) (alert_analyzers a) \<and> length (alert_analyzers a) < k \<and> length (alert_analyzers a) \<le> 128 \<and>
     list_all (source_fits k) (alert_sources a) \<and> length (alert_sources a) < k \<and> length (alert_sources a) \<le> 128 \<and>
     list_all (target_fits k) (alert_targets a) \<and> length (alert_targets a) < k \<and> length (alert_targets a) \<le> 128 \<and>
     (case alert_assessment a of None \<Rightarrow> True | Some x \<Rightarrow> assessment_fits E V k x) \<and> type_fits k (alert_type a) \<and>
     (case alert_classification a of None \<Rightarrow> True | Some x \<Rightarrow> length (classification_references x) < k) \<and>
     list_all (additional_data_ok E V) (alert_additional_data a) \<and> length (alert_additional_data a) < k"

text \<open>What the queries of a new ident find: the rows of the alert.\<close>

lemma alert_holds:
  assumes given: "idents_given c" and m: "m = db_next c ''Requiem_Alert''"
    and D: "D = db_rows c + mset (alert_row m a # alert_rows E V m a)"
    and key: "(''_message_ident'', L_int m) \<in> set key" "\<not> list_ex numbered Ts"
      "list_ex typed_table Ts \<Longrightarrow> p \<noteq> CHR ''H'' \<and> (''_parent_type'', L_text [p]) \<in> set key"
    and part: "\<And>T cs l. T \<in> set Ts \<Longrightarrow> set key \<subseteq> set cs \<Longrightarrow> filter (matches T cs l) (alert_rows E V m a) = filter (matches T cs l) L"
  shows "holds D key Ts L"
  unfolding holds_def
proof (intro allI impI, elim conjE)
  fix T cs l assume T: "T \<in> set Ts" and cs: "set key \<subseteq> set cs"
  then have n: "\<not> numbered T" and ident: "(''_message_ident'', L_int m) \<in> set cs"
    and typed: "typed_table T \<longrightarrow> (\<exists>p. p \<noteq> CHR ''H'' \<and> (''_parent_type'', L_text [p]) \<in> set cs)"
    using key by (auto simp: list_ex_iff)
  have none: "filter_mset (matches T cs l) (db_rows c) = {#}"
    by (rule older_rows [OF given m ident n]) (simp add: typed)
  have "\<not> matches T cs l (alert_row m a)" using n by (intro no_match) (auto simp: alert_row_def numbered_def)
  then have "filter (matches T cs l) (alert_row m a # alert_rows E V m a) = filter (matches T cs l) L"
    using part [OF T cs] by simp
  then show "filter_mset (matches T cs l) D = mset (filter (matches T cs l) L)"
    by (simp only: D filter_union_mset none mset_filter [symmetric] add_0_left)
qed

lemma alert_parts:
  assumes "idents_given c" "m = db_next c ''Requiem_Alert''"
    and "D = db_rows c + mset (alert_row m a # alert_rows E V m a)"
  shows "holds D (typed_key CHR ''A'' m) analyzer_tables (indexed_rows (analyzer_rows E CHR ''A'' m) (alert_analyzers a))"
    and "holds D (typed_key CHR ''A'' m) [''Requiem_AdditionalData''] (indexed_rows (\<lambda>i x. [additional_data_row E V CHR ''A'' m i x]) (alert_additional_data a))"
    and "holds D (typed_key CHR ''S'' m) host_tables (indexed_rows (source_rows E m) (alert_sources a))"
    and "holds D (message_key m) [''Requiem_Source''] (indexed_rows (source_rows E m) (alert_sources a))"
    and "holds D (typed_key CHR ''T'' m) host_tables (indexed_rows (target_rows E m) (alert_targets a))"
    and "holds D (typed_key CHR ''F'' m) [''Requiem_UserId''] (indexed_rows (target_rows E m) (alert_targets a))"
    and "holds D (message_key m) (''Requiem_Target'' # file_tables) (indexed_rows (target_rows E m) (alert_targets a))"
    and "holds D (message_key m) assessment_tables (assessment_rows E V m (alert_assessment a))"
    and "holds D (message_key m) [''Requiem_Classification'', ''Requiem_Reference''] (classification_rows E m (alert_classification a))"
    and "holds D (message_key m) kind_tables (type_rows V m (alert_type a))"
    and "p \<in> {CHR ''T'', CHR ''C''} \<Longrightarrow> holds D (typed_key p m) [''Requiem_Alertident''] (type_rows V m (alert_type a))"
proof -
  note h = alert_holds [OF assms]
  note simps = alert_rows_def row_facts filter_others
  have typed: "(''_parent_type'', L_text [q]) \<in> set cs" if "set (typed_key q m) \<subseteq> set cs" for q cs
    using that by (auto simp: typed_key_def)
  show "holds D (typed_key CHR ''A'' m) analyzer_tables (indexed_rows (analyzer_rows E CHR ''A'' m) (alert_analyzers a))"
  proof (rule h [where p = "CHR ''A''"])
    fix T cs l assume T: "T \<in> set analyzer_tables" and cs: "set (typed_key CHR ''A'' m) \<subseteq> set cs"
    from T show "filter (matches T cs l) (alert_rows E V m a) =
        filter (matches T cs l) (indexed_rows (analyzer_rows E CHR ''A'' m) (alert_analyzers a))"
      by (auto simp: simps filter_sources_other(2) [OF _ typed [OF cs]] filter_targets_other(2) [OF _ typed [OF cs]])
  qed (simp_all add: typed_key_def numbered_def)
  show "holds D (typed_key CHR ''A'' m) [''Requiem_AdditionalData''] (indexed_rows (\<lambda>i x. [additional_data_row E V CHR ''A'' m i x]) (alert_additional_data a))"
    by (rule h [where p = "CHR ''A''"]) (auto simp: simps typed_key_def numbered_def)
  show "holds D (typed_key CHR ''S'' m) host_tables (indexed_rows (source_rows E m) (alert_sources a))"
  proof (rule h [where p = "CHR ''S''"])
    fix T cs l assume T: "T \<in> set host_tables" and cs: "set (typed_key CHR ''S'' m) \<subseteq> set cs"
    from T show "filter (matches T cs l) (alert_rows E V m a) = filter (matches T cs l) (indexed_rows (source_rows E m) (alert_sources a))"
      by (auto simp: simps filter_analyzers_other(2) [OF typed [OF cs]] filter_targets_other(2) [OF _ typed [OF cs]])
  qed (simp_all add: typed_key_def numbered_def)
  show "holds D (message_key m) [''Requiem_Source''] (indexed_rows (source_rows E m) (alert_sources a))"
    by (rule h) (auto simp: simps message_key_def numbered_def typed_table_def)
  show "holds D (typed_key CHR ''T'' m) host_tables (indexed_rows (target_rows E m) (alert_targets a))"
  proof (rule h [where p = "CHR ''T''"])
    fix T cs l assume T: "T \<in> set host_tables" and cs: "set (typed_key CHR ''T'' m) \<subseteq> set cs"
    from T show "filter (matches T cs l) (alert_rows E V m a) = filter (matches T cs l) (indexed_rows (target_rows E m) (alert_targets a))"
      by (auto simp: simps filter_analyzers_other(2) [OF typed [OF cs]] filter_sources_other(2) [OF _ typed [OF cs]])
  qed (simp_all add: typed_key_def numbered_def)
  show "holds D (typed_key CHR ''F'' m) [''Requiem_UserId''] (indexed_rows (target_rows E m) (alert_targets a))"
  proof (rule h [where p = "CHR ''F''"])
    fix T cs l assume T: "T \<in> set [''Requiem_UserId'']" and cs: "set (typed_key CHR ''F'' m) \<subseteq> set cs"
    from T show "filter (matches T cs l) (alert_rows E V m a) = filter (matches T cs l) (indexed_rows (target_rows E m) (alert_targets a))"
      by (auto simp: simps filter_sources_other(2) [OF _ typed [OF cs]])
  qed (simp_all add: typed_key_def numbered_def)
  show "holds D (message_key m) (''Requiem_Target'' # file_tables) (indexed_rows (target_rows E m) (alert_targets a))"
    by (rule h) (auto simp: simps message_key_def numbered_def typed_table_def)
  show "holds D (message_key m) assessment_tables (assessment_rows E V m (alert_assessment a))"
    by (rule h) (auto simp: simps message_key_def numbered_def typed_table_def)
  show "holds D (message_key m) [''Requiem_Classification'', ''Requiem_Reference''] (classification_rows E m (alert_classification a))"
    by (rule h) (auto simp: simps message_key_def numbered_def typed_table_def)
  show "holds D (message_key m) kind_tables (type_rows V m (alert_type a))"
    by (rule h) (auto simp: simps message_key_def numbered_def typed_table_def)
  show "p \<in> {CHR ''T'', CHR ''C''} \<Longrightarrow> holds D (typed_key p m) [''Requiem_Alertident''] (type_rows V m (alert_type a))"
    by (rule h [where p = p]) (auto simp: simps typed_key_def numbered_def)
qed

end
