(* ===== verification/AlertRoundtrip.thy ===== *)
theory AlertRoundtrip
  imports AlertBack
begin

text \<open>
  The round trip of an alert: each function of \<open>classic-get.c\<close> finds, among all rows of the
  database, those its counterpart in \<open>classic-insert.c\<close> stored for this ident, and no others.
\<close>

section \<open>Reading the objects of an alert\<close>

lemma reads_alert_times:
  assumes db: "sql_database E V" and ok: "alert_ok E a" and given: "idents_given c" "m = db_next c ''Requiem_Alert''"
    and D: "D = db_rows c + mset (alert_row m a # alert_rows E V m a)"
  shows "reads V D (\<lambda>_. True) (alert_create_time a) (get_create_time E m CHR ''A'')"
    and "reads V D (\<lambda>_. True) (alert_detect_time a) (get_detect_time E m)"
    and "reads V D (\<lambda>_. True) (alert_analyzer_time a) (get_analyzer_time E m CHR ''A'')"
proof -
  let ?key = "typed_key CHR ''A'' m"
  note holds = alert_holds [OF given D]
  note simps = alert_rows_def row_facts filter_others
  have k: "list_all plain_cond ?key" "of_typed_message CHR ''A'' m = conditions (map (\<lambda>(c, v). (c, lit_text v)) ?key)"
    "\<And>c. c \<in> set [''time'', ''gmtoff'', ''usec''] \<Longrightarrow> c \<notin> fst ` set ?key"
    by (simp add: parent_char_def, simp add: query_simps) (auto simp: typed_key_def)
  have k': "list_all plain_cond (message_key m)" "of_message m = conditions (map (\<lambda>(c, v). (c, lit_text v)) (message_key m))"
    "\<And>c. c \<in> set [''time'', ''gmtoff'', ''usec''] \<Longrightarrow> c \<notin> fst ` set (message_key m)"
    by (simp, simp add: alert_query_simps) (auto simp: message_key_def)
  have create: "holds D ?key [''Requiem_CreateTime''] [time_row E ''Requiem_CreateTime'' ?key (alert_create_time a)]"
    by (rule holds [where p = "CHR ''A''"]) (auto simp: simps typed_key_def numbered_def)
  have analyzer: "holds D ?key [''Requiem_AnalyzerTime'']
      (optional_rows (\<lambda>x. [time_row E ''Requiem_AnalyzerTime'' ?key (Some x)]) (alert_analyzer_time a))"
    by (rule holds [where p = "CHR ''A''"]) (auto simp: simps typed_key_def numbered_def)
  have detect: "holds D (message_key m) [''Requiem_DetectTime'']
      (optional_rows (\<lambda>x. [time_row E ''Requiem_DetectTime'' (message_key m) (Some x)]) (alert_detect_time a))"
    by (rule holds) (auto simp: simps message_key_def numbered_def typed_table_def)
  have found: "matches T key False (time_row E T key t)" if "key = ?key \<or> key = message_key m" for T key t
    using that by (auto simp: alert_match_simps time_row_def)
  have law: "time_law E (alert_create_time a)" "time_law E (alert_detect_time a)" "time_law E (alert_analyzer_time a)"
    using ok by (simp_all add: alert_ok_def)
  show "reads V D (\<lambda>_. True) (alert_create_time a) (get_create_time E m CHR ''A'')"
    unfolding get_create_time_def
    using reads_time_of [OF db _ k, where T = "''Requiem_CreateTime''" and D = D and y = "Some (alert_create_time a)"] law(1)
    by (simp add: schema_table_def holdsD [OF create] found del: mset_filter)
  show "reads V D (\<lambda>_. True) (alert_detect_time a) (get_detect_time E m)"
    unfolding get_detect_time_def
    using reads_time_of [OF db _ k', where T = "''Requiem_DetectTime''" and D = D and y = "map_option Some (alert_detect_time a)"] law(2)
    by (cases "alert_detect_time a") (simp_all add: schema_table_def holdsD [OF detect] found optional_rows_def del: mset_filter)
  show "reads V D (\<lambda>_. True) (alert_analyzer_time a) (get_analyzer_time E m CHR ''A'')"
    unfolding get_analyzer_time_def
    using reads_time_of [OF db _ k, where T = "''Requiem_AnalyzerTime''" and D = D and y = "map_option Some (alert_analyzer_time a)"] law(3)
    by (cases "alert_analyzer_time a") (simp_all add: schema_table_def holdsD [OF analyzer] found optional_rows_def del: mset_filter)
qed

lemma reads_alert_messageid:
  assumes db: "sql_database E V" and given: "idents_given c" "m = db_next c ''Requiem_Alert''"
    and D: "D = db_rows c + mset (alert_row m a # alert_rows E V m a)"
  shows "reads V D (\<lambda>_. True) (norm_str (alert_messageid a)) (get_alert_messageid E m)"
  unfolding get_alert_messageid_def
proof (rule reads_message_row [OF db, where T = "''Requiem_Alert''" and cs = "[(''_ident'', L_int m)]"])
  let ?P = "matches ''Requiem_Alert'' [(''_ident'', L_int m)] False"
  show "''SELECT messageid FROM Requiem_Alert WHERE _ident = '' @ dec_int m =
      select_query ''messageid'' ''Requiem_Alert'' [(''_ident'', L_int m)] False"
    by (simp add: query_simps)
  have "\<not> ?P r" if "r \<in># db_rows c" for r
    using given that by (auto simp: idents_given_def ident_below_def matches_def numbered_def)
  then have old: "filter_mset ?P (db_rows c) = {#}" by (simp add: filter_mset_eq_conv)
  have "\<not> ?P r" if "r \<in> set (alert_rows E V m a)" for r
    using alert_rows_of_message [of m E V a] that by (auto simp: list_all_iff row_of_message_def matches_def numbered_def)
  then have "filter ?P (alert_rows E V m a) = []" by (simp add: filter_empty_conv)
  moreover have "?P (alert_row m a)" by (simp add: match_simps alert_row_def)
  ultimately have new: "filter ?P (alert_row m a # alert_rows E V m a) = [alert_row m a]" by simp
  show "filter_mset ?P D = mset [alert_row m a]"
    by (simp only: D filter_union_mset old mset_filter [symmetric] new add_0_left)
  have f: "fields_of ''messageid'' (alert_row m a) = map lit_field [str_lit (alert_messageid a)]"
    by (simp add: cell_simps alert_row_def)
  show "reads V D (at_row t r (fields_of ''messageid'' (alert_row m a))) (norm_str (alert_messageid a)) (get_string_field E t r 0)" for t r
    unfolding f by (rule reads_str [OF db]) simp_all
qed (simp_all add: schema_table_def)

lemma reads_alert:
  assumes db: "sql_database E V" and ok: "alert_ok E a" and fits: "alert_readable E V k a"
    and given: "idents_given c" "m = db_next c ''Requiem_Alert''"
    and D: "D = db_rows c + mset (alert_row m a # alert_rows E V m a)"
  shows "reads V D (\<lambda>_. True) (norm_alert E V a) (get_alert_objects k E m)"
proof -
  note parts = alert_parts [OF given D]
  note times = reads_alert_times [OF db ok given D]
  have p: "parent_char CHR ''A''" by (simp add: parent_char_def)
  have assessment: "reads V D (\<lambda>_. True) (map_option (norm_assessment E V) (alert_assessment a)) (get_assessment k E m)"
    by (rule reads_assessment [OF db parts(8)]) (use fits in \<open>simp add: alert_readable_def\<close>)
  have analyzers: "reads V D (\<lambda>_. True) (map (norm_analyzer E) (alert_analyzers a)) (get_analyzer k E m CHR ''A'')"
    by (rule reads_analyzers [OF db p parts(1)]) (use ok fits in \<open>auto simp: alert_ok_def alert_readable_def list_all_iff\<close>)
  have sources: "reads V D (\<lambda>_. True) (map (norm_source E) (alert_sources a)) (get_source k E m)"
    by (rule reads_sources [OF db parts(4,3)]) (use fits in \<open>simp_all add: alert_readable_def\<close>)
  have targets: "reads V D (\<lambda>_. True) (map (norm_target E) (alert_targets a)) (get_target k E m)"
    by (rule reads_targets [OF db parts(7,5,6)]) (use ok fits in \<open>simp_all add: alert_ok_def alert_readable_def\<close>)
  have classification: "reads V D (\<lambda>_. True) (map_option (norm_classification E) (alert_classification a)) (get_classification k E m)"
    by (rule reads_classification [OF db parts(9)]) (use fits in \<open>simp add: alert_readable_def\<close>)
  have data: "reads V D (\<lambda>_. True) (map (norm_additional_data E V) (alert_additional_data a)) (get_additional_data k E m CHR ''A'')"
    by (rule reads_additional_data [OF db p parts(2)]) (use fits in \<open>simp_all add: alert_readable_def\<close>)
  have type: "type_ok (alert_type a)" "type_fits k (alert_type a)"
    using ok fits by (simp_all add: alert_ok_def alert_readable_def)
  have kinds: "reads V D (\<lambda>_. True) (map_option norm_tool (tool_of (alert_type a))) (get_tool_alert k E m)"
    "reads V D (\<lambda>_. True) (map_option norm_correlation (correlation_of (alert_type a))) (get_correlation_alert k E m)"
    "reads V D (\<lambda>_. True) (map_option (norm_overflow E) (overflow_of (alert_type a))) (get_overflow_alert E m)"
    by (rule reads_kinds [OF db parts(10,11) type]; assumption)+
  show ?thesis
    unfolding get_alert_objects_def norm_alert_def norm_type_def
    by (rule reads_bindr [OF stable_True reads_alert_messageid [OF db given D]],
        rule reads_bindr [OF stable_True assessment], rule reads_bindr [OF stable_True analyzers],
        rule reads_bindr [OF stable_True times(1)], rule reads_bindr [OF stable_True times(2)],
        rule reads_bindr [OF stable_True times(3)], rule reads_bindr [OF stable_True sources],
        rule reads_bindr [OF stable_True targets], rule reads_bindr [OF stable_True classification],
        rule reads_bindr [OF stable_True data], rule reads_bindr [OF stable_True kinds(1)],
        rule reads_bindr [OF stable_True kinds(2)], rule reads_bindr [OF stable_True kinds(3)]) simp
qed

text \<open>
  C2.  Round trip of an alert.  On a connection to a database as \<open>sql_database\<close> describes it,
  whose rows carry only idents it has handed out, an alert with all it may hold - assessment,
  sources and targets with nodes, users, processes, services and files, classification, the part
  of its kind, additional data - is inserted without error, and reading the ident it got gives
  it back, with every older row still there.  It comes back up to what the tables can hold
  (\<open>norm_alert\<close>): strings end at their first NUL, enumerations go through their names, data is
  typed anew, the times of files lose their microseconds, and a confidence is what its text is
  read as.  Sizes of files are below \<open>2 ^ 32\<close>, since they are read as 32 bits, and there are at
  most 128 analyzers, sources and targets, whose index must fit a \<open>char\<close>.
\<close>
theorem alert_roundtrip:
  assumes "sql_database E V" "can_begin s" "idents_given (database_of V s)"
    and "ident = db_next (database_of V s) ''Requiem_Alert''" "0 \<le> ident" "ident < 2 ^ 64"
    and "alert_ok E a" "alert_readable E V k a"
  shows "\<exists>s'. classic_insert E (Some (Message_alert (Some a))) s = (Inr 0, s') \<and>
    fst (classic_get_alert k E (word_of_int ident) s') = Inr (Message_alert (Some (norm_alert E V a))) \<and>
    db_rows (database_of V s) \<subseteq># db_rows (database_of V s') \<and> can_begin s' \<and> idents_given (database_of V s')"
proof -
  let ?D = "db_rows (database_of V s) + mset (alert_row ident a # alert_rows E V ident a)"
  have "\<exists>y s2. insert_body E (Message_alert (Some a)) s1 = (Inr y, s2) \<and> same_session s1 s2 \<and>
      (db_rows (database_of V s2) = ?D \<and> idents_given (database_of V s2))" if "connected s1" "database_of V s1 = database_of V s" for s1
    using insert_alert_run [OF assms(1) that(1) assms(7) _ assms(5,6)] that(2) assms(3,4) by auto
  from transactionally_run [OF assms(1,2), where P = "\<lambda>d. db_rows d = ?D \<and> idents_given d", OF this]
  obtain s' where s': "classic_insert E (Some (Message_alert (Some a))) s = (Inr 0, s')" "can_begin s'"
    "db_rows (database_of V s') = ?D" "idents_given (database_of V s')" by (auto simp: classic_insert_def)
  then have "connected s'" by (simp add: can_begin_def)
  have "reads V ?D (\<lambda>_. True) (norm_alert E V a) (get_alert_objects k E ident)"
    by (rule reads_alert [OF assms(1,7,8,3,4)]) simp
  with s' \<open>connected s'\<close> obtain s3 where "get_alert_objects k E ident s' = (Inr (norm_alert E V a), s3)"
    unfolding reads_def by blast
  moreover have "uint (word_of_int ident :: 64 word) = ident" using assms(5,6) by (simp add: uint_word_of_int)
  ultimately show ?thesis using s' by (simp add: classic_get_alert_def)
qed

section \<open>An alert\<close>

text \<open>An overflow with an assessment, a source with a user and an SNMP service, and a target with a web service and a file.\<close>

definition mini_user_id :: idmef_user_id where
  "mini_user_id = \<lparr>user_id_ident = None, user_id_type = 0, user_id_name = Some (Some ''root''), user_id_tty = None,
     user_id_number = Some 0\<rparr>"

definition mini_source :: idmef_source where
  "mini_source =
     \<lparr>source_ident = None, source_spoofed = 0, source_interface = Some (Some ''eth0''), source_node = None,
      source_user = Some \<lparr>user_ident = None, user_category = 0, user_user_ids = [mini_user_id]\<rparr>, source_process = None,
      source_service = Some
        \<lparr>service_ident = None, service_ip_version = Some 4, service_name = Some (Some ''snmp''), service_port = Some 161,
         service_iana_protocol_number = None, service_iana_protocol_name = None, service_portlist = None, service_protocol = None,
         service_type = Service_snmp (Some
           \<lparr>snmp_oid = Some (Some ''1.3.6''), snmp_message_processing_model = Some 3, snmp_security_model = None,
            snmp_security_name = None, snmp_security_level = None, snmp_context_name = None, snmp_context_engine_id = None,
            snmp_command = None\<rparr>)\<rparr>\<rparr>"

definition mini_file :: idmef_file where
  "mini_file =
     \<lparr>file_ident = None, file_category = 0, file_name = Some (Some ''passwd''), file_path = Some (Some ''/etc/passwd''),
      file_create_time = Some \<lparr>time_sec = 0, time_usec = 0, time_gmtoff = 3600\<rparr>, file_modify_time = None, file_access_time = None,
      file_data_size = Some 1024, file_disk_size = None, file_fstype = Some 1, file_file_type = None,
      file_accesses = [\<lparr>file_access_permissions = [Some ''read'', Some ''write''], file_access_user_id = mini_user_id\<rparr>],
      file_linkages = [\<lparr>linkage_category = 0, linkage_name = Some (Some ''shadow''), linkage_path = None\<rparr>],
      file_inode = Some \<lparr>inode_change_time = None, inode_number = Some 77, inode_major_device = None, inode_minor_device = None,
        inode_c_major_device = None, inode_c_minor_device = None\<rparr>,
      file_checksums = [\<lparr>checksum_value = Some (Some ''c0ffee''), checksum_key = None, checksum_algorithm = 1\<rparr>]\<rparr>"

definition mini_target :: idmef_target where
  "mini_target =
     \<lparr>target_ident = None, target_decoy = 0, target_interface = None, target_node = None, target_user = None,
      target_process = None,
      target_service = Some
        \<lparr>service_ident = None, service_ip_version = None, service_name = Some (Some ''http''), service_port = Some 80,
         service_iana_protocol_number = None, service_iana_protocol_name = None, service_portlist = None, service_protocol = None,
         service_type = Service_web (Some
           \<lparr>web_url = Some (Some ''/cgi''), web_cgi = None, web_http_method = Some (Some ''GET''), web_args = [Some ''x=1'']\<rparr>)\<rparr>,
      target_files = [mini_file]\<rparr>"

definition mini_assessment :: idmef_assessment where
  "mini_assessment =
     \<lparr>assessment_impact = Some \<lparr>impact_severity = Some 1, impact_completion = None, impact_type = 0,
        impact_description = Some (Some ''it's bad'')\<rparr>,
      assessment_confidence = Some \<lparr>confidence_rating = 1, confidence_value = 0\<rparr>,
      assessment_actions = [\<lparr>action_category = 0, action_description = Some (Some ''block'')\<rparr>]\<rparr>"

definition mini_alert :: idmef_alert where
  "mini_alert =
     \<lparr>alert_messageid = Some (Some ''a-1''), alert_create_time = Some \<lparr>time_sec = 0, time_usec = 5, time_gmtoff = - 3600\<rparr>,
      alert_detect_time = Some \<lparr>time_sec = 0, time_usec = 4, time_gmtoff = 0\<rparr>, alert_analyzer_time = None,
      alert_assessment = Some mini_assessment,
      alert_type = Alert_overflow (Some \<lparr>overflow_program = Some (Some ''httpd''), overflow_size = Some 1500,
        overflow_buffer = Some \<lparr>data_type_of = DATA_BYTE_STRING, data_bytes = [NUL, CHR ''a''], data_to_string = Inr [NUL, CHR ''a'']\<rparr>\<rparr>),
      alert_analyzers = [], alert_sources = [mini_source], alert_targets = [mini_target],
      alert_classification = Some \<lparr>classification_ident = None, classification_text = Some (Some ''overflow''),
        classification_references = [\<lparr>reference_origin = 0, reference_name = Some (Some ''CVE''), reference_url = None, reference_meaning = None\<rparr>]\<rparr>,
      alert_additional_data =
        [\<lparr>ad_type = 1, ad_meaning = None,
          ad_data = Some \<lparr>data_type_of = DATA_CHAR_STRING, data_bytes = ''x y'' @ [NUL], data_to_string = Inr ''x y''\<rparr>\<rparr>]\<rparr>"

lemma mini_time_law:
  "time_law mini_env None"
  "- (2 ^ 31) \<le> g \<Longrightarrow> g < 2 ^ 31 \<Longrightarrow> 0 \<le> u \<Longrightarrow> u < 2 ^ 31 \<Longrightarrow>
   time_law mini_env (Some \<lparr>time_sec = 0, time_usec = u, time_gmtoff = g\<rparr>)"
  by (simp_all add: time_law_def time_ok_def mini_env_def mini_plugin_def null_plugin_def null_env_def timestamp_text_def
      epoch_tm_def dec_int_def dec2_int_def pad2_def dec_nat.simps)

lemma mini_alert_ok: "alert_ok mini_env mini_alert"
  by (simp add: alert_ok_def mini_alert_def mini_time_law type_ok_def data_ok_def data_text_def source_ok_def mini_source_def
      service_ok_def target_ok_def mini_target_def file_ok_def mini_file_def)

lemma mini_alert_readable: "alert_readable mini_env mini_database 3 mini_alert"
  by (simp add: alert_readable_def mini_alert_def source_fits_def mini_source_def host_fits_def service_fits_def web_of_def
      target_fits_def mini_target_def file_fits_def mini_file_def small_size_def mini_assessment_def assessment_fits_def
      float_read_def field_to_float_def mini_database_def mini_env_def type_fits_def additional_data_ok_def data_text_def
      value_read_def norm_enum_def cstr_def)

lemmas mini_norm = norm_str_def get_string_def norm_enum_def norm_opt_enum_def get_optional_enum_def cstr_def norm_item_def
  mini_env_def null_env_def

lemma mini_source_normal: "norm_source mini_env mini_source = mini_source"
  by (simp add: norm_source_def norm_source_row_def mini_source_def norm_user_def norm_user_id_def mini_user_id_def norm_service_def
      norm_service_type_def snmp_of_def norm_snmp_service_def mini_norm)

lemma mini_file_normal: "norm_file mini_env mini_file = mini_file"
  by (simp add: norm_file_def norm_file_row_def mini_file_def norm_file_access_def norm_user_id_def mini_user_id_def
      norm_linkage_def norm_inode_def norm_checksum_def without_usec_def mini_norm)

lemma mini_target_normal: "norm_target mini_env mini_target = mini_target"
  using mini_file_normal
  by (simp add: norm_target_def norm_target_row_def mini_target_def norm_service_def norm_service_type_def snmp_of_def web_of_def
      norm_web_service_def mini_norm)

lemma mini_assessment_normal: "norm_assessment mini_env mini_database mini_assessment = mini_assessment"
  by (simp add: norm_assessment_def mini_assessment_def norm_impact_def norm_confidence_def norm_action_def float_read_def
      field_to_float_def mini_database_def mini_norm)

lemma mini_alert_normal: "norm_alert mini_env mini_database mini_alert = mini_alert"
  using mini_source_normal mini_target_normal mini_assessment_normal
  by (simp add: norm_alert_def mini_alert_def norm_type_def tool_of_def correlation_of_def overflow_of_def read_alert_type_def
      norm_overflow_def data_text_def norm_classification_def norm_reference_def norm_additional_data_def value_read_def
      mini_database_def mini_norm)

theorem alert_roundtrip_witness:
  "\<exists>s'. classic_insert mini_env (Some (Message_alert (Some mini_alert))) mini_sql = (Inr 0, s') \<and>
    fst (classic_get_alert 3 mini_env 4 s') = Inr (Message_alert (Some mini_alert)) \<and>
    db_rows (database_of mini_database mini_sql) \<subseteq># db_rows (database_of mini_database s') \<and> can_begin s' \<and>
    idents_given (database_of mini_database s')"
proof -
  have "can_begin mini_sql"
    by (simp add: can_begin_def mini_sql_def sql_fresh_def connected_def in_transaction_def STATUS_CONNECTED_def STATUS_TRANSACTION_def)
  moreover have "idents_given (database_of mini_database mini_sql)"
    by (simp add: idents_given_def ident_below_def numbered_def message_of_row_def cell_def mini_sql_def sql_fresh_def)
  moreover have "(4 :: int) = db_next (database_of mini_database mini_sql) ''Requiem_Alert''"
    by (simp add: mini_sql_def sql_fresh_def)
  ultimately show ?thesis
    using alert_roundtrip [OF mini_sql_database _ _ _ _ _ mini_alert_ok mini_alert_readable, of mini_sql 4]
    by (simp add: mini_alert_normal)
qed

end
