(* ===== verification/PluginBase.thy ===== *)
theory PluginBase
  imports SqlFields "HOL-Library.Signed_Division"
begin

text \<open>
  What the three SQL plugins (\<open>plugins/sql\<close>) share: running functions of a client library on the
  session, tables of operators, and the window of rows a LIMIT clause stands for.
\<close>

section \<open>The session\<close>

definition on_session :: "('w \<Rightarrow> 'a \<times> 'w) \<Rightarrow> 'w world \<Rightarrow> 'a \<times> 'w world" where
  "on_session f w = (case f (session w) of (r, m) \<Rightarrow> (r, w\<lparr>session := m\<rparr>))"

definition upd_session :: "('w \<Rightarrow> 'w) \<Rightarrow> 'w world \<Rightarrow> 'w world" where
  "upd_session f w = w\<lparr>session := f (session w)\<rparr>"

lemma session_simps [simp]:
  "session (w\<lparr>session := m\<rparr>) = m" "session (upd_session f w) = f (session w)"
  "thread_error (upd_session f w) = thread_error w"
  by (simp_all add: upd_session_def)

section \<open>Operators\<close>

text \<open>
  An operator of librequiem is a relation with the bits NOT and NOCASE; a table is searched from
  its start.
\<close>

abbreviation opr :: "bool \<Rightarrow> bool \<Rightarrow> crit_rel \<Rightarrow> crit_op" where
  "opr negated nocase rel \<equiv> \<lparr>op_not = negated, op_nocase = nocase, op_rel = rel\<rparr>"

type_synonym operator_table = "(crit_op \<times> string) list"

definition operator_in :: "operator_table \<Rightarrow> crit_op \<Rightarrow> string option" where
  "operator_in t op = map_of t op"

text \<open>\<open>snprintf\<close> into a buffer of a given size, where truncation is an error.\<close>

definition printed_in :: "nat \<Rightarrow> string \<Rightarrow> err + string" where
  "printed_in room t = (if room \<le> length t then Inl (requiemdb_error ERROR_GENERIC) else Inr t)"

text \<open>The hours of an offset in seconds; division of an \<open>int\<close> truncates towards zero.\<close>

definition offset_hours :: "int \<Rightarrow> int" where
  "offset_hours gmt_offset = gmt_offset sdiv 3600"

text \<open>A time constraint: a buffer of 128 bytes for the shifted field, then the operator.\<close>

definition time_constraint_with ::
    "string \<Rightarrow> (crit_op \<Rightarrow> string option) \<Rightarrow> (string \<Rightarrow> string \<Rightarrow> string) \<Rightarrow> crit_op \<Rightarrow> err + string" where
  "time_constraint_with shifted operators text_for op =
    (case printed_in 128 shifted of
       Inl e \<Rightarrow> Inl e
     | Inr buf \<Rightarrow>
         (case operators op of
            None \<Rightarrow> Inl (requiemdb_error ERROR_GENERIC)
          | Some sql_operator \<Rightarrow> Inr (text_for buf sql_operator)))"

text \<open>The units of an interval; weeks and days of the year have none.\<close>

definition interval_unit :: "time_constraint \<Rightarrow> string option" where
  "interval_unit tc =
    (case tc of
       TC_YEAR \<Rightarrow> Some ''YEAR'' | TC_MONTH \<Rightarrow> Some ''MONTH'' | TC_MDAY \<Rightarrow> Some ''DAY'' | TC_HOUR \<Rightarrow> Some ''HOUR''
     | TC_MIN \<Rightarrow> Some ''MINUTE'' | TC_SEC \<Rightarrow> Some ''SECOND'' | TC_YDAY \<Rightarrow> None | TC_WDAY \<Rightarrow> None)"

text \<open>\<open>atoi\<close>, kept in an \<open>unsigned int\<close>.\<close>

definition port_number :: "string \<Rightarrow> int" where
  "port_number t = (case scan_int (cstr t) of Scan_int i _ \<Rightarrow> i mod 2 ^ 32 | _ \<Rightarrow> 0)"

section \<open>LIMIT clauses\<close>

text \<open>
  How the servers document the clause: \<open>LIMIT n\<close>, \<open>LIMIT k, n\<close>, \<open>LIMIT n OFFSET k\<close> and
  \<open>LIMIT ALL OFFSET k\<close>, where a negative \<open>n\<close> (SQLite) means all rows.
\<close>

fun after_prefix :: "string \<Rightarrow> string \<Rightarrow> string option" where
  "after_prefix [] t = Some t"
| "after_prefix (a # p) [] = None"
| "after_prefix (a # p) (b # t) = (if a = b then after_prefix p t else None)"

definition take_rows :: "int \<Rightarrow> 'a list \<Rightarrow> 'a list" where
  "take_rows n rows = (if n < 0 then rows else take (nat n) rows)"

definition limit_rows :: "string \<Rightarrow> 'a list \<Rightarrow> 'a list option" where
  "limit_rows clause rows =
    (if clause = [] then Some rows
     else case after_prefix '' LIMIT ALL OFFSET '' clause of
       Some t \<Rightarrow> (case scan_int t of Scan_int k [] \<Rightarrow> Some (drop (nat k) rows) | _ \<Rightarrow> None)
     | None \<Rightarrow>
         (case after_prefix '' LIMIT '' clause of
            None \<Rightarrow> None
          | Some t \<Rightarrow>
              (case scan_int t of
                 Scan_int n rest \<Rightarrow>
                   (if rest = [] then Some (take_rows n rows)
                    else case after_prefix '', '' rest of
                      Some u \<Rightarrow> (case scan_int u of Scan_int m [] \<Rightarrow> Some (take_rows m (drop (nat n) rows)) | _ \<Rightarrow> None)
                    | None \<Rightarrow>
                        (case after_prefix '' OFFSET '' rest of
                           Some u \<Rightarrow> (case scan_int u of Scan_int k [] \<Rightarrow> Some (take_rows n (drop (nat k) rows)) | _ \<Rightarrow> None)
                         | None \<Rightarrow> None))
               | _ \<Rightarrow> None)))"

text \<open>The rows a caller asks for; a negative limit or offset stands for none.\<close>

definition rows_asked :: "int \<Rightarrow> int \<Rightarrow> 'a list \<Rightarrow> 'a list" where
  "rows_asked limit offset rows = (if limit < 0 then id else take (nat limit)) (if offset < 0 then rows else drop (nat offset) rows)"

lemma after_prefix_append [simp]: "after_prefix p (p @ t) = Some t"
  by (induction p) auto

lemma scan_dec [simp]: "scan_int (dec_int i) = Scan_int i []"
  using scan_int_dec_int [of "[]" i] by (simp add: stops_digits_def)

lemma scan_dec_sep [simp]:
  "scan_int (dec_int i @ '', '' @ t) = Scan_int i ('', '' @ t)"
  "scan_int (dec_int i @ '' OFFSET '' @ t) = Scan_int i ('' OFFSET '' @ t)"
  using scan_int_dec_int [of "'', '' @ t" i] scan_int_dec_int [of "'' OFFSET '' @ t" i]
  by (simp_all add: stops_digits_def isdigit_def)

lemma not_all: "after_prefix ''ALL OFFSET '' (dec_int i @ t) = None"
proof -
  have "hd (dec_nat n) \<noteq> CHR ''A''" for n
    using dec_nat_digits [of n] dec_nat_not_Nil [of n] by (cases "dec_nat n") (auto simp: isdigit_def)
  then show ?thesis
    using dec_nat_not_Nil by (cases "dec_int i") (auto simp: dec_int_def split: if_splits, metis list.sel(1))
qed

lemma limit_rows_offset_only: "0 \<le> k \<Longrightarrow> limit_rows ('' LIMIT ALL OFFSET '' @ dec_int k) rows = Some (drop (nat k) rows)"
  using after_prefix_append [of "'' LIMIT ALL OFFSET ''" "dec_int k"] by (simp add: limit_rows_def)

lemma limit_rows_texts:
  "limit_rows ('' LIMIT '' @ dec_int n) rows = Some (take_rows n rows)"
  "limit_rows ('' LIMIT '' @ dec_int k @ '', '' @ dec_int n) rows = Some (take_rows n (drop (nat k) rows))"
  "limit_rows ('' LIMIT '' @ dec_int n @ '' OFFSET '' @ dec_int k) rows = Some (take_rows n (drop (nat k) rows))"
proof -
  have l: "after_prefix '' LIMIT '' ('' LIMIT '' @ dec_int n @ t) = Some (dec_int n @ t)"
    "after_prefix '' LIMIT ALL OFFSET '' ('' LIMIT '' @ dec_int n @ t) = None" for n t
    using not_all [of n t] by simp_all
  show "limit_rows ('' LIMIT '' @ dec_int n) rows = Some (take_rows n rows)"
    using l [of n "[]"] by (simp add: limit_rows_def)
  show "limit_rows ('' LIMIT '' @ dec_int k @ '', '' @ dec_int n) rows = Some (take_rows n (drop (nat k) rows))"
    using l [of k "'', '' @ dec_int n"] after_prefix_append [of "'', ''" "dec_int n"] scan_dec_sep(1) [of k "dec_int n"]
    by (simp add: limit_rows_def)
  show "limit_rows ('' LIMIT '' @ dec_int n @ '' OFFSET '' @ dec_int k) rows = Some (take_rows n (drop (nat k) rows))"
    using l [of n "'' OFFSET '' @ dec_int k"] after_prefix_append [of "'' OFFSET ''" "dec_int k"] scan_dec_sep(2) [of n "dec_int k"]
    by (simp add: limit_rows_def)
qed

end
