(* ===== verification/PluginMysql.thy ===== *)
theory PluginMysql
  imports PluginBase
begin

text \<open>
  The MySQL plugin (\<open>plugins/sql/mysql/mysql.c\<close>).  The functions of the client library are
  the fields of a record over the state of a connection.  A result and a row are handles of
  the library; what \<open>mysql_init\<close> allocates is part of the state.
\<close>

section \<open>The client library\<close>

datatype mysql_errno =
    MYSQL_OK
  | CR_CONNECTION_ERROR | CR_SERVER_GONE_ERROR | CR_SERVER_LOST | CR_CONN_HOST_ERROR | CR_IPSOCK_ERROR
  | ER_SERVER_SHUTDOWN
  | MYSQL_OTHER nat

record 'w mysql_lib =
  mysql_real_connect ::
    "string option \<Rightarrow> string option \<Rightarrow> string option \<Rightarrow> string option \<Rightarrow> int \<Rightarrow> 'w \<Rightarrow> bool \<times> 'w"
  mysql_close :: "'w \<Rightarrow> 'w"
  mysql_errno_of :: "'w \<Rightarrow> mysql_errno"
  mysql_error :: "'w \<Rightarrow> string"
  mysql_query :: "string \<Rightarrow> 'w \<Rightarrow> bool \<times> 'w"
  mysql_store_result :: "'w \<Rightarrow> sql_res option \<times> 'w"
  mysql_free_result :: "sql_res \<Rightarrow> 'w \<Rightarrow> 'w"
  mysql_num_rows :: "'w \<Rightarrow> sql_res \<Rightarrow> nat"
  mysql_num_fields :: "'w \<Rightarrow> sql_res \<Rightarrow> nat"
  mysql_field_name :: "'w \<Rightarrow> sql_res \<Rightarrow> nat \<Rightarrow> string"
  mysql_fetch_fields :: "'w \<Rightarrow> sql_res \<Rightarrow> bool"
  mysql_fetch_row :: "sql_res \<Rightarrow> 'w \<Rightarrow> sql_rowh option \<times> 'w"
  mysql_fetch_lengths :: "'w \<Rightarrow> sql_res \<Rightarrow> bool"
  mysql_row_value :: "'w \<Rightarrow> sql_res \<Rightarrow> sql_rowh \<Rightarrow> nat \<Rightarrow> string option"
  mysql_escape_string :: "'w \<Rightarrow> string \<Rightarrow> string"

section \<open>Errors\<close>

definition mysql_is_connection_broken :: "'w mysql_lib \<Rightarrow> 'w \<Rightarrow> bool" where
  "mysql_is_connection_broken L m \<longleftrightarrow>
     mysql_errno_of L m \<in> {CR_CONNECTION_ERROR, CR_SERVER_GONE_ERROR, CR_SERVER_LOST, CR_CONN_HOST_ERROR,
       CR_IPSOCK_ERROR, ER_SERVER_SHUTDOWN}"

definition mysql_handle_error :: "'w mysql_lib \<Rightarrow> db_error_code \<Rightarrow> ('w world, err, 'a) cop" where
  "mysql_handle_error L code = (\<lambda>w.
     let c = (if mysql_is_connection_broken L (session w) then ERROR_CONNECTION else code)
     in if mysql_errno_of L (session w) \<noteq> MYSQL_OK then error_verbose c (mysql_error L (session w)) w
        else (Inl (requiemdb_error c), w))"

section \<open>Connection\<close>

definition mysql_sql_close :: "'w mysql_lib \<Rightarrow> 'w world \<Rightarrow> 'w world" where
  "mysql_sql_close L = upd_session (mysql_close L)"

definition mysql_sql_open :: "'w mysql_lib \<Rightarrow> settings \<Rightarrow> ('w world, err, unit) cop" where
  "mysql_sql_open L s = (\<lambda>w.
     let port = (case get_port s of None \<Rightarrow> 0 | Some p \<Rightarrow> port_number p)
     in case on_session (mysql_real_connect L (get_host s) (get_user s) (get_pass s) (get_dbname s) port) w of
       (False, w1) \<Rightarrow> (case mysql_handle_error L ERROR_CONNECTION w1 of (r, w2) \<Rightarrow> (r, mysql_sql_close L w2))
     | (True, w1) \<Rightarrow> (Inr (), snd (on_session (mysql_query L ''SET SESSION wait_timeout=31536000'') w1)))"

section \<open>Escaping\<close>

text \<open>The size of the buffer wraps in \<open>size_t\<close>; a wrapped size is refused.\<close>

definition mysql_sql_escape_binary :: "'w mysql_lib \<Rightarrow> string \<Rightarrow> ('w world, err, string) cop" where
  "mysql_sql_escape_binary L input = (\<lambda>w.
     let rsize = (length input * 2 + 3) mod SIZE_MOD
     in if rsize \<le> length input then (Inl (RawErr (- 1)), w)
        else (Inr ([CHR 0x27] @ mysql_escape_string L (session w) input @ [CHR 0x27]), w))"

section \<open>Queries and results\<close>

definition mysql_sql_query :: "'w mysql_lib \<Rightarrow> string \<Rightarrow> ('w world, err, sql_res option) cop" where
  "mysql_sql_query L query = (\<lambda>w.
     case on_session (mysql_query L query) w of
       (False, w1) \<Rightarrow> mysql_handle_error L ERROR_QUERY w1
     | (True, w1) \<Rightarrow>
         (case on_session (mysql_store_result L) w1 of
            (Some t, w2) \<Rightarrow>
              if mysql_num_rows L (session w2) t = 0 then (Inr None, upd_session (mysql_free_result L t) w2)
              else (Inr (Some t), w2)
          | (None, w2) \<Rightarrow>
              if mysql_errno_of L (session w2) \<noteq> MYSQL_OK then mysql_handle_error L ERROR_QUERY w2
              else (Inr None, w2)))"

definition mysql_sql_resource_destroy :: "'w mysql_lib \<Rightarrow> sql_res \<Rightarrow> 'w world \<Rightarrow> 'w world" where
  "mysql_sql_resource_destroy L t = upd_session (mysql_free_result L t)"

definition mysql_sql_get_column_name :: "'w mysql_lib \<Rightarrow> 'w world \<Rightarrow> sql_res \<Rightarrow> nat \<Rightarrow> string option" where
  "mysql_sql_get_column_name L w t c =
     (if mysql_num_fields L (session w) t \<le> c then None else Some (mysql_field_name L (session w) t c))"

text \<open>The number of the first column with the name.\<close>

definition first_column :: "(nat \<Rightarrow> string) \<Rightarrow> nat \<Rightarrow> string \<Rightarrow> int" where
  "first_column name n c =
     (case filter (\<lambda>i. name i = c) [0..<n] of [] \<Rightarrow> - 1 | i # _ \<Rightarrow> int i)"

definition mysql_sql_get_column_num :: "'w mysql_lib \<Rightarrow> 'w world \<Rightarrow> sql_res \<Rightarrow> string \<Rightarrow> int" where
  "mysql_sql_get_column_num L w t c =
     (if \<not> mysql_fetch_fields L (session w) t then - 1
      else first_column (mysql_field_name L (session w) t) (mysql_num_fields L (session w) t) c)"

definition mysql_sql_get_column_count :: "'w mysql_lib \<Rightarrow> 'w world \<Rightarrow> sql_res \<Rightarrow> nat" where
  "mysql_sql_get_column_count L w t = mysql_num_fields L (session w) t"

text \<open>The number of rows is cast to \<open>unsigned int\<close>.\<close>

definition mysql_sql_get_row_count :: "'w mysql_lib \<Rightarrow> 'w world \<Rightarrow> sql_res \<Rightarrow> nat" where
  "mysql_sql_get_row_count L w t = mysql_num_rows L (session w) t mod 2 ^ 32"

definition mysql_sql_fetch_row :: "'w mysql_lib \<Rightarrow> sql_res \<Rightarrow> ('w world, err, sql_rowh option) cop" where
  "mysql_sql_fetch_row L t = (\<lambda>w.
     case on_session (mysql_fetch_row L t) w of
       (Some h, w1) \<Rightarrow> (Inr (Some h), w1)
     | (None, w1) \<Rightarrow>
         (if mysql_errno_of L (session w1) \<noteq> MYSQL_OK then Inl (requiemdb_error ERROR_GENERIC) else Inr None, w1))"

definition mysql_sql_fetch_field :: "'w mysql_lib \<Rightarrow> sql_res \<Rightarrow> sql_rowh \<Rightarrow> nat \<Rightarrow> ('w world, err, string option) cop" where
  "mysql_sql_fetch_field L t h c = (\<lambda>w.
     (if mysql_num_fields L (session w) t \<le> c then Inl (requiemdb_error ERROR_INVALID_COLUMN_NUM)
      else if \<not> mysql_fetch_lengths L (session w) t then Inl (requiemdb_error ERROR_GENERIC)
      else Inr (mysql_row_value L (session w) t h c), w))"

section \<open>SQL texts\<close>

definition mysql_operators :: operator_table where
  "mysql_operators =
    [(opr False False REL_EQUAL, ''= BINARY''), (opr False True REL_EQUAL, ''=''),
     (opr True False REL_EQUAL, ''!= BINARY''), (opr True True REL_EQUAL, ''!=''),
     (opr False False REL_GREATER, ''>''), (opr False False REL_GREATER_EQUAL, ''>=''),
     (opr False False REL_LESSER, ''<''), (opr False False REL_LESSER_EQUAL, ''<=''),
     (opr False False REL_SUBSTR, ''LIKE BINARY''), (opr False True REL_SUBSTR, ''LIKE''),
     (opr True False REL_SUBSTR, ''NOT LIKE BINARY''), (opr True True REL_SUBSTR, ''NOT LIKE ''),
     (opr False False REL_REGEX, ''REGEXP BINARY''), (opr False True REL_REGEX, ''REGEXP''),
     (opr True False REL_REGEX, ''NOT REGEXP''), (opr True True REL_REGEX, ''NOT REGEXP BINARY''),
     (opr False False REL_NULL, ''IS NULL''), (opr True False REL_NULL, ''IS NOT NULL'')]"

definition mysql_get_operator_string :: "crit_op \<Rightarrow> string option" where
  "mysql_get_operator_string = operator_in mysql_operators"

definition mysql_sql_build_constraint_string :: "string \<Rightarrow> crit_op \<Rightarrow> string \<Rightarrow> err + string" where
  "mysql_sql_build_constraint_string field op v =
    (case mysql_get_operator_string op of
       None \<Rightarrow> Inl (RawErr (- 1))
     | Some s \<Rightarrow> Inr (field @ '' '' @ s @ '' '' @ v))"

definition mysql_sql_build_limit_offset_string :: "int \<Rightarrow> int \<Rightarrow> err + string" where
  "mysql_sql_build_limit_offset_string limit offset =
     Inr (if limit \<ge> 0 then
            (if offset \<ge> 0 then '' LIMIT '' @ dec_int offset @ '', '' @ dec_int limit else '' LIMIT '' @ dec_int limit)
          else if offset \<ge> 0 then '' LIMIT '' @ dec_int offset @ '', '' @ dec_int (2 ^ 64 - 1)
          else [])"

definition mysql_extracted :: "time_constraint \<Rightarrow> string \<Rightarrow> string" where
  "mysql_extracted tc buf =
    (case tc of
       TC_YEAR \<Rightarrow> ''EXTRACT(YEAR FROM '' @ buf @ '')'' | TC_MONTH \<Rightarrow> ''EXTRACT(MONTH FROM '' @ buf @ '')''
     | TC_YDAY \<Rightarrow> ''DAYOFYEAR('' @ buf @ '')'' | TC_MDAY \<Rightarrow> ''DAYOFMONTH('' @ buf @ '')''
     | TC_WDAY \<Rightarrow> ''DAYOFWEEK('' @ buf @ '')'' | TC_HOUR \<Rightarrow> ''EXTRACT(HOUR FROM '' @ buf @ '')''
     | TC_MIN \<Rightarrow> ''EXTRACT(MINUTE FROM '' @ buf @ '')'' | TC_SEC \<Rightarrow> ''EXTRACT(SECOND FROM '' @ buf @ '')'')"

definition mysql_compared :: "time_constraint \<Rightarrow> int \<Rightarrow> int" where
  "mysql_compared tc v = (if tc = TC_WDAY then v smod 7 + 1 else v)"

definition mysql_sql_build_time_constraint_string ::
    "string \<Rightarrow> time_constraint \<Rightarrow> crit_op \<Rightarrow> int \<Rightarrow> int \<Rightarrow> err + string" where
  "mysql_sql_build_time_constraint_string field tc op v gmt_offset =
     time_constraint_with (''DATE_ADD('' @ field @ '', INTERVAL '' @ dec_int (offset_hours gmt_offset) @ '' HOUR)'')
       mysql_get_operator_string
       (\<lambda>buf sql_operator. mysql_extracted tc buf @ '' '' @ sql_operator @ '' '' @
          [CHR 0x27] @ dec_int (mysql_compared tc v) @ [CHR 0x27]) op"

definition mysql_sql_build_time_interval_string :: "time_constraint \<Rightarrow> int \<Rightarrow> nat \<Rightarrow> err + string" where
  "mysql_sql_build_time_interval_string tc v bufsize =
    (case interval_unit tc of
       None \<Rightarrow> Inl (requiemdb_error ERROR_GENERIC)
     | Some u \<Rightarrow> printed_in bufsize (''INTERVAL '' @ dec_int v @ '' '' @ u))"

section \<open>The plugin\<close>

definition mysql_plugin :: "'w mysql_lib \<Rightarrow> 'w plugin_sql" where
  "mysql_plugin L = null_plugin
    \<lparr>pl_open := mysql_sql_open L, pl_close := mysql_sql_close L,
     pl_escape_binary := Some (mysql_sql_escape_binary L), pl_query := mysql_sql_query L,
     pl_resource_destroy := mysql_sql_resource_destroy L, pl_get_column_count := mysql_sql_get_column_count L,
     pl_get_row_count := mysql_sql_get_row_count L, pl_get_column_name := mysql_sql_get_column_name L,
     pl_get_column_num := mysql_sql_get_column_num L, pl_get_operator_string := mysql_get_operator_string,
     pl_fetch_row := Some (mysql_sql_fetch_row L), pl_fetch_field := Some (mysql_sql_fetch_field L),
     pl_build_constraint := Some mysql_sql_build_constraint_string,
     pl_build_time_constraint := Some mysql_sql_build_time_constraint_string,
     pl_build_time_interval := Some mysql_sql_build_time_interval_string,
     pl_build_limit_offset := Some (\<lambda>_. mysql_sql_build_limit_offset_string)\<rparr>"

end
