(* ===== verification/PluginPgsql.thy ===== *)
theory PluginPgsql
  imports PluginMysql
begin

text \<open>
  The PostgreSQL plugin (\<open>plugins/sql/pgsql/pgsql.c\<close>).  The session is the connection of the
  client library together with the plugin's own results (\<open>struct pg_result\<close>), which live
  under handles given out in turn.
\<close>

section \<open>The client library and the session\<close>

datatype pg_status = PGRES_COMMAND_OK | PGRES_TUPLES_OK | PGRES_OTHER

type_synonym pg_handle = nat

record 'w pq_lib =
  PQsetdbLogin :: "string option \<Rightarrow> string option \<Rightarrow> string option \<Rightarrow> string option \<Rightarrow> string option \<Rightarrow> 'w \<Rightarrow> 'w"
  PQfinish :: "'w \<Rightarrow> 'w"
  PQconnection_bad :: "'w \<Rightarrow> bool"
  PQerrorMessage :: "'w \<Rightarrow> string option"
  PQserverVersion :: "('w \<Rightarrow> int) option"
  PQexec :: "string \<Rightarrow> 'w \<Rightarrow> pg_handle option \<times> 'w"
  PQresultStatus :: "'w \<Rightarrow> pg_handle \<Rightarrow> pg_status"
  PQclear :: "pg_handle \<Rightarrow> 'w \<Rightarrow> 'w"
  PQntuples :: "'w \<Rightarrow> pg_handle \<Rightarrow> int"
  PQnfields :: "'w \<Rightarrow> pg_handle \<Rightarrow> int"
  PQfname :: "'w \<Rightarrow> pg_handle \<Rightarrow> nat \<Rightarrow> string option"
  PQfnumber :: "'w \<Rightarrow> pg_handle \<Rightarrow> string \<Rightarrow> int"
  PQfield :: "'w \<Rightarrow> pg_handle \<Rightarrow> int \<Rightarrow> nat \<Rightarrow> string option"
  PQescapeString :: "string \<Rightarrow> string"
  PQescapeBytea :: "string \<Rightarrow> string option"
  PQunescapeBytea :: "string \<Rightarrow> string option"

record pg_result =
  pg_res :: pg_handle
  pg_row :: int

record 'w pg_session =
  pg_conn :: 'w
  pg_results :: "sql_res \<Rightarrow> pg_result option"
  pg_next :: sql_res

definition on_conn :: "('w \<Rightarrow> 'a \<times> 'w) \<Rightarrow> 'w pg_session world \<Rightarrow> 'a \<times> 'w pg_session world" where
  "on_conn f = on_session (\<lambda>m. case f (pg_conn m) of (r, c) \<Rightarrow> (r, m\<lparr>pg_conn := c\<rparr>))"

definition upd_conn :: "('w \<Rightarrow> 'w) \<Rightarrow> 'w pg_session world \<Rightarrow> 'w pg_session world" where
  "upd_conn f = upd_session (\<lambda>m. m\<lparr>pg_conn := f (pg_conn m)\<rparr>)"

abbreviation conn_of :: "'w pg_session world \<Rightarrow> 'w" where "conn_of w \<equiv> pg_conn (session w)"

section \<open>Errors\<close>

text \<open>
  The newlines and spaces at the end of a copy of the message are overwritten with NULs, from
  its last byte backwards (\<open>n\<close> is \<open>len + 1\<close>).  The loop has no lower bound: of a message that
  consists of nothing else, the empty one included, it reads before the start of the buffer
  (\<open>None\<close>).
\<close>

fun trim_loop :: "string \<Rightarrow> nat \<Rightarrow> string option" where
  "trim_loop tmp 0 = None"
| "trim_loop tmp (Suc len) =
     (if tmp ! len = CHR 0x0A \<or> tmp ! len = CHR '' '' then trim_loop (tmp[len := NUL]) len else Some (cstr tmp))"

definition trim_message :: "string \<Rightarrow> string option" where
  "trim_message t = (let tmp = cstr t in trim_loop tmp (length tmp))"

definition pgsql_handle_error :: "'w pq_lib \<Rightarrow> db_error_code \<Rightarrow> ('w pg_session world, err, 'a) cop" where
  "pgsql_handle_error L code = (\<lambda>w.
     let c = (if PQconnection_bad L (conn_of w) then ERROR_CONNECTION else code)
     in case PQerrorMessage L (conn_of w) of
          None \<Rightarrow> (Inl (requiemdb_error c), w)
        | Some t \<Rightarrow> (case trim_message t of None \<Rightarrow> (Inl UndefinedValue, w) | Some msg \<Rightarrow> error_verbose c msg w))"

section \<open>Queries\<close>

text \<open>
  A result with rows is stored through the caller's pointer, which \<open>sql_open\<close> passes as NULL
  (\<open>wanted\<close> is false).
\<close>

definition pgsql_sql_query_into :: "bool \<Rightarrow> 'w pq_lib \<Rightarrow> string \<Rightarrow> ('w pg_session world, err, sql_res option) cop" where
  "pgsql_sql_query_into wanted L query = (\<lambda>w.
     case on_conn (PQexec L query) w of
       (None, w1) \<Rightarrow> pgsql_handle_error L ERROR_QUERY w1
     | (Some r, w1) \<Rightarrow>
         (let ret = PQresultStatus L (conn_of w1) r
          in if ret = PGRES_TUPLES_OK \<and> PQntuples L (conn_of w1) r \<noteq> 0 then
               (if wanted then
                  (let m = session w1
                   in (Inr (Some (pg_next m)),
                       w1\<lparr>session := m\<lparr>pg_results := (pg_results m)(pg_next m \<mapsto> \<lparr>pg_res = r, pg_row = - 1\<rparr>),
                                       pg_next := pg_next m + 1\<rparr>\<rparr>))
                else (Inl NullDeref, w1))
             else
               (let w2 = upd_conn (PQclear L r) w1
                in if ret = PGRES_TUPLES_OK \<or> ret = PGRES_COMMAND_OK then (Inr None, w2)
                   else pgsql_handle_error L ERROR_QUERY w2)))"

definition pgsql_sql_query :: "'w pq_lib \<Rightarrow> string \<Rightarrow> ('w pg_session world, err, sql_res option) cop" where
  "pgsql_sql_query = pgsql_sql_query_into True"

section \<open>Connection\<close>

definition pgsql_sql_close :: "'w pq_lib \<Rightarrow> 'w pg_session world \<Rightarrow> 'w pg_session world" where
  "pgsql_sql_close L = upd_conn (PQfinish L)"

definition pgsql_sql_open :: "'w pq_lib \<Rightarrow> settings \<Rightarrow> ('w pg_session world, err, unit) cop" where
  "pgsql_sql_open L s = (\<lambda>w.
     let w1 = upd_conn (PQsetdbLogin L (get_host s) (get_port s) (get_dbname s) (get_user s) (get_pass s)) w
     in if PQconnection_bad L (conn_of w1)
        then (case pgsql_handle_error L ERROR_CONNECTION w1 of (r, w2) \<Rightarrow> (r, pgsql_sql_close L w2))
        else bindr (pgsql_sql_query_into False L (''SET DATESTYLE TO '' @ [CHR 0x27] @ ''ISO'' @ [CHR 0x27]))
               (\<lambda>_. retn ()) w1)"

section \<open>Escaping\<close>

definition pgsql_sql_escape :: "'w pq_lib \<Rightarrow> string \<Rightarrow> ('w pg_session world, err, string) cop" where
  "pgsql_sql_escape L input =
    (let rsize = (length input * 2 + 3) mod SIZE_MOD
     in if rsize \<le> length input then failw (requiemdb_error ERROR_GENERIC)
        else retn ([CHR 0x27] @ PQescapeString L input @ [CHR 0x27]))"

definition pgsql_sql_escape_binary :: "'w pq_lib \<Rightarrow> string \<Rightarrow> ('w pg_session world, err, string) cop" where
  "pgsql_sql_escape_binary L input = (\<lambda>w.
     case PQescapeBytea L input of
       None \<Rightarrow> (Inl (RawErr (- 1)), w)
     | Some t \<Rightarrow>
         (let new = (case PQserverVersion L of None \<Rightarrow> False | Some version \<Rightarrow> version (conn_of w) \<ge> 80200)
          in (Inr ((if new then ''E'' else []) @ [CHR 0x27] @ t @ [CHR 0x27]), w)))"

text \<open>The value of \<open>errno\<close> after a failure is the library's.\<close>

definition pgsql_sql_unescape_binary :: "'w pq_lib \<Rightarrow> nat \<Rightarrow> string \<Rightarrow> ('w pg_session world, err, string) cop" where
  "pgsql_sql_unescape_binary L errno input =
    (case PQunescapeBytea L input of None \<Rightarrow> failw (LibErr errno False) | Some b \<Rightarrow> retn b)"

section \<open>Results\<close>

definition pgsql_result :: "'w pg_session world \<Rightarrow> sql_res \<Rightarrow> pg_result option" where
  "pgsql_result w t = pg_results (session w) t"

definition pgsql_sql_resource_destroy :: "'w pq_lib \<Rightarrow> sql_res \<Rightarrow> 'w pg_session world \<Rightarrow> 'w pg_session world" where
  "pgsql_sql_resource_destroy L t w =
    (case pgsql_result w t of
       None \<Rightarrow> w
     | Some x \<Rightarrow> upd_session (\<lambda>m. m\<lparr>pg_results := (pg_results m)(t := None)\<rparr>) (upd_conn (PQclear L (pg_res x)) w))"

definition pgsql_sql_get_column_name :: "'w pq_lib \<Rightarrow> 'w pg_session world \<Rightarrow> sql_res \<Rightarrow> nat \<Rightarrow> string option" where
  "pgsql_sql_get_column_name L w t c =
    (case pgsql_result w t of None \<Rightarrow> None | Some x \<Rightarrow> PQfname L (conn_of w) (pg_res x) c)"

definition pgsql_sql_get_column_num :: "'w pq_lib \<Rightarrow> 'w pg_session world \<Rightarrow> sql_res \<Rightarrow> string \<Rightarrow> int" where
  "pgsql_sql_get_column_num L w t c =
    (case pgsql_result w t of None \<Rightarrow> - 1 | Some x \<Rightarrow> PQfnumber L (conn_of w) (pg_res x) c)"

text \<open>The counts are \<open>int\<close>s returned as \<open>unsigned int\<close>.\<close>

definition pgsql_sql_get_column_count :: "'w pq_lib \<Rightarrow> 'w pg_session world \<Rightarrow> sql_res \<Rightarrow> nat" where
  "pgsql_sql_get_column_count L w t =
    (case pgsql_result w t of None \<Rightarrow> 0 | Some x \<Rightarrow> nat (PQnfields L (conn_of w) (pg_res x) mod 2 ^ 32))"

definition pgsql_sql_get_row_count :: "'w pq_lib \<Rightarrow> 'w pg_session world \<Rightarrow> sql_res \<Rightarrow> nat" where
  "pgsql_sql_get_row_count L w t =
    (case pgsql_result w t of None \<Rightarrow> 0 | Some x \<Rightarrow> nat (PQntuples L (conn_of w) (pg_res x) mod 2 ^ 32))"

text \<open>The row is a position in the result; the row handle is NULL.  A result that was freed is an invalid pointer.\<close>

definition pgsql_sql_fetch_row :: "'w pq_lib \<Rightarrow> sql_res \<Rightarrow> ('w pg_session world, err, sql_rowh option) cop" where
  "pgsql_sql_fetch_row L t = (\<lambda>w.
     case pgsql_result w t of
       None \<Rightarrow> (Inl NullDeref, w)
     | Some x \<Rightarrow>
         if pg_row x + 1 < PQntuples L (conn_of w) (pg_res x)
         then (Inr (Some 0), upd_session (\<lambda>m. m\<lparr>pg_results := (pg_results m)(t \<mapsto> x\<lparr>pg_row := pg_row x + 1\<rparr>)\<rparr>) w)
         else (Inr None, w))"

definition pgsql_sql_fetch_field ::
    "'w pq_lib \<Rightarrow> sql_res \<Rightarrow> sql_rowh \<Rightarrow> nat \<Rightarrow> ('w pg_session world, err, string option) cop" where
  "pgsql_sql_fetch_field L t h c = (\<lambda>w.
     (case pgsql_result w t of
        None \<Rightarrow> Inl NullDeref
      | Some x \<Rightarrow>
          (let nfields = PQnfields L (conn_of w) (pg_res x)
           in if nfields < 0 \<or> nfields \<le> int c then Inl (requiemdb_error ERROR_INVALID_COLUMN_NUM)
              else Inr (PQfield L (conn_of w) (pg_res x) (pg_row x) c)), w))"

section \<open>SQL texts\<close>

definition pgsql_operators :: operator_table where
  "pgsql_operators =
    [(opr False False REL_EQUAL, ''=''), (opr True False REL_EQUAL, ''!=''),
     (opr False False REL_GREATER, ''>''), (opr False False REL_GREATER_EQUAL, ''>=''),
     (opr False False REL_LESSER, ''<''), (opr False False REL_LESSER_EQUAL, ''<=''),
     (opr False False REL_SUBSTR, ''LIKE''), (opr False True REL_SUBSTR, ''ILIKE''),
     (opr True False REL_SUBSTR, ''NOT LIKE''), (opr True True REL_SUBSTR, ''NOT ILIKE''),
     (opr False False REL_REGEX, ''~''), (opr False True REL_REGEX, ''~*''),
     (opr True False REL_REGEX, ''!~''), (opr True True REL_REGEX, ''!~*''),
     (opr False False REL_NULL, ''IS NULL''), (opr True False REL_NULL, ''IS NOT NULL'')]"

definition pgsql_get_operator_string :: "crit_op \<Rightarrow> string option" where
  "pgsql_get_operator_string = operator_in pgsql_operators"

definition pgsql_sql_build_constraint_string :: "string \<Rightarrow> crit_op \<Rightarrow> string \<Rightarrow> err + string" where
  "pgsql_sql_build_constraint_string field op v =
    (case pgsql_get_operator_string op of
       Some s \<Rightarrow> Inr (field @ '' '' @ s @ '' '' @ v)
     | None \<Rightarrow>
         if op = opr False True REL_EQUAL then Inr (''lower('' @ field @ '') = lower('' @ v @ '')'')
         else if op = opr True True REL_EQUAL then Inr (''lower('' @ field @ '') != lower('' @ v @ '')'')
         else Inl (RawErr (- 1)))"

definition pgsql_sql_build_limit_offset_string :: "int \<Rightarrow> int \<Rightarrow> err + string" where
  "pgsql_sql_build_limit_offset_string limit offset =
     Inr (if limit \<ge> 0 then
            (if offset \<ge> 0 then '' LIMIT '' @ dec_int limit @ '' OFFSET '' @ dec_int offset else '' LIMIT '' @ dec_int limit)
          else if offset \<ge> 0 then '' LIMIT ALL OFFSET '' @ dec_int offset
          else [])"

definition pgsql_extracted :: "time_constraint \<Rightarrow> string" where
  "pgsql_extracted tc =
    (case tc of
       TC_YEAR \<Rightarrow> ''YEAR'' | TC_MONTH \<Rightarrow> ''MONTH'' | TC_YDAY \<Rightarrow> ''DOY'' | TC_MDAY \<Rightarrow> ''DAY'' | TC_WDAY \<Rightarrow> ''DOW''
     | TC_HOUR \<Rightarrow> ''HOUR'' | TC_MIN \<Rightarrow> ''MINUTE'' | TC_SEC \<Rightarrow> ''SECOND'')"

definition pgsql_compared :: "time_constraint \<Rightarrow> int \<Rightarrow> int" where
  "pgsql_compared tc v = (if tc = TC_WDAY then v smod 7 + 1 else v)"

definition pgsql_sql_build_time_constraint_string ::
    "string \<Rightarrow> time_constraint \<Rightarrow> crit_op \<Rightarrow> int \<Rightarrow> int \<Rightarrow> err + string" where
  "pgsql_sql_build_time_constraint_string field tc op v gmt_offset =
     time_constraint_with
       (field @ '' + INTERVAL '' @ [CHR 0x27] @ dec_int (offset_hours gmt_offset) @ '' HOUR'' @ [CHR 0x27])
       pgsql_get_operator_string
       (\<lambda>buf sql_operator. ''EXTRACT('' @ pgsql_extracted tc @ '' FROM '' @ buf @ '') '' @ sql_operator @ '' '' @
          dec_int (pgsql_compared tc v)) op"

definition pgsql_sql_build_time_interval_string :: "time_constraint \<Rightarrow> int \<Rightarrow> nat \<Rightarrow> err + string" where
  "pgsql_sql_build_time_interval_string tc v bufsize =
    (case interval_unit tc of
       None \<Rightarrow> Inl (requiemdb_error ERROR_GENERIC)
     | Some u \<Rightarrow> printed_in bufsize (''INTERVAL '' @ [CHR 0x27] @ dec_int v @ '' '' @ u @ [CHR 0x27]))"

section \<open>The plugin\<close>

definition pgsql_plugin :: "'w pq_lib \<Rightarrow> nat \<Rightarrow> 'w pg_session plugin_sql" where
  "pgsql_plugin L errno = null_plugin
    \<lparr>pl_open := pgsql_sql_open L, pl_close := pgsql_sql_close L, pl_escape := Some (pgsql_sql_escape L),
     pl_escape_binary := Some (pgsql_sql_escape_binary L),
     pl_unescape_binary := Some (pgsql_sql_unescape_binary L errno), pl_query := pgsql_sql_query L,
     pl_resource_destroy := pgsql_sql_resource_destroy L, pl_get_column_count := pgsql_sql_get_column_count L,
     pl_get_row_count := pgsql_sql_get_row_count L, pl_get_column_name := pgsql_sql_get_column_name L,
     pl_get_column_num := pgsql_sql_get_column_num L, pl_get_operator_string := pgsql_get_operator_string,
     pl_fetch_row := Some (pgsql_sql_fetch_row L), pl_fetch_field := Some (pgsql_sql_fetch_field L),
     pl_build_constraint := Some pgsql_sql_build_constraint_string,
     pl_build_time_constraint := Some pgsql_sql_build_time_constraint_string,
     pl_build_time_interval := Some pgsql_sql_build_time_interval_string,
     pl_build_limit_offset := Some (\<lambda>_. pgsql_sql_build_limit_offset_string)\<rparr>"

end
