(* ===== verification/PluginSqlite3.thy ===== *)
theory PluginSqlite3
  imports PluginPgsql
begin

text \<open>
  The SQLite plugin (\<open>plugins/sql/sqlite3/sqlite3.c\<close>).  It reads a whole result into rows of its
  own (\<open>sqlite3_resource_t\<close>), which live under handles given out in turn; a row handle is the
  position of a row.  The session is the connection of the client library with these results.
\<close>

section \<open>The client library and the session\<close>

datatype sqlite_step = SQLITE_OK | SQLITE_ROW | SQLITE_DONE | SQLITE_ERROR | SQLITE_MISUSE | SQLITE_BUSY | SQLITE_OTHER

type_synonym sqlite_stmt = nat

record 'w sqlite_lib =
  file_exists :: "string \<Rightarrow> 'w \<Rightarrow> bool"
  sqlite3_open :: "string \<Rightarrow> 'w \<Rightarrow> bool \<times> 'w"
  sqlite3_close :: "'w \<Rightarrow> 'w"
  sqlite3_errmsg :: "'w \<Rightarrow> string"
  sqlite3_create_regexp :: "'w \<Rightarrow> bool \<times> 'w"
  sqlite3_busy_timeout :: "'w \<Rightarrow> 'w"
  sqlite3_quoted :: "string \<Rightarrow> string"
  sqlite3_exec :: "string \<Rightarrow> 'w \<Rightarrow> bool \<times> 'w"
  sqlite3_prepare :: "string \<Rightarrow> 'w \<Rightarrow> sqlite_stmt option \<times> 'w"
  sqlite3_step :: "sqlite_stmt \<Rightarrow> 'w \<Rightarrow> sqlite_step \<times> 'w"
  sqlite3_finalize :: "sqlite_stmt \<Rightarrow> 'w \<Rightarrow> 'w"
  sqlite3_column_count :: "'w \<Rightarrow> sqlite_stmt \<Rightarrow> nat"
  sqlite3_column_name :: "'w \<Rightarrow> sqlite_stmt \<Rightarrow> nat \<Rightarrow> string"
  sqlite3_column :: "'w \<Rightarrow> sqlite_stmt \<Rightarrow> nat \<Rightarrow> string"

text \<open>
  The bytes of a column are empty for NULL and for an empty string alike.  A field without bytes
  has no data.  \<open>res_current\<close> is the row read last, as the number of rows up to it; zero is
  the NULL pointer, also after the end.
\<close>

record sqlite_resource =
  res_rows :: "string list list"
  res_statement :: sqlite_stmt
  res_ncolumn :: nat
  res_current :: nat

record 'w sqlite_session =
  sl_conn :: 'w
  sl_results :: "sql_res \<Rightarrow> sqlite_resource option"
  sl_next :: sql_res

definition on_sqlite :: "('w \<Rightarrow> 'a \<times> 'w) \<Rightarrow> 'w sqlite_session world \<Rightarrow> 'a \<times> 'w sqlite_session world" where
  "on_sqlite f = on_session (\<lambda>m. case f (sl_conn m) of (r, c) \<Rightarrow> (r, m\<lparr>sl_conn := c\<rparr>))"

definition upd_sqlite :: "('w \<Rightarrow> 'w) \<Rightarrow> 'w sqlite_session world \<Rightarrow> 'w sqlite_session world" where
  "upd_sqlite f = upd_session (\<lambda>m. m\<lparr>sl_conn := f (sl_conn m)\<rparr>)"

abbreviation sqlite_of :: "'w sqlite_session world \<Rightarrow> 'w" where "sqlite_of w \<equiv> sl_conn (session w)"

section \<open>The regular expression function\<close>

text \<open>
  The function SQLite calls for REGEXP; an SQL NULL is a NULL text.  Compilation and search are
  those of the C library.
\<close>

datatype sqlite_result = Result_error string | Result_int int

definition sqlite3_regexp ::
    "(string \<Rightarrow> 'r option) \<Rightarrow> ('r \<Rightarrow> string \<Rightarrow> bool) \<Rightarrow> string option list \<Rightarrow> err + sqlite_result" where
  "sqlite3_regexp regcomp regexec args =
    (case args of
       [a, b] \<Rightarrow>
         (case a of
            None \<Rightarrow> Inl NullDeref
          | Some pattern \<Rightarrow>
              (case regcomp pattern of
                 None \<Rightarrow> Inr (Result_error ''error compiling regular expression'')
               | Some r \<Rightarrow>
                   (case b of
                      None \<Rightarrow> Inl NullDeref
                    | Some t \<Rightarrow> Inr (Result_int (if regexec r t then 1 else 0)))))
     | _ \<Rightarrow> Inr (Result_error ''Invalid argument count''))"

section \<open>Connection\<close>

definition sqlite3_sql_close :: "'w sqlite_lib \<Rightarrow> 'w sqlite_session world \<Rightarrow> 'w sqlite_session world" where
  "sqlite3_sql_close L = upd_sqlite (sqlite3_close L)"

text \<open>A failure that closes the connection again.\<close>

definition sqlite3_open_failed :: "'w sqlite_lib \<Rightarrow> ('w sqlite_session world, err, unit) cop" where
  "sqlite3_open_failed L = (\<lambda>w.
     case error_verbose ERROR_CONNECTION (sqlite3_errmsg L (sqlite_of w)) w of (r, w1) \<Rightarrow> (r, sqlite3_sql_close L w1))"

definition sqlite3_sql_open :: "'w sqlite_lib \<Rightarrow> settings \<Rightarrow> ('w sqlite_session world, err, unit) cop" where
  "sqlite3_sql_open L s =
    (case SqlSettings.get_file s of
       None \<Rightarrow> error_verbose ERROR_CONNECTION ''no database file specified''
     | Some dbfile \<Rightarrow>
         if cstr dbfile = [] then error_verbose ERROR_CONNECTION ''no database file specified''
         else (\<lambda>w.
           if \<not> file_exists L (cstr dbfile) (sqlite_of w)
           then error_verbose ERROR_CONNECTION
                  (''database file '' @ [CHR 0x27] @ cstr dbfile @ [CHR 0x27] @ '' does not exist'') w
           else case on_sqlite (sqlite3_open L (cstr dbfile)) w of
             (False, w1) \<Rightarrow> sqlite3_open_failed L w1
           | (True, w1) \<Rightarrow>
               (case on_sqlite (sqlite3_create_regexp L) w1 of
                  (False, w2) \<Rightarrow> sqlite3_open_failed L w2
                | (True, w2) \<Rightarrow> (Inr (), upd_sqlite (sqlite3_busy_timeout L) w2))))"

text \<open>The text up to its first NUL goes through the format \<open>'%q'\<close> of \<open>sqlite3_mprintf\<close>.\<close>

definition sqlite3_sql_escape :: "'w sqlite_lib \<Rightarrow> string \<Rightarrow> ('w sqlite_session world, err, string) cop" where
  "sqlite3_sql_escape L input = retn ([CHR 0x27] @ sqlite3_quoted L (cstr input) @ [CHR 0x27])"

section \<open>Queries\<close>

definition sql_resource_add_row :: "string list \<Rightarrow> sqlite_resource \<Rightarrow> sqlite_resource" where
  "sql_resource_add_row row r = r\<lparr>res_rows := res_rows r @ [row]\<rparr>"

text \<open>
  The loop over the steps of the statement, with a bound on the rounds.  Any other code than
  the ones tested fails an assertion, which ends the process: what comes after has no value.
\<close>

fun sql_read_steps ::
    "nat \<Rightarrow> 'w sqlite_lib \<Rightarrow> sqlite_stmt \<Rightarrow> nat \<Rightarrow> sqlite_resource \<Rightarrow> ('w sqlite_session world, err, sqlite_resource) cop" where
  "sql_read_steps 0 L stmt ncolumn r = failw NotEnded"
| "sql_read_steps (Suc n) L stmt ncolumn r = (\<lambda>w.
     case on_sqlite (sqlite3_step L stmt) w of
       (ret, w1) \<Rightarrow>
         if ret = SQLITE_OK then (Inr r, w1)
         else if ret = SQLITE_ERROR \<or> ret = SQLITE_MISUSE \<or> ret = SQLITE_BUSY
         then error_verbose ERROR_QUERY (sqlite3_errmsg L (sqlite_of w1)) w1
         else if ret = SQLITE_DONE then (Inr r, w1)
         else if ret = SQLITE_ROW
         then sql_read_steps n L stmt ncolumn
                (sql_resource_add_row (map (sqlite3_column L (sqlite_of w1) stmt) [0..<ncolumn]) r) w1
         else (Inl UndefinedValue, w1))"

definition new_resource :: "sqlite_stmt \<Rightarrow> nat \<Rightarrow> sqlite_resource" where
  "new_resource stmt ncolumn = \<lparr>res_rows = [], res_statement = stmt, res_ncolumn = ncolumn, res_current = 0\<rparr>"

definition sql_read_row ::
    "nat \<Rightarrow> 'w sqlite_lib \<Rightarrow> sqlite_stmt \<Rightarrow> ('w sqlite_session world, err, sqlite_resource option) cop" where
  "sql_read_row n L stmt = (\<lambda>w.
     let ncolumn = sqlite3_column_count L (sqlite_of w) stmt
     in if ncolumn = 0 then (Inr None, w)
        else bindr (sql_read_steps n L stmt ncolumn (new_resource stmt ncolumn)) (\<lambda>r. retn (Some r)) w)"

text \<open>
  Two failures pass the message of the library as a format string: only \<open>%%\<close> stands for
  something of its own, any other conversion has no argument.
\<close>

fun as_format :: "string \<Rightarrow> string option" where
  "as_format [] = Some []"
| "as_format [c] = (if c = CHR ''%'' then None else Some [c])"
| "as_format (c # d # t) =
     (if c \<noteq> CHR ''%'' then map_option (Cons c) (as_format (d # t))
      else if d = CHR ''%'' then map_option (Cons c) (as_format t)
      else None)"

definition sqlite3_query_failed :: "'w sqlite_lib \<Rightarrow> ('w sqlite_session world, err, 'a) cop" where
  "sqlite3_query_failed L = (\<lambda>w.
     case as_format (sqlite3_errmsg L (sqlite_of w)) of
       None \<Rightarrow> (Inl UndefinedValue, w)
     | Some msg \<Rightarrow> error_verbose ERROR_QUERY msg w)"

definition sqlite3_sql_query :: "nat \<Rightarrow> 'w sqlite_lib \<Rightarrow> string \<Rightarrow> ('w sqlite_session world, err, sql_res option) cop" where
  "sqlite3_sql_query n L query = (\<lambda>w.
     if \<not> strncmp_eq query ''SELECT'' 6
     then (case on_sqlite (sqlite3_exec L query) w of
             (False, w1) \<Rightarrow> sqlite3_query_failed L w1
           | (True, w1) \<Rightarrow> (Inr None, w1))
     else case on_sqlite (sqlite3_prepare L query) w of
       (None, w1) \<Rightarrow> sqlite3_query_failed L w1
     | (Some stmt, w1) \<Rightarrow>
         (case sql_read_row n L stmt w1 of
            (Inr (Some r), w2) \<Rightarrow>
              (let m = session w2
               in (Inr (Some (sl_next m)),
                   w2\<lparr>session := m\<lparr>sl_results := (sl_results m)(sl_next m \<mapsto> r), sl_next := sl_next m + 1\<rparr>\<rparr>))
          | (Inr None, w2) \<Rightarrow> (Inr None, upd_sqlite (sqlite3_finalize L stmt) w2)
          | (Inl e, w2) \<Rightarrow> (Inl e, upd_sqlite (sqlite3_finalize L stmt) w2)))"

section \<open>Results\<close>

definition sqlite3_result :: "'w sqlite_session world \<Rightarrow> sql_res \<Rightarrow> sqlite_resource option" where
  "sqlite3_result w t = sl_results (session w) t"

definition sqlite3_sql_resource_destroy :: "'w sqlite_lib \<Rightarrow> sql_res \<Rightarrow> 'w sqlite_session world \<Rightarrow> 'w sqlite_session world" where
  "sqlite3_sql_resource_destroy L t w =
    (case sqlite3_result w t of
       None \<Rightarrow> w
     | Some r \<Rightarrow> upd_session (\<lambda>m. m\<lparr>sl_results := (sl_results m)(t := None)\<rparr>)
                  (upd_sqlite (sqlite3_finalize L (res_statement r)) w))"

definition sqlite3_sql_get_column_name :: "'w sqlite_lib \<Rightarrow> 'w sqlite_session world \<Rightarrow> sql_res \<Rightarrow> nat \<Rightarrow> string option" where
  "sqlite3_sql_get_column_name L w t c =
    (case sqlite3_result w t of
       None \<Rightarrow> None
     | Some r \<Rightarrow> if res_ncolumn r \<le> c then None else Some (sqlite3_column_name L (sqlite_of w) (res_statement r) c))"

definition sqlite3_sql_get_column_num :: "'w sqlite_lib \<Rightarrow> 'w sqlite_session world \<Rightarrow> sql_res \<Rightarrow> string \<Rightarrow> int" where
  "sqlite3_sql_get_column_num L w t c =
    (case sqlite3_result w t of
       None \<Rightarrow> - 1
     | Some r \<Rightarrow> first_column (sqlite3_column_name L (sqlite_of w) (res_statement r)) (res_ncolumn r) c)"

definition sqlite3_sql_get_column_count :: "'w sqlite_session world \<Rightarrow> sql_res \<Rightarrow> nat" where
  "sqlite3_sql_get_column_count w t = (case sqlite3_result w t of None \<Rightarrow> 0 | Some r \<Rightarrow> res_ncolumn r)"

text \<open>\<open>nrow\<close> is the number of rows added.\<close>

definition sqlite3_sql_get_row_count :: "'w sqlite_session world \<Rightarrow> sql_res \<Rightarrow> nat" where
  "sqlite3_sql_get_row_count w t =
    (case sqlite3_result w t of None \<Rightarrow> 0 | Some r \<Rightarrow> length (res_rows r) mod 2 ^ 32)"

definition sqlite3_sql_fetch_row :: "sql_res \<Rightarrow> ('w sqlite_session world, err, sql_rowh option) cop" where
  "sqlite3_sql_fetch_row t = (\<lambda>w.
     case sqlite3_result w t of
       None \<Rightarrow> (Inl NullDeref, w)
     | Some r \<Rightarrow>
         (let found = res_current r < length (res_rows r);
              r' = r\<lparr>res_current := (if found then res_current r + 1 else 0)\<rparr>
          in (Inr (if found then Some (res_current r) else None),
              upd_session (\<lambda>m. m\<lparr>sl_results := (sl_results m)(t \<mapsto> r')\<rparr>) w)))"

definition sqlite3_sql_fetch_field :: "sql_res \<Rightarrow> sql_rowh \<Rightarrow> nat \<Rightarrow> ('w sqlite_session world, err, string option) cop" where
  "sqlite3_sql_fetch_field t h c = (\<lambda>w.
     (case sqlite3_result w t of
        None \<Rightarrow> Inl NullDeref
      | Some r \<Rightarrow>
          if res_ncolumn r \<le> c then Inl (requiemdb_error ERROR_INVALID_COLUMN_NUM)
          else if length (res_rows r) \<le> h then Inl NullDeref
          else (let field = res_rows r ! h ! c in Inr (if field = [] then None else Some field)), w))"

section \<open>SQL texts\<close>

definition sqlite3_operators :: operator_table where
  "sqlite3_operators =
    [(opr False False REL_EQUAL, ''=''), (opr False True REL_EQUAL, ''=''),
     (opr True False REL_EQUAL, ''!=''), (opr True True REL_EQUAL, ''!=''),
     (opr False False REL_GREATER, ''>''), (opr False False REL_GREATER_EQUAL, ''>=''),
     (opr False False REL_LESSER, ''<''), (opr False False REL_LESSER_EQUAL, ''<=''),
     (opr False False REL_SUBSTR, ''LIKE''), (opr False True REL_SUBSTR, ''LIKE''),
     (opr True False REL_SUBSTR, ''NOT LIKE''), (opr True True REL_SUBSTR, ''NOT LIKE ''),
     (opr False False REL_REGEX, ''REGEXP''), (opr False True REL_REGEX, ''REGEXP''),
     (opr True False REL_REGEX, ''NOT REGEXP''), (opr True True REL_REGEX, ''NOT REGEXP''),
     (opr False False REL_NULL, ''IS NULL''), (opr True False REL_NULL, ''IS NOT NULL'')]"

definition sqlite3_get_operator_string :: "crit_op \<Rightarrow> string option" where
  "sqlite3_get_operator_string = operator_in sqlite3_operators"

definition sqlite3_sql_build_constraint_string :: "string \<Rightarrow> crit_op \<Rightarrow> string \<Rightarrow> err + string" where
  "sqlite3_sql_build_constraint_string field op v =
    (case sqlite3_get_operator_string op of
       None \<Rightarrow> Inl (RawErr (- 1))
     | Some s \<Rightarrow>
         Inr (if op_nocase op then ''lower('' @ field @ '') '' @ s @ '' lower('' @ v @ '')''
              else field @ '' '' @ s @ '' '' @ v))"

definition sqlite3_sql_build_limit_offset_string :: "int \<Rightarrow> int \<Rightarrow> err + string" where
  "sqlite3_sql_build_limit_offset_string limit offset =
     Inr (if limit \<ge> 0 then
            (if offset \<ge> 0 then '' LIMIT '' @ dec_int offset @ '', '' @ dec_int limit else '' LIMIT '' @ dec_int limit)
          else if offset \<ge> 0 then '' LIMIT '' @ dec_int offset @ '', -1''
          else [])"

definition sqlite3_time_letter :: "time_constraint \<Rightarrow> char" where
  "sqlite3_time_letter tc =
    (case tc of
       TC_YEAR \<Rightarrow> CHR ''Y'' | TC_MONTH \<Rightarrow> CHR ''m'' | TC_YDAY \<Rightarrow> CHR ''j'' | TC_MDAY \<Rightarrow> CHR ''d''
     | TC_WDAY \<Rightarrow> CHR ''w'' | TC_HOUR \<Rightarrow> CHR ''H'' | TC_MIN \<Rightarrow> CHR ''M'' | TC_SEC \<Rightarrow> CHR ''S'')"

definition sqlite3_compared :: "time_constraint \<Rightarrow> int \<Rightarrow> int" where
  "sqlite3_compared tc v = (if tc = TC_WDAY then v smod 7 else v)"

definition sqlite3_sql_build_time_constraint_string ::
    "string \<Rightarrow> time_constraint \<Rightarrow> crit_op \<Rightarrow> int \<Rightarrow> int \<Rightarrow> err + string" where
  "sqlite3_sql_build_time_constraint_string field tc op v gmt_offset =
     time_constraint_with
       (''DATETIME('' @ field @ '', '' @ [CHR 0x27] @ dec_int (offset_hours gmt_offset) @ '' hours'' @ [CHR 0x27] @ '')'')
       sqlite3_get_operator_string
       (\<lambda>buf sql_operator. ''STRFTIME('' @ [CHR 0x27, CHR ''%'', sqlite3_time_letter tc, CHR 0x27] @ '', '' @ buf @ '') + 0 '' @
          sql_operator @ '' '' @ dec_int (sqlite3_compared tc v)) op"

definition sqlite3_sql_build_time_interval_string :: "time_constraint \<Rightarrow> int \<Rightarrow> nat \<Rightarrow> err + string" where
  "sqlite3_sql_build_time_interval_string tc v bufsize = Inl (requiemdb_error ERROR_GENERIC)"

section \<open>The plugin\<close>

text \<open>It sets no function for binary data: the defaults of the library escape it in hexadecimal digits.\<close>

definition sqlite3_plugin :: "nat \<Rightarrow> 'w sqlite_lib \<Rightarrow> 'w sqlite_session plugin_sql" where
  "sqlite3_plugin n L = null_plugin
    \<lparr>pl_open := sqlite3_sql_open L, pl_close := sqlite3_sql_close L, pl_escape := Some (sqlite3_sql_escape L),
     pl_query := sqlite3_sql_query n L, pl_resource_destroy := sqlite3_sql_resource_destroy L,
     pl_get_column_count := sqlite3_sql_get_column_count, pl_get_row_count := sqlite3_sql_get_row_count,
     pl_get_column_name := sqlite3_sql_get_column_name L, pl_get_column_num := sqlite3_sql_get_column_num L,
     pl_get_operator_string := sqlite3_get_operator_string, pl_fetch_row := Some sqlite3_sql_fetch_row,
     pl_fetch_field := Some sqlite3_sql_fetch_field, pl_build_constraint := Some sqlite3_sql_build_constraint_string,
     pl_build_time_constraint := Some sqlite3_sql_build_time_constraint_string,
     pl_build_time_interval := Some sqlite3_sql_build_time_interval_string,
     pl_build_limit_offset := Some (\<lambda>_. sqlite3_sql_build_limit_offset_string)\<rparr>"

end
