(* ===== verification/PluginTexts.thy ===== *)
theory PluginTexts
  imports PluginSqlite3
begin

text \<open>
  The texts the three SQL plugins build, compared with each other and with what the servers
  document: LIMIT clauses, operators, days of the week; and the buffers of the texts they take in.
\<close>

section \<open>LIMIT clauses\<close>

lemma dec_int_minus_one: "dec_int (- 1) = ''-1''"
  by (simp add: dec_int_def dec_nat.simps digit_char_num)

lemma dec_int_all_rows: "dec_int 18446744073709551615 = ''18446744073709551615''"
  by (simp add: dec_int_def dec_nat.simps digit_char_num)



section \<open>Case\<close>

definition has_binary :: "string \<Rightarrow> bool" where
  "has_binary t \<longleftrightarrow> drop (length t - 7) t = '' BINARY''"

text \<open>
  MySQL compares without regard to case unless the operand is BINARY.  The plugin asks for
  BINARY exactly for the operators that respect case, but for the negated regular expressions,
  where it is the other way round; PostgreSQL marks all its operators that ignore case rightly.
\<close>
theorem mysql_regex_case_swapped:
  fixes rel :: crit_rel
  assumes "rel = REL_EQUAL \<or> rel = REL_SUBSTR \<or> rel = REL_REGEX"
  shows "\<exists>t. mysql_get_operator_string (opr negated nocase rel) = Some t \<and>
    has_binary t = ((\<not> nocase) \<noteq> (negated \<and> rel = REL_REGEX))"
  using assms by (cases negated; cases nocase) (auto simp: mysql_get_operator_string_def operator_in_def mysql_operators_def has_binary_def)

theorem mysql_regex_case_swapped_witness:
  "\<exists>t. mysql_get_operator_string (opr True False REL_REGEX) = Some t \<and>
    has_binary t = ((\<not> False) \<noteq> (True \<and> REL_REGEX = REL_REGEX))"
  by (rule mysql_regex_case_swapped) simp

text \<open>
  The operators of criteria that can be written: equality, substrings and regular expressions
  negated and regardless of case, order comparisons as they are, NULL negated.
\<close>

definition supported :: "crit_op \<Rightarrow> bool" where
  "supported op \<longleftrightarrow> op_rel op \<in> {REL_EQUAL, REL_SUBSTR, REL_REGEX} \<or>
     op_rel op \<in> {REL_GREATER, REL_GREATER_EQUAL, REL_LESSER, REL_LESSER_EQUAL} \<and> \<not> op_not op \<and> \<not> op_nocase op \<or>
     op_rel op = REL_NULL \<and> \<not> op_nocase op"

text \<open>
  C22.  The three plugins refuse the same constraints: those with an operator outside
  \<open>supported\<close>.  All others are written, also where the server has no operator of its own for
  the comparison.
\<close>
theorem constraint_support_agrees:
  "isl (mysql_sql_build_constraint_string field op v) = (\<not> supported op) \<and>
   isl (pgsql_sql_build_constraint_string field op v) = (\<not> supported op) \<and>
   isl (sqlite3_sql_build_constraint_string field op v) = (\<not> supported op)"
proof -
  obtain negated nocase rel where "op = opr negated nocase rel" by (cases op) auto
  then show ?thesis
    by (cases negated; cases nocase; cases rel)
      (simp_all add: supported_def mysql_sql_build_constraint_string_def pgsql_sql_build_constraint_string_def
        sqlite3_sql_build_constraint_string_def mysql_get_operator_string_def pgsql_get_operator_string_def
        sqlite3_get_operator_string_def operator_in_def mysql_operators_def pgsql_operators_def sqlite3_operators_def)
qed

section \<open>Days of the week\<close>

text \<open>
  The number a server gives for a day (0: Sunday): \<open>DAYOFWEEK\<close> of MySQL counts from one,
  \<open>EXTRACT(DOW)\<close> of PostgreSQL and \<open>%w\<close> of SQLite from zero.
\<close>

definition mysql_weekday :: "int \<Rightarrow> int" where "mysql_weekday d = d + 1"
definition pgsql_weekday :: "int \<Rightarrow> int" where "pgsql_weekday d = d"
definition sqlite3_weekday :: "int \<Rightarrow> int" where "sqlite3_weekday d = d"

text \<open>
  A constraint on the day of the week selects the same day with MySQL and SQLite; with
  PostgreSQL it selects the day after it, and no day at all for a Saturday, since the number is
  shifted as for MySQL.
\<close>
theorem weekday_shifted_for_pgsql:
  assumes "0 \<le> v" "0 \<le> d" "d < 7"
  shows "(mysql_weekday d = mysql_compared TC_WDAY v \<longleftrightarrow> d = v mod 7) \<and>
    (sqlite3_weekday d = sqlite3_compared TC_WDAY v \<longleftrightarrow> d = v mod 7) \<and>
    (pgsql_weekday d = pgsql_compared TC_WDAY v \<longleftrightarrow> d = v mod 7 + 1)"
proof -
  have "v smod 7 = v mod 7" using assms(1) by (cases "v = 0") (simp_all add: smod_int_alt_def)
  then show ?thesis
    by (auto simp: mysql_weekday_def pgsql_weekday_def sqlite3_weekday_def mysql_compared_def pgsql_compared_def sqlite3_compared_def)
qed

theorem weekday_shifted_for_pgsql_witness:
  "(mysql_weekday 3 = mysql_compared TC_WDAY 2 \<longleftrightarrow> (3 :: int) = 2 mod 7) \<and>
    (sqlite3_weekday 3 = sqlite3_compared TC_WDAY 2 \<longleftrightarrow> (3 :: int) = 2 mod 7) \<and>
    (pgsql_weekday 3 = pgsql_compared TC_WDAY 2 \<longleftrightarrow> (3 :: int) = 2 mod 7 + 1)"
  by (rule weekday_shifted_for_pgsql) simp_all

section \<open>Buffers\<close>

lemma trimmed_end:
  assumes "m = (case dropWhile P (rev t) of [] \<Rightarrow> None | cs \<Rightarrow> Some (rev cs))"
  shows "m = None \<longleftrightarrow> list_all P t"
    and "m = Some u \<Longrightarrow> u \<noteq> [] \<and> \<not> P (last u) \<and> (\<exists>rest. t = u @ rest \<and> list_all P rest)"
proof -
  have parts: "t = rev (dropWhile P (rev t)) @ rev (takeWhile P (rev t))"
    by (metis rev_append rev_rev_ident takeWhile_dropWhile_id)
  have "list_all P (rev (takeWhile P (rev t)))" by (auto simp: list_all_iff dest: set_takeWhileD)
  then show "m = Some u \<Longrightarrow> u \<noteq> [] \<and> \<not> P (last u) \<and> (\<exists>rest. t = u @ rest \<and> list_all P rest)"
    using assms parts
    by (auto dest!: dropWhile_eq_Cons_conv [THEN iffD1] split: list.splits simp: last_rev intro!: exI [of _ "rev (takeWhile P (rev t))"])
  have "m = None \<longleftrightarrow> dropWhile P (rev t) = []" using assms by (cases "dropWhile P (rev t)") simp_all
  then show "m = None \<longleftrightarrow> list_all P t" by (simp only: dropWhile_eq_Nil_conv set_rev list_all_iff)
qed

lemma trim_loop_end:
  "NUL \<notin> set t \<Longrightarrow> n \<le> length t \<Longrightarrow> trim_loop (take n t @ replicate (length t - n) NUL) n =
    (case dropWhile (\<lambda>c. c = CHR 0x0A \<or> c = CHR '' '') (rev (take n t)) of [] \<Rightarrow> None | cs \<Rightarrow> Some (rev cs))"
proof (induction n)
  case (Suc n)
  then have n: "n < length t" by simp
  have whole: "take (Suc n) t = take n t @ [t ! n]" using n by (simp add: take_Suc_conv_app_nth)
  have next_buffer: "(take (Suc n) t @ replicate (length t - Suc n) NUL)[n := NUL] = take n t @ replicate (length t - n) NUL"
    using n by (simp add: whole list_update_append Suc_diff_Suc [symmetric])
  have "t ! n \<noteq> NUL" "NUL \<notin> set (take n t)" using Suc.prems n by (auto dest: in_set_takeD) (metis nth_mem)
  then have kept: "cstr (take (Suc n) t @ replicate k NUL) = take (Suc n) t" for k
    unfolding whole by (cases k) (auto simp: cstr_def takeWhile_append)
  have byte: "(take (Suc n) t @ replicate (length t - Suc n) NUL) ! n = t ! n" using n by (simp add: whole nth_append)
  show ?case
    using Suc.IH Suc.prems(1) n by (simp add: byte next_buffer kept) (simp add: whole)
qed simp

text \<open>
  C30.  Trimming the message of PostgreSQL stays inside its buffer exactly when the message has a
  character that is neither a newline nor a space; then it cuts off what follows the last such
  character and nothing else.  Of an empty message it reads the byte before the buffer.
\<close>
theorem trim_message_in_bounds:
  "(trim_message t = None \<longleftrightarrow> list_all (\<lambda>c. c = CHR 0x0A \<or> c = CHR '' '') (cstr t)) \<and>
   (case trim_message t of
      None \<Rightarrow> True
    | Some m \<Rightarrow> m \<noteq> [] \<and> last m \<noteq> CHR 0x0A \<and> last m \<noteq> CHR '' '' \<and>
        (\<exists>rest. cstr t = m @ rest \<and> list_all (\<lambda>c. c = CHR 0x0A \<or> c = CHR '' '') rest))"
proof -
  have "NUL \<notin> set (cstr t)" by (auto simp: cstr_def dest: set_takeWhileD)
  then have "trim_message t =
      (case dropWhile (\<lambda>c. c = CHR 0x0A \<or> c = CHR '' '') (rev (cstr t)) of [] \<Rightarrow> None | cs \<Rightarrow> Some (rev cs))"
    using trim_loop_end [of "cstr t" "length (cstr t)"] by (simp add: trim_message_def)
  from trimmed_end [OF this] show ?thesis by (auto split: option.split)
qed

end
