(* ===== verification/PluginRows.thy ===== *)
theory PluginRows
  imports PluginSqlite3 SqlReads
begin

text \<open>
  What a plugin promises of a result: its rows are fetched one after the other, and the fields
  of the row fetched last can be read.  \<open>result_cursor\<close> is this contract, with the loop over
  rows of the format plugin (\<open>each_row\<close>) as its client; the plugins for PostgreSQL and SQLite
  provide it with their own bookkeeping.  Of the SQLite plugin, which keeps whole results, also
  the invariant of what it keeps.
\<close>

section \<open>The contract\<close>

locale result_cursor =
  fixes fetch_row :: "sql_res \<Rightarrow> ('w world, err, sql_rowh option) cop"
    and fetch_field :: "sql_res \<Rightarrow> sql_rowh \<Rightarrow> nat \<Rightarrow> ('w world, err, string option) cop"
    and rows_of :: "'w world \<Rightarrow> sql_res \<Rightarrow> string option list list option"
    and rows_read :: "'w world \<Rightarrow> sql_res \<Rightarrow> nat"
    and stands_for :: "'w world \<Rightarrow> sql_res \<Rightarrow> sql_rowh \<Rightarrow> nat \<Rightarrow> bool"
    and rest :: "'w world \<Rightarrow> sql_res \<Rightarrow> 'k"
  assumes fetch_some: "rows_of w t = Some rs \<Longrightarrow> rows_read w t < length rs \<Longrightarrow>
      \<exists>h w'. fetch_row t w = (Inr (Some h), w') \<and> rows_of w' t = Some rs \<and>
        rows_read w' t = Suc (rows_read w t) \<and> stands_for w' t h (rows_read w t) \<and> rest w' t = rest w t"
    and fetch_none: "rows_of w t = Some rs \<Longrightarrow> rows_read w t = length rs \<Longrightarrow>
      \<exists>w'. fetch_row t w = (Inr None, w') \<and> rows_of w' t = Some rs \<and> rest w' t = rest w t"
    and fetch_value: "rows_of w t = Some rs \<Longrightarrow> stands_for w t h k \<Longrightarrow> k < length rs \<Longrightarrow> c < length (rs ! k) \<Longrightarrow>
      fetch_field t h c w = (Inr (rs ! k ! c), w)"
begin

lemma field_of_row:
  assumes "pl_fetch_field (env_plugin E) = Some fetch_field"
    and "rows_of (sql_world s) t = Some rs" "stands_for (sql_world s) t h k" "k < length rs" "c < length (rs ! k)"
  shows "requiemdb_sql_row_fetch_field E t h c s = (Inr (rs ! k ! c), s)"
  using fetch_value [OF assms(2-5)] assms(1)
  by (simp add: requiemdb_sql_row_fetch_field_def noting_errno_def on_world_def plugin_sql_fetch_field_def)

lemma rows_in_order:
  assumes row: "pl_fetch_row (env_plugin E) = Some fetch_row"
    and body: "\<And>i h k s. rows_of (sql_world s) t = Some rs \<Longrightarrow> stands_for (sql_world s) t h k \<Longrightarrow> k < length rs \<Longrightarrow>
      body i h s = (Inr (f (rs ! k)), s)"
  shows "rows_of (sql_world s) t = Some rs \<Longrightarrow> rows_read (sql_world s) t \<le> length rs \<Longrightarrow>
    length rs - rows_read (sql_world s) t < n \<Longrightarrow>
    \<exists>w. each_row n E t i body s = (Inr (map f (drop (rows_read (sql_world s) t) rs)), s\<lparr>sql_world := w\<rparr>) \<and>
      rows_of w t = Some rs \<and> rest w t = rest (sql_world s) t"
proof (induction n arbitrary: i s)
  case (Suc n)
  show ?case
  proof (cases "rows_read (sql_world s) t = length rs")
    case True
    with fetch_none [OF Suc.prems(1)] row show ?thesis
      by (auto simp: requiemdb_sql_table_fetch_row_def noting_errno_def on_world_def plugin_sql_fetch_row_def bindr_def retn_def)
  next
    case False
    define k where "k = rows_read (sql_world s) t"
    have k: "k < length rs" using False Suc.prems(2) by (simp add: k_def)
    from fetch_some [OF Suc.prems(1)] k obtain h w where
      w: "fetch_row t (sql_world s) = (Inr (Some h), w)" "rows_of w t = Some rs" "rows_read w t = Suc k" "stands_for w t h k"
      "rest w t = rest (sql_world s) t"
      by (auto simp: k_def)
    have "body i h (s\<lparr>sql_world := w\<rparr>) = (Inr (f (rs ! k)), s\<lparr>sql_world := w\<rparr>)"
      using body [of "s\<lparr>sql_world := w\<rparr>" h k i] w k by simp
    moreover obtain w' where
      "each_row n E t (i + 1) body (s\<lparr>sql_world := w\<rparr>) = (Inr (map f (drop (Suc k) rs)), s\<lparr>sql_world := w'\<rparr>)"
      "rows_of w' t = Some rs" "rest w' t = rest w t"
    proof -
      have "length rs - Suc k < n" using Suc.prems(3) k by (simp add: k_def)
      then show thesis using that Suc.IH [of "s\<lparr>sql_world := w\<rparr>" "i + 1"] w k by auto
    qed
    ultimately show ?thesis
      using w row k Cons_nth_drop_Suc [OF k, symmetric]
      by (auto simp: requiemdb_sql_table_fetch_row_def noting_errno_def on_world_def plugin_sql_fetch_row_def bindr_def
          retn_def k_def [symmetric] intro!: exI [of _ w'])
  qed
qed simp

lemma strings_in_order:
  assumes "pl_fetch_row (env_plugin E) = Some fetch_row" "pl_fetch_field (env_plugin E) = Some fetch_field"
    and "rows_of (sql_world s) t = Some rs" "rows_read (sql_world s) t = 0" "length rs < n"
    and "\<And>r. r \<in> set rs \<Longrightarrow> c < length r"
  shows "\<exists>w. each_row n E t 0 (\<lambda>_ h. get_string_field E t h c) s =
    (Inr (map (\<lambda>r. map_option Some (r ! c)) rs), s\<lparr>sql_world := w\<rparr>) \<and>
      rows_of w t = Some rs \<and> rest w t = rest (sql_world s) t"
proof -
  have "get_string_field E t h c s' = (Inr (map_option Some (rs ! k ! c)), s')"
    if "rows_of (sql_world s') t = Some rs" "stands_for (sql_world s') t h k" "k < length rs" for h k s'
    using field_of_row [OF assms(2) that] assms(6) that(3)
    by (simp add: get_string_field_def bindr_def retn_def)
  then show ?thesis using rows_in_order [OF assms(1), of t rs "\<lambda>_ h. get_string_field E t h c" "\<lambda>r. map_option Some (r ! c)" s n 0] assms(3-5)
    by simp
qed

end

section \<open>PostgreSQL\<close>

definition pgsql_rows :: "'w pq_lib \<Rightarrow> 'w pg_session world \<Rightarrow> sql_res \<Rightarrow> string option list list option" where
  "pgsql_rows L w t =
    map_option (\<lambda>x. map (\<lambda>i. map (PQfield L (conn_of w) (pg_res x) (int i)) [0..<nat (PQnfields L (conn_of w) (pg_res x))])
        [0..<nat (PQntuples L (conn_of w) (pg_res x))])
      (pgsql_result w t)"

definition pgsql_rows_read :: "'w pg_session world \<Rightarrow> sql_res \<Rightarrow> nat" where
  "pgsql_rows_read w t = (case pgsql_result w t of None \<Rightarrow> 0 | Some x \<Rightarrow> nat (pg_row x + 1))"

definition pgsql_stands_for :: "'w pg_session world \<Rightarrow> sql_res \<Rightarrow> sql_rowh \<Rightarrow> nat \<Rightarrow> bool" where
  "pgsql_stands_for w t h k \<longleftrightarrow> (\<exists>x. pgsql_result w t = Some x \<and> pg_row x = int k)"

text \<open>A position below -1, which no operation makes, is not a position of the contract.\<close>

definition pgsql_cursor :: "'w pq_lib \<Rightarrow> 'w pg_session world \<Rightarrow> sql_res \<Rightarrow> string option list list option" where
  "pgsql_cursor L w t =
    (case pgsql_result w t of None \<Rightarrow> None | Some x \<Rightarrow> if - 1 \<le> pg_row x then pgsql_rows L w t else None)"

text \<open>All but the position in the result.\<close>

definition pgsql_rest ::
    "'w pg_session world \<Rightarrow> sql_res \<Rightarrow> string option \<times> 'w \<times> sql_res \<times> pg_handle option \<times> (sql_res \<Rightarrow> pg_result option)" where
  "pgsql_rest w t = (thread_error w, conn_of w, pg_next (session w), map_option pg_res (pgsql_result w t),
     (pg_results (session w))(t := None))"

interpretation pgsql_result: result_cursor "pgsql_sql_fetch_row L" "pgsql_sql_fetch_field L" "pgsql_cursor L" pgsql_rows_read
    pgsql_stands_for pgsql_rest
  for L :: "'w pq_lib"
proof
  fix w :: "'w pg_session world" and t rs
  assume "pgsql_cursor L w t = Some rs"
  then obtain x where x: "pgsql_result w t = Some x" "- 1 \<le> pg_row x" "pgsql_rows L w t = Some rs"
    by (auto simp: pgsql_cursor_def split: option.splits if_splits)
  then have len: "length rs = nat (PQntuples L (conn_of w) (pg_res x))" by (auto simp: pgsql_rows_def)
  show "\<exists>h w'. pgsql_sql_fetch_row L t w = (Inr (Some h), w') \<and> pgsql_cursor L w' t = Some rs \<and>
      pgsql_rows_read w' t = Suc (pgsql_rows_read w t) \<and> pgsql_stands_for w' t h (pgsql_rows_read w t) \<and>
      pgsql_rest w' t = pgsql_rest w t"
    if "pgsql_rows_read w t < length rs"
    using x len that
    by (auto simp: pgsql_sql_fetch_row_def pgsql_cursor_def pgsql_rows_def pgsql_rows_read_def pgsql_stands_for_def
        pgsql_rest_def pgsql_result_def nat_add_distrib Suc_nat_eq_nat_zadd1 split: option.splits)
  show "\<exists>w'. pgsql_sql_fetch_row L t w = (Inr None, w') \<and> pgsql_cursor L w' t = Some rs \<and> pgsql_rest w' t = pgsql_rest w t"
    if "pgsql_rows_read w t = length rs"
    using x len that by (auto simp: pgsql_sql_fetch_row_def pgsql_cursor_def pgsql_rows_read_def)
  show "pgsql_sql_fetch_field L t h c w = (Inr (rs ! k ! c), w)"
    if "pgsql_stands_for w t h k" "k < length rs" "c < length (rs ! k)" for h k c
    using x len that by (auto simp: pgsql_sql_fetch_field_def pgsql_rows_def pgsql_stands_for_def Let_def)
qed

section \<open>SQLite\<close>

text \<open>A field without bytes is read as NULL.\<close>

definition sqlite3_field :: "string \<Rightarrow> string option" where
  "sqlite3_field t = (if t = [] then None else Some t)"

definition typed_resource :: "sqlite_resource \<Rightarrow> bool" where
  "typed_resource r \<longleftrightarrow> 0 < res_ncolumn r \<and> res_current r \<le> length (res_rows r) \<and>
     list_all (\<lambda>row. length row = res_ncolumn r) (res_rows r)"

definition sqlite3_cursor :: "'w sqlite_session world \<Rightarrow> sql_res \<Rightarrow> string option list list option" where
  "sqlite3_cursor w t =
    (case sqlite3_result w t of
       None \<Rightarrow> None
     | Some r \<Rightarrow> if typed_resource r then Some (map (map sqlite3_field) (res_rows r)) else None)"

definition sqlite3_rows_read :: "'w sqlite_session world \<Rightarrow> sql_res \<Rightarrow> nat" where
  "sqlite3_rows_read w t = (case sqlite3_result w t of None \<Rightarrow> 0 | Some r \<Rightarrow> res_current r)"

definition sqlite3_rest ::
    "'w sqlite_session world \<Rightarrow> sql_res \<Rightarrow>
     string option \<times> 'w \<times> sql_res \<times> sqlite_stmt option \<times> (sql_res \<Rightarrow> sqlite_resource option)" where
  "sqlite3_rest w t = (thread_error w, sqlite_of w, sl_next (session w), map_option res_statement (sqlite3_result w t),
     (sl_results (session w))(t := None))"

interpretation sqlite3_result: result_cursor sqlite3_sql_fetch_row sqlite3_sql_fetch_field sqlite3_cursor sqlite3_rows_read
    "\<lambda>w t h k. h = k" sqlite3_rest
proof
  fix w :: "'w sqlite_session world" and t rs
  assume "sqlite3_cursor w t = Some rs"
  then obtain r where r: "sqlite3_result w t = Some r" "typed_resource r" "rs = map (map sqlite3_field) (res_rows r)"
    by (auto simp: sqlite3_cursor_def split: option.splits if_splits)
  show "\<exists>h w'. sqlite3_sql_fetch_row t w = (Inr (Some h), w') \<and> sqlite3_cursor w' t = Some rs \<and>
      sqlite3_rows_read w' t = Suc (sqlite3_rows_read w t) \<and> h = sqlite3_rows_read w t \<and>
      sqlite3_rest w' t = sqlite3_rest w t"
    if "sqlite3_rows_read w t < length rs"
    using r that
    by (auto simp: sqlite3_sql_fetch_row_def sqlite3_cursor_def sqlite3_rows_read_def sqlite3_rest_def sqlite3_result_def typed_resource_def Let_def)
  show "\<exists>w'. sqlite3_sql_fetch_row t w = (Inr None, w') \<and> sqlite3_cursor w' t = Some rs \<and> sqlite3_rest w' t = sqlite3_rest w t"
    if "sqlite3_rows_read w t = length rs"
    using r that
    by (auto simp: sqlite3_sql_fetch_row_def sqlite3_cursor_def sqlite3_rows_read_def sqlite3_rest_def sqlite3_result_def typed_resource_def Let_def)
  show "sqlite3_sql_fetch_field t h c w = (Inr (rs ! k ! c), w)"
    if "h = k" "k < length rs" "c < length (rs ! k)" for h k c
    using r that
    by (auto simp: sqlite3_sql_fetch_field_def typed_resource_def list_all_length sqlite3_field_def Let_def)
qed

end
