(* ===== verification/PluginListing.thy ===== *)
theory PluginListing
  imports PluginRows
begin

text \<open>
  Listing the rows of a SELECT through the plugins that keep results of their own, from the query
  to the destruction of the result; and what the SQLite plugin keeps of its results whatever is
  called on it.
\<close>

section \<open>A result that is read and destroyed\<close>

lemma with_result_run:
  assumes "connected s" "pl_query (env_plugin E) q (sql_world s) = (Inr (Some t), w)"
    and "pl_get_row_count (env_plugin E) w t \<noteq> 0"
    and "\<And>s'. sql_world s' = w \<Longrightarrow> \<exists>w'. body t s' = (Inr x, s'\<lparr>sql_world := w'\<rparr>) \<and> Q w'"
  shows "\<exists>s' w'. with_result E q none body s = (Inr x, s') \<and> same_session s s' \<and>
    sql_world s' = pl_resource_destroy (env_plugin E) t w' \<and> Q w'"
proof -
  from query_run [OF assms(1,2), of True] obtain s1 where s1: "same_session s s1" "sql_world s1 = w"
    "requiemdb_sql_query E q True s = (Inr (pl_get_row_count (env_plugin E) w t, Some t), s1)" by auto
  moreover from assms(4) [OF s1(2)] obtain w' where "body t s1 = (Inr x, s1\<lparr>sql_world := w'\<rparr>)" "Q w'" by auto
  ultimately show ?thesis
    using assms(3)
    by (auto simp: with_result_def bindr_def destroying_def requiemdb_sql_table_destroy_def intro!: exI [of _ w'])
qed

context result_cursor
begin

lemma listing:
  assumes "pl_fetch_row (env_plugin E) = Some fetch_row" "pl_fetch_field (env_plugin E) = Some fetch_field"
    and "connected s" "pl_query (env_plugin E) q (sql_world s) = (Inr (Some t), w)"
    and "pl_get_row_count (env_plugin E) w t \<noteq> 0"
    and "rows_of w t = Some rs" "rows_read w t = 0" "length rs < n" "\<And>r. r \<in> set rs \<Longrightarrow> c < length r"
  shows "\<exists>s' w'. listed_objects n E q (\<lambda>t row. get_string_field E t row c) s = (Inr (map (\<lambda>r. map_option Some (r ! c)) rs), s') \<and>
    same_session s s' \<and> sql_world s' = pl_resource_destroy (env_plugin E) t w' \<and> rest w' t = rest w t"
  unfolding listed_objects_def
proof (rule with_result_run [where Q = "\<lambda>w'. rest w' t = rest w t", OF assms(3-5)])
  fix s' :: "'w sql" assume "sql_world s' = w"
  then show "\<exists>w'. each_row n E t 0 (\<lambda>_ h. get_string_field E t h c) s' =
      (Inr (map (\<lambda>r. map_option Some (r ! c)) rs), s'\<lparr>sql_world := w'\<rparr>) \<and> rest w' t = rest w t"
    using strings_in_order [OF assms(1,2), of s' t rs n c] assms(6-9) by auto
qed

end

section \<open>PostgreSQL\<close>

lemma pgsql_query_run:
  assumes "PQexec L query (conn_of w) = (Some h, c)" "PQresultStatus L c h = PGRES_TUPLES_OK" "PQntuples L c h > 0"
  shows "pgsql_sql_query L query w = (Inr (Some (pg_next (session w))),
    w\<lparr>session := (session w)\<lparr>pg_conn := c,
      pg_results := (pg_results (session w))(pg_next (session w) \<mapsto> \<lparr>pg_res = h, pg_row = - 1\<rparr>),
      pg_next := pg_next (session w) + 1\<rparr>\<rparr>)"
  using assms by (simp add: pgsql_sql_query_def pgsql_sql_query_into_def on_conn_def on_session_def Let_def)

text \<open>
  C14.  A SELECT through the PostgreSQL plugin whose result has rows: listing a column gives the
  values the library holds for it, one for each row, in order; then the library's result is
  cleared and no result of the plugin is left.
\<close>
theorem pgsql_listing:
  assumes "env_plugin E = pgsql_plugin L errno" "connected s"
    and "PQexec L query (conn_of (sql_world s)) = (Some h, c)" "PQresultStatus L c h = PGRES_TUPLES_OK"
    and "0 < PQntuples L c h" "PQntuples L c h < 2 ^ 31" "nat (PQntuples L c h) < n" "int col < PQnfields L c h"
    and "pg_results (session (sql_world s)) (pg_next (session (sql_world s))) = None"
  shows "\<exists>s'. listed_objects n E query (\<lambda>t row. get_string_field E t row col) s =
      (Inr (map (\<lambda>i. map_option Some (PQfield L c h (int i) col)) [0..<nat (PQntuples L c h)]), s') \<and> connected s' \<and>
    session (sql_world s') = (session (sql_world s))\<lparr>pg_conn := PQclear L h c, pg_next := pg_next (session (sql_world s)) + 1\<rparr>"
proof -
  define m where "m = session (sql_world s)"
  define w where "w = (sql_world s)\<lparr>session := m\<lparr>pg_conn := c,
      pg_results := (pg_results m)(pg_next m \<mapsto> \<lparr>pg_res = h, pg_row = - 1\<rparr>), pg_next := pg_next m + 1\<rparr>\<rparr>"
  define rs where "rs = map (\<lambda>i. map (PQfield L c h (int i)) [0..<nat (PQnfields L c h)]) [0..<nat (PQntuples L c h)]"
  have rows: "pgsql_cursor L w (pg_next m) = Some rs" "pgsql_rows_read w (pg_next m) = 0"
    by (simp_all add: pgsql_cursor_def pgsql_rows_def pgsql_rows_read_def pgsql_result_def w_def rs_def)
  have q: "pl_query (env_plugin E) query (sql_world s) = (Inr (Some (pg_next m)), w)"
    using pgsql_query_run [OF assms(3-5)] assms(1) by (simp add: pgsql_plugin_def w_def m_def)
  have count: "pl_get_row_count (env_plugin E) w (pg_next m) \<noteq> 0"
    using assms(1,5,6) by (simp add: pgsql_plugin_def pgsql_sql_get_row_count_def pgsql_result_def w_def)
  have fetch: "pl_fetch_row (env_plugin E) = Some (pgsql_sql_fetch_row L)" "pl_fetch_field (env_plugin E) = Some (pgsql_sql_fetch_field L)"
    using assms(1) by (simp_all add: pgsql_plugin_def)
  have len: "length rs < n" using assms(7) by (simp add: rs_def)
  have wide: "col < length r" if "r \<in> set rs" for r using that assms(8) by (auto simp: rs_def)
  from pgsql_result.listing [OF fetch assms(2) q count rows len wide] obtain s' w' where
    s': "listed_objects n E query (\<lambda>t row. get_string_field E t row col) s = (Inr (map (\<lambda>r. map_option Some (r ! col)) rs), s')"
    "same_session s s'" "sql_world s' = pl_resource_destroy (env_plugin E) (pg_next m) w'"
    "pgsql_rest w' (pg_next m) = pgsql_rest w (pg_next m)" by blast
  from s'(4) have "conn_of w' = c" "pg_next (session w') = pg_next m + 1"
    "map_option pg_res (pgsql_result w' (pg_next m)) = Some h"
    "(pg_results (session w'))(pg_next m := None) = pg_results m"
    using assms(9) by (auto simp: pgsql_rest_def w_def pgsql_result_def m_def)
  then have "session (sql_world s') = m\<lparr>pg_conn := PQclear L h c, pg_next := pg_next m + 1\<rparr>"
    using s'(3) assms(1)
    by (auto simp: pgsql_plugin_def pgsql_sql_resource_destroy_def upd_conn_def upd_session_def split: option.splits)
  moreover have "col < nat (PQnfields L c h)" using assms(8) by simp
  ultimately show ?thesis using s' assms(2) by (auto simp: rs_def m_def comp_def same_session_connected)
qed

text \<open>A library that answers every query with the same rows.\<close>

definition demo_pq :: "string option list list \<Rightarrow> unit pq_lib" where
  "demo_pq rows =
    \<lparr>PQsetdbLogin = (\<lambda>_ _ _ _ _ c. c), PQfinish = id, PQconnection_bad = (\<lambda>_. False), PQerrorMessage = (\<lambda>_. None),
     PQserverVersion = None, PQexec = (\<lambda>_ c. (Some 5, c)), PQresultStatus = (\<lambda>_ _. PGRES_TUPLES_OK), PQclear = (\<lambda>_. id),
     PQntuples = (\<lambda>_ _. int (length rows)), PQnfields = (\<lambda>_ _. int (length (hd rows))),
     PQfname = (\<lambda>_ _ _. None), PQfnumber = (\<lambda>_ _ _. - 1),
     PQfield = (\<lambda>_ _ i c. rows ! nat i ! c), PQescapeString = id, PQescapeBytea = Some, PQunescapeBytea = Some\<rparr>"

definition demo_pq_world :: "unit pg_session world" where
  "demo_pq_world = \<lparr>thread_error = None, session = \<lparr>pg_conn = (), pg_results = Map.empty, pg_next = 0\<rparr>\<rparr>"

definition demo_pq_env :: "unit pg_session env" where
  "demo_pq_env = null_env\<lparr>env_plugin := pgsql_plugin (demo_pq [[Some ''a''], [None]]) 0\<rparr>"

definition demo_connection :: "'w world \<Rightarrow> 'w sql" where
  "demo_connection w = \<lparr>status = STATUS_CONNECTED, sql_settings = settings_new, logfile = None, logged = [],
     internal_transaction_disabled = False, lock_depth = 0, sql_world = w\<rparr>"

lemma connected_demo [simp]: "connected (demo_connection w)" "sql_world (demo_connection w) = w"
  by (simp_all add: demo_connection_def connected_def STATUS_CONNECTED_def)

theorem pgsql_listing_witness:
  "\<exists>s'. listed_objects 3 demo_pq_env ''SELECT x'' (\<lambda>t row. get_string_field demo_pq_env t row 0) (demo_connection demo_pq_world) =
      (Inr (map (\<lambda>i. map_option Some (PQfield (demo_pq [[Some ''a''], [None]]) () 5 (int i) 0))
        [0..<nat (PQntuples (demo_pq [[Some ''a''], [None]]) () 5)]), s') \<and> connected s' \<and>
    session (sql_world s') = (session (sql_world (demo_connection demo_pq_world)))
      \<lparr>pg_conn := PQclear (demo_pq [[Some ''a''], [None]]) 5 (), pg_next := pg_next (session (sql_world (demo_connection demo_pq_world))) + 1\<rparr>"
  by (rule pgsql_listing) (simp_all add: demo_pq_env_def demo_pq_world_def, simp_all add: demo_pq_def)

section \<open>SQLite\<close>

text \<open>The rows a statement yields, from one state of the library to another.\<close>

inductive statement_yields :: "'w sqlite_lib \<Rightarrow> sqlite_stmt \<Rightarrow> nat \<Rightarrow> 'w \<Rightarrow> string list list \<Rightarrow> 'w \<Rightarrow> bool" for L stmt ncolumn where
  yields_done: "sqlite3_step L stmt c = (SQLITE_DONE, c') \<Longrightarrow> statement_yields L stmt ncolumn c [] c'"
| yields_row: "sqlite3_step L stmt c = (SQLITE_ROW, c1) \<Longrightarrow> statement_yields L stmt ncolumn c1 rows c' \<Longrightarrow>
    statement_yields L stmt ncolumn c (map (sqlite3_column L c1 stmt) [0..<ncolumn] # rows) c'"

inductive_simps statement_yields_simps: "statement_yields L stmt ncolumn c rows c'"

lemma on_sqlite_run: "f (sqlite_of w) = (r, c) \<Longrightarrow> on_sqlite f w = (r, w\<lparr>session := (session w)\<lparr>sl_conn := c\<rparr>\<rparr>)"
  by (simp add: on_sqlite_def on_session_def)

lemma yields_rows: "statement_yields L stmt ncolumn c rows c' \<Longrightarrow> list_all (\<lambda>row. length row = ncolumn) rows"
  by (induction rule: statement_yields.induct) simp_all

lemma read_steps_run:
  "statement_yields L stmt ncolumn c rows c' \<Longrightarrow> sqlite_of w = c \<Longrightarrow> length rows < m \<Longrightarrow>
   sql_read_steps m L stmt ncolumn r w =
     (Inr (r\<lparr>res_rows := res_rows r @ rows\<rparr>), w\<lparr>session := (session w)\<lparr>sl_conn := c'\<rparr>\<rparr>)"
proof (induction arbitrary: m r w rule: statement_yields.induct)
  case (yields_done c c')
  then obtain k where "m = Suc k" by (cases m) auto
  with yields_done show ?case by (simp add: on_sqlite_run)
next
  case (yields_row c c1 rows c')
  then obtain k where "m = Suc k" "length rows < k" by (cases m) auto
  with yields_row show ?case by (simp add: on_sqlite_run sql_resource_add_row_def)
qed

text \<open>A SELECT that is prepared and stepped through without an error.\<close>

definition sqlite3_selects :: "'w sqlite_lib \<Rightarrow> string \<Rightarrow> 'w \<Rightarrow> sqlite_stmt \<Rightarrow> nat \<Rightarrow> string list list \<Rightarrow> 'w \<Rightarrow> bool" where
  "sqlite3_selects L query c stmt ncolumn rows c' \<longleftrightarrow> strncmp_eq query ''SELECT'' 6 \<and> 0 < ncolumn \<and>
     (\<exists>c1. sqlite3_prepare L query c = (Some stmt, c1) \<and> sqlite3_column_count L c1 stmt = ncolumn \<and>
        statement_yields L stmt ncolumn c1 rows c')"

lemma sqlite3_query_run:
  assumes "sqlite3_selects L query (sqlite_of w) stmt ncolumn rows c" "length rows < m"
  shows "sqlite3_sql_query m L query w = (Inr (Some (sl_next (session w))),
    w\<lparr>session := (session w)\<lparr>sl_conn := c,
      sl_results := (sl_results (session w))(sl_next (session w) \<mapsto> (new_resource stmt ncolumn)\<lparr>res_rows := rows\<rparr>),
      sl_next := sl_next (session w) + 1\<rparr>\<rparr>)"
proof -
  from assms(1) obtain c1 where c1: "sqlite3_prepare L query (sqlite_of w) = (Some stmt, c1)"
    "sqlite3_column_count L c1 stmt = ncolumn" "statement_yields L stmt ncolumn c1 rows c" by (auto simp: sqlite3_selects_def)
  from read_steps_run [OF c1(3) _ assms(2), of "w\<lparr>session := (session w)\<lparr>sl_conn := c1\<rparr>\<rparr>"] c1 assms(1) show ?thesis
    by (simp add: sqlite3_sql_query_def sqlite3_selects_def on_sqlite_run sql_read_row_def Let_def bindr_def retn_def new_resource_def)
qed


text \<open>A library with one statement, whose rows are given.\<close>

definition demo_sqlite :: "string list list \<Rightarrow> nat sqlite_lib" where
  "demo_sqlite rows =
    \<lparr>file_exists = (\<lambda>_ _. True), sqlite3_open = (\<lambda>_ _. (True, 0)), sqlite3_close = id, sqlite3_errmsg = (\<lambda>_. ''error''),
     sqlite3_create_regexp = (\<lambda>c. (True, c)), sqlite3_busy_timeout = id, sqlite3_quoted = id,
     sqlite3_exec = (\<lambda>_ c. (True, c)), sqlite3_prepare = (\<lambda>_ _. (Some 7, 0)),
     sqlite3_step = (\<lambda>_ k. if k < length rows then (SQLITE_ROW, k + 1) else (SQLITE_DONE, k)),
     sqlite3_finalize = (\<lambda>_ c. c), sqlite3_column_count = (\<lambda>_ _. 2), sqlite3_column_name = (\<lambda>_ _ c. ''c''),
     sqlite3_column = (\<lambda>k _ c. rows ! (k - 1) ! c)\<rparr>"

definition demo_sqlite_world :: "nat sqlite_session world" where
  "demo_sqlite_world = \<lparr>thread_error = None, session = \<lparr>sl_conn = 0, sl_results = Map.empty, sl_next = 0\<rparr>\<rparr>"

definition demo_sqlite_env :: "string list list \<Rightarrow> nat sqlite_session env" where
  "demo_sqlite_env rows = null_env\<lparr>env_plugin := sqlite3_plugin 3 (demo_sqlite rows)\<rparr>"

lemma demo_yields:
  "k \<le> length rows \<Longrightarrow> list_all (\<lambda>row. length row = 2) rows \<Longrightarrow>
   statement_yields (demo_sqlite rows) 7 2 k (drop k rows) (length rows)"
proof (induction "length rows - k" arbitrary: k)
  case 0
  then show ?case by (auto simp: demo_sqlite_def intro: statement_yields.intros)
next
  case (Suc n)
  then have k: "k < length rows" by simp
  have row: "map (\<lambda>c. rows ! k ! c) [0..<2] = rows ! k"
    using Suc.prems(2) k by (intro nth_equalityI) (auto simp: list_all_length)
  have "statement_yields (demo_sqlite rows) 7 2 (k + 1) (drop (k + 1) rows) (length rows)"
    using Suc k by simp
  then have "statement_yields (demo_sqlite rows) 7 2 k
      (map (sqlite3_column (demo_sqlite rows) (k + 1) 7) [0..<2] # drop (k + 1) rows) (length rows)"
    by (rule statement_yields.intros(2) [rotated]) (simp add: demo_sqlite_def k)
  moreover have "map (sqlite3_column (demo_sqlite rows) (k + 1) 7) [0..<2] # drop (k + 1) rows = drop k rows"
    using row Cons_nth_drop_Suc [OF k] by (simp add: demo_sqlite_def)
  ultimately show ?case by simp
qed

lemma demo_selects:
  "list_all (\<lambda>row. length row = 2) rows \<Longrightarrow> sqlite3_selects (demo_sqlite rows) ''SELECT x'' c 7 2 rows (length rows)"
  using demo_yields [of 0 rows] by (simp add: sqlite3_selects_def strncmp_eq_def demo_sqlite_def)


end
