(* ===== verification/PluginSession.thy ===== *)
theory PluginSession
  imports PluginListing
begin

text \<open>
  The results the SQLite plugin keeps in its session: which are left behind, and what holds of
  all of them whatever is called on the plugin.
\<close>

section \<open>An empty SELECT\<close>

text \<open>
  A SELECT through the SQLite plugin without rows: the plugin makes a result all the same,
  and the caller, told of no row, does not destroy it: the result and its statement stay.
\<close>
theorem sqlite3_empty_result_leaked:
  assumes "env_plugin E = sqlite3_plugin m L" "connected s" "0 < m"
    and "sqlite3_selects L query (sqlite_of (sql_world s)) stmt ncolumn [] c"
  shows "\<exists>s'. listed_objects n E query body s = (Inr [], s') \<and> connected s' \<and>
    session (sql_world s') = (session (sql_world s))\<lparr>sl_conn := c,
      sl_results := (sl_results (session (sql_world s)))(sl_next (session (sql_world s)) \<mapsto> new_resource stmt ncolumn),
      sl_next := sl_next (session (sql_world s)) + 1\<rparr>"
proof -
  define w where "w = (sql_world s)\<lparr>session := (session (sql_world s))\<lparr>sl_conn := c,
      sl_results := (sl_results (session (sql_world s)))(sl_next (session (sql_world s)) \<mapsto> new_resource stmt ncolumn),
      sl_next := sl_next (session (sql_world s)) + 1\<rparr>\<rparr>"
  have q: "pl_query (env_plugin E) query (sql_world s) = (Inr (Some (sl_next (session (sql_world s)))), w)"
    using sqlite3_query_run [OF assms(4), of m] assms(1,3) by (simp add: sqlite3_plugin_def w_def new_resource_def)
  have "pl_get_row_count (env_plugin E) w (sl_next (session (sql_world s))) = 0"
    using assms(1) by (simp add: sqlite3_plugin_def sqlite3_sql_get_row_count_def sqlite3_result_def w_def new_resource_def)
  with query_run [OF assms(2) q, of True] assms(2) show ?thesis
    by (auto simp: listed_objects_def with_result_def bindr_def retn_def w_def same_session_connected)
qed

theorem sqlite3_empty_result_leaked_witness:
  "\<exists>s'. listed_objects 3 (demo_sqlite_env []) ''SELECT x'' (\<lambda>_ _. retn ()) (demo_connection demo_sqlite_world) = (Inr [], s') \<and>
    connected s' \<and>
    session (sql_world s') = (session (sql_world (demo_connection demo_sqlite_world)))\<lparr>sl_conn := 0,
      sl_results := (sl_results (session (sql_world (demo_connection demo_sqlite_world))))
        (sl_next (session (sql_world (demo_connection demo_sqlite_world))) \<mapsto> new_resource 7 2),
      sl_next := sl_next (session (sql_world (demo_connection demo_sqlite_world))) + 1\<rparr>"
  by (rule sqlite3_empty_result_leaked [where m = 3 and L = "demo_sqlite []"])
    (use demo_selects [of "[]" 0] in \<open>simp_all add: demo_sqlite_world_def demo_sqlite_env_def\<close>)

section \<open>The results the plugin keeps\<close>

text \<open>What the rest of the library calls on the plugin that changes its session.\<close>

inductive sqlite3_moves ::
    "nat \<Rightarrow> 'w sqlite_lib \<Rightarrow> 'w sqlite_session world \<Rightarrow> 'w sqlite_session world \<Rightarrow> bool" for m L where
  move_open: "sqlite3_sql_open L s w = (r, w') \<Longrightarrow> sqlite3_moves m L w w'"
| move_close: "sqlite3_moves m L w (sqlite3_sql_close L w)"
| move_query: "sqlite3_sql_query m L query w = (r, w') \<Longrightarrow> sqlite3_moves m L w w'"
| move_fetch_row: "sqlite3_sql_fetch_row t w = (r, w') \<Longrightarrow> sqlite3_moves m L w w'"
| move_fetch_field: "sqlite3_sql_fetch_field t h c w = (r, w') \<Longrightarrow> sqlite3_moves m L w w'"
| move_destroy: "sqlite3_moves m L w (sqlite3_sql_resource_destroy L t w)"

definition typed_session :: "'w sqlite_session \<Rightarrow> bool" where
  "typed_session m \<longleftrightarrow> (\<forall>t r. sl_results m t = Some r \<longrightarrow> typed_resource r \<and> t < sl_next m)"

text \<open>Operations that only touch the connection or the error message.\<close>

definition same_results :: "'w sqlite_session world \<Rightarrow> 'w sqlite_session world \<Rightarrow> bool" where
  "same_results w w' \<longleftrightarrow> sl_results (session w') = sl_results (session w) \<and> sl_next (session w') = sl_next (session w)"

lemma same_results_simps [simp]:
  "same_results w w" "same_results w (upd_sqlite f w') = same_results w w'"
  "same_results w (w'\<lparr>thread_error := e\<rparr>) = same_results w w'"
  by (simp_all add: same_results_def upd_sqlite_def)

lemma same_results_trans: "same_results u v \<Longrightarrow> same_results v w \<Longrightarrow> same_results u w"
  by (simp add: same_results_def)

lemma same_results_on_sqlite: "on_sqlite f w = (r, w') \<Longrightarrow> same_results w w'"
  by (auto simp: on_sqlite_def on_session_def same_results_def split: prod.splits)

lemma same_results_error: "error_verbose e msg w = (r, w') \<Longrightarrow> same_results w w'"
  by (auto simp: error_verbose_def same_results_def)

lemma same_results_typed: "same_results w w' \<Longrightarrow> typed_session (session w) \<Longrightarrow> typed_session (session w')"
  by (simp add: same_results_def typed_session_def)

lemma same_results_failed: "sqlite3_query_failed L w = (r, w') \<Longrightarrow> same_results w w'"
  by (auto simp: sqlite3_query_failed_def split: option.splits dest: same_results_error)

lemma same_results_open_failed: "sqlite3_open_failed L w = (r, w') \<Longrightarrow> same_results w w'"
  by (auto simp: sqlite3_open_failed_def sqlite3_sql_close_def split: prod.splits dest: same_results_error)

lemma open_same_results: "sqlite3_sql_open L s w = (r, w') \<Longrightarrow> same_results w w'"
  by (auto simp: sqlite3_sql_open_def split: option.splits if_splits prod.splits bool.splits
      dest!: same_results_error same_results_on_sqlite same_results_open_failed intro: same_results_trans)

lemma read_steps_typed:
  "sql_read_steps m L stmt ncolumn r w = (res, w') \<Longrightarrow> 0 < ncolumn \<Longrightarrow> res_ncolumn r = ncolumn \<Longrightarrow> typed_resource r \<Longrightarrow>
   same_results w w' \<and> (case res of Inl _ \<Rightarrow> True | Inr r' \<Rightarrow> typed_resource r')"
proof (induction m arbitrary: r w)
  case 0
  then show ?case by (auto simp: failw_def)
next
  case (Suc m)
  obtain ret w1 where s: "on_sqlite (sqlite3_step L stmt) w = (ret, w1)" by fastforce
  note same = same_results_on_sqlite [OF s]
  show ?case
  proof (cases "ret = SQLITE_ROW")
    case True
    let ?r = "sql_resource_add_row (map (sqlite3_column L (sqlite_of w1) stmt) [0..<ncolumn]) r"
    have "typed_resource ?r" "res_ncolumn ?r = ncolumn"
      using Suc.prems by (auto simp: typed_resource_def sql_resource_add_row_def)
    moreover have "sql_read_steps m L stmt ncolumn ?r w1 = (res, w')" using Suc.prems(1) s True by simp
    ultimately show ?thesis using Suc.IH Suc.prems(2) same same_results_trans by blast
  next
    case False
    then show ?thesis using Suc.prems s same by (auto split: if_splits simp: error_verbose_def)
  qed
qed

lemma read_row_typed:
  "sql_read_row m L stmt w = (res, w') \<Longrightarrow>
   same_results w w' \<and> (case res of Inr (Some r) \<Rightarrow> typed_resource r | _ \<Rightarrow> True)"
  using read_steps_typed [of m L stmt "sqlite3_column_count L (sqlite_of w) stmt"
      "new_resource stmt (sqlite3_column_count L (sqlite_of w) stmt)" w]
  by (fastforce simp: sql_read_row_def Let_def bindr_def retn_def new_resource_def typed_resource_def split: if_splits sum.splits prod.splits)

lemma query_typed:
  assumes "sqlite3_sql_query m L query w = (r, w')" "typed_session (session w)"
  shows "typed_session (session w')"
proof (cases "strncmp_eq query ''SELECT'' 6")
  case False
  then have "same_results w w'" using assms(1)
    by (auto simp: sqlite3_sql_query_def split: prod.splits bool.splits
        dest!: same_results_on_sqlite same_results_failed intro: same_results_trans)
  then show ?thesis using assms(2) by (rule same_results_typed)
next
  case True
  obtain x w1 where p: "on_sqlite (sqlite3_prepare L query) w = (x, w1)" by fastforce
  note w1 = same_results_on_sqlite [OF p]
  show ?thesis
  proof (cases x)
    case None
    then show ?thesis using assms True p w1
      by (auto simp: sqlite3_sql_query_def dest!: same_results_failed intro: same_results_typed same_results_trans)
  next
    case (Some stmt)
    obtain res w2 where q: "sql_read_row m L stmt w1 = (res, w2)" by fastforce
    note q' = read_row_typed [OF q]
    then have w2: "same_results w w2" using w1 same_results_trans by blast
    then have "typed_session (session w2)" using assms(2) by (rule same_results_typed)
    then show ?thesis using assms(1) True p Some q q'
      by (auto simp: sqlite3_sql_query_def Let_def typed_session_def upd_sqlite_def less_SucI split: sum.splits option.splits if_splits)
  qed
qed

lemma typed_update:
  "typed_session m \<Longrightarrow> sl_results m t = Some r \<Longrightarrow> typed_resource r' \<Longrightarrow>
   typed_session (m\<lparr>sl_results := (sl_results m)(t \<mapsto> r')\<rparr>)"
  by (auto simp: typed_session_def)

lemma moves_typed: "sqlite3_moves m L w w' \<Longrightarrow> typed_session (session w) \<Longrightarrow> typed_session (session w')"
proof (induction rule: sqlite3_moves.induct)
  case (move_open s w r w')
  then show ?case using open_same_results same_results_typed by blast
next
  case (move_close w)
  then show ?case by (rule same_results_typed [rotated]) (simp add: sqlite3_sql_close_def)
next
  case (move_query query w r w')
  then show ?case by (rule query_typed)
next
  case (move_fetch_row t w r w')
  show ?case
  proof (cases "sqlite3_result w t")
    case None
    with move_fetch_row show ?thesis by (simp add: sqlite3_sql_fetch_row_def)
  next
    case (Some x)
    let ?x = "x\<lparr>res_current := (if res_current x < length (res_rows x) then res_current x + 1 else 0)\<rparr>"
    have "typed_resource x" using move_fetch_row(2) Some by (auto simp: typed_session_def sqlite3_result_def)
    then have "typed_resource ?x" by (simp add: typed_resource_def)
    moreover have "session w' = (session w)\<lparr>sl_results := (sl_results (session w))(t \<mapsto> ?x)\<rparr>"
      using move_fetch_row(1) Some by (auto simp: sqlite3_sql_fetch_row_def Let_def)
    ultimately show ?thesis using typed_update move_fetch_row(2) Some by (metis sqlite3_result_def)
  qed
next
  case (move_fetch_field t h c w r w')
  then show ?case by (auto simp: sqlite3_sql_fetch_field_def)
next
  case (move_destroy w t)
  then show ?case
    by (auto simp: sqlite3_sql_resource_destroy_def typed_session_def upd_sqlite_def split: option.splits)
qed

text \<open>
  C10.  Whatever is called on the SQLite plugin, in whatever order and against whatever library:
  every result it keeps has columns, all its rows have a field for each of them, the row read
  last is one of its rows, and the handle the next result gets is not in use.
\<close>
theorem sqlite3_results_typed:
  assumes "(sqlite3_moves m L)\<^sup>*\<^sup>* w0 w" "sl_results (session w0) = Map.empty" "sqlite3_result w t = Some r"
  shows "0 < res_ncolumn r \<and> list_all (\<lambda>row. length row = res_ncolumn r) (res_rows r) \<and>
    res_current r \<le> length (res_rows r) \<and> t < sl_next (session w)"
proof -
  from assms(1) have "typed_session (session w)"
  proof (induction rule: rtranclp_induct)
    case base
    with assms(2) show ?case by (simp add: typed_session_def)
  next
    case (step y z)
    then show ?case using moves_typed by blast
  qed
  then show ?thesis using assms(3) by (auto simp: typed_session_def sqlite3_result_def typed_resource_def)
qed

theorem sqlite3_results_typed_witness:
  "0 < res_ncolumn (new_resource 7 2) \<and>
    list_all (\<lambda>row. length row = res_ncolumn (new_resource 7 2)) (res_rows (new_resource 7 2)) \<and>
    res_current (new_resource 7 2) \<le> length (res_rows (new_resource 7 2)) \<and>
    0 < sl_next (session (snd (sqlite3_sql_query 3 (demo_sqlite []) ''SELECT x'' demo_sqlite_world)))"
proof (rule sqlite3_results_typed)
  show "(sqlite3_moves 3 (demo_sqlite []))\<^sup>*\<^sup>* demo_sqlite_world
      (snd (sqlite3_sql_query 3 (demo_sqlite []) ''SELECT x'' demo_sqlite_world))"
    by (rule r_into_rtranclp, rule move_query, rule prod.collapse [symmetric])
  show "sqlite3_result (snd (sqlite3_sql_query 3 (demo_sqlite []) ''SELECT x'' demo_sqlite_world)) 0 = Some (new_resource 7 2)"
    using sqlite3_query_run [of "demo_sqlite []" "''SELECT x''" demo_sqlite_world 7 2 "[]" 0 3] demo_selects [of "[]" 0]
    by (simp add: demo_sqlite_world_def sqlite3_result_def new_resource_def)
qed (simp add: demo_sqlite_world_def)

end
