(* ===== verification/PluginRecovery.thy ===== *)
theory PluginRecovery
  imports PluginListing
begin

text \<open>
  A lost server that comes back: the MySQL plugin reports the loss, the connection drops the
  session, and the attempts that follow open a new one as soon as the server accepts it.
\<close>

text \<open>
  How often the server refuses a connection, from a state of the client library on, before it
  accepts one and runs the query, which yields no rows.
\<close>

definition mysql_port :: "settings \<Rightarrow> int" where
  "mysql_port s = (case get_port s of None \<Rightarrow> 0 | Some p \<Rightarrow> port_number p)"

definition mysql_connecting :: "'w mysql_lib \<Rightarrow> settings \<Rightarrow> 'w \<Rightarrow> bool \<times> 'w" where
  "mysql_connecting L s = mysql_real_connect L (get_host s) (SqlSettings.get_user s) (get_pass s) (get_dbname s) (mysql_port s)"

definition mysql_runs :: "'w mysql_lib \<Rightarrow> string \<Rightarrow> 'w \<Rightarrow> bool" where
  "mysql_runs L q m \<longleftrightarrow>
    (case mysql_query L q m of (ok, m1) \<Rightarrow>
       ok \<and> (case mysql_store_result L m1 of (t, m2) \<Rightarrow> t = None \<and> mysql_errno_of L m2 = MYSQL_OK))"

fun server_back :: "'w mysql_lib \<Rightarrow> settings \<Rightarrow> string \<Rightarrow> nat \<Rightarrow> 'w \<Rightarrow> bool" where
  "server_back L s q 0 m \<longleftrightarrow>
    (case mysql_connecting L s m of (ok, m1) \<Rightarrow>
       ok \<and> mysql_runs L q (snd (mysql_query L ''SET SESSION wait_timeout=31536000'' m1)))"
| "server_back L s q (Suc k) m \<longleftrightarrow>
    (case mysql_connecting L s m of (ok, m1) \<Rightarrow> \<not> ok \<and> server_back L s q k (mysql_close L m1))"

text \<open>The results of the same query, made a number of times.\<close>

fun repeat_query :: "'w env \<Rightarrow> string \<Rightarrow> nat \<Rightarrow> 'w sql \<Rightarrow> (err + nat \<times> sql_res option) list \<times> 'w sql" where
  "repeat_query E q 0 s = ([], s)"
| "repeat_query E q (Suc n) s =
    (case requiemdb_sql_query E q False s of (r, s1) \<Rightarrow>
       (case repeat_query E q n s1 of (rs, s2) \<Rightarrow> (r # rs, s2)))"

definition connection_error :: "err + 'a \<Rightarrow> bool" where
  "connection_error r = (case r of Inl e \<Rightarrow> requiemdb_error_check e ERROR_CONNECTION | Inr _ \<Rightarrow> False)"

lemma handle_error_connection:
  "mysql_handle_error L code w = (r, w') \<Longrightarrow> code = ERROR_CONNECTION \<or> mysql_is_connection_broken L (session w) \<Longrightarrow>
   (\<exists>e. r = Inl e \<and> requiemdb_error_check e ERROR_CONNECTION) \<and> session w' = session w"
  by (auto simp: mysql_handle_error_def error_verbose_def requiemdb_error_check_def requiemdb_error_def Let_def split: if_splits)

lemma mysql_open_fails:
  assumes "mysql_connecting L s (session w) = (False, m1)"
  shows "\<exists>e w'. mysql_sql_open L s w = (Inl e, w') \<and> requiemdb_error_check e ERROR_CONNECTION \<and> session w' = mysql_close L m1"
proof -
  obtain r :: "err + unit" and w2 where h: "mysql_handle_error L ERROR_CONNECTION (w\<lparr>session := m1\<rparr>) = (r, w2)" by fastforce
  from handle_error_connection [OF h] obtain e where "r = Inl e" "requiemdb_error_check e ERROR_CONNECTION" "session w2 = m1"
    by auto
  with h assms show ?thesis
    by (simp add: mysql_sql_open_def mysql_connecting_def mysql_port_def on_session_def mysql_sql_close_def)
qed

lemma attempt_fails:
  assumes "env_plugin E = mysql_plugin L" "\<not> connected s"
    and "mysql_connecting L (sql_settings s) (session (sql_world s)) = (False, m1)"
  shows "\<exists>e s'. requiemdb_sql_query E q want s = (Inl e, s') \<and> requiemdb_error_check e ERROR_CONNECTION \<and> \<not> connected s' \<and>
    sql_settings s' = sql_settings s \<and> lock_depth s' = lock_depth s \<and> session (sql_world s') = mysql_close L m1"
proof -
  from mysql_open_fails [of L "sql_settings s" "sql_world s", OF assms(3)] obtain e w' where
    "mysql_sql_open L (sql_settings s) (sql_world s) = (Inl e, w')" "requiemdb_error_check e ERROR_CONNECTION"
    "session w' = mysql_close L m1" by blast
  with assms(1,2) show ?thesis
    by (auto simp: requiemdb_sql_query_def assert_connected_def requiemdb_sql_connect_def on_world_def mysql_plugin_def
        lock_def unlock_def connected_def)
qed

lemma mysql_open_works:
  "mysql_connecting L s (session w) = (True, m1) \<Longrightarrow>
   mysql_sql_open L s w = (Inr (), w\<lparr>session := snd (mysql_query L ''SET SESSION wait_timeout=31536000'' m1)\<rparr>)"
  by (simp add: mysql_sql_open_def mysql_connecting_def mysql_port_def on_session_def split: prod.split)

lemma mysql_query_works: "mysql_runs L q (session w) \<Longrightarrow> \<exists>w'. mysql_sql_query L q w = (Inr None, w')"
  by (auto simp: mysql_runs_def mysql_sql_query_def on_session_def split: prod.splits)

lemma attempt_succeeds:
  assumes "env_plugin E = mysql_plugin L" "\<not> connected s" "server_back L (sql_settings s) q 0 (session (sql_world s))"
  shows "\<exists>s'. requiemdb_sql_query E q want s = (Inr (0, None), s') \<and> connected s' \<and> lock_depth s' = lock_depth s"
proof -
  obtain m1 where c: "mysql_connecting L (sql_settings s) (session (sql_world s)) = (True, m1)"
    and r: "mysql_runs L q (snd (mysql_query L ''SET SESSION wait_timeout=31536000'' m1))"
    using assms(3) by (auto split: prod.splits)
  define w where "w = (sql_world s)\<lparr>session := snd (mysql_query L ''SET SESSION wait_timeout=31536000'' m1)\<rparr>"
  have o: "pl_open (env_plugin E) (sql_settings s) (sql_world s) = (Inr (), w)"
    using mysql_open_works [OF c] assms(1) by (simp add: mysql_plugin_def w_def)
  obtain w' where "mysql_sql_query L q w = (Inr None, w')" using mysql_query_works [of L q w] r by (auto simp: w_def)
  then have "pl_query (env_plugin E) q w = (Inr None, w')" using assms(1) by (simp add: mysql_plugin_def)
  with o assms(2) show ?thesis
    by (auto simp: requiemdb_sql_query_def assert_connected_def requiemdb_sql_connect_def on_world_def
        lock_def unlock_def connected_def log_query_def STATUS_CONNECTED_def)
qed

lemma attempts_until_back:
  assumes "env_plugin E = mysql_plugin L"
  shows "\<not> connected s \<Longrightarrow> server_back L (sql_settings s) q k (session (sql_world s)) \<Longrightarrow>
    \<exists>rs s'. repeat_query E q (Suc k) s = (rs @ [Inr (0, None)], s') \<and> length rs = k \<and> list_all connection_error rs \<and>
      connected s' \<and> lock_depth s' = lock_depth s"
proof (induction k arbitrary: s)
  case 0
  from attempt_succeeds [OF assms 0, of False] show ?case by auto
next
  case (Suc k)
  obtain m1 where c: "mysql_connecting L (sql_settings s) (session (sql_world s)) = (False, m1)"
    "server_back L (sql_settings s) q k (mysql_close L m1)" using Suc.prems(2) by (auto split: prod.splits)
  from attempt_fails [OF assms Suc.prems(1) c(1), of q False] obtain e s1 where
    s1: "requiemdb_sql_query E q False s = (Inl e, s1)" "requiemdb_error_check e ERROR_CONNECTION" "\<not> connected s1"
    "sql_settings s1 = sql_settings s" "lock_depth s1 = lock_depth s" "session (sql_world s1) = mysql_close L m1" by blast
  from Suc.IH [of s1] s1 c(2) obtain rs s' where
    "repeat_query E q (Suc k) s1 = (rs @ [Inr (0, None)], s')" "length rs = k" "list_all connection_error rs" "connected s'"
    "lock_depth s' = lock_depth s1" by auto
  with s1 show ?case
    by (subst repeat_query.simps(2)) (auto simp: connection_error_def simp del: repeat_query.simps intro!: exI [of _ "Inl e # rs"])
qed

lemma disconnected_bit: "(x AND NOT STATUS_CONNECTED) AND STATUS_CONNECTED = 0"
  by (metis and.assoc and.commute bit.conj_cancel_left bit.conj_zero_right)

lemma broken_query:
  assumes "env_plugin E = mysql_plugin L" "connected s"
    and "mysql_query L q (session (sql_world s)) = (False, m)" "mysql_is_connection_broken L m"
  shows "\<exists>e s'. requiemdb_sql_query E q want s = (Inl e, s') \<and> requiemdb_error_check e ERROR_CONNECTION \<and> \<not> connected s' \<and>
    sql_settings s' = sql_settings s \<and> lock_depth s' = lock_depth s \<and> session (sql_world s') = mysql_close L m"
proof -
  obtain r :: "err + sql_res option" and w where h: "mysql_handle_error L ERROR_QUERY ((sql_world s)\<lparr>session := m\<rparr>) = (r, w)" by fastforce
  from handle_error_connection [OF h] assms(4) obtain e where
    "r = Inl e" "requiemdb_error_check e ERROR_CONNECTION" "session w = m" by auto
  with h assms(1-3) show ?thesis
    by (auto simp: requiemdb_sql_query_def assert_connected_def on_world_def mysql_plugin_def lock_def unlock_def connected_def
        mysql_sql_query_def on_session_def update_sql_from_errno_def mysql_sql_close_def log_query_def disconnected_bit Let_def)
qed

text \<open>
  C9.  A query that finds the link to the MySQL server broken fails with a connection error.  As
  often as the server then refuses a connection, so often the query fails again with a
  connection error; the next time it opens a session and succeeds.  The connection is up then
  and the lock as it was.
\<close>
theorem mysql_recovers:
  assumes "env_plugin E = mysql_plugin L" "connected s"
    and "mysql_query L q (session (sql_world s)) = (False, m)" "mysql_is_connection_broken L m"
    and "server_back L (sql_settings s) q k (mysql_close L m)"
  shows "\<exists>rs s'. repeat_query E q (k + 2) s = (rs @ [Inr (0, None)], s') \<and> length rs = k + 1 \<and> list_all connection_error rs \<and>
    connected s' \<and> lock_depth s' = lock_depth s"
proof -
  from broken_query [OF assms(1-4), of False] obtain e s1 where
    s1: "requiemdb_sql_query E q False s = (Inl e, s1)" "requiemdb_error_check e ERROR_CONNECTION" "\<not> connected s1"
    "sql_settings s1 = sql_settings s" "lock_depth s1 = lock_depth s" "session (sql_world s1) = mysql_close L m" by blast
  from attempts_until_back [OF assms(1) s1(3), of q k] s1 assms(5) obtain rs s' where
    "repeat_query E q (Suc k) s1 = (rs @ [Inr (0, None)], s')" "length rs = k" "list_all connection_error rs" "connected s'"
    "lock_depth s' = lock_depth s1" by auto
  with s1 have "repeat_query E q (Suc (Suc k)) s = ((Inl e # rs) @ [Inr (0, None)], s')"
    "length (Inl e # rs :: (err + nat \<times> sql_res option) list) = k + 1" "list_all connection_error (Inl e # rs :: (err + nat \<times> sql_res option) list)"
    by (simp_all only: repeat_query.simps(2)) (simp_all add: connection_error_def)
  with \<open>connected s'\<close> \<open>lock_depth s' = lock_depth s1\<close> s1(5) show ?thesis by (metis add_2_eq_Suc')
qed

text \<open>A server that refuses every query and two connections, then works; the state counts.\<close>

definition demo_mysql :: "nat mysql_lib" where
  "demo_mysql =
    \<lparr>mysql_real_connect = (\<lambda>_ _ _ _ _ k. (2 < k, k + 1)), mysql_close = id,
     mysql_errno_of = (\<lambda>k. if k \<le> 3 then CR_SERVER_LOST else MYSQL_OK), mysql_error = (\<lambda>_. ''lost''),
     mysql_query = (\<lambda>_ k. (3 < k, k + 1)), mysql_store_result = (\<lambda>k. (None, k)), mysql_free_result = (\<lambda>_ k. k),
     mysql_num_rows = (\<lambda>_ _. 0), mysql_num_fields = (\<lambda>_ _. 0), mysql_field_name = (\<lambda>_ _ _. []),
     mysql_fetch_fields = (\<lambda>_ _. False), mysql_fetch_row = (\<lambda>_ k. (None, k)), mysql_fetch_lengths = (\<lambda>_ _. False),
     mysql_row_value = (\<lambda>_ _ _ _. None), mysql_escape_string = (\<lambda>_ t. t)\<rparr>"

theorem mysql_recovers_witness:
  "\<exists>rs s'. repeat_query (null_env\<lparr>env_plugin := mysql_plugin demo_mysql\<rparr>) ''DELETE'' (2 + 2)
      (demo_connection \<lparr>thread_error = None, session = 0\<rparr>) = (rs @ [Inr (0, None)], s') \<and> length rs = 2 + 1 \<and>
    list_all connection_error rs \<and> connected s' \<and>
    lock_depth s' = lock_depth (demo_connection \<lparr>thread_error = None, session = (0 :: nat)\<rparr>)"
  by (rule mysql_recovers [where m = 1 and L = demo_mysql])
    (simp_all add: demo_mysql_def mysql_is_connection_broken_def mysql_connecting_def mysql_runs_def numeral_2_eq_2)

end
