(* ===== verification/VersionCheck.thy ===== *)
theory VersionCheck
  imports SqlFields
begin

text \<open>
  The comparison of the version of the library with the one a program asks for
  (\<open>src/requiemdb-version.c\<close>).  The version itself is generated when the library is
  configured and is an argument.
\<close>

text \<open>
  The conversions of \<open>sscanf(t, "%d.%d.%d", ...)\<close>: a number outside \<open>int\<close> has no value;
  \<open>None\<close> stands for fewer than three numbers.
\<close>

definition scan_number :: "string \<Rightarrow> err + (int \<times> string) option" where
  "scan_number t =
    (case scan_int t of
       Scan_int n rest \<Rightarrow> if - (2 ^ 31) \<le> n \<and> n < 2 ^ 31 then Inr (Some (n, rest)) else Inl UndefinedValue
     | _ \<Rightarrow> Inr None)"

definition after_dot :: "string \<Rightarrow> string option" where
  "after_dot t = (case t of [] \<Rightarrow> None | c # cs \<Rightarrow> if c = CHR ''.'' then Some cs else None)"

fun scan_numbers :: "nat \<Rightarrow> string \<Rightarrow> err + int list option" where
  "scan_numbers 0 t = Inr (Some [])"
| "scan_numbers (Suc k) t =
    (case scan_number t of
       Inl e \<Rightarrow> Inl e
     | Inr None \<Rightarrow> Inr None
     | Inr (Some (n, rest)) \<Rightarrow>
         if k = 0 then Inr (Some [n])
         else (case after_dot rest of
                 None \<Rightarrow> Inr None
               | Some t' \<Rightarrow>
                   (case scan_numbers k t' of
                      Inl e \<Rightarrow> Inl e
                    | Inr None \<Rightarrow> Inr None
                    | Inr (Some ns) \<Rightarrow> Inr (Some (n # ns)))))"

text \<open>\<open>None\<close> is the NULL pointer, on both sides.\<close>

definition requiemdb_check_version :: "string \<Rightarrow> string option \<Rightarrow> err + string option" where
  "requiemdb_check_version VERSION req_version =
    (case req_version of
       None \<Rightarrow> Inr (Some VERSION)
     | Some req \<Rightarrow>
         (case scan_numbers 3 (cstr VERSION) of
            Inl e \<Rightarrow> Inl e
          | Inr (Some [major, minor, micro]) \<Rightarrow>
              (case scan_numbers 3 (cstr req) of
                 Inl e \<Rightarrow> Inl e
               | Inr (Some [rq_major, rq_minor, rq_micro]) \<Rightarrow>
                   Inr (if major > rq_major \<or>
                           (major = rq_major \<and> minor > rq_minor) \<or>
                           (major = rq_major \<and> minor = rq_minor \<and> micro > rq_micro) \<or>
                           (major = rq_major \<and> minor = rq_minor \<and> micro = rq_micro)
                        then Some VERSION else None)
               | Inr _ \<Rightarrow> Inr None)
          | Inr _ \<Rightarrow> Inr None))"

section \<open>Versions in order\<close>

definition version_text :: "int \<Rightarrow> int \<Rightarrow> int \<Rightarrow> string" where
  "version_text a b c = dec_int a @ ''.'' @ dec_int b @ ''.'' @ dec_int c"

definition c_int :: "int \<Rightarrow> bool" where
  "c_int n \<longleftrightarrow> - (2 ^ 31) \<le> n \<and> n < 2 ^ 31"

lemma scan_number_dec: "c_int n \<Longrightarrow> stops_digits rest \<Longrightarrow> scan_number (dec_int n @ rest) = Inr (Some (n, rest))"
  by (simp add: scan_number_def scan_int_dec_int c_int_def)

lemma scan_version_text:
  assumes "c_int a" "c_int b" "c_int c" "stops_digits rest"
  shows "scan_numbers 3 (version_text a b c @ rest) = Inr (Some [a, b, c])"
proof -
  have dot: "stops_digits (CHR ''.'' # t)" for t by (simp add: stops_digits_def isdigit_def)
  show ?thesis
    using assms scan_number_dec [OF assms(1) dot] scan_number_dec [OF assms(2) dot] scan_number_dec [OF assms(3,4)]
    by (simp add: version_text_def numeral_3_eq_3 after_dot_def)
qed

text \<open>
  C32.  The library says it has a version exactly when this version comes before or is its own
  in the order of major, minor and micro number; what follows the numbers does not count.
\<close>
theorem version_order:
  assumes "c_int a" "c_int b" "c_int c" "c_int x" "c_int y" "c_int z"
    and "stops_digits suffix" "NUL \<notin> set suffix" "stops_digits suffix'" "NUL \<notin> set suffix'"
  shows "requiemdb_check_version (version_text a b c @ suffix) (Some (version_text x y z @ suffix')) =
    Inr (if x < a \<or> x = a \<and> (y < b \<or> y = b \<and> z \<le> c) then Some (version_text a b c @ suffix) else None)"
proof -
  have "cstr (version_text i j k @ t) = version_text i j k @ t" if "NUL \<notin> set t" for i j k t
    using that no_nul_dec_int(1) by (auto simp: cstr_def takeWhile_eq_all_conv version_text_def)
  with assms show ?thesis by (auto simp: requiemdb_check_version_def scan_version_text)
qed

theorem version_order_witness:
  "requiemdb_check_version (version_text 0 9 16 @ ''rc1'') (Some (version_text 0 10 0 @ [])) =
    Inr (if (0 :: int) < 0 \<or> (0 :: int) = 0 \<and> ((10 :: int) < 9 \<or> (10 :: int) = 9 \<and> (0 :: int) \<le> 16)
      then Some (version_text 0 9 16 @ ''rc1'') else None)"
  by (rule version_order) (simp_all add: c_int_def stops_digits_def isdigit_def)

end
