(* ===== verification/AdminTool.thy ===== *)
theory AdminTool
  imports RequiemDb PluginBase
begin

text \<open>
  The administration program (\<open>src/requiemdb-admin.c\<close>), first part: its global variables,
  its options, the choice of alerts or heartbeats, the opening of a database, and the batches
  and transactions its commands share.  The statistics it prints are not modelled.
\<close>

section \<open>Global variables\<close>

text \<open>
  A signal handler sets \<open>stop_processing\<close> at any time; \<open>signals\<close> says whether a signal
  arrives before each of the looks at the variable, and none comes after the last of them.
\<close>

record admin =
  stop_processing :: bool
  signals :: "bool list"
  have_query_logging :: bool
  query_logging :: "string option"
  cur_count :: "64 word"
  limit :: int
  offset :: int
  offset_copy :: int
  limit_copy :: int
  criteria :: "criteria option"
  events_per_transaction :: "32 word"

definition admin_globals :: "bool list \<Rightarrow> admin" where
  "admin_globals sigs =
    \<lparr>stop_processing = False, signals = sigs, have_query_logging = False, query_logging = None,
     cur_count = 0, limit = - 1, offset = 0, offset_copy = 0, limit_copy = - 1, criteria = None,
     events_per_transaction = 1000\<rparr>"

definition handle_signal :: "admin \<Rightarrow> admin" where
  "handle_signal g = g\<lparr>stop_processing := True\<rparr>"

text \<open>A look at \<open>stop_processing\<close>.\<close>

definition look_at_stop :: "admin \<Rightarrow> bool \<times> admin" where
  "look_at_stop g =
    (case signals g of
       [] \<Rightarrow> (stop_processing g, g)
     | b # bs \<Rightarrow>
         let g' = (if b then handle_signal g else g)\<lparr>signals := bs\<rparr>
         in (stop_processing g', g'))"

section \<open>Results\<close>

text \<open>
  A loop has a bound on its rounds; where the code uses freed or unset memory, writes behind an
  array or dereferences NULL, the run has no result.
\<close>

datatype 'a outcome = Ended 'a | Not_ended | Undefined_behaviour

definition then_run :: "'a outcome \<Rightarrow> ('a \<Rightarrow> 'b outcome) \<Rightarrow> 'b outcome" where
  "then_run m f =
    (case m of Ended a \<Rightarrow> f a | Not_ended \<Rightarrow> Not_ended | Undefined_behaviour \<Rightarrow> Undefined_behaviour)"

lemma then_run_simps [simp]:
  "then_run (Ended a) f = f a" "then_run Not_ended f = Not_ended"
  "then_run Undefined_behaviour f = Undefined_behaviour"
  by (simp_all add: then_run_def)

lemma then_run_Ended: "then_run m f = Ended b \<longleftrightarrow> (\<exists>a. m = Ended a \<and> f a = Ended b)"
  by (cases m) simp_all

text \<open>A command returns, or leaves through \<open>exit(1)\<close> after its help text.\<close>

datatype command_end = Exit_help | Return "err + int"

section \<open>Numbers of the command line\<close>

text \<open>
  \<open>strtoll(t, NULL, 0)\<close>: white space, a sign, and digits in base 8, 10 or 16 by their prefix; a
  number out of range is the nearest one of the type.  \<open>atoi\<close> reads decimal digits.
\<close>

definition digit_in :: "nat \<Rightarrow> char \<Rightarrow> bool" where
  "digit_in base c \<longleftrightarrow>
    (let d = (of_char c :: nat)
     in (48 \<le> d \<and> d \<le> 57 \<and> d - 48 < base) \<or> (base = 16 \<and> (65 \<le> d \<and> d \<le> 70 \<or> 97 \<le> d \<and> d \<le> 102)))"

definition digit_number :: "char \<Rightarrow> int" where
  "digit_number c =
    (let d = int (of_char c) in if d \<le> 57 then d - 48 else if d \<le> 70 then d - 55 else d - 87)"

definition digits_in :: "nat \<Rightarrow> string \<Rightarrow> int" where
  "digits_in base t = foldl (\<lambda>v c. int base * v + digit_number c) 0 (takeWhile (digit_in base) t)"

fun unsigned_number :: "string \<Rightarrow> int" where
  "unsigned_number (z # x # d # t) =
    (if z = CHR ''0'' then
       (if (x = CHR ''x'' \<or> x = CHR ''X'') \<and> digit_in 16 d then digits_in 16 (d # t)
        else digits_in 8 (z # x # d # t))
     else digits_in 10 (z # x # d # t))"
| "unsigned_number t =
    (if t \<noteq> [] \<and> hd t = CHR ''0'' then digits_in 8 t else digits_in 10 t)"

definition strtoll :: "string \<Rightarrow> int" where
  "strtoll t =
    (let i = (case skip_white (cstr t) of
                [] \<Rightarrow> 0
              | c # cs \<Rightarrow>
                  if c = CHR ''-'' then - unsigned_number cs
                  else if c = CHR ''+'' then unsigned_number cs
                  else unsigned_number (c # cs))
     in max (- (2 ^ 63)) (min (2 ^ 63 - 1) i))"

definition atoi :: "string \<Rightarrow> int" where
  "atoi t = (case scan_int (cstr t) of Scan_int i _ \<Rightarrow> i | _ \<Rightarrow> 0)"

text \<open>The conversion to \<open>int\<close> keeps the low 32 bits.\<close>

definition to_int :: "int \<Rightarrow> int" where
  "to_int i = sint (word_of_int i :: 32 word)"

section \<open>Options\<close>

text \<open>
  librequiem reads the options and calls back; \<open>option_read\<close> is given the callbacks and the
  arguments, and returns the index of the first argument that is no option.
\<close>

datatype cli_option =
    Opt_offset | Opt_count | Opt_query_logging | Opt_criteria | Opt_events_per_transaction | Opt_help

type_synonym option_callbacks = "cli_option \<Rightarrow> string option \<Rightarrow> (admin, err, unit) cop"

record librequiem_tool =
  option_read :: "option_callbacks \<Rightarrow> string list \<Rightarrow> (admin, err, nat) cop"
  idmef_criteria_new_from_string :: "string \<Rightarrow> err + criteria"
  idmef_criteria_match :: "criteria \<Rightarrow> idmef_message \<Rightarrow> int"
  error_eof :: nat

definition set_criteria :: "librequiem_tool \<Rightarrow> string \<Rightarrow> (admin, err, unit) cop" where
  "set_criteria T arg = (\<lambda>g.
     case idmef_criteria_new_from_string T arg of
       Inl e \<Rightarrow> (Inl e, g)
     | Inr c \<Rightarrow> (Inr (), g\<lparr>criteria := Some c\<rparr>))"

definition set_query_logging :: "string option \<Rightarrow> (admin, err, unit) cop" where
  "set_query_logging arg = (\<lambda>g.
     let g' = g\<lparr>have_query_logging := True\<rparr>
     in (Inr (), case arg of
                   None \<Rightarrow> g'
                 | Some f \<Rightarrow> if f = ''-'' then g' else g'\<lparr>query_logging := Some f\<rparr>))"

definition set_count :: "string \<Rightarrow> (admin, err, unit) cop" where
  "set_count arg = (\<lambda>g.
     let n = strtoll arg; g' = g\<lparr>limit := n\<rparr>
     in if n = - (2 ^ 63) \<or> n = 2 ^ 63 - 1 then (Inl (RawErr (- 1)), g')
        else (Inr (), g'\<lparr>limit_copy := n\<rparr>))"

definition set_offset :: "string \<Rightarrow> (admin, err, unit) cop" where
  "set_offset arg = (\<lambda>g.
     let n = strtoll arg; g' = g\<lparr>offset := n\<rparr>
     in if n = - (2 ^ 63) \<or> n = 2 ^ 63 - 1 then (Inl (RawErr (- 1)), g')
        else (Inr (), if n < 0 then g'\<lparr>offset := 0\<rparr> else g'))"

definition set_events_per_transaction :: "string \<Rightarrow> (admin, err, unit) cop" where
  "set_events_per_transaction arg = (\<lambda>g. (Inr (), g\<lparr>events_per_transaction := word_of_int (atoi arg)\<rparr>))"

definition set_help :: "librequiem_tool \<Rightarrow> (admin, err, unit) cop" where
  "set_help T = failw (LibErr (error_eof T) False)"

text \<open>The table of options; an argument that is required is not NULL.\<close>

definition option_callback :: "librequiem_tool \<Rightarrow> option_callbacks" where
  "option_callback T opt arg =
    (let required_by = (\<lambda>f. case arg of None \<Rightarrow> failw NullDeref | Some t \<Rightarrow> f t)
     in case opt of
          Opt_offset \<Rightarrow> required_by set_offset
        | Opt_count \<Rightarrow> required_by set_count
        | Opt_query_logging \<Rightarrow> set_query_logging arg
        | Opt_criteria \<Rightarrow> required_by (set_criteria T)
        | Opt_events_per_transaction \<Rightarrow> required_by set_events_per_transaction
        | Opt_help \<Rightarrow> set_help T)"

text \<open>
  \<open>setup_generic_options\<close>: the index of the first argument, and the number of arguments from
  the program's name on that remain.
\<close>

definition setup_generic_options ::
    "librequiem_tool \<Rightarrow> string list \<Rightarrow> (admin, err, nat \<times> int) cop" where
  "setup_generic_options T argv =
     bindr (option_read T (option_callback T) argv) (\<lambda>idx.
     retn (idx, int (length argv) - (int idx - 1)))"

text \<open>An argument of the command line; the one behind the last is NULL.\<close>

definition arg_at :: "string list \<Rightarrow> nat \<Rightarrow> string option" where
  "arg_at argv i = (if i < length argv then Some (argv ! i) else None)"

section \<open>Alerts or heartbeats\<close>

record 'w message_ops =
  fn_delete_message_from_result_idents :: "sql_res \<Rightarrow> nat \<Rightarrow> 'w requiemdb \<Rightarrow> ((err + nat) \<times> 'w requiemdb) option"
  fn_delete_message_from_list :: "64 word list \<Rightarrow> ('w requiemdb, err, nat) cop"
  fn_get_message :: "64 word \<Rightarrow> ('w requiemdb, err, idmef_message) cop"
  fn_get_message_idents :: "criteria option \<Rightarrow> int \<Rightarrow> int \<Rightarrow> idents_order \<Rightarrow> ('w requiemdb, err, nat \<times> sql_res option) cop"

definition alert_ops :: "'w message_ops" where
  "alert_ops =
    \<lparr>fn_delete_message_from_result_idents = requiemdb_delete_alert_from_result_idents,
     fn_delete_message_from_list = requiemdb_delete_alert_from_list,
     fn_get_message = requiemdb_get_alert,
     fn_get_message_idents = requiemdb_get_alert_idents\<rparr>"

definition heartbeat_ops :: "'w message_ops" where
  "heartbeat_ops =
    \<lparr>fn_delete_message_from_result_idents = requiemdb_delete_heartbeat_from_result_idents,
     fn_delete_message_from_list = requiemdb_delete_heartbeat_from_list,
     fn_get_message = requiemdb_get_heartbeat,
     fn_get_message_idents = requiemdb_get_heartbeat_idents\<rparr>"

definition lower :: "char \<Rightarrow> char" where
  "lower c = (let n = (of_char c :: nat) in if 65 \<le> n \<and> n \<le> 90 then char_of (n + 32) else c)"

definition strcasecmp_eq :: "string \<Rightarrow> string \<Rightarrow> bool" where
  "strcasecmp_eq s t \<longleftrightarrow> map lower (cstr s) = map lower (cstr t)"

definition setup_message_type :: "string \<Rightarrow> err + 'w message_ops" where
  "setup_message_type type =
    (if strcasecmp_eq type ''alert'' then Inr alert_ops
     else if strcasecmp_eq type ''heartbeat'' then Inr heartbeat_ops
     else Inl (RawErr (- 1)))"

section \<open>Opening a database\<close>

text \<open>
  What the program finds installed: the SQL plugins by name, the format plugins, and the files
  that can be opened for a query log.
\<close>

record 'w installation =
  known_sql :: "string \<Rightarrow> bool"
  formats :: "(string \<times> 'w plugin_format) list"
  log_can_open :: "string \<Rightarrow> bool"

definition settings_log_opens :: "'w installation \<Rightarrow> settings \<Rightarrow> bool" where
  "settings_log_opens I m = (case get_log m of None \<Rightarrow> True | Some f \<Rightarrow> log_can_open I f)"

definition db_new_from_string ::
    "'w installation \<Rightarrow> 'w env \<Rightarrow> admin \<Rightarrow> string \<Rightarrow> ('w world, err, 'w requiemdb) cop" where
  "db_new_from_string I E g str = (\<lambda>w.
     case requiemdb_sql_settings_new_from_string str of
       Inl e \<Rightarrow> (Inl e, w)
     | Inr m \<Rightarrow>
         (case requiemdb_sql_new (known_sql I) (settings_log_opens I m) None m w of
            (Inl e, w1) \<Rightarrow> (Inl e, w1)
          | (Inr sql, w1) \<Rightarrow>
              (case requiemdb_new E (formats I) None sql of
                 Inl (e, sql') \<Rightarrow> (Inl e, requiemdb_sql_destroy E sql')
               | Inr db \<Rightarrow>
                   let db' = (if have_query_logging g
                              then db\<lparr>db_sql := snd (requiemdb_sql_enable_query_logging (query_logging g)
                                       (case query_logging g of None \<Rightarrow> True | Some f \<Rightarrow> log_can_open I f)
                                       (db_sql db))\<rparr>
                              else db)
                   in (Inr db', sql_world (db_sql db')))))"

section \<open>Transactions of events\<close>

text \<open>
  \<open>flush_transaction_if_needed\<close>: what the end and the start of the transaction return is
  ignored.
\<close>

definition flush_transaction_if_needed ::
    "'w env \<Rightarrow> 32 word option \<Rightarrow> 32 word \<Rightarrow> admin \<Rightarrow> 'w requiemdb \<Rightarrow> (32 word option \<times> admin) \<times> 'w requiemdb" where
  "flush_transaction_if_needed E event_no increment g db =
    (case event_no of
       None \<Rightarrow> ((None, g\<lparr>cur_count := cur_count g + ucast increment\<rparr>), db)
     | Some n0 \<Rightarrow>
         if events_per_transaction g = 0 then ((Some n0, g), db)
         else
           let n = n0 + increment
           in if n \<ge> events_per_transaction g \<or> (increment = 0 \<and> n \<noteq> 0) then
                let db1 = snd (requiemdb_transaction_end E db);
                    db2 = snd (requiemdb_transaction_start E db1)
                in ((Some 0, g\<lparr>cur_count := cur_count g + ucast n\<rparr>), db2)
              else ((Some n, g), db))"

definition transaction_start :: "'w env \<Rightarrow> admin \<Rightarrow> 'w requiemdb \<Rightarrow> 'w requiemdb" where
  "transaction_start E g db =
    (if events_per_transaction g > 1 then snd (requiemdb_transaction_start E db) else db)"

definition transaction_end ::
    "'w env \<Rightarrow> err + 'r \<Rightarrow> 32 word \<Rightarrow> admin \<Rightarrow> 'w requiemdb \<Rightarrow> admin \<times> 'w requiemdb" where
  "transaction_end E ret event_no g db =
    (if events_per_transaction g > 1 then
       (case ret of
          Inl e \<Rightarrow> (g, snd (requiemdb_transaction_abort E db))
        | Inr _ \<Rightarrow> (g\<lparr>cur_count := cur_count g + ucast event_no\<rparr>, snd (requiemdb_transaction_end E db)))
     else (g, db))"

section \<open>One batch of idents\<close>

text \<open>
  \<open>fetch_message_idents_limited\<close>: the events of one transaction, or what is left of
  \<open>limit_copy\<close>; behind the offset and, unless the events read vanish, behind those counted.
\<close>

definition batch_limit :: "admin \<Rightarrow> int" where
  "batch_limit g =
    (let ev = uint (events_per_transaction g)
     in if limit_copy g < 0 then ev else min ev (limit_copy g))"

definition batch_offset :: "bool \<Rightarrow> admin \<Rightarrow> int" where
  "batch_offset no_increment g =
     to_int (uint (word_of_int (to_int (offset g)) + (if no_increment then 0 else cur_count g)))"

definition fetch_message_idents_limited ::
    "'w message_ops \<Rightarrow> bool \<Rightarrow> admin \<Rightarrow> 'w requiemdb \<Rightarrow> ((err + nat \<times> sql_res option) \<times> admin) \<times> 'w requiemdb" where
  "fetch_message_idents_limited M no_increment g db =
    (case fn_get_message_idents M (criteria g) (to_int (batch_limit g)) (batch_offset no_increment g)
            ORDER_BY_NONE db of
       (Inl e, db') \<Rightarrow> ((Inl e, g), db')
     | (Inr (count, res), db') \<Rightarrow>
         ((Inr (count, res), if limit_copy g > 0 then g\<lparr>limit_copy := limit_copy g - int count\<rparr> else g), db'))"

text \<open>
  The variable \<open>ident\<close> after \<open>requiemdb_result_idents_get_next\<close> has stored into it: a field
  that holds no number leaves it as it was.
\<close>

definition next_ident :: "stored \<Rightarrow> 64 word option \<Rightarrow> 64 word option" where
  "next_ident v ident =
    (case v of Stored i \<Rightarrow> Some (word_of_int i) | Unset \<Rightarrow> ident | Undefined \<Rightarrow> None)"

end
