(* ===== verification/AdminCommands.thy ===== *)
theory AdminCommands
  imports AdminTool
begin

text \<open>
  The commands of the administration program (\<open>src/requiemdb-admin.c\<close>, second part): copy
  and move, delete, save, load, print, count, and \<open>main\<close>.  Files and the encoding of messages
  are librequiem's and arguments of the definitions.
\<close>

section \<open>Copying and moving\<close>

text \<open>
  The source and the destination are two connections in one world: what one does there, the
  other sees.
\<close>

type_synonym 'w two_dbs = "'w requiemdb \<times> 'w requiemdb"

definition in_world_of :: "'w requiemdb \<Rightarrow> 'w requiemdb \<Rightarrow> 'w requiemdb" where
  "in_world_of a b = b\<lparr>db_sql := (db_sql b)\<lparr>sql_world := sql_world (db_sql a)\<rparr>\<rparr>"

definition on_src :: "('w requiemdb \<Rightarrow> 'r \<times> 'w requiemdb) \<Rightarrow> 'w two_dbs \<Rightarrow> 'r \<times> 'w two_dbs" where
  "on_src f dbs = (case f (fst dbs) of (r, src) \<Rightarrow> (r, src, in_world_of src (snd dbs)))"

definition on_dst :: "('w requiemdb \<Rightarrow> 'r \<times> 'w requiemdb) \<Rightarrow> 'w two_dbs \<Rightarrow> 'r \<times> 'w two_dbs" where
  "on_dst f dbs = (case f (snd dbs) of (r, dst) \<Rightarrow> (r, in_world_of dst (fst dbs), dst))"

definition flush_dst :: "'w env \<Rightarrow> 32 word \<Rightarrow> 32 word \<Rightarrow> admin \<Rightarrow> 'w two_dbs \<Rightarrow> 32 word \<times> admin \<times> 'w two_dbs" where
  "flush_dst E event_no increment g dbs =
    (case on_dst (flush_transaction_if_needed E (Some event_no) increment g) dbs of
       ((n, g'), dbs') \<Rightarrow> (the n, g', dbs'))"

text \<open>The message with an ident, read from the source and inserted into the destination.\<close>

definition copy_message :: "'w message_ops \<Rightarrow> 64 word \<Rightarrow> ('w two_dbs, err, unit) cop" where
  "copy_message M ident =
     bindr (on_src (fn_get_message M ident)) (\<lambda>msg.
     bindr (on_dst (requiemdb_insert_message (Some msg))) (\<lambda>_. retn ()))"

definition DELETE_TBL_SIZE :: nat where "DELETE_TBL_SIZE = 1024"

text \<open>
  What the loop of \<open>copy_iterate\<close> does after an insertion: the ident goes into the table of
  those to delete, and a full table or transaction is deleted at the source.  The outcome is
  whether the deletion failed (the code then goes on with the next ident and keeps the table),
  and the part of the table in use; a write behind the table has no outcome.
\<close>

definition note_copied ::
    "'w message_ops \<Rightarrow> bool \<Rightarrow> 64 word \<Rightarrow> 64 word list \<Rightarrow> 32 word \<Rightarrow> admin \<Rightarrow> 'w two_dbs \<Rightarrow>
     (bool \<times> 64 word list \<times> 'w two_dbs) outcome" where
  "note_copied M delete ident tbl event_no g dbs =
    (if \<not> delete then Ended (False, tbl, dbs)
     else if length tbl \<ge> DELETE_TBL_SIZE then Undefined_behaviour
     else
       let tbl' = tbl @ [ident]
       in if (events_per_transaction g \<noteq> 0 \<and> event_no \<ge> events_per_transaction g) \<or>
             length tbl' \<ge> DELETE_TBL_SIZE then
            (case on_src (fn_delete_message_from_list M tbl') dbs of
               (Inl e, dbs') \<Rightarrow> Ended (True, tbl', dbs')
             | (Inr _, dbs') \<Rightarrow> Ended (False, [], dbs'))
          else Ended (False, tbl', dbs))"

text \<open>
  The loop over the idents of a result.  Its end says whether the function returned from within
  it, or the loop ended with the return of \<open>requiemdb_result_idents_get_next\<close>.
\<close>

datatype loop_end = Returned err | Left_with "err + unit"

fun copy_loop ::
    "'w env \<Rightarrow> 'w message_ops \<Rightarrow> bool \<Rightarrow> sql_res \<Rightarrow> nat \<Rightarrow> 64 word option \<Rightarrow> 64 word list \<Rightarrow> 32 word \<Rightarrow>
     admin \<Rightarrow> 'w two_dbs \<Rightarrow> (loop_end \<times> 64 word list \<times> 32 word \<times> admin \<times> 'w two_dbs) outcome" where
  "copy_loop E M delete idents 0 var tbl event_no g dbs = Not_ended"
| "copy_loop E M delete idents (Suc n) var tbl event_no g dbs =
    (case on_src (requiemdb_result_idents_get_next idents) dbs of
       (Inl e, dbs1) \<Rightarrow> Ended (Left_with (Inl e), tbl, event_no, g, dbs1)
     | (Inr None, dbs1) \<Rightarrow> Ended (Left_with (Inr ()), tbl, event_no, g, dbs1)
     | (Inr (Some v), dbs1) \<Rightarrow>
         (case next_ident v var of
            None \<Rightarrow> Undefined_behaviour
          | Some ident \<Rightarrow>
              (case copy_message M ident dbs1 of
                 (Inl e, dbs2) \<Rightarrow> Ended (Returned e, tbl, event_no, g, dbs2)
               | (Inr _, dbs2) \<Rightarrow>
                   then_run (note_copied M delete ident tbl event_no g dbs2) (\<lambda>(skip, tbl', dbs3).
                   if skip then copy_loop E M delete idents n (Some ident) tbl' event_no g dbs3
                   else
                     let (event_no', g', dbs4) = flush_dst E event_no 1 g dbs3
                     in copy_loop E M delete idents n (Some ident) tbl' event_no' g' dbs4))))"

definition copy_iterate ::
    "'w env \<Rightarrow> 'w message_ops \<Rightarrow> bool \<Rightarrow> sql_res \<Rightarrow> nat \<Rightarrow> 32 word \<Rightarrow> admin \<Rightarrow> 'w two_dbs \<Rightarrow>
     ((err + unit) \<times> 32 word \<times> admin \<times> 'w two_dbs) outcome" where
  "copy_iterate E M delete idents n event_no0 g0 dbs0 =
     then_run (copy_loop E M delete idents n None [] event_no0 g0 dbs0) (\<lambda>(how, tbl, event_no, g, dbs).
     case how of
       Returned e \<Rightarrow> Ended (Inl e, event_no, g, dbs)
     | Left_with ret \<Rightarrow>
         let (event_no', g', dbs1) = flush_dst E event_no 0 g dbs
         in if tbl = [] then Ended (ret, event_no', g', dbs1)
            else (case on_src (fn_delete_message_from_list M tbl) dbs1 of
                    (Inl e, dbs2) \<Rightarrow> Ended (Inl (RawErr (- 1)), event_no', g', dbs2)
                  | (Inr _, dbs2) \<Rightarrow> Ended (ret, event_no', g', dbs2)))"

text \<open>The batches of a copy or move; \<open>k\<close> bounds the rounds in a batch, \<open>n\<close> their number.\<close>

fun copy_batches ::
    "'w env \<Rightarrow> 'w message_ops \<Rightarrow> bool \<Rightarrow> nat \<Rightarrow> nat \<Rightarrow> 32 word \<Rightarrow> admin \<Rightarrow> 'w two_dbs \<Rightarrow>
     ((err + unit) \<times> 32 word \<times> admin \<times> 'w two_dbs) outcome" where
  "copy_batches E M delete k 0 event_no g dbs = Not_ended"
| "copy_batches E M delete k (Suc n) event_no g dbs =
    (case on_src (fetch_message_idents_limited M delete g) dbs of
       ((Inl e, g1), dbs1) \<Rightarrow> Ended (Inl e, event_no, g1, dbs1)
     | ((Inr (0, _), g1), dbs1) \<Rightarrow> Ended (Inr (), event_no, g1, dbs1)
     | ((Inr (Suc _, None), g1), dbs1) \<Rightarrow> Undefined_behaviour
     | ((Inr (Suc _, Some idents), g1), dbs1) \<Rightarrow>
         then_run (copy_iterate E M delete idents k event_no g1 dbs1) (\<lambda>(ret, event_no', g2, dbs2).
         let dbs3 = snd (on_src (requiemdb_result_idents_destroy idents) dbs2)
         in case ret of
              Inl e \<Rightarrow> Ended (Inl e, event_no', g2, dbs3)
            | Inr _ \<Rightarrow>
                let (stop, g3) = look_at_stop g2
                in if stop then Ended (Inr (), event_no', g3, dbs3)
                   else copy_batches E M delete k n event_no' g3 dbs3))"

text \<open>From the start of the destination's transaction to its end.\<close>

definition copy_move ::
    "'w env \<Rightarrow> 'w message_ops \<Rightarrow> bool \<Rightarrow> nat \<Rightarrow> nat \<Rightarrow> admin \<Rightarrow> 'w two_dbs \<Rightarrow>
     ((err + unit) \<times> admin \<times> 'w two_dbs) outcome" where
  "copy_move E M delete k n g dbs =
    (let (_, dbs0) = on_dst (\<lambda>db. ((), transaction_start E g db)) dbs
     in then_run (copy_batches E M delete k n 0 g dbs0) (\<lambda>(ret, event_no, g', dbs').
        let (g'', dbs'') = on_dst (transaction_end E ret event_no g') dbs'
        in Ended (ret, g'', dbs'')))"

text \<open>What a command returns, without the number a success has.\<close>

definition returned :: "err + unit \<Rightarrow> command_end" where
  "returned r = Return (case r of Inl e \<Rightarrow> Inl e | Inr _ \<Rightarrow> Inr 0)"

text \<open>
  The options and the message type in front of a command's databases: the index of the first
  database, the number of arguments and the type's operations, or the help text.  The message
  type is there when there are enough arguments.
\<close>

definition command_start ::
    "librequiem_tool \<Rightarrow> (int \<Rightarrow> bool) \<Rightarrow> string list \<Rightarrow> admin \<Rightarrow> (nat \<times> int \<times> 'w message_ops) option \<times> admin" where
  "command_start T enough argv g =
    (case setup_generic_options T argv g of
       (Inl _, g') \<Rightarrow> (None, g')
     | (Inr (idx, argc), g') \<Rightarrow>
         if \<not> enough argc then (None, g')
         else (case arg_at argv idx of
                 None \<Rightarrow> (None, g')
               | Some type \<Rightarrow>
                   (case setup_message_type type of
                      Inl _ \<Rightarrow> (None, g')
                    | Inr M \<Rightarrow> (Some (idx + 1, argc, M), g'))))"

text \<open>A database opened from an argument, which must not be NULL.\<close>

definition open_arg ::
    "'w installation \<Rightarrow> 'w env \<Rightarrow> admin \<Rightarrow> string option \<Rightarrow> 'w world \<Rightarrow> ((err + 'w requiemdb) \<times> 'w world) outcome" where
  "open_arg I E g arg w =
    (case arg of None \<Rightarrow> Undefined_behaviour | Some str \<Rightarrow> Ended (db_new_from_string I E g str w))"

definition do_cmd_copy_move ::
    "librequiem_tool \<Rightarrow> 'w installation \<Rightarrow> 'w env \<Rightarrow> 'w env \<Rightarrow> bool \<Rightarrow> nat \<Rightarrow> nat \<Rightarrow> string list \<Rightarrow> admin \<Rightarrow> 'w world \<Rightarrow>
     (command_end \<times> admin \<times> 'w world) outcome" where
  "do_cmd_copy_move T I E_src E_dst delete_copied k n argv g0 w =
    (case command_start T (\<lambda>argc. argc \<ge> 3) argv g0 of
       (None, g) \<Rightarrow> Ended (Exit_help, g, w)
     | (Some (idx, _, M), g) \<Rightarrow>
         then_run (open_arg I E_src g (arg_at argv idx) w) (\<lambda>(r, w1).
         case r of
           Inl e \<Rightarrow> Ended (Return (Inl e), g, w1)
         | Inr src \<Rightarrow>
             then_run (open_arg I E_dst g (arg_at argv (idx + 1)) w1) (\<lambda>(r, w2).
             case r of
               Inl e \<Rightarrow> Ended (Return (Inl e), g, w2)
             | Inr dst \<Rightarrow>
                 then_run (copy_move E_dst M delete_copied k n g (in_world_of dst src, dst))
                   (\<lambda>(ret, g', (src', dst')).
                 let w3 = requiemdb_destroy E_src src';
                     w4 = requiemdb_destroy E_dst (dst'\<lparr>db_sql := (db_sql dst')\<lparr>sql_world := w3\<rparr>\<rparr>)
                 in Ended (returned ret, g', w4)))))"

definition cmd_copy ::
    "librequiem_tool \<Rightarrow> 'w installation \<Rightarrow> 'w env \<Rightarrow> 'w env \<Rightarrow> nat \<Rightarrow> nat \<Rightarrow> string list \<Rightarrow> admin \<Rightarrow> 'w world \<Rightarrow>
     (command_end \<times> admin \<times> 'w world) outcome" where
  "cmd_copy T I E1 E2 = do_cmd_copy_move T I E1 E2 False"

definition cmd_move ::
    "librequiem_tool \<Rightarrow> 'w installation \<Rightarrow> 'w env \<Rightarrow> 'w env \<Rightarrow> nat \<Rightarrow> nat \<Rightarrow> string list \<Rightarrow> admin \<Rightarrow> 'w world \<Rightarrow>
     (command_end \<times> admin \<times> 'w world) outcome" where
  "cmd_move T I E1 E2 = do_cmd_copy_move T I E1 E2 True"

section \<open>Deleting\<close>

definition do_delete ::
    "'w message_ops \<Rightarrow> sql_res \<Rightarrow> nat \<Rightarrow> 'w requiemdb \<Rightarrow> ((err + unit) \<times> 'w requiemdb) outcome" where
  "do_delete M idents k db =
    (case fn_delete_message_from_result_idents M idents k db of
       None \<Rightarrow> Not_ended
     | Some (Inl e, db') \<Rightarrow> Ended (Inl e, db')
     | Some (Inr _, db') \<Rightarrow> Ended (Inr (), db'))"

text \<open>The events of a batch are flushed as processed even if their deletion failed.\<close>

fun delete_batches ::
    "'w env \<Rightarrow> 'w message_ops \<Rightarrow> nat \<Rightarrow> nat \<Rightarrow> 32 word \<Rightarrow> admin \<Rightarrow> 'w requiemdb \<Rightarrow>
     ((err + unit) \<times> 32 word \<times> admin \<times> 'w requiemdb) outcome" where
  "delete_batches E M k 0 event_no g db = Not_ended"
| "delete_batches E M k (Suc n) event_no g db =
    (case fetch_message_idents_limited M True g db of
       ((Inl e, g1), db1) \<Rightarrow> Ended (Inl e, event_no, g1, db1)
     | ((Inr (0, _), g1), db1) \<Rightarrow> Ended (Inr (), event_no, g1, db1)
     | ((Inr (Suc _, None), g1), db1) \<Rightarrow> Undefined_behaviour
     | ((Inr (Suc c, Some idents), g1), db1) \<Rightarrow>
         then_run (do_delete M idents k db1) (\<lambda>(ret, db2).
         let db3 = snd (requiemdb_result_idents_destroy idents db2);
             ((n', g2), db4) = flush_transaction_if_needed E (Some event_no) (of_nat (Suc c)) g1 db3
         in case ret of
              Inl e \<Rightarrow> Ended (Inl e, the n', g2, db4)
            | Inr _ \<Rightarrow>
                let (stop, g3) = look_at_stop g2
                in if stop then Ended (Inr (), the n', g3, db4)
                   else delete_batches E M k n (the n') g3 db4))"

definition delete_run ::
    "'w env \<Rightarrow> 'w message_ops \<Rightarrow> nat \<Rightarrow> nat \<Rightarrow> admin \<Rightarrow> 'w requiemdb \<Rightarrow>
     ((err + unit) \<times> admin \<times> 'w requiemdb) outcome" where
  "delete_run E M k n g db =
     then_run (delete_batches E M k n 0 g (transaction_start E g db)) (\<lambda>(ret, event_no, g', db').
     let (g'', db'') = transaction_end E ret event_no g' db' in Ended (ret, g'', db''))"

definition cmd_delete ::
    "librequiem_tool \<Rightarrow> 'w installation \<Rightarrow> 'w env \<Rightarrow> nat \<Rightarrow> nat \<Rightarrow> string list \<Rightarrow> admin \<Rightarrow> 'w world \<Rightarrow>
     (command_end \<times> admin \<times> 'w world) outcome" where
  "cmd_delete T I E k n argv g0 w =
    (case command_start T (\<lambda>argc. argc = 3) argv g0 of
       (None, g) \<Rightarrow> Ended (Exit_help, g, w)
     | (Some (idx, _, M), g) \<Rightarrow>
         if criteria g = None then Ended (Return (Inl (RawErr (- 1))), g, w)
         else
           then_run (open_arg I E g (arg_at argv idx) w) (\<lambda>(r, w1).
           case r of
             Inl e \<Rightarrow> Ended (Return (Inl e), g, w1)
           | Inr db \<Rightarrow>
               then_run (delete_run E M k n g db) (\<lambda>(ret, g', db').
               Ended (returned ret, g', requiemdb_destroy E db'))))"

section \<open>Saving and printing\<close>

text \<open>
  What librequiem does with an output \<open>'o\<close>: the encoding of a message hands the parts of type
  \<open>'m\<close> to the callback \<open>save_msg\<close>.
\<close>

record ('m, 'o) out_io =
  standard_output :: 'o
  open_output :: "string \<Rightarrow> 'o option"
  requiem_msg_write :: "'m \<Rightarrow> ('o, err, unit) cop"
  idmef_message_write :: "('m \<Rightarrow> ('o, err, unit) cop) \<Rightarrow> idmef_message \<Rightarrow> ('o, err, unit) cop"
  msgbuf_mark_end :: "('m \<Rightarrow> ('o, err, unit) cop) \<Rightarrow> 'o \<Rightarrow> 'o"
  msgbuf_destroy :: "('m \<Rightarrow> ('o, err, unit) cop) \<Rightarrow> 'o \<Rightarrow> 'o"
  idmef_message_print :: "idmef_message \<Rightarrow> 'o \<Rightarrow> 'o"
  printf_stdout :: "string \<Rightarrow> 'o \<Rightarrow> 'o"

definition save_msg :: "('m, 'o) out_io \<Rightarrow> 'm \<Rightarrow> ('o, err, unit) cop" where
  "save_msg X msg = requiem_msg_write X msg"

text \<open>A message that cannot be read or written is reported and left out, and not counted.\<close>

fun save_iterate_message ::
    "('m, 'o) out_io \<Rightarrow> 'w message_ops \<Rightarrow> sql_res \<Rightarrow> nat \<Rightarrow> 64 word option \<Rightarrow> admin \<Rightarrow> 'w requiemdb \<Rightarrow> 'o \<Rightarrow>
     (admin \<times> 'w requiemdb \<times> 'o) outcome" where
  "save_iterate_message X M idents 0 var g db out = Not_ended"
| "save_iterate_message X M idents (Suc n) var g db out =
    (let (stop, g1) = look_at_stop g
     in if stop then Ended (g1, db, out)
        else (case requiemdb_result_idents_get_next idents db of
          (Inl _, db1) \<Rightarrow> Ended (g1, db1, out)
        | (Inr None, db1) \<Rightarrow> Ended (g1, db1, out)
        | (Inr (Some v), db1) \<Rightarrow>
            (case next_ident v var of
               None \<Rightarrow> Undefined_behaviour
             | Some ident \<Rightarrow>
                 (case fn_get_message M ident db1 of
                    (Inl e, db2) \<Rightarrow> save_iterate_message X M idents n (Some ident) g1 db2 out
                  | (Inr message, db2) \<Rightarrow>
                      (case idmef_message_write X (save_msg X) message out of
                         (r, out1) \<Rightarrow>
                           let out2 = msgbuf_mark_end X (save_msg X) out1;
                               g2 = (case r of
                                       Inl _ \<Rightarrow> g1
                                     | Inr _ \<Rightarrow> g1\<lparr>cur_count := cur_count g1 + 1\<rparr>)
                           in save_iterate_message X M idents n (Some ident) g2 db2 out2)))))"

fun save_batches ::
    "('m, 'o) out_io \<Rightarrow> 'w message_ops \<Rightarrow> nat \<Rightarrow> nat \<Rightarrow> admin \<Rightarrow> 'w requiemdb \<Rightarrow> 'o \<Rightarrow>
     ((err + unit) \<times> admin \<times> 'w requiemdb \<times> 'o) outcome" where
  "save_batches X M k 0 g db out = Not_ended"
| "save_batches X M k (Suc n) g db out =
    (case fetch_message_idents_limited M False g db of
       ((Inl e, g1), db1) \<Rightarrow> Ended (Inl e, g1, db1, out)
     | ((Inr (0, _), g1), db1) \<Rightarrow> Ended (Inr (), g1, db1, out)
     | ((Inr (Suc _, None), g1), db1) \<Rightarrow> Undefined_behaviour
     | ((Inr (Suc _, Some idents), g1), db1) \<Rightarrow>
         then_run (save_iterate_message X M idents k None g1 db1 out) (\<lambda>(g2, db2, out2).
         let db3 = snd (requiemdb_result_idents_destroy idents db2);
             (stop, g3) = look_at_stop g2
         in if stop then Ended (Inr (), g3, db3, out2)
            else save_batches X M k n g3 db3 out2))"

text \<open>The file behind the database, if there is one whose name does not start with a dash.\<close>

definition output_for :: "('m, 'o) out_io \<Rightarrow> string list \<Rightarrow> int \<Rightarrow> nat \<Rightarrow> 'o option" where
  "output_for X argv argc idx =
    (case (if argc > 3 then arg_at argv (idx + 1) else None) of
       None \<Rightarrow> Some (standard_output X)
     | Some f \<Rightarrow> if take 1 f = ''-'' then Some (standard_output X) else open_output X f)"

definition cmd_save ::
    "librequiem_tool \<Rightarrow> 'w installation \<Rightarrow> 'w env \<Rightarrow> ('m, 'o) out_io \<Rightarrow> nat \<Rightarrow> nat \<Rightarrow> string list \<Rightarrow> admin \<Rightarrow> 'w world \<Rightarrow>
     (command_end \<times> admin \<times> 'w world \<times> 'o) outcome" where
  "cmd_save T I E X k n argv g0 w =
    (case command_start T (\<lambda>argc. argc \<ge> 3) argv g0 of
       (None, g) \<Rightarrow> Ended (Exit_help, g, w, standard_output X)
     | (Some (idx, argc, M), g) \<Rightarrow>
         then_run (open_arg I E g (arg_at argv idx) w) (\<lambda>(r, w1).
         case r of
           Inl e \<Rightarrow> Ended (Return (Inl e), g, w1, standard_output X)
         | Inr db \<Rightarrow>
             (case output_for X argv argc idx of
                None \<Rightarrow> Ended (Return (Inl (RawErr (- 1))), g, w1, standard_output X)
              | Some fd \<Rightarrow>
                  then_run (save_batches X M k n g db fd) (\<lambda>(ret, g', db', out).
                  Ended (returned ret, g', requiemdb_destroy E db', msgbuf_destroy X (save_msg X) out)))))"

fun print_iterate_message ::
    "('m, 'o) out_io \<Rightarrow> 'w message_ops \<Rightarrow> sql_res \<Rightarrow> nat \<Rightarrow> 64 word option \<Rightarrow> admin \<Rightarrow> 'w requiemdb \<Rightarrow> 'o \<Rightarrow>
     ((err + unit) \<times> admin \<times> 'w requiemdb \<times> 'o) outcome" where
  "print_iterate_message X M idents 0 var g db out = Not_ended"
| "print_iterate_message X M idents (Suc n) var g db out =
    (let (stop, g1) = look_at_stop g
     in if stop then Ended (Inr (), g1, db, out)
        else (case requiemdb_result_idents_get_next idents db of
          (Inl e, db1) \<Rightarrow> Ended (Inl e, g1, db1, out)
        | (Inr None, db1) \<Rightarrow> Ended (Inr (), g1, db1, out)
        | (Inr (Some v), db1) \<Rightarrow>
            (case next_ident v var of
               None \<Rightarrow> Undefined_behaviour
             | Some ident \<Rightarrow>
                 (case fn_get_message M ident db1 of
                    (Inl e, db2) \<Rightarrow> Ended (Inl e, g1, db2, out)
                  | (Inr idmef, db2) \<Rightarrow>
                      print_iterate_message X M idents n (Some ident) (g1\<lparr>cur_count := cur_count g1 + 1\<rparr>) db2
                        (idmef_message_print X idmef out)))))"

fun print_batches ::
    "('m, 'o) out_io \<Rightarrow> 'w message_ops \<Rightarrow> nat \<Rightarrow> nat \<Rightarrow> admin \<Rightarrow> 'w requiemdb \<Rightarrow> 'o \<Rightarrow>
     ((err + unit) \<times> admin \<times> 'w requiemdb \<times> 'o) outcome" where
  "print_batches X M k 0 g db out = Not_ended"
| "print_batches X M k (Suc n) g db out =
    (case fetch_message_idents_limited M False g db of
       ((Inl e, g1), db1) \<Rightarrow> Ended (Inl e, g1, db1, out)
     | ((Inr (0, _), g1), db1) \<Rightarrow> Ended (Inr (), g1, db1, out)
     | ((Inr (Suc _, None), g1), db1) \<Rightarrow> Undefined_behaviour
     | ((Inr (Suc _, Some idents), g1), db1) \<Rightarrow>
         then_run (print_iterate_message X M idents k None g1 db1 out) (\<lambda>(ret, g2, db2, out2).
         let db3 = snd (requiemdb_result_idents_destroy idents db2)
         in case ret of
              Inl e \<Rightarrow> Ended (Inl e, g2, db3, out2)
            | Inr _ \<Rightarrow>
                let (stop, g3) = look_at_stop g2
                in if stop then Ended (Inr (), g3, db3, out2)
                   else print_batches X M k n g3 db3 out2))"

definition cmd_print ::
    "librequiem_tool \<Rightarrow> 'w installation \<Rightarrow> 'w env \<Rightarrow> ('m, 'o) out_io \<Rightarrow> nat \<Rightarrow> nat \<Rightarrow> string list \<Rightarrow> admin \<Rightarrow> 'w world \<Rightarrow>
     (command_end \<times> admin \<times> 'w world \<times> 'o) outcome" where
  "cmd_print T I E X k n argv g0 w =
    (case command_start T (\<lambda>argc. argc \<ge> 3) argv g0 of
       (None, g) \<Rightarrow> Ended (Exit_help, g, w, standard_output X)
     | (Some (idx, argc, M), g) \<Rightarrow>
         then_run (open_arg I E g (arg_at argv idx) w) (\<lambda>(r, w1).
         case r of
           Inl e \<Rightarrow> Ended (Return (Inl e), g, w1, standard_output X)
         | Inr db \<Rightarrow>
             (case output_for X argv argc idx of
                None \<Rightarrow> Ended (Return (Inl (RawErr (- 1))), g, w1, standard_output X)
              | Some fd \<Rightarrow>
                  then_run (print_batches X M k n g db fd) (\<lambda>(ret, g', db', out).
                  Ended (returned ret, g', requiemdb_destroy E db', out)))))"

end
