(* ===== verification/AdminMain.thy ===== *)
theory AdminMain
  imports AdminCommands
begin

text \<open>
  The rest of the administration program (\<open>src/requiemdb-admin.c\<close>): load, count, and the
  choice of the command in \<open>main\<close>.
\<close>

section \<open>Loading\<close>

text \<open>What librequiem does with an input \<open>'i\<close> of encoded messages \<open>'m\<close>.\<close>

record ('m, 'i) in_io =
  standard_input :: 'i
  open_input :: "string \<Rightarrow> 'i option"
  requiem_msg_read :: "('i, err, 'm) cop"
  idmef_message_read :: "'m \<Rightarrow> err + idmef_message"

definition is_eof :: "librequiem_tool \<Rightarrow> err \<Rightarrow> bool" where
  "is_eof T e = (case e of LibErr c _ \<Rightarrow> c = error_eof T | _ \<Rightarrow> False)"

text \<open>
  \<open>do_read_message\<close>: what it returns, and the message, which is NULL for one skipped by the
  offset.  The limit is compared with the events of the transactions that have ended.
\<close>

definition do_read_message ::
    "librequiem_tool \<Rightarrow> ('m, 'i) in_io \<Rightarrow> admin \<Rightarrow> 'i \<Rightarrow> (err + nat \<times> idmef_message option) \<times> admin \<times> 'i" where
  "do_read_message T X g inp =
    (case requiem_msg_read X inp of
       (Inl e, inp') \<Rightarrow> (if is_eof T e then Inr (0, None) else Inl e, g, inp')
     | (Inr msg, inp') \<Rightarrow>
         if offset_copy g > 0 then (Inr (1, None), g\<lparr>offset_copy := offset_copy g - 1\<rparr>, inp')
         else if limit g \<noteq> - 1 \<and> cur_count g \<ge> word_of_int (limit g) then (Inr (0, None), g, inp')
         else (case idmef_message_read X msg of
                 Inl e \<Rightarrow> (Inl e, g, inp')
               | Inr idmef \<Rightarrow> (Inr (1, Some idmef), g, inp')))"

text \<open>A message the criteria do not match is counted and not inserted.\<close>

definition insert_matching ::
    "librequiem_tool \<Rightarrow> admin \<Rightarrow> idmef_message \<Rightarrow> nat \<Rightarrow> ('w requiemdb, err, nat) cop" where
  "insert_matching T g idmef ret =
    (if (case criteria g of None \<Rightarrow> True | Some c \<Rightarrow> idmef_criteria_match T c idmef \<noteq> 0)
     then requiemdb_insert_message (Some idmef) else retn ret)"

fun load_from_file ::
    "librequiem_tool \<Rightarrow> ('m, 'i) in_io \<Rightarrow> 'w env \<Rightarrow> nat \<Rightarrow> nat \<Rightarrow> 32 word \<Rightarrow> admin \<Rightarrow> 'w requiemdb \<Rightarrow> 'i \<Rightarrow>
     ((err + nat) \<times> 32 word \<times> admin \<times> 'w requiemdb \<times> 'i) outcome" where
  "load_from_file T X E 0 ret event_no g db inp = Not_ended"
| "load_from_file T X E (Suc n) ret event_no g db inp =
    (let (stop, g1) = look_at_stop g
     in if stop then Ended (Inr ret, event_no, g1, db, inp)
        else (case do_read_message T X g1 inp of
          (Inl e, g2, inp') \<Rightarrow> Ended (Inl e, event_no, g2, db, inp')
        | (Inr (r, None), g2, inp') \<Rightarrow>
            if r = 0 then Ended (Inr 0, event_no, g2, db, inp')
            else load_from_file T X E n r event_no g2 db inp'
        | (Inr (r, Some idmef), g2, inp') \<Rightarrow>
            if r = 0 then Ended (Inr 0, event_no, g2, db, inp')
            else (case insert_matching T g2 idmef r db of
              (Inl e, db1) \<Rightarrow> Ended (Inl e, event_no, g2, db1, inp')
            | (Inr r', db1) \<Rightarrow>
                let ((n', g3), db2) = flush_transaction_if_needed E (Some event_no) 1 g2 db1
                in load_from_file T X E n r' (the n') g3 db2 inp')))"

text \<open>
  The files in turn: one that cannot be opened makes the command return at once
  (\<open>Gave_up\<close>), without an end of the transaction.
\<close>

datatype load_end = Gave_up | Loaded "err + nat"

fun load_files ::
    "librequiem_tool \<Rightarrow> ('m, 'i) in_io \<Rightarrow> 'w env \<Rightarrow> nat \<Rightarrow> string list \<Rightarrow> nat \<Rightarrow> 32 word \<Rightarrow> admin \<Rightarrow> 'w requiemdb \<Rightarrow> 'i \<Rightarrow>
     (load_end \<times> 32 word \<times> admin \<times> 'w requiemdb) outcome" where
  "load_files T X E k [] ret event_no g db stdin = Ended (Loaded (Inr ret), event_no, g, db)"
| "load_files T X E k (f # fs) ret event_no g db stdin =
    (let dash = (f = ''-'')
     in case (if dash then Some stdin else open_input X f) of
          None \<Rightarrow> Ended (Gave_up, event_no, g, db)
        | Some fd \<Rightarrow>
            then_run (load_from_file T X E k 0 event_no (g\<lparr>offset_copy := offset g\<rparr>) db fd)
              (\<lambda>(r, event_no', g', db', fd').
              case r of
                Inl e \<Rightarrow> Ended (Loaded (Inl e), event_no', g', db')
              | Inr ret' \<Rightarrow> load_files T X E k fs ret' event_no' g' db' (if dash then fd' else stdin)))"

definition load_run ::
    "librequiem_tool \<Rightarrow> ('m, 'i) in_io \<Rightarrow> 'w env \<Rightarrow> nat \<Rightarrow> string list \<Rightarrow> admin \<Rightarrow> 'w requiemdb \<Rightarrow>
     (load_end \<times> admin \<times> 'w requiemdb) outcome" where
  "load_run T X E k files g db =
     then_run (load_files T X E k files 0 0 g (transaction_start E g db) (standard_input X))
       (\<lambda>(r, event_no, g', db').
     case r of
       Gave_up \<Rightarrow> Ended (Gave_up, g', db')
     | Loaded ret \<Rightarrow>
         let (g'', db'') = transaction_end E ret event_no g' db' in Ended (r, g'', db''))"

definition cmd_load ::
    "librequiem_tool \<Rightarrow> 'w installation \<Rightarrow> 'w env \<Rightarrow> ('m, 'i) in_io \<Rightarrow> nat \<Rightarrow> string list \<Rightarrow> admin \<Rightarrow> 'w world \<Rightarrow>
     (command_end \<times> admin \<times> 'w world) outcome" where
  "cmd_load T I E X k argv g0 w =
    (case setup_generic_options T argv g0 of
       (Inl _, g) \<Rightarrow> Ended (Exit_help, g, w)
     | (Inr (idx, _), g) \<Rightarrow>
         if length argv < 2 then Ended (Exit_help, g, w)
         else
           then_run (open_arg I E g (arg_at argv idx) w) (\<lambda>(r, w1).
           case r of
             Inl e \<Rightarrow> Ended (Return (Inl e), g, w1)
           | Inr db \<Rightarrow>
               let files = (if idx + 1 = length argv then [''-''] else drop (idx + 1) argv)
               in then_run (load_run T X E k files g db) (\<lambda>(r, g', db').
                  case r of
                    Gave_up \<Rightarrow> Ended (Return (Inl (RawErr (- 1))), g', sql_world (db_sql db'))
                  | Loaded ret \<Rightarrow>
                      Ended (Return (case ret of Inl e \<Rightarrow> Inl e | Inr m \<Rightarrow> Inr (int m)), g',
                        requiemdb_destroy E db'))))"

section \<open>Counting\<close>

text \<open>
  The selection, cut to the 127 bytes of its buffer, and the first value of the first row.
  \<open>requiemdb_get_values\<close> frees the result when it fails or finds no row, and the command goes
  on to use it.
\<close>

definition count_path :: "string \<Rightarrow> string" where
  "count_path type = take 127 (''count('' @ type @ ''.create_time)'')"

definition count_values ::
    "admin \<Rightarrow> path_selection \<Rightarrow> 'w requiemdb \<Rightarrow> ((err + nat \<times> int) \<times> 'w requiemdb) outcome" where
  "count_values g ps db =
    (case requiemdb_get_values ps (criteria g) False (to_int (limit g)) (to_int (offset g)) db of
       (Inr (Suc _, Some results), db1) \<Rightarrow>
         (case requiemdb_result_values_get_next results ps db1 of
            (Inl e, db2) \<Rightarrow> Ended (Inl e, snd (requiemdb_result_values_destroy results db2))
          | (Inr (Some (Got_uint32 (Stored c) # vs)), db2) \<Rightarrow>
              Ended (Inr (Suc (length vs), c), snd (requiemdb_result_values_destroy results db2))
          | _ \<Rightarrow> Undefined_behaviour)
     | _ \<Rightarrow> Undefined_behaviour)"

definition cmd_count ::
    "librequiem_tool \<Rightarrow> 'w installation \<Rightarrow> 'w env \<Rightarrow> ('m, 'o) out_io \<Rightarrow> string list \<Rightarrow> admin \<Rightarrow> 'w world \<Rightarrow>
     (command_end \<times> admin \<times> 'w world \<times> 'o) outcome" where
  "cmd_count T I E X argv g0 w =
    (case command_start T (\<lambda>argc. argc \<ge> 3) argv g0 :: (nat \<times> int \<times> 'w message_ops) option \<times> admin of
       (None, g) \<Rightarrow> Ended (Exit_help, g, w, standard_output X)
     | (Some (idx, _, _), g) \<Rightarrow>
         then_run (open_arg I E g (arg_at argv idx) w) (\<lambda>(r, w1).
         case r of
           Inl e \<Rightarrow> Ended (Return (Inl e), g, w1, standard_output X)
         | Inr db \<Rightarrow>
             (case selected_path_new_string (idmef_path_new_fast E) (count_path (argv ! (idx - 1))) of
                None \<Rightarrow> Undefined_behaviour
              | Some (Inl e) \<Rightarrow> Ended (Return (Inl e), g, requiemdb_destroy E db, standard_output X)
              | Some (Inr sp) \<Rightarrow>
                  then_run (count_values g (path_selection_add path_selection_new sp) db) (\<lambda>(r, db').
                  case r of
                    Inl e \<Rightarrow> Ended (Return (Inl e), g, requiemdb_destroy E db', standard_output X)
                  | Inr (n, c) \<Rightarrow>
                      Ended (Return (Inr (int n)), g, requiemdb_destroy E db',
                        printf_stdout X (''COUNT: '' @ dec_int c @ [CHR 0x0A]) (standard_output X))))))"

section \<open>The program\<close>

datatype command = Count | Copy | Delete | Load | Move | Print | Save

definition commands :: "(string \<times> command) list" where
  "commands =
    [(''count'', Count), (''copy'', Copy), (''delete'', Delete), (''load'', Load), (''move'', Move),
     (''print'', Print), (''save'', Save)]"

text \<open>The environments of the first and the second database, and the bounds on the loops.\<close>

definition run_command ::
    "librequiem_tool \<Rightarrow> 'w installation \<Rightarrow> 'w env \<Rightarrow> 'w env \<Rightarrow> ('m, 'i) in_io \<Rightarrow> ('m, 'o) out_io \<Rightarrow> nat \<Rightarrow> nat \<Rightarrow>
     command \<Rightarrow> string list \<Rightarrow> admin \<Rightarrow> 'w world \<Rightarrow> (command_end \<times> admin \<times> 'w world \<times> 'o) outcome" where
  "run_command T I E1 E2 Xi Xo k n c argv g w =
    (let no_output = (\<lambda>m. then_run m (\<lambda>(r, g', w'). Ended (r, g', w', standard_output Xo)))
     in case c of
          Count \<Rightarrow> cmd_count T I E1 Xo argv g w
        | Copy \<Rightarrow> no_output (cmd_copy T I E1 E2 k n argv g w)
        | Delete \<Rightarrow> no_output (cmd_delete T I E1 k n argv g w)
        | Load \<Rightarrow> no_output (cmd_load T I E1 Xi k argv g w)
        | Move \<Rightarrow> no_output (cmd_move T I E1 E2 k n argv g w)
        | Print \<Rightarrow> cmd_print T I E1 Xo k n argv g w
        | Save \<Rightarrow> cmd_save T I E1 Xo k n argv g w)"

text \<open>The position at which the program tells to resume an operation it has not finished.\<close>

definition resume_offset :: "admin \<Rightarrow> 64 word" where
  "resume_offset g = (if offset g = - 1 then cur_count g else cur_count g + word_of_int (offset g))"

definition resume_message :: "command_end \<Rightarrow> admin \<Rightarrow> (64 word \<times> 64 word) option" where
  "resume_message r g =
    (case r of
       Return (Inl _) \<Rightarrow> Some (cur_count g, resume_offset g)
     | Return (Inr _) \<Rightarrow> if stop_processing g then Some (cur_count g, resume_offset g) else None
     | Exit_help \<Rightarrow> None)"

definition main ::
    "librequiem_tool \<Rightarrow> ('w, string) loader \<Rightarrow> (string \<Rightarrow> bool) \<Rightarrow> 'w env \<Rightarrow> 'w env \<Rightarrow> ('m, 'i) in_io \<Rightarrow> ('m, 'o) out_io \<Rightarrow>
     nat \<Rightarrow> nat \<Rightarrow> string list \<Rightarrow> admin \<Rightarrow> 'w world \<Rightarrow> ('w, string) library \<Rightarrow>
     (command_end \<times> (64 word \<times> 64 word) option \<times> 'w world \<times> 'o \<times> ('w, string) library) outcome" where
  "main T L log_opens E1 E2 Xi Xo k n argv g w lib0 =
    (case requiemdb_init L lib0 of
       (Inl e, lib) \<Rightarrow> Ended (Return (Inl e), None, w, standard_output Xo, lib)
     | (Inr _, lib) \<Rightarrow>
         if length argv < 2 then Ended (Return (Inl (RawErr (- 1))), None, w, standard_output Xo, lib)
         else
           (case map_of commands (argv ! 1) of
              None \<Rightarrow> Ended (Return (Inl (RawErr (- 1))), None, w, standard_output Xo, requiemdb_deinit lib)
            | Some c \<Rightarrow>
                let I = \<lparr>known_sql = (\<lambda>name. name \<in> set (lib_sqls lib)), formats = lib_formats lib,
                         log_can_open = log_opens\<rparr>
                in then_run (run_command T I E1 E2 Xi Xo k n c (tl argv) g w) (\<lambda>(r, g', w', out).
                   Ended (r, resume_message r g', w', out,
                     case r of Exit_help \<Rightarrow> lib | Return _ \<Rightarrow> requiemdb_deinit lib))))"

end
