(* ===== verification/AdminLaws.thy ===== *)
theory AdminLaws
  imports AdminMain
begin

text \<open>
  What the administration program relies on: the databases as it sees them through the
  functions of the library, as laws over a view.  A view tells of a state what the source holds
  (idents and messages in the order they are listed, under the criteria in use), what is left of
  a result, which messages the destination has stored for good, and which its open transaction
  has added.  The laws leave open which operations on messages fail; they ask that starting and
  ending transactions works.
\<close>

record 's view =
  v_inv :: "'s \<Rightarrow> bool"
  v_held :: "'s \<Rightarrow> (64 word \<times> idmef_message) list"
  v_rows :: "'s \<Rightarrow> sql_res \<Rightarrow> 64 word list"
  v_kept :: "'s \<Rightarrow> idmef_message list"
  v_pending :: "'s \<Rightarrow> idmef_message list option"

section \<open>The laws\<close>

definition same_target :: "'s view \<Rightarrow> 's \<Rightarrow> 's \<Rightarrow> bool" where
  "same_target V s s' \<longleftrightarrow> v_kept V s' = v_kept V s \<and> v_pending V s' = v_pending V s"

definition same_source :: "'s view \<Rightarrow> 's \<Rightarrow> 's \<Rightarrow> bool" where
  "same_source V s s' \<longleftrightarrow> v_held V s' = v_held V s \<and> v_rows V s' = v_rows V s"

text \<open>A page of the listing: as many as the limit behind the offset.\<close>

definition page :: "int \<Rightarrow> int \<Rightarrow> (64 word \<times> idmef_message) list \<Rightarrow> (64 word \<times> idmef_message) list" where
  "page l off xs = take (nat l) (drop (nat off) xs)"

definition idents_law :: "'s view \<Rightarrow> (int \<Rightarrow> int \<Rightarrow> ('s, err, nat \<times> sql_res option) cop) \<Rightarrow> bool" where
  "idents_law V f \<longleftrightarrow> (\<forall>s l off r s'. v_inv V s \<and> 0 \<le> l \<and> 0 \<le> off \<and> f l off s = (r, s') \<longrightarrow>
     v_inv V s' \<and> v_held V s' = v_held V s \<and> same_target V s s' \<and>
     (case r of
        Inl e \<Rightarrow> True
      | Inr (n, res) \<Rightarrow>
          n = length (page l off (v_held V s)) \<and>
          (0 < n \<longrightarrow> (\<exists>t. res = Some t \<and> v_rows V s' t = map fst (page l off (v_held V s))))))"

definition next_law :: "'s view \<Rightarrow> (sql_res \<Rightarrow> ('s, err, stored option) cop) \<Rightarrow> bool" where
  "next_law V f \<longleftrightarrow> (\<forall>s t r s'. v_inv V s \<and> f t s = (r, s') \<longrightarrow>
     v_inv V s' \<and> v_held V s' = v_held V s \<and> same_target V s s' \<and>
     (case r of
        Inl e \<Rightarrow> True
      | Inr None \<Rightarrow> v_rows V s t = []
      | Inr (Some v) \<Rightarrow> \<exists>i. v = Stored (uint i) \<and> v_rows V s t = i # v_rows V s' t))"

definition get_law :: "'s view \<Rightarrow> (64 word \<Rightarrow> ('s, err, idmef_message) cop) \<Rightarrow> bool" where
  "get_law V f \<longleftrightarrow> (\<forall>s i r s'. v_inv V s \<and> f i s = (r, s') \<longrightarrow>
     v_inv V s' \<and> same_source V s s' \<and> same_target V s s' \<and>
     (\<forall>m m'. map_of (v_held V s) i = Some m \<and> r = Inr m' \<longrightarrow> m' = m))"

definition destroy_law :: "'s view \<Rightarrow> (sql_res \<Rightarrow> ('s, err, unit) cop) \<Rightarrow> bool" where
  "destroy_law V f \<longleftrightarrow> (\<forall>s t. v_inv V s \<longrightarrow>
     v_inv V (snd (f t s)) \<and> v_held V (snd (f t s)) = v_held V s \<and> same_target V s (snd (f t s)))"

text \<open>A failed deletion may have deleted some of its messages.\<close>

definition delete_law :: "'s view \<Rightarrow> (64 word list \<Rightarrow> ('s, err, nat) cop) \<Rightarrow> bool" where
  "delete_law V f \<longleftrightarrow> (\<forall>s is r s'. v_inv V s \<and> f is s = (r, s') \<longrightarrow>
     v_inv V s' \<and> v_rows V s' = v_rows V s \<and> same_target V s s' \<and>
     set (v_held V s') \<subseteq> set (v_held V s) \<and>
     filter (\<lambda>p. fst p \<notin> set is) (v_held V s') = filter (\<lambda>p. fst p \<notin> set is) (v_held V s) \<and>
     (r \<in> range Inr \<longrightarrow> v_held V s' = filter (\<lambda>p. fst p \<notin> set is) (v_held V s)))"

text \<open>
  The destination: an insertion inside a transaction adds to it (a failed one may leave
  anything there), its end keeps all of it, its abortion nothing.
\<close>

definition insert_law :: "'s view \<Rightarrow> (idmef_message \<Rightarrow> ('s, err, nat) cop) \<Rightarrow> bool" where
  "insert_law V f \<longleftrightarrow> (\<forall>s m r s' P. v_inv V s \<and> v_pending V s = Some P \<and> f m s = (r, s') \<longrightarrow>
     v_inv V s' \<and> same_source V s s' \<and> v_kept V s' = v_kept V s \<and>
     (case r of Inl e \<Rightarrow> v_pending V s' \<noteq> None | Inr _ \<Rightarrow> v_pending V s' = Some (P @ [m])))"

definition transaction_laws :: "'s view \<Rightarrow> ('s \<Rightarrow> 's) \<Rightarrow> ('s \<Rightarrow> 's) \<Rightarrow> ('s \<Rightarrow> 's) \<Rightarrow> bool" where
  "transaction_laws V begins ends aborts \<longleftrightarrow>
    (\<forall>s. v_inv V s \<and> v_pending V s = None \<longrightarrow>
       v_inv V (begins s) \<and> same_source V s (begins s) \<and> v_kept V (begins s) = v_kept V s \<and>
       v_pending V (begins s) = Some []) \<and>
    (\<forall>s P. v_inv V s \<and> v_pending V s = Some P \<longrightarrow>
       v_inv V (ends s) \<and> same_source V s (ends s) \<and> v_kept V (ends s) = v_kept V s @ P \<and>
       v_pending V (ends s) = None) \<and>
    (\<forall>s P. v_inv V s \<and> v_pending V s = Some P \<longrightarrow>
       v_inv V (aborts s) \<and> same_source V s (aborts s) \<and> v_kept V (aborts s) = v_kept V s \<and>
       v_pending V (aborts s) = None)"

section \<open>The two databases of a copy\<close>

definition source_laws :: "'w two_dbs view \<Rightarrow> criteria option \<Rightarrow> 'w message_ops \<Rightarrow> bool" where
  "source_laws V c M \<longleftrightarrow>
     idents_law V (\<lambda>l off. on_src (fn_get_message_idents M c l off ORDER_BY_NONE)) \<and>
     next_law V (\<lambda>t. on_src (requiemdb_result_idents_get_next t)) \<and>
     get_law V (\<lambda>i. on_src (fn_get_message M i)) \<and>
     destroy_law V (\<lambda>t. on_src (requiemdb_result_idents_destroy t)) \<and>
     delete_law V (\<lambda>is. on_src (fn_delete_message_from_list M is))"

definition dst_step :: "('w requiemdb \<Rightarrow> 'r \<times> 'w requiemdb) \<Rightarrow> 'w two_dbs \<Rightarrow> 'w two_dbs" where
  "dst_step f dbs = snd (on_dst f dbs)"

text \<open>The two connections stand in the same world.\<close>

definition one_world :: "'w two_dbs \<Rightarrow> bool" where
  "one_world dbs \<longleftrightarrow> sql_world (db_sql (fst dbs)) = sql_world (db_sql (snd dbs))"

definition target_laws :: "'w two_dbs view \<Rightarrow> 'w env \<Rightarrow> bool" where
  "target_laws V E \<longleftrightarrow>
     (\<forall>s. v_inv V s \<longrightarrow> one_world s) \<and>
     insert_law V (\<lambda>m. on_dst (requiemdb_insert_message (Some m))) \<and>
     transaction_laws V (dst_step (requiemdb_transaction_start E)) (dst_step (requiemdb_transaction_end E))
       (dst_step (requiemdb_transaction_abort E))"

lemma in_world_of_twice [simp]: "in_world_of a (in_world_of b c) = in_world_of a c"
  by (simp add: in_world_of_def)

lemma on_dst_unchanged: "one_world dbs \<Longrightarrow> on_dst (Pair r) dbs = (r, dbs)"
  by (cases dbs) (simp add: on_dst_def one_world_def in_world_of_def)

lemma dst_step_twice: "dst_step g (dst_step f dbs) = dst_step (\<lambda>db. g (snd (f db))) dbs"
  by (cases dbs) (simp add: dst_step_def on_dst_def split_def)

lemma dst_step_pure: "dst_step (\<lambda>db. (r db, snd (f db))) = dst_step f"
  by (rule ext) (simp add: dst_step_def on_dst_def split_def)

section \<open>The laws as rules\<close>

lemma transaction_begins:
  "transaction_laws V b e a \<Longrightarrow> v_inv V s \<Longrightarrow> v_pending V s = None \<Longrightarrow>
     v_inv V (b s) \<and> same_source V s (b s) \<and> v_kept V (b s) = v_kept V s \<and> v_pending V (b s) = Some []"
  unfolding transaction_laws_def by blast

lemma transaction_ends:
  "transaction_laws V b e a \<Longrightarrow> v_inv V s \<Longrightarrow> v_pending V s = Some P \<Longrightarrow>
     v_inv V (e s) \<and> same_source V s (e s) \<and> v_kept V (e s) = v_kept V s @ P \<and> v_pending V (e s) = None"
  unfolding transaction_laws_def by blast

lemma transaction_aborts:
  "transaction_laws V b e a \<Longrightarrow> v_inv V s \<Longrightarrow> v_pending V s \<noteq> None \<Longrightarrow>
     v_inv V (a s) \<and> same_source V s (a s) \<and> v_kept V (a s) = v_kept V s \<and> v_pending V (a s) = None"
  unfolding transaction_laws_def by blast

lemma insert_ok:
  "insert_law V f \<Longrightarrow> v_inv V s \<Longrightarrow> v_pending V s = Some P \<Longrightarrow> f m s = (Inr n, s') \<Longrightarrow>
     v_inv V s' \<and> same_source V s s' \<and> v_kept V s' = v_kept V s \<and> v_pending V s' = Some (P @ [m])"
  unfolding insert_law_def by fastforce

lemma insert_failed:
  "insert_law V f \<Longrightarrow> v_inv V s \<Longrightarrow> v_pending V s = Some P \<Longrightarrow> f m s = (Inl e, s') \<Longrightarrow>
     v_inv V s' \<and> same_source V s s' \<and> v_kept V s' = v_kept V s \<and> v_pending V s' \<noteq> None"
  unfolding insert_law_def by fastforce

lemma get_ok:
  "get_law V f \<Longrightarrow> v_inv V s \<Longrightarrow> f i s = (r, s') \<Longrightarrow>
     v_inv V s' \<and> same_source V s s' \<and> same_target V s s' \<and>
     (map_of (v_held V s) i = Some m \<longrightarrow> r = Inr m' \<longrightarrow> m' = m)"
  unfolding get_law_def by blast

lemma next_failed:
  "next_law V f \<Longrightarrow> v_inv V s \<Longrightarrow> f t s = (Inl e, s') \<Longrightarrow>
     v_inv V s' \<and> v_held V s' = v_held V s \<and> same_target V s s'"
  unfolding next_law_def by fastforce

lemma next_none:
  "next_law V f \<Longrightarrow> v_inv V s \<Longrightarrow> f t s = (Inr None, s') \<Longrightarrow>
     v_inv V s' \<and> v_held V s' = v_held V s \<and> same_target V s s' \<and> v_rows V s t = []"
  unfolding next_law_def by fastforce

lemma next_some:
  "next_law V f \<Longrightarrow> v_inv V s \<Longrightarrow> f t s = (Inr (Some v), s') \<Longrightarrow>
     v_inv V s' \<and> v_held V s' = v_held V s \<and> same_target V s s' \<and>
     (\<exists>i. v = Stored (uint i) \<and> v_rows V s t = i # v_rows V s' t)"
  unfolding next_law_def by fastforce

lemma idents_failed:
  "idents_law V f \<Longrightarrow> v_inv V s \<Longrightarrow> 0 \<le> l \<Longrightarrow> 0 \<le> off \<Longrightarrow> f l off s = (Inl e, s') \<Longrightarrow>
     v_inv V s' \<and> v_held V s' = v_held V s \<and> same_target V s s'"
  unfolding idents_law_def by fastforce

lemma idents_found:
  "idents_law V f \<Longrightarrow> v_inv V s \<Longrightarrow> 0 \<le> l \<Longrightarrow> 0 \<le> off \<Longrightarrow> f l off s = (Inr (n, res), s') \<Longrightarrow>
     v_inv V s' \<and> v_held V s' = v_held V s \<and> same_target V s s' \<and>
     n = length (page l off (v_held V s)) \<and>
     (0 < n \<longrightarrow> (\<exists>t. res = Some t \<and> v_rows V s' t = map fst (page l off (v_held V s))))"
  unfolding idents_law_def by fastforce

lemma result_destroyed:
  "destroy_law V f \<Longrightarrow> v_inv V s \<Longrightarrow>
     v_inv V (snd (f t s)) \<and> v_held V (snd (f t s)) = v_held V s \<and> same_target V s (snd (f t s))"
  unfolding destroy_law_def by blast

lemma deleted:
  "delete_law V f \<Longrightarrow> v_inv V s \<Longrightarrow> f is s = (r, s') \<Longrightarrow>
     v_inv V s' \<and> v_rows V s' = v_rows V s \<and> same_target V s s' \<and>
     set (v_held V s') \<subseteq> set (v_held V s) \<and>
     filter (\<lambda>p. fst p \<notin> set is) (v_held V s') = filter (\<lambda>p. fst p \<notin> set is) (v_held V s) \<and>
     (r \<in> range Inr \<longrightarrow> v_held V s' = filter (\<lambda>p. fst p \<notin> set is) (v_held V s))"
  unfolding delete_law_def by blast

lemma source_lawsD:
  assumes "source_laws V c M"
  shows "idents_law V (\<lambda>l off. on_src (fn_get_message_idents M c l off ORDER_BY_NONE))"
    "next_law V (\<lambda>t. on_src (requiemdb_result_idents_get_next t))"
    "get_law V (\<lambda>i. on_src (fn_get_message M i))"
    "destroy_law V (\<lambda>t. on_src (requiemdb_result_idents_destroy t))"
    "delete_law V (\<lambda>is. on_src (fn_delete_message_from_list M is))"
  using assms unfolding source_laws_def by blast+

lemma target_lawsD:
  assumes "target_laws V E"
  shows "v_inv V s \<Longrightarrow> one_world s"
    "insert_law V (\<lambda>m. on_dst (requiemdb_insert_message (Some m)))"
    "transaction_laws V (dst_step (requiemdb_transaction_start E)) (dst_step (requiemdb_transaction_end E))
       (dst_step (requiemdb_transaction_abort E))"
  using assms unfolding target_laws_def by blast+

section \<open>Numbers\<close>

lemma to_int_small: "0 \<le> i \<Longrightarrow> i < 2 ^ 31 \<Longrightarrow> to_int i = i"
  by (simp add: to_int_def sint_sbintrunc' signed_take_bit_int_eq_self)

lemma unat_ucast_32_64 [simp]: "unat (ucast (w :: 32 word) :: 64 word) = unat w"
proof -
  have "unat w < 2 ^ LENGTH(32)" by (rule unsigned_less)
  then show ?thesis by (simp add: unsigned_ucast_eq take_bit_nat_eq_self)
qed

lemma batch_limit_nonneg: "0 \<le> batch_limit g"
  by (simp add: batch_limit_def Let_def)

lemma batch_limit_unlimited:
  assumes "limit_copy g < 0" "unat (events_per_transaction g) < 2 ^ 31"
  shows "to_int (batch_limit g) = int (unat (events_per_transaction g))"
proof -
  have "int (unat (events_per_transaction g)) < int (2 ^ 31)"
    using assms(2) by (simp only: of_nat_less_iff)
  then have "int (unat (events_per_transaction g)) < 2 ^ 31"
    by (simp only: of_nat_power of_nat_numeral)
  then have "to_int (int (unat (events_per_transaction g))) = int (unat (events_per_transaction g))"
    by (intro to_int_small) simp_all
  then show ?thesis using assms(1) by (simp add: batch_limit_def Let_def)
qed

lemma batch_offset_copy:
  assumes "0 \<le> offset g" "offset g + int (unat (cur_count g)) < 2 ^ 31"
  shows "batch_offset False g = offset g + int (unat (cur_count g))"
    and "batch_offset True g = offset g"
proof -
  have o: "to_int (offset g) = offset g"
    using assms by (intro to_int_small) linarith+
  have "uint (word_of_int (offset g) + cur_count g :: 64 word) = (offset g + uint (cur_count g)) mod 2 ^ 64"
    by (simp add: uint_word_ariths uint_word_of_int mod_simps take_bit_eq_mod)
  also have "\<dots> = offset g + int (unat (cur_count g))"
    using assms by (intro trans [OF mod_pos_pos_trivial]) auto
  finally show "batch_offset False g = offset g + int (unat (cur_count g))"
    using assms by (simp add: batch_offset_def o to_int_small)
  have small: "offset g < 2 ^ 31"
    using assms(2) by linarith
  have "uint (word_of_int (offset g) :: 64 word) = offset g"
    using assms(1) small by (subst uint_word_of_int) (rule mod_pos_pos_trivial, auto)
  then show "batch_offset True g = offset g"
    using assms by (simp add: batch_offset_def o to_int_small)
qed

lemma resume_offset_unat:
  assumes "0 \<le> offset g" "offset g + int (unat (cur_count g)) < 2 ^ 31"
  shows "unat (resume_offset g) = nat (offset g) + unat (cur_count g)"
proof -
  have "uint (cur_count g + word_of_int (offset g)) = (uint (cur_count g) + offset g) mod 2 ^ 64"
    by (simp add: uint_word_ariths uint_word_of_int mod_simps take_bit_eq_mod)
  also have "\<dots> = offset g + int (unat (cur_count g))"
    using assms by (intro trans [OF mod_pos_pos_trivial]) auto
  finally have "int (unat (resume_offset g)) = int (nat (offset g) + unat (cur_count g))"
    using assms(1) by (auto simp: resume_offset_def)
  then show ?thesis by (simp only: of_nat_eq_iff)
qed

lemma word_of_int_uint_next [simp]: "next_ident (Stored (uint i)) var = Some i"
  by (simp add: next_ident_def)

end
