(* ===== verification/AdminBatch.thy ===== *)
theory AdminBatch
  imports AdminLaws
begin

text \<open>
  One batch of a copy or move: the loop over the idents of a result stores a first part of the
  batch in the destination, whatever fails, and counts exactly that part.
\<close>

section \<open>The end of a transaction of events\<close>

text \<open>The flush over steps that begin and end a transaction.\<close>

definition flushed :: "('s \<Rightarrow> 's) \<Rightarrow> ('s \<Rightarrow> 's) \<Rightarrow> 32 word \<Rightarrow> 32 word \<Rightarrow> admin \<Rightarrow> 's \<Rightarrow> 32 word \<times> admin \<times> 's" where
  "flushed begins ends ev inc g s =
    (if events_per_transaction g \<noteq> 0 \<and>
        (ev + inc \<ge> events_per_transaction g \<or> (inc = 0 \<and> ev + inc \<noteq> 0))
     then (0, g\<lparr>cur_count := cur_count g + ucast (ev + inc)\<rparr>, begins (ends s))
     else (if events_per_transaction g = 0 then ev else ev + inc, g, s))"

lemma flush_dst_flushed:
  assumes "one_world s"
  shows "flush_dst E ev inc g s =
    flushed (dst_step (requiemdb_transaction_start E)) (dst_step (requiemdb_transaction_end E)) ev inc g s"
  using assms
  by (cases s) (auto simp: flushed_def flush_dst_def flush_transaction_if_needed_def Let_def dst_step_twice
      dst_step_def on_dst_def split_def one_world_def in_world_of_def)

lemma flush_flushed:
  "flush_transaction_if_needed E (Some ev) inc g db =
    (case flushed (\<lambda>db. snd (requiemdb_transaction_start E db)) (\<lambda>db. snd (requiemdb_transaction_end E db)) ev inc g db of
       (n, g', db') \<Rightarrow> ((Some n, g'), db'))"
  by (auto simp: flushed_def flush_transaction_if_needed_def Let_def)

lemma flushed_transaction:
  assumes laws: "transaction_laws V begins ends aborts" and inv: "v_inv V s" and P: "v_pending V s = Some P"
    and ev: "0 < events_per_transaction g" "unat ev + unat inc < 2 ^ 32" "length P = unat ev + unat inc"
    and count: "unat (cur_count g) + length P < 2 ^ 64"
  obtains ev' c' s' P' where "flushed begins ends ev inc g s = (ev', g\<lparr>cur_count := c'\<rparr>, s')"
    "v_inv V s'" "same_source V s s'" "v_pending V s' = Some P'" "v_kept V s' @ P' = v_kept V s @ P"
    "length P' = unat ev'" "unat c' + unat ev' = unat (cur_count g) + length P"
    "inc = 0 \<Longrightarrow> P' = []" "length P < unat (events_per_transaction g) \<Longrightarrow> inc \<noteq> 0 \<Longrightarrow> P' = P \<and> c' = cur_count g"
    "unat ev' < unat (events_per_transaction g)" "length P \<ge> unat (events_per_transaction g) \<Longrightarrow> P' = []"
proof -
  have add: "unat (ev + inc) = length P"
    using ev by (simp add: unat_word_ariths)
  show thesis
  proof (cases "ev + inc \<ge> events_per_transaction g \<or> (inc = 0 \<and> ev + inc \<noteq> 0)")
    case True
    let ?s1 = "ends s"
    let ?s2 = "begins ?s1"
    have e: "v_inv V ?s1 \<and> same_source V s ?s1 \<and> v_kept V ?s1 = v_kept V s @ P \<and> v_pending V ?s1 = None"
      by (rule transaction_ends [OF laws inv P])
    then have b: "v_inv V ?s2 \<and> same_source V ?s1 ?s2 \<and> v_kept V ?s2 = v_kept V ?s1 \<and> v_pending V ?s2 = Some []"
      by (intro transaction_begins [OF laws]) simp_all
    have c: "unat (cur_count g + ucast (ev + inc)) = unat (cur_count g) + length P"
      using count add ev(2,3) by (simp add: unat_word_ariths)
    show thesis
      by (rule that [of 0 "cur_count g + ucast (ev + inc)" ?s2 "[]"])
        (use True ev(1) e b c add in \<open>auto simp: flushed_def same_source_def word_le_nat_alt word_less_nat_alt\<close>)
  next
    case False
    have g: "g\<lparr>cur_count := cur_count g\<rparr> = g" by simp
    show thesis
      by (rule that [of "ev + inc" "cur_count g" s P])
        (use False ev(1) add P inv ev(3) in \<open>auto simp: flushed_def same_source_def word_le_nat_alt word_less_nat_alt\<close>)
  qed
qed

section \<open>One batch\<close>

lemma copy_message_run:
  assumes S: "source_laws V c M" and T: "target_laws V E" and inv: "v_inv V s"
    and m: "map_of (v_held V s) i = Some m" and P: "v_pending V s = Some P"
    and run: "copy_message M i s = (r, s')"
  shows "v_inv V s' \<and> same_source V s s' \<and> v_kept V s' = v_kept V s \<and>
    (case r of Inl e \<Rightarrow> v_pending V s' \<noteq> None | Inr _ \<Rightarrow> v_pending V s' = Some (P @ [m]))"
proof -
  obtain r1 s1 where g: "on_src (fn_get_message M i) s = (r1, s1)" by (rule prod.exhaust)
  note got = get_ok [OF source_lawsD(3) [OF S] inv g]
  show ?thesis
  proof (cases r1)
    case (Inl e)
    with g run have "r = Inl e" "s' = s1" by (simp_all add: copy_message_def)
    with got P show ?thesis by (auto simp: same_target_def)
  next
    case (Inr m')
    with got m have m': "m' = m" by auto
    obtain r2 s2 where ins: "on_dst (requiemdb_insert_message (Some m)) s1 = (r2, s2)" by (rule prod.exhaust)
    from run g Inr m' ins have rs: "s' = s2" "r = (case r2 of Inl e \<Rightarrow> Inl e | Inr _ \<Rightarrow> Inr ())"
      by (auto simp: copy_message_def bindr_def split: sum.splits)
    from got P have s1: "v_inv V s1" "v_pending V s1 = Some P" by (auto simp: same_target_def)
    show ?thesis
    proof (cases r2)
      case (Inl e)
      with insert_failed [OF target_lawsD(2) [OF T] s1, of m e s2] ins got rs show ?thesis
        by (auto simp: same_source_def same_target_def)
    next
      case (Inr k)
      with insert_ok [OF target_lawsD(2) [OF T] s1, of m k s2] ins got rs show ?thesis
        by (auto simp: same_source_def same_target_def)
    qed
  qed
qed

lemma note_copied_room:
  assumes "delete \<Longrightarrow> Suc (length tbl) < DELETE_TBL_SIZE" "event_no < events_per_transaction g"
  shows "note_copied M delete i tbl event_no g s = Ended (False, if delete then tbl @ [i] else tbl, s)"
  using assms by (auto simp: note_copied_def Let_def)

text \<open>What the loop over a batch leaves, by the way it ended.\<close>

definition batch_copied ::
    "'w two_dbs view \<Rightarrow> bool \<Rightarrow> 64 word list \<Rightarrow> idmef_message list \<Rightarrow> (64 word \<times> idmef_message) list \<Rightarrow> admin \<Rightarrow>
     'w two_dbs \<Rightarrow> loop_end \<Rightarrow> 64 word list \<Rightarrow> 32 word \<Rightarrow> 64 word \<Rightarrow> 'w two_dbs \<Rightarrow> bool" where
  "batch_copied V delete tbl P W g s how tbl' ev' c' s' \<longleftrightarrow>
     v_inv V s' \<and> v_held V s' = v_held V s \<and>
     (case how of
        Returned e \<Rightarrow> W \<noteq> [] \<and> c' = cur_count g \<and> v_kept V s' = v_kept V s \<and> v_pending V s' \<noteq> None
      | Left_with r \<Rightarrow> \<exists>W1 W2 P'. W = W1 @ W2 \<and> (r = Inr () \<longrightarrow> W2 = []) \<and>
          tbl' = (if delete then tbl @ map fst W1 else tbl) \<and> v_pending V s' = Some P' \<and>
          v_kept V s' @ P' = v_kept V s @ P @ map snd W1 \<and> length P' = unat ev' \<and>
          unat ev' < unat (events_per_transaction g) \<and>
          unat c' + unat ev' = unat (cur_count g) + length P + length W1)"

lemma copy_loop_run:
  assumes S: "source_laws V c M" and T: "target_laws V E"
  shows "v_inv V s \<Longrightarrow> v_rows V s t = map fst W \<Longrightarrow> list_all (\<lambda>(i, m). map_of (v_held V s) i = Some m) W \<Longrightarrow>
    v_pending V s = Some P \<Longrightarrow> length P = unat ev \<Longrightarrow> length P < unat (events_per_transaction g) \<Longrightarrow>
    length P + length W \<le> unat (events_per_transaction g) \<Longrightarrow>
    (delete \<Longrightarrow> length tbl + length W < DELETE_TBL_SIZE) \<Longrightarrow>
    unat (cur_count g) + length P + length W < 2 ^ 64 \<Longrightarrow> length W < n \<Longrightarrow>
    \<exists>how tbl' ev' c' s'. copy_loop E M delete t n var tbl ev g s = Ended (how, tbl', ev', g\<lparr>cur_count := c'\<rparr>, s') \<and>
      batch_copied V delete tbl P W g s how tbl' ev' c' s'"
proof (induction n arbitrary: W s P ev g tbl var)
  case 0
  then show ?case by simp
next
  case (Suc n)
  let ?nxt = "\<lambda>t. on_src (requiemdb_result_idents_get_next t)"
  obtain r s1 where nxt: "?nxt t s = (r, s1)" by (rule prod.exhaust)
  have same_g: "g\<lparr>cur_count := cur_count g\<rparr> = g" by simp
  consider e where "r = Inl e" | "r = Inr None" | v where "r = Inr (Some v)"
    by (cases r) (auto intro: option.exhaust)
  then show ?case
  proof cases
    case 1
    have "copy_loop E M delete t (Suc n) var tbl ev g s = Ended (Left_with (Inl e), tbl, ev, g\<lparr>cur_count := cur_count g\<rparr>, s1)"
      using nxt 1 by simp
    moreover have "batch_copied V delete tbl P W g s (Left_with (Inl e)) tbl ev (cur_count g) s1"
      using next_failed [OF source_lawsD(2) [OF S] Suc.prems(1), of t e s1] nxt 1 Suc.prems(4-6)
      by (auto simp: batch_copied_def same_target_def)
    ultimately show ?thesis by blast
  next
    case 2
    have "copy_loop E M delete t (Suc n) var tbl ev g s = Ended (Left_with (Inr ()), tbl, ev, g\<lparr>cur_count := cur_count g\<rparr>, s1)"
      using nxt 2 by simp
    moreover have "batch_copied V delete tbl P W g s (Left_with (Inr ())) tbl ev (cur_count g) s1"
      using next_none [OF source_lawsD(2) [OF S] Suc.prems(1), of t s1] nxt 2 Suc.prems(2,4-6)
      by (auto simp: batch_copied_def same_target_def)
    ultimately show ?thesis by blast
  next
    case 3
    with next_some [OF source_lawsD(2) [OF S] Suc.prems(1), of t v s1] nxt obtain i where
      s1: "v_inv V s1" "v_held V s1 = v_held V s" "same_target V s s1" "v = Stored (uint i)"
        "v_rows V s t = i # v_rows V s1 t" by blast
    from s1(5) Suc.prems(2) obtain m W' where W: "W = (i, m) # W'" "v_rows V s1 t = map fst W'"
      by (cases W) auto
    from W Suc.prems(3) s1(2) have m: "map_of (v_held V s1) i = Some m" by simp
    from s1(3) Suc.prems(4) have P1: "v_pending V s1 = Some P" "v_kept V s1 = v_kept V s"
      by (auto simp: same_target_def)
    obtain r2 s2 where cp: "copy_message M i s1 = (r2, s2)" by (rule prod.exhaust)
    note copied = copy_message_run [OF S T s1(1) m P1(1) cp]
    show ?thesis
    proof (cases r2)
      case (Inl e)
      have "copy_loop E M delete t (Suc n) var tbl ev g s = Ended (Returned e, tbl, ev, g\<lparr>cur_count := cur_count g\<rparr>, s2)"
        using nxt 3 s1(4) cp Inl by simp
      moreover have "batch_copied V delete tbl P W g s (Returned e) tbl ev (cur_count g) s2"
        using copied Inl P1 s1(2) W by (auto simp: batch_copied_def same_source_def)
      ultimately show ?thesis by blast
    next
      case (Inr u)
      let ?tbl = "if delete then tbl @ [i] else tbl"
      have ev: "ev < events_per_transaction g" "unat ev + unat (1 :: 32 word) < 2 ^ 32"
        using Suc.prems(5,6) unsigned_less [of "events_per_transaction g", where ?'a = nat]
        by (auto simp: word_less_nat_alt)
      have noted: "note_copied M delete i tbl ev g s2 = Ended (False, ?tbl, s2)"
        using Suc.prems(8) W by (intro note_copied_room ev(1)) simp
      from copied Inr have s2: "v_inv V s2" "v_pending V s2 = Some (P @ [m])" "v_kept V s2 = v_kept V s"
          "v_held V s2 = v_held V s" "v_rows V s2 t = map fst W'"
        using P1 s1(2) W(2) by (auto simp: same_source_def)
      obtain ev' c' s3 P' where fl: "flush_dst E ev 1 g s2 = (ev', g\<lparr>cur_count := c'\<rparr>, s3)"
          "v_inv V s3" "same_source V s2 s3" "v_pending V s3 = Some P'" "v_kept V s3 @ P' = v_kept V s2 @ (P @ [m])"
          "length P' = unat ev'" "unat c' + unat ev' = unat (cur_count g) + length (P @ [m])"
          "length (P @ [m]) < unat (events_per_transaction g) \<Longrightarrow> P' = P @ [m] \<and> c' = cur_count g"
          "unat ev' < unat (events_per_transaction g)"
        by (rule flushed_transaction [OF target_lawsD(3) [OF T] s2(1,2), where ev = ev and inc = 1 and g = g])
          (use flush_dst_flushed [OF target_lawsD(1) [OF T s2(1)]] ev Suc.prems(5,6,9) W in \<open>auto simp: word_less_nat_alt\<close>)
      have room: "length P' + length W' \<le> unat (events_per_transaction g)"
        using fl(6,8,9) Suc.prems(7) W by (cases "length (P @ [m]) < unat (events_per_transaction g)") auto
      have "\<exists>how tbl' ev'' c'' s'. copy_loop E M delete t n (Some i) ?tbl ev' (g\<lparr>cur_count := c'\<rparr>) s3 =
            Ended (how, tbl', ev'', g\<lparr>cur_count := c'\<rparr>\<lparr>cur_count := c''\<rparr>, s') \<and>
          batch_copied V delete ?tbl P' W' (g\<lparr>cur_count := c'\<rparr>) s3 how tbl' ev'' c'' s'"
        by (rule Suc.IH) (use fl s2 room Suc.prems(3,8-10) W in \<open>auto simp: same_source_def\<close>)
      then obtain how tbl' ev'' c'' s' where
        rest: "copy_loop E M delete t n (Some i) ?tbl ev' (g\<lparr>cur_count := c'\<rparr>) s3 =
            Ended (how, tbl', ev'', g\<lparr>cur_count := c''\<rparr>, s')"
          "batch_copied V delete ?tbl P' W' (g\<lparr>cur_count := c'\<rparr>) s3 how tbl' ev'' c'' s'" by auto
      have "copy_loop E M delete t (Suc n) var tbl ev g s = Ended (how, tbl', ev'', g\<lparr>cur_count := c''\<rparr>, s')"
        using nxt 3 s1(4) cp Inr noted fl(1) rest(1) by simp
      moreover have "batch_copied V delete tbl P W g s how tbl' ev'' c'' s'"
      proof (cases how)
        case (Returned e)
        with rest(2) have ret: "W' \<noteq> []" "c'' = c'" "v_kept V s' = v_kept V s3" "v_pending V s' \<noteq> None" "v_inv V s'" "v_held V s' = v_held V s3"
          by (simp_all add: batch_copied_def)
        then have "length (P @ [m]) < unat (events_per_transaction g)"
          using Suc.prems(7) W by (cases W') auto
        with fl(5,8) s2(3) have "c' = cur_count g" "v_kept V s3 = v_kept V s" by auto
        with ret fl(3) s2(4) W Returned show ?thesis by (simp add: batch_copied_def same_source_def)
      next
        case (Left_with r')
        with rest(2) obtain W1 W2 Q where left: "v_inv V s'" "v_held V s' = v_held V s3" "W' = W1 @ W2" "r' = Inr () \<longrightarrow> W2 = []"
          "tbl' = (if delete then ?tbl @ map fst W1 else ?tbl)" "v_pending V s' = Some Q"
          "v_kept V s' @ Q = v_kept V s3 @ P' @ map snd W1" "length Q = unat ev''"
          "unat ev'' < unat (events_per_transaction g)" "unat c'' + unat ev'' = unat c' + length P' + length W1"
          by (auto simp: batch_copied_def)
        have "v_kept V s' @ Q = v_kept V s @ P @ map snd ((i, m) # W1)"
          using arg_cong [OF fl(5), of "\<lambda>x. x @ map snd W1"] left(7) s2(3) by simp
        moreover have "unat c'' + unat ev'' = unat (cur_count g) + length P + length ((i, m) # W1)"
          using left(10) fl(6,7) by simp
        moreover have "W = ((i, m) # W1) @ W2" using left(3) W by simp
        moreover have "v_held V s' = v_held V s" using left(2) fl(3) s2(4) by (simp add: same_source_def)
        moreover have "tbl' = (if delete then tbl @ map fst ((i, m) # W1) else tbl)" using left(5) by simp
        ultimately show ?thesis using left(1,4,6,8,9)
          unfolding batch_copied_def Left_with loop_end.case by blast
      qed
      ultimately show ?thesis by blast
    qed
  qed
qed

text \<open>
  What \<open>copy_iterate\<close> leaves: a first part of the batch is stored for good and counted; all of
  it if it returns no error.  Only idents of that part are gone from the source.
\<close>

definition iterate_copied ::
    "'w two_dbs view \<Rightarrow> bool \<Rightarrow> (64 word \<times> idmef_message) list \<Rightarrow> admin \<Rightarrow> 'w two_dbs \<Rightarrow> err + unit \<Rightarrow> 32 word \<Rightarrow>
     64 word \<Rightarrow> 'w two_dbs \<Rightarrow> bool" where
  "iterate_copied V delete W g s ret ev' c' s' \<longleftrightarrow>
     v_inv V s' \<and> v_pending V s' \<noteq> None \<and>
     (\<exists>W1 W2. W = W1 @ W2 \<and> v_kept V s' = v_kept V s @ map snd W1 \<and>
        unat c' = unat (cur_count g) + length W1 \<and>
        (ret = Inr () \<longrightarrow> W2 = [] \<and> ev' = 0 \<and> v_pending V s' = Some []) \<and>
        set (v_held V s') \<subseteq> set (v_held V s) \<and>
        filter (\<lambda>p. fst p \<notin> set (map fst W1)) (v_held V s') =
          filter (\<lambda>p. fst p \<notin> set (map fst W1)) (v_held V s) \<and>
        (\<not> delete \<longrightarrow> v_held V s' = v_held V s) \<and>
        (delete \<and> ret = Inr () \<longrightarrow> v_held V s' = filter (\<lambda>p. fst p \<notin> set (map fst W1)) (v_held V s)))"

lemma iterate_copiedI:
  assumes "v_inv V s'" "v_pending V s' \<noteq> None" "W = W1 @ W2" "v_kept V s' = v_kept V s @ map snd W1"
    "unat c' = unat (cur_count g) + length W1"
    "ret = Inr () \<longrightarrow> W2 = [] \<and> ev' = 0 \<and> v_pending V s' = Some []"
    "set (v_held V s') \<subseteq> set (v_held V s)"
    "filter (\<lambda>p. fst p \<notin> set (map fst W1)) (v_held V s') =
       filter (\<lambda>p. fst p \<notin> set (map fst W1)) (v_held V s)"
    "\<not> delete \<longrightarrow> v_held V s' = v_held V s"
    "delete \<and> ret = Inr () \<longrightarrow> v_held V s' = filter (\<lambda>p. fst p \<notin> set (map fst W1)) (v_held V s)"
  shows "iterate_copied V delete W g s ret ev' c' s'"
  using assms unfolding iterate_copied_def by blast

lemma copy_iterate_run:
  assumes S: "source_laws V c M" and T: "target_laws V E" and inv: "v_inv V s"
    and rows: "v_rows V s t = map fst W" "list_all (\<lambda>(i, m). map_of (v_held V s) i = Some m) W"
    and P: "v_pending V s = Some []" and ev: "0 < events_per_transaction g"
    and W: "length W \<le> unat (events_per_transaction g)" "delete \<Longrightarrow> length W < DELETE_TBL_SIZE"
    and c: "unat (cur_count g) + length W < 2 ^ 64" and n: "length W < n"
  shows "\<exists>ret ev' c' s'. copy_iterate E M delete t n 0 g s = Ended (ret, ev', g\<lparr>cur_count := c'\<rparr>, s') \<and>
    iterate_copied V delete W g s ret ev' c' s'"
proof -
  have "\<exists>how tbl' ev' c' s'. copy_loop E M delete t n None [] 0 g s = Ended (how, tbl', ev', g\<lparr>cur_count := c'\<rparr>, s') \<and>
      batch_copied V delete [] [] W g s how tbl' ev' c' s'"
    by (rule copy_loop_run [OF S T inv rows P]) (use ev W c n in \<open>simp_all add: word_less_nat_alt\<close>)
  then obtain how tbl ev1 c1 s1 where
    loop: "copy_loop E M delete t n None [] 0 g s = Ended (how, tbl, ev1, g\<lparr>cur_count := c1\<rparr>, s1)"
      "batch_copied V delete [] [] W g s how tbl ev1 c1 s1" by blast
  show ?thesis
  proof (cases how)
    case (Returned e)
    with loop have "copy_iterate E M delete t n 0 g s = Ended (Inl e, ev1, g\<lparr>cur_count := c1\<rparr>, s1)"
      by (simp add: copy_iterate_def)
    moreover have "iterate_copied V delete W g s (Inl e) ev1 c1 s1"
      using loop(2) Returned by (auto simp: batch_copied_def iterate_copied_def intro!: exI [of _ "[]"])
    ultimately show ?thesis by blast
  next
    case (Left_with ret)
    with loop(2) obtain W1 W2 P1 where b: "v_inv V s1" "v_held V s1 = v_held V s" "W = W1 @ W2"
      "ret = Inr () \<longrightarrow> W2 = []" "tbl = (if delete then map fst W1 else [])" "v_pending V s1 = Some P1"
      "v_kept V s1 @ P1 = v_kept V s @ map snd W1" "length P1 = unat ev1"
      "unat ev1 < unat (events_per_transaction g)" "unat c1 + unat ev1 = unat (cur_count g) + length W1"
      by (auto simp: batch_copied_def)
    have less: "unat ev1 + unat (0 :: 32 word) < 2 ^ 32"
      using unsigned_less [of ev1, where ?'a = nat] by simp
    obtain ev2 c2 s2 P2 where fl: "flush_dst E ev1 0 (g\<lparr>cur_count := c1\<rparr>) s1 = (ev2, g\<lparr>cur_count := c2\<rparr>, s2)"
        "v_inv V s2" "same_source V s1 s2" "v_pending V s2 = Some P2" "v_kept V s2 @ P2 = v_kept V s1 @ P1"
        "length P2 = unat ev2" "unat c2 + unat ev2 = unat c1 + length P1" "P2 = []"
      by (rule flushed_transaction [OF target_lawsD(3) [OF T] b(1,6), where ev = ev1 and inc = 0 and g = "g\<lparr>cur_count := c1\<rparr>"])
        (use flush_dst_flushed [OF target_lawsD(1) [OF T b(1)]] ev less b(3,8,10) c in auto)
    then have fl': "ev2 = 0" "v_pending V s2 = Some []" "v_kept V s2 = v_kept V s @ map snd W1"
        "unat c2 = unat (cur_count g) + length W1" "v_held V s2 = v_held V s"
      using b(2,7,8,10) by (auto simp: same_source_def unat_eq_0)
    show ?thesis
    proof (cases "tbl = []")
      case True
      with loop(1) Left_with fl(1) have "copy_iterate E M delete t n 0 g s = Ended (ret, ev2, g\<lparr>cur_count := c2\<rparr>, s2)"
        by (simp add: copy_iterate_def)
      moreover have "iterate_copied V delete W g s ret ev2 c2 s2"
        using True b(3-5) fl(2) fl' by (auto simp: iterate_copied_def split: if_splits)
      ultimately show ?thesis by blast
    next
      case False
      then have del: "delete" "tbl = map fst W1" using b(5) by (auto split: if_splits)
      obtain r3 s3 where d: "on_src (fn_delete_message_from_list M tbl) s2 = (r3, s3)" by (rule prod.exhaust)
      note gone = deleted [OF source_lawsD(5) [OF S] fl(2) d]
      let ?ret = "case r3 of Inl _ \<Rightarrow> Inl (RawErr (- 1)) | Inr _ \<Rightarrow> ret"
      have "copy_iterate E M delete t n 0 g s = Ended (?ret, ev2, g\<lparr>cur_count := c2\<rparr>, s3)"
        using loop(1) Left_with fl(1) False d by (simp add: copy_iterate_def split: sum.split)
      moreover have "iterate_copied V delete W g s ?ret ev2 c2 s3"
        using gone b(3,4) fl' del
        by (intro iterate_copiedI [of _ _ W W1 W2]) (auto simp: same_target_def split: sum.splits)
      ultimately show ?thesis by blast
    qed
  qed
qed

end
