(* ===== verification/AdminCopy.thy ===== *)
theory AdminCopy
  imports AdminBatch
begin

text \<open>
  Copying and moving messages between databases: whatever fails and whenever a signal stops it,
  the destination has stored exactly the first \<open>cur_count\<close> messages behind the offset, in
  order; a move takes no message away from the source that the destination has not stored, as
  long as a transaction has fewer events than the table of idents to delete has places.
\<close>

section \<open>Batch after batch\<close>

lemma look_at_stop_keeps:
  "look_at_stop g = (b, g') \<Longrightarrow> cur_count g' = cur_count g \<and> limit_copy g' = limit_copy g \<and> offset g' = offset g \<and>
     events_per_transaction g' = events_per_transaction g \<and> criteria g' = criteria g \<and> b = stop_processing g'"
  by (auto simp: look_at_stop_def handle_signal_def Let_def split: list.splits if_splits)

text \<open>The number of messages to copy: those behind the offset, of these at most the limit.\<close>

definition to_copy :: "int \<Rightarrow> int \<Rightarrow> 'a list \<Rightarrow> nat" where
  "to_copy lim off H =
    (if lim < 0 then length H - nat off else min (nat lim) (length H - nat off))"

text \<open>What the source holds once the first \<open>c\<close> messages behind the offset are moved.\<close>

definition left_over :: "bool \<Rightarrow> nat \<Rightarrow> nat \<Rightarrow> 'a list \<Rightarrow> 'a list" where
  "left_over delete off c H = (if delete then take off H @ drop (off + c) H else H)"

text \<open>The state between two batches, with \<open>c\<close> messages copied so far.\<close>

definition between_batches ::
    "'w two_dbs view \<Rightarrow> bool \<Rightarrow> (64 word \<times> idmef_message) list \<Rightarrow> idmef_message list \<Rightarrow> int \<Rightarrow> nat \<Rightarrow> admin \<Rightarrow> 'w two_dbs \<Rightarrow> bool" where
  "between_batches V delete H K lim c g s \<longleftrightarrow>
     v_inv V s \<and> v_pending V s = Some [] \<and> c \<le> to_copy lim (offset g) H \<and>
     v_kept V s = K @ map snd (take c (drop (nat (offset g)) H)) \<and>
     v_held V s = left_over delete (nat (offset g)) c H \<and>
     unat (cur_count g) = c \<and> limit_copy g = (if lim < 0 then lim else lim - int c)"

definition copy_result ::
    "'w two_dbs view \<Rightarrow> bool \<Rightarrow> (64 word \<times> idmef_message) list \<Rightarrow> idmef_message list \<Rightarrow> int \<Rightarrow> err + unit \<Rightarrow> 32 word \<Rightarrow>
     admin \<Rightarrow> 'w two_dbs \<Rightarrow> bool" where
  "copy_result V delete H K lim ret ev g s \<longleftrightarrow>
     (let c = unat (cur_count g); copied = take c (drop (nat (offset g)) H)
      in v_inv V s \<and> v_pending V s \<noteq> None \<and> c \<le> to_copy lim (offset g) H \<and>
         v_kept V s = K @ map snd copied \<and> set (v_held V s) \<subseteq> set H \<and> set H - set copied \<subseteq> set (v_held V s) \<and>
         (\<not> delete \<longrightarrow> v_held V s = H) \<and>
         (ret = Inr () \<longrightarrow> ev = 0 \<and> v_pending V s = Some [] \<and> v_held V s = left_over delete (nat (offset g)) c H \<and>
            (\<not> stop_processing g \<longrightarrow> c = to_copy lim (offset g) H)))"

text \<open>Conditions under which the numbers of the program do not wrap around.\<close>

definition copy_setup :: "bool \<Rightarrow> (64 word \<times> idmef_message) list \<Rightarrow> admin \<Rightarrow> bool" where
  "copy_setup delete H g \<longleftrightarrow>
     distinct (map fst H) \<and> 0 \<le> offset g \<and> offset g + int (length H) < 2 ^ 31 \<and>
     1 < unat (events_per_transaction g) \<and> unat (events_per_transaction g) < 2 ^ 31 \<and>
     (delete \<longrightarrow> unat (events_per_transaction g) < DELETE_TBL_SIZE)"

lemma left_over_page:
  assumes "c \<le> to_copy lim off H"
  shows "drop (nat off) (left_over delete (nat off) c H) = drop (nat off + (if delete then c else 0)) H"
  using assms by (cases "nat off \<le> length H") (auto simp: left_over_def to_copy_def split: if_splits)

lemma left_over_deleted:
  assumes "distinct (map fst H)" "nat off + c + length W \<le> length H"
    and W: "W = take (length W) (drop (nat off + c) H)"
  shows "filter (\<lambda>p. fst p \<notin> set (map fst W)) (left_over True (nat off) c H) = left_over True (nat off) (c + length W) H"
proof -
  define A C B where "A = take (nat off) H" and "C = take c (drop (nat off) H)"
    and "B = drop (nat off + c + length W) H"
  let ?keep = "\<lambda>p. fst p \<notin> set (map fst W)"
  have rest: "drop (nat off + c) H = W @ B"
    using append_take_drop_id [of "length W" "drop (nat off + c) H"] W by (simp add: B_def add.commute)
  have "drop (nat off) H = C @ drop (nat off + c) H"
    using append_take_drop_id [of c "drop (nat off) H"] by (simp add: C_def add.commute)
  then have "H = A @ C @ W @ B"
    using append_take_drop_id [of "nat off" H] rest by (simp add: A_def)
  with assms(1) have "distinct (map fst (A @ C @ W @ B))" by simp
  then have "set (map fst A) \<inter> set (map fst W) = {}" "set (map fst W) \<inter> set (map fst B) = {}"
    by (simp_all add: Int_Un_distrib Int_Un_distrib2)
  then have "\<forall>p \<in> set A. ?keep p" "\<forall>p \<in> set B. ?keep p" by force+
  then have "filter ?keep A = A" "filter ?keep B = B" by (simp_all add: filter_id_conv)
  moreover have "filter ?keep W = []" by (simp add: filter_empty_conv)
  moreover have "left_over True (nat off) c H = A @ W @ B"
    by (simp add: left_over_def rest A_def)
  moreover have "left_over True (nat off) (c + length W) H = A @ B"
    by (simp add: left_over_def A_def B_def add.assoc)
  ultimately show ?thesis by simp
qed

text \<open>The page fetched between two batches.\<close>

lemma fetched_page:
  assumes set: "copy_setup delete H g" and b: "between_batches V delete H K lim c g s"
  defines "W \<equiv> page (to_int (batch_limit g)) (batch_offset delete g) (v_held V s)"
  shows "W = take (length W) (drop (nat (offset g) + c) H)"
    "length W = min (nat (batch_limit g)) (length H - nat (offset g) - c)"
    "0 \<le> to_int (batch_limit g)" "0 \<le> batch_offset delete g"
    "length W \<le> unat (events_per_transaction g)" "c + length W \<le> to_copy lim (offset g) H"
    "length W = 0 \<Longrightarrow> c = to_copy lim (offset g) H"
proof -
  have o: "0 \<le> offset g" "offset g + int (length H) < 2 ^ 31" "1 < unat (events_per_transaction g)"
      "unat (events_per_transaction g) < 2 ^ 31"
    using set by (simp_all add: copy_setup_def)
  have c: "c \<le> to_copy lim (offset g) H" "unat (cur_count g) = c" "limit_copy g = (if lim < 0 then lim else lim - int c)"
      "v_held V s = left_over delete (nat (offset g)) c H"
    using b by (simp_all add: between_batches_def)
  have cH: "c \<le> length H - nat (offset g)" using c(1) by (simp add: to_copy_def split: if_splits)
  define e where "e = unat (events_per_transaction g)"
  have bl: "batch_limit g = (if limit_copy g < 0 then int e else min (int e) (limit_copy g))"
    by (simp add: batch_limit_def Let_def e_def)
  have e: "1 < e" "e < 2 ^ 31" using o(3,4) by (simp_all only: e_def)
  have limit: "to_int (batch_limit g) = batch_limit g"
    by (rule to_int_small [OF batch_limit_nonneg]) (use e bl in \<open>auto simp: min_def\<close>)
  then show "0 \<le> to_int (batch_limit g)" using batch_limit_nonneg by simp
  have off: "batch_offset delete g = offset g + (if delete then 0 else int c)"
    using batch_offset_copy [of g] o(1,2) c(2) cH by (cases delete) auto
  then show "0 \<le> batch_offset delete g" using o(1) by simp
  have "W = take (nat (batch_limit g)) (drop (nat (offset g) + c) H)"
    using left_over_page [OF c(1), of delete] o(1) by (auto simp: W_def page_def limit off c(4) nat_add_distrib left_over_def)
  then show len: "length W = min (nat (batch_limit g)) (length H - nat (offset g) - c)"
    and "W = take (length W) (drop (nat (offset g) + c) H)"
    by (simp_all add: min_def)
  show "length W \<le> unat (events_per_transaction g)"
    using len bl by (auto simp: e_def [symmetric] min_def split: if_splits)
  have rest: "length W \<le> length H - nat (offset g) - c" by (simp add: len)
  have lim: "length W \<le> nat (lim - int c)" if "\<not> lim < 0"
  proof -
    have "0 \<le> limit_copy g" "limit_copy g = lim - int c" using that c(1,3) by (auto simp: to_copy_def)
    with bl have "batch_limit g \<le> lim - int c" by simp
    then show ?thesis using len by (simp add: min.coboundedI1 nat_mono)
  qed
  show "c + length W \<le> to_copy lim (offset g) H"
  proof (cases "lim < 0")
    case True
    with rest cH show ?thesis by (simp add: to_copy_def)
  next
    case False
    from c(1) False have "c \<le> nat lim" by (simp add: to_copy_def)
    with lim [OF False] False have "c + length W \<le> nat lim" by linarith
    moreover have "c + length W \<le> length H - nat (offset g)" using rest cH by linarith
    ultimately show ?thesis using False by (simp add: to_copy_def)
  qed
  show "c = to_copy lim (offset g) H" if empty: "length W = 0"
  proof (cases "length H - nat (offset g) - c = 0")
    case True
    with cH c(1) show ?thesis by (simp add: to_copy_def split: if_splits)
  next
    case False
    with empty len have "batch_limit g \<le> 0" by simp
    with bl e(1) have neg: "\<not> limit_copy g < 0" "limit_copy g \<le> 0" by (auto simp: min_def split: if_splits)
    then have "\<not> lim < 0" "lim = int c" using c(3) by (auto split: if_splits)
    with c(1) show ?thesis by (simp add: to_copy_def)
  qed
qed

lemma on_src_fetch:
  "on_src (fetch_message_idents_limited M d g) s =
    (case on_src (fn_get_message_idents M (criteria g) (to_int (batch_limit g)) (batch_offset d g) ORDER_BY_NONE) s of
       (Inl e, s') \<Rightarrow> ((Inl e, g), s')
     | (Inr (n, res), s') \<Rightarrow>
         ((Inr (n, res), if limit_copy g > 0 then g\<lparr>limit_copy := limit_copy g - int n\<rparr> else g), s'))"
  by (simp add: on_src_def fetch_message_idents_limited_def split: prod.split sum.split)

text \<open>A batch that failed, and one that did not.\<close>

lemma page_listed:
  assumes "distinct (map fst H)" "W = take n (drop k xs)" "set xs \<subseteq> set H" "distinct (map fst xs)"
  shows "list_all (\<lambda>(i, m). map_of xs i = Some m) W"
  using assms by (auto simp: list_all_iff dest!: in_set_takeD in_set_dropD)

lemma left_over_set: "set (left_over delete off c H) \<subseteq> set H"
  by (auto simp: left_over_def dest: in_set_takeD in_set_dropD)

lemma left_over_distinct: "distinct (map fst H) \<Longrightarrow> distinct (map fst (left_over delete off c H))"
proof (cases delete)
  case True
  assume "distinct (map fst H)"
  then have "distinct (take off (map fst H) @ drop off (map fst H))" by simp
  then have "distinct (take off (map fst H) @ drop c (drop off (map fst H)))"
    by (auto simp only: distinct_append distinct_drop dest: in_set_dropD)
  with True show ?thesis by (simp add: left_over_def take_map drop_map add.commute)
qed (simp add: left_over_def)

lemma left_over_keeps:
  "set H - set (take c (drop off H)) \<subseteq> set (left_over delete off c H)"
proof
  fix p assume p: "p \<in> set H - set (take c (drop off H))"
  have "set H = set (take off H) \<union> set (take c (drop off H)) \<union> set (drop (off + c) H)"
    by (metis append_take_drop_id drop_drop add.commute set_append sup_assoc)
  with p show "p \<in> set (left_over delete off c H)" by (auto simp: left_over_def)
qed

lemma result_of_batch:
  assumes cs: "copy_setup delete H g" and b: "between_batches V delete H K lim c g s"
    and W: "W = take (length W) (drop (nat (offset g) + c) H)" "c + length W \<le> to_copy lim (offset g) H"
    and s1: "v_kept V s1 = v_kept V s" "v_held V s1 = v_held V s"
    and it: "iterate_copied V delete W g1 s1 ret ev c' s2" and g1: "cur_count g1 = cur_count g"
    and s3: "v_inv V s3" "v_held V s3 = v_held V s2" "same_target V s2 s3"
    and g2: "cur_count g2 = c'" "offset g2 = offset g"
    and stopped: "ret = Inr () \<longrightarrow> stop_processing g2"
  shows "copy_result V delete H K lim ret ev g2 s3"
proof -
  let ?o = "nat (offset g)"
  have b': "unat (cur_count g) = c" "v_kept V s = K @ map snd (take c (drop ?o H))" "v_held V s = left_over delete ?o c H"
    using b by (simp_all add: between_batches_def)
  from it obtain W1 W2 where i: "W = W1 @ W2" "v_pending V s2 \<noteq> None" "v_kept V s2 = v_kept V s1 @ map snd W1"
      "unat c' = c + length W1" "ret = Inr () \<longrightarrow> W2 = [] \<and> ev = 0 \<and> v_pending V s2 = Some []"
      "set (v_held V s2) \<subseteq> set (v_held V s1)"
      "filter (\<lambda>p. fst p \<notin> set (map fst W1)) (v_held V s2) = filter (\<lambda>p. fst p \<notin> set (map fst W1)) (v_held V s1)"
      "\<not> delete \<longrightarrow> v_held V s2 = v_held V s1"
      "delete \<and> ret = Inr () \<longrightarrow> v_held V s2 = filter (\<lambda>p. fst p \<notin> set (map fst W1)) (v_held V s1)"
    using b'(1) g1 unfolding iterate_copied_def by auto
  let ?c = "c + length W1" let ?copied = "take ?c (drop ?o H)"
  have W1: "W1 = take (length W1) (drop (?o + c) H)"
    using arg_cong [OF W(1), of "take (length W1)"] by (simp add: i(1) min_def)
  then have copied: "?copied = take c (drop ?o H) @ W1"
    by (simp add: take_add add.commute)
  have room: "?o + c + length W1 \<le> length H \<or> W1 = []"
  proof -
    have "length W1 \<le> length H - (?o + c)"
      using arg_cong [OF W1, of length] by simp
    then show ?thesis by (cases W1) auto
  qed
  have only: "p \<in> set W1" if "p \<in> set H" "fst p \<in> set (map fst W1)" for p
  proof -
    from that(2) obtain q where q: "q \<in> set W1" "fst q = fst p" by auto
    then have "q \<in> set H" using W1 by (metis in_set_takeD in_set_dropD)
    with q that(1) cs show ?thesis by (metis copy_setup_def eq_key_imp_eq_value prod.collapse)
  qed
  have keeps: "set H - set ?copied \<subseteq> set (v_held V s3)"
  proof
    fix p assume p: "p \<in> set H - set ?copied"
    then have "p \<in> set (v_held V s1)"
      using left_over_keeps [of H c ?o delete] copied s1(2) b'(3) by auto
    moreover have "fst p \<notin> set (map fst W1)" using only [of p] p copied by fastforce
    ultimately have "p \<in> set (filter (\<lambda>p. fst p \<notin> set (map fst W1)) (v_held V s2))"
      using i(7) by simp
    then show "p \<in> set (v_held V s3)" using s3(2) by simp
  qed
  have final: "v_held V s3 = left_over delete ?o ?c H" if "ret = Inr ()"
  proof (cases delete)
    case True
    with i(9) that have "v_held V s3 = filter (\<lambda>p. fst p \<notin> set (map fst W1)) (left_over True ?o c H)"
      using s1(2) s3(2) b'(3) by simp
    also have "\<dots> = left_over True ?o ?c H"
      using room left_over_deleted [of H "offset g" c W1] cs W1 by (auto simp: copy_setup_def)
    finally show ?thesis using True by simp
  next
    case False
    with i(8) s1(2) s3(2) b'(3) show ?thesis by (simp add: left_over_def)
  qed
  have sub: "set (v_held V s3) \<subseteq> set H"
    using i(6) s3(2) s1(2) b'(3) left_over_set [of delete ?o c H] by auto
  show ?thesis
    unfolding copy_result_def Let_def g2 i(4)
    using s3 i(1,2,3,5,8) s1 b'(2,3) copied keeps sub final W(2) stopped
    by (auto simp: same_target_def left_over_def)
qed

lemma next_batch:
  assumes cs: "copy_setup delete H g" and b: "between_batches V delete H K lim c g s"
    and W: "W = take (length W) (drop (nat (offset g) + c) H)" "c + length W \<le> to_copy lim (offset g) H"
    and s1: "v_kept V s1 = v_kept V s" "v_held V s1 = v_held V s"
    and it: "iterate_copied V delete W g1 s1 (Inr ()) ev c' s2" and g1: "cur_count g1 = cur_count g"
    and s3: "v_inv V s3" "v_held V s3 = v_held V s2" "same_target V s2 s3"
    and g2: "cur_count g2 = c'" "offset g2 = offset g"
    and lc: "limit_copy g2 = (if limit_copy g > 0 then limit_copy g - int (length W) else limit_copy g)"
  shows "between_batches V delete H K lim (c + length W) g2 s3"
proof -
  have b': "limit_copy g = (if lim < 0 then lim else lim - int c)" "unat (cur_count g) = c" "c \<le> to_copy lim (offset g) H"
      "v_kept V s = K @ map snd (take c (drop (nat (offset g)) H))"
    using b by (simp_all add: between_batches_def)
  let ?g = "g2\<lparr>stop_processing := True\<rparr>"
  have "copy_result V delete H K lim (Inr ()) ev ?g s3"
    by (rule result_of_batch [OF cs b W s1 it g1 s3]) (simp_all add: g2)
  moreover have "unat c' = c + length W"
    using it g1 b'(2) by (auto simp: iterate_copied_def)
  moreover have "limit_copy g2 = (if lim < 0 then lim else lim - int (c + length W))"
  proof -
    have "length W = 0" if "\<not> lim < 0" "\<not> limit_copy g > 0"
    proof -
      have "c + length W \<le> nat lim" using W(2) that(1) by (simp add: to_copy_def)
      moreover have "lim - int c \<le> 0" using that b'(1) by simp
      ultimately show ?thesis by linarith
    qed
    then show ?thesis using lc b'(1) by auto
  qed
  ultimately show ?thesis
    using g2 W(2) by (simp add: copy_result_def between_batches_def Let_def)
qed

lemma copy_batches_run:
  assumes S: "source_laws V crit M" and T: "target_laws V E"
  shows "copy_setup delete H g \<Longrightarrow> between_batches V delete H K lim c g s \<Longrightarrow> criteria g = crit \<Longrightarrow>
    unat (events_per_transaction g) < k \<Longrightarrow> to_copy lim (offset g) H - c < n \<Longrightarrow>
    \<exists>ret ev g' s'. copy_batches E M delete k n 0 g s = Ended (ret, ev, g', s') \<and>
      copy_result V delete H K lim ret ev g' s' \<and> offset g' = offset g \<and>
      events_per_transaction g' = events_per_transaction g"
proof (induction n arbitrary: g s c)
  case 0
  then show ?case by simp
next
  case (Suc n)
  note cs = Suc.prems(1) and b = Suc.prems(2)
  have b': "v_inv V s" "v_pending V s = Some []" "unat (cur_count g) = c" "c \<le> to_copy lim (offset g) H"
      "v_held V s = left_over delete (nat (offset g)) c H"
      "v_kept V s = K @ map snd (take c (drop (nat (offset g)) H))"
    using b by (simp_all add: between_batches_def)
  let ?ids = "\<lambda>l off. on_src (fn_get_message_idents M crit l off ORDER_BY_NONE)"
  let ?l = "to_int (batch_limit g)" let ?off = "batch_offset delete g"
  define W where "W = page ?l ?off (v_held V s)"
  note page = fetched_page [OF cs b, folded W_def]
  obtain r s1 where ids: "?ids ?l ?off s = (r, s1)" by (rule prod.exhaust)
  have empty: "copy_result V delete H K lim ret 0 g s1"
    if "v_inv V s1" "v_held V s1 = v_held V s" "same_target V s s1" "ret = Inr () \<longrightarrow> length W = 0" for ret
    using that b' page(7) left_over_keeps [of H c "nat (offset g)" delete] left_over_set [of delete "nat (offset g)" c H]
    by (auto simp: copy_result_def Let_def same_target_def left_over_def)
  show ?case
  proof (cases r)
    case (Inl e)
    with ids have "copy_batches E M delete k (Suc n) 0 g s = Ended (Inl e, 0, g, s1)"
      by (simp add: on_src_fetch Suc.prems(3))
    then show ?thesis
      using empty [of "Inl e"] idents_failed [OF source_lawsD(1) [OF S] b'(1) page(3,4)] ids Inl by blast
  next
    case (Inr found)
    obtain count res where found: "found = (count, res)" by (rule prod.exhaust)
    define g1 where "g1 = (if limit_copy g > 0 then g\<lparr>limit_copy := limit_copy g - int count\<rparr> else g)"
    have g1: "cur_count g1 = cur_count g" "offset g1 = offset g" "criteria g1 = criteria g"
        "events_per_transaction g1 = events_per_transaction g" "stop_processing g1 = stop_processing g"
        "limit_copy g1 = (if limit_copy g > 0 then limit_copy g - int count else limit_copy g)"
      by (simp_all add: g1_def)
    have f: "on_src (fetch_message_idents_limited M delete g) s = ((Inr (count, res), g1), s1)"
      using ids Inr found by (simp add: on_src_fetch Suc.prems(3) g1_def)
    note got = idents_found [OF source_lawsD(1) [OF S] b'(1) page(3,4), of count res s1]
    from got ids Inr found have s1: "v_inv V s1" "v_held V s1 = v_held V s" "same_target V s s1" "count = length W"
        "0 < count \<longrightarrow> (\<exists>t. res = Some t \<and> v_rows V s1 t = map fst W)"
      by (auto simp: W_def)
    show ?thesis
    proof (cases count)
      case 0
      with f s1(4) have "copy_batches E M delete k (Suc n) 0 g s = Ended (Inr (), 0, g1, s1)" by simp
      moreover have "copy_result V delete H K lim (Inr ()) 0 g1 s1"
        using empty [of "Inr ()"] s1 0 g1 by (simp add: copy_result_def look_at_stop_def)
      ultimately show ?thesis using g1 by auto
    next
      case (Suc count')
      with s1(5) obtain t where t: "res = Some t" "v_rows V s1 t = map fst W" by auto
      have it: "\<exists>ret ev' c' s'. copy_iterate E M delete t k 0 g1 s1 = Ended (ret, ev', g1\<lparr>cur_count := c'\<rparr>, s') \<and>
          iterate_copied V delete W g1 s1 ret ev' c' s'"
      proof (rule copy_iterate_run [OF S T s1(1) t(2)])
        show "list_all (\<lambda>(i, m). map_of (v_held V s1) i = Some m) W"
          using cs s1(2) b'(5)
          by (intro page_listed [of H W "nat ?l" "nat ?off" "v_held V s1"])
            (simp_all add: copy_setup_def page_def W_def left_over_set left_over_distinct)
        show "v_pending V s1 = Some []" using s1(3) b'(2) by (simp add: same_target_def)
        show "0 < events_per_transaction g1" using cs g1 by (auto simp: copy_setup_def word_less_nat_alt)
        show "length W \<le> unat (events_per_transaction g1)" using page(5) g1 by simp
        show "delete \<Longrightarrow> length W < DELETE_TBL_SIZE" using page(5) cs by (simp add: copy_setup_def)
        show "unat (cur_count g1) + length W < 2 ^ 64"
          using page(6) b'(3) cs g1 by (auto simp: copy_setup_def to_copy_def split: if_splits)
        show "length W < k" using page(5) Suc.prems(4) by simp
      qed
      then obtain ret ev c' s2 where it: "copy_iterate E M delete t k 0 g1 s1 = Ended (ret, ev, g1\<lparr>cur_count := c'\<rparr>, s2)"
          "iterate_copied V delete W g1 s1 ret ev c' s2" by blast
      define s3 where "s3 = snd (on_src (requiemdb_result_idents_destroy t) s2)"
      have s3: "v_inv V s3" "v_held V s3 = v_held V s2" "same_target V s2 s3"
        using it(2) result_destroyed [OF source_lawsD(4) [OF S], of s2 t] by (auto simp: s3_def iterate_copied_def)
      have s1': "v_kept V s1 = v_kept V s" "cur_count g1 = cur_count g" using s1(3) g1(1) by (simp_all add: same_target_def)
      note res = result_of_batch [OF cs b page(1,6) s1'(1) s1(2) it(2) s1'(2) s3]
      have run: "copy_batches E M delete k (Suc n) 0 g s =
          (case ret of Inl e \<Rightarrow> Ended (Inl e, ev, g1\<lparr>cur_count := c'\<rparr>, s3)
           | Inr _ \<Rightarrow> let (stop, g3) = look_at_stop (g1\<lparr>cur_count := c'\<rparr>)
                in if stop then Ended (Inr (), ev, g3, s3) else copy_batches E M delete k n ev g3 s3)"
        using f Suc t(1) it(1)
        by (cases ret; cases "look_at_stop (g1\<lparr>cur_count := c'\<rparr>)") (simp_all add: s3_def)
      show ?thesis
      proof (cases ret)
        case (Inl e)
        then show ?thesis
          using run res [of "g1\<lparr>cur_count := c'\<rparr>"] g1 by auto
      next
        case (Inr u)
        obtain stop g3 where look: "look_at_stop (g1\<lparr>cur_count := c'\<rparr>) = (stop, g3)" by (rule prod.exhaust)
        note g3 = look_at_stop_keeps [OF look, simplified] g1
        show ?thesis
        proof (cases stop)
          case True
          then have "copy_batches E M delete k (Suc n) 0 g s = Ended (Inr (), ev, g3, s3)"
            using run Inr look by simp
          moreover have "copy_result V delete H K lim (Inr ()) ev g3 s3"
            using res [of g3] g3 True Inr by auto
          ultimately show ?thesis using g3 by auto
        next
          case False
          have ev: "ev = 0" using it(2) Inr by (auto simp: iterate_copied_def)
          have bb: "between_batches V delete H K lim (c + length W) g3 s3"
            by (rule next_batch [OF cs b page(1,6) s1'(1) s1(2) _ s1'(2) s3, of ev c'])
              (use it(2) Inr g3 s1(4) in auto)
          have less: "to_copy lim (offset g) H - (c + length W) < n"
            using page(6) Suc.prems(5) Suc s1(4) by linarith
          have cs3: "copy_setup delete H g3" using cs g3 by (simp add: copy_setup_def)
          have "\<exists>ret ev g' s'. copy_batches E M delete k n 0 g3 s3 = Ended (ret, ev, g', s') \<and>
              copy_result V delete H K lim ret ev g' s' \<and> offset g' = offset g3 \<and>
              events_per_transaction g' = events_per_transaction g3"
            by (rule Suc.IH [OF cs3 bb]) (use g3 Suc.prems(3,4) less in simp_all)
          with run Inr look False ev g3 show ?thesis by auto
        qed
      qed
    qed
  qed
qed

section \<open>The whole command\<close>

lemma on_dst_start:
  "1 < unat (events_per_transaction g) \<Longrightarrow>
     on_dst (\<lambda>db. ((), transaction_start E g db)) s = ((), dst_step (requiemdb_transaction_start E) s)"
  by (cases s) (simp add: transaction_start_def dst_step_def on_dst_def word_less_nat_alt split_def)

lemma on_dst_end:
  "1 < unat (events_per_transaction g) \<Longrightarrow>
     on_dst (transaction_end E ret ev g) s =
       (case ret of
          Inl e \<Rightarrow> (g, dst_step (requiemdb_transaction_abort E) s)
        | Inr _ \<Rightarrow> (g\<lparr>cur_count := cur_count g + ucast ev\<rparr>, dst_step (requiemdb_transaction_end E) s))"
  by (cases s) (simp add: transaction_end_def dst_step_def on_dst_def word_less_nat_alt split_def split: sum.split)

lemma copy_move_run:
  assumes S: "source_laws V (criteria g) M" and T: "target_laws V E"
    and cs: "copy_setup delete (v_held V s) g" and s: "v_inv V s" "v_pending V s = None"
    and g: "cur_count g = 0" and fuel: "unat (events_per_transaction g) < k" "length (v_held V s) < n"
  shows "\<exists>ret g' s'. copy_move E M delete k n g s = Ended (ret, g', s') \<and> v_pending V s' = None \<and>
    (\<exists>ev s1. copy_result V delete (v_held V s) (v_kept V s) (limit_copy g) ret ev g' s1 \<and> same_source V s1 s' \<and>
       v_kept V s' = v_kept V s1) \<and> offset g' = offset g"
proof -
  have many: "1 < unat (events_per_transaction g)" using cs by (simp add: copy_setup_def)
  let ?s0 = "dst_step (requiemdb_transaction_start E) s"
  have s0: "v_inv V ?s0 \<and> same_source V s ?s0 \<and> v_kept V ?s0 = v_kept V s \<and> v_pending V ?s0 = Some []"
    by (rule transaction_begins [OF target_lawsD(3) [OF T] s])
  have "left_over delete (nat (offset g)) 0 (v_held V s) = v_held V s"
    by (simp add: left_over_def)
  with s0 g have b: "between_batches V delete (v_held V s) (v_kept V s) (limit_copy g) 0 g ?s0"
    by (simp add: between_batches_def same_source_def)
  have "to_copy (limit_copy g) (offset g) (v_held V s) - 0 < n"
    using fuel(2) by (auto simp: to_copy_def)
  from copy_batches_run [OF S T cs b refl fuel(1) this]
  obtain ret ev g1 s1 where run: "copy_batches E M delete k n 0 g ?s0 = Ended (ret, ev, g1, s1)"
    "copy_result V delete (v_held V s) (v_kept V s) (limit_copy g) ret ev g1 s1" "offset g1 = offset g"
    "events_per_transaction g1 = events_per_transaction g" by blast
  then have many1: "1 < unat (events_per_transaction g1)" using many by simp
  have s1: "v_inv V s1" "v_pending V s1 \<noteq> None" using run(2) by (simp_all add: copy_result_def Let_def)
  show ?thesis
  proof (cases ret)
    case (Inl e)
    have "copy_move E M delete k n g s = Ended (ret, g1, dst_step (requiemdb_transaction_abort E) s1)"
      using run(1) Inl by (simp add: copy_move_def on_dst_start [OF many] on_dst_end [OF many1])
    then show ?thesis
      using transaction_aborts [OF target_lawsD(3) [OF T] s1] run(2,3) by blast
  next
    case (Inr u)
    with run(2) have ev: "ev = 0" "v_pending V s1 = Some []" by (simp_all add: copy_result_def Let_def)
    have "copy_move E M delete k n g s = Ended (ret, g1, dst_step (requiemdb_transaction_end E) s1)"
      using run(1) Inr ev by (simp add: copy_move_def on_dst_start [OF many] on_dst_end [OF many1])
    then show ?thesis
      using transaction_ends [OF target_lawsD(3) [OF T] s1(1) ev(2), unfolded append_Nil2] run(2,3) by blast
  qed
qed



end
