(* ===== verification/AdminStore.thy ===== *)
theory AdminStore
  imports AdminCopy
begin

text \<open>
  A format plugin that keeps whole messages in memory: the laws of \<open>AdminLaws\<close> hold of it, so
  that the theorems about the administration program apply to it.
\<close>

unbundle bit_operations_syntax

section \<open>The store\<close>

record store =
  st_source :: "(64 word \<times> idmef_message) list"
  st_kept :: "idmef_message list"
  st_pending :: "idmef_message list option"
  st_results :: "nat \<Rightarrow> 64 word list"
  st_next :: nat

definition upd_store :: "(store \<Rightarrow> store) \<Rightarrow> store sql \<Rightarrow> store sql" where
  "upd_store f s = s\<lparr>sql_world := upd_session f (sql_world s)\<rparr>"

definition the_store :: "store sql \<Rightarrow> store" where
  "the_store s = session (sql_world s)"

definition store_idents :: "criteria option \<Rightarrow> int \<Rightarrow> int \<Rightarrow> idents_order \<Rightarrow> (store, nat \<times> sql_res option) sqlop" where
  "store_idents c l off ord = (\<lambda>s.
     let st = the_store s; w = map fst (page l off (st_source st))
     in (Inr (length w, Some (st_next st)),
         upd_store (\<lambda>st. st\<lparr>st_results := (st_results st)(st_next st := w), st_next := st_next st + 1\<rparr>) s))"

definition store_next :: "sql_res \<Rightarrow> (store, stored option) sqlop" where
  "store_next t = (\<lambda>s.
     case st_results (the_store s) t of
       [] \<Rightarrow> (Inr None, s)
     | i # is \<Rightarrow> (Inr (Some (Stored (uint i))), upd_store (\<lambda>st. st\<lparr>st_results := (st_results st)(t := is)\<rparr>) s))"

definition store_get :: "(64 word \<Rightarrow> bool) \<Rightarrow> 64 word \<Rightarrow> (store, idmef_message) sqlop" where
  "store_get bad i = (\<lambda>s.
     case map_of (st_source (the_store s)) i of
       Some m \<Rightarrow> if bad i then (Inl (RawErr (- 1)), s) else (Inr m, s)
     | None \<Rightarrow> (Inl (RawErr (- 1)), s))"

definition store_insert :: "idmef_message option \<Rightarrow> (store, nat) sqlop" where
  "store_insert m = (\<lambda>s.
     (Inr 1, upd_store (\<lambda>st. case m of
        None \<Rightarrow> st
      | Some m \<Rightarrow> (case st_pending st of
          None \<Rightarrow> st\<lparr>st_kept := st_kept st @ [m]\<rparr>
        | Some P \<Rightarrow> st\<lparr>st_pending := Some (P @ [m])\<rparr>)) s))"

definition store_delete :: "64 word list \<Rightarrow> (store, nat) sqlop" where
  "store_delete is = (\<lambda>s.
     (Inr (length is), upd_store (\<lambda>st. st\<lparr>st_source := filter (\<lambda>p. fst p \<notin> set is) (st_source st)\<rparr>) s))"

text \<open>The messages with a bad ident cannot be read.\<close>

definition store_format :: "(64 word \<Rightarrow> bool) \<Rightarrow> store plugin_format" where
  "store_format bad = plugin_format_new
    \<lparr>pf_get_alert_idents := Some store_idents, pf_get_next_message_ident := Some store_next,
     pf_get_alert := Some (store_get bad), pf_insert_message := Some store_insert,
     pf_delete_alert_from_list := Some store_delete,
     pf_destroy_message_idents_resource := Some (\<lambda>_. id)\<rparr>"

definition store_query :: "string \<Rightarrow> (store world, err, sql_res option) cop" where
  "store_query q = (\<lambda>w.
     (Inr None, upd_session (\<lambda>st.
        if q = ''BEGIN'' then st\<lparr>st_pending := Some []\<rparr>
        else if q = ''COMMIT'' then
          st\<lparr>st_kept := st_kept st @ (case st_pending st of None \<Rightarrow> [] | Some P \<Rightarrow> P), st_pending := None\<rparr>
        else if q = ''ROLLBACK'' then st\<lparr>st_pending := None\<rparr>
        else st) w))"

definition message_store_env :: "store env" where
  "message_store_env = null_env\<lparr>env_plugin := null_plugin\<lparr>pl_query := store_query\<rparr>\<rparr>"

section \<open>Its view\<close>

definition store_inv :: "(64 word \<Rightarrow> bool) \<Rightarrow> store two_dbs \<Rightarrow> bool" where
  "store_inv bad dbs \<longleftrightarrow>
     one_world dbs \<and> db_plugin (fst dbs) = Some (store_format bad) \<and> db_plugin (snd dbs) = Some (store_format bad) \<and>
     connected (db_sql (snd dbs)) \<and>
     in_transaction (db_sql (snd dbs)) = (st_pending (the_store (db_sql (fst dbs))) \<noteq> None)"

definition store_view :: "(64 word \<Rightarrow> bool) \<Rightarrow> store two_dbs view" where
  "store_view bad =
    \<lparr>v_inv = store_inv bad, v_held = (\<lambda>dbs. st_source (the_store (db_sql (fst dbs)))),
     v_rows = (\<lambda>dbs. st_results (the_store (db_sql (fst dbs)))),
     v_kept = (\<lambda>dbs. st_kept (the_store (db_sql (fst dbs)))),
     v_pending = (\<lambda>dbs. st_pending (the_store (db_sql (fst dbs))))\<rparr>"

named_theorems store_defs "the store and its view"

lemmas [store_defs] = store_view_def store_inv_def one_world_def in_world_of_def on_src_def on_dst_def
  dst_step_def on_db_def through_plugin_def called_def store_format_def the_store_def upd_store_def
  same_target_def same_source_def alert_ops_def

lemma connected_world [store_defs]:
  "connected (s\<lparr>sql_world := w\<rparr>) = connected s" "in_transaction (s\<lparr>sql_world := w\<rparr>) = in_transaction s"
  by (simp_all add: connected_def in_transaction_def)

lemma store_source_laws: "source_laws (store_view bad) c alert_ops"
  unfolding source_laws_def
proof (intro conjI)
  let ?V = "store_view bad"
  show "idents_law ?V (\<lambda>l off. on_src (fn_get_message_idents alert_ops c l off ORDER_BY_NONE))"
    by (auto simp: idents_law_def store_defs requiemdb_get_alert_idents_def store_idents_def Let_def
        split: prod.splits)
  show "next_law ?V (\<lambda>t. on_src (requiemdb_result_idents_get_next t))"
    by (auto simp: next_law_def store_defs requiemdb_result_idents_get_next_def store_next_def
        split: prod.splits list.splits)
  show "get_law ?V (\<lambda>i. on_src (fn_get_message alert_ops i))"
    by (auto simp: get_law_def store_defs requiemdb_get_alert_def store_get_def
        split: prod.splits option.splits if_splits)
  show "destroy_law ?V (\<lambda>t. on_src (requiemdb_result_idents_destroy t))"
    by (auto simp: destroy_law_def store_defs requiemdb_result_idents_destroy_def)
  show "delete_law ?V (\<lambda>is. on_src (fn_delete_message_from_list alert_ops is))"
    by (auto simp: delete_law_def store_defs requiemdb_delete_alert_from_list_def store_delete_def
        plugin_format_delete_alert_from_list_def filter_filter retn_def split: prod.splits if_splits)
qed

text \<open>The three transaction statements, sent on a connection that is up.\<close>

lemma store_exec:
  assumes "connected s" "q = ''BEGIN'' \<or> q = ''COMMIT'' \<or> q = ''ROLLBACK''"
  shows "\<exists>s'. sql_exec message_store_env q s = (Inr 0, s') \<and> status s' = status s \<and>
    sql_world s' = snd (store_query q (sql_world s))"
  using assms
  by (auto simp: sql_exec_def bindr_def requiemdb_sql_query_def assert_connected_def lock_def unlock_def on_world_def
      connected_def log_query_def message_store_env_def store_query_def retn_def)

lemma store_transaction:
  assumes "connected (db_sql db)"
  shows "\<not> in_transaction (db_sql db) \<Longrightarrow> \<exists>db'. snd (requiemdb_transaction_start message_store_env db) = db' \<and>
      sql_world (db_sql db') = snd (store_query ''BEGIN'' (sql_world (db_sql db))) \<and> connected (db_sql db') \<and>
      in_transaction (db_sql db') \<and> db_plugin db' = db_plugin db"
    and "in_transaction (db_sql db) \<Longrightarrow> \<exists>db'. snd (requiemdb_transaction_end message_store_env db) = db' \<and>
      sql_world (db_sql db') = snd (store_query ''COMMIT'' (sql_world (db_sql db))) \<and> connected (db_sql db') \<and>
      \<not> in_transaction (db_sql db') \<and> db_plugin db' = db_plugin db"
    and "in_transaction (db_sql db) \<Longrightarrow> \<exists>db'. snd (requiemdb_transaction_abort message_store_env db) = db' \<and>
      sql_world (db_sql db') = snd (store_query ''ROLLBACK'' (sql_world (db_sql db))) \<and> connected (db_sql db') \<and>
      \<not> in_transaction (db_sql db') \<and> db_plugin db' = db_plugin db"
proof -
  let ?s = "db_sql db" let ?l = "lock (db_sql db)"
  have l: "connected ?l" "in_transaction ?l = in_transaction ?s" "sql_world ?l = sql_world ?s" "status ?l = status ?s"
    using assms by (simp_all add: lock_def connected_def in_transaction_def)
  {
    assume "\<not> in_transaction ?s"
    with store_exec [OF l(1), of "''BEGIN''"] l assms
    show "\<exists>db'. snd (requiemdb_transaction_start message_store_env db) = db' \<and>
      sql_world (db_sql db') = snd (store_query ''BEGIN'' (sql_world (db_sql db))) \<and> connected (db_sql db') \<and>
      in_transaction (db_sql db') \<and> db_plugin db' = db_plugin db"
      by (auto simp: requiemdb_transaction_start_def on_db_def sql_transaction_start_def
          sql_disable_internal_transaction_def connected_bit in_transaction_bit STATUS_TRANSACTION_def bit_or_iff bit_1_iff)
  next
    assume "in_transaction ?s"
    with store_exec [OF assms, of "''COMMIT''"] assms
    show "\<exists>db'. snd (requiemdb_transaction_end message_store_env db) = db' \<and>
      sql_world (db_sql db') = snd (store_query ''COMMIT'' (sql_world (db_sql db))) \<and> connected (db_sql db') \<and>
      \<not> in_transaction (db_sql db') \<and> db_plugin db' = db_plugin db"
      by (auto simp: requiemdb_transaction_end_def on_db_def sql_transaction_end_def unlock_def
          sql_enable_internal_transaction_def connected_bit in_transaction_bit STATUS_TRANSACTION_def bit_and_iff bit_not_iff)
  next
    assume t: "in_transaction ?s"
    let ?c = "?s\<lparr>status := status ?s AND NOT STATUS_TRANSACTION\<rparr>"
    have c: "connected ?c" using assms
      by (simp add: connected_bit STATUS_TRANSACTION_def bit_and_iff bit_not_iff)
    from t store_exec [OF c, of "''ROLLBACK''"] assms
    show "\<exists>db'. snd (requiemdb_transaction_abort message_store_env db) = db' \<and>
      sql_world (db_sql db') = snd (store_query ''ROLLBACK'' (sql_world (db_sql db))) \<and> connected (db_sql db') \<and>
      \<not> in_transaction (db_sql db') \<and> db_plugin db' = db_plugin db"
      by (auto simp: requiemdb_transaction_abort_def on_db_def sql_transaction_abort_def unlock_def c Let_def
          sql_enable_internal_transaction_def connected_bit in_transaction_bit STATUS_TRANSACTION_def bit_and_iff
          bit_not_iff split: option.splits)
  }
qed

lemma store_target_laws: "target_laws (store_view bad) message_store_env"
  unfolding target_laws_def
proof (intro conjI)
  let ?V = "store_view bad"
  show "\<forall>s. v_inv ?V s \<longrightarrow> one_world s" by (simp add: store_view_def store_inv_def)
  show "insert_law ?V (\<lambda>m. on_dst (requiemdb_insert_message (Some m)))"
    by (auto simp: insert_law_def store_defs requiemdb_insert_message_def store_insert_def split: prod.splits)
  show "transaction_laws ?V (dst_step (requiemdb_transaction_start message_store_env))
      (dst_step (requiemdb_transaction_end message_store_env)) (dst_step (requiemdb_transaction_abort message_store_env))"
    unfolding transaction_laws_def
  proof (intro conjI allI impI)
    fix s assume "v_inv ?V s \<and> v_pending ?V s = None"
    then have "connected (db_sql (snd s))" "\<not> in_transaction (db_sql (snd s))" and s: "v_inv ?V s"
      by (simp_all add: store_view_def store_inv_def)
    from store_transaction(1) [OF this(1,2)] s
    show "v_inv ?V (dst_step (requiemdb_transaction_start message_store_env) s)"
      "same_source ?V s (dst_step (requiemdb_transaction_start message_store_env) s)"
      "v_kept ?V (dst_step (requiemdb_transaction_start message_store_env) s) = v_kept ?V s"
      "v_pending ?V (dst_step (requiemdb_transaction_start message_store_env) s) = Some []"
      by (auto simp: store_defs store_query_def split: prod.splits)
  next
    fix s P assume P: "v_inv ?V s \<and> v_pending ?V s = Some P"
    then have "connected (db_sql (snd s))" "in_transaction (db_sql (snd s))" and s: "v_inv ?V s"
      by (auto simp: store_view_def store_inv_def)
    from store_transaction(2) [OF this(1,2)] s P
    show "v_inv ?V (dst_step (requiemdb_transaction_end message_store_env) s)"
      "same_source ?V s (dst_step (requiemdb_transaction_end message_store_env) s)"
      "v_kept ?V (dst_step (requiemdb_transaction_end message_store_env) s) = v_kept ?V s @ P"
      "v_pending ?V (dst_step (requiemdb_transaction_end message_store_env) s) = None"
      by (auto simp: store_defs store_query_def split: prod.splits)
  next
    fix s P assume P: "v_inv ?V s \<and> v_pending ?V s = Some P"
    then have "connected (db_sql (snd s))" "in_transaction (db_sql (snd s))" and s: "v_inv ?V s"
      by (auto simp: store_view_def store_inv_def)
    from store_transaction(3) [OF this(1,2)] s P
    show "v_inv ?V (dst_step (requiemdb_transaction_abort message_store_env) s)"
      "same_source ?V s (dst_step (requiemdb_transaction_abort message_store_env) s)"
      "v_kept ?V (dst_step (requiemdb_transaction_abort message_store_env) s) = v_kept ?V s"
      "v_pending ?V (dst_step (requiemdb_transaction_abort message_store_env) s) = None"
      by (auto simp: store_defs store_query_def split: prod.splits)
  qed
qed

section \<open>Copies and moves of a store\<close>

definition message_store :: "(64 word \<Rightarrow> bool) \<Rightarrow> (64 word \<times> idmef_message) list \<Rightarrow> store requiemdb" where
  "message_store bad H =
    \<lparr>db_format_version = None,
     db_sql = \<lparr>status = STATUS_CONNECTED, sql_settings = settings_new, logfile = None, logged = [],
       internal_transaction_disabled = False, lock_depth = 0,
       sql_world = \<lparr>thread_error = None,
         session = \<lparr>st_source = H, st_kept = [], st_pending = None, st_results = (\<lambda>_. []), st_next = 0\<rparr>\<rparr>\<rparr>,
     db_plugin = Some (store_format bad)\<rparr>"

definition message_stores :: "(64 word \<Rightarrow> bool) \<Rightarrow> (64 word \<times> idmef_message) list \<Rightarrow> store two_dbs" where
  "message_stores bad H = (message_store bad H, message_store bad H)"

definition three_messages :: "(64 word \<times> idmef_message) list" where
  "three_messages = [(1, Message_alert None), (2, Message_heartbeat None), (3, Message_other)]"

lemma message_stores_view:
  "v_held (store_view bad) (message_stores bad H) = H" "v_kept (store_view bad) (message_stores bad H) = []"
  "v_pending (store_view bad) (message_stores bad H) = None" "v_inv (store_view bad) (message_stores bad H)"
  by (simp_all add: message_stores_def message_store_def store_defs connected_def in_transaction_def STATUS_CONNECTED_def
      STATUS_TRANSACTION_def)

lemma three_messages_setup: "copy_setup delete three_messages (admin_globals sigs\<lparr>events_per_transaction := 2\<rparr>)"
  by (simp add: copy_setup_def three_messages_def admin_globals_def DELETE_TBL_SIZE_def)

lemma three_messages_small:
  "offset (admin_globals sigs\<lparr>events_per_transaction := 2\<rparr>) = 0"
  "cur_count (admin_globals sigs\<lparr>events_per_transaction := 2\<rparr>) = 0" "length three_messages = 3"
  by (simp_all add: admin_globals_def three_messages_def)



end
