(* ===== verification/AdminLoss.thy ===== *)
theory AdminLoss
  imports AdminStore
begin

text \<open>
  Where the table of idents to delete is smaller than a transaction: the messages in it are
  deleted at the source before the destination has stored them, and a failure after that loses
  them.
\<close>

section \<open>Databases on which only the reading of bad messages fails\<close>

definition only_bad_fail ::
    "'w two_dbs view \<Rightarrow> criteria option \<Rightarrow> 'w message_ops \<Rightarrow> (64 word \<Rightarrow> bool) \<Rightarrow> bool" where
  "only_bad_fail V c M bad \<longleftrightarrow>
    (\<forall>s l off. v_inv V s \<longrightarrow> (\<exists>x s'. on_src (fn_get_message_idents M c l off ORDER_BY_NONE) s = (Inr x, s'))) \<and>
    (\<forall>s t. v_inv V s \<longrightarrow> (\<exists>x s'. on_src (requiemdb_result_idents_get_next t) s = (Inr x, s'))) \<and>
    (\<forall>s i. v_inv V s \<and> bad i \<longrightarrow> (\<exists>e s'. on_src (fn_get_message M i) s = (Inl e, s'))) \<and>
    (\<forall>s i m. v_inv V s \<and> \<not> bad i \<and> map_of (v_held V s) i = Some m \<longrightarrow>
       (\<exists>s'. on_src (fn_get_message M i) s = (Inr m, s'))) \<and>
    (\<forall>s m. v_inv V s \<longrightarrow> (\<exists>x s'. on_dst (requiemdb_insert_message (Some m)) s = (Inr x, s'))) \<and>
    (\<forall>s is. v_inv V s \<longrightarrow> (\<exists>x s'. on_src (fn_delete_message_from_list M is) s = (Inr x, s')))"

lemma only_badD:
  assumes "only_bad_fail V c M bad" "v_inv V s"
  shows "\<exists>x s'. on_src (fn_get_message_idents M c l off ORDER_BY_NONE) s = (Inr x, s')"
    "\<exists>x s'. on_src (requiemdb_result_idents_get_next t) s = (Inr x, s')"
    "bad i \<Longrightarrow> \<exists>e s'. on_src (fn_get_message M i) s = (Inl e, s')"
    "\<not> bad i \<Longrightarrow> map_of (v_held V s) i = Some m \<Longrightarrow> \<exists>s'. on_src (fn_get_message M i) s = (Inr m, s')"
    "\<exists>x s'. on_dst (requiemdb_insert_message (Some m)) s = (Inr x, s')"
    "\<exists>x s'. on_src (fn_delete_message_from_list M is) s = (Inr x, s')"
  using assms unfolding only_bad_fail_def by blast+

lemma copy_message_bad:
  assumes "source_laws V c M" and "only_bad_fail V c M bad" "v_inv V s" "bad i"
  shows "\<exists>e s'. copy_message M i s = (Inl e, s') \<and> v_inv V s' \<and> same_source V s s' \<and> same_target V s s'"
proof -
  from only_badD(3) [OF assms(2-4)] obtain e s' where g: "on_src (fn_get_message M i) s = (Inl e, s')" by blast
  then have "copy_message M i s = (Inl e, s')" by (simp add: copy_message_def)
  with get_ok [OF source_lawsD(3) [OF assms(1)] assms(3) g] show ?thesis by blast
qed

lemma copy_message_good:
  assumes S: "source_laws V c M" and T: "target_laws V E" and B: "only_bad_fail V c M bad"
    and s: "v_inv V s" "\<not> bad i" "map_of (v_held V s) i = Some m" "v_pending V s = Some P"
  shows "\<exists>s'. copy_message M i s = (Inr (), s') \<and> v_inv V s' \<and> same_source V s s' \<and> v_kept V s' = v_kept V s \<and>
    v_pending V s' = Some (P @ [m])"
proof -
  from only_badD(4) [OF B s(1-3)] obtain s1 where g: "on_src (fn_get_message M i) s = (Inr m, s1)" by blast
  from get_ok [OF source_lawsD(3) [OF S] s(1) g] have "v_inv V s1" by blast
  from only_badD(5) [OF B this] obtain x s2 where "on_dst (requiemdb_insert_message (Some m)) s1 = (Inr x, s2)" by blast
  with g have run: "copy_message M i s = (Inr (), s2)" by (simp add: copy_message_def)
  show ?thesis using copy_message_run [OF S T s(1,3,4) run] run by simp
qed

text \<open>The next ident of a result that has one.\<close>

lemma next_row:
  assumes S: "source_laws V c M" and B: "only_bad_fail V c M bad" and s: "v_inv V s" "v_rows V s t = i # is"
  shows "\<exists>s'. on_src (requiemdb_result_idents_get_next t) s = (Inr (Some (Stored (uint i))), s') \<and> v_inv V s' \<and>
    v_held V s' = v_held V s \<and> same_target V s s' \<and> v_rows V s' t = is"
proof -
  from only_badD(2) [OF B s(1)] obtain x s' where n: "on_src (requiemdb_result_idents_get_next t) s = (Inr x, s')" by blast
  show ?thesis
  proof (cases x)
    case None
    with next_none [OF source_lawsD(2) [OF S] s(1), of t s'] n s(2) show ?thesis by simp
  next
    case (Some v)
    with next_some [OF source_lawsD(2) [OF S] s(1), of t v s'] n s(2) show ?thesis by auto
  qed
qed

section \<open>The loop until the table is full\<close>

text \<open>One round that copies a message, with room in the table or with the table full after it.\<close>

lemma copy_round:
  assumes S: "source_laws V c M" and T: "target_laws V E" and B: "only_bad_fail V c M bad"
    and s: "v_inv V s" "v_rows V s t = i # is" "\<not> bad i" "map_of (v_held V s) i = Some m" "v_pending V s = Some P"
    and ev: "unat ev + 1 < unat (events_per_transaction g)" "length tbl < DELETE_TBL_SIZE"
  shows "\<exists>s'. copy_loop E M True t (Suc n) var tbl ev g s =
      copy_loop E M True t n (Some i) (if Suc (length tbl) < DELETE_TBL_SIZE then tbl @ [i] else []) (ev + 1) g s' \<and>
    v_inv V s' \<and> v_rows V s' t = is \<and> v_kept V s' = v_kept V s \<and> v_pending V s' = Some (P @ [m]) \<and>
    unat (ev + 1) = unat ev + 1 \<and>
    v_held V s' = (if Suc (length tbl) < DELETE_TBL_SIZE then v_held V s
      else filter (\<lambda>p. fst p \<notin> set (tbl @ [i])) (v_held V s))"
proof -
  from next_row [OF S B s(1,2)] obtain s1 where
    n: "on_src (requiemdb_result_idents_get_next t) s = (Inr (Some (Stored (uint i))), s1)"
    and s1: "v_inv V s1" "v_held V s1 = v_held V s" "same_target V s s1" "v_rows V s1 t = is" by blast
  have "map_of (v_held V s1) i = Some m" "v_pending V s1 = Some P"
    using s s1(2,3) by (simp_all add: same_target_def)
  from copy_message_good [OF S T B s1(1) s(3) this] obtain s2 where
    cp: "copy_message M i s1 = (Inr (), s2)" and s2: "v_inv V s2" "same_source V s1 s2" "v_kept V s2 = v_kept V s1"
      "v_pending V s2 = Some (P @ [m])" by blast
  have add: "unat (ev + 1) = unat ev + 1"
    using ev(1) unsigned_less [of "events_per_transaction g", where ?'a = nat]
    by (simp add: unat_word_ariths)
  have less: "\<not> ev \<ge> events_per_transaction g" "events_per_transaction g \<noteq> 0" "\<not> ev + 1 \<ge> events_per_transaction g"
    using ev(1) add by (auto simp: word_le_nat_alt)
  have flush: "one_world s' \<Longrightarrow> flush_dst E ev 1 g s' = (ev + 1, g, s')" for s'
    using less by (simp add: flush_dst_flushed flushed_def)
  have s2': "v_held V s2 = v_held V s" "v_kept V s2 = v_kept V s" "v_rows V s2 t = is"
    using s2 s1 by (simp_all add: same_source_def same_target_def)
  show ?thesis
  proof (cases "Suc (length tbl) < DELETE_TBL_SIZE")
    case True
    then have "note_copied M True i tbl ev g s2 = Ended (False, tbl @ [i], s2)"
      using less(1) by (simp add: note_copied_def Let_def)
    with n cp flush [OF target_lawsD(1) [OF T s2(1)]] True
    have "copy_loop E M True t (Suc n) var tbl ev g s = copy_loop E M True t n (Some i) (tbl @ [i]) (ev + 1) g s2"
      by simp
    with True s2 s2' add show ?thesis
      by (intro exI [of _ s2]) (simp del: copy_loop.simps)
  next
    case False
    from only_badD(6) [OF B s2(1)] obtain x s3 where
      d: "on_src (fn_delete_message_from_list M (tbl @ [i])) s2 = (Inr x, s3)" by blast
    note gone = deleted [OF source_lawsD(5) [OF S] s2(1) d]
    from d False ev(2) have "note_copied M True i tbl ev g s2 = Ended (False, [], s3)"
      by (simp add: note_copied_def Let_def)
    moreover have "one_world s3" using gone by (intro target_lawsD(1) [OF T]) blast
    ultimately have "copy_loop E M True t (Suc n) var tbl ev g s = copy_loop E M True t n (Some i) [] (ev + 1) g s3"
      using n cp by (simp add: flush)
    moreover have "v_inv V s3 \<and> v_rows V s3 t = is \<and> v_kept V s3 = v_kept V s \<and> v_pending V s3 = Some (P @ [m]) \<and>
        v_held V s3 = filter (\<lambda>p. fst p \<notin> set (tbl @ [i])) (v_held V s)"
      using gone s2 s2' by (simp add: same_target_def)
    ultimately show ?thesis
      using False add by (intro exI [of _ s3]) (simp del: copy_loop.simps)
  qed
qed

lemma copy_rounds:
  assumes S: "source_laws V c M" and T: "target_laws V E" and B: "only_bad_fail V c M bad"
  shows "v_inv V s \<Longrightarrow> v_rows V s t = map fst W @ is \<Longrightarrow>
    list_all (\<lambda>(i, m). \<not> bad i \<and> map_of (v_held V s) i = Some m) W \<Longrightarrow>
    v_pending V s = Some P \<Longrightarrow> unat ev + length W < unat (events_per_transaction g) \<Longrightarrow>
    length tbl + length W = DELETE_TBL_SIZE \<Longrightarrow> W \<noteq> [] \<Longrightarrow>
    \<exists>var' s'. copy_loop E M True t (length W + n) var tbl ev g s = copy_loop E M True t n var' [] (ev + of_nat (length W)) g s' \<and>
      v_inv V s' \<and> v_rows V s' t = is \<and> v_kept V s' = v_kept V s \<and> v_pending V s' \<noteq> None \<and>
      v_held V s' = filter (\<lambda>p. fst p \<notin> set (tbl @ map fst W)) (v_held V s)"
proof (induction W arbitrary: s P ev tbl var)
  case Nil
  then show ?case by simp
next
  case (Cons p W)
  obtain i m where p: "p = (i, m)" by (rule prod.exhaust)
  let ?tbl = "if Suc (length tbl) < DELETE_TBL_SIZE then tbl @ [i] else []"
  have "\<exists>s'. copy_loop E M True t (Suc (length W + n)) var tbl ev g s =
      copy_loop E M True t (length W + n) (Some i) ?tbl (ev + 1) g s' \<and>
    v_inv V s' \<and> v_rows V s' t = map fst W @ is \<and> v_kept V s' = v_kept V s \<and> v_pending V s' = Some (P @ [m]) \<and>
    unat (ev + 1) = unat ev + 1 \<and>
    v_held V s' = (if Suc (length tbl) < DELETE_TBL_SIZE then v_held V s
      else filter (\<lambda>p. fst p \<notin> set (tbl @ [i])) (v_held V s))"
    by (rule copy_round [OF S T B Cons.prems(1)]) (use Cons.prems(2-6) p in auto)
  then obtain s' where s': "copy_loop E M True t (Suc (length W + n)) var tbl ev g s =
      copy_loop E M True t (length W + n) (Some i) ?tbl (ev + 1) g s'"
    "v_inv V s'" "v_rows V s' t = map fst W @ is" "v_kept V s' = v_kept V s" "v_pending V s' = Some (P @ [m])"
    "unat (ev + 1) = unat ev + 1"
    "v_held V s' = (if Suc (length tbl) < DELETE_TBL_SIZE then v_held V s
      else filter (\<lambda>p. fst p \<notin> set (tbl @ [i])) (v_held V s))" by blast
  show ?case
  proof (cases "W = []")
    case True
    with Cons.prems(6) have "\<not> Suc (length tbl) < DELETE_TBL_SIZE" by simp
    with s' True p show ?thesis
      by (intro exI [of _ "Some i"] exI [of _ s']) (simp del: copy_loop.simps)
  next
    case False
    with Cons.prems(6) have room: "Suc (length tbl) < DELETE_TBL_SIZE" by (cases W) auto
    have "\<exists>var' s''. copy_loop E M True t (length W + n) (Some i) (tbl @ [i]) (ev + 1) g s' =
          copy_loop E M True t n var' [] (ev + 1 + of_nat (length W)) g s'' \<and>
        v_inv V s'' \<and> v_rows V s'' t = is \<and> v_kept V s'' = v_kept V s' \<and> v_pending V s'' \<noteq> None \<and>
        v_held V s'' = filter (\<lambda>p. fst p \<notin> set ((tbl @ [i]) @ map fst W)) (v_held V s')"
      by (rule Cons.IH [OF s'(2,3) _ s'(5)]) (use Cons.prems(3,5,6) s'(6,7) room False in auto)
    with s'(1,4,7) room p show ?thesis
      by (simp del: copy_loop.simps add: add.assoc insert_commute)
  qed
qed

section \<open>The loss\<close>

lemma filter_others:
  assumes "distinct (map fst (A @ B))"
  shows "filter (\<lambda>p. fst p \<notin> set (map fst A)) (A @ B) = B"
proof -
  have "set (map fst A) \<inter> set (map fst B) = {}" using assms by simp
  then have "\<forall>p \<in> set B. fst p \<notin> set (map fst A)" by force
  then have "filter (\<lambda>p. fst p \<notin> set (map fst A)) B = B" by (simp add: filter_id_conv)
  moreover have "filter (\<lambda>p. fst p \<notin> set (map fst A)) A = []" by (simp add: filter_empty_conv)
  ultimately show ?thesis by simp
qed

text \<open>The first batch of such a move.\<close>

lemma losing_batch:
  assumes S: "source_laws V (criteria g) M" and T: "target_laws V E" and B: "only_bad_fail V (criteria g) M bad"
    and s: "v_inv V s" "v_pending V s = Some []" and held: "v_held V s = A @ (i, m) # rest"
    and A: "length A = DELETE_TBL_SIZE" "list_all (\<lambda>p. \<not> bad (fst p)) A" "bad i" "distinct (map fst (v_held V s))"
    and rows: "v_rows V s t = map fst A @ i # is" and ev: "DELETE_TBL_SIZE < unat (events_per_transaction g)"
    and k: "DELETE_TBL_SIZE + 1 < k"
  shows "\<exists>e ev' s'. copy_iterate E M True t k 0 g s = Ended (Inl e, ev', g, s') \<and> v_inv V s' \<and>
    v_pending V s' \<noteq> None \<and> v_kept V s' = v_kept V s \<and> v_held V s' = (i, m) # rest"
proof -
  have "k = length A + Suc (k - length A - 1)" using k A(1) by simp
  then obtain n where n: "k = length A + Suc n" by blast
  have listed: "list_all (\<lambda>(i, m). \<not> bad i \<and> map_of (v_held V s) i = Some m) A"
    using A(2,4) by (auto simp: list_all_iff held)
  have "A \<noteq> []" using A(1) by (auto simp: DELETE_TBL_SIZE_def)
  from copy_rounds [OF S T B s(1) rows listed s(2), of 0 g "[]" "Suc n" None] ev A(1) this
  obtain var s1 where run: "copy_loop E M True t k None [] 0 g s = copy_loop E M True t (Suc n) var [] (of_nat (length A)) g s1"
    and s1: "v_inv V s1" "v_rows V s1 t = i # is" "v_kept V s1 = v_kept V s" "v_pending V s1 \<noteq> None"
      "v_held V s1 = filter (\<lambda>p. fst p \<notin> set (map fst A)) (v_held V s)"
    by (auto simp: n simp del: copy_loop.simps)
  from next_row [OF S B s1(1,2)] obtain s2 where
    nx: "on_src (requiemdb_result_idents_get_next t) s1 = (Inr (Some (Stored (uint i))), s2)"
    and s2: "v_inv V s2" "v_held V s2 = v_held V s1" "same_target V s1 s2" by blast
  from copy_message_bad [OF S B s2(1) A(3)] obtain e s3 where
    cp: "copy_message M i s2 = (Inl e, s3)" and s3: "v_inv V s3" "same_source V s2 s3" "same_target V s2 s3" by blast
  have "copy_loop E M True t k None [] 0 g s = Ended (Returned e, [], of_nat (length A), g, s3)"
    unfolding run using nx cp by simp
  then have "copy_iterate E M True t k 0 g s = Ended (Inl e, of_nat (length A), g, s3)"
    by (simp add: copy_iterate_def)
  moreover have "v_held V s3 = (i, m) # rest"
    using s3(2) s2(2) s1(5) filter_others [of A "(i, m) # rest"] A(4) by (simp add: same_source_def held)
  ultimately show ?thesis
    using s3 s2(3) s1(3,4) by (auto simp: same_target_def)
qed

text \<open>The idents that batch fetches, and what becomes of the batch.\<close>

lemma losing_fetch:
  assumes S: "source_laws V (criteria g) M" and B: "only_bad_fail V (criteria g) M bad"
    and s: "v_inv V s" and held: "v_held V s = A @ (i, m) # rest" and A: "length A = DELETE_TBL_SIZE"
    and g: "offset g = 0" "limit_copy g < 0"
    and ev: "DELETE_TBL_SIZE < unat (events_per_transaction g)" "unat (events_per_transaction g) < 2 ^ 31"
  obtains c t "is" s1 where "on_src (fetch_message_idents_limited M True g) s = ((Inr (Suc c, Some t), g), s1)"
    "v_inv V s1" "v_held V s1 = v_held V s" "same_target V s s1" "v_rows V s1 t = map fst A @ i # is"
proof -
  have limit: "to_int (batch_limit g) = int (unat (events_per_transaction g))"
    by (rule batch_limit_unlimited [OF g(2) ev(2)])
  have off: "batch_offset True g = 0"
    using g(1) by (simp add: batch_offset_def to_int_def)
  from only_badD(1) [OF B s, of "to_int (batch_limit g)" "batch_offset True g"] obtain count res s1 where
    ids: "on_src (fn_get_message_idents M (criteria g) (to_int (batch_limit g)) (batch_offset True g) ORDER_BY_NONE) s =
      (Inr (count, res), s1)" by (metis prod.collapse)
  obtain r where r: "unat (events_per_transaction g) = DELETE_TBL_SIZE + Suc r"
    using ev(1) by (metis less_imp_Suc_add add_Suc_right)
  have page: "take (unat (events_per_transaction g)) (v_held V s) = A @ (i, m) # take r rest"
    using A by (simp add: r held)
  have "0 \<le> to_int (batch_limit g)" "0 \<le> batch_offset True g" by (simp_all add: limit off)
  from idents_found [OF source_lawsD(1) [OF S] s this ids]
  have s1: "v_inv V s1" "v_held V s1 = v_held V s" "same_target V s s1" "count = length (A @ (i, m) # take r rest)"
      "0 < count \<longrightarrow> (\<exists>t. res = Some t \<and> v_rows V s1 t = map fst (A @ (i, m) # take r rest))"
    by (simp_all add: limit off page_def page)
  obtain c where c: "count = Suc c" using s1(4) by simp
  with s1(5) obtain t where t: "res = Some t" "v_rows V s1 t = map fst A @ i # map fst (take r rest)" by auto
  have "on_src (fetch_message_idents_limited M True g) s = ((Inr (Suc c, Some t), g), s1)"
    using ids g(2) c t(1) by (simp add: on_src_fetch)
  from this s1(1-3) t(2) show ?thesis by (rule that)
qed

lemma losing_batches:
  assumes S: "source_laws V (criteria g) M" and T: "target_laws V E" and B: "only_bad_fail V (criteria g) M bad"
    and s: "v_inv V s" "v_pending V s = Some []" and held: "v_held V s = A @ (i, m) # rest"
    and A: "length A = DELETE_TBL_SIZE" "list_all (\<lambda>p. \<not> bad (fst p)) A" "bad i" "distinct (map fst (v_held V s))"
    and g: "offset g = 0" "limit_copy g < 0"
    and ev: "DELETE_TBL_SIZE < unat (events_per_transaction g)" "unat (events_per_transaction g) < 2 ^ 31"
    and k: "DELETE_TBL_SIZE + 1 < k"
  shows "\<exists>e ev' s'. copy_batches E M True k (Suc n) 0 g s = Ended (Inl e, ev', g, s') \<and> v_inv V s' \<and>
    v_pending V s' \<noteq> None \<and> v_kept V s' = v_kept V s \<and> v_held V s' = (i, m) # rest"
proof -
  obtain c t "is" s1 where f: "on_src (fetch_message_idents_limited M True g) s = ((Inr (Suc c, Some t), g), s1)"
    "v_inv V s1" "v_held V s1 = v_held V s" "same_target V s s1" "v_rows V s1 t = map fst A @ i # is"
    by (rule losing_fetch [OF S B s(1) held A(1) g ev])
  have s1: "v_pending V s1 = Some []" "v_kept V s1 = v_kept V s" "v_held V s1 = A @ (i, m) # rest"
      "distinct (map fst (v_held V s1))"
    using f(3,4) s(2) held A(4) by (simp_all add: same_target_def)
  obtain e ev' s2 where it: "copy_iterate E M True t k 0 g s1 = Ended (Inl e, ev', g, s2)" "v_inv V s2"
      "v_pending V s2 \<noteq> None" "v_kept V s2 = v_kept V s1" "v_held V s2 = (i, m) # rest"
    using losing_batch [OF S T B f(2) s1(1,3) A(1-3) s1(4) f(5) ev(1) k] by auto
  define s3 where "s3 = snd (on_src (requiemdb_result_idents_destroy t) s2)"
  have s3: "v_inv V s3" "v_held V s3 = v_held V s2" "same_target V s2 s3"
    using result_destroyed [OF source_lawsD(4) [OF S] it(2), of t] by (simp_all add: s3_def)
  have "copy_batches E M True k (Suc n) 0 g s = Ended (Inl e, ev', g, s3)"
    using f(1) it(1) by (simp add: s3_def Let_def)
  with s3 it(3-5) s1(2) show ?thesis by (auto simp: same_target_def)
qed


text \<open>A store of 1025 messages of which the last cannot be read.\<close>

lemma store_only_bad: "only_bad_fail (store_view bad) c alert_ops bad"
  by (auto simp: only_bad_fail_def store_defs requiemdb_get_alert_idents_def store_idents_def Let_def
      requiemdb_result_idents_get_next_def store_next_def requiemdb_get_alert_def store_get_def
      requiemdb_insert_message_def store_insert_def requiemdb_delete_alert_from_list_def store_delete_def
      plugin_format_delete_alert_from_list_def retn_def split: list.splits option.splits)

definition numbered_messages :: "nat \<Rightarrow> (64 word \<times> idmef_message) list" where
  "numbered_messages n = map (\<lambda>i. (of_nat i, Message_other)) [0..<n]"

lemma numbered_messages_facts:
  assumes "n < 2 ^ 64"
  shows "distinct (map fst (numbered_messages n))" "length (numbered_messages n) = n"
    "numbered_messages (Suc n) = numbered_messages n @ [(of_nat n, Message_other)]"
    "list_all (\<lambda>p. fst p \<noteq> of_nat n) (numbered_messages n)"
proof -
  have other: "(of_nat i :: 64 word) \<noteq> of_nat j" if "i < 2 ^ 64" "j < 2 ^ 64" "i \<noteq> j" for i j :: nat
    using that by (simp add: word_of_nat_eq_iff take_bit_nat_eq_self)
  show "distinct (map fst (numbered_messages n))"
  proof -
    have "inj_on (of_nat :: nat \<Rightarrow> 64 word) {0..<n}"
      by (rule inj_onI, rule ccontr) (use assms other in force)
    then show ?thesis by (simp add: numbered_messages_def distinct_map comp_def)
  qed
  show "list_all (\<lambda>p. fst p \<noteq> of_nat n) (numbered_messages n)"
    using assms other by (auto simp: numbered_messages_def list_all_iff)
qed (simp_all add: numbered_messages_def)


end
