(* ===== verification/AdminSave.thy ===== *)
theory AdminSave
  imports AdminLoss
begin

text \<open>
  Commands on one database: saving does not end when the last message cannot be read, and a
  batch of deletions that failed is committed.
\<close>

unbundle bit_operations_syntax

section \<open>A database that lists its messages\<close>

text \<open>The laws of \<open>AdminLaws\<close> for one database, on which listing does not fail.\<close>

definition lists_messages :: "'w requiemdb view \<Rightarrow> criteria option \<Rightarrow> 'w message_ops \<Rightarrow> bool" where
  "lists_messages V c M \<longleftrightarrow>
     idents_law V (\<lambda>l off. fn_get_message_idents M c l off ORDER_BY_NONE) \<and>
     next_law V requiemdb_result_idents_get_next \<and> get_law V (fn_get_message M) \<and>
     destroy_law V requiemdb_result_idents_destroy \<and>
     (\<forall>db l off. v_inv V db \<longrightarrow> (\<exists>x db'. fn_get_message_idents M c l off ORDER_BY_NONE db = (Inr x, db'))) \<and>
     (\<forall>db t. v_inv V db \<longrightarrow> (\<exists>x db'. requiemdb_result_idents_get_next t db = (Inr x, db')))"

lemma lists_messagesD:
  assumes "lists_messages V c M"
  shows "idents_law V (\<lambda>l off. fn_get_message_idents M c l off ORDER_BY_NONE)"
    "next_law V requiemdb_result_idents_get_next" "get_law V (fn_get_message M)"
    "destroy_law V requiemdb_result_idents_destroy"
    "v_inv V db \<Longrightarrow> \<exists>x db'. fn_get_message_idents M c l off ORDER_BY_NONE db = (Inr x, db')"
    "v_inv V db \<Longrightarrow> \<exists>x db'. requiemdb_result_idents_get_next t db = (Inr x, db')"
  using assms unfolding lists_messages_def by blast+

definition no_signals :: "admin \<Rightarrow> bool" where
  "no_signals g \<longleftrightarrow> \<not> stop_processing g \<and> signals g = []"

lemma look_no_signals [simp]: "no_signals g \<Longrightarrow> look_at_stop g = (False, g)"
  by (simp add: no_signals_def look_at_stop_def)

section \<open>Saving\<close>

text \<open>A message with a bad ident is passed over and not counted.\<close>

lemma save_iterate_counts:
  assumes L: "lists_messages V c M"
    and bad: "\<And>db. v_inv V db \<Longrightarrow> \<exists>e db'. fn_get_message M b db = (Inl e, db')"
  shows "v_inv V db \<Longrightarrow> v_rows V db t = W \<Longrightarrow> no_signals g \<Longrightarrow> unat (cur_count g) + length W < 2 ^ 64 \<Longrightarrow>
    length W < n \<Longrightarrow>
    \<exists>c' db' out'. save_iterate_message X M t n var g db out = Ended (g\<lparr>cur_count := c'\<rparr>, db', out') \<and>
      v_inv V db' \<and> v_held V db' = v_held V db \<and>
      unat c' \<le> unat (cur_count g) + length (filter (\<lambda>i. i \<noteq> b) W)"
proof (induction W arbitrary: db g n var out)
  case Nil
  then obtain n' where n: "n = Suc n'" by (cases n) auto
  from lists_messagesD(6) [OF L Nil.prems(1)] obtain x db' where
    nx: "requiemdb_result_idents_get_next t db = (Inr x, db')" by blast
  have "x = None"
    using next_some [OF lists_messagesD(2) [OF L] Nil.prems(1), of t _ db'] nx Nil.prems(2) by (cases x) auto
  with nx n Nil.prems(3) have "save_iterate_message X M t n var g db out = Ended (g\<lparr>cur_count := cur_count g\<rparr>, db', out)"
    by simp
  with next_none [OF lists_messagesD(2) [OF L] Nil.prems(1), of t db'] nx \<open>x = None\<close> show ?case by fastforce
next
  case (Cons i W)
  then obtain n' where n: "n = Suc n'" by (cases n) auto
  from lists_messagesD(6) [OF L Cons.prems(1)] obtain x db1 where
    nx: "requiemdb_result_idents_get_next t db = (Inr x, db1)" by blast
  have "x \<noteq> None"
    using next_none [OF lists_messagesD(2) [OF L] Cons.prems(1), of t db1] nx Cons.prems(2) by auto
  then obtain v where x: "x = Some v" by blast
  with next_some [OF lists_messagesD(2) [OF L] Cons.prems(1), of t v db1] nx Cons.prems(2)
  have db1: "v_inv V db1" "v_held V db1 = v_held V db" "v = Stored (uint i)" "v_rows V db1 t = W" by auto
  obtain r db2 where get: "fn_get_message M i db1 = (r, db2)" by (rule prod.exhaust)
  from get_ok [OF lists_messagesD(3) [OF L] db1(1) get] db1 have db2: "v_inv V db2" "v_held V db2 = v_held V db" "v_rows V db2 t = W"
    by (auto simp: same_source_def)
  have "\<exists>g' out'. save_iterate_message X M t n var g db out = save_iterate_message X M t n' (Some i) g' db2 out' \<and>
      no_signals g' \<and> (\<exists>c1. g' = g\<lparr>cur_count := c1\<rparr> \<and> unat c1 \<le> unat (cur_count g) + (if i = b then 0 else 1))"
  proof (cases r)
    case (Inl e)
    then show ?thesis
      using nx x db1(3) get n Cons.prems(3)
      by (intro exI [of _ g] exI [of _ out]) (auto intro!: exI [of _ "cur_count g"])
  next
    case (Inr m)
    with bad [OF db1(1)] get have "i \<noteq> b" by auto
    obtain w out1 where wr: "idmef_message_write X (save_msg X) m out = (w, out1)" by (rule prod.exhaust)
    define c1 where "c1 = (case w of Inl _ \<Rightarrow> cur_count g | Inr _ \<Rightarrow> cur_count g + 1)"
    have "unat (cur_count g + 1) = unat (cur_count g) + 1"
      using Cons.prems(4) by (simp add: unat_word_ariths)
    then have "unat c1 \<le> unat (cur_count g) + 1" by (simp add: c1_def split: sum.split)
    moreover have "save_iterate_message X M t n var g db out =
        save_iterate_message X M t n' (Some i) (g\<lparr>cur_count := c1\<rparr>) db2 (msgbuf_mark_end X (save_msg X) out1)"
      using nx x db1(3) get Inr n wr Cons.prems(3) by (cases w) (simp_all add: Let_def c1_def)
    ultimately show ?thesis
      using Cons.prems(3) \<open>i \<noteq> b\<close>
      by (intro exI [of _ "g\<lparr>cur_count := c1\<rparr>"] exI [of _ "msgbuf_mark_end X (save_msg X) out1"])
        (auto simp: no_signals_def)
  qed
  then obtain c1 out1 where step: "save_iterate_message X M t n var g db out =
      save_iterate_message X M t n' (Some i) (g\<lparr>cur_count := c1\<rparr>) db2 out1"
    "unat c1 \<le> unat (cur_count g) + (if i = b then 0 else 1)" by blast
  have "\<exists>c' db' out'. save_iterate_message X M t n' (Some i) (g\<lparr>cur_count := c1\<rparr>) db2 out1 =
        Ended (g\<lparr>cur_count := c1\<rparr>\<lparr>cur_count := c'\<rparr>, db', out') \<and> v_inv V db' \<and> v_held V db' = v_held V db2 \<and>
      unat c' \<le> unat (cur_count (g\<lparr>cur_count := c1\<rparr>)) + length (filter (\<lambda>i. i \<noteq> b) W)"
    by (rule Cons.IH [OF db2(1,3)]) (use Cons.prems(3-5) n step(2) in \<open>auto simp: no_signals_def split: if_splits\<close>)
  with step db2(2) show ?case by (auto simp: simp del: save_iterate_message.simps split: if_splits)
qed

lemma unread_page:
  assumes "H \<noteq> []" "fst (last H) = b" "off + c < length H" "0 < e"
  shows "take e (drop (off + c) H) \<noteq> []"
    "off + c + length (filter (\<lambda>i. i \<noteq> b) (map fst (take e (drop (off + c) H)))) < length H"
proof -
  let ?P = "take e (drop (off + c) H)"
  show "?P \<noteq> []" using assms(3,4) by simp
  show "off + c + length (filter (\<lambda>i. i \<noteq> b) (map fst ?P)) < length H"
  proof (cases "e < length H - (off + c)")
    case True
    have "length (filter (\<lambda>i. i \<noteq> b) (map fst ?P)) \<le> length (map fst ?P)" by (rule length_filter_le)
    also have "\<dots> \<le> e" by simp
    finally show ?thesis using True by linarith
  next
    case False
    then have P: "?P = drop (off + c) H" by simp
    with assms(1,3) have "last H \<in> set ?P" by (metis last_drop last_in_set drop_eq_Nil not_le)
    then have "b \<in> set (map fst ?P)" using assms(2) by auto
    then have "length (filter (\<lambda>i. i \<noteq> b) (map fst ?P)) < length (map fst ?P)"
      by (rule length_filter_less) simp
    then show ?thesis using P assms(3) by simp
  qed
qed

lemma save_batches_stuck:
  assumes L: "lists_messages V c M"
    and bad: "\<And>db. v_inv V db \<Longrightarrow> \<exists>e db'. fn_get_message M b db = (Inl e, db')"
    and H: "H \<noteq> []" "fst (last H) = b"
  shows "v_inv V db \<Longrightarrow> v_held V db = H \<Longrightarrow> criteria g = c \<Longrightarrow> no_signals g \<Longrightarrow> limit_copy g < 0 \<Longrightarrow>
    0 \<le> offset g \<Longrightarrow> offset g + int (length H) < 2 ^ 31 \<Longrightarrow> nat (offset g) + unat (cur_count g) < length H \<Longrightarrow>
    0 < unat (events_per_transaction g) \<Longrightarrow> unat (events_per_transaction g) < 2 ^ 31 \<Longrightarrow>
    unat (events_per_transaction g) < k \<Longrightarrow> save_batches X M k n g db out = Not_ended"
proof (induction n arbitrary: g db out)
  case 0
  then show ?case by simp
next
  case (Suc n)
  let ?e = "unat (events_per_transaction g)" let ?o = "nat (offset g)" let ?c = "unat (cur_count g)"
  define P where "P = take ?e (drop (?o + ?c) H)"
  note unread = unread_page [OF H Suc.prems(8) Suc.prems(9), folded P_def]
  have limit: "to_int (batch_limit g) = int ?e"
    using Suc.prems(5,10) by (simp add: batch_limit_unlimited)
  have "offset g + int ?c < 2 ^ 31"
    using Suc.prems(6-8) by linarith
  then have off: "batch_offset False g = offset g + int ?c"
    using batch_offset_copy [of g] Suc.prems(6) by simp
  from lists_messagesD(5) [OF L Suc.prems(1)] obtain count res db1 where
    ids: "fn_get_message_idents M c (int ?e) (offset g + int ?c) ORDER_BY_NONE db = (Inr (count, res), db1)"
    by (metis prod.collapse)
  have "nat (offset g + int ?c) = ?o + ?c" using Suc.prems(6) by (simp add: nat_add_distrib)
  then have page: "page (int ?e) (offset g + int ?c) H = P" by (simp add: page_def P_def)
  from idents_found [OF lists_messagesD(1) [OF L] Suc.prems(1) _ _ ids] Suc.prems(2,6) page
  have db1: "v_inv V db1" "v_held V db1 = H" "count = length P"
      "0 < count \<longrightarrow> (\<exists>t. res = Some t \<and> v_rows V db1 t = map fst P)" by simp_all
  obtain c' where c': "count = Suc c'" using db1(3) unread(1) by (cases P) auto
  with db1(4) obtain t where t: "res = Some t" "v_rows V db1 t = map fst P" by auto
  have f: "fetch_message_idents_limited M False g db = ((Inr (Suc c', Some t), g), db1)"
    using ids Suc.prems(3,5) limit off c' t(1) by (simp add: fetch_message_idents_limited_def)
  have "length P \<le> ?e" by (simp add: P_def)
  with Suc.prems(11) have small: "length (map fst P) < k" by simp
  have "length P \<le> length H" by (simp add: P_def)
  moreover have "int (length H) < 2 ^ 31" using Suc.prems(6,7) by linarith
  then have "length H < 2 ^ 31" by simp
  ultimately have room: "?c + length (map fst P) < 2 ^ 64" using Suc.prems(8) by simp
  from save_iterate_counts [OF L bad db1(1) t(2) Suc.prems(4) room small, of X None out]
  obtain c2 db2 out2 where it: "save_iterate_message X M t k None g db1 out = Ended (g\<lparr>cur_count := c2\<rparr>, db2, out2)"
    "v_inv V db2" "v_held V db2 = H" "unat c2 \<le> ?c + length (filter (\<lambda>i. i \<noteq> b) (map fst P))"
    using db1(2) by auto
  define db3 where "db3 = snd (requiemdb_result_idents_destroy t db2)"
  have db3: "v_inv V db3" "v_held V db3 = H"
    using result_destroyed [OF lists_messagesD(4) [OF L] it(2), of t] it(3) by (simp_all add: db3_def)
  have "no_signals (g\<lparr>cur_count := c2\<rparr>)" using Suc.prems(4) by (simp add: no_signals_def)
  then have "save_batches X M k (Suc n) g db out = save_batches X M k n (g\<lparr>cur_count := c2\<rparr>) db3 out2"
    using f it(1) by (simp add: db3_def)
  also have "\<dots> = Not_ended"
    by (rule Suc.IH [OF db3])
      (use Suc.prems(3-7,9-11) it(4) unread(2) \<open>no_signals (g\<lparr>cur_count := c2\<rparr>)\<close> in auto)
  finally show ?case .
qed

text \<open>C37.
  A save without limit whose last message cannot be read does not end: a message that cannot be
  read is passed over without being counted, so the next batch starts at or before it, and is
  never empty.
\<close>
theorem save_never_ends:
  assumes "lists_messages V (criteria g) M"
    and "\<And>db. v_inv V db \<Longrightarrow> \<exists>e db'. fn_get_message M b db = (Inl e, db')"
    and "v_inv V db" and "v_held V db \<noteq> []" and "fst (last (v_held V db)) = b"
    and "no_signals g" and "limit_copy g < 0" and "cur_count g = 0"
    and "0 \<le> offset g" and "nat (offset g) < length (v_held V db)"
    and "offset g + int (length (v_held V db)) < 2 ^ 31"
    and "0 < unat (events_per_transaction g)" and "unat (events_per_transaction g) < 2 ^ 31"
    and "unat (events_per_transaction g) < k"
  shows "save_batches X M k n g db out = Not_ended"
  by (rule save_batches_stuck [OF assms(1,2,4,5,3)]) (use assms in simp_all)

text \<open>A store alone, and an output that is the list of the messages written.\<close>

definition store_alone :: "(64 word \<Rightarrow> bool) \<Rightarrow> store requiemdb view" where
  "store_alone bad =
    \<lparr>v_inv = (\<lambda>db. db_plugin db = Some (store_format bad)),
     v_held = (\<lambda>db. st_source (the_store (db_sql db))), v_rows = (\<lambda>db. st_results (the_store (db_sql db))),
     v_kept = (\<lambda>db. st_kept (the_store (db_sql db))), v_pending = (\<lambda>db. st_pending (the_store (db_sql db)))\<rparr>"

lemma store_lists_messages: "lists_messages (store_alone bad) c alert_ops"
  unfolding lists_messages_def idents_law_def next_law_def get_law_def destroy_law_def
  by (intro conjI)
    (auto simp: store_alone_def store_defs requiemdb_get_alert_idents_def store_idents_def Let_def
      requiemdb_result_idents_get_next_def store_next_def requiemdb_get_alert_def store_get_def
      requiemdb_result_idents_destroy_def split: prod.splits list.splits option.splits if_splits)

lemma store_bad_unread:
  assumes "v_inv (store_alone bad) db" "bad i"
  shows "\<exists>e db'. fn_get_message alert_ops i db = (Inl e, db')"
  using assms by (auto simp: store_alone_def store_defs requiemdb_get_alert_def store_get_def split: option.splits)

definition list_output :: "(idmef_message, idmef_message list) out_io" where
  "list_output =
    \<lparr>standard_output = [], open_output = (\<lambda>_. Some []), requiem_msg_write = (\<lambda>m out. (Inr (), out @ [m])),
     idmef_message_write = (\<lambda>callback. callback), msgbuf_mark_end = (\<lambda>_. id), msgbuf_destroy = (\<lambda>_. id),
     idmef_message_print = (\<lambda>m out. out @ [m]), printf_stdout = (\<lambda>_. id)\<rparr>"

text \<open>The third of three messages cannot be read.\<close>

theorem save_never_ends_witness:
  "save_batches list_output alert_ops 1001 100 (admin_globals []) (message_store (\<lambda>i. i = 3) three_messages) [] = Not_ended"
proof -
  let ?V = "store_alone (\<lambda>i. i = 3)"
  have held: "v_held ?V (message_store (\<lambda>i. i = 3) three_messages) = three_messages"
    by (simp add: store_alone_def message_store_def the_store_def)
  have inv: "v_inv ?V (message_store (\<lambda>i. i = 3) three_messages)"
    by (simp add: store_alone_def message_store_def)
  show ?thesis
    by (rule save_never_ends [OF store_lists_messages store_bad_unread [where bad = "\<lambda>i. i = 3"] inv, where b = 3];
        (unfold held)?)
      (simp_all add: three_messages_def admin_globals_def no_signals_def)
qed

section \<open>Deleting\<close>

text \<open>The statements of the application's transaction, as the query log has them.\<close>

lemma user_end_logged:
  assumes nd: "no_disconnect E" and s: "in_transaction (db_sql db)" "connected (db_sql db)" "logfile (db_sql db) \<noteq> None"
    and run: "requiemdb_transaction_end E db = (r, db')"
  shows "logged (db_sql db') = logged (db_sql db) @ [''COMMIT''] \<and> \<not> in_transaction (db_sql db') \<and>
    connected (db_sql db') \<and> logfile (db_sql db') \<noteq> None"
proof -
  obtain r1 s1 where q: "sql_exec E ''COMMIT'' (db_sql db) = (r1, s1)" by (rule prod.exhaust)
  from run q s(1) have db': "db_sql db' = sql_enable_internal_transaction (unlock (s1\<lparr>status := status s1 AND NOT STATUS_TRANSACTION\<rparr>))"
    by (auto simp: requiemdb_transaction_end_def on_db_def sql_transaction_end_def)
  from exec_sends [OF nd s(2,3) q] s(3) show ?thesis
    by (auto simp: db' sql_enable_internal_transaction_def unlock_def connected_bit in_transaction_bit
        STATUS_TRANSACTION_def bit_and_iff bit_not_iff dest: same_frameD)
qed

lemma user_start_logged:
  assumes nd: "no_disconnect E" and s: "\<not> in_transaction (db_sql db)" "connected (db_sql db)" "logfile (db_sql db) \<noteq> None"
    and run: "requiemdb_transaction_start E db = (r, db')"
  shows "logged (db_sql db') = logged (db_sql db) @ [''BEGIN''] \<and> connected (db_sql db') \<and> logfile (db_sql db') \<noteq> None"
proof -
  obtain r1 s1 where q: "sql_exec E ''BEGIN'' (lock (db_sql db)) = (r1, s1)" by (rule prod.exhaust)
  have up: "connected (lock (db_sql db))" "logfile (lock (db_sql db)) \<noteq> None"
    using s(2,3) by (simp_all add: lock_def connected_def)
  from exec_sends [OF nd up q] up run q s(1) show ?thesis
    by (cases r1) (auto simp: requiemdb_transaction_start_def on_db_def sql_transaction_start_def Let_def lock_def
        unlock_def sql_disable_internal_transaction_def connected_bit in_transaction_bit STATUS_TRANSACTION_def
        bit_or_iff bit_1_iff dest: same_frameD split: if_splits)
qed

lemma user_abort_logged:
  assumes nd: "no_disconnect E" and s: "connected (db_sql db)" "logfile (db_sql db) \<noteq> None"
    and run: "requiemdb_transaction_abort E db = (r, db')"
  shows "logged (db_sql db') = logged (db_sql db) @ (if in_transaction (db_sql db) then [''ROLLBACK''] else [])"
proof (cases "in_transaction (db_sql db)")
  case True
  let ?s = "sql_enable_internal_transaction (db_sql db)"
  obtain r1 s1 where a: "sql_transaction_abort E (db_sql db) = (r1, s1)" by (rule prod.exhaust)
  let ?c = "(db_sql db)\<lparr>status := status (db_sql db) AND NOT STATUS_TRANSACTION\<rparr>"
  obtain r2 s2 where q: "sql_exec E ''ROLLBACK'' ?c = (r2, s2)" by (rule prod.exhaust)
  have c: "connected ?c" "logfile ?c \<noteq> None" using s by (simp_all add: status_simps)
  have verbose: "logged v = logged u" if "on_world (error_verbose k m) u = (x, v)" for k m u v and x :: "err + nat"
    using on_world_simps [OF that] by simp
  from exec_sends [OF nd c q] have "logged s2 = logged (db_sql db) @ [''ROLLBACK'']" by simp
  then have "logged s1 = logged (db_sql db) @ [''ROLLBACK'']"
    using a True c(1) q
    by (auto simp: sql_transaction_abort_def Let_def split: option.splits sum.splits prod.splits if_splits dest!: verbose)
  with True a run show ?thesis
    by (auto simp: requiemdb_transaction_abort_def on_db_def sql_enable_internal_transaction_def)
next
  case False
  with run show ?thesis
    by (auto simp: requiemdb_transaction_abort_def on_db_def sql_transaction_abort_def sql_enable_internal_transaction_def)
qed

text \<open>C38.
  A full batch of deletions that fails is committed as far as it went, counted as processed, and
  only the new, empty transaction is rolled back.
\<close>
theorem failed_deletion_committed:
  assumes "no_disconnect E" and "1 < events_per_transaction g"
    and "fetch_message_idents_limited M True g (transaction_start E g db) = ((Inr (Suc c, Some t), g1), db1)"
    and "do_delete M t k db1 = Ended (Inl e, db2)" and "snd (requiemdb_result_idents_destroy t db2) = db3"
    and "in_transaction (db_sql db3)" and "connected (db_sql db3)" and "logfile (db_sql db3) \<noteq> None"
    and "unat (events_per_transaction g) \<le> Suc c" and "Suc c < 2 ^ 32"
  shows "\<exists>g' db' tail. delete_run E M k (Suc n) g db = Ended (Inl e, g', db') \<and>
    logged (db_sql db') = logged (db_sql db3) @ ''COMMIT'' # ''BEGIN'' # tail \<and> tail \<in> {[], [''ROLLBACK'']} \<and>
    cur_count g' = cur_count g + of_nat (Suc c)"
proof -
  have g1: "events_per_transaction g1 = events_per_transaction g" "cur_count g1 = cur_count g"
    using assms(3) by (auto simp: fetch_message_idents_limited_def split: prod.splits sum.splits if_splits)
  have inc: "unat (of_nat (Suc c) :: 32 word) = Suc c"
    using assms(10) by (simp add: unat_of_nat take_bit_nat_eq_self del: of_nat_Suc)
  then have full: "events_per_transaction g1 \<le> of_nat (Suc c)"
    using assms(9) g1(1) by (simp add: word_le_nat_alt del: of_nat_Suc)
  have many: "events_per_transaction g1 \<noteq> 0" "1 < events_per_transaction g1" using assms(2) g1(1) by auto
  obtain r4 db4 where e: "requiemdb_transaction_end E db3 = (r4, db4)" by (rule prod.exhaust)
  obtain r5 db5 where b: "requiemdb_transaction_start E db4 = (r5, db5)" by (rule prod.exhaust)
  obtain r6 db6 where a: "requiemdb_transaction_abort E db5 = (r6, db6)" by (rule prod.exhaust)
  let ?g2 = "g1\<lparr>cur_count := cur_count g1 + ucast (of_nat (Suc c) :: 32 word)\<rparr>"
  have flush: "flush_transaction_if_needed E (Some 0) (of_nat (Suc c)) g1 db3 = ((Some 0, ?g2), db5)"
    using many full e b by (simp add: flush_transaction_if_needed_def Let_def del: of_nat_Suc)
  have "delete_batches E M k (Suc n) 0 g (transaction_start E g db) = Ended (Inl e, 0, ?g2, db5)"
    using assms(3-5) flush by (simp del: of_nat_Suc)
  then have run: "delete_run E M k (Suc n) g db = Ended (Inl e, ?g2, db6)"
    using many(2) a by (simp add: delete_run_def transaction_end_def del: of_nat_Suc delete_batches.simps)
  note l4 = user_end_logged [OF assms(1,6-8) e]
  then have l5: "logged (db_sql db5) = logged (db_sql db4) @ [''BEGIN''] \<and> connected (db_sql db5) \<and> logfile (db_sql db5) \<noteq> None"
    using user_start_logged [OF assms(1) _ _ _ b] by blast
  then have l6: "logged (db_sql db6) = logged (db_sql db5) @ (if in_transaction (db_sql db5) then [''ROLLBACK''] else [])"
    using user_abort_logged [OF assms(1) _ _ a] by blast
  have "ucast (of_nat (Suc c) :: 32 word) = (of_nat (Suc c) :: 64 word)"
    using inc assms(10) by (intro word_unat_eq_iff [THEN iffD2]) (simp add: unat_of_nat take_bit_nat_eq_self del: of_nat_Suc)
  then show ?thesis
    using run l4 l5 l6 g1(2) by (intro exI [of _ ?g2] exI [of _ db6]) (auto simp del: of_nat_Suc)
qed

text \<open>A store that refuses deletions, with a query log.\<close>

definition refusing_store :: "store requiemdb" where
  "refusing_store =
    (let db = message_store (\<lambda>_. False) three_messages
     in db\<lparr>db_sql := (db_sql db)\<lparr>logfile := Some Log_stdout\<rparr>,
           db_plugin := Some ((store_format (\<lambda>_. False))
             \<lparr>pf_delete_alert_from_result_idents := Some (\<lambda>_ _ s. Some (Inl (RawErr (- 1)), s))\<rparr>)\<rparr>)"

lemma no_disconnect_message_store: "no_disconnect message_store_env"
  by (simp add: no_disconnect_def message_store_env_def store_query_def null_env_def null_plugin_def
      plugin_sql_fetch_row_def plugin_sql_fetch_field_def enotsup_def)

definition two_events :: admin where
  "two_events = admin_globals []\<lparr>events_per_transaction := 2\<rparr>"

theorem failed_deletion_committed_witness:
  "\<exists>e g' db' before tail. delete_run message_store_env alert_ops 1 1 two_events refusing_store = Ended (Inl e, g', db') \<and>
    logged (db_sql db') = before @ ''COMMIT'' # ''BEGIN'' # tail \<and> tail \<in> {[], [''ROLLBACK'']} \<and> cur_count g' = 2"
proof -
  let ?f = "fetch_message_idents_limited alert_ops True two_events
    (transaction_start message_store_env two_events refusing_store)"
  have f: "fst (fst ?f) = Inr (2, Some 0)" by code_simp
  obtain g1 db1 where f1: "?f = ((Inr (2, Some 0), g1), db1)"
    using f by (metis prod.collapse)
  have d: "(case do_delete alert_ops 0 1 (snd ?f) of Ended (Inl (RawErr _), db2) \<Rightarrow>
      (let s = db_sql (snd (requiemdb_result_idents_destroy 0 db2))
       in in_transaction s \<and> connected s \<and> logfile s = Some Log_stdout) | _ \<Rightarrow> False)"
    by code_simp
  then obtain i db2 where d2: "do_delete alert_ops 0 1 db1 = Ended (Inl (RawErr i), db2)"
    "in_transaction (db_sql (snd (requiemdb_result_idents_destroy 0 db2)))"
    "connected (db_sql (snd (requiemdb_result_idents_destroy 0 db2)))"
    "logfile (db_sql (snd (requiemdb_result_idents_destroy 0 db2))) \<noteq> None"
    by (auto simp: f1 Let_def split: outcome.split_asm prod.split_asm sum.split_asm err.split_asm)
  have two: "2 = Suc 1" by simp
  have ev: "events_per_transaction two_events = 2" "cur_count two_events = 0"
    by (simp_all add: two_events_def admin_globals_def)
  show ?thesis
    using failed_deletion_committed [OF no_disconnect_message_store _ f1 [unfolded two] d2(1) refl d2(2-4), of 0] ev
    by simp blast
qed

end
