(* ===== verification/AdminLoad.thy ===== *)
theory AdminLoad
  imports AdminSave
begin

text \<open>
  How many messages a load inserts: the count asked for is compared only with the events of the
  transactions that have ended, so that it is rounded up to whole transactions.
\<close>

section \<open>What is loaded from and into\<close>

text \<open>An input of which a list of messages is left to read.\<close>

definition input_law :: "librequiem_tool \<Rightarrow> ('m, 'i) in_io \<Rightarrow> ('i \<Rightarrow> idmef_message list) \<Rightarrow> bool" where
  "input_law T X left \<longleftrightarrow> (\<forall>inp. case left inp of
       [] \<Rightarrow> \<exists>v inp'. requiem_msg_read X inp = (Inl (LibErr (error_eof T) v), inp')
     | m # ms \<Rightarrow> \<exists>x inp'. requiem_msg_read X inp = (Inr x, inp') \<and> idmef_message_read X x = Inr m \<and> left inp' = ms)"

lemma input_end:
  "input_law T X left \<Longrightarrow> left inp = [] \<Longrightarrow> \<exists>v inp'. requiem_msg_read X inp = (Inl (LibErr (error_eof T) v), inp')"
  unfolding input_law_def by (drule spec [of _ inp]) simp

lemma input_more:
  "input_law T X left \<Longrightarrow> left inp = m # ms \<Longrightarrow>
     \<exists>x inp'. requiem_msg_read X inp = (Inr x, inp') \<and> idmef_message_read X x = Inr m \<and> left inp' = ms"
  unfolding input_law_def by (drule spec [of _ inp]) simp

definition takes_messages :: "'w requiemdb view \<Rightarrow> 'w env \<Rightarrow> bool" where
  "takes_messages V E \<longleftrightarrow>
     insert_law V (\<lambda>m. requiemdb_insert_message (Some m)) \<and>
     transaction_laws V (\<lambda>db. snd (requiemdb_transaction_start E db)) (\<lambda>db. snd (requiemdb_transaction_end E db))
       (\<lambda>db. snd (requiemdb_transaction_abort E db)) \<and>
     (\<forall>db m. v_inv V db \<longrightarrow> (\<exists>n db'. requiemdb_insert_message (Some m) db = (Inr n, db')))"

lemma takes_messagesD:
  assumes "takes_messages V E"
  shows "insert_law V (\<lambda>m. requiemdb_insert_message (Some m))"
    "transaction_laws V (\<lambda>db. snd (requiemdb_transaction_start E db)) (\<lambda>db. snd (requiemdb_transaction_end E db))
       (\<lambda>db. snd (requiemdb_transaction_abort E db))"
    "v_inv V db \<Longrightarrow> \<exists>n db'. requiemdb_insert_message (Some m) db = (Inr n, db')"
  using assms unfolding takes_messages_def by blast+

section \<open>The loop over a file\<close>

text \<open>
  The messages a load still takes: \<open>e\<close> events per transaction, the limit \<open>L\<close>, \<open>c\<close> events in
  ended transactions and \<open>j\<close> in the open one.
\<close>

definition still_loaded :: "nat \<Rightarrow> int \<Rightarrow> nat \<Rightarrow> nat \<Rightarrow> nat \<Rightarrow> nat" where
  "still_loaded e L c j available =
    (if L = - 1 then available
     else if int c \<ge> L then 0
     else e * ((nat L - c + e - 1) div e) - j)"

lemma still_loaded_step:
  assumes "j < e" "L \<noteq> - 1" "\<not> int c \<ge> L"
  shows "0 < still_loaded e L c j n"
    "j + 1 < e \<Longrightarrow> still_loaded e L c (j + 1) n' = still_loaded e L c j n - 1"
    "j + 1 = e \<Longrightarrow> still_loaded e L (c + e) 0 n' = still_loaded e L c j n - 1"
proof -
  define d where "d = nat L - c"
  have d: "0 < d" "\<not> int c \<ge> L" using assms(2,3) by (simp_all add: d_def)
  have q: "e * ((d + e - 1) div e) \<ge> e"
  proof -
    have "(d + e - 1) div e \<ge> e div e" using d by (intro div_le_mono) simp
    then show ?thesis using assms(1) by simp
  qed
  have now: "still_loaded e L c j' m = e * ((d + e - 1) div e) - j'" for j' m
    using assms(2,3) by (simp only: still_loaded_def d_def if_False)
  show "0 < still_loaded e L c j n"
    unfolding now using assms(1) q by linarith
  show "still_loaded e L c (j + 1) n' = still_loaded e L c j n - 1" if "j + 1 < e"
    unfolding now by simp
  show "still_loaded e L (c + e) 0 n' = still_loaded e L c j n - 1" if e: "j + 1 = e"
  proof (cases "int (c + e) \<ge> L")
    case True
    then have "d \<le> e" using d(2) by (simp add: d_def)
    then have "(d + e - 1) div e = 1"
      using d(1) assms(1) by (intro div_nat_eqI) simp_all
    then show ?thesis unfolding now using assms(2) True e by (simp add: still_loaded_def)
  next
    case False
    then have less: "e < d" by (simp add: d_def)
    then have split: "(d + e - 1) div e = (d - e + e - 1) div e + 1"
      using assms(1) div_add_self2 [of e "d - 1"] by simp
    have "nat L - (c + e) = d - e" by (simp add: d_def)
    with False assms(2) have "still_loaded e L (c + e) 0 n' = e * ((d - e + e - 1) div e)"
      by (simp only: still_loaded_def if_False diff_zero)
    then show ?thesis unfolding now split using e by simp
  qed
qed

lemma limit_reached:
  assumes "limit g = - 1 \<or> 0 \<le> limit g" "limit g < 2 ^ 63"
  shows "limit g \<noteq> - 1 \<and> cur_count g \<ge> word_of_int (limit g) \<longleftrightarrow> limit g \<noteq> - 1 \<and> int (unat (cur_count g)) \<ge> limit g"
proof (cases "limit g = - 1")
  case False
  with assms have "uint (word_of_int (limit g) :: 64 word) = limit g"
    by (subst uint_word_of_int) (rule mod_pos_pos_trivial, auto)
  then show ?thesis by (simp add: word_le_def)
qed simp

lemma load_loop:
  assumes M: "takes_messages V E" and I: "input_law T X left"
  shows "left inp = ms \<Longrightarrow> v_inv V db \<Longrightarrow> v_pending V db = Some P \<Longrightarrow> length P = unat ev \<Longrightarrow>
    unat ev < unat (events_per_transaction g) \<Longrightarrow> no_signals g \<Longrightarrow> criteria g = None \<Longrightarrow> offset_copy g \<le> 0 \<Longrightarrow>
    limit g = - 1 \<or> 0 \<le> limit g \<Longrightarrow> limit g < 2 ^ 63 \<Longrightarrow>
    unat (cur_count g) + length P + length ms < 2 ^ 63 \<Longrightarrow> length ms < n \<Longrightarrow>
    \<exists>ev' c' db' inp' P'. load_from_file T X E n ret ev g db inp = Ended (Inr 0, ev', g\<lparr>cur_count := c'\<rparr>, db', inp') \<and>
      v_inv V db' \<and> v_pending V db' = Some P' \<and>
      v_kept V db' @ P' = v_kept V db @ P @
        take (still_loaded (unat (events_per_transaction g)) (limit g) (unat (cur_count g)) (unat ev) (length ms)) ms"
proof (induction ms arbitrary: inp db P ev g n ret)
  case Nil
  then obtain n' where n: "n = Suc n'" by (cases n) auto
  from input_end [OF I Nil.prems(1)] obtain v inp' where
    "requiem_msg_read X inp = (Inl (LibErr (error_eof T) v), inp')" by blast
  then have "load_from_file T X E n ret ev g db inp = Ended (Inr 0, ev, g\<lparr>cur_count := cur_count g\<rparr>, db, inp')"
    using n Nil.prems(6) by (simp add: do_read_message_def is_eof_def)
  then show ?case using Nil.prems(2,3) unfolding take_Nil append_Nil2 by blast
next
  case (Cons m ms)
  then obtain n' where n: "n = Suc n'" by (cases n) auto
  let ?e = "unat (events_per_transaction g)" let ?c = "unat (cur_count g)"
  let ?still = "still_loaded ?e (limit g) ?c (unat ev) (length (m # ms))"
  from input_more [OF I Cons.prems(1)] obtain x inp' where
    rd: "requiem_msg_read X inp = (Inr x, inp')" "idmef_message_read X x = Inr m" "left inp' = ms" by blast
  note limit = limit_reached [OF Cons.prems(9,10)]
  show ?case
  proof (cases "limit g \<noteq> - 1 \<and> int ?c \<ge> limit g")
    case True
    with rd(1) Cons.prems(6,8) n limit
    have "load_from_file T X E n ret ev g db inp = Ended (Inr 0, ev, g\<lparr>cur_count := cur_count g\<rparr>, db, inp')"
      by (simp add: do_read_message_def)
    moreover have "take ?still (m # ms) = []" using True by (simp add: still_loaded_def)
    ultimately show ?thesis using Cons.prems(2,3) unfolding append_Nil2 by fastforce
  next
    case False
    from takes_messagesD(3) [OF M Cons.prems(2)] obtain q db1 where
      ins: "requiemdb_insert_message (Some m) db = (Inr q, db1)" by blast
    from insert_ok [OF takes_messagesD(1) [OF M] Cons.prems(2,3) ins] have db1: "v_inv V db1" "v_kept V db1 = v_kept V db"
      "v_pending V db1 = Some (P @ [m])" by auto
    have ev: "0 < events_per_transaction g" "unat ev + unat (1 :: 32 word) < 2 ^ 32"
      using Cons.prems(5) unsigned_less [of "events_per_transaction g", where ?'a = nat]
      by (auto simp: word_less_nat_alt)
    obtain ev' c' db2 P' where fl: "flushed (\<lambda>db. snd (requiemdb_transaction_start E db))
          (\<lambda>db. snd (requiemdb_transaction_end E db)) ev 1 g db1 = (ev', g\<lparr>cur_count := c'\<rparr>, db2)"
        "v_inv V db2" "v_pending V db2 = Some P'" "v_kept V db2 @ P' = v_kept V db1 @ (P @ [m])"
        "length P' = unat ev'" "unat c' + unat ev' = ?c + length (P @ [m])"
        "length (P @ [m]) < ?e \<Longrightarrow> P' = P @ [m] \<and> c' = cur_count g" "unat ev' < ?e" "length (P @ [m]) \<ge> ?e \<Longrightarrow> P' = []"
      by (rule flushed_transaction [OF takes_messagesD(2) [OF M] db1(1,3), where ev = ev and inc = 1 and g = g])
        (use ev Cons.prems(4,11) in auto)
    have step: "load_from_file T X E n ret ev g db inp = load_from_file T X E n' q ev' (g\<lparr>cur_count := c'\<rparr>) db2 inp'"
      using rd(1,2) Cons.prems(6-8) n limit False ins fl(1)
      by (auto simp: do_read_message_def insert_matching_def flush_flushed)
    have less: "?still = Suc (still_loaded ?e (limit g) (unat c') (unat ev') (length ms))"
    proof (cases "limit g = - 1")
      case True
      then show ?thesis by (simp add: still_loaded_def)
    next
      case no_limit: False
      with False have c: "\<not> int ?c \<ge> limit g" by simp
      note still = still_loaded_step [OF Cons.prems(5) no_limit c, where n = "length (m # ms)"]
      show ?thesis
      proof (cases "unat ev + 1 < ?e")
        case True
        with fl(5,7) Cons.prems(4) have "unat ev' = unat ev + 1" "c' = cur_count g" by auto
        with still(1,2) True show ?thesis by simp
      next
        case no_room: False
        with fl(5,6,9) Cons.prems(4,5) have "unat ev' = 0" "unat c' = ?c + ?e" "unat ev + 1 = ?e" by auto
        with still(1,3) show ?thesis by simp
      qed
    qed
    have "\<exists>ev'' c'' db' inp'' P''. load_from_file T X E n' q ev' (g\<lparr>cur_count := c'\<rparr>) db2 inp' =
        Ended (Inr 0, ev'', g\<lparr>cur_count := c'\<rparr>\<lparr>cur_count := c''\<rparr>, db', inp'') \<and>
      v_inv V db' \<and> v_pending V db' = Some P'' \<and>
      v_kept V db' @ P'' = v_kept V db2 @ P' @
        take (still_loaded (unat (events_per_transaction (g\<lparr>cur_count := c'\<rparr>))) (limit (g\<lparr>cur_count := c'\<rparr>))
          (unat (cur_count (g\<lparr>cur_count := c'\<rparr>))) (unat ev') (length ms)) ms"
      by (rule Cons.IH [OF rd(3) fl(2,3)])
        (use fl(5,6,8) Cons.prems(4,6-12) n in \<open>simp_all add: no_signals_def\<close>)
    then obtain ev'' c'' db' inp'' P'' where rest: "load_from_file T X E n' q ev' (g\<lparr>cur_count := c'\<rparr>) db2 inp' =
        Ended (Inr 0, ev'', g\<lparr>cur_count := c''\<rparr>, db', inp'')" "v_inv V db'" "v_pending V db' = Some P''"
      "v_kept V db' @ P'' = v_kept V db2 @ P' @ take (still_loaded ?e (limit g) (unat c') (unat ev') (length ms)) ms"
      by auto
    have "v_kept V db' @ P'' = v_kept V db @ P @ take ?still (m # ms)"
      unfolding less
      using arg_cong [OF fl(4), of "\<lambda>y. y @ take (still_loaded ?e (limit g) (unat c') (unat ev') (length ms)) ms"]
        rest(4) db1(2) by simp
    with step rest(1-3) show ?thesis by auto
  qed
qed

text \<open>The messages skipped by the offset.\<close>

lemma load_skips:
  assumes I: "input_law T X left"
  shows "left inp = ms \<Longrightarrow> no_signals g \<Longrightarrow> 0 \<le> offset_copy g \<Longrightarrow> nat (offset_copy g) \<le> length ms \<Longrightarrow>
    \<exists>inp' r. load_from_file T X E (nat (offset_copy g) + n) ret ev g db inp =
        load_from_file T X E n r ev (g\<lparr>offset_copy := 0\<rparr>) db inp' \<and> left inp' = drop (nat (offset_copy g)) ms"
proof (induction "nat (offset_copy g)" arbitrary: g inp ms ret)
  case 0
  then have same: "g\<lparr>offset_copy := 0\<rparr> = g" and zero: "nat (offset_copy g) = 0" by simp_all
  show ?case
    unfolding same zero using 0 by (intro exI [of _ inp] exI [of _ ret]) simp
next
  case (Suc i)
  then obtain m ms' where ms: "ms = m # ms'" by (cases ms) auto
  from input_more [OF I, of inp m ms'] Suc.prems(1) ms obtain x inp' where
    rd: "requiem_msg_read X inp = (Inr x, inp')" "left inp' = ms'" by blast
  let ?g = "g\<lparr>offset_copy := offset_copy g - 1\<rparr>"
  have pos: "offset_copy g > 0" using Suc.hyps(2) by simp
  have i: "nat (offset_copy g) = Suc (nat (offset_copy ?g))" using pos by simp
  have "load_from_file T X E (nat (offset_copy g) + n) ret ev g db inp =
      load_from_file T X E (nat (offset_copy ?g) + n) 1 ev ?g db inp'"
    unfolding i using rd(1) Suc.prems(2) pos by (simp add: do_read_message_def)
  moreover have "\<exists>inp'' r. load_from_file T X E (nat (offset_copy ?g) + n) 1 ev ?g db inp' =
        load_from_file T X E n r ev (?g\<lparr>offset_copy := 0\<rparr>) db inp'' \<and> left inp'' = drop (nat (offset_copy ?g)) ms'"
    by (rule Suc.hyps(1)) (use Suc.hyps(2) Suc.prems(2-4) rd(2) ms i in \<open>auto simp: no_signals_def\<close>)
  ultimately show ?case using i ms by auto
qed

lemma load_from_offset:
  assumes I: "input_law T X left" and g: "no_signals g" "0 \<le> offset g" "nat (offset g) \<le> length (left inp)"
    and k: "nat (offset g) \<le> k"
  obtains inp' r where
    "load_from_file T X E k 0 0 (g\<lparr>offset_copy := offset g\<rparr>) db inp =
       load_from_file T X E (k - nat (offset g)) r 0 (g\<lparr>offset_copy := 0\<rparr>) db inp'"
    "left inp' = drop (nat (offset g)) (left inp)"
proof -
  let ?g = "g\<lparr>offset_copy := offset g\<rparr>"
  have "\<exists>inp' r. load_from_file T X E (nat (offset_copy ?g) + (k - nat (offset g))) 0 0 ?g db inp =
      load_from_file T X E (k - nat (offset g)) r 0 (?g\<lparr>offset_copy := 0\<rparr>) db inp' \<and>
      left inp' = drop (nat (offset_copy ?g)) (left inp)"
    by (rule load_skips [OF I refl]) (use g in \<open>simp_all add: no_signals_def\<close>)
  moreover have "offset_copy ?g = offset g" "?g\<lparr>offset_copy := 0\<rparr> = g\<lparr>offset_copy := 0\<rparr>"
    "nat (offset g) + (k - nat (offset g)) = k" using k by simp_all
  ultimately show ?thesis using that by (simp only:) blast
qed

section \<open>The command\<close>


text \<open>An input that is the list of its messages, and a store that takes them.\<close>

definition list_input :: "(string \<Rightarrow> idmef_message list option) \<Rightarrow> (idmef_message, idmef_message list) in_io" where
  "list_input files =
    \<lparr>standard_input = [], open_input = files,
     requiem_msg_read = (\<lambda>inp. case inp of [] \<Rightarrow> (Inl (LibErr 1 False), []) | m # ms \<Rightarrow> (Inr m, ms)),
     idmef_message_read = Inr\<rparr>"

definition plain_tool :: librequiem_tool where
  "plain_tool =
    \<lparr>option_read = (\<lambda>_ _. retn 1), idmef_criteria_new_from_string = (\<lambda>_. Inl (RawErr (- 1))),
     idmef_criteria_match = (\<lambda>_ _. 1), error_eof = 1\<rparr>"

lemma list_input_law: "input_law plain_tool (list_input files) id"
  by (auto simp: input_law_def list_input_def plain_tool_def split: list.split)

definition store_taking :: "store requiemdb view" where
  "store_taking = (store_alone (\<lambda>_. False))
    \<lparr>v_inv := (\<lambda>db. db_plugin db = Some (store_format (\<lambda>_. False)) \<and> connected (db_sql db) \<and>
        in_transaction (db_sql db) = (st_pending (the_store (db_sql db)) \<noteq> None))\<rparr>"

lemma store_takes_messages: "takes_messages store_taking message_store_env"
  unfolding takes_messages_def
proof (intro conjI)
  let ?V = store_taking
  show "insert_law ?V (\<lambda>m. requiemdb_insert_message (Some m))"
    by (auto simp: insert_law_def store_taking_def store_alone_def store_defs requiemdb_insert_message_def
        store_insert_def split: prod.splits)
  show "\<forall>db m. v_inv ?V db \<longrightarrow> (\<exists>n db'. requiemdb_insert_message (Some m) db = (Inr n, db'))"
    by (auto simp: store_taking_def store_defs requiemdb_insert_message_def store_insert_def)
  show "transaction_laws ?V (\<lambda>db. snd (requiemdb_transaction_start message_store_env db))
      (\<lambda>db. snd (requiemdb_transaction_end message_store_env db)) (\<lambda>db. snd (requiemdb_transaction_abort message_store_env db))"
    unfolding transaction_laws_def
  proof (intro conjI allI impI; (elim conjE)?)
    fix db
    assume "v_inv ?V db" "v_pending ?V db = None"
    with store_transaction(1) [of db]
    show "v_inv ?V (snd (requiemdb_transaction_start message_store_env db))"
      "same_source ?V db (snd (requiemdb_transaction_start message_store_env db))"
      "v_kept ?V (snd (requiemdb_transaction_start message_store_env db)) = v_kept ?V db"
      "v_pending ?V (snd (requiemdb_transaction_start message_store_env db)) = Some []"
      by (auto simp: store_taking_def store_alone_def store_defs store_query_def)
  next
    fix db P
    assume "v_inv ?V db" "v_pending ?V db = Some P"
    with store_transaction(2) [of db]
    show "v_inv ?V (snd (requiemdb_transaction_end message_store_env db))"
      "same_source ?V db (snd (requiemdb_transaction_end message_store_env db))"
      "v_kept ?V (snd (requiemdb_transaction_end message_store_env db)) = v_kept ?V db @ P"
      "v_pending ?V (snd (requiemdb_transaction_end message_store_env db)) = None"
      by (auto simp: store_taking_def store_alone_def store_defs store_query_def)
  next
    fix db P
    assume "v_inv ?V db" "v_pending ?V db = Some P"
    with store_transaction(3) [of db]
    show "v_inv ?V (snd (requiemdb_transaction_abort message_store_env db))"
      "same_source ?V db (snd (requiemdb_transaction_abort message_store_env db))"
      "v_kept ?V (snd (requiemdb_transaction_abort message_store_env db)) = v_kept ?V db"
      "v_pending ?V (snd (requiemdb_transaction_abort message_store_env db)) = None"
      by (auto simp: store_taking_def store_alone_def store_defs store_query_def)
  qed
qed


end
