(* ===== verification/Spec2Isabelle.thy ===== *)
theory Spec2Isabelle
  imports RequiemDb AlertRoundtrip PluginTexts PluginSession PluginRecovery VersionCheck AdminLoad
begin

text \<open>
  A model of librequiemdb, the library that stores IDMEF messages (alerts and heartbeats of an
  intrusion detection system) in SQL databases, reads them back, answers queries about them and
  deletes them.  The C sources under \<open>src/\<close> are translated function by function; the theorems
  state what makes the parts correct, alone and together.

  \<^bold>\<open>The program.\<close>  A caller opens a database object (\<open>requiemdb.c\<close>) on an SQL connection
  (\<open>requiemdb-sql.c\<close>).  The object dispatches to a format plugin, which knows how messages are
  laid out in tables; there is one, the classic format (\<open>plugins/format/classic\<close>).  The classic
  plugin turns messages into INSERT statements, idents into SELECT and DELETE statements, and paths
  and criteria into joins, select lists and WHERE texts, and sends all of them through the SQL
  connection.  The connection keeps its status bits, a recursive lock, the transaction and the log of
  queries, reconnects when it has to, and calls an SQL plugin (\<open>requiemdb-plugin-sql.c\<close>): MySQL,
  PostgreSQL or SQLite (\<open>plugins/sql\<close>), each over the client library of its server.  The
  administration program (\<open>requiemdb-admin.c\<close>) is a client of the database object: its commands
  copy, move, delete, save, load, print and count the messages of databases, in batches and
  transactions of a number of events.

  \<^bold>\<open>Conventions.\<close>  An operation is a function from a state to a result and a state
  (\<open>('s, err, 'a) cop\<close>).  A negative return value is \<open>Inl\<close> of an error, anything else
  \<open>Inr\<close>.  What C leaves undefined has no value but a marker: \<open>NullDeref\<close> (a call or an access
  through NULL), \<open>UndefinedValue\<close> (a variable that was not set, a number outside its type, a read
  outside a buffer, a failed assertion), \<open>DoubleFree\<close>.  Integers wrap where the code relies on it
  or suffers from it (\<open>size_t\<close> sizes, \<open>int\<close> and narrower fields, the \<open>char\<close> index of
  \<open>get_process_arg\<close>).  Appending to a string and allocating succeed.  Code outside \<open>src/\<close> is an
  argument: the record \<open>env\<close> of \<open>SqlConn\<close> holds the functions of librequiem and of the C
  library that are used, \<open>plugin_sql\<close> the functions of a back end, \<open>mysql_lib\<close>,
  \<open>pq_lib\<close> and \<open>sqlite_lib\<close> those of the client libraries, and the world of a connection
  (\<open>'w world\<close>) is a type parameter.  The trace of what was sent to the server is the query log of
  the connection (\<open>logged\<close>, with \<open>logfile\<close> set), as the code writes it.

  \<^bold>\<open>The theories.\<close>
  \<^item> \<open>CPrelude\<close>: C strings, decimal numbers, the state-and-error operations and their lemmas;
    \<open>Librequiem\<close>: the values librequiem hands over (paths, criteria, times, enumerations);
    \<open>IdmefMessage\<close>: IDMEF messages as records and datatypes.
  \<^item> \<open>DbError\<close> (\<open>requiemdb-error.c\<close>), \<open>SqlSettings\<close> (\<open>requiemdb-sql-settings.c\<close>),
    \<open>PathSelection\<close> (\<open>requiemdb-path-selection.c\<close>), \<open>VersionCheck\<close>
    (\<open>requiemdb-version.c\<close>): the parsers and tables without a connection, with round trips for
    settings strings and selected paths, and the bounds of their buffers.
  \<^item> \<open>SqlPlugin\<close> (\<open>requiemdb-plugin-sql.c\<close>): the function table of a back end, the dispatchers
    and their defaults.  \<open>SqlConn\<close>, \<open>SqlFields\<close>, \<open>SqlCriteria\<close>
    (\<open>requiemdb-sql.c\<close>): connection, query, transactions, escaping; result tables and typed
    fields; criteria on values.  \<open>SqlSession\<close> has the step relation of a connection with the
    invariants of lock and transaction, \<open>SqlBracket\<close> the locale \<open>sql_client\<close> of operations
    that run between BEGIN and COMMIT or ROLLBACK.
  \<^item> \<open>ClassicSelect\<close>, \<open>ClassicJoin\<close>, \<open>ClassicResolve\<close>: the three builders of a query
    (\<open>classic-sql-select.c\<close>, \<open>classic-sql-join.c\<close>, \<open>classic-path-resolve.c\<close>);
    \<open>ClassicQuery\<close> (\<open>classic.c\<close>): idents, values, schema version; \<open>ClassicDelete\<close>
    (\<open>classic-delete.c\<close>).
  \<^item> \<open>ClassicInsertParts\<close>, \<open>ClassicInsert\<close> (\<open>classic-insert.c\<close>), with
    \<open>ClassicStored\<close> on the rows an insertion sends; \<open>ClassicGetParts\<close>, \<open>ClassicGet\<close>
    (\<open>classic-get.c\<close>), with \<open>ClassicReading\<close> on the statements reading sends.
  \<^item> \<open>SqlStore\<close>, \<open>SqlReads\<close>: a database as a multiset of rows with the laws of INSERT, SELECT,
    MAX, COUNT and the escape functions, all of them hypotheses on the plugin (\<open>sql_database\<close>);
    the judgements \<open>writes\<close> and \<open>reads\<close>.  \<open>StoredRows\<close> and \<open>AlertRows\<close>: the rows
    a heartbeat and an alert become, one function per table and object.  \<open>ReadBack\<close>,
    \<open>AlertReads\<close>, \<open>AlertParts\<close> and \<open>AlertKinds\<close>: which object each function of
    \<open>classic-get.c\<close> makes of these rows.  \<open>MessageIdents\<close>: idents, the message row, the
    transaction around it.  \<open>HeartbeatBack\<close>, \<open>AlertBack\<close> and \<open>AlertRoundtrip\<close>: that
    reading the ident of an inserted message gives the message back.
    \<open>MiniSql\<close> and \<open>MiniDatabase\<close> interpret the statements of the library and meet the laws, so
    the hypotheses can hold.
  \<^item> \<open>PluginFormat\<close> (\<open>requiemdb-plugin-format.c\<close>) and \<open>RequiemDb\<close> (\<open>requiemdb.c\<close>):
    the database object over the classic plugin.
  \<^item> \<open>PluginBase\<close>, \<open>PluginMysql\<close>, \<open>PluginPgsql\<close>, \<open>PluginSqlite3\<close>
    (\<open>plugins/sql\<close>); \<open>PluginTexts\<close> compares the texts they build, \<open>PluginRows\<close> and
    \<open>PluginListing\<close> hold the locale \<open>result_cursor\<close> of a result read row by row, \<open>PluginSession\<close>
    the results SQLite keeps, \<open>PluginRecovery\<close> the return of a lost MySQL server.
  \<^item> \<open>AdminTool\<close>, \<open>AdminCommands\<close>, \<open>AdminMain\<close> (\<open>requiemdb-admin.c\<close>): the global
    variables as a record, options, batches and transactions; the commands; \<open>main\<close>.  A run is
    an \<open>outcome\<close>: it ends, needs more rounds than its bound, or comes to freed or unset memory.
    A signal may arrive before any look at \<open>stop_processing\<close>.  \<open>AdminLaws\<close> states what the
    commands rely on as laws over a \<open>view\<close> of the two databases (what the source holds and a
    result still yields, what the destination has stored and its transaction added), which leave open
    what operations fail; \<open>AdminBatch\<close> follows one batch, \<open>AdminCopy\<close> a whole copy or move,
    \<open>AdminLoss\<close>, \<open>AdminSave\<close> and \<open>AdminLoad\<close> the moves, saves, deletions and loads that do
    something else than they mean to.  \<open>AdminStore\<close> is a format plugin over lists that meets the laws.

  \<^bold>\<open>What the theorems show.\<close>  Inserting a message sends one transaction whose rows the deletion
  of its kind removes; inserting a heartbeat or an alert and reading it gives the message, up to what
  the tables can hold, and keeps every older row.  Between the start and the end of a user's transaction the library sends no transaction
  statement of its own.  Reading and querying send SELECT statements only.  The lock is held exactly
  inside transactions as long as no connection is lost, and never released too often; a lost server is
  reported and reconnected to.  Criteria mean their WHERE text, LIKE patterns the substring patterns,
  select lists match the columns that are read, LIMIT clauses the rows asked for.  Settings, selected
  paths, timestamps, integers and binary data survive their round trips.  Results of the PostgreSQL
  and SQLite plugins are read in order and given back.  A copy stores the first messages of the
  source and tells the offset to resume at, whatever fails; a move with transactions smaller than its
  table loses nothing.  Where the code does something else than it
  means to, a theorem states what it does: the connection that loses its transaction, the result that
  is read for ever, the rows whose refusal is not reported, the large move that loses messages, the
  save that does not end, the failed deletion that is committed, the count of a load.

  \<^bold>\<open>Bounds and fuel.\<close>  Loops over lists and strings are structural recursion.  Loops over the
  rows of a result, the steps of a statement and the idents of a result take a bound on their rounds
  and give \<open>NotEnded\<close> (or \<open>None\<close>) beyond it; the theorems that they return take any bound above
  the number of rows, and the loops that do not end are shown not to for every bound.  The commands of
  the administration program take a bound \<open>k\<close> on the rounds of a batch, enough above the events of
  a transaction (a batch has no more idents), and a bound \<open>n\<close> on the batches, enough above the
  number of messages (a batch that is not the last has one at least).

  \<^bold>\<open>Not modelled.\<close>  Memory management, reference counts and the lists that own rows and fields,
  except where a pointer is freed twice or used before it is set.  The times in the query log, and
  the statistics and help texts of the administration program, which are output only; reading its
  options and encoding messages is done by librequiem.  \<open>libmissing\<close> (gnulib), the bindings, the schema scripts and the build files.
\<close>

end
